(* ===== verification/Prelude.thy ===== *)
theory Prelude
  imports Complex_Main "HOL-Library.AList" "HOL-Library.Char_ord" "HOL-Library.List_Lexorder"
    "HOL-Library.Product_Lexorder"
begin

text \<open>
  Shared vocabulary of the development: Python values and exceptions, dictionaries as
  association lists in insertion order, list indexing and slicing with negative indices,
  the selection functions \<open>min\<close> and \<open>max\<close> with a key, the error monad, and the JSON
  writer of the standard library.  Strings are HOL strings, so a character stands for a
  Python code point below 256.  Floats are finite and held as their exact rational value.
\<close>

named_theorems dict_simps \<open>lookup after update and delete on dictionaries\<close>
named_theorems err_simps \<open>simplification of the error monad\<close>

subsection \<open>Exceptions and results\<close>

datatype exn =
    HTTPException int string
  | MalformedRequestError string
  | ValueError string
  | RuntimeError string
  | KeyError string
  | TypeError string
  | AssertionError string
  | IndexError string
  | OtherException string string
  | BaseExc string

text \<open>\<open>OtherException\<close> carries the class name and the message of any other
  \<open>Exception\<close>; \<open>BaseExc\<close> is a control-flow exception (\<open>CancelledError\<close>, \<open>SystemExit\<close>).\<close>

type_synonym 'a result = "exn + 'a"

fun rbind :: "'a result \<Rightarrow> ('a \<Rightarrow> 'b result) \<Rightarrow> 'b result" where
  "rbind (Inl e) f = Inl e"
| "rbind (Inr x) f = f x"

lemma rbind_cong [fundef_cong]:
  "r = r' \<Longrightarrow> (\<And>x. r' = Inr x \<Longrightarrow> f x = g x) \<Longrightarrow> rbind r f = rbind r' g"
  by (cases r') auto

lemma rbind_Inr_iff [err_simps]: "rbind r f = Inr y \<longleftrightarrow> (\<exists>x. r = Inr x \<and> f x = Inr y)"
  by (cases r) auto

lemma rbind_Inl_iff [err_simps]:
  "rbind r f = Inl e \<longleftrightarrow> r = Inl e \<or> (\<exists>x. r = Inr x \<and> f x = Inl e)"
  by (cases r) auto

definition raise_unless :: "bool \<Rightarrow> exn \<Rightarrow> unit result" where
  "raise_unless b e = (if b then Inr () else Inl e)"

lemma raise_unless_Inr [err_simps]: "raise_unless b e = Inr u \<longleftrightarrow> b"
  by (simp add: raise_unless_def)

lemma raise_unless_Inl [err_simps]: "raise_unless b e = Inl e' \<longleftrightarrow> \<not> b \<and> e' = e"
  by (auto simp: raise_unless_def)

lemma raise_unless_True [simp]: "raise_unless True e = Inr ()"
  by (simp add: raise_unless_def)

lemma raise_unless_False [simp]: "raise_unless False e = Inl e"
  by (simp add: raise_unless_def)

text \<open>A list comprehension whose element expression may raise: the first error wins.\<close>

fun rmap :: "('a \<Rightarrow> 'b result) \<Rightarrow> 'a list \<Rightarrow> 'b list result" where
  "rmap f [] = Inr []"
| "rmap f (x # xs) = rbind (f x) (\<lambda>y. rbind (rmap f xs) (\<lambda>ys. Inr (y # ys)))"

lemma rmap_cong [fundef_cong]:
  "xs = ys \<Longrightarrow> (\<And>x. x \<in> set ys \<Longrightarrow> f x = g x) \<Longrightarrow> rmap f xs = rmap g ys"
  by (induction ys arbitrary: xs) auto

lemma rmap_Inr_iff: "rmap f xs = Inr ys \<longleftrightarrow> list_all2 (\<lambda>x y. f x = Inr y) xs ys"
  by (induction xs arbitrary: ys) (auto simp: err_simps list_all2_Cons1)

lemma rmap_length: "rmap f xs = Inr ys \<Longrightarrow> length ys = length xs"
  by (auto simp: rmap_Inr_iff dest: list_all2_lengthD)

lemma rmap_Inr_set: "rmap f xs = Inr ys \<Longrightarrow> y \<in> set ys \<Longrightarrow> \<exists>x \<in> set xs. f x = Inr y"
  by (auto simp: rmap_Inr_iff list_all2_conv_all_nth in_set_conv_nth) (metis nth_mem)

lemma rmap_total: "(\<And>x. x \<in> set xs \<Longrightarrow> f x = Inr (g x)) \<Longrightarrow> rmap f xs = Inr (map g xs)"
  by (induction xs) auto

subsection \<open>Python values\<close>

datatype pv =
    PNone
  | PBool bool
  | PInt int
  | PFloat rat
  | PStr string
  | PList "pv list"
  | PDict "(string \<times> pv) list"

type_synonym dict = "(string \<times> pv) list"

fun is_str :: "pv \<Rightarrow> bool" where
  "is_str (PStr _) = True"
| "is_str _ = False"

fun is_list :: "pv \<Rightarrow> bool" where
  "is_list (PList _) = True"
| "is_list _ = False"

fun is_dict :: "pv \<Rightarrow> bool" where
  "is_dict (PDict _) = True"
| "is_dict _ = False"

text \<open>\<open>bool(v)\<close>: the empty string, list and dictionary, zero, \<open>None\<close> and \<open>False\<close> are false.\<close>

fun truthy :: "pv \<Rightarrow> bool" where
  "truthy PNone = False"
| "truthy (PBool b) = b"
| "truthy (PInt i) = (i \<noteq> 0)"
| "truthy (PFloat r) = (r \<noteq> 0)"
| "truthy (PStr s) = (s \<noteq> [])"
| "truthy (PList xs) = (xs \<noteq> [])"
| "truthy (PDict d) = (d \<noteq> [])"

text \<open>The numeric value of a bool, int or float.\<close>

fun num_val :: "pv \<Rightarrow> rat option" where
  "num_val (PBool b) = Some (if b then 1 else 0)"
| "num_val (PInt i) = Some (of_int i)"
| "num_val (PFloat r) = Some r"
| "num_val _ = None"

fun type_name :: "pv \<Rightarrow> string" where
  "type_name PNone = ''NoneType''"
| "type_name (PBool _) = ''bool''"
| "type_name (PInt _) = ''int''"
| "type_name (PFloat _) = ''float''"
| "type_name (PStr _) = ''str''"
| "type_name (PList _) = ''list''"
| "type_name (PDict _) = ''dict''"

text \<open>
  \<open>==\<close> on values: numbers compare by value across their types, dictionaries compare as
  maps (the order of the keys does not matter).
\<close>

fun py_eq :: "pv \<Rightarrow> pv \<Rightarrow> bool"
  and py_eq_list :: "pv list \<Rightarrow> pv list \<Rightarrow> bool"
  and py_eq_entries :: "dict \<Rightarrow> dict \<Rightarrow> bool"
where
  "py_eq PNone y = (y = PNone)"
| "py_eq (PBool b) y = (num_val y = Some (if b then 1 else 0))"
| "py_eq (PInt i) y = (num_val y = Some (of_int i))"
| "py_eq (PFloat r) y = (num_val y = Some r)"
| "py_eq (PStr s) y = (y = PStr s)"
| "py_eq (PList xs) y = (case y of PList ys \<Rightarrow> py_eq_list xs ys | _ \<Rightarrow> False)"
| "py_eq (PDict d) y =
     (case y of PDict e \<Rightarrow> length d = length e \<and> py_eq_entries d e | _ \<Rightarrow> False)"
| "py_eq_list [] ys = (ys = [])"
| "py_eq_list (x # xs) ys = (case ys of [] \<Rightarrow> False | y # ys' \<Rightarrow> py_eq x y \<and> py_eq_list xs ys')"
| "py_eq_entries [] e = True"
| "py_eq_entries ((k, v) # d) e =
     ((case map_of e k of None \<Rightarrow> False | Some w \<Rightarrow> py_eq v w) \<and> py_eq_entries d e)"

subsection \<open>Dictionaries\<close>

abbreviation dget :: "(string \<times> 'v) list \<Rightarrow> string \<Rightarrow> 'v option" where
  "dget d k \<equiv> map_of d k"

abbreviation dset :: "(string \<times> 'v) list \<Rightarrow> string \<Rightarrow> 'v \<Rightarrow> (string \<times> 'v) list" where
  "dset d k v \<equiv> AList.update k v d"

abbreviation dpop :: "(string \<times> 'v) list \<Rightarrow> string \<Rightarrow> (string \<times> 'v) list" where
  "dpop d k \<equiv> AList.delete k d"

definition dget_or :: "(string \<times> 'v) list \<Rightarrow> string \<Rightarrow> 'v \<Rightarrow> 'v" where
  "dget_or d k v = (case dget d k of None \<Rightarrow> v | Some w \<Rightarrow> w)"

definition dhas :: "(string \<times> 'v) list \<Rightarrow> string \<Rightarrow> bool" where
  "dhas d k \<longleftrightarrow> dget d k \<noteq> None"

text \<open>\<open>d.update(e)\<close> and \<open>{**d, **e}\<close>: the entries of \<open>e\<close> are stored in order.\<close>

definition dupdate :: "(string \<times> 'v) list \<Rightarrow> (string \<times> 'v) list \<Rightarrow> (string \<times> 'v) list" where
  "dupdate d e = foldl (\<lambda>acc (k, v). dset acc k v) d e"

lemma dget_dset [simp, dict_simps]: "dget (dset d k v) k' = (if k' = k then Some v else dget d k')"
  by (simp add: update_conv' split: if_splits)

lemma dget_dpop [simp, dict_simps]: "dget (dpop d k) k' = (if k' = k then None else dget d k')"
  by (simp add: delete_conv' split: if_splits)

lemma dget_dupdate_other: "k \<notin> fst ` set e \<Longrightarrow> dget (dupdate d e) k = dget d k"
  unfolding dupdate_def by (induction e arbitrary: d) (auto split: prod.splits)

lemma dget_dupdate [dict_simps]:
  "distinct (map fst e) \<Longrightarrow>
     dget (dupdate d e) k = (case dget e k of None \<Rightarrow> dget d k | Some v \<Rightarrow> Some v)"
proof (induction e arbitrary: d)
  case Nil
  then show ?case by (simp add: dupdate_def)
next
  case (Cons kv e)
  obtain k0 v0 where kv: "kv = (k0, v0)" by (cases kv)
  have "dupdate d (kv # e) = dupdate (dset d k0 v0) e"
    by (simp add: dupdate_def kv)
  moreover have "k0 \<notin> fst ` set e" using Cons.prems kv by simp
  hence "dget e k0 = None" by (simp add: map_of_eq_None_iff)
  ultimately show ?case using Cons.IH [of "dset d k0 v0"] Cons.prems kv
    by (auto split: option.splits)
qed

lemma dset_keys_distinct [simp]: "distinct (map fst (dset d k v)) = distinct (map fst d)"
  by (induction d) (auto simp: AList.update_keys split: if_splits)

lemma dpop_keys_distinct [simp]: "distinct (map fst d) \<Longrightarrow> distinct (map fst (dpop d k))"
  by (rule AList.distinct_delete)

lemma dhas_dset [simp]: "dhas (dset d k v) k' \<longleftrightarrow> k' = k \<or> dhas d k'"
  by (simp add: dhas_def)

text \<open>\<open>dict(v)\<close> on a value: a dictionary is copied, a list of key/value pairs is read in order.\<close>

fun pairs_to_dict :: "pv list \<Rightarrow> dict \<Rightarrow> dict result" where
  "pairs_to_dict [] acc = Inr acc"
| "pairs_to_dict (PList [PStr k, v] # xs) acc = pairs_to_dict xs (dset acc k v)"
| "pairs_to_dict (x # xs) acc =
     Inl (TypeError ''cannot convert dictionary update sequence'')"

fun py_dict :: "pv \<Rightarrow> dict result" where
  "py_dict (PDict d) = Inr d"
| "py_dict (PList xs) = pairs_to_dict xs []"
| "py_dict (PStr []) = Inr []"
| "py_dict (PStr (c # cs)) = Inl (ValueError ''dictionary update sequence element'')"
| "py_dict v = Inl (TypeError (type_name v @ '' object is not iterable''))"

subsection \<open>Lists: indexing, slicing, selection\<close>

text \<open>\<open>xs[i:]\<close> with a possibly negative \<open>i\<close>.\<close>

definition py_from :: "int \<Rightarrow> 'a list \<Rightarrow> 'a list" where
  "py_from i xs =
     (if i < 0 then drop (nat (max 0 (int (length xs) + i))) xs else drop (nat i) xs)"

text \<open>\<open>del xs[i:]\<close> keeps the elements before the slice.\<close>

definition py_del_from :: "int \<Rightarrow> 'a list \<Rightarrow> 'a list" where
  "py_del_from i xs =
     (if i < 0 then take (nat (max 0 (int (length xs) + i))) xs else take (nat i) xs)"

lemma py_del_from_app: "py_del_from i xs @ py_from i xs = xs"
  by (simp add: py_del_from_def py_from_def)

lemma py_from_nat [simp]: "py_from (int n) xs = drop n xs"
  by (simp add: py_from_def)

lemma py_del_from_nat [simp]: "py_del_from (int n) xs = take n xs"
  by (simp add: py_del_from_def)

lemma length_py_from_le: "length (py_from i xs) \<le> length xs"
  by (simp add: py_from_def)

text \<open>\<open>xs[i]\<close> with a possibly negative index.\<close>

definition py_index :: "'a list \<Rightarrow> int \<Rightarrow> 'a result" where
  "py_index xs i =
     (let j = (if i < 0 then int (length xs) + i else i)
      in if 0 \<le> j \<and> j < int (length xs) then Inr (xs ! nat j)
         else Inl (IndexError ''list index out of range''))"

text \<open>\<open>max(xs, key=f)\<close> and \<open>min(xs, key=f)\<close>: the first element with an extremal key.\<close>

fun max_key :: "('a \<Rightarrow> 'k::linorder) \<Rightarrow> 'a \<Rightarrow> 'a list \<Rightarrow> 'a" where
  "max_key f b [] = b"
| "max_key f b (x # xs) = max_key f (if f b < f x then x else b) xs"

fun min_key :: "('a \<Rightarrow> 'k::linorder) \<Rightarrow> 'a \<Rightarrow> 'a list \<Rightarrow> 'a" where
  "min_key f b [] = b"
| "min_key f b (x # xs) = min_key f (if f x < f b then x else b) xs"

lemma max_key_in: "max_key f b xs \<in> insert b (set xs)"
  by (induction f b xs rule: max_key.induct) auto

lemma max_key_ge: "y \<in> insert b (set xs) \<Longrightarrow> f y \<le> f (max_key f b xs)"
proof (induction f b xs arbitrary: y rule: max_key.induct)
  case (1 f b)
  then show ?case by simp
next
  case (2 f b x xs)
  let ?m = "if f b < f x then x else b"
  have m: "f ?m \<le> f (max_key f ?m xs)" by (rule "2.IH") simp
  from "2.prems" consider "y = b \<or> y = x" | "y \<in> set xs" by auto
  then show ?case
  proof cases
    case 1
    then have "f y \<le> f ?m" by auto
    from order_trans [OF this m] show ?thesis by simp
  next
    case 2
    then have "f y \<le> f (max_key f ?m xs)" by (intro "2.IH") simp
    then show ?thesis by simp
  qed
qed

lemma min_key_in: "min_key f b xs \<in> insert b (set xs)"
  by (induction f b xs rule: min_key.induct) auto

lemma min_key_le: "y \<in> insert b (set xs) \<Longrightarrow> f (min_key f b xs) \<le> f y"
proof (induction f b xs arbitrary: y rule: min_key.induct)
  case (1 f b)
  then show ?case by simp
next
  case (2 f b x xs)
  let ?m = "if f x < f b then x else b"
  have m: "f (min_key f ?m xs) \<le> f ?m" by (rule "2.IH") simp
  from "2.prems" consider "y = b \<or> y = x" | "y \<in> set xs" by auto
  then show ?case
  proof cases
    case 1
    then have "f ?m \<le> f y" by auto
    from order_trans [OF m this] show ?thesis by simp
  next
    case 2
    then have "f (min_key f ?m xs) \<le> f y" by (intro "2.IH") simp
    then show ?thesis by simp
  qed
qed

lemma sum_list_replicate_1 [simp]: "sum_list (replicate n (1::int)) = int n"
  by (simp add: sum_list_replicate)

lemma sum_list_replicate_0 [simp]: "sum_list (replicate n (0::int)) = 0"
  by (simp add: sum_list_replicate)

subsection \<open>Text\<close>

fun join :: "string \<Rightarrow> string list \<Rightarrow> string" where
  "join sep [] = []"
| "join sep [s] = s"
| "join sep (s # t # ss) = s @ sep @ join sep (t # ss)"

definition startswith :: "string \<Rightarrow> string \<Rightarrow> bool" where
  "startswith s p \<longleftrightarrow> take (length p) s = p"

definition endswith :: "string \<Rightarrow> string \<Rightarrow> bool" where
  "endswith s p \<longleftrightarrow> length p \<le> length s \<and> drop (length s - length p) s = p"

lemma startswith_iff: "startswith s p \<longleftrightarrow> (\<exists>t. s = p @ t)"
  unfolding startswith_def by (metis append_eq_conv_conj append_take_drop_id)

lemma endswith_iff: "endswith s p \<longleftrightarrow> (\<exists>t. s = t @ p)"
proof
  assume "endswith s p"
  then show "\<exists>t. s = t @ p"
    unfolding endswith_def by (metis append_take_drop_id)
next
  assume "\<exists>t. s = t @ p"
  then show "endswith s p" by (auto simp: endswith_def)
qed

definition nl :: string where
  "nl = [char_of (10::nat)]"

text \<open>Decimal representation, \<open>str(n)\<close>.\<close>

definition digit_char :: "nat \<Rightarrow> char" where
  "digit_char d = char_of (48 + d)"

fun str_of_nat :: "nat \<Rightarrow> string" where
  "str_of_nat n =
     (if n < 10 then [digit_char n] else str_of_nat (n div 10) @ [digit_char (n mod 10)])"

declare str_of_nat.simps [simp del]

definition str_of_int :: "int \<Rightarrow> string" where
  "str_of_int i = (if i < 0 then ''-'' @ str_of_nat (nat (- i)) else str_of_nat (nat i))"

text \<open>\<open>str.lower\<close> on the ASCII letters.\<close>

definition lower_char :: "char \<Rightarrow> char" where
  "lower_char c = (if 65 \<le> (of_char c :: nat) \<and> (of_char c :: nat) \<le> 90
                   then char_of ((of_char c :: nat) + 32) else c)"

definition lower :: "string \<Rightarrow> string" where
  "lower s = map lower_char s"

subsection \<open>The JSON writer\<close>

text \<open>
  \<open>json.dumps(v, sort_keys=True, separators=(",", ":"), ensure_ascii=False)\<close>.  The
  shortest decimal form of a float is a parameter, \<open>frepr\<close>.
\<close>

definition hex_digit :: "nat \<Rightarrow> char" where
  "hex_digit d = (if d < 10 then char_of (48 + d) else char_of (87 + d))"

definition json_char :: "char \<Rightarrow> string" where
  "json_char c =
     (let n = (of_char c :: nat) in
      if n = 34 then [char_of (92::nat), char_of (34::nat)]
      else if n = 92 then [char_of (92::nat), char_of (92::nat)]
      else if n = 10 then [char_of (92::nat), CHR ''n'']
      else if n = 13 then [char_of (92::nat), CHR ''r'']
      else if n = 9 then [char_of (92::nat), CHR ''t'']
      else if n = 12 then [char_of (92::nat), CHR ''f'']
      else if n = 8 then [char_of (92::nat), CHR ''b'']
      else if n < 32 then char_of (92::nat) # ''u00'' @ [hex_digit (n div 16), hex_digit (n mod 16)]
      else [c])"

definition json_str :: "string \<Rightarrow> string" where
  "json_str s = [char_of (34::nat)] @ concat (map json_char s) @ [char_of (34::nat)]"

fun dumps :: "(rat \<Rightarrow> string) \<Rightarrow> pv \<Rightarrow> string"
  and dumps_list :: "(rat \<Rightarrow> string) \<Rightarrow> pv list \<Rightarrow> string list"
  and dumps_entries :: "(rat \<Rightarrow> string) \<Rightarrow> dict \<Rightarrow> (string \<times> string) list"
where
  "dumps fr PNone = ''null''"
| "dumps fr (PBool b) = (if b then ''true'' else ''false'')"
| "dumps fr (PInt i) = str_of_int i"
| "dumps fr (PFloat r) = fr r"
| "dumps fr (PStr s) = json_str s"
| "dumps fr (PList xs) = ''['' @ join '','' (dumps_list fr xs) @ '']''"
| "dumps fr (PDict d) =
     ''{'' @ join '','' (map (\<lambda>(k, s). json_str k @ '':'' @ s) (sort_key fst (dumps_entries fr d))) @ ''}''"
| "dumps_list fr [] = []"
| "dumps_list fr (x # xs) = dumps fr x # dumps_list fr xs"
| "dumps_entries fr [] = []"
| "dumps_entries fr ((k, v) # d) = (k, dumps fr v) # dumps_entries fr d"

text \<open>The same value up to the order of dictionary entries, at every level.\<close>

fun same_json :: "pv \<Rightarrow> pv \<Rightarrow> bool"
  and same_json_list :: "pv list \<Rightarrow> pv list \<Rightarrow> bool"
  and same_json_entries :: "dict \<Rightarrow> dict \<Rightarrow> bool"
where
  "same_json (PList xs) y = (case y of PList ys \<Rightarrow> same_json_list xs ys | _ \<Rightarrow> False)"
| "same_json (PDict d) y =
     (case y of
        PDict e \<Rightarrow> distinct (map fst d) \<and> distinct (map fst e) \<and> length d = length e \<and>
                   same_json_entries d e
      | _ \<Rightarrow> False)"
| "same_json x y = (x = y)"
| "same_json_list [] ys = (ys = [])"
| "same_json_list (x # xs) ys =
     (case ys of [] \<Rightarrow> False | y # ys' \<Rightarrow> same_json x y \<and> same_json_list xs ys')"
| "same_json_entries [] e = True"
| "same_json_entries ((k, v) # d) e =
     ((case map_of e k of None \<Rightarrow> False | Some w \<Rightarrow> same_json v w) \<and> same_json_entries d e)"

lemma map_fst_dumps_entries [simp]: "map fst (dumps_entries fr d) = map fst d"
  by (induction d) auto

lemma dumps_entries_map: "dumps_entries fr d = map (\<lambda>(k, v). (k, dumps fr v)) d"
  by (induction d) auto

lemma sort_key_fst_unique:
  assumes "set xs = set ys" "distinct (map fst xs)" "distinct (map fst ys)"
  shows "sort_key (fst :: 'k::linorder \<times> 'v \<Rightarrow> 'k) xs = sort_key fst ys"
proof (rule map_sorted_distinct_set_unique [where f = fst])
  show "inj_on fst (set (sort_key fst xs) \<union> set (sort_key fst ys))"
    using assms by (auto simp: distinct_map)
  show "distinct (map fst (sort_key fst xs))" "distinct (map fst (sort_key fst ys))"
    using assms by (simp_all add: distinct_map)
  show "set (sort_key fst xs) = set (sort_key fst ys)" using assms by simp
qed simp_all

lemma same_length_subset_eq:
  assumes "set xs \<subseteq> set ys" "distinct xs" "distinct ys" "length xs = length ys"
  shows "set xs = set ys"
  using assms by (metis card_subset_eq distinct_card finite_set)

lemma dumps_same_json:
  "same_json v w \<Longrightarrow> dumps fr v = dumps fr w"
  "same_json_list xs ys \<Longrightarrow> dumps_list fr xs = dumps_list fr ys"
  "same_json_entries d e \<Longrightarrow> set (dumps_entries fr d) \<subseteq> set (dumps_entries fr e)"
proof (induction v w and xs ys and d e rule: same_json_same_json_list_same_json_entries.induct)
  case (2 d y)
  then obtain e where y: "y = PDict e" and dd: "distinct (map fst d)" and de: "distinct (map fst e)"
    and len: "length d = length e" and en: "same_json_entries d e"
    by (cases y) auto
  have sub: "set (dumps_entries fr d) \<subseteq> set (dumps_entries fr e)"
    by (rule "2.IH") (use y dd de len en in auto)
  have dist: "distinct (map fst (dumps_entries fr d))" "distinct (map fst (dumps_entries fr e))"
    using dd de by simp_all
  have "distinct (dumps_entries fr d)" "distinct (dumps_entries fr e)"
    using dist by (simp_all only: distinct_map)
  then have "set (dumps_entries fr d) = set (dumps_entries fr e)"
    by (rule same_length_subset_eq [OF sub]) (simp add: len dumps_entries_map)
  then have "sort_key fst (dumps_entries fr d) = sort_key fst (dumps_entries fr e)"
    using dist by (rule sort_key_fst_unique)
  then show ?case using y by simp
next
  case (7 k v d e)
  then obtain w where w: "map_of e k = Some w" "same_json v w" by (auto split: option.splits)
  then have "(k, dumps fr w) \<in> set (dumps_entries fr e)"
    by (force simp: dumps_entries_map dest: map_of_SomeD)
  with 7 w show ?case by auto
qed (auto split: pv.splits list.splits option.splits)

text \<open>\<open>str.encode("utf-8")\<close> of code points below 256.\<close>

definition utf8_char :: "char \<Rightarrow> string" where
  "utf8_char c =
     (let n = (of_char c :: nat) in
      if n < 128 then [c] else [char_of (192 + n div 64), char_of (128 + n mod 64)])"

definition utf8 :: "string \<Rightarrow> string" where
  "utf8 s = concat (map utf8_char s)"

subsection \<open>Whitespace, \<open>str\<close> and \<open>repr\<close>\<close>

definition is_space :: "char \<Rightarrow> bool" where
  "is_space c = (let n = (of_char c :: nat) in
     (9 \<le> n \<and> n \<le> 13) \<or> (28 \<le> n \<and> n \<le> 32) \<or> n = 133 \<or> n = 160)"

definition lstrip :: "string \<Rightarrow> string" where
  "lstrip s = dropWhile is_space s"

definition rstrip :: "string \<Rightarrow> string" where
  "rstrip s = rev (dropWhile is_space (rev s))"

definition strip :: "string \<Rightarrow> string" where
  "strip s = rstrip (lstrip s)"

definition quote1 :: char where "quote1 = char_of (39::nat)"
definition quote2 :: char where "quote2 = char_of (34::nat)"
definition backslash :: char where "backslash = char_of (92::nat)"

definition repr_char :: "char \<Rightarrow> char \<Rightarrow> string" where
  "repr_char q c =
     (let n = (of_char c :: nat) in
      if c = q \<or> c = backslash then [backslash, c]
      else if n = 10 then [backslash, CHR ''n''] else if n = 13 then [backslash, CHR ''r'']
      else if n = 9 then [backslash, CHR ''t'']
      else if n < 32 \<or> n = 173 \<or> (127 \<le> n \<and> n \<le> 160)
      then backslash # CHR ''x'' # [hex_digit (n div 16), hex_digit (n mod 16)]
      else [c])"

definition repr_str :: "string \<Rightarrow> string" where
  "repr_str s =
     (let q = (if quote1 \<in> set s \<and> quote2 \<notin> set s then quote2 else quote1)
      in q # concat (map (repr_char q) s) @ [q])"

fun py_repr :: "(rat \<Rightarrow> string) \<Rightarrow> pv \<Rightarrow> string"
  and repr_items :: "(rat \<Rightarrow> string) \<Rightarrow> pv list \<Rightarrow> string list"
  and repr_entries :: "(rat \<Rightarrow> string) \<Rightarrow> dict \<Rightarrow> string list"
where
  "py_repr fr PNone = ''None''"
| "py_repr fr (PBool b) = (if b then ''True'' else ''False'')"
| "py_repr fr (PInt i) = str_of_int i"
| "py_repr fr (PFloat r) = fr r"
| "py_repr fr (PStr s) = repr_str s"
| "py_repr fr (PList xs) = ''['' @ join '', '' (repr_items fr xs) @ '']''"
| "py_repr fr (PDict d) = ''{'' @ join '', '' (repr_entries fr d) @ ''}''"
| "repr_items fr [] = []"
| "repr_items fr (x # xs) = py_repr fr x # repr_items fr xs"
| "repr_entries fr [] = []"
| "repr_entries fr ((k, v) # d) = (repr_str k @ '': '' @ py_repr fr v) # repr_entries fr d"

text \<open>\<open>str(v)\<close>, as used by f-strings.\<close>

definition py_str :: "(rat \<Rightarrow> string) \<Rightarrow> pv \<Rightarrow> string" where
  "py_str fr v = (case v of PStr s \<Rightarrow> s | _ \<Rightarrow> py_repr fr v)"

text \<open>\<open>json.dumps(v, ensure_ascii=False)\<close>: entries in insertion order.\<close>

fun json_text :: "(rat \<Rightarrow> string) \<Rightarrow> pv \<Rightarrow> string"
  and json_items :: "(rat \<Rightarrow> string) \<Rightarrow> pv list \<Rightarrow> string list"
  and json_entries :: "(rat \<Rightarrow> string) \<Rightarrow> dict \<Rightarrow> string list"
where
  "json_text fr PNone = ''null''"
| "json_text fr (PBool b) = (if b then ''true'' else ''false'')"
| "json_text fr (PInt i) = str_of_int i"
| "json_text fr (PFloat r) = fr r"
| "json_text fr (PStr s) = json_str s"
| "json_text fr (PList xs) = ''['' @ join '', '' (json_items fr xs) @ '']''"
| "json_text fr (PDict d) = ''{'' @ join '', '' (json_entries fr d) @ ''}''"
| "json_items fr [] = []"
| "json_items fr (x # xs) = json_text fr x # json_items fr xs"
| "json_entries fr [] = []"
| "json_entries fr ((k, v) # d) = (json_str k @ '': '' @ json_text fr v) # json_entries fr d"

subsection \<open>Invariants of transition systems\<close>

text \<open>
  The contract between a component's steps and its invariant; what it gives is that the
  invariant holds in every state a run can reach.
\<close>

locale invariant_system =
  fixes initial :: "'s \<Rightarrow> bool" and step :: "'s \<Rightarrow> 's \<Rightarrow> bool" and inv :: "'s \<Rightarrow> bool"
  assumes initial_inv: "initial s \<Longrightarrow> inv s"
    and step_inv: "inv s \<Longrightarrow> step s s' \<Longrightarrow> inv s'"
begin

lemma run_inv: "step\<^sup>*\<^sup>* s s' \<Longrightarrow> inv s \<Longrightarrow> inv s'"
  by (induction rule: rtranclp_induct) (auto intro: step_inv)

lemma reach_inv: "initial s \<Longrightarrow> step\<^sup>*\<^sup>* s s' \<Longrightarrow> inv s'"
  by (rule run_inv [OF _ initial_inv])

end

subsection \<open>Keyed stores\<close>

text \<open>
  What a component relies on when it keeps its entries in a dictionary, and how the number of
  entries with a given value moves.
\<close>

locale keyed_store =
  fixes lookup :: "'m \<Rightarrow> 'k \<Rightarrow> 'v option" and store :: "'m \<Rightarrow> 'k \<Rightarrow> 'v \<Rightarrow> 'm" and drop_key :: "'m \<Rightarrow> 'k \<Rightarrow> 'm"
  assumes lookup_store: "lookup (store m k v) k' = (if k' = k then Some v else lookup m k')"
    and lookup_drop: "lookup (drop_key m k) k' = (if k' = k then None else lookup m k')"
    and finite_keys: "finite {k. lookup m k \<noteq> None}"
begin

definition holding :: "'m \<Rightarrow> 'v \<Rightarrow> 'k set" where
  "holding m v = {k. lookup m k = Some v}"

lemma finite_holding: "finite (holding m v)"
  by (rule finite_subset [OF _ finite_keys [of m]]) (auto simp: holding_def)

lemma holding_store_fresh:
  "lookup m k = None \<Longrightarrow> card (holding (store m k v) w) = card (holding m w) + (if v = w then 1 else 0)"
proof -
  assume n: "lookup m k = None"
  have "holding (store m k v) w = (if v = w then insert k (holding m w) else holding m w)"
    using n by (auto simp: holding_def lookup_store)
  moreover have "k \<notin> holding m w" using n by (simp add: holding_def)
  ultimately show ?thesis using finite_holding by simp
qed

lemma holding_drop:
  "lookup m k = Some v \<Longrightarrow> card (holding m w) = card (holding (drop_key m k) w) + (if v = w then 1 else 0)"
proof -
  assume s: "lookup m k = Some v"
  have "holding m w = (if v = w then insert k (holding (drop_key m k) w) else holding (drop_key m k) w)"
    using s by (auto simp: holding_def lookup_drop)
  moreover have "k \<notin> holding (drop_key m k) w" by (simp add: holding_def lookup_drop)
  ultimately show ?thesis using finite_holding by simp
qed

end

interpretation dict_store: keyed_store
  "map_of :: ('k \<times> 'v) list \<Rightarrow> 'k \<Rightarrow> 'v option" "\<lambda>m k v. AList.update k v m" "\<lambda>m k. AList.delete k m"
proof
  fix m :: "('k \<times> 'v) list"
  show "finite {k. map_of m k \<noteq> None}" using finite_dom_map_of [of m] by (simp add: dom_def)
qed (simp_all add: update_conv' delete_conv')

end
