(* ===== verification/Codec.thy ===== *)
theory Codec
  imports Prelude
begin

text \<open>
  The model-scoped message codec, \<open>gateway/session/codec.py\<close>, with the generation-prompt and
  turn-separator probes it runs at construction.  The tokenizer, the processor, the chat
  template, the tool-parser back ends and SHA-256 are third-party code: they are the function
  fields of the record \<open>codec\<close>.  The parser cache of the codec is threaded as an
  association list.
\<close>

subsection \<open>Parameters and state\<close>

type_synonym fcall = "string \<times> pv"

datatype parser_obj =
    SglParser "string \<Rightarrow> bool" "string \<Rightarrow> (string \<times> fcall list) result"
  | VllmParser "string \<Rightarrow> pv list \<Rightarrow> (bool \<times> string option \<times> fcall list) result"
  | VerlParser "int list \<Rightarrow> pv list \<Rightarrow> (string \<times> fcall list) result"

type_synonym parser_cache = "(string list \<times> parser_obj) list"

type_synonym media = "pv list option"

record codec =
  cd_encode :: "string \<Rightarrow> int list"
  cd_decode :: "int list \<Rightarrow> bool \<Rightarrow> string"
  cd_template :: "dict list \<Rightarrow> pv list option \<Rightarrow> bool \<Rightarrow> string result"
  cd_processor :: "(string \<Rightarrow> media \<Rightarrow> media \<Rightarrow> media \<Rightarrow> int list result) option"
  cd_vision :: "dict list \<Rightarrow> (media \<times> media) result"
  cd_generation_prompt :: "int list"
  cd_turn_separator :: "int list"
  cd_tool_parser_name :: "string option"
  cd_rollout_backend :: "string option"
  cd_sgl_make :: "pv list \<Rightarrow> string \<Rightarrow> parser_obj result"
  cd_vllm_tool :: "pv \<Rightarrow> pv result"
  cd_vllm_make :: "pv list \<Rightarrow> string \<Rightarrow> parser_obj result"
  cd_verl_make :: "string \<Rightarrow> parser_obj result"
  cd_verl_schema :: "pv \<Rightarrow> pv result"
  cd_loads :: "string \<Rightarrow> pv option"
  cd_frepr :: "rat \<Rightarrow> string"
  cd_sha256 :: "string \<Rightarrow> string"

definition FINISH_REASON_MAP :: "(string \<times> string) list" where
  "FINISH_REASON_MAP =
    [(''completed'', ''stop''), (''stop'', ''stop''), (''matched_stop'', ''stop''),
     (''eos'', ''stop''), (''length'', ''length''), (''max_tokens'', ''length''),
     (''aborted'', ''stop''), (''abort'', ''stop'')]"

definition SGLANG_TOOL_PARSER_ALIASES :: "(string \<times> string) list" where
  "SGLANG_TOOL_PARSER_ALIASES = [(''qwen3_xml'', ''qwen3_coder'')]"

definition VLLM_TOOL_PARSER_ALIASES :: "(string \<times> string) list" where
  "VLLM_TOOL_PARSER_ALIASES =
    [(''qwen'', ''qwen3_xml''), (''qwen25'', ''qwen3_xml''), (''qwen3'', ''qwen3_xml'')]"

definition canonical_tools_hash :: "codec \<Rightarrow> pv list \<Rightarrow> string" where
  "canonical_tools_hash cd tools = cd_sha256 cd (utf8 (dumps (cd_frepr cd) (PList tools)))"

subsection \<open>Construction-time probes\<close>

text \<open>
  The two renders of an empty user turn, without and with the generation prompt, are the
  arguments.
\<close>

definition initialize_generation_prompt :: "int list result \<Rightarrow> int list result \<Rightarrow> int list result" where
  "initialize_generation_prompt without_r with_r =
     rbind without_r (\<lambda>without. rbind with_r (\<lambda>with_gp.
       if take (length without) with_gp \<noteq> without
       then Inl (ValueError ''Generation prompt is not a stable token suffix'')
       else Inr (drop (length without) with_gp)))"

text \<open>
  \<open>render as_parts filled\<close> is the tokenised user turn in string or list-of-parts form, with
  body empty or \<open>x\<close>; \<open>eos\<close> the end-of-sequence ids.
\<close>

fun common_run :: "int list \<Rightarrow> int list \<Rightarrow> nat" where
  "common_run (x # xs) (y # ys) = (if x = y then Suc (common_run xs ys) else 0)"
| "common_run _ _ = 0"

definition probe_pair :: "(bool \<Rightarrow> bool \<Rightarrow> int list result) \<Rightarrow> bool \<Rightarrow> (int list \<times> int list) option" where
  "probe_pair render as_parts =
     (case (render as_parts False, render as_parts True) of
        (Inr e, Inr f) \<Rightarrow> Some (e, f) | _ \<Rightarrow> None)"

definition last_index :: "('a \<Rightarrow> bool) \<Rightarrow> 'a list \<Rightarrow> nat option" where
  "last_index p xs = (if \<exists>x \<in> set xs. p x
     then Some (length xs - Suc (length (takeWhile (\<lambda>x. \<not> p x) (rev xs)))) else None)"

definition initialize_turn_separator :: "(bool \<Rightarrow> bool \<Rightarrow> int list result) \<Rightarrow> int list \<Rightarrow> int list" where
  "initialize_turn_separator render eos =
     (case (case probe_pair render False of Some p \<Rightarrow> Some p | None \<Rightarrow> probe_pair render True) of
        None \<Rightarrow> []
      | Some (unfilled, filled) \<Rightarrow>
          (let i = common_run (rev unfilled) (rev filled);
               suffix = drop (length unfilled - i) unfilled
           in if suffix = [] then []
              else case last_index (\<lambda>t. t \<in> set eos) suffix of
                     Some k \<Rightarrow> drop (Suc k) suffix
                   | None \<Rightarrow> drop 1 suffix))"

subsection \<open>Prompt encoding\<close>

definition multi_modal_types :: "string list" where
  "multi_modal_types = [''image'', ''image_url'', ''video'', ''video_url'']"

text \<open>A list or dictionary under \<open>type\<close> is unhashable, so the set membership test raises.\<close>

fun scan_parts :: "pv list \<Rightarrow> bool result" where
  "scan_parts [] = Inr False"
| "scan_parts (p # ps) =
     (case p of
        PDict d \<Rightarrow>
          (case dget d ''type'' of
             Some (PStr t) \<Rightarrow> if t \<in> set multi_modal_types then Inr True else scan_parts ps
           | Some (PList _) \<Rightarrow> Inl (TypeError ''unhashable type: list'')
           | Some (PDict _) \<Rightarrow> Inl (TypeError ''unhashable type: dict'')
           | _ \<Rightarrow> scan_parts ps)
      | _ \<Rightarrow> scan_parts ps)"

fun scan_messages :: "dict list \<Rightarrow> bool result" where
  "scan_messages [] = Inr False"
| "scan_messages (m # ms) =
     (case dget m ''content'' of
        Some (PList ps) \<Rightarrow> rbind (scan_parts ps) (\<lambda>b. if b then Inr True else scan_messages ms)
      | _ \<Rightarrow> scan_messages ms)"

definition extract_multi_modal_data :: "codec \<Rightarrow> dict list \<Rightarrow> (media \<times> media) result" where
  "extract_multi_modal_data cd messages =
     (case cd_processor cd of
        None \<Rightarrow> Inr (None, None)
      | Some _ \<Rightarrow> rbind (scan_messages messages)
          (\<lambda>b. if b then cd_vision cd messages else Inr (None, None)))"

text \<open>\<open>zip(*videos, strict=False)\<close> unpacked into the videos and their metadata.\<close>

fun video_fields :: "pv \<Rightarrow> pv list" where
  "video_fields (PList xs) = xs"
| "video_fields v = []"

definition unzip_videos :: "pv list \<Rightarrow> (pv list \<times> pv list) result" where
  "unzip_videos vids =
     (let rows = map video_fields vids in
      if rows \<noteq> [] \<and> (\<forall>r \<in> set rows. 2 \<le> length r) \<and> (\<exists>r \<in> set rows. length r = 2)
      then Inr (map (\<lambda>r. r ! 0) rows, map (\<lambda>r. r ! 1) rows)
      else Inl (ValueError ''cannot unpack videos''))"

definition encode_prompt_text :: "codec \<Rightarrow> string \<Rightarrow> media \<Rightarrow> media \<Rightarrow> int list result" where
  "encode_prompt_text cd prompt image_data video_data =
     (case cd_processor cd of
        None \<Rightarrow> Inr (cd_encode cd prompt)
      | Some proc \<Rightarrow>
          (case video_data of
             None \<Rightarrow> proc prompt image_data None None
           | Some vids \<Rightarrow> rbind (unzip_videos vids)
               (\<lambda>(videos, metas). proc prompt image_data (Some videos) (Some metas))))"

definition encode_full :: "codec \<Rightarrow> dict list \<Rightarrow> pv list option \<Rightarrow> media \<Rightarrow> media \<Rightarrow> int list result" where
  "encode_full cd messages tools image_data video_data =
     rbind (cd_template cd messages tools True)
       (\<lambda>raw_prompt. encode_prompt_text cd raw_prompt image_data video_data)"

definition anchor_message :: "codec \<Rightarrow> dict" where
  "anchor_message cd =
     [(''role'', PStr ''user''),
      (''content'', if cd_processor cd \<noteq> None
                    then PList [PDict [(''type'', PStr ''text''), (''text'', PStr [])]]
                    else PStr [])]"

definition is_role :: "string \<Rightarrow> dict \<Rightarrow> bool" where
  "is_role r m \<longleftrightarrow> dget m ''role'' = Some (PStr r)"

definition incremental_prefix :: "codec \<Rightarrow> string \<Rightarrow> string result" where
  "incremental_prefix cd anchor_prompt =
     (if cd_turn_separator cd = [] then Inr anchor_prompt
      else let separator_text = cd_decode cd (cd_turn_separator cd) False in
           if separator_text = [] \<or> \<not> endswith anchor_prompt separator_text
           then Inl (ValueError ''Turn separator is not a stable text suffix'')
           else Inr (take (length anchor_prompt - length separator_text) anchor_prompt))"

definition encode_incremental :: "codec \<Rightarrow> dict list \<Rightarrow> media \<Rightarrow> media \<Rightarrow> int list result" where
  "encode_incremental cd messages image_data video_data =
     (if messages = [] then Inr []
      else if \<exists>m \<in> set (tl messages). is_role ''assistant'' m
      then Inl (ValueError ''An incremental assistant message may only appear first'')
      else
        rbind (cd_template cd [anchor_message cd] None False) (\<lambda>anchor_prompt.
        rbind (cd_template cd (anchor_message cd # messages) None True) (\<lambda>full_prompt.
        rbind (incremental_prefix cd anchor_prompt) (\<lambda>prefix_prompt.
          if \<not> startswith full_prompt prefix_prompt
          then Inl (ValueError ''Incremental chat template is not prefix-stable'')
          else encode_prompt_text cd (drop (length prefix_prompt) full_prompt)
                 image_data video_data))))"

subsection \<open>Tool-call extraction with the parser cache\<close>

definition run_sgl :: "parser_obj \<Rightarrow> string \<Rightarrow> (string \<times> fcall list) result" where
  "run_sgl p text =
     (case p of
        SglParser has_tool_call parse_non_stream \<Rightarrow>
          if \<not> has_tool_call text then Inr (text, []) else parse_non_stream text
      | _ \<Rightarrow> Inl (OtherException ''AttributeError'' ''has_tool_call''))"

definition process_tool_calls_sglang ::
  "codec \<Rightarrow> parser_cache \<Rightarrow> string \<Rightarrow> pv list \<Rightarrow> string \<Rightarrow> parser_cache \<times> (string \<times> fcall list) result" where
  "process_tool_calls_sglang cd cache text tools parser_name =
     (let cache_key = [''sglang'', parser_name, canonical_tools_hash cd tools] in
      case map_of cache cache_key of
        Some parser \<Rightarrow> (cache, run_sgl parser text)
      | None \<Rightarrow>
          (case cd_sgl_make cd tools parser_name of
             Inl e \<Rightarrow> (cache, Inl e)
           | Inr parser \<Rightarrow> (AList.update cache_key parser cache, run_sgl parser text)))"

definition run_vllm :: "parser_obj \<Rightarrow> string \<Rightarrow> pv list \<Rightarrow> (string \<times> fcall list) result" where
  "run_vllm p text vllm_tools =
     (case p of
        VllmParser extract \<Rightarrow>
          rbind (extract text vllm_tools) (\<lambda>(tools_called, content, calls).
            if \<not> tools_called then Inr (text, [])
            else Inr (case content of None \<Rightarrow> [] | Some c \<Rightarrow> c, calls))
      | _ \<Rightarrow> Inl (OtherException ''AttributeError'' ''extract_tool_calls''))"

definition vllm_tool :: "codec \<Rightarrow> pv \<Rightarrow> pv result" where
  "vllm_tool cd tool = (if is_dict tool then cd_vllm_tool cd tool else Inr tool)"

definition process_tool_calls_vllm ::
  "codec \<Rightarrow> parser_cache \<Rightarrow> string \<Rightarrow> pv list \<Rightarrow> string \<Rightarrow> parser_cache \<times> (string \<times> fcall list) result" where
  "process_tool_calls_vllm cd cache text tools parser_name =
     (let cache_key = [''vllm'', parser_name, canonical_tools_hash cd tools] in
      case rmap (vllm_tool cd) tools of
        Inl e \<Rightarrow> (cache, Inl e)
      | Inr vllm_tools \<Rightarrow>
          (case map_of cache cache_key of
             Some parser \<Rightarrow> (cache, run_vllm parser text vllm_tools)
           | None \<Rightarrow>
               (case cd_vllm_make cd vllm_tools parser_name of
                  Inl e \<Rightarrow> (cache, Inl e)
                | Inr parser \<Rightarrow>
                    (AList.update cache_key parser cache, run_vllm parser text vllm_tools))))"

definition run_verl :: "codec \<Rightarrow> parser_obj \<Rightarrow> int list \<Rightarrow> pv list \<Rightarrow> (string \<times> fcall list) result" where
  "run_verl cd p response_ids tools =
     rbind (rmap (cd_verl_schema cd) tools) (\<lambda>tool_schemas.
       case p of
         VerlParser extract \<Rightarrow> extract response_ids tool_schemas
       | _ \<Rightarrow> Inl (OtherException ''AttributeError'' ''extract_tool_calls''))"

definition process_tool_calls_verl ::
  "codec \<Rightarrow> parser_cache \<Rightarrow> int list \<Rightarrow> pv list \<Rightarrow> string \<Rightarrow> parser_cache \<times> (string \<times> fcall list) result" where
  "process_tool_calls_verl cd cache response_ids tools parser_name =
     (let cache_key = [''verl'', parser_name] in
      case map_of cache cache_key of
        Some parser \<Rightarrow> (cache, run_verl cd parser response_ids tools)
      | None \<Rightarrow>
          (case cd_verl_make cd parser_name of
             Inl e \<Rightarrow> (cache, Inl e)
           | Inr parser \<Rightarrow>
               (AList.update cache_key parser cache, run_verl cd parser response_ids tools)))"

definition is_exception :: "exn \<Rightarrow> bool" where
  "is_exception e = (case e of BaseExc _ \<Rightarrow> False | _ \<Rightarrow> True)"

definition resolve_alias :: "(string \<times> string) list \<Rightarrow> string \<Rightarrow> string" where
  "resolve_alias m n = dget_or m n n"

definition parser_backend :: "codec \<Rightarrow> string" where
  "parser_backend cd =
     (case cd_rollout_backend cd of
        Some b \<Rightarrow> if b \<in> {''sglang'', ''vllm''} then b else ''verl''
      | None \<Rightarrow> ''verl'')"

definition extract_tool_calls ::
  "codec \<Rightarrow> parser_cache \<Rightarrow> int list \<Rightarrow> pv list \<Rightarrow> string \<Rightarrow> parser_cache \<times> (string \<times> fcall list) result" where
  "extract_tool_calls cd cache response_ids tools parser_name =
     (let text = cd_decode cd response_ids False;
          backend = parser_backend cd;
          (cache', r) =
            (if backend = ''sglang'' then
               process_tool_calls_sglang cd cache text tools (resolve_alias SGLANG_TOOL_PARSER_ALIASES parser_name)
             else if backend = ''vllm'' then
               process_tool_calls_vllm cd cache text tools (resolve_alias VLLM_TOOL_PARSER_ALIASES parser_name)
             else process_tool_calls_verl cd cache response_ids tools parser_name)
      in (cache', case r of
            Inl e \<Rightarrow> Inl (if is_exception e
                          then RuntimeError (backend @ '' tool parser '' @ parser_name @ '' failed'') else e)
          | Inr x \<Rightarrow> Inr x))"

text \<open>\<open>fresh i\<close> is the \<open>i\<close>-th identifier drawn from \<open>uuid4\<close>.\<close>

definition tool_call_entry :: "(nat \<Rightarrow> string) \<Rightarrow> nat \<Rightarrow> fcall \<Rightarrow> pv" where
  "tool_call_entry fresh i fc =
     PDict [(''id'', PStr (''call_'' @ take 8 (fresh i))),
            (''type'', PStr ''function''),
            (''function'', PDict [(''name'', PStr (fst fc)), (''arguments'', snd fc)])]"

definition tool_call_message :: "(nat \<Rightarrow> string) \<Rightarrow> string \<Rightarrow> fcall list \<Rightarrow> dict" where
  "tool_call_message fresh content calls =
     [(''role'', PStr ''assistant''), (''content'', PStr content),
      (''tool_calls'', PList (map (\<lambda>(i, fc). tool_call_entry fresh i fc) (enumerate 0 calls)))]"

definition finish_reason_of :: "string option \<Rightarrow> string" where
  "finish_reason_of stop_reason =
     (case stop_reason of
        None \<Rightarrow> ''stop''
      | Some r \<Rightarrow> if r = [] then ''stop'' else resolve_alias FINISH_REASON_MAP r)"

definition plain_message :: "codec \<Rightarrow> int list \<Rightarrow> dict" where
  "plain_message cd response_ids =
     [(''role'', PStr ''assistant''), (''content'', PStr (cd_decode cd response_ids True))]"

definition decode_response ::
  "codec \<Rightarrow> parser_cache \<Rightarrow> (nat \<Rightarrow> string) \<Rightarrow> int list \<Rightarrow> pv list option \<Rightarrow> string option
     \<Rightarrow> parser_cache \<times> (dict \<times> string) result" where
  "decode_response cd cache fresh response_ids tools stop_reason =
     (let plain = (plain_message cd response_ids, finish_reason_of stop_reason) in
      case (cd_tool_parser_name cd, tools) of
        (Some pname, Some ts) \<Rightarrow>
          if pname = [] \<or> ts = [] then (cache, Inr plain)
          else (case extract_tool_calls cd cache response_ids ts pname of
                  (cache', Inl e) \<Rightarrow> (cache', Inl e)
                | (cache', Inr (content, calls)) \<Rightarrow>
                    if calls \<noteq> [] then (cache', Inr (tool_call_message fresh content calls, ''tool_calls''))
                    else (cache', Inr plain))
      | _ \<Rightarrow> (cache, Inr plain))"

subsection \<open>Canonical messages\<close>

text \<open>The Python tuple \<open>(tag, value)\<close> is a two-element list in the JSON that is hashed.\<close>

definition canonicalize_tool_arguments :: "codec \<Rightarrow> pv \<Rightarrow> pv" where
  "canonicalize_tool_arguments cd a =
     (case a of
        PDict _ \<Rightarrow> PList [PStr ''json'', a]
      | PList _ \<Rightarrow> PList [PStr ''json'', a]
      | PStr s \<Rightarrow> (case cd_loads cd s of
                    Some v \<Rightarrow> PList [PStr ''json'', v]
                  | None \<Rightarrow> PList [PStr ''raw'', a])
      | _ \<Rightarrow> PList [PStr ''raw'', a])"

definition canonicalize_tool_call :: "codec \<Rightarrow> pv \<Rightarrow> pv result" where
  "canonicalize_tool_call cd tool_call =
     rbind (py_dict tool_call) (\<lambda>d.
       let d1 = dpop d ''id'' in
       case dget d1 ''function'' of
         Some (PDict f) \<Rightarrow>
           (case dget f ''arguments'' of
              Some a \<Rightarrow> Inr (PDict (dset d1 ''function''
                          (PDict (dset f ''arguments'' (canonicalize_tool_arguments cd a)))))
            | None \<Rightarrow> Inr (PDict d1))
       | _ \<Rightarrow> Inr (PDict d1))"

definition canonicalize_message :: "codec \<Rightarrow> dict \<Rightarrow> dict result" where
  "canonicalize_message cd message =
     (let normalized = dpop message ''tool_call_id'' in
      case dget normalized ''tool_calls'' of
        Some (PList tcs) \<Rightarrow>
          rbind (rmap (canonicalize_tool_call cd) tcs)
            (\<lambda>ns. Inr (dset normalized ''tool_calls'' (PList ns)))
      | _ \<Rightarrow> Inr normalized)"

end
