(* ===== verification/Session.thy ===== *)
theory Session
  imports Codec
begin

text \<open>
  The gateway session, \<open>gateway/session/session.py\<close> and \<open>types.py\<close>: its data classes, chain
  selection by prefix hash, input preparation with rollback of the last assistant message,
  commit, materialisation, and the life cycle.  A coroutine is split at the points where it
  leaves the session lock: \<open>begin_generation\<close> is the first locked section of
  \<open>run_generation\<close>, \<open>record_output\<close> the code between the locks, \<open>finish_generation\<close> the second
  locked section, \<open>release_chain_reservation\<close> the one of its \<open>finally\<close> clause.
\<close>

subsection \<open>Data\<close>

datatype session_phase = ACTIVE | FINALIZED | ABORTED

fun phase_lower :: "session_phase \<Rightarrow> string" where
  "phase_lower ACTIVE = ''active''"
| "phase_lower FINALIZED = ''finalized''"
| "phase_lower ABORTED = ''aborted''"

record generation_request =
  rq_messages :: "dict list"
  rq_tools :: "pv list option"
  rq_sampling_params :: dict

record session_handle =
  sh_session_id :: string
  sh_base_url :: "string option"
  sh_reward_info_url :: "string option"

record trajectory =
  tr_prompt_ids :: "int list"
  tr_response_ids :: "int list"
  tr_response_mask :: "int list"
  tr_response_logprobs :: "rat list option"
  tr_reward_info :: dict
  tr_reward_score :: "rat option"
  tr_num_turns :: nat
  tr_routed_experts :: "pv option"
  tr_multi_modal_data :: "dict option"
  tr_extra_fields :: dict

record trajectory_buffer =
  tb_prompt_ids :: "int list"
  tb_response_ids :: "int list"
  tb_response_mask :: "int list"
  tb_response_logprobs :: "rat list"
  tb_routed_experts :: "pv option"
  tb_generation_versions :: "(int option \<times> int option) list"

definition new_buffer :: "int list \<Rightarrow> trajectory_buffer" where
  "new_buffer ids = \<lparr>tb_prompt_ids = ids, tb_response_ids = [], tb_response_mask = [],
     tb_response_logprobs = [], tb_routed_experts = None, tb_generation_versions = []\<rparr>"

record last_assistant_start =
  la_response_ids_len :: nat
  la_message_history_len :: nat
  la_image_data_len :: nat
  la_video_data_len :: nat
  la_tip_hash :: string

record chain_state =
  cs_chain_id :: nat
  cs_message_history :: "dict list"
  cs_message_tip_hash :: string
  cs_active_tool_schemas :: "pv list option"
  cs_buffer :: trajectory_buffer
  cs_image_data :: media
  cs_video_data :: media
  cs_last_assistant_start :: last_assistant_start
  cs_updated_seq :: nat

record materialized_chain =
  mc_trajectory :: trajectory
  mc_order_seq :: nat

record encoded_data =
  en_buffer :: trajectory_buffer
  en_context_ids :: "int list"
  en_sampling_params :: dict
  en_messages :: "dict list"
  en_tools :: "pv list option"
  en_image_data :: media
  en_video_data :: media
  en_capacity_exhausted :: bool
  en_chain_id :: "nat option"
  en_prefix_hashes :: "string list"
  en_last_assistant_start :: "last_assistant_start option"
  en_rollback_applied :: bool
  en_rollback_dropped :: int

record generation_outcome =
  go_assistant_msg :: dict
  go_finish_reason :: string
  go_prompt_tokens :: nat
  go_completion_tokens :: nat

record backend_output =
  bo_token_ids :: "int list"
  bo_log_probs :: "rat list option"
  bo_stop_reason :: "string option"
  bo_routed_experts :: "pv option"
  bo_min_global_steps :: "int option"
  bo_max_global_steps :: "int option"

record session =
  ss_handle :: session_handle
  ss_trajectory_capacity :: "int option"
  ss_sampling_params :: dict
  ss_enable_rollback :: bool
  ss_active_chains :: "chain_state list"
  ss_materialized_chains :: "materialized_chain list"
  ss_reserved_chain_ids :: "nat set"
  ss_next_chain_id :: nat
  ss_order_seq :: nat
  ss_rollback_count :: nat
  ss_rollback_dropped_total :: int
  ss_reward_info :: dict
  ss_phase :: session_phase
  ss_created_at :: rat
  ss_updated_at :: rat

type_synonym 'a op = "session \<times> 'a result"

definition new_session ::
  "session_handle \<Rightarrow> int option \<Rightarrow> int option \<Rightarrow> dict option \<Rightarrow> bool \<Rightarrow> rat \<Rightarrow> session result" where
  "new_session handle prompt_length response_length sampling_params enable_rollback now =
     (if prompt_length \<noteq> None \<and> the prompt_length \<le> 0
      then Inl (ValueError (''prompt_length must be positive when set, got '' @ str_of_int (the prompt_length)))
      else if response_length \<noteq> None \<and> the response_length \<le> 0
      then Inl (ValueError (''response_length must be positive when set, got '' @ str_of_int (the response_length)))
      else Inr \<lparr>ss_handle = handle,
        ss_trajectory_capacity =
          (case (prompt_length, response_length) of (Some p, Some r) \<Rightarrow> Some (p + r) | _ \<Rightarrow> None),
        ss_sampling_params = (case sampling_params of None \<Rightarrow> [] | Some d \<Rightarrow> d),
        ss_enable_rollback = enable_rollback, ss_active_chains = [], ss_materialized_chains = [],
        ss_reserved_chain_ids = {}, ss_next_chain_id = 1, ss_order_seq = 0, ss_rollback_count = 0,
        ss_rollback_dropped_total = 0, ss_reward_info = [], ss_phase = ACTIVE,
        ss_created_at = now, ss_updated_at = now\<rparr>)"

definition touch :: "rat \<Rightarrow> session \<Rightarrow> session" where
  "touch now s = s\<lparr>ss_updated_at := now\<rparr>"

subsection \<open>Prefix hashes\<close>

definition nul :: string where
  "nul = [char_of (0::nat)]"

definition EMPTY_PREFIX_HASH :: "codec \<Rightarrow> string" where
  "EMPTY_PREFIX_HASH cd = cd_sha256 cd (''uni-agent-prefix-v1'' @ nul @ ''empty'')"

definition compute_message_hash :: "codec \<Rightarrow> dict \<Rightarrow> string result" where
  "compute_message_hash cd message =
     rbind (canonicalize_message cd message) (\<lambda>canonical.
       Inr (cd_sha256 cd (''uni-agent-message-v1'' @ nul @ utf8 (dumps (cd_frepr cd) (PDict canonical)))))"

definition prefix_hash :: "codec \<Rightarrow> string \<Rightarrow> string \<Rightarrow> string" where
  "prefix_hash cd previous message_hash =
     cd_sha256 cd (''uni-agent-prefix-v1'' @ nul @ previous @ nul @ message_hash)"

fun chain_hashes :: "codec \<Rightarrow> string \<Rightarrow> dict list \<Rightarrow> string list result" where
  "chain_hashes cd previous [] = Inr []"
| "chain_hashes cd previous (m # ms) =
     rbind (compute_message_hash cd m) (\<lambda>mh.
       let p = prefix_hash cd previous mh in
       rbind (chain_hashes cd p ms) (\<lambda>ps. Inr (p # ps)))"

definition extend_message_prefix_hashes :: "codec \<Rightarrow> string list \<Rightarrow> dict list \<Rightarrow> string list result" where
  "extend_message_prefix_hashes cd existing new_messages =
     rbind (chain_hashes cd (if existing \<noteq> [] then last existing else EMPTY_PREFIX_HASH cd) new_messages)
       (\<lambda>ps. Inr (existing @ ps))"

subsection \<open>Chain selection\<close>

definition is_chain_prefix_hash_match :: "chain_state \<Rightarrow> string list \<Rightarrow> bool" where
  "is_chain_prefix_hash_match chain hashes =
     (let n = length (cs_message_history chain) in
      if n > length hashes then False
      else if n = 0 then True
      else cs_message_tip_hash chain = hashes ! (n - 1))"

definition same_tools :: "pv list option \<Rightarrow> pv list option \<Rightarrow> bool" where
  "same_tools t u =
     (case (t, u) of (None, None) \<Rightarrow> True | (Some xs, Some ys) \<Rightarrow> py_eq_list xs ys | _ \<Rightarrow> False)"

text \<open>\<open>hashes[n - 1]\<close>; for \<open>n = 0\<close> the index \<open>-1\<close> is the last element.\<close>

definition hash_before :: "string list \<Rightarrow> nat \<Rightarrow> string" where
  "hash_before hashes n = (if n = 0 then last hashes else hashes ! (n - 1))"

text \<open>The three early \<open>continue\<close>s of the loop over the active chains.\<close>

definition is_eligible :: "session \<Rightarrow> pv list option \<Rightarrow> string list \<Rightarrow> chain_state \<Rightarrow> bool" where
  "is_eligible s tools hashes chain =
     (let start = cs_last_assistant_start chain; n = la_message_history_len start in
      cs_chain_id chain \<notin> ss_reserved_chain_ids s \<and> same_tools (cs_active_tool_schemas chain) tools \<and>
      n < length hashes \<and> hash_before hashes n = la_tip_hash start)"

type_synonym candidate = "chain_state \<times> nat \<times> bool"

type_synonym scan_state = "candidate list \<times> chain_state list \<times> int"

definition scan_chain ::
  "session \<Rightarrow> pv list option \<Rightarrow> string list \<Rightarrow> scan_state \<Rightarrow> chain_state \<Rightarrow> scan_state" where
  "scan_chain s tools hashes st chain =
     (case st of (ranked, deepest, depth) \<Rightarrow>
        if \<not> is_eligible s tools hashes chain then st
        else if is_chain_prefix_hash_match chain hashes
        then (ranked @ [(chain, length (cs_message_history chain), True)], deepest, depth)
        else if ss_enable_rollback s then
          (let n = int (la_message_history_len (cs_last_assistant_start chain)) in
           if n > depth then (ranked, [chain], n)
           else if n = depth then (ranked, deepest @ [chain], depth)
           else st)
        else st)"

definition candidate_key :: "candidate \<Rightarrow> nat \<times> bool \<times> nat \<times> nat" where
  "candidate_key c = (case c of (chain, n, exact) \<Rightarrow> (n, exact, cs_updated_seq chain, cs_chain_id chain))"

definition max_service :: "candidate list \<Rightarrow> int" where
  "max_service ranked = foldr (\<lambda>c m. max (int (fst (snd c))) m) ranked (-1)"

definition pick_candidate :: "candidate list \<Rightarrow> (chain_state \<times> bool) option" where
  "pick_candidate ranked =
     (case ranked of
        [] \<Rightarrow> None
      | c # cs \<Rightarrow> (case max_key candidate_key c cs of (chain, _, exact) \<Rightarrow> Some (chain, \<not> exact)))"

definition select_chain :: "session \<Rightarrow> pv list option \<Rightarrow> string list \<Rightarrow> (chain_state \<times> bool) option" where
  "select_chain s tools hashes =
     (case foldl (scan_chain s tools hashes) ([], [], -1) (ss_active_chains s) of
        (ranked, deepest, depth) \<Rightarrow>
          if length deepest = 1 then pick_candidate (ranked @ [(hd deepest, nat depth, False)])
          else if deepest \<noteq> [] \<and> depth > max_service ranked then None
          else pick_candidate ranked)"

subsection \<open>Preparing a generation\<close>

definition logprobs_aligned :: "trajectory_buffer \<Rightarrow> bool" where
  "logprobs_aligned b \<longleftrightarrow>
     length (tb_response_logprobs b) = 0 \<or> length (tb_response_logprobs b) = length (tb_response_ids b)"

definition assert_alignment :: "trajectory_buffer \<Rightarrow> unit result" where
  "assert_alignment b = raise_unless (logprobs_aligned b)
     (AssertionError ''response_logprobs must be empty or aligned with response_ids'')"

text \<open>\<open>xs[:n] or None\<close> under the assertion that \<open>n\<close> is within the list.\<close>

definition truncate_media :: "nat \<Rightarrow> media \<Rightarrow> media result" where
  "truncate_media n m =
     (case m of None \<Rightarrow> Inr None
      | Some xs \<Rightarrow> if n \<le> length xs then Inr (if take n xs = [] then None else Some (take n xs))
                   else Inl (AssertionError []))"

definition assistant_prefix :: "codec \<Rightarrow> int list" where
  "assistant_prefix cd = cd_turn_separator cd @ cd_generation_prompt cd"

definition truncate_buffer :: "nat \<Rightarrow> trajectory_buffer \<Rightarrow> trajectory_buffer" where
  "truncate_buffer n b = b\<lparr>tb_response_ids := take n (tb_response_ids b),
     tb_response_mask := take n (tb_response_mask b),
     tb_response_logprobs := take n (tb_response_logprobs b),
     tb_generation_versions := butlast (tb_generation_versions b)\<rparr>"

definition strip_assistant_prefix :: "codec \<Rightarrow> nat \<Rightarrow> trajectory_buffer \<Rightarrow> trajectory_buffer result" where
  "strip_assistant_prefix cd n b =
     (let stored = (if n = 0 then tb_prompt_ids b else tb_response_ids b);
          start = int (length stored) - int (length (assistant_prefix cd))
      in if py_from start stored \<noteq> assistant_prefix cd
         then Inl (ValueError ''Stored trajectory does not end with the assistant prefix'')
         else Inr (if n = 0 then b\<lparr>tb_prompt_ids := py_del_from start stored\<rparr>
                   else b\<lparr>tb_response_ids := py_del_from start stored,
                          tb_response_mask := py_del_from start (tb_response_mask b),
                          tb_response_logprobs := py_del_from start (tb_response_logprobs b)\<rparr>))"

definition rollback_last_assistant ::
  "codec \<Rightarrow> chain_state \<Rightarrow> (trajectory_buffer \<times> media \<times> media \<times> int) result" where
  "rollback_last_assistant cd chain =
     (let b = cs_buffer chain; start = cs_last_assistant_start chain; n = la_response_ids_len start in
      rbind (raise_unless (n \<le> length (tb_response_ids b)) (AssertionError [])) (\<lambda>_.
      rbind (truncate_media (la_image_data_len start) (cs_image_data chain)) (\<lambda>image_data.
      rbind (truncate_media (la_video_data_len start) (cs_video_data chain)) (\<lambda>video_data.
      rbind (strip_assistant_prefix cd n (truncate_buffer n b)) (\<lambda>b'.
      rbind (assert_alignment b') (\<lambda>_.
        Inr (b', image_data, video_data, sum_list (drop n (tb_response_mask b)))))))))"

definition over_capacity :: "session \<Rightarrow> nat \<Rightarrow> bool" where
  "over_capacity s n = (case ss_trajectory_capacity s of None \<Rightarrow> False | Some c \<Rightarrow> int n \<ge> c)"

definition extend_media :: "media \<Rightarrow> media \<Rightarrow> media" where
  "extend_media m new =
     (case new of
        None \<Rightarrow> m
      | Some xs \<Rightarrow> if xs = [] then m else Some ((case m of None \<Rightarrow> [] | Some ys \<Rightarrow> ys) @ xs))"

definition wants_logprobs :: "dict \<Rightarrow> bool" where
  "wants_logprobs sp = truthy (dget_or sp ''logprobs'' (PBool False))"

definition extend_context :: "bool \<Rightarrow> int list \<Rightarrow> trajectory_buffer \<Rightarrow> trajectory_buffer" where
  "extend_context with_logprobs ids b =
     b\<lparr>tb_response_ids := tb_response_ids b @ ids,
       tb_response_mask := tb_response_mask b @ replicate (length ids) 0,
       tb_response_logprobs := (if with_logprobs then tb_response_logprobs b @ replicate (length ids) 0
                                else tb_response_logprobs b)\<rparr>"

text \<open>\<open>min(params.get("max_tokens", r), r)\<close> stored back under \<open>max_tokens\<close>.\<close>

definition clamp_max_tokens :: "dict \<Rightarrow> int \<Rightarrow> dict result" where
  "clamp_max_tokens sp remaining =
     (case dget sp ''max_tokens'' of
        None \<Rightarrow> Inr (dset sp ''max_tokens'' (PInt remaining))
      | Some v \<Rightarrow>
          (case num_val v of
             None \<Rightarrow> Inl (TypeError ''< not supported between instances of int and this type'')
           | Some q \<Rightarrow> Inr (dset sp ''max_tokens'' (if of_int remaining < q then PInt remaining else v))))"

definition media_len :: "media \<Rightarrow> nat" where
  "media_len m = (case m of None \<Rightarrow> 0 | Some xs \<Rightarrow> length xs)"

definition snapshot_last_assistant_start ::
  "trajectory_buffer \<Rightarrow> nat \<Rightarrow> media \<Rightarrow> media \<Rightarrow> string \<Rightarrow> last_assistant_start" where
  "snapshot_last_assistant_start b n image_data video_data tip =
     \<lparr>la_response_ids_len = length (tb_response_ids b), la_message_history_len = n,
      la_image_data_len = media_len image_data, la_video_data_len = media_len video_data,
      la_tip_hash = tip\<rparr>"

text \<open>The tail of \<open>_prepare_generation_inputs\<close>, common to both branches.\<close>

definition encoded_of ::
  "session \<Rightarrow> generation_request \<Rightarrow> string list \<Rightarrow> nat option \<Rightarrow> bool \<Rightarrow> int
     \<Rightarrow> trajectory_buffer \<Rightarrow> media \<Rightarrow> media \<Rightarrow> bool \<Rightarrow> encoded_data result" where
  "encoded_of s rq hashes chain_id rolled dropped b image_data video_data exhausted =
     (let context_ids = tb_prompt_ids b @ tb_response_ids b;
          mk = (\<lambda>sp start. \<lparr>en_buffer = b, en_context_ids = context_ids, en_sampling_params = sp,
                  en_messages = rq_messages rq, en_tools = rq_tools rq, en_image_data = image_data,
                  en_video_data = video_data, en_capacity_exhausted = exhausted,
                  en_chain_id = chain_id, en_prefix_hashes = hashes, en_last_assistant_start = start,
                  en_rollback_applied = rolled, en_rollback_dropped = dropped\<rparr>)
      in if exhausted then Inr (mk [] None)
         else
           rbind (case ss_trajectory_capacity s of
                    None \<Rightarrow> Inr (rq_sampling_params rq)
                  | Some c \<Rightarrow> clamp_max_tokens (rq_sampling_params rq) (c - int (length context_ids)))
             (\<lambda>sp. rbind (py_index hashes (-1)) (\<lambda>tip.
                Inr (mk sp (Some (snapshot_last_assistant_start b (length (rq_messages rq))
                                    image_data video_data tip))))))"

definition prepare_fresh :: "codec \<Rightarrow> session \<Rightarrow> generation_request \<Rightarrow> string list \<Rightarrow> encoded_data result" where
  "prepare_fresh cd s rq hashes =
     rbind (extract_multi_modal_data cd (rq_messages rq)) (\<lambda>(image_data, video_data).
     rbind (encode_full cd (rq_messages rq) (rq_tools rq) image_data video_data) (\<lambda>prompt_ids.
       encoded_of s rq hashes None False 0 (new_buffer prompt_ids) image_data video_data
         (over_capacity s (length prompt_ids))))"

text \<open>The buffer, media, dropped count and messages still to encode of a selected chain.\<close>

definition resume_chain ::
  "codec \<Rightarrow> generation_request \<Rightarrow> chain_state \<Rightarrow> bool
     \<Rightarrow> (trajectory_buffer \<times> media \<times> media \<times> int \<times> dict list) result" where
  "resume_chain cd rq chain rollback =
     rbind (assert_alignment (cs_buffer chain)) (\<lambda>_.
       if rollback then
         rbind (rollback_last_assistant cd chain) (\<lambda>(b, image_data, video_data, dropped).
           Inr (b, image_data, video_data, dropped,
                drop (la_message_history_len (cs_last_assistant_start chain)) (rq_messages rq)))
       else Inr (cs_buffer chain, cs_image_data chain, cs_video_data chain, 0,
                 drop (length (cs_message_history chain)) (rq_messages rq)))"

text \<open>The incremental tokens, the new media and whether the capacity is now exhausted.\<close>

definition encode_suffix ::
  "codec \<Rightarrow> session \<Rightarrow> trajectory_buffer \<Rightarrow> dict list \<Rightarrow> (media \<times> media \<times> int list \<times> bool) result" where
  "encode_suffix cd s b incremental_messages =
     (let n = length (tb_prompt_ids b) + length (tb_response_ids b) in
      if incremental_messages \<noteq> [] \<and> \<not> over_capacity s n then
        rbind (extract_multi_modal_data cd incremental_messages) (\<lambda>(new_image, new_video).
        rbind (encode_incremental cd incremental_messages new_image new_video) (\<lambda>ids.
          Inr (new_image, new_video, ids, over_capacity s (n + length ids))))
      else Inr (None, None, [], over_capacity s n))"

definition prepare_continue ::
  "codec \<Rightarrow> session \<Rightarrow> generation_request \<Rightarrow> string list \<Rightarrow> chain_state \<Rightarrow> bool \<Rightarrow> encoded_data result" where
  "prepare_continue cd s rq hashes chain rollback =
     rbind (resume_chain cd rq chain rollback) (\<lambda>(b, image_data, video_data, dropped, incremental).
     rbind (encode_suffix cd s b incremental) (\<lambda>(new_image, new_video, ids, exhausted).
       if exhausted then
         encoded_of s rq hashes (Some (cs_chain_id chain)) rollback dropped b image_data video_data True
       else
         (let b' = extend_context (wants_logprobs (rq_sampling_params rq)) ids b in
          rbind (assert_alignment b') (\<lambda>_.
            encoded_of s rq hashes (Some (cs_chain_id chain)) rollback dropped b'
              (extend_media image_data new_image) (extend_media video_data new_video) False))))"

definition prepare_generation_inputs :: "codec \<Rightarrow> session \<Rightarrow> generation_request \<Rightarrow> encoded_data result" where
  "prepare_generation_inputs cd s rq =
     rbind (extend_message_prefix_hashes cd [] (rq_messages rq)) (\<lambda>hashes.
       case select_chain s (rq_tools rq) hashes of
         None \<Rightarrow> prepare_fresh cd s rq hashes
       | Some (chain, rollback) \<Rightarrow> prepare_continue cd s rq hashes chain rollback)"

subsection \<open>Materialisation\<close>

definition count_chat_turns :: "dict list \<Rightarrow> nat" where
  "count_chat_turns history =
     length (filter (\<lambda>m. is_role ''user'' m \<or> is_role ''assistant'' m) history) + 1"

definition build_multi_modal_data :: "media \<Rightarrow> media \<Rightarrow> dict option" where
  "build_multi_modal_data image_data video_data =
     (let d = (case image_data of Some (x # xs) \<Rightarrow> [(''images'', PList (x # xs))] | _ \<Rightarrow> []) @
              (case video_data of Some (x # xs) \<Rightarrow> [(''videos'', PList (x # xs))] | _ \<Rightarrow> [])
      in if d = [] then None else Some d)"

text \<open>\<open>max\<close> over the second components: \<open>None\<close> compares with nothing, unless it is alone.\<close>

definition max_versions :: "int option list \<Rightarrow> pv result" where
  "max_versions ms =
     (if length ms = 1 then Inr (case hd ms of None \<Rightarrow> PNone | Some i \<Rightarrow> PInt i)
      else if None \<in> set ms then Inl (TypeError ''> not supported between int and NoneType'')
      else Inr (PInt (Max (the ` set ms))))"

definition version_span :: "(int option \<times> int option) list \<Rightarrow> dict result" where
  "version_span versions =
     (let marks = filter (\<lambda>m. fst m \<noteq> None) versions in
      if marks = [] then Inr []
      else rbind (max_versions (map snd marks)) (\<lambda>hi.
        Inr [(''min_global_steps'', PInt (Min ((the \<circ> fst) ` set marks))), (''max_global_steps'', hi)]))"

definition build_materialized_trajectory :: "chain_state \<Rightarrow> dict \<Rightarrow> trajectory result" where
  "build_materialized_trajectory chain extra_fields =
     (let b = cs_buffer chain in
      rbind (assert_alignment b) (\<lambda>_.
      rbind (version_span (tb_generation_versions b)) (\<lambda>span.
        Inr \<lparr>tr_prompt_ids = tb_prompt_ids b, tr_response_ids = tb_response_ids b,
             tr_response_mask = tb_response_mask b,
             tr_response_logprobs =
               (if tb_response_logprobs b \<noteq> [] then Some (tb_response_logprobs b) else None),
             tr_reward_info = [], tr_reward_score = None,
             tr_num_turns = count_chat_turns (cs_message_history chain),
             tr_routed_experts = tb_routed_experts b,
             tr_multi_modal_data = build_multi_modal_data (cs_image_data chain) (cs_video_data chain),
             tr_extra_fields = dupdate span extra_fields\<rparr>)))"

fun materialize_chains :: "chain_state list \<Rightarrow> session \<Rightarrow> unit op" where
  "materialize_chains [] s = (s, Inr ())"
| "materialize_chains (c # cs) s =
     (case build_materialized_trajectory c [] of
        Inl e \<Rightarrow> (s, Inl e)
      | Inr t \<Rightarrow> materialize_chains cs (s\<lparr>ss_materialized_chains :=
            ss_materialized_chains s @ [\<lparr>mc_trajectory = t, mc_order_seq = cs_updated_seq c\<rparr>]\<rparr>))"

definition materialize_active_chains :: "session \<Rightarrow> unit op" where
  "materialize_active_chains s =
     (case materialize_chains (ss_active_chains s) s of
        (s', Inl e) \<Rightarrow> (s', Inl e)
      | (s', Inr _) \<Rightarrow> (s'\<lparr>ss_active_chains := []\<rparr>, Inr ()))"

subsection \<open>Closing and committing chains\<close>

definition record_rollback_stats :: "encoded_data \<Rightarrow> session \<Rightarrow> session" where
  "record_rollback_stats enc s =
     (if \<not> en_rollback_applied enc then s
      else s\<lparr>ss_rollback_count := Suc (ss_rollback_count s),
             ss_rollback_dropped_total := ss_rollback_dropped_total s + en_rollback_dropped enc\<rparr>)"

definition next_order_seq :: "session \<Rightarrow> session \<times> nat" where
  "next_order_seq s = (s\<lparr>ss_order_seq := Suc (ss_order_seq s)\<rparr>, Suc (ss_order_seq s))"

definition allocate_chain_id :: "session \<Rightarrow> session \<times> nat" where
  "allocate_chain_id s = (s\<lparr>ss_next_chain_id := Suc (ss_next_chain_id s)\<rparr>, ss_next_chain_id s)"

fun find_chain :: "nat \<Rightarrow> chain_state list \<Rightarrow> nat \<Rightarrow> (nat \<times> chain_state) option" where
  "find_chain i [] cid = None"
| "find_chain i (c # cs) cid = (if cs_chain_id c = cid then Some (i, c) else find_chain (Suc i) cs cid)"

definition find_active_chain :: "session \<Rightarrow> nat \<Rightarrow> (nat \<times> chain_state) result" where
  "find_active_chain s cid =
     (case find_chain 0 (ss_active_chains s) cid of
        Some r \<Rightarrow> Inr r
      | None \<Rightarrow> Inl (RuntimeError (''active chain '' @ str_of_nat cid @ '' not found'')))"

definition del_at :: "nat \<Rightarrow> 'a list \<Rightarrow> 'a list" where
  "del_at i xs = take i xs @ drop (Suc i) xs"

text \<open>The chain that is closed: after a rollback, without its last assistant message.\<close>

definition chain_to_materialize :: "encoded_data \<Rightarrow> chain_state \<Rightarrow> chain_state result" where
  "chain_to_materialize enc chain =
     (if \<not> en_rollback_applied enc then Inr chain
      else
        (let n = la_message_history_len (cs_last_assistant_start chain) in
         rbind (py_index (en_prefix_hashes enc) (int n - 1)) (\<lambda>tip.
           Inr (chain\<lparr>cs_message_history := take n (en_messages enc), cs_message_tip_hash := tip,
                      cs_buffer := en_buffer enc, cs_image_data := en_image_data enc,
                      cs_video_data := en_video_data enc\<rparr>))))"

definition close_length_exhausted_chain :: "encoded_data \<Rightarrow> session \<Rightarrow> unit op" where
  "close_length_exhausted_chain enc s =
     (case en_chain_id enc of
        None \<Rightarrow> (s, Inl (RuntimeError ''length-exhausted chain id is missing''))
      | Some cid \<Rightarrow>
          (case find_active_chain s cid of
             Inl e \<Rightarrow> (s, Inl e)
           | Inr (i, chain) \<Rightarrow>
               if en_rollback_applied enc \<and> la_response_ids_len (cs_last_assistant_start chain) = 0
               then (let s1 = record_rollback_stats enc s
                     in (s1\<lparr>ss_active_chains := del_at i (ss_active_chains s1)\<rparr>, Inr ()))
               else
                 (case chain_to_materialize enc chain of
                    Inl e \<Rightarrow> (s, Inl e)
                  | Inr chain' \<Rightarrow>
                      (let (s1, seq) = next_order_seq s in
                       case build_materialized_trajectory chain'
                              [(''materialization_reason'', PStr ''max_trajectory_length'')] of
                         Inl e \<Rightarrow> (s1, Inl e)
                       | Inr t \<Rightarrow>
                           (let s2 = record_rollback_stats enc (s1\<lparr>ss_materialized_chains :=
                                       ss_materialized_chains s1 @ [\<lparr>mc_trajectory = t, mc_order_seq = seq\<rparr>]\<rparr>)
                            in (s2\<lparr>ss_active_chains := del_at i (ss_active_chains s2)\<rparr>, Inr ()))))))"

definition committed_chain ::
  "encoded_data \<Rightarrow> dict list \<Rightarrow> string \<Rightarrow> last_assistant_start \<Rightarrow> nat \<Rightarrow> nat \<Rightarrow> chain_state" where
  "committed_chain enc history tip start cid seq =
     \<lparr>cs_chain_id = cid, cs_message_history = history, cs_message_tip_hash = tip,
      cs_active_tool_schemas = en_tools enc, cs_buffer = en_buffer enc,
      cs_image_data = en_image_data enc, cs_video_data = en_video_data enc,
      cs_last_assistant_start = start, cs_updated_seq = seq\<rparr>"

definition commit_generation_to_chain :: "codec \<Rightarrow> encoded_data \<Rightarrow> dict \<Rightarrow> session \<Rightarrow> unit op" where
  "commit_generation_to_chain cd enc assistant_msg s =
     (let history = en_messages enc @ [assistant_msg] in
      case extend_message_prefix_hashes cd (en_prefix_hashes enc) [assistant_msg] of
        Inl e \<Rightarrow> (s, Inl e)
      | Inr hashes \<Rightarrow>
          if length hashes \<noteq> length history then (s, Inl (AssertionError []))
          else
            (case en_last_assistant_start enc of
               None \<Rightarrow> (s, Inl (RuntimeError ''last assistant start is missing''))
             | Some start \<Rightarrow>
                 (let s1 = record_rollback_stats enc s in
                  case en_chain_id enc of
                    None \<Rightarrow>
                      (let (s2, seq) = next_order_seq s1; (s3, cid) = allocate_chain_id s2
                       in (s3\<lparr>ss_active_chains := ss_active_chains s3 @
                             [committed_chain enc history (last hashes) start cid seq]\<rparr>, Inr ()))
                  | Some cid \<Rightarrow>
                      (case find_active_chain s1 cid of
                         Inl e \<Rightarrow> (s1, Inl e)
                       | Inr (i, previous) \<Rightarrow>
                           (let (s2, seq) = next_order_seq s1
                            in (s2\<lparr>ss_active_chains := (ss_active_chains s2)[i :=
                                  committed_chain enc history (last hashes) start (cs_chain_id previous) seq]\<rparr>,
                                Inr ()))))))"

end
