(* ===== verification/Generation.thy ===== *)
theory Generation
  imports Session
begin

text \<open>
  The locked sections of \<open>GatewaySession\<close> and their sequential composition:
  \<open>run_generation\<close> (begin, back-end call, record, finish, release), \<open>set_reward_info\<close>,
  \<open>finalize\<close>, \<open>abort\<close> and \<open>snapshot_state\<close>.
\<close>

definition not_active :: "session \<Rightarrow> string" where
  "not_active s = ''Session '' @ sh_session_id (ss_handle s) @ '' is '' @ phase_lower (ss_phase s)"

datatype started = Finished generation_outcome | Pending encoded_data

definition length_exhausted_outcome :: "encoded_data \<Rightarrow> generation_outcome" where
  "length_exhausted_outcome enc =
     \<lparr>go_assistant_msg = [(''role'', PStr ''assistant''), (''content'', PStr [])],
      go_finish_reason = ''length'', go_prompt_tokens = length (en_context_ids enc),
      go_completion_tokens = 0\<rparr>"

definition reserve_chain :: "encoded_data \<Rightarrow> session \<Rightarrow> session" where
  "reserve_chain enc s =
     (case en_chain_id enc of
        None \<Rightarrow> s
      | Some cid \<Rightarrow> s\<lparr>ss_reserved_chain_ids := insert cid (ss_reserved_chain_ids s)\<rparr>)"

definition begin_generation :: "codec \<Rightarrow> rat \<Rightarrow> generation_request \<Rightarrow> session \<Rightarrow> started op" where
  "begin_generation cd now rq s =
     (if ss_phase s \<noteq> ACTIVE then (s, Inl (HTTPException 409 (not_active s)))
      else
        (case prepare_generation_inputs cd s rq of
           Inl e \<Rightarrow> (s, Inl e)
         | Inr enc \<Rightarrow>
             if en_capacity_exhausted enc then
               (case (if en_chain_id enc \<noteq> None then close_length_exhausted_chain enc s else (s, Inr ())) of
                  (s', Inl e) \<Rightarrow> (s', Inl e)
                | (s', Inr _) \<Rightarrow> (touch now s', Inr (Finished (length_exhausted_outcome enc))))
             else (reserve_chain enc s, Inr (Pending enc))))"

text \<open>What a failing back end becomes; a control-flow exception passes through.\<close>

definition is_value_error :: "exn \<Rightarrow> bool" where
  "is_value_error e = (case e of ValueError _ \<Rightarrow> True | MalformedRequestError _ \<Rightarrow> True | _ \<Rightarrow> False)"

fun exn_class :: "exn \<Rightarrow> string" where
  "exn_class (HTTPException _ _) = ''HTTPException''"
| "exn_class (MalformedRequestError _) = ''MalformedRequestError''"
| "exn_class (ValueError _) = ''ValueError''"
| "exn_class (RuntimeError _) = ''RuntimeError''"
| "exn_class (KeyError _) = ''KeyError''"
| "exn_class (TypeError _) = ''TypeError''"
| "exn_class (AssertionError _) = ''AssertionError''"
| "exn_class (IndexError _) = ''IndexError''"
| "exn_class (OtherException c _) = c"
| "exn_class (BaseExc c) = c"

fun exn_str :: "exn \<Rightarrow> string" where
  "exn_str (HTTPException n m) = str_of_int n @ '': '' @ m"
| "exn_str (MalformedRequestError m) = m"
| "exn_str (ValueError m) = m"
| "exn_str (RuntimeError m) = m"
| "exn_str (KeyError m) = repr_str m"
| "exn_str (TypeError m) = m"
| "exn_str (AssertionError m) = m"
| "exn_str (IndexError m) = m"
| "exn_str (OtherException c m) = m"
| "exn_str (BaseExc c) = []"

definition backend_failure :: "exn \<Rightarrow> exn" where
  "backend_failure e =
     (if is_value_error e then HTTPException 400 (exn_str e)
      else if is_exception e then HTTPException 500 (exn_class e @ '': '' @ exn_str e)
      else e)"

definition append_output :: "backend_output \<Rightarrow> trajectory_buffer \<Rightarrow> trajectory_buffer" where
  "append_output out b =
     b\<lparr>tb_response_ids := tb_response_ids b @ bo_token_ids out,
       tb_response_mask := tb_response_mask b @ replicate (length (bo_token_ids out)) 1,
       tb_generation_versions :=
         tb_generation_versions b @ [(bo_min_global_steps out, bo_max_global_steps out)]\<rparr>"

definition record_logprobs :: "encoded_data \<Rightarrow> backend_output \<Rightarrow> trajectory_buffer \<Rightarrow> trajectory_buffer result" where
  "record_logprobs enc out b =
     (if wants_logprobs (en_sampling_params enc) then
        (case bo_log_probs out of
           None \<Rightarrow> Inl (RuntimeError ''backend omitted logprobs when requested'')
         | Some lps \<Rightarrow>
             if length lps \<noteq> length (bo_token_ids out)
             then Inl (RuntimeError (''backend logprobs must align with token_ids: got '' @
                    str_of_nat (length lps) @ '' logprobs for '' @
                    str_of_nat (length (bo_token_ids out)) @ '' tokens''))
             else Inr (b\<lparr>tb_response_logprobs := tb_response_logprobs b @ lps\<rparr>))
      else Inr b)"

definition record_output :: "encoded_data \<Rightarrow> backend_output \<Rightarrow> encoded_data result" where
  "record_output enc out =
     rbind (record_logprobs enc out (append_output out (en_buffer enc))) (\<lambda>b.
     rbind (assert_alignment b) (\<lambda>_.
       Inr (enc\<lparr>en_buffer :=
         (case bo_routed_experts out of None \<Rightarrow> b | Some r \<Rightarrow> b\<lparr>tb_routed_experts := Some r\<rparr>)\<rparr>)))"

definition discard_reservation :: "nat option \<Rightarrow> session \<Rightarrow> session" where
  "discard_reservation cid s =
     (case cid of None \<Rightarrow> s
      | Some c \<Rightarrow> s\<lparr>ss_reserved_chain_ids := ss_reserved_chain_ids s - {c}\<rparr>)"

definition finish_generation ::
  "codec \<Rightarrow> parser_cache \<Rightarrow> (nat \<Rightarrow> string) \<Rightarrow> rat \<Rightarrow> encoded_data \<Rightarrow> backend_output \<Rightarrow> session
     \<Rightarrow> parser_cache \<times> generation_outcome op" where
  "finish_generation cd cache fresh now enc out s =
     (if ss_phase s \<noteq> ACTIVE then (cache, s, Inl (HTTPException 409 (not_active s)))
      else
        (case decode_response cd cache fresh (bo_token_ids out) (en_tools enc) (bo_stop_reason out) of
           (cache', Inl e) \<Rightarrow> (cache', s, Inl e)
         | (cache', Inr (assistant_msg, finish_reason)) \<Rightarrow>
             (case commit_generation_to_chain cd enc assistant_msg s of
                (s', Inl e) \<Rightarrow> (cache', s', Inl e)
              | (s', Inr _) \<Rightarrow>
                  (cache', touch now (discard_reservation (en_chain_id enc) s'),
                   Inr \<lparr>go_assistant_msg = assistant_msg, go_finish_reason = finish_reason,
                        go_prompt_tokens = length (en_context_ids enc),
                        go_completion_tokens = length (bo_token_ids out)\<rparr>))))"

definition release_chain_reservation :: "nat \<Rightarrow> session \<Rightarrow> session" where
  "release_chain_reservation cid s = s\<lparr>ss_reserved_chain_ids := ss_reserved_chain_ids s - {cid}\<rparr>"

text \<open>What the back end is asked for one generation.\<close>

type_synonym backend = "string \<Rightarrow> int list \<Rightarrow> dict \<Rightarrow> media \<Rightarrow> media \<Rightarrow> backend_output result"

definition call_backend :: "backend \<Rightarrow> session \<Rightarrow> encoded_data \<Rightarrow> backend_output result" where
  "call_backend backend s enc =
     (case backend (sh_session_id (ss_handle s)) (en_context_ids enc) (en_sampling_params enc)
             (en_image_data enc) (en_video_data enc) of
        Inl e \<Rightarrow> Inl (backend_failure e) | Inr out \<Rightarrow> Inr out)"

text \<open>The whole coroutine when no other request of the session runs in between.\<close>

definition run_generation ::
  "codec \<Rightarrow> parser_cache \<Rightarrow> (nat \<Rightarrow> string) \<Rightarrow> rat \<Rightarrow> backend \<Rightarrow> generation_request \<Rightarrow> session
     \<Rightarrow> parser_cache \<times> generation_outcome op" where
  "run_generation cd cache fresh now backend rq s =
     (case begin_generation cd now rq s of
        (s1, Inl e) \<Rightarrow> (cache, s1, Inl e)
      | (s1, Inr (Finished outcome)) \<Rightarrow> (cache, s1, Inr outcome)
      | (s1, Inr (Pending enc)) \<Rightarrow>
          (case rbind (call_backend backend s1 enc)
                  (\<lambda>out. rbind (record_output enc out) (\<lambda>enc'. Inr (out, enc'))) of
             Inl e \<Rightarrow> (cache, discard_reservation (en_chain_id enc) s1, Inl e)
           | Inr (out, enc') \<Rightarrow>
               (case finish_generation cd cache fresh now enc' out s1 of
                  (cache', s2, Inl e) \<Rightarrow> (cache', discard_reservation (en_chain_id enc) s2, Inl e)
                | (cache', s2, Inr outcome) \<Rightarrow> (cache', s2, Inr outcome))))"

subsection \<open>Life cycle\<close>

definition set_reward_info :: "rat \<Rightarrow> dict option \<Rightarrow> session \<Rightarrow> unit op" where
  "set_reward_info now reward_info s =
     (if ss_phase s \<noteq> ACTIVE then (s, Inl (RuntimeError (not_active s)))
      else (touch now (case reward_info of None \<Rightarrow> s | Some d \<Rightarrow> s\<lparr>ss_reward_info := d\<rparr>), Inr ()))"

definition ordered_trajectories :: "session \<Rightarrow> trajectory list" where
  "ordered_trajectories s =
     map (\<lambda>m. (mc_trajectory m)\<lparr>tr_reward_info := ss_reward_info s\<rparr>)
       (sort_key mc_order_seq (ss_materialized_chains s))"

definition finalize :: "rat \<Rightarrow> session \<Rightarrow> trajectory list op" where
  "finalize now s =
     (if ss_phase s = ABORTED then (s, Inl (RuntimeError (not_active s)))
      else if ss_phase s = FINALIZED then (s, Inl (RuntimeError (not_active s)))
      else
        (case materialize_active_chains (touch now s) of
           (s1, Inl e) \<Rightarrow> (s1, Inl e)
         | (s1, Inr _) \<Rightarrow>
             (let s2 = touch now (s1\<lparr>ss_reserved_chain_ids := {}, ss_phase := FINALIZED\<rparr>)
              in (s2, Inr (ordered_trajectories s2)))))"

definition abort :: "rat \<Rightarrow> session \<Rightarrow> unit op" where
  "abort now s =
     (if ss_phase s = ABORTED then (s, Inr ())
      else if ss_phase s = FINALIZED then (s, Inl (RuntimeError (not_active s)))
      else (touch now (s\<lparr>ss_phase := ABORTED, ss_active_chains := [], ss_materialized_chains := [],
                          ss_reserved_chain_ids := {}\<rparr>), Inr ()))"

record session_snapshot =
  sn_session_id :: string
  sn_phase :: session_phase
  sn_created_at :: rat
  sn_updated_at :: rat
  sn_num_trajectories :: nat
  sn_has_active_trajectory :: bool
  sn_num_active_chains :: nat
  sn_active_chain_ids :: "nat list"
  sn_active_chain_tip_hashes :: "(nat \<times> string) list"
  sn_rollback_count :: nat
  sn_rollback_dropped_total :: int

definition snapshot_state :: "session \<Rightarrow> session_snapshot" where
  "snapshot_state s =
     \<lparr>sn_session_id = sh_session_id (ss_handle s), sn_phase = ss_phase s,
      sn_created_at = ss_created_at s, sn_updated_at = ss_updated_at s,
      sn_num_trajectories = length (ss_materialized_chains s),
      sn_has_active_trajectory = (ss_active_chains s \<noteq> []),
      sn_num_active_chains = length (ss_active_chains s),
      sn_active_chain_ids = map cs_chain_id (ss_active_chains s),
      sn_active_chain_tip_hashes =
        foldl (\<lambda>d c. AList.update (cs_chain_id c) (cs_message_tip_hash c) d) [] (ss_active_chains s),
      sn_rollback_count = ss_rollback_count s,
      sn_rollback_dropped_total = ss_rollback_dropped_total s\<rparr>"

end
