(* ===== verification/Selection.thy ===== *)
theory Selection
  imports Generation
begin

text \<open>
  Chain selection: a closed form of the scan over the active chains, soundness and optimality of
  the selected chain, and what an equality of prefix hashes says about the messages.
\<close>

subsection \<open>The scan in closed form\<close>

definition exact_match :: "session \<Rightarrow> pv list option \<Rightarrow> string list \<Rightarrow> chain_state \<Rightarrow> bool" where
  "exact_match s tools hs c \<longleftrightarrow> is_eligible s tools hs c \<and> is_chain_prefix_hash_match c hs"

definition rollback_match :: "session \<Rightarrow> pv list option \<Rightarrow> string list \<Rightarrow> chain_state \<Rightarrow> bool" where
  "rollback_match s tools hs c \<longleftrightarrow>
     is_eligible s tools hs c \<and> \<not> is_chain_prefix_hash_match c hs \<and> ss_enable_rollback s"

definition depth_of :: "chain_state \<Rightarrow> int" where
  "depth_of c = int (la_message_history_len (cs_last_assistant_start c))"

definition max_depth :: "chain_state list \<Rightarrow> int" where
  "max_depth cs = foldl (\<lambda>m c. max m (depth_of c)) (-1) cs"

definition exact_candidate :: "chain_state \<Rightarrow> candidate" where
  "exact_candidate c = (c, length (cs_message_history c), True)"

lemma max_depth_snoc [simp]: "max_depth (cs @ [c]) = max (max_depth cs) (depth_of c)"
  by (simp add: max_depth_def)

lemma max_depth_Nil [simp]: "max_depth [] = -1"
  by (simp add: max_depth_def)

lemma max_depth_single [simp]: "max_depth [c] = depth_of c"
  by (simp add: max_depth_def depth_of_def)

lemma depth_of_nonneg [simp]: "0 \<le> depth_of c"
  by (simp add: depth_of_def)

lemma max_depth_ge: "c \<in> set cs \<Longrightarrow> depth_of c \<le> max_depth cs"
  by (induction cs rule: rev_induct) auto

lemma max_depth_in: "cs \<noteq> [] \<Longrightarrow> \<exists>c \<in> set cs. depth_of c = max_depth cs"
proof (induction cs rule: rev_induct)
  case (snoc c cs)
  then show ?case
    by (cases "cs = []") (auto simp: max_def)
qed simp

lemma scan_closed_form:
  "foldl (scan_chain s tools hs) ([], [], -1) cs =
     (map exact_candidate (filter (exact_match s tools hs) cs),
      filter (\<lambda>c. depth_of c = max_depth (filter (rollback_match s tools hs) cs))
        (filter (rollback_match s tools hs) cs),
      max_depth (filter (rollback_match s tools hs) cs))"
proof (induction cs rule: rev_induct)
  case Nil
  then show ?case by simp
next
  case (snoc c cs)
  let ?R = "filter (rollback_match s tools hs) cs"
  have le: "\<forall>x \<in> set ?R. depth_of x \<le> max_depth ?R" by (intro ballI max_depth_ge)
  show ?case
  proof (cases "rollback_match s tools hs c")
    case True
    then have ne: "\<not> exact_match s tools hs c"
      by (simp add: rollback_match_def exact_match_def)
    from True have "scan_chain s tools hs (rk, dp, d) c =
       (if depth_of c > d then (rk, [c], depth_of c)
        else if depth_of c = d then (rk, dp @ [c], d) else (rk, dp, d))" for rk dp d
      by (simp add: scan_chain_def rollback_match_def depth_of_def Let_def)
    moreover have "depth_of c > max_depth ?R \<Longrightarrow> filter (\<lambda>x. depth_of x = depth_of c) ?R = []"
      using le by (auto simp: filter_empty_conv)
    ultimately show ?thesis using True ne snoc.IH by (auto simp: max_def)
  next
    case False
    then show ?thesis using snoc.IH
      by (auto simp: scan_chain_def rollback_match_def exact_match_def exact_candidate_def)
  qed
qed

subsection \<open>The selected chain\<close>

definition exact_chains :: "session \<Rightarrow> pv list option \<Rightarrow> string list \<Rightarrow> chain_state list" where
  "exact_chains s tools hs = filter (exact_match s tools hs) (ss_active_chains s)"

definition rollback_chains :: "session \<Rightarrow> pv list option \<Rightarrow> string list \<Rightarrow> chain_state list" where
  "rollback_chains s tools hs = filter (rollback_match s tools hs) (ss_active_chains s)"

definition deepest_chains :: "session \<Rightarrow> pv list option \<Rightarrow> string list \<Rightarrow> chain_state list" where
  "deepest_chains s tools hs =
     filter (\<lambda>c. depth_of c = max_depth (rollback_chains s tools hs)) (rollback_chains s tools hs)"

lemma pick_candidate_Some:
  assumes "pick_candidate cands = Some (c, rb)"
  obtains n where "(c, n, \<not> rb) \<in> set cands"
    and "\<And>x. x \<in> set cands \<Longrightarrow> candidate_key x \<le> candidate_key (c, n, \<not> rb)"
proof -
  from assms obtain x xs where cands: "cands = x # xs" by (cases cands) (auto simp: pick_candidate_def)
  obtain c' n e where m: "max_key candidate_key x xs = (c', n, e)" by (cases "max_key candidate_key x xs")
  with assms cands have eq: "c' = c" "e = (\<not> rb)" by (auto simp: pick_candidate_def)
  show ?thesis
  proof (rule that [of n])
    show "(c, n, \<not> rb) \<in> set cands"
      using max_key_in [of candidate_key x xs] m eq cands by auto
    show "candidate_key y \<le> candidate_key (c, n, \<not> rb)" if "y \<in> set cands" for y
      using max_key_ge [of y x xs candidate_key] that m eq cands by auto
  qed
qed

lemma pick_candidate_None: "pick_candidate cands = None \<longleftrightarrow> cands = []"
  by (auto simp: pick_candidate_def split: list.splits prod.splits)

lemma select_chain_eq:
  "select_chain s tools hs =
     (let D = deepest_chains s tools hs; E = map exact_candidate (exact_chains s tools hs);
          d = max_depth (rollback_chains s tools hs)
      in if length D = 1 then pick_candidate (E @ [(hd D, nat d, False)])
         else if D \<noteq> [] \<and> d > max_service E then None else pick_candidate E)"
  by (simp add: select_chain_def scan_closed_form deepest_chains_def rollback_chains_def
        exact_chains_def Let_def)

lemma max_service_ge: "x \<in> set cands \<Longrightarrow> int (fst (snd x)) \<le> max_service cands"
  by (induction cands) (auto simp: max_service_def)

lemma exact_candidate_in:
  "x \<in> set (map exact_candidate (exact_chains s tools hs)) \<longleftrightarrow>
     (\<exists>c \<in> set (ss_active_chains s). exact_match s tools hs c \<and> x = exact_candidate c)"
  by (auto simp: exact_chains_def)

lemma select_chain_cases:
  assumes "select_chain s tools hs = Some (c, rb)"
  obtains (exact) "\<not> rb" "c \<in> set (ss_active_chains s)" "exact_match s tools hs c"
    | (rollback) "rb" "c \<in> set (ss_active_chains s)" "rollback_match s tools hs c"
        "deepest_chains s tools hs = [c]"
        "\<And>c'. c' \<in> set (exact_chains s tools hs) \<Longrightarrow> int (length (cs_message_history c')) < depth_of c"
proof -
  let ?D = "deepest_chains s tools hs" and ?E = "map exact_candidate (exact_chains s tools hs)"
  let ?d = "max_depth (rollback_chains s tools hs)"
  show thesis
  proof (cases "length ?D = 1")
    case True
    then obtain x where D: "?D = [x]" by (auto simp: length_Suc_conv)
    then have "x \<in> set ?D" by simp
    then have x: "x \<in> set (rollback_chains s tools hs)" "depth_of x = ?d"
      by (simp_all add: deepest_chains_def)
    from assms True D have "pick_candidate (?E @ [(x, nat ?d, False)]) = Some (c, rb)"
      by (simp add: select_chain_eq Let_def)
    then obtain n where mem: "(c, n, \<not> rb) \<in> set (?E @ [(x, nat ?d, False)])"
      and mx: "\<And>y. y \<in> set (?E @ [(x, nat ?d, False)]) \<Longrightarrow> candidate_key y \<le> candidate_key (c, n, \<not> rb)"
      by (rule pick_candidate_Some) blast
    show thesis
    proof (cases rb)
      case False
      with mem show thesis
        by (intro exact) (auto simp: exact_candidate_def exact_chains_def)
    next
      case True
      with mem have c: "c = x" "n = nat ?d" by (auto simp: exact_candidate_def)
      show thesis
      proof (rule rollback)
        show "rb" by (rule True)
        show "c \<in> set (ss_active_chains s)" "rollback_match s tools hs c"
          using x c by (auto simp: rollback_chains_def)
        show "?D = [c]" using D c by simp
        show "int (length (cs_message_history c')) < depth_of c"
          if "c' \<in> set (exact_chains s tools hs)" for c'
        proof -
          have "exact_candidate c' \<in> set (?E @ [(x, nat ?d, False)])" using that by simp
          then have "candidate_key (exact_candidate c') \<le> candidate_key (c, n, \<not> rb)" by (rule mx)
          then show ?thesis using True c x depth_of_nonneg [of x]
            by (auto simp: candidate_key_def exact_candidate_def less_eq_prod_def)
        qed
      qed
    qed
  next
    case False
    with assms have "pick_candidate ?E = Some (c, rb)"
      by (auto simp: select_chain_eq Let_def split: if_splits)
    then obtain n where "(c, n, \<not> rb) \<in> set ?E" by (rule pick_candidate_Some) blast
    then show thesis by (intro exact) (auto simp: exact_candidate_def exact_chains_def)
  qed
qed

lemma select_chain_in: "select_chain s tools hs = Some (c, rb) \<Longrightarrow> c \<in> set (ss_active_chains s)"
  by (erule select_chain_cases)

lemma select_chain_eligible: "select_chain s tools hs = Some (c, rb) \<Longrightarrow> is_eligible s tools hs c"
  by (erule select_chain_cases) (auto simp: exact_match_def rollback_match_def)

lemma select_chain_unreserved:
  "select_chain s tools hs = Some (c, rb) \<Longrightarrow> cs_chain_id c \<notin> ss_reserved_chain_ids s"
  by (drule select_chain_eligible) (simp add: is_eligible_def Let_def)

lemma select_chain_exact:
  "select_chain s tools hs = Some (c, False) \<Longrightarrow> is_chain_prefix_hash_match c hs"
  by (erule select_chain_cases) (auto simp: exact_match_def)

lemma select_chain_rollback:
  "select_chain s tools hs = Some (c, True) \<Longrightarrow> rollback_match s tools hs c"
  by (erule select_chain_cases) auto

end
