(* ===== verification/SessionInv.thy ===== *)
theory SessionInv
  imports Selection
begin

text \<open>
  What the session keeps true: token buffers aligned with their masks and log probabilities,
  chains whose tip hash is the prefix hash of their history, distinct chain ids, distinct
  order numbers, reservations that name active chains.  Each operation gets its preservation
  lemma.
\<close>

named_theorems prep_simps \<open>definitions unfolded when a preparation result is taken apart\<close>

subsection \<open>Buffers\<close>

definition buffer_ok :: "trajectory_buffer \<Rightarrow> bool" where
  "buffer_ok b \<longleftrightarrow> length (tb_response_mask b) = length (tb_response_ids b) \<and>
     set (tb_response_mask b) \<subseteq> {0, 1} \<and> logprobs_aligned b"

definition versions_ok :: "trajectory_buffer \<Rightarrow> bool" where
  "versions_ok b \<longleftrightarrow> (\<forall>m \<in> set (tb_generation_versions b). (fst m = None) = (snd m = None))"

lemma buffer_ok_new [simp]: "buffer_ok (new_buffer ids)"
  by (simp add: buffer_ok_def new_buffer_def logprobs_aligned_def)

lemma versions_ok_new [simp]: "versions_ok (new_buffer ids)"
  by (simp add: versions_ok_def new_buffer_def)

lemma buffer_ok_extend:
  assumes "buffer_ok b" "logprobs_aligned (extend_context lp ids b)"
  shows "buffer_ok (extend_context lp ids b)"
  using assms by (auto simp: buffer_ok_def extend_context_def)

lemma versions_ok_extend [simp]: "versions_ok (extend_context lp ids b) = versions_ok b"
  by (simp add: versions_ok_def extend_context_def)

lemma assert_alignment_Inr [err_simps]: "assert_alignment b = Inr u \<longleftrightarrow> logprobs_aligned b"
  by (simp add: assert_alignment_def err_simps)

lemma assert_alignment_ok [simp]: "logprobs_aligned b \<Longrightarrow> assert_alignment b = Inr ()"
  by (simp add: assert_alignment_def)

lemma buffer_ok_aligned: "buffer_ok b \<Longrightarrow> logprobs_aligned b"
  by (simp add: buffer_ok_def)

lemma length_py_del_from: "length xs = length ys \<Longrightarrow> length (py_del_from i xs) = length (py_del_from i ys)"
  by (simp add: py_del_from_def)

lemma set_py_del_from: "set (py_del_from i xs) \<subseteq> set xs"
  by (auto simp: py_del_from_def dest: in_set_takeD)

lemma py_del_from_Nil [simp]: "py_del_from i [] = []"
  by (simp add: py_del_from_def)

lemma py_del_from_take:
  assumes "length xs = length ys"
  shows "py_del_from i xs = take (length (py_del_from i ys)) xs"
proof -
  have "take (min (length xs) k) xs = take k xs" for k by (simp add: min_def)
  then show ?thesis by (simp add: py_del_from_def assms)
qed

lemma buffer_ok_truncate: "buffer_ok b \<Longrightarrow> buffer_ok (truncate_buffer n b)"
  by (auto simp: buffer_ok_def truncate_buffer_def logprobs_aligned_def dest: in_set_takeD)

lemma versions_ok_truncate: "versions_ok b \<Longrightarrow> versions_ok (truncate_buffer n b)"
  by (auto simp: versions_ok_def truncate_buffer_def dest: in_set_butlastD)

lemma strip_assistant_prefix_Inr:
  assumes "strip_assistant_prefix cd n b = Inr b'"
  shows "tb_prompt_ids b = tb_prompt_ids b' @ (if n = 0 then assistant_prefix cd else [])"
    and "tb_response_ids b = tb_response_ids b' @ (if n = 0 then [] else assistant_prefix cd)"
    and "tb_generation_versions b' = tb_generation_versions b"
    and "tb_routed_experts b' = tb_routed_experts b"
    and "buffer_ok b \<Longrightarrow> tb_response_mask b' = take (length (tb_response_ids b')) (tb_response_mask b)"
    and "buffer_ok b \<Longrightarrow> buffer_ok b'"
proof -
  let ?stored = "if n = 0 then tb_prompt_ids b else tb_response_ids b"
  let ?start = "int (length ?stored) - int (length (assistant_prefix cd))"
  from assms have eq: "py_from ?start ?stored = assistant_prefix cd"
    and b': "b' = (if n = 0 then b\<lparr>tb_prompt_ids := py_del_from ?start ?stored\<rparr>
       else b\<lparr>tb_response_ids := py_del_from ?start ?stored,
              tb_response_mask := py_del_from ?start (tb_response_mask b),
              tb_response_logprobs := py_del_from ?start (tb_response_logprobs b)\<rparr>)"
    by (simp_all add: strip_assistant_prefix_def Let_def split: if_splits)
  have app: "?stored = py_del_from ?start ?stored @ assistant_prefix cd"
    using py_del_from_app [of ?start ?stored] eq by simp
  show "tb_prompt_ids b = tb_prompt_ids b' @ (if n = 0 then assistant_prefix cd else [])"
    "tb_response_ids b = tb_response_ids b' @ (if n = 0 then [] else assistant_prefix cd)"
    using app b' by (simp_all split: if_splits)
  show "tb_generation_versions b' = tb_generation_versions b"
    "tb_routed_experts b' = tb_routed_experts b" using b' by simp_all
  assume ok: "buffer_ok b"
  show "tb_response_mask b' = take (length (tb_response_ids b')) (tb_response_mask b)"
    using b' ok py_del_from_take [of "tb_response_mask b" "tb_response_ids b"]
    by (auto simp: buffer_ok_def)
  show "buffer_ok b'"
    using b' ok length_py_del_from [of "tb_response_mask b" "tb_response_ids b"]
      length_py_del_from [of "tb_response_logprobs b" "tb_response_ids b"]
      set_py_del_from [of ?start "tb_response_mask b"]
    by (auto simp: buffer_ok_def logprobs_aligned_def)
qed

subsection \<open>Rolling back the last assistant message\<close>

lemma rollback_last_assistant_Inr:
  assumes "rollback_last_assistant cd chain = Inr (b', img, vid, dropped)"
    and ok: "buffer_ok (cs_buffer chain)"
  defines "n \<equiv> la_response_ids_len (cs_last_assistant_start chain)"
  shows "n \<le> length (tb_response_ids (cs_buffer chain))"
    and "dropped = sum_list (drop n (tb_response_mask (cs_buffer chain)))"
    and "buffer_ok b'"
    and "versions_ok (cs_buffer chain) \<Longrightarrow> versions_ok b'"
    and "tb_prompt_ids (cs_buffer chain) = tb_prompt_ids b' @ (if n = 0 then assistant_prefix cd else [])"
    and "take n (tb_response_ids (cs_buffer chain)) =
           tb_response_ids b' @ (if n = 0 then [] else assistant_prefix cd)"
    and "tb_response_mask b' = take (length (tb_response_ids b')) (tb_response_mask (cs_buffer chain))"
    and "tb_generation_versions b' = butlast (tb_generation_versions (cs_buffer chain))"
proof -
  from assms(1) have le: "n \<le> length (tb_response_ids (cs_buffer chain))"
    and strip: "strip_assistant_prefix cd n (truncate_buffer n (cs_buffer chain)) = Inr b'"
    and dr: "dropped = sum_list (drop n (tb_response_mask (cs_buffer chain)))"
    by (auto simp: rollback_last_assistant_def Let_def err_simps n_def)
  have tok: "buffer_ok (truncate_buffer n (cs_buffer chain))" by (rule buffer_ok_truncate [OF ok])
  note S = strip_assistant_prefix_Inr [OF strip]
  show "n \<le> length (tb_response_ids (cs_buffer chain))" by (rule le)
  show "dropped = sum_list (drop n (tb_response_mask (cs_buffer chain)))" by (rule dr)
  show "buffer_ok b'" by (rule S(6) [OF tok])
  show "versions_ok b'" if "versions_ok (cs_buffer chain)"
    using versions_ok_truncate [OF that, of n] S(3) by (simp add: versions_ok_def)
  show "tb_prompt_ids (cs_buffer chain) = tb_prompt_ids b' @ (if n = 0 then assistant_prefix cd else [])"
    using S(1) by (simp add: truncate_buffer_def)
  show resp: "take n (tb_response_ids (cs_buffer chain)) =
           tb_response_ids b' @ (if n = 0 then [] else assistant_prefix cd)"
    using S(2) by (simp add: truncate_buffer_def)
  have "length (tb_response_ids b') \<le> n"
    using arg_cong [OF resp, of length] le by simp
  then show "tb_response_mask b' = take (length (tb_response_ids b')) (tb_response_mask (cs_buffer chain))"
    using S(5) [OF tok] by (simp add: truncate_buffer_def min_def)
  show "tb_generation_versions b' = butlast (tb_generation_versions (cs_buffer chain))"
    using S(3) by (simp add: truncate_buffer_def)
qed

subsection \<open>Prefix hashes along a history\<close>

lemma chain_hashes_length: "chain_hashes cd p ms = Inr hs \<Longrightarrow> length hs = length ms"
  by (induction ms arbitrary: p hs) (auto simp: err_simps Let_def)

lemma chain_hashes_append:
  "chain_hashes cd p (xs @ ys) =
     rbind (chain_hashes cd p xs) (\<lambda>hs.
     rbind (chain_hashes cd (if hs = [] then p else last hs) ys) (\<lambda>hs'. Inr (hs @ hs')))"
proof (induction xs arbitrary: p)
  case Nil
  show ?case by (cases "chain_hashes cd p ys") auto
next
  case (Cons x xs)
  show ?case
  proof (cases "compute_message_hash cd x")
    case (Inr mh)
    let ?p = "prefix_hash cd p mh"
    show ?thesis
    proof (cases "chain_hashes cd ?p xs")
      case (Inr hs)
      then show ?thesis using Cons.IH [of ?p] \<open>compute_message_hash cd x = Inr mh\<close>
        by (cases "chain_hashes cd (if hs = [] then ?p else last hs) ys") (auto simp: Let_def)
    qed (use Cons.IH [of ?p] Inr in \<open>simp add: Let_def\<close>)
  qed simp
qed

abbreviation history_hashes :: "codec \<Rightarrow> dict list \<Rightarrow> string list result" where
  "history_hashes cd ms \<equiv> extend_message_prefix_hashes cd [] ms"

lemma history_hashes_eq: "history_hashes cd ms = chain_hashes cd (EMPTY_PREFIX_HASH cd) ms"
  by (cases "chain_hashes cd (EMPTY_PREFIX_HASH cd) ms") (auto simp: extend_message_prefix_hashes_def)

lemma history_hashes_length: "history_hashes cd ms = Inr hs \<Longrightarrow> length hs = length ms"
  by (simp add: history_hashes_eq chain_hashes_length)

lemma extend_history_hashes:
  assumes "history_hashes cd ms = Inr hs"
    and "extend_message_prefix_hashes cd hs new = Inr hs'"
  shows "history_hashes cd (ms @ new) = Inr hs'" and "\<exists>t. hs' = hs @ t \<and> length t = length new"
proof -
  from assms(2) obtain t where t: "chain_hashes cd (if hs \<noteq> [] then last hs else EMPTY_PREFIX_HASH cd) new = Inr t"
    "hs' = hs @ t"
    by (auto simp: extend_message_prefix_hashes_def err_simps)
  then show "history_hashes cd (ms @ new) = Inr hs'"
    using assms(1) by (auto simp: history_hashes_eq chain_hashes_append)
  show "\<exists>t. hs' = hs @ t \<and> length t = length new"
    using t chain_hashes_length by blast
qed

lemma py_index_last: "py_index xs (-1) = Inr t \<longleftrightarrow> xs \<noteq> [] \<and> t = last xs"
  by (auto simp: py_index_def Let_def last_conv_nth nat_diff_distrib Suc_le_eq split: if_splits)

subsection \<open>Chains and encoded requests\<close>

definition start_ok :: "last_assistant_start \<Rightarrow> trajectory_buffer \<Rightarrow> nat \<Rightarrow> string list \<Rightarrow> media \<Rightarrow> media \<Rightarrow> bool" where
  "start_ok la b n hs img vid \<longleftrightarrow>
     la_response_ids_len la \<le> length (tb_response_ids b) \<and> la_message_history_len la = n \<and> 0 < n \<and>
     n \<le> length hs \<and> la_tip_hash la = hs ! (n - 1) \<and>
     la_image_data_len la = media_len img \<and> la_video_data_len la = media_len vid"

definition chain_ok :: "codec \<Rightarrow> chain_state \<Rightarrow> bool" where
  "chain_ok cd c \<longleftrightarrow> buffer_ok (cs_buffer c) \<and> versions_ok (cs_buffer c) \<and>
     (\<exists>hs. history_hashes cd (cs_message_history c) = Inr hs \<and> cs_message_tip_hash c = last hs \<and>
        start_ok (cs_last_assistant_start c) (cs_buffer c) (length (cs_message_history c) - 1) hs
          (cs_image_data c) (cs_video_data c))"

definition enc_ok :: "codec \<Rightarrow> encoded_data \<Rightarrow> bool" where
  "enc_ok cd enc \<longleftrightarrow> buffer_ok (en_buffer enc) \<and> versions_ok (en_buffer enc) \<and>
     history_hashes cd (en_messages enc) = Inr (en_prefix_hashes enc) \<and>
     (\<forall>la. en_last_assistant_start enc = Some la \<longrightarrow>
        start_ok la (en_buffer enc) (length (en_messages enc)) (en_prefix_hashes enc)
          (en_image_data enc) (en_video_data enc))"

lemma encoded_of_Inr:
  assumes "encoded_of s rq hs cid rolled dropped b img vid ex = Inr enc"
  shows "en_buffer enc = b" "en_context_ids enc = tb_prompt_ids b @ tb_response_ids b"
    "en_messages enc = rq_messages rq" "en_tools enc = rq_tools rq" "en_image_data enc = img"
    "en_video_data enc = vid" "en_capacity_exhausted enc = ex" "en_chain_id enc = cid"
    "en_prefix_hashes enc = hs" "en_rollback_applied enc = rolled" "en_rollback_dropped enc = dropped"
    "\<not> ex \<Longrightarrow> hs \<noteq> [] \<and> en_last_assistant_start enc =
        Some (snapshot_last_assistant_start b (length (rq_messages rq)) img vid (last hs))"
    "ex \<Longrightarrow> en_last_assistant_start enc = None"
    "\<not> ex \<Longrightarrow> (case ss_trajectory_capacity s of
        None \<Rightarrow> en_sampling_params enc = rq_sampling_params rq
      | Some c \<Rightarrow> clamp_max_tokens (rq_sampling_params rq)
                    (c - int (length (en_context_ids enc))) = Inr (en_sampling_params enc))"
  using assms
  by (auto simp: encoded_of_def Let_def err_simps py_index_last split: if_splits option.splits)

lemma encoded_of_ok:
  assumes "encoded_of s rq hs cid rolled dropped b img vid ex = Inr enc"
    and "buffer_ok b" "versions_ok b" "history_hashes cd (rq_messages rq) = Inr hs"
  shows "enc_ok cd enc"
proof -
  note E = encoded_of_Inr [OF assms(1)]
  have len: "length hs = length (rq_messages rq)" by (rule history_hashes_length [OF assms(4)])
  show ?thesis
  proof (cases ex)
    case True
    then show ?thesis using E assms by (simp add: enc_ok_def)
  next
    case False
    with E(12) have "hs \<noteq> []" "en_last_assistant_start enc =
        Some (snapshot_last_assistant_start b (length (rq_messages rq)) img vid (last hs))" by simp_all
    then show ?thesis using E assms len
      by (auto simp: enc_ok_def start_ok_def snapshot_last_assistant_start_def last_conv_nth)
  qed
qed

subsection \<open>The result of a preparation\<close>

text \<open>How the working buffer of a request arises from the chain it continues.\<close>

definition continues :: "codec \<Rightarrow> chain_state \<Rightarrow> bool \<Rightarrow> trajectory_buffer \<Rightarrow> int \<Rightarrow> bool" where
  "continues cd c rollback b dropped \<longleftrightarrow>
     (let b0 = cs_buffer c; n = la_response_ids_len (cs_last_assistant_start c) in
      if \<not> rollback then
        dropped = 0 \<and> tb_prompt_ids b = tb_prompt_ids b0 \<and>
        (\<exists>ids. tb_response_ids b = tb_response_ids b0 @ ids \<and>
               tb_response_mask b = tb_response_mask b0 @ replicate (length ids) 0) \<and>
        tb_generation_versions b = tb_generation_versions b0
      else
        dropped = sum_list (drop n (tb_response_mask b0)) \<and>
        (\<exists>p r ids. tb_prompt_ids b0 = p @ (if n = 0 then assistant_prefix cd else []) \<and>
           take n (tb_response_ids b0) = r @ (if n = 0 then [] else assistant_prefix cd) \<and>
           tb_prompt_ids b = p \<and> tb_response_ids b = r @ ids \<and>
           tb_response_mask b = take (length r) (tb_response_mask b0) @ replicate (length ids) 0) \<and>
        tb_generation_versions b = butlast (tb_generation_versions b0))"

lemma resume_chain_Inr:
  assumes "resume_chain cd rq c rb = Inr (b, img, vid, dropped, inc)"
    and ok: "buffer_ok (cs_buffer c)" "versions_ok (cs_buffer c)"
  shows "buffer_ok b" "versions_ok b" "continues cd c rb b dropped"
    "inc = drop (if rb then la_message_history_len (cs_last_assistant_start c)
                 else length (cs_message_history c)) (rq_messages rq)"
proof -
  have "buffer_ok b \<and> versions_ok b \<and> continues cd c rb b dropped \<and>
    inc = drop (if rb then la_message_history_len (cs_last_assistant_start c)
                else length (cs_message_history c)) (rq_messages rq)"
  proof (cases rb)
    case True
    with assms(1) have r: "rollback_last_assistant cd c = Inr (b, img, vid, dropped)"
      and inc: "inc = drop (la_message_history_len (cs_last_assistant_start c)) (rq_messages rq)"
      by (auto simp: resume_chain_def err_simps)
    note R = rollback_last_assistant_Inr [OF r ok(1)]
    have "continues cd c True b dropped"
      unfolding continues_def Let_def using R by auto
    then show ?thesis using True R(3) R(4) [OF ok(2)] inc by simp
  next
    case False
    with assms show ?thesis
      by (auto simp: resume_chain_def err_simps continues_def Let_def)
  qed
  then show "buffer_ok b" "versions_ok b" "continues cd c rb b dropped"
    "inc = drop (if rb then la_message_history_len (cs_last_assistant_start c)
                 else length (cs_message_history c)) (rq_messages rq)" by blast+
qed

lemma continues_extend: "continues cd c rb b d \<Longrightarrow> continues cd c rb (extend_context lp ids b) d"
proof (cases rb)
  case False
  assume c: "continues cd c rb b d"
  with False obtain ids0 where "tb_response_ids b = tb_response_ids (cs_buffer c) @ ids0"
    "tb_response_mask b = tb_response_mask (cs_buffer c) @ replicate (length ids0) 0"
    by (auto simp: continues_def Let_def)
  then have "\<exists>x. tb_response_ids (extend_context lp ids b) = tb_response_ids (cs_buffer c) @ x \<and>
      tb_response_mask (extend_context lp ids b) = tb_response_mask (cs_buffer c) @ replicate (length x) 0"
    by (intro exI [of _ "ids0 @ ids"]) (simp add: extend_context_def replicate_add)
  with c False show ?thesis by (simp add: continues_def Let_def extend_context_def)
next
  case True
  assume c: "continues cd c rb b d"
  let ?n = "la_response_ids_len (cs_last_assistant_start c)"
  from c True obtain r ids0 where
    r: "take ?n (tb_response_ids (cs_buffer c)) = r @ (if ?n = 0 then [] else assistant_prefix cd)"
    "tb_response_ids b = r @ ids0"
    "tb_response_mask b = take (length r) (tb_response_mask (cs_buffer c)) @ replicate (length ids0) 0"
    by (auto simp: continues_def Let_def)
  then have "tb_response_ids (extend_context lp ids b) = r @ (ids0 @ ids) \<and>
      tb_response_mask (extend_context lp ids b) =
        take (length r) (tb_response_mask (cs_buffer c)) @ replicate (length (ids0 @ ids)) 0"
    by (simp add: extend_context_def replicate_add)
  with c True r(1) show ?thesis
    by (auto simp: continues_def Let_def extend_context_def replicate_add)
qed

lemma prepare_continue_Inr:
  assumes "prepare_continue cd s rq hs c rb = Inr enc"
    and "chain_ok cd c" "history_hashes cd (rq_messages rq) = Inr hs"
  shows "enc_ok cd enc" "en_chain_id enc = Some (cs_chain_id c)" "en_rollback_applied enc = rb"
    "continues cd c rb (en_buffer enc) (en_rollback_dropped enc)"
    "en_messages enc = rq_messages rq" "en_prefix_hashes enc = hs" "en_tools enc = rq_tools rq"
    "en_context_ids enc = tb_prompt_ids (en_buffer enc) @ tb_response_ids (en_buffer enc)"
    "\<not> en_capacity_exhausted enc \<Longrightarrow> en_last_assistant_start enc \<noteq> None"
    "\<not> en_capacity_exhausted enc \<Longrightarrow> \<not> over_capacity s (length (en_context_ids enc))"
proof -
  have cok: "buffer_ok (cs_buffer c)" "versions_ok (cs_buffer c)"
    using assms(2) by (simp_all add: chain_ok_def)
  from assms(1) obtain b img vid dropped inc where
    R: "resume_chain cd rq c rb = Inr (b, img, vid, dropped, inc)" and
    rest: "rbind (encode_suffix cd s b inc) (\<lambda>(new_image, new_video, ids, exhausted).
       if exhausted then
         encoded_of s rq hs (Some (cs_chain_id c)) rb dropped b img vid True
       else
         (let b' = extend_context (wants_logprobs (rq_sampling_params rq)) ids b in
          rbind (assert_alignment b') (\<lambda>_.
            encoded_of s rq hs (Some (cs_chain_id c)) rb dropped b'
              (extend_media img new_image) (extend_media vid new_video) False))) = Inr enc"
    by (auto simp: prepare_continue_def err_simps)
  note B = resume_chain_Inr [OF R cok]
  from rest obtain ni nv ids ex where
    S: "encode_suffix cd s b inc = Inr (ni, nv, ids, ex)" and
    fin: "(if ex then encoded_of s rq hs (Some (cs_chain_id c)) rb dropped b img vid True
       else (let b' = extend_context (wants_logprobs (rq_sampling_params rq)) ids b in
          rbind (assert_alignment b') (\<lambda>_.
            encoded_of s rq hs (Some (cs_chain_id c)) rb dropped b'
              (extend_media img ni) (extend_media vid nv) False))) = Inr enc"
    by (auto simp: err_simps)
  have cap: "\<not> ex \<Longrightarrow> \<not> over_capacity s (length (tb_prompt_ids b) + length (tb_response_ids b) + length ids)"
    using S by (auto simp: encode_suffix_def Let_def err_simps split: if_splits)
  obtain b' img' vid' where
    E: "encoded_of s rq hs (Some (cs_chain_id c)) rb dropped b' img' vid' ex = Inr enc" and
    b'ok: "buffer_ok b'" "versions_ok b'" "continues cd c rb b' dropped" and
    b'cap: "\<not> ex \<Longrightarrow> \<not> over_capacity s (length (tb_prompt_ids b' @ tb_response_ids b'))"
  proof (cases ex)
    case True
    then show thesis using fin B that [of b img vid] by simp
  next
    case False
    let ?b = "extend_context (wants_logprobs (rq_sampling_params rq)) ids b"
    from False fin have al: "logprobs_aligned ?b" and
      e: "encoded_of s rq hs (Some (cs_chain_id c)) rb dropped ?b (extend_media img ni)
            (extend_media vid nv) False = Inr enc"
      by (auto simp: Let_def err_simps)
    show thesis
    proof (rule that [of ?b "extend_media img ni" "extend_media vid nv"])
      show "encoded_of s rq hs (Some (cs_chain_id c)) rb dropped ?b (extend_media img ni)
              (extend_media vid nv) ex = Inr enc" using e False by simp
      show "buffer_ok ?b" by (rule buffer_ok_extend [OF B(1) al])
      show "versions_ok ?b" using B(2) by simp
      show "continues cd c rb ?b dropped" by (rule continues_extend [OF B(3)])
      show "\<not> over_capacity s (length (tb_prompt_ids ?b @ tb_response_ids ?b))"
        using cap [OF False] by (simp add: extend_context_def add.assoc)
    qed
  qed
  note EI = encoded_of_Inr [OF E]
  show "enc_ok cd enc" by (rule encoded_of_ok [OF E b'ok(1,2) assms(3)])
  show "en_chain_id enc = Some (cs_chain_id c)" "en_rollback_applied enc = rb"
    "en_messages enc = rq_messages rq" "en_prefix_hashes enc = hs" "en_tools enc = rq_tools rq"
    "en_context_ids enc = tb_prompt_ids (en_buffer enc) @ tb_response_ids (en_buffer enc)"
    using EI by simp_all
  show "continues cd c rb (en_buffer enc) (en_rollback_dropped enc)" using EI b'ok by simp
  show "en_last_assistant_start enc \<noteq> None" if "\<not> en_capacity_exhausted enc"
    using EI(7,12) that by simp
  show "\<not> over_capacity s (length (en_context_ids enc))" if "\<not> en_capacity_exhausted enc"
    using EI(2,7) b'cap that by simp
qed

lemma prepare_fresh_Inr:
  assumes "prepare_fresh cd s rq hs = Inr enc" "history_hashes cd (rq_messages rq) = Inr hs"
  shows "enc_ok cd enc" "en_chain_id enc = None" "\<not> en_rollback_applied enc"
    "\<exists>ids. en_buffer enc = new_buffer ids" "en_messages enc = rq_messages rq"
    "en_prefix_hashes enc = hs" "en_tools enc = rq_tools rq" "en_rollback_dropped enc = 0"
    "en_context_ids enc = tb_prompt_ids (en_buffer enc) @ tb_response_ids (en_buffer enc)"
    "\<not> en_capacity_exhausted enc \<Longrightarrow> en_last_assistant_start enc \<noteq> None"
    "\<not> en_capacity_exhausted enc \<Longrightarrow> \<not> over_capacity s (length (en_context_ids enc))"
proof -
  from assms(1) obtain ids img vid where
    E: "encoded_of s rq hs None False 0 (new_buffer ids) img vid (over_capacity s (length ids)) = Inr enc"
    by (auto simp: prepare_fresh_def err_simps)
  note EI = encoded_of_Inr [OF E]
  show "enc_ok cd enc" by (rule encoded_of_ok [OF E _ _ assms(2)]) simp_all
  show "en_chain_id enc = None" "\<not> en_rollback_applied enc" "\<exists>ids. en_buffer enc = new_buffer ids"
    "en_messages enc = rq_messages rq" "en_prefix_hashes enc = hs" "en_tools enc = rq_tools rq"
    "en_rollback_dropped enc = 0"
    "en_context_ids enc = tb_prompt_ids (en_buffer enc) @ tb_response_ids (en_buffer enc)"
    using EI by auto
  show "en_last_assistant_start enc \<noteq> None" if "\<not> en_capacity_exhausted enc"
    using EI(7,12) that by simp
  show "\<not> over_capacity s (length (en_context_ids enc))" if "\<not> en_capacity_exhausted enc"
    using EI(2,7) that by (simp add: new_buffer_def)
qed

end
