(* ===== verification/SessionSafe.thy ===== *)
theory SessionSafe
  imports SessionInv
begin

text \<open>
  The session invariant and its preservation by every locked section, together with the frame
  facts used by the interleaving argument: a reserved chain is left alone by everyone but its
  owner.
\<close>

subsection \<open>Positions in the chain list\<close>

lemma find_chain_Some:
  "find_chain k cs cid = Some (i, c) \<Longrightarrow>
     k \<le> i \<and> i - k < length cs \<and> cs ! (i - k) = c \<and> cs_chain_id c = cid"
proof (induction cs arbitrary: k)
  case (Cons x xs)
  show ?case
  proof (cases "cs_chain_id x = cid")
    case False
    with Cons.prems have "find_chain (Suc k) xs cid = Some (i, c)" by simp
    from Cons.IH [OF this] show ?thesis by (auto simp: nth_Cons' Suc_diff_le)
  qed (use Cons.prems in auto)
qed simp

lemma find_chain_None: "find_chain k cs cid = None \<longleftrightarrow> cid \<notin> cs_chain_id ` set cs"
  by (induction cs arbitrary: k) auto

lemma find_active_chain_Inr:
  "find_active_chain s cid = Inr (i, c) \<Longrightarrow>
     i < length (ss_active_chains s) \<and> ss_active_chains s ! i = c \<and> cs_chain_id c = cid"
  by (auto simp: find_active_chain_def split: option.splits dest: find_chain_Some)

lemma find_active_chain_total:
  assumes "cid \<in> cs_chain_id ` set (ss_active_chains s)"
  shows "\<exists>i c. find_active_chain s cid = Inr (i, c)"
proof -
  have "find_chain 0 (ss_active_chains s) cid \<noteq> None" using assms by (simp add: find_chain_None)
  then show ?thesis by (auto simp: find_active_chain_def split: option.splits)
qed

lemma distinct_id_eq:
  "distinct (map cs_chain_id cs) \<Longrightarrow> c \<in> set cs \<Longrightarrow> c' \<in> set cs \<Longrightarrow> cs_chain_id c = cs_chain_id c' \<Longrightarrow> c = c'"
  by (auto simp: distinct_map inj_on_def)

lemma find_active_chain_unique:
  assumes "distinct (map cs_chain_id (ss_active_chains s))" "c \<in> set (ss_active_chains s)"
  shows "\<exists>i. find_active_chain s (cs_chain_id c) = Inr (i, c)"
proof -
  obtain i c' where f: "find_active_chain s (cs_chain_id c) = Inr (i, c')"
    using find_active_chain_total assms(2) by (metis image_eqI)
  from find_active_chain_Inr [OF f] have "c' \<in> set (ss_active_chains s)" "cs_chain_id c' = cs_chain_id c"
    by auto
  with assms have "c' = c" by (metis distinct_id_eq)
  with f show ?thesis by blast
qed

lemma set_del_at: "set (del_at i xs) \<subseteq> set xs"
  by (auto simp: del_at_def dest: in_set_takeD in_set_dropD)

lemma map_del_at: "map f (del_at i xs) = del_at i (map f xs)"
  by (simp add: del_at_def take_map drop_map)

lemma distinct_del_at: "distinct xs \<Longrightarrow> distinct (del_at i xs)"
proof -
  assume d: "distinct xs"
  have "set (take i xs) \<inter> set (drop (Suc i) xs) \<subseteq> set (take i xs) \<inter> set (drop i xs)"
    using set_drop_subset_set_drop [of i "Suc i" xs] by auto
  also have "\<dots> = {}" using d by (simp add: set_take_disj_set_drop_if_distinct)
  finally show ?thesis using d by (auto simp: del_at_def distinct_take distinct_drop)
qed

lemma in_del_at: "x \<in> set xs \<Longrightarrow> i < length xs \<Longrightarrow> x \<noteq> xs ! i \<Longrightarrow> x \<in> set (del_at i xs)"
  by (metis Un_iff append_take_drop_id Cons_nth_drop_Suc del_at_def set_ConsD set_append)

lemma nth_notin_del_at:
  assumes "distinct xs" "i < length xs"
  shows "xs ! i \<notin> set (del_at i xs)"
proof -
  have "distinct (take i xs @ xs ! i # drop (Suc i) xs)"
    using assms(1) id_take_nth_drop [OF assms(2)] by simp
  then show ?thesis by (simp add: del_at_def)
qed

subsection \<open>Materialising is total on well-formed chains\<close>

definition traj_ok :: "trajectory \<Rightarrow> bool" where
  "traj_ok t \<longleftrightarrow> length (tr_response_mask t) = length (tr_response_ids t) \<and>
     set (tr_response_mask t) \<subseteq> {0, 1} \<and>
     (\<forall>lps. tr_response_logprobs t = Some lps \<longrightarrow> length lps = length (tr_response_ids t))"

lemma max_versions_total: "None \<notin> set ms \<Longrightarrow> \<exists>hi. max_versions ms = Inr hi"
  by (auto simp: max_versions_def)

lemma version_span_total: "versions_ok b \<Longrightarrow> \<exists>d. version_span (tb_generation_versions b) = Inr d"
proof -
  assume ok: "versions_ok b"
  let ?marks = "filter (\<lambda>m. fst m \<noteq> None) (tb_generation_versions b)"
  have "None \<notin> set (map snd ?marks)" using ok by (auto simp: versions_ok_def)
  from max_versions_total [OF this] obtain hi where "max_versions (map snd ?marks) = Inr hi" by blast
  then show ?thesis by (simp add: version_span_def Let_def)
qed

lemma build_materialized_trajectory_total:
  assumes "buffer_ok (cs_buffer c)" "versions_ok (cs_buffer c)"
  shows "\<exists>t. build_materialized_trajectory c extra = Inr t \<and> traj_ok t \<and>
    tr_prompt_ids t = tb_prompt_ids (cs_buffer c) \<and> tr_response_ids t = tb_response_ids (cs_buffer c) \<and>
    tr_response_mask t = tb_response_mask (cs_buffer c)"
proof -
  obtain d where "version_span (tb_generation_versions (cs_buffer c)) = Inr d"
    using version_span_total [OF assms(2)] by blast
  then show ?thesis using assms(1)
    by (auto simp: build_materialized_trajectory_def Let_def buffer_ok_aligned traj_ok_def
          buffer_ok_def logprobs_aligned_def)
qed

subsection \<open>The invariant\<close>

definition session_inv :: "codec \<Rightarrow> session \<Rightarrow> bool" where
  "session_inv cd s \<longleftrightarrow>
     distinct (map cs_chain_id (ss_active_chains s)) \<and>
     (\<forall>c \<in> set (ss_active_chains s). cs_chain_id c < ss_next_chain_id s \<and> chain_ok cd c) \<and>
     ss_reserved_chain_ids s \<subseteq> cs_chain_id ` set (ss_active_chains s) \<and>
     distinct (map mc_order_seq (ss_materialized_chains s) @ map cs_updated_seq (ss_active_chains s)) \<and>
     (\<forall>q \<in> set (map mc_order_seq (ss_materialized_chains s) @ map cs_updated_seq (ss_active_chains s)).
        q \<le> ss_order_seq s) \<and>
     (\<forall>m \<in> set (ss_materialized_chains s). traj_ok (mc_trajectory m)) \<and>
     (ss_phase s \<noteq> ACTIVE \<longrightarrow> ss_active_chains s = []) \<and>
     (ss_phase s = ABORTED \<longrightarrow> ss_materialized_chains s = [])"

lemma session_invD:
  assumes "session_inv cd s"
  shows "distinct (map cs_chain_id (ss_active_chains s))"
    and "c \<in> set (ss_active_chains s) \<Longrightarrow> cs_chain_id c < ss_next_chain_id s"
    and "c \<in> set (ss_active_chains s) \<Longrightarrow> chain_ok cd c"
    and "ss_reserved_chain_ids s \<subseteq> cs_chain_id ` set (ss_active_chains s)"
    and "distinct (map mc_order_seq (ss_materialized_chains s) @ map cs_updated_seq (ss_active_chains s))"
  using assms by (auto simp: session_inv_def)

lemma session_inv_touch [simp]: "session_inv cd (touch now s) = session_inv cd s"
  by (simp add: session_inv_def touch_def)

lemma touch_simps [simp]:
  "ss_active_chains (touch now s) = ss_active_chains s" "ss_phase (touch now s) = ss_phase s"
  "ss_reserved_chain_ids (touch now s) = ss_reserved_chain_ids s"
  "ss_materialized_chains (touch now s) = ss_materialized_chains s"
  "ss_reward_info (touch now s) = ss_reward_info s" "ss_handle (touch now s) = ss_handle s"
  "ss_trajectory_capacity (touch now s) = ss_trajectory_capacity s"
  by (simp_all add: touch_def)

lemma session_inv_stats [simp]: "session_inv cd (record_rollback_stats enc s) = session_inv cd s"
  by (simp add: session_inv_def record_rollback_stats_def)

lemma stats_simps [simp]:
  "ss_active_chains (record_rollback_stats enc s) = ss_active_chains s"
  "ss_phase (record_rollback_stats enc s) = ss_phase s"
  "ss_reserved_chain_ids (record_rollback_stats enc s) = ss_reserved_chain_ids s"
  "ss_materialized_chains (record_rollback_stats enc s) = ss_materialized_chains s"
  "ss_order_seq (record_rollback_stats enc s) = ss_order_seq s"
  "ss_next_chain_id (record_rollback_stats enc s) = ss_next_chain_id s"
  "ss_trajectory_capacity (record_rollback_stats enc s) = ss_trajectory_capacity s"
  by (simp_all add: record_rollback_stats_def)

lemma find_active_chain_stats [simp]:
  "find_active_chain (record_rollback_stats enc s) cid = find_active_chain s cid"
  by (simp add: find_active_chain_def)

lemma new_session_inv: "new_session h p r sp rb now = Inr s \<Longrightarrow> session_inv cd s"
  by (auto simp: new_session_def session_inv_def split: if_splits)

lemma session_inv_unreserve:
  "session_inv cd s \<Longrightarrow> session_inv cd (s\<lparr>ss_reserved_chain_ids := ss_reserved_chain_ids s - X\<rparr>)"
  by (auto simp: session_inv_def)

lemma session_inv_discard: "session_inv cd s \<Longrightarrow> session_inv cd (discard_reservation cid s)"
  by (auto simp: discard_reservation_def session_inv_unreserve split: option.splits)

lemma session_inv_remove_chain:
  assumes "session_inv cd s" "i < length (ss_active_chains s)"
    "cs_chain_id (ss_active_chains s ! i) \<notin> ss_reserved_chain_ids s"
  shows "session_inv cd (s\<lparr>ss_active_chains := del_at i (ss_active_chains s)\<rparr>)"
proof -
  let ?A = "ss_active_chains s"
  have sub: "set (del_at i ?A) \<subseteq> set ?A" by (rule set_del_at)
  have res: "ss_reserved_chain_ids s \<subseteq> cs_chain_id ` set (del_at i ?A)"
  proof
    fix c
    assume c: "c \<in> ss_reserved_chain_ids s"
    then obtain x where x: "x \<in> set ?A" "cs_chain_id x = c"
      using session_invD(4) [OF assms(1)] by blast
    with assms(3) c have "x \<noteq> ?A ! i" by auto
    with x assms(2) have "x \<in> set (del_at i ?A)" by (intro in_del_at)
    with x show "c \<in> cs_chain_id ` set (del_at i ?A)" by blast
  qed
  have ids: "distinct (map cs_chain_id (del_at i ?A))" and upd: "distinct (map cs_updated_seq (del_at i ?A))"
    using assms(1) by (simp_all add: session_inv_def map_del_at distinct_del_at)
  have seqs: "set (map cs_updated_seq (del_at i ?A)) \<subseteq> set (map cs_updated_seq ?A)"
    using sub by auto
  have dist: "distinct (map mc_order_seq (ss_materialized_chains s) @ map cs_updated_seq (del_at i ?A))"
    using session_invD(5) [OF assms(1)] upd seqs by (simp only: distinct_append) blast
  have bound: "\<forall>q \<in> set (map mc_order_seq (ss_materialized_chains s) @ map cs_updated_seq (del_at i ?A)).
      q \<le> ss_order_seq s"
    using assms(1) seqs unfolding session_inv_def set_append by blast
  have ne: "ss_phase s = ACTIVE" using assms(1,2) by (auto simp: session_inv_def)
  show ?thesis unfolding session_inv_def
    using ids res dist bound ne sub assms(1) by (simp add: session_inv_def subset_iff)
qed

lemma session_inv_materialize:
  assumes "session_inv cd s" "traj_ok t" "ss_phase s = ACTIVE"
  shows "session_inv cd (s\<lparr>ss_order_seq := Suc (ss_order_seq s), ss_materialized_chains :=
           ss_materialized_chains s @ [\<lparr>mc_trajectory = t, mc_order_seq = Suc (ss_order_seq s)\<rparr>]\<rparr>)"
proof -
  let ?seqs = "map mc_order_seq (ss_materialized_chains s) @ map cs_updated_seq (ss_active_chains s)"
  have "Suc (ss_order_seq s) \<notin> set ?seqs"
    using assms(1) unfolding session_inv_def by (meson Suc_n_not_le_n)
  then show ?thesis using assms unfolding session_inv_def
    by (simp add: le_SucI disjoint_iff image_iff)
qed

subsection \<open>Preparing and beginning\<close>

lemma prepare_Inr:
  assumes "prepare_generation_inputs cd s rq = Inr enc" "session_inv cd s"
  obtains (fresh) hs where "history_hashes cd (rq_messages rq) = Inr hs"
      "prepare_fresh cd s rq hs = Inr enc" "select_chain s (rq_tools rq) hs = None"
  | (continue) hs c rb where "history_hashes cd (rq_messages rq) = Inr hs"
      "select_chain s (rq_tools rq) hs = Some (c, rb)" "c \<in> set (ss_active_chains s)"
      "chain_ok cd c" "prepare_continue cd s rq hs c rb = Inr enc"
proof -
  from assms(1) obtain hs where hs: "history_hashes cd (rq_messages rq) = Inr hs" and
    r: "(case select_chain s (rq_tools rq) hs of
         None \<Rightarrow> prepare_fresh cd s rq hs
       | Some (chain, rollback) \<Rightarrow> prepare_continue cd s rq hs chain rollback) = Inr enc"
    by (auto simp: prepare_generation_inputs_def err_simps)
  show thesis
  proof (cases "select_chain s (rq_tools rq) hs")
    case None
    with hs r show thesis by (intro fresh) auto
  next
    case (Some p)
    then obtain c rb where sel: "select_chain s (rq_tools rq) hs = Some (c, rb)" by (cases p) auto
    then have "c \<in> set (ss_active_chains s)" by (rule select_chain_in)
    with assms(2) have "chain_ok cd c" by (rule session_invD(3))
    with hs sel r \<open>c \<in> set (ss_active_chains s)\<close> show thesis by (intro continue) auto
  qed
qed

lemma prepare_enc_ok:
  assumes "prepare_generation_inputs cd s rq = Inr enc" "session_inv cd s"
  shows "enc_ok cd enc" "en_messages enc = rq_messages rq" "en_tools enc = rq_tools rq"
    "\<not> en_capacity_exhausted enc \<Longrightarrow> en_last_assistant_start enc \<noteq> None"
    "\<not> en_capacity_exhausted enc \<Longrightarrow> \<not> over_capacity s (length (en_context_ids enc))"
    "en_context_ids enc = tb_prompt_ids (en_buffer enc) @ tb_response_ids (en_buffer enc)"
    "en_chain_id enc = None \<Longrightarrow> \<not> en_rollback_applied enc"
proof -
  from assms have "enc_ok cd enc \<and> en_messages enc = rq_messages rq \<and> en_tools enc = rq_tools rq \<and>
    (\<not> en_capacity_exhausted enc \<longrightarrow> en_last_assistant_start enc \<noteq> None) \<and>
    (\<not> en_capacity_exhausted enc \<longrightarrow> \<not> over_capacity s (length (en_context_ids enc))) \<and>
    en_context_ids enc = tb_prompt_ids (en_buffer enc) @ tb_response_ids (en_buffer enc) \<and>
    (en_chain_id enc = None \<longrightarrow> \<not> en_rollback_applied enc)"
  proof (cases rule: prepare_Inr)
    case (fresh hs)
    show ?thesis using prepare_fresh_Inr [OF fresh(2,1)] by simp
  next
    case (continue hs c rb)
    show ?thesis using prepare_continue_Inr [OF continue(5,4,1)] by simp
  qed
  then show "enc_ok cd enc" "en_messages enc = rq_messages rq" "en_tools enc = rq_tools rq"
    "\<not> en_capacity_exhausted enc \<Longrightarrow> en_last_assistant_start enc \<noteq> None"
    "\<not> en_capacity_exhausted enc \<Longrightarrow> \<not> over_capacity s (length (en_context_ids enc))"
    "en_context_ids enc = tb_prompt_ids (en_buffer enc) @ tb_response_ids (en_buffer enc)"
    "en_chain_id enc = None \<Longrightarrow> \<not> en_rollback_applied enc"
    by blast+
qed

lemma prepare_chain_id:
  assumes "prepare_generation_inputs cd s rq = Inr enc" "session_inv cd s" "en_chain_id enc = Some cid"
  obtains c where "c \<in> set (ss_active_chains s)" "cs_chain_id c = cid"
    "cid \<notin> ss_reserved_chain_ids s" "chain_ok cd c"
    "continues cd c (en_rollback_applied enc) (en_buffer enc) (en_rollback_dropped enc)"
    "select_chain s (rq_tools rq) (en_prefix_hashes enc) = Some (c, en_rollback_applied enc)"
  using assms(1,2)
proof (cases rule: prepare_Inr)
  case (fresh hs)
  with prepare_fresh_Inr [OF fresh(2,1)] assms(3) show ?thesis by simp
next
  case (continue hs c rb)
  note P = prepare_continue_Inr [OF continue(5,4,1)]
  show ?thesis
  proof (rule that [of c])
    show "cs_chain_id c = cid" using P assms(3) by simp
    then show "cid \<notin> ss_reserved_chain_ids s" using select_chain_unreserved [OF continue(2)] by simp
  qed (use P continue in simp_all)
qed

lemma close_length_exhausted_ok:
  assumes inv: "session_inv cd s" and act: "ss_phase s = ACTIVE"
    and prep: "prepare_generation_inputs cd s rq = Inr enc" and cid: "en_chain_id enc = Some cid"
  shows "\<exists>s'. close_length_exhausted_chain enc s = (s', Inr ()) \<and> session_inv cd s' \<and>
    ss_phase s' = ACTIVE \<and> ss_reserved_chain_ids s' = ss_reserved_chain_ids s \<and>
    set (ss_active_chains s') = {c \<in> set (ss_active_chains s). cs_chain_id c \<noteq> cid} \<and>
    ss_trajectory_capacity s' = ss_trajectory_capacity s"
proof -
  from prepare_chain_id [OF prep inv cid] obtain c where
    c: "c \<in> set (ss_active_chains s)" "cs_chain_id c = cid" "cid \<notin> ss_reserved_chain_ids s" "chain_ok cd c"
    and sel: "select_chain s (rq_tools rq) (en_prefix_hashes enc) = Some (c, en_rollback_applied enc)"
    by blast
  note d = session_invD(1) [OF inv]
  obtain i where f: "find_active_chain s cid = Inr (i, c)"
    using find_active_chain_unique [OF d c(1)] c(2) by blast
  note i = find_active_chain_Inr [OF f]
  have act': "set (del_at i (ss_active_chains s)) = {c \<in> set (ss_active_chains s). cs_chain_id c \<noteq> cid}"
  proof -
    have "x \<in> set (del_at i (ss_active_chains s)) \<Longrightarrow> cs_chain_id x \<noteq> cid" for x
      using nth_notin_del_at [of "ss_active_chains s" i] set_del_at [of i "ss_active_chains s"] i d c
      by (metis distinct_id_eq distinct_map subsetD)
    moreover have "x \<in> set (ss_active_chains s) \<Longrightarrow> cs_chain_id x \<noteq> cid \<Longrightarrow> x \<in> set (del_at i (ss_active_chains s))" for x
      using i by (intro in_del_at) auto
    ultimately show ?thesis using set_del_at by fast
  qed
  show ?thesis
  proof (cases "en_rollback_applied enc \<and> la_response_ids_len (cs_last_assistant_start c) = 0")
    case True
    let ?s1 = "record_rollback_stats enc s"
    have "session_inv cd (?s1\<lparr>ss_active_chains := del_at i (ss_active_chains ?s1)\<rparr>)"
      by (rule session_inv_remove_chain) (use inv i c in auto)
    then show ?thesis using True f cid act act'
      by (simp add: close_length_exhausted_chain_def Let_def)
  next
    case False
    have eok: "enc_ok cd enc" by (rule prepare_enc_ok(1) [OF prep inv])
    have "\<exists>c'. chain_to_materialize enc c = Inr c' \<and> buffer_ok (cs_buffer c') \<and> versions_ok (cs_buffer c')"
    proof (cases "en_rollback_applied enc")
      case True
      have "is_eligible s (rq_tools rq) (en_prefix_hashes enc) c" by (rule select_chain_eligible [OF sel])
      moreover have "0 < la_message_history_len (cs_last_assistant_start c)"
        using c(4) by (auto simp: chain_ok_def start_ok_def)
      ultimately have "\<exists>t. py_index (en_prefix_hashes enc) (int (la_message_history_len (cs_last_assistant_start c)) - 1) = Inr t"
        by (auto simp: is_eligible_def Let_def py_index_def)
      then show ?thesis using True eok by (auto simp: chain_to_materialize_def Let_def enc_ok_def)
    next
      case False
      then show ?thesis using c(4) by (simp add: chain_to_materialize_def chain_ok_def)
    qed
    then obtain c' where c': "chain_to_materialize enc c = Inr c'" "buffer_ok (cs_buffer c')" "versions_ok (cs_buffer c')"
      by blast
    obtain t where t: "build_materialized_trajectory c'
        [(''materialization_reason'', PStr ''max_trajectory_length'')] = Inr t" "traj_ok t"
      using build_materialized_trajectory_total [OF c'(2,3)] by blast
    let ?s2 = "s\<lparr>ss_order_seq := Suc (ss_order_seq s), ss_materialized_chains :=
           ss_materialized_chains s @ [\<lparr>mc_trajectory = t, mc_order_seq = Suc (ss_order_seq s)\<rparr>]\<rparr>"
    let ?s3 = "record_rollback_stats enc ?s2"
    have "session_inv cd ?s2" by (rule session_inv_materialize [OF inv t(2) act])
    then have "session_inv cd (?s3\<lparr>ss_active_chains := del_at i (ss_active_chains ?s3)\<rparr>)"
      by (intro session_inv_remove_chain) (use i c in auto)
    moreover have "close_length_exhausted_chain enc s =
       (?s3\<lparr>ss_active_chains := del_at i (ss_active_chains ?s3)\<rparr>, Inr ())"
      using False f cid c'(1) t(1)
      by (auto simp: close_length_exhausted_chain_def Let_def next_order_seq_def)
    ultimately show ?thesis using act act' by simp
  qed
qed

end
