(* ===== verification/SessionSteps.thy ===== *)
theory SessionSteps
  imports SessionSafe
begin

text \<open>
  Concurrent requests on one session.  A state of the system is the session and the requests in
  flight; a step is one locked section, or a failure between two of them.  The invariant says
  who owns a reservation; from it follow exclusive use of chains, commits that always find their
  chain, and that no reservation is leaked.
\<close>

subsection \<open>Recording and committing\<close>

definition paired :: "backend_output \<Rightarrow> bool" where
  "paired out \<longleftrightarrow> (bo_min_global_steps out = None) = (bo_max_global_steps out = None)"

lemma record_output_Inr:
  assumes "record_output enc out = Inr enc'"
  shows "tb_prompt_ids (en_buffer enc') = tb_prompt_ids (en_buffer enc)"
    "tb_response_ids (en_buffer enc') = tb_response_ids (en_buffer enc) @ bo_token_ids out"
    "tb_response_mask (en_buffer enc') =
       tb_response_mask (en_buffer enc) @ replicate (length (bo_token_ids out)) 1"
    "tb_generation_versions (en_buffer enc') =
       tb_generation_versions (en_buffer enc) @ [(bo_min_global_steps out, bo_max_global_steps out)]"
    "logprobs_aligned (en_buffer enc')" "en_chain_id enc' = en_chain_id enc"
    "en_messages enc' = en_messages enc" "en_prefix_hashes enc' = en_prefix_hashes enc"
    "en_last_assistant_start enc' = en_last_assistant_start enc" "en_image_data enc' = en_image_data enc"
    "en_video_data enc' = en_video_data enc" "en_tools enc' = en_tools enc"
    "en_context_ids enc' = en_context_ids enc" "en_rollback_applied enc' = en_rollback_applied enc"
    "en_rollback_dropped enc' = en_rollback_dropped enc"
  using assms
  by (auto simp: record_output_def record_logprobs_def append_output_def err_simps logprobs_aligned_def
      split: if_splits option.splits)

lemma record_output_ok:
  assumes "record_output enc out = Inr enc'" "enc_ok cd enc" "paired out"
  shows "enc_ok cd enc'"
  using record_output_Inr [OF assms(1)] assms(2,3)
  by (auto simp: enc_ok_def buffer_ok_def versions_ok_def paired_def start_ok_def)

lemma committed_chain_simps [simp]:
  "cs_chain_id (committed_chain enc h tip la cid seq) = cid"
  "cs_message_history (committed_chain enc h tip la cid seq) = h"
  "cs_buffer (committed_chain enc h tip la cid seq) = en_buffer enc"
  "cs_updated_seq (committed_chain enc h tip la cid seq) = seq"
  by (simp_all add: committed_chain_def)

lemma committed_chain_ok:
  assumes "enc_ok cd enc" "en_last_assistant_start enc = Some la"
    "extend_message_prefix_hashes cd (en_prefix_hashes enc) [msg] = Inr hs'"
  shows "chain_ok cd (committed_chain enc (en_messages enc @ [msg]) (last hs') la cid seq)"
proof -
  have H: "history_hashes cd (en_messages enc) = Inr (en_prefix_hashes enc)"
    using assms(1) by (simp add: enc_ok_def)
  obtain t where t: "hs' = en_prefix_hashes enc @ t"
    using extend_history_hashes(2) [OF H assms(3)] by blast
  have st: "start_ok la (en_buffer enc) (length (en_messages enc)) (en_prefix_hashes enc)
      (en_image_data enc) (en_video_data enc)"
    using assms(1,2) by (simp add: enc_ok_def)
  then have "length (en_messages enc) - 1 < length (en_prefix_hashes enc)"
    unfolding start_ok_def by linarith
  with st have "start_ok la (en_buffer enc) (length (en_messages enc)) hs'
      (en_image_data enc) (en_video_data enc)"
    by (simp add: start_ok_def t nth_append)
  moreover have "history_hashes cd (en_messages enc @ [msg]) = Inr hs'"
    by (rule extend_history_hashes(1) [OF H assms(3)])
  ultimately show ?thesis using assms(1)
    by (simp add: chain_ok_def committed_chain_def enc_ok_def)
qed

lemma session_inv_append_chain:
  assumes "session_inv cd s" "ss_phase s = ACTIVE" "chain_ok cd c"
    "cs_chain_id c = ss_next_chain_id s" "cs_updated_seq c = Suc (ss_order_seq s)"
  shows "session_inv cd (s\<lparr>ss_order_seq := Suc (ss_order_seq s), ss_next_chain_id := Suc (ss_next_chain_id s),
           ss_active_chains := ss_active_chains s @ [c]\<rparr>)"
proof -
  have a: "cs_chain_id c \<notin> cs_chain_id ` set (ss_active_chains s)"
    using session_invD(2) [OF assms(1)] assms(4) by fastforce
  have b: "Suc (ss_order_seq s) \<notin>
      set (map mc_order_seq (ss_materialized_chains s) @ map cs_updated_seq (ss_active_chains s))"
    using assms(1) unfolding session_inv_def by (meson Suc_n_not_le_n)
  show ?thesis using assms a b unfolding session_inv_def
    by (auto simp: le_SucI less_SucI)
qed

lemma session_inv_replace_chain:
  assumes "session_inv cd s" "ss_phase s = ACTIVE" "chain_ok cd c" "i < length (ss_active_chains s)"
    "cs_chain_id c = cs_chain_id (ss_active_chains s ! i)" "cs_updated_seq c = Suc (ss_order_seq s)"
  shows "session_inv cd (s\<lparr>ss_order_seq := Suc (ss_order_seq s),
           ss_active_chains := (ss_active_chains s)[i := c]\<rparr>)"
proof -
  let ?A = "ss_active_chains s"
  have ids: "map cs_chain_id (?A[i := c]) = map cs_chain_id ?A"
    using assms(4,5) by (simp add: map_update list_update_same_conv)
  have img: "cs_chain_id ` set (?A[i := c]) = cs_chain_id ` set ?A"
    using ids by (metis list.set_map)
  have fresh: "Suc (ss_order_seq s) \<notin>
      set (map mc_order_seq (ss_materialized_chains s) @ map cs_updated_seq ?A)"
    using assms(1) unfolding session_inv_def by (meson Suc_n_not_le_n)
  have dA: "distinct (map cs_updated_seq (?A[i := c]))"
    using session_invD(5) [OF assms(1)] fresh assms(6)
    by (simp add: map_update distinct_list_update)
  have sub: "set (map cs_updated_seq (?A[i := c])) \<subseteq> insert (Suc (ss_order_seq s)) (set (map cs_updated_seq ?A))"
    using assms(6) set_update_subset_insert [of "map cs_updated_seq ?A" i] by (simp add: map_update)
  have dist: "distinct (map mc_order_seq (ss_materialized_chains s) @ map cs_updated_seq (?A[i := c]))"
    using session_invD(5) [OF assms(1)] fresh dA sub by (simp only: distinct_append set_append) blast
  have bound: "\<forall>q \<in> set (map mc_order_seq (ss_materialized_chains s) @ map cs_updated_seq (?A[i := c])).
      q \<le> Suc (ss_order_seq s)"
  proof
    fix q
    assume "q \<in> set (map mc_order_seq (ss_materialized_chains s) @ map cs_updated_seq (?A[i := c]))"
    then have "q = Suc (ss_order_seq s) \<or>
        q \<in> set (map mc_order_seq (ss_materialized_chains s) @ map cs_updated_seq ?A)"
      using sub by (simp only: set_append) blast
    moreover have "q \<in> set (map mc_order_seq (ss_materialized_chains s) @ map cs_updated_seq ?A) \<Longrightarrow>
        q \<le> ss_order_seq s"
      using assms(1) by (simp only: session_inv_def)
    ultimately show "q \<le> Suc (ss_order_seq s)" by auto
  qed
  have each: "\<forall>x \<in> set (?A[i := c]). cs_chain_id x < ss_next_chain_id s \<and> chain_ok cd x"
  proof
    fix x
    assume "x \<in> set (?A[i := c])"
    then have "x = c \<or> x \<in> set ?A" using set_update_subset_insert by fastforce
    then show "cs_chain_id x < ss_next_chain_id s \<and> chain_ok cd x"
      using session_invD(2,3) [OF assms(1)] assms(3,4,5) nth_mem by metis
  qed
  show ?thesis unfolding session_inv_def
    using ids img dist bound each assms(1,2) by (simp add: session_inv_def)
qed

lemma commit_ok:
  assumes inv: "session_inv cd s" and act: "ss_phase s = ACTIVE" and eok: "enc_ok cd enc"
    and la: "en_last_assistant_start enc = Some la"
    and own: "\<And>cid. en_chain_id enc = Some cid \<Longrightarrow> cid \<in> cs_chain_id ` set (ss_active_chains s)"
    and r: "commit_generation_to_chain cd enc msg s = (s', r)"
  shows "(\<exists>e. r = Inl e \<and> s' = s \<and> compute_message_hash cd msg = Inl e) \<or>
     (r = Inr () \<and> session_inv cd s' \<and> ss_phase s' = ACTIVE \<and>
      ss_reserved_chain_ids s' = ss_reserved_chain_ids s \<and>
      ss_trajectory_capacity s' = ss_trajectory_capacity s \<and>
      (\<forall>c \<in> set (ss_active_chains s). Some (cs_chain_id c) \<noteq> en_chain_id enc \<longrightarrow> c \<in> set (ss_active_chains s')) \<and>
      (\<exists>c \<in> set (ss_active_chains s'). cs_buffer c = en_buffer enc \<and>
          cs_message_history c = en_messages enc @ [msg] \<and>
          (case en_chain_id enc of Some cid \<Rightarrow> cs_chain_id c = cid | None \<Rightarrow> cs_chain_id c = ss_next_chain_id s)))"
proof (cases "extend_message_prefix_hashes cd (en_prefix_hashes enc) [msg]")
  case (Inl e)
  then have "compute_message_hash cd msg = Inl e"
    by (auto simp: extend_message_prefix_hashes_def err_simps Let_def)
  with Inl r show ?thesis by (simp add: commit_generation_to_chain_def Let_def)
next
  case (Inr hs')
  have H: "history_hashes cd (en_messages enc) = Inr (en_prefix_hashes enc)"
    using eok by (simp add: enc_ok_def)
  have len: "length hs' = length (en_messages enc @ [msg])"
    by (rule history_hashes_length [OF extend_history_hashes(1) [OF H Inr]])
  let ?s1 = "record_rollback_stats enc s"
  have inv1: "session_inv cd ?s1" using inv by simp
  show ?thesis
  proof (cases "en_chain_id enc")
    case None
    let ?c = "committed_chain enc (en_messages enc @ [msg]) (last hs') la (ss_next_chain_id s) (Suc (ss_order_seq s))"
    let ?s' = "?s1\<lparr>ss_order_seq := Suc (ss_order_seq ?s1), ss_next_chain_id := Suc (ss_next_chain_id ?s1),
           ss_active_chains := ss_active_chains ?s1 @ [?c]\<rparr>"
    have "(s', r) = (?s', Inr ())"
      using r Inr la len None
      by (simp add: commit_generation_to_chain_def Let_def next_order_seq_def allocate_chain_id_def)
    moreover have "session_inv cd ?s'"
      by (rule session_inv_append_chain [OF inv1])
        (use act committed_chain_ok [OF eok la Inr] in simp_all)
    ultimately show ?thesis using act None by simp
  next
    case (Some cid)
    obtain i c0 where f: "find_active_chain s cid = Inr (i, c0)"
      using find_active_chain_total [OF own [OF Some]] by blast
    note i = find_active_chain_Inr [OF f]
    let ?c = "committed_chain enc (en_messages enc @ [msg]) (last hs') la (cs_chain_id c0) (Suc (ss_order_seq s))"
    let ?s' = "?s1\<lparr>ss_order_seq := Suc (ss_order_seq ?s1),
           ss_active_chains := (ss_active_chains ?s1)[i := ?c]\<rparr>"
    have s': "(s', r) = (?s', Inr ())"
      using r Inr la len Some f
      by (simp add: commit_generation_to_chain_def Let_def next_order_seq_def)
    have "session_inv cd ?s'"
      by (rule session_inv_replace_chain [OF inv1])
        (use act i committed_chain_ok [OF eok la Inr] in simp_all)
    moreover have mem: "?c \<in> set ((ss_active_chains s)[i := ?c])" using i by (simp add: set_update_memI)
    moreover have "c \<in> set ((ss_active_chains s)[i := ?c])"
      if "c \<in> set (ss_active_chains s)" "cs_chain_id c \<noteq> cid" for c
      using that i by (auto simp: in_set_conv_nth) (metis nth_list_update_neq)
    moreover have "\<exists>c \<in> set ((ss_active_chains s)[i := ?c]). cs_buffer c = en_buffer enc \<and>
        cs_message_history c = en_messages enc @ [msg] \<and> cs_chain_id c = cid"
      by (rule bexI [OF _ mem]) (use i in simp)
    ultimately show ?thesis using s' act Some by simp
  qed
qed

subsection \<open>The transition system\<close>

datatype flight = Generating encoded_data | Releasing nat

record gsys =
  gs_session :: session
  gs_flights :: "nat \<Rightarrow> flight option"

fun flight_chain :: "flight \<Rightarrow> nat option" where
  "flight_chain (Generating enc) = en_chain_id enc"
| "flight_chain (Releasing cid) = Some cid"

definition owner :: "gsys \<Rightarrow> nat \<Rightarrow> nat option" where
  "owner g p = Option.bind (gs_flights g p) flight_chain"

text \<open>A request that fails still has to release its reservation.\<close>

definition after_failure :: "encoded_data \<Rightarrow> flight option" where
  "after_failure enc = map_option Releasing (en_chain_id enc)"

inductive gstep :: "codec \<Rightarrow> gsys \<Rightarrow> gsys \<Rightarrow> bool" for cd where
  begin_closed: "gs_flights g p = None \<Longrightarrow> begin_generation cd now rq (gs_session g) = (s', r) \<Longrightarrow>
     (\<And>enc. r \<noteq> Inr (Pending enc)) \<Longrightarrow> gstep cd g (g\<lparr>gs_session := s'\<rparr>)"
| begin_pending: "gs_flights g p = None \<Longrightarrow>
     begin_generation cd now rq (gs_session g) = (s', Inr (Pending enc)) \<Longrightarrow>
     gstep cd g (g\<lparr>gs_session := s', gs_flights := (gs_flights g)(p := Some (Generating enc))\<rparr>)"
| fail: "gs_flights g p = Some (Generating enc) \<Longrightarrow>
     gstep cd g (g\<lparr>gs_flights := (gs_flights g)(p := after_failure enc)\<rparr>)"
| finish_ok: "gs_flights g p = Some (Generating enc) \<Longrightarrow> paired out \<Longrightarrow>
     record_output enc out = Inr enc' \<Longrightarrow>
     finish_generation cd cache fresh now enc' out (gs_session g) = (cache', s', Inr outcome) \<Longrightarrow>
     gstep cd g (g\<lparr>gs_session := s', gs_flights := (gs_flights g)(p := None)\<rparr>)"
| finish_error: "gs_flights g p = Some (Generating enc) \<Longrightarrow> paired out \<Longrightarrow>
     record_output enc out = Inr enc' \<Longrightarrow>
     finish_generation cd cache fresh now enc' out (gs_session g) = (cache', s', Inl e) \<Longrightarrow>
     gstep cd g (g\<lparr>gs_session := s', gs_flights := (gs_flights g)(p := after_failure enc)\<rparr>)"
| release: "gs_flights g p = Some (Releasing cid) \<Longrightarrow>
     gstep cd g (g\<lparr>gs_session := release_chain_reservation cid (gs_session g),
                   gs_flights := (gs_flights g)(p := None)\<rparr>)"
| reward: "set_reward_info now ri (gs_session g) = (s', r) \<Longrightarrow> gstep cd g (g\<lparr>gs_session := s'\<rparr>)"
| finalize: "finalize now (gs_session g) = (s', r') \<Longrightarrow> gstep cd g (g\<lparr>gs_session := s'\<rparr>)"
| abort: "abort now (gs_session g) = (s', r'') \<Longrightarrow> gstep cd g (g\<lparr>gs_session := s'\<rparr>)"

inductive reachable :: "codec \<Rightarrow> session \<Rightarrow> gsys \<Rightarrow> bool" for cd s0 where
  start: "reachable cd s0 \<lparr>gs_session = s0, gs_flights = (\<lambda>_. None)\<rparr>"
| step: "reachable cd s0 g \<Longrightarrow> gstep cd g g' \<Longrightarrow> reachable cd s0 g'"

definition linked :: "codec \<Rightarrow> session \<Rightarrow> encoded_data \<Rightarrow> bool" where
  "linked cd s enc \<longleftrightarrow> (\<forall>cid. en_chain_id enc = Some cid \<longrightarrow>
     (\<exists>c \<in> set (ss_active_chains s). cs_chain_id c = cid \<and>
        continues cd c (en_rollback_applied enc) (en_buffer enc) (en_rollback_dropped enc)))"

definition sys_inv :: "codec \<Rightarrow> gsys \<Rightarrow> bool" where
  "sys_inv cd g \<longleftrightarrow> session_inv cd (gs_session g) \<and>
     (\<forall>p c. owner g p = Some c \<longrightarrow> ss_phase (gs_session g) = ACTIVE \<longrightarrow>
        c \<in> ss_reserved_chain_ids (gs_session g)) \<and>
     (\<forall>p q c. owner g p = Some c \<longrightarrow> owner g q = Some c \<longrightarrow> p = q) \<and>
     (\<forall>c \<in> ss_reserved_chain_ids (gs_session g). \<exists>p. owner g p = Some c) \<and>
     (\<forall>p enc. gs_flights g p = Some (Generating enc) \<longrightarrow>
        enc_ok cd enc \<and> en_last_assistant_start enc \<noteq> None \<and>
        (ss_phase (gs_session g) = ACTIVE \<longrightarrow> linked cd (gs_session g) enc))"

lemma sys_invD:
  assumes "sys_inv cd g"
  shows "session_inv cd (gs_session g)"
    and "owner g p = Some c \<Longrightarrow> ss_phase (gs_session g) = ACTIVE \<Longrightarrow> c \<in> ss_reserved_chain_ids (gs_session g)"
    and "owner g p = Some c \<Longrightarrow> owner g q = Some c \<Longrightarrow> p = q"
    and "c \<in> ss_reserved_chain_ids (gs_session g) \<Longrightarrow> \<exists>p. owner g p = Some c"
    and "gs_flights g p = Some (Generating enc) \<Longrightarrow> enc_ok cd enc"
    and "gs_flights g p = Some (Generating enc) \<Longrightarrow> en_last_assistant_start enc \<noteq> None"
    and "gs_flights g p = Some (Generating enc) \<Longrightarrow> ss_phase (gs_session g) = ACTIVE \<Longrightarrow> linked cd (gs_session g) enc"
  using assms unfolding sys_inv_def by blast+

lemma sys_invI:
  assumes "session_inv cd (gs_session g)"
    and "\<And>p c. owner g p = Some c \<Longrightarrow> ss_phase (gs_session g) = ACTIVE \<Longrightarrow> c \<in> ss_reserved_chain_ids (gs_session g)"
    and "\<And>p q c. owner g p = Some c \<Longrightarrow> owner g q = Some c \<Longrightarrow> p = q"
    and "\<And>c. c \<in> ss_reserved_chain_ids (gs_session g) \<Longrightarrow> \<exists>p. owner g p = Some c"
    and "\<And>p enc. gs_flights g p = Some (Generating enc) \<Longrightarrow> enc_ok cd enc \<and> en_last_assistant_start enc \<noteq> None"
    and "\<And>p enc. gs_flights g p = Some (Generating enc) \<Longrightarrow> ss_phase (gs_session g) = ACTIVE \<Longrightarrow>
           linked cd (gs_session g) enc"
  shows "sys_inv cd g"
  using assms unfolding sys_inv_def by blast

lemma owner_upd [simp]:
  "owner (g\<lparr>gs_session := s\<rparr>) = owner g"
  "owner (g\<lparr>gs_session := s, gs_flights := fl\<rparr>) = owner (g\<lparr>gs_flights := fl\<rparr>)"
  "owner (g\<lparr>gs_flights := (gs_flights g)(p := None)\<rparr>) q = (if q = p then None else owner g q)"
  "owner (g\<lparr>gs_flights := (gs_flights g)(p := Some f)\<rparr>) q = (if q = p then flight_chain f else owner g q)"
  by (auto simp: owner_def fun_eq_iff)

lemma owner_after_failure:
  "gs_flights g p = Some (Generating enc) \<Longrightarrow>
     owner (g\<lparr>gs_flights := (gs_flights g)(p := after_failure enc)\<rparr>) = owner g"
  by (cases "en_chain_id enc") (auto simp: owner_def after_failure_def fun_eq_iff)

text \<open>A session operation that keeps the reservations and the reserved chains.\<close>

lemma sys_inv_keep:
  assumes "sys_inv cd g" "session_inv cd s'" "ss_phase (gs_session g) = ACTIVE"
    "ss_reserved_chain_ids s' = ss_reserved_chain_ids (gs_session g)"
    "\<And>c. c \<in> set (ss_active_chains (gs_session g)) \<Longrightarrow>
        cs_chain_id c \<in> ss_reserved_chain_ids (gs_session g) \<Longrightarrow> c \<in> set (ss_active_chains s')"
  shows "sys_inv cd (g\<lparr>gs_session := s'\<rparr>)"
proof (rule sys_invI)
  show "session_inv cd (gs_session (g\<lparr>gs_session := s'\<rparr>))" using assms by simp
  show "c \<in> ss_reserved_chain_ids (gs_session (g\<lparr>gs_session := s'\<rparr>))"
    if "owner (g\<lparr>gs_session := s'\<rparr>) p = Some c" for p c
    using that sys_invD(2) [OF assms(1) _ assms(3)] assms(4) by simp
  show "p = q" if "owner (g\<lparr>gs_session := s'\<rparr>) p = Some c" "owner (g\<lparr>gs_session := s'\<rparr>) q = Some c" for p q c
    using that sys_invD(3) [OF assms(1)] by simp
  show "\<exists>p. owner (g\<lparr>gs_session := s'\<rparr>) p = Some c"
    if "c \<in> ss_reserved_chain_ids (gs_session (g\<lparr>gs_session := s'\<rparr>))" for c
    using that sys_invD(4) [OF assms(1)] assms(4) by simp
  fix p enc
  assume f: "gs_flights (g\<lparr>gs_session := s'\<rparr>) p = Some (Generating enc)"
  then show "enc_ok cd enc \<and> en_last_assistant_start enc \<noteq> None"
    using sys_invD(5,6) [OF assms(1)] by simp
  from f have fl: "gs_flights g p = Some (Generating enc)" by simp
  show "linked cd (gs_session (g\<lparr>gs_session := s'\<rparr>)) enc"
    unfolding linked_def
  proof (intro allI impI)
    fix cid
    assume cid: "en_chain_id enc = Some cid"
    with fl have "owner g p = Some cid" by (simp add: owner_def)
    then have res: "cid \<in> ss_reserved_chain_ids (gs_session g)"
      by (rule sys_invD(2) [OF assms(1) _ assms(3)])
    from sys_invD(7) [OF assms(1) fl assms(3)] cid obtain c where
      c: "c \<in> set (ss_active_chains (gs_session g))" "cs_chain_id c = cid"
        "continues cd c (en_rollback_applied enc) (en_buffer enc) (en_rollback_dropped enc)"
      unfolding linked_def by blast
    then have "c \<in> set (ss_active_chains s')" using assms(5) res by simp
    with c show "\<exists>c \<in> set (ss_active_chains (gs_session (g\<lparr>gs_session := s'\<rparr>))). cs_chain_id c = cid \<and>
        continues cd c (en_rollback_applied enc) (en_buffer enc) (en_rollback_dropped enc)" by auto
  qed
qed

lemma sys_inv_closed:
  assumes "sys_inv cd g" "session_inv cd s'" "ss_phase s' \<noteq> ACTIVE" "ss_reserved_chain_ids s' = {}"
  shows "sys_inv cd (g\<lparr>gs_session := s'\<rparr>)"
  using assms unfolding sys_inv_def by auto

lemma sys_inv_inactive_reserved: "session_inv cd s \<Longrightarrow> ss_phase s \<noteq> ACTIVE \<Longrightarrow> ss_reserved_chain_ids s = {}"
  by (auto simp: session_inv_def)

end
