(* ===== verification/SessionReach.thy ===== *)
theory SessionReach
  imports SessionSteps
begin

text \<open>
  Every step of the transition system keeps the invariant, and the consequences for reachable
  states: no chain is generated on twice, a commit finds its chain, no reservation is leaked,
  finalizing always returns.
\<close>

inductive_cases gstepE: "gstep cd g g'"
inductive_simps reachable_simps: "reachable cd s0 g"

subsection \<open>Beginning\<close>

lemma begin_generation_cases:
  assumes "begin_generation cd now rq s = (s', r)"
  obtains (closed) "ss_phase s \<noteq> ACTIVE" "s' = s" "r = Inl (HTTPException 409 (not_active s))"
  | (error) e where "ss_phase s = ACTIVE" "prepare_generation_inputs cd s rq = Inl e" "s' = s" "r = Inl e"
  | (exhausted) enc s1 q where "ss_phase s = ACTIVE" "prepare_generation_inputs cd s rq = Inr enc"
      "en_capacity_exhausted enc"
      "(if en_chain_id enc \<noteq> None then close_length_exhausted_chain enc s else (s, Inr ())) = (s1, q)"
      "case q of Inl e \<Rightarrow> s' = s1 \<and> r = Inl e
       | Inr u \<Rightarrow> s' = touch now s1 \<and> r = Inr (Finished (length_exhausted_outcome enc))"
  | (pending) enc where "ss_phase s = ACTIVE" "prepare_generation_inputs cd s rq = Inr enc"
      "\<not> en_capacity_exhausted enc" "s' = reserve_chain enc s" "r = Inr (Pending enc)"
proof (cases "ss_phase s = ACTIVE")
  case False
  with assms show thesis by (intro closed) (auto simp: begin_generation_def)
next
  case act: True
  show thesis
  proof (cases "prepare_generation_inputs cd s rq")
    case (Inl e)
    with act assms show thesis by (intro error) (auto simp: begin_generation_def)
  next
    case (Inr enc)
    show thesis
    proof (cases "en_capacity_exhausted enc")
      case True
      obtain s1 q where c: "(if en_chain_id enc \<noteq> None then close_length_exhausted_chain enc s else (s, Inr ())) = (s1, q)"
        by (cases "if en_chain_id enc \<noteq> None then close_length_exhausted_chain enc s else (s, Inr ())") auto
      show thesis
        by (rule exhausted [OF act Inr True c])
          (use assms act Inr True c in \<open>auto simp: begin_generation_def split: sum.splits\<close>)
    next
      case False
      with act Inr assms show thesis by (intro pending) (auto simp: begin_generation_def)
    qed
  qed
qed

lemma begin_pending_cases:
  assumes "begin_generation cd now rq s = (s', Inr (Pending enc))"
  shows "ss_phase s = ACTIVE" "prepare_generation_inputs cd s rq = Inr enc"
    "\<not> en_capacity_exhausted enc" "s' = reserve_chain enc s"
  using assms by (cases rule: begin_generation_cases; auto split: sum.splits)+

lemma sys_inv_touch: "sys_inv cd (g\<lparr>gs_session := touch now s\<rparr>) = sys_inv cd (g\<lparr>gs_session := s\<rparr>)"
  by (simp add: sys_inv_def linked_def)

lemma sys_inv_begin_closed:
  assumes inv: "sys_inv cd g" and b: "begin_generation cd now rq (gs_session g) = (s', r)"
    and np: "\<And>enc. r \<noteq> Inr (Pending enc)"
  shows "sys_inv cd (g\<lparr>gs_session := s'\<rparr>)"
  using b
proof (cases rule: begin_generation_cases)
  case (exhausted enc s1 q)
  note sinv = sys_invD(1) [OF inv]
  show ?thesis
  proof (cases "en_chain_id enc")
    case None
    with exhausted have "s' = touch now (gs_session g)" by auto
    then show ?thesis using inv by (simp add: sys_inv_touch)
  next
    case (Some cid)
    from close_length_exhausted_ok [OF sinv exhausted(1,2) Some] exhausted(4) Some have
      s1: "q = Inr ()" "session_inv cd s1"
        "ss_reserved_chain_ids s1 = ss_reserved_chain_ids (gs_session g)"
        "set (ss_active_chains s1) = {c \<in> set (ss_active_chains (gs_session g)). cs_chain_id c \<noteq> cid}"
      by auto
    from prepare_chain_id [OF exhausted(2) sinv Some]
    have "cid \<notin> ss_reserved_chain_ids (gs_session g)" by blast
    then have "sys_inv cd (g\<lparr>gs_session := s1\<rparr>)"
      by (intro sys_inv_keep [OF inv s1(2) exhausted(1) s1(3)]) (auto simp: s1(4))
    then show ?thesis using exhausted(5) s1(1) by (simp add: sys_inv_touch)
  qed
qed (use inv np in \<open>auto simp: sys_inv_def linked_def\<close>)

lemma reserve_chain_simps [simp]:
  "ss_active_chains (reserve_chain enc s) = ss_active_chains s"
  "ss_phase (reserve_chain enc s) = ss_phase s"
  "ss_trajectory_capacity (reserve_chain enc s) = ss_trajectory_capacity s"
  "ss_reserved_chain_ids (reserve_chain enc s) = ss_reserved_chain_ids s \<union> set_option (en_chain_id enc)"
  by (auto simp: reserve_chain_def split: option.splits)

lemma session_inv_reserve:
  assumes "session_inv cd s" "\<And>cid. en_chain_id enc = Some cid \<Longrightarrow> cid \<in> cs_chain_id ` set (ss_active_chains s)"
  shows "session_inv cd (reserve_chain enc s)"
  using assms by (auto simp: session_inv_def reserve_chain_def split: option.splits)

lemma linked_cong: "ss_active_chains s = ss_active_chains s' \<Longrightarrow> linked cd s enc = linked cd s' enc"
  by (simp add: linked_def)

lemma sys_inv_begin_pending:
  assumes inv: "sys_inv cd g" and free: "gs_flights g p = None"
    and b: "begin_generation cd now rq (gs_session g) = (s', Inr (Pending enc))"
  shows "sys_inv cd (g\<lparr>gs_session := s', gs_flights := (gs_flights g)(p := Some (Generating enc))\<rparr>)"
    (is "sys_inv cd ?g'")
proof -
  note P = begin_pending_cases [OF b]
  note sinv = sys_invD(1) [OF inv]
  have link: "linked cd (gs_session g) enc"
    unfolding linked_def using prepare_chain_id [OF P(2) sinv] by blast
  have free_cid: "cid \<notin> ss_reserved_chain_ids (gs_session g)" if "en_chain_id enc = Some cid" for cid
    using prepare_chain_id [OF P(2) sinv that] by blast
  have own: "owner ?g' q = (if q = p then en_chain_id enc else owner g q)" for q by simp
  have not_owned: "owner g q \<noteq> Some cid" if "en_chain_id enc = Some cid" for q cid
    using free_cid [OF that] sys_invD(2) [OF inv _ P(1)] by blast
  have pn: "owner g p = None" using free by (simp add: owner_def)
  show ?thesis
  proof (rule sys_invI)
    have "cid \<in> cs_chain_id ` set (ss_active_chains (gs_session g))" if "en_chain_id enc = Some cid" for cid
      using link that by (auto simp: linked_def)
    then show "session_inv cd (gs_session ?g')" using P(4) session_inv_reserve [OF sinv] by simp
    show "c \<in> ss_reserved_chain_ids (gs_session ?g')" if "owner ?g' q = Some c" for q c
      using that own sys_invD(2) [OF inv _ P(1)] P(4) by (auto split: if_splits)
    show "q = q'" if "owner ?g' q = Some c" "owner ?g' q' = Some c" for q q' c
      using that own not_owned sys_invD(3) [OF inv] by (auto split: if_splits)
    show "\<exists>q. owner ?g' q = Some c" if "c \<in> ss_reserved_chain_ids (gs_session ?g')" for c
    proof (cases "en_chain_id enc = Some c")
      case True
      then show ?thesis by (intro exI [of _ p]) simp
    next
      case False
      with that have "c \<in> ss_reserved_chain_ids (gs_session g)" using P(4) by auto
      then obtain q where "owner g q = Some c" using sys_invD(4) [OF inv] by blast
      then show ?thesis using pn by (intro exI [of _ q]) auto
    qed
    fix q e
    assume f: "gs_flights ?g' q = Some (Generating e)"
    show "enc_ok cd e \<and> en_last_assistant_start e \<noteq> None"
      using f prepare_enc_ok(1,4) [OF P(2) sinv] P(3) sys_invD(5,6) [OF inv] by (auto split: if_splits)
    have "linked cd (gs_session g) e"
      using f link sys_invD(7) [OF inv _ P(1)] by (auto split: if_splits)
    then show "linked cd (gs_session ?g') e" using P(4) by (simp add: linked_def)
  qed
qed

subsection \<open>Failing and releasing\<close>

lemma sys_inv_fail:
  assumes inv: "sys_inv cd g" and f: "gs_flights g p = Some (Generating enc)"
  shows "sys_inv cd (g\<lparr>gs_flights := (gs_flights g)(p := after_failure enc)\<rparr>)"
proof (rule sys_invI)
  let ?g' = "g\<lparr>gs_flights := (gs_flights g)(p := after_failure enc)\<rparr>"
  note own = owner_after_failure [OF f]
  show "session_inv cd (gs_session ?g')" using sys_invD(1) [OF inv] by simp
  show "c \<in> ss_reserved_chain_ids (gs_session ?g')"
    if "owner ?g' q = Some c" "ss_phase (gs_session ?g') = ACTIVE" for q c
    using that sys_invD(2) [OF inv] by (simp add: own)
  show "q = q'" if "owner ?g' q = Some c" "owner ?g' q' = Some c" for q q' c
    using that sys_invD(3) [OF inv] by (simp add: own)
  show "\<exists>q. owner ?g' q = Some c" if "c \<in> ss_reserved_chain_ids (gs_session ?g')" for c
    using that sys_invD(4) [OF inv] by (simp add: own)
  fix q e
  assume "gs_flights ?g' q = Some (Generating e)"
  then have e: "gs_flights g q = Some (Generating e)"
    by (auto simp: after_failure_def split: if_splits)
  show "enc_ok cd e \<and> en_last_assistant_start e \<noteq> None" using sys_invD(5,6) [OF inv e] by simp
  show "linked cd (gs_session ?g') e" if "ss_phase (gs_session ?g') = ACTIVE"
    using that sys_invD(7) [OF inv e] by simp
qed

text \<open>A request leaves the system and its chain, if any, is no longer reserved.\<close>

lemma sys_inv_leave:
  assumes inv: "sys_inv cd g" and own: "owner g p = cid"
    and s': "session_inv cd s'" "ss_phase s' = ss_phase (gs_session g)"
      "ss_reserved_chain_ids s' = ss_reserved_chain_ids (gs_session g) - set_option cid"
    and chains: "\<And>c. c \<in> set (ss_active_chains (gs_session g)) \<Longrightarrow> Some (cs_chain_id c) \<noteq> cid \<Longrightarrow>
        c \<in> set (ss_active_chains s')"
  shows "sys_inv cd (g\<lparr>gs_session := s', gs_flights := (gs_flights g)(p := None)\<rparr>)" (is "sys_inv cd ?g'")
proof (rule sys_invI)
  have og: "owner ?g' q = (if q = p then None else owner g q)" for q by simp
  have other: "owner g q \<noteq> cid" if "q \<noteq> p" "owner g q = Some x" for q x
    using that own sys_invD(3) [OF inv] by metis
  show "session_inv cd (gs_session ?g')" using s' by simp
  show "c \<in> ss_reserved_chain_ids (gs_session ?g')"
    if "owner ?g' q = Some c" "ss_phase (gs_session ?g') = ACTIVE" for q c
  proof -
    from that og have q: "q \<noteq> p" "owner g q = Some c" by (auto split: if_splits)
    then have "c \<in> ss_reserved_chain_ids (gs_session g)"
      using sys_invD(2) [OF inv q(2)] that(2) s'(2) by simp
    moreover have "c \<notin> set_option cid" using other [OF q] q(2) by auto
    ultimately show ?thesis using s'(3) by simp
  qed
  show "q = q'" if "owner ?g' q = Some c" "owner ?g' q' = Some c" for q q' c
    using that og sys_invD(3) [OF inv] by (auto split: if_splits)
  show "\<exists>q. owner ?g' q = Some c" if "c \<in> ss_reserved_chain_ids (gs_session ?g')" for c
  proof -
    from that s' have c: "c \<in> ss_reserved_chain_ids (gs_session g)" "cid \<noteq> Some c" by auto
    then obtain q where q: "owner g q = Some c" using sys_invD(4) [OF inv] by blast
    with c own have "q \<noteq> p" by auto
    with q show ?thesis by (intro exI [of _ q]) simp
  qed
  fix q e
  assume "gs_flights ?g' q = Some (Generating e)"
  then have e: "gs_flights g q = Some (Generating e)" and qp: "q \<noteq> p" by (auto split: if_splits)
  show "enc_ok cd e \<and> en_last_assistant_start e \<noteq> None" using sys_invD(5,6) [OF inv e] by simp
  assume act: "ss_phase (gs_session ?g') = ACTIVE"
  then have link: "linked cd (gs_session g) e" using sys_invD(7) [OF inv e] s' by simp
  show "linked cd (gs_session ?g') e"
    unfolding linked_def
  proof (intro allI impI)
    fix x
    assume x: "en_chain_id e = Some x"
    then have "owner g q = Some x" using e by (simp add: owner_def)
    with other [OF qp] have ne: "Some x \<noteq> cid" by metis
    from link x obtain c where c: "c \<in> set (ss_active_chains (gs_session g))" "cs_chain_id c = x"
      "continues cd c (en_rollback_applied e) (en_buffer e) (en_rollback_dropped e)"
      unfolding linked_def by blast
    with chains ne have "c \<in> set (ss_active_chains s')" by simp
    with c show "\<exists>c \<in> set (ss_active_chains (gs_session ?g')). cs_chain_id c = x \<and>
        continues cd c (en_rollback_applied e) (en_buffer e) (en_rollback_dropped e)" by auto
  qed
qed

lemma sys_inv_release:
  assumes inv: "sys_inv cd g" and f: "gs_flights g p = Some (Releasing cid)"
  shows "sys_inv cd (g\<lparr>gs_session := release_chain_reservation cid (gs_session g),
                      gs_flights := (gs_flights g)(p := None)\<rparr>)"
proof (rule sys_inv_leave [OF inv])
  show "owner g p = Some cid" using f by (simp add: owner_def)
  show "session_inv cd (release_chain_reservation cid (gs_session g))"
    using session_inv_unreserve [OF sys_invD(1) [OF inv]] by (simp add: release_chain_reservation_def)
qed (simp_all add: release_chain_reservation_def)

subsection \<open>Finishing\<close>

lemma discard_reservation_simps [simp]:
  "ss_active_chains (discard_reservation cid s) = ss_active_chains s"
  "ss_phase (discard_reservation cid s) = ss_phase s"
  "ss_trajectory_capacity (discard_reservation cid s) = ss_trajectory_capacity s"
  "ss_reserved_chain_ids (discard_reservation cid s) = ss_reserved_chain_ids s - set_option cid"
  by (auto simp: discard_reservation_def split: option.splits)

lemma finish_generation_Inr:
  assumes "finish_generation cd cache fresh now enc out s = (cache', s', Inr outcome)"
  obtains msg fr s1 where "ss_phase s = ACTIVE"
    "decode_response cd cache fresh (bo_token_ids out) (en_tools enc) (bo_stop_reason out) = (cache', Inr (msg, fr))"
    "commit_generation_to_chain cd enc msg s = (s1, Inr ())"
    "s' = touch now (discard_reservation (en_chain_id enc) s1)"
    "outcome = \<lparr>go_assistant_msg = msg, go_finish_reason = fr,
        go_prompt_tokens = length (en_context_ids enc), go_completion_tokens = length (bo_token_ids out)\<rparr>"
  using assms unfolding finish_generation_def
  by (auto split: if_splits prod.splits sum.splits)

lemma flight_linked:
  assumes inv: "sys_inv cd g" and f: "gs_flights g p = Some (Generating enc)"
    and act: "ss_phase (gs_session g) = ACTIVE" and cid: "en_chain_id enc = Some cid"
  shows "cid \<in> cs_chain_id ` set (ss_active_chains (gs_session g))"
  using sys_invD(7) [OF inv f act] cid by (auto simp: linked_def)

lemma commit_in_flight:
  assumes inv: "sys_inv cd g" and f: "gs_flights g p = Some (Generating enc)"
    and act: "ss_phase (gs_session g) = ACTIVE" and pd: "paired out"
    and ro: "record_output enc out = Inr enc'"
    and c: "commit_generation_to_chain cd enc' msg (gs_session g) = (s', r)"
  shows "(\<exists>e. r = Inl e \<and> s' = gs_session g \<and> compute_message_hash cd msg = Inl e) \<or>
     (r = Inr () \<and> session_inv cd s' \<and> ss_phase s' = ACTIVE \<and>
      ss_reserved_chain_ids s' = ss_reserved_chain_ids (gs_session g) \<and>
      ss_trajectory_capacity s' = ss_trajectory_capacity (gs_session g) \<and>
      (\<forall>c \<in> set (ss_active_chains (gs_session g)). Some (cs_chain_id c) \<noteq> en_chain_id enc' \<longrightarrow>
         c \<in> set (ss_active_chains s')) \<and>
      (\<exists>c \<in> set (ss_active_chains s'). cs_buffer c = en_buffer enc' \<and>
          cs_message_history c = en_messages enc' @ [msg] \<and>
          (case en_chain_id enc' of Some cid \<Rightarrow> cs_chain_id c = cid
           | None \<Rightarrow> cs_chain_id c = ss_next_chain_id (gs_session g))))"
proof -
  obtain la where la: "en_last_assistant_start enc = Some la" using sys_invD(6) [OF inv f] by blast
  note R = record_output_Inr [OF ro]
  show ?thesis
  proof (rule commit_ok [OF sys_invD(1) [OF inv] act record_output_ok [OF ro sys_invD(5) [OF inv f] pd] _ _ c])
    show "en_last_assistant_start enc' = Some la" using R(9) la by simp
    show "cid \<in> cs_chain_id ` set (ss_active_chains (gs_session g))" if "en_chain_id enc' = Some cid" for cid
      using flight_linked [OF inv f act] that R(6) by simp
  qed
qed

lemma sys_inv_finish_ok:
  assumes inv: "sys_inv cd g" and f: "gs_flights g p = Some (Generating enc)" and pd: "paired out"
    and ro: "record_output enc out = Inr enc'"
    and fin: "finish_generation cd cache fresh now enc' out (gs_session g) = (cache', s', Inr outcome)"
  shows "sys_inv cd (g\<lparr>gs_session := s', gs_flights := (gs_flights g)(p := None)\<rparr>)"
  using fin
proof (rule finish_generation_Inr)
  fix msg fr s1
  assume act: "ss_phase (gs_session g) = ACTIVE"
    and c: "commit_generation_to_chain cd enc' msg (gs_session g) = (s1, Inr ())"
    and s': "s' = touch now (discard_reservation (en_chain_id enc') s1)"
  have id: "en_chain_id enc' = en_chain_id enc" by (rule record_output_Inr(6) [OF ro])
  from commit_in_flight [OF inv f act pd ro c] have C: "session_inv cd s1" "ss_phase s1 = ACTIVE"
    "ss_reserved_chain_ids s1 = ss_reserved_chain_ids (gs_session g)"
    "\<And>c. c \<in> set (ss_active_chains (gs_session g)) \<Longrightarrow> Some (cs_chain_id c) \<noteq> en_chain_id enc' \<Longrightarrow>
       c \<in> set (ss_active_chains s1)"
    by auto
  show ?thesis
  proof (rule sys_inv_leave [OF inv])
    show "owner g p = en_chain_id enc" using f by (simp add: owner_def)
    show "session_inv cd s'" using s' session_inv_discard [OF C(1)] by simp
  qed (use s' C id act in simp_all)
qed

lemma finish_generation_Inl:
  assumes inv: "sys_inv cd g" and f: "gs_flights g p = Some (Generating enc)" and pd: "paired out"
    and ro: "record_output enc out = Inr enc'"
    and fin: "finish_generation cd cache fresh now enc' out (gs_session g) = (cache', s', Inl e)"
  shows "s' = gs_session g"
    and "ss_phase (gs_session g) \<noteq> ACTIVE \<and> e = HTTPException 409 (not_active (gs_session g)) \<or>
         decode_response cd cache fresh (bo_token_ids out) (en_tools enc') (bo_stop_reason out) = (cache', Inl e) \<or>
         (\<exists>msg fr. decode_response cd cache fresh (bo_token_ids out) (en_tools enc') (bo_stop_reason out) =
             (cache', Inr (msg, fr)) \<and> compute_message_hash cd msg = Inl e)"
proof -
  have "s' = gs_session g \<and> (ss_phase (gs_session g) \<noteq> ACTIVE \<and> e = HTTPException 409 (not_active (gs_session g)) \<or>
         decode_response cd cache fresh (bo_token_ids out) (en_tools enc') (bo_stop_reason out) = (cache', Inl e) \<or>
         (\<exists>msg fr. decode_response cd cache fresh (bo_token_ids out) (en_tools enc') (bo_stop_reason out) =
             (cache', Inr (msg, fr)) \<and> compute_message_hash cd msg = Inl e))"
  proof (cases "ss_phase (gs_session g) = ACTIVE")
    case False
    then show ?thesis using fin by (auto simp: finish_generation_def)
  next
    case act: True
    obtain d q where d: "decode_response cd cache fresh (bo_token_ids out) (en_tools enc') (bo_stop_reason out) = (d, q)"
      by (cases "decode_response cd cache fresh (bo_token_ids out) (en_tools enc') (bo_stop_reason out)")
    show ?thesis
    proof (cases q)
      case (Inl e')
      then show ?thesis using fin act d by (simp add: finish_generation_def)
    next
      case (Inr mf)
      obtain msg fr where mf: "mf = (msg, fr)" by (cases mf)
      obtain s1 r where c: "commit_generation_to_chain cd enc' msg (gs_session g) = (s1, r)"
        by (cases "commit_generation_to_chain cd enc' msg (gs_session g)")
      from fin act d Inr mf c obtain "r = Inl e" "s' = s1" "d = cache'"
        by (cases r) (auto simp: finish_generation_def)
      with commit_in_flight [OF inv f act pd ro c] d Inr mf show ?thesis by auto
    qed
  qed
  then show "s' = gs_session g"
    and "ss_phase (gs_session g) \<noteq> ACTIVE \<and> e = HTTPException 409 (not_active (gs_session g)) \<or>
         decode_response cd cache fresh (bo_token_ids out) (en_tools enc') (bo_stop_reason out) = (cache', Inl e) \<or>
         (\<exists>msg fr. decode_response cd cache fresh (bo_token_ids out) (en_tools enc') (bo_stop_reason out) =
             (cache', Inr (msg, fr)) \<and> compute_message_hash cd msg = Inl e)" by blast+
qed

end
