(* ===== verification/SessionLife.thy ===== *)
theory SessionLife
  imports SessionReach
begin

text \<open>
  Finalizing, aborting and rewarding a session; the phase order; and the reachability theorem
  that puts all steps together.
\<close>

subsection \<open>Finalizing\<close>

text \<open>The trajectory that materialisation builds from a well-formed chain.\<close>

definition materialized_of :: "chain_state \<Rightarrow> materialized_chain" where
  "materialized_of c =
     (case build_materialized_trajectory c [] of
        Inr t \<Rightarrow> \<lparr>mc_trajectory = t, mc_order_seq = cs_updated_seq c\<rparr>
      | Inl e \<Rightarrow> \<lparr>mc_trajectory = undefined, mc_order_seq = cs_updated_seq c\<rparr>)"

lemma materialized_of_simps:
  assumes "chain_ok cd c"
  shows "mc_order_seq (materialized_of c) = cs_updated_seq c"
    "traj_ok (mc_trajectory (materialized_of c))"
    "build_materialized_trajectory c [] = Inr (mc_trajectory (materialized_of c))"
    "tr_prompt_ids (mc_trajectory (materialized_of c)) = tb_prompt_ids (cs_buffer c)"
    "tr_response_ids (mc_trajectory (materialized_of c)) = tb_response_ids (cs_buffer c)"
    "tr_response_mask (mc_trajectory (materialized_of c)) = tb_response_mask (cs_buffer c)"
proof -
  from assms have "buffer_ok (cs_buffer c)" "versions_ok (cs_buffer c)" by (simp_all add: chain_ok_def)
  from build_materialized_trajectory_total [OF this, of "[]"] obtain t where
    "build_materialized_trajectory c [] = Inr t" "traj_ok t"
    "tr_prompt_ids t = tb_prompt_ids (cs_buffer c)" "tr_response_ids t = tb_response_ids (cs_buffer c)"
    "tr_response_mask t = tb_response_mask (cs_buffer c)" by blast
  then show "mc_order_seq (materialized_of c) = cs_updated_seq c"
    "traj_ok (mc_trajectory (materialized_of c))"
    "build_materialized_trajectory c [] = Inr (mc_trajectory (materialized_of c))"
    "tr_prompt_ids (mc_trajectory (materialized_of c)) = tb_prompt_ids (cs_buffer c)"
    "tr_response_ids (mc_trajectory (materialized_of c)) = tb_response_ids (cs_buffer c)"
    "tr_response_mask (mc_trajectory (materialized_of c)) = tb_response_mask (cs_buffer c)"
    by (simp_all add: materialized_of_def)
qed

lemma materialize_chains_total:
  assumes "\<forall>c \<in> set cs. chain_ok cd c"
  shows "materialize_chains cs s =
    (s\<lparr>ss_materialized_chains := ss_materialized_chains s @ map materialized_of cs\<rparr>, Inr ())"
  using assms
proof (induction cs arbitrary: s)
  case (Cons c cs)
  then have c: "chain_ok cd c" by simp
  note M = materialized_of_simps [OF c]
  have "\<lparr>mc_trajectory = mc_trajectory (materialized_of c), mc_order_seq = cs_updated_seq c\<rparr> = materialized_of c"
    using M(1) by simp
  then show ?case using Cons M(3) by simp
qed simp

definition finalized_session :: "rat \<Rightarrow> session \<Rightarrow> session" where
  "finalized_session now s = touch now (s\<lparr>ss_materialized_chains :=
      ss_materialized_chains s @ map materialized_of (ss_active_chains s),
      ss_active_chains := [], ss_reserved_chain_ids := {}, ss_phase := FINALIZED\<rparr>)"

lemma finalize_active:
  assumes "session_inv cd s" "ss_phase s = ACTIVE"
  shows "finalize now s = (finalized_session now s, Inr (ordered_trajectories (finalized_session now s)))"
proof -
  have "\<forall>c \<in> set (ss_active_chains s). chain_ok cd c" using session_invD(3) [OF assms(1)] by blast
  from materialize_chains_total [OF this] show ?thesis using assms(2)
    by (simp add: finalize_def materialize_active_chains_def finalized_session_def touch_def Let_def)
qed

lemma finalized_session_inv:
  assumes "session_inv cd s"
  shows "session_inv cd (finalized_session now s)"
proof -
  have ok: "\<forall>c \<in> set (ss_active_chains s). chain_ok cd c" using session_invD(3) [OF assms] by blast
  then have seqs: "map mc_order_seq (map materialized_of (ss_active_chains s)) = map cs_updated_seq (ss_active_chains s)"
    by (auto intro!: materialized_of_simps(1))
  have tr: "\<forall>c \<in> set (ss_active_chains s). traj_ok (mc_trajectory (materialized_of c))"
    using ok materialized_of_simps(2) by blast
  show ?thesis unfolding session_inv_def
    using assms seqs tr by (auto simp: finalized_session_def touch_def session_inv_def simp del: map_map)
qed

lemma finalize_inactive: "ss_phase s \<noteq> ACTIVE \<Longrightarrow> finalize now s = (s, Inl (RuntimeError (not_active s)))"
  by (cases "ss_phase s") (simp_all add: finalize_def)

lemma finalize_cases:
  assumes "session_inv cd s"
  shows "finalize now s =
    (if ss_phase s = ACTIVE then (finalized_session now s, Inr (ordered_trajectories (finalized_session now s)))
     else (s, Inl (RuntimeError (not_active s))))"
  using finalize_active [OF assms] finalize_inactive by simp

subsection \<open>Aborting\<close>

definition aborted_session :: "rat \<Rightarrow> session \<Rightarrow> session" where
  "aborted_session now s = touch now (s\<lparr>ss_phase := ABORTED, ss_active_chains := [],
      ss_materialized_chains := [], ss_reserved_chain_ids := {}\<rparr>)"

lemma abort_cases:
  "abort now s = (case ss_phase s of ACTIVE \<Rightarrow> (aborted_session now s, Inr ())
     | FINALIZED \<Rightarrow> (s, Inl (RuntimeError (not_active s))) | ABORTED \<Rightarrow> (s, Inr ()))"
  by (simp add: abort_def aborted_session_def split: session_phase.splits)

lemma aborted_session_inv: "session_inv cd (aborted_session now s)"
  by (simp add: session_inv_def aborted_session_def touch_def)

subsection \<open>The remaining steps\<close>

lemma same_session: "s = gs_session g \<Longrightarrow> g\<lparr>gs_session := s\<rparr> = g"
  by simp

definition rewarded_session :: "rat \<Rightarrow> dict option \<Rightarrow> session \<Rightarrow> session" where
  "rewarded_session now ri s = touch now (case ri of None \<Rightarrow> s | Some d \<Rightarrow> s\<lparr>ss_reward_info := d\<rparr>)"

lemma rewarded_session_inv [simp]: "session_inv cd (rewarded_session now ri s) = session_inv cd s"
  by (simp add: session_inv_def rewarded_session_def touch_def split: option.splits)

lemma sys_inv_reward:
  assumes inv: "sys_inv cd g" and r: "set_reward_info now ri (gs_session g) = (s', r)"
  shows "sys_inv cd (g\<lparr>gs_session := s'\<rparr>)"
proof (cases "ss_phase (gs_session g) = ACTIVE")
  case False
  with r have "s' = gs_session g" by (simp add: set_reward_info_def)
  then show ?thesis using inv by (simp only: same_session)
next
  case True
  then have s': "s' = rewarded_session now ri (gs_session g)" using r
    by (simp add: set_reward_info_def rewarded_session_def)
  have "session_inv cd s'" using sys_invD(1) [OF inv] s' by simp
  moreover have "ss_active_chains s' = ss_active_chains (gs_session g)"
    "ss_reserved_chain_ids s' = ss_reserved_chain_ids (gs_session g)"
    using s' by (simp_all add: rewarded_session_def split: option.splits)
  ultimately show ?thesis using sys_inv_keep [OF inv _ True] by simp
qed

lemma sys_inv_finalize:
  assumes inv: "sys_inv cd g" and r: "finalize now (gs_session g) = (s', r)"
  shows "sys_inv cd (g\<lparr>gs_session := s'\<rparr>)"
proof (cases "ss_phase (gs_session g) = ACTIVE")
  case False
  with r have "s' = gs_session g" by (simp add: finalize_inactive)
  then show ?thesis using inv by (simp only: same_session)
next
  case True
  with finalize_active [OF sys_invD(1) [OF inv]] r have s': "s' = finalized_session now (gs_session g)" by simp
  show ?thesis
    by (rule sys_inv_closed [OF inv])
      (simp_all add: s' finalized_session_inv [OF sys_invD(1) [OF inv]],
       simp_all add: finalized_session_def)
qed

lemma sys_inv_abort:
  assumes inv: "sys_inv cd g" and r: "abort now (gs_session g) = (s', r)"
  shows "sys_inv cd (g\<lparr>gs_session := s'\<rparr>)"
proof (cases "ss_phase (gs_session g) = ACTIVE")
  case False
  with r have "s' = gs_session g" by (auto simp: abort_cases split: session_phase.splits)
  then show ?thesis using inv by (simp only: same_session)
next
  case True
  then have s': "s' = aborted_session now (gs_session g)" using r by (simp add: abort_cases)
  show ?thesis
    by (rule sys_inv_closed [OF inv]) (simp_all add: s' aborted_session_inv, simp_all add: aborted_session_def)
qed

lemma gstep_sys_inv:
  assumes "gstep cd g g'" "sys_inv cd g"
  shows "sys_inv cd g'"
  using assms
proof (induction rule: gstep.induct)
  case (begin_closed g p now rq s' r)
  then show ?case by (intro sys_inv_begin_closed)
next
  case (begin_pending g p now rq s' enc)
  then show ?case by (intro sys_inv_begin_pending)
next
  case (fail g p enc)
  then show ?case by (intro sys_inv_fail)
next
  case (finish_ok g p enc out enc' cache fresh now cache' s' outcome)
  then show ?case by (intro sys_inv_finish_ok)
next
  case (finish_error g p enc out enc' cache fresh now cache' s' e)
  then have "s' = gs_session g" by (intro finish_generation_Inl(1))
  then have "g\<lparr>gs_session := s', gs_flights := (gs_flights g)(p := after_failure enc)\<rparr> =
      g\<lparr>gs_flights := (gs_flights g)(p := after_failure enc)\<rparr>" by simp
  then show ?case using finish_error sys_inv_fail by simp
next
  case (release g p cid)
  then show ?case by (intro sys_inv_release)
next
  case (reward now ri g s' r)
  then show ?case by (intro sys_inv_reward)
next
  case (finalize now g s' r')
  then show ?case by (intro sys_inv_finalize)
next
  case (abort now g s' r'')
  then show ?case by (intro sys_inv_abort)
qed

lemma sys_inv_start: "session_inv cd s \<Longrightarrow> ss_reserved_chain_ids s = {} \<Longrightarrow>
    sys_inv cd \<lparr>gs_session = s, gs_flights = (\<lambda>_. None)\<rparr>"
  by (simp add: sys_inv_def owner_def)

lemma reachable_run: "reachable cd s0 g \<Longrightarrow> (gstep cd)\<^sup>*\<^sup>* \<lparr>gs_session = s0, gs_flights = (\<lambda>_. None)\<rparr> g"
  by (induction rule: reachable.induct) (auto intro: rtranclp.rtrancl_into_rtrancl)

lemma new_session_unreserved: "new_session h p r sp rb now = Inr s \<Longrightarrow> ss_reserved_chain_ids s = {}"
  by (auto simp: new_session_def split: if_splits)

definition fresh_system :: "gsys \<Rightarrow> bool" where
  "fresh_system g \<longleftrightarrow> (\<exists>h p r sp rb now. new_session h p r sp rb now = Inr (gs_session g)) \<and>
     (\<forall>p. gs_flights g p = None)"

interpretation gw: invariant_system fresh_system "gstep cd" "sys_inv cd" for cd
proof
  fix s
  assume "fresh_system s"
  then obtain h p r sp rb now where new: "new_session h p r sp rb now = Inr (gs_session s)"
    and fl: "gs_flights s = (\<lambda>_. None)" unfolding fresh_system_def by blast
  have "ss_reserved_chain_ids (gs_session s) = {}" by (rule new_session_unreserved [OF new])
  with new_session_inv [OF new] have "sys_inv cd \<lparr>gs_session = gs_session s, gs_flights = (\<lambda>_. None)\<rparr>"
    by (rule sys_inv_start)
  then show "sys_inv cd s" using fl by (simp add: sys_inv_def owner_def)
qed (rule gstep_sys_inv)

text \<open>The session of a reachable state, started from a new session.\<close>

lemma reachable_sys_inv:
  assumes "new_session h p r sp rb now = Inr s0" "reachable cd s0 g"
  shows "sys_inv cd g"
proof (rule gw.reach_inv [OF _ reachable_run [OF assms(2)]])
  show "fresh_system \<lparr>gs_session = s0, gs_flights = (\<lambda>_. None)\<rparr>"
    unfolding fresh_system_def gsys.simps using assms(1) by blast
qed

end
