(* ===== verification/SessionDemo.thy ===== *)
theory SessionDemo
  imports SessionLife
begin

text \<open>
  A concrete run of one session, used where a theorem has hypotheses: a tokenizer of one
  token per character, a template that ends every message with a semicolon and every prompt
  with a generation mark, and four characters of the text as its hash.
\<close>

definition demo_codec :: codec where
  "demo_codec = \<lparr>cd_encode = map (\<lambda>c. int (of_char c)), cd_decode = (\<lambda>ids b. map (\<lambda>i. char_of (nat i)) ids),
     cd_template = (\<lambda>ms tools gp. Inr (concat (map (\<lambda>m. case dget m ''content'' of Some (PStr s) \<Rightarrow> s @ '';'' | _ \<Rightarrow> '';'') ms) @
        (if gp then ''>'' else []))),
     cd_processor = None, cd_vision = (\<lambda>_. Inr (None, None)),
     cd_generation_prompt = [62], cd_turn_separator = [], cd_tool_parser_name = None, cd_rollout_backend = None,
     cd_sgl_make = (\<lambda>_ _. Inl (KeyError [])), cd_vllm_tool = Inr, cd_vllm_make = (\<lambda>_ _. Inl (KeyError [])),
     cd_verl_make = (\<lambda>_. Inl (KeyError [])), cd_verl_schema = Inr, cd_loads = (\<lambda>_. None),
     cd_frepr = (\<lambda>_. []), cd_sha256 = (\<lambda>s. take 4 (rev s))\<rparr>"

definition demo_msg :: "string \<Rightarrow> string \<Rightarrow> dict" where
  "demo_msg r c = [(''role'', PStr r), (''content'', PStr c)]"

definition demo_s0 :: session where
  "demo_s0 = (case new_session \<lparr>sh_session_id = ''s'', sh_base_url = None, sh_reward_info_url = None\<rparr>
      (Some 20) (Some 20) None True 0 of Inr s \<Rightarrow> s | Inl _ \<Rightarrow> undefined)"

definition demo_rq :: "dict list \<Rightarrow> generation_request" where
  "demo_rq ms = \<lparr>rq_messages = ms, rq_tools = None, rq_sampling_params = []\<rparr>"

definition demo_out :: "int list \<Rightarrow> backend_output" where
  "demo_out ids = \<lparr>bo_token_ids = ids, bo_log_probs = None, bo_stop_reason = None, bo_routed_experts = None,
     bo_min_global_steps = Some 1, bo_max_global_steps = Some 1\<rparr>"

definition demo_rq1 :: generation_request where
  "demo_rq1 = demo_rq [demo_msg ''user'' ''a'']"
definition demo_rq2 :: generation_request where
  "demo_rq2 = demo_rq [demo_msg ''user'' ''a'', demo_msg ''assistant'' ''b'', demo_msg ''user'' ''c'']"

fun pending_of :: "started op \<Rightarrow> encoded_data option" where
  "pending_of (s, Inr (Pending e)) = Some e"
| "pending_of _ = None"

definition demo_b1 :: "started op" where
  "demo_b1 = begin_generation demo_codec 0 demo_rq1 demo_s0"
definition demo_enc1 :: encoded_data where
  "demo_enc1 = the (pending_of demo_b1)"

definition demo_rec1 :: encoded_data where
  "demo_rec1 = projr (record_output demo_enc1 (demo_out [98]))"

definition demo_f1 :: "parser_cache \<times> generation_outcome op" where
  "demo_f1 = finish_generation demo_codec [] (\<lambda>_. []) 0 demo_rec1 (demo_out [98]) (fst demo_b1)"

definition demo_s1 :: session where
  "demo_s1 = fst (snd demo_f1)"

definition demo_b2 :: "started op" where
  "demo_b2 = begin_generation demo_codec 0 demo_rq2 demo_s1"

definition demo_enc2 :: encoded_data where
  "demo_enc2 = the (pending_of demo_b2)"

text \<open>The last assistant message is replaced by another one: the chain is rolled back.\<close>

definition demo_rq3 :: generation_request where
  "demo_rq3 = demo_rq [demo_msg ''user'' ''a'', demo_msg ''user'' ''c'']"

definition demo_b3 :: "started op" where
  "demo_b3 = begin_generation demo_codec 0 demo_rq3 demo_s1"

definition demo_enc3 :: encoded_data where
  "demo_enc3 = the (pending_of demo_b3)"

definition no_flights :: "nat \<Rightarrow> flight option" where
  "no_flights = (\<lambda>_. None)"

definition demo_g1 :: gsys where
  "demo_g1 = \<lparr>gs_session = fst demo_b1, gs_flights = no_flights(0 := Some (Generating demo_enc1))\<rparr>"

definition demo_g2 :: gsys where
  "demo_g2 = \<lparr>gs_session = demo_s1, gs_flights = no_flights\<rparr>"

definition demo_g3 :: gsys where
  "demo_g3 = \<lparr>gs_session = fst demo_b2, gs_flights = no_flights(0 := Some (Generating demo_enc2))\<rparr>"

definition demo_g4 :: gsys where
  "demo_g4 = \<lparr>gs_session = fst demo_b3, gs_flights = no_flights(0 := Some (Generating demo_enc3))\<rparr>"

definition is_pending :: "nat option \<Rightarrow> bool \<Rightarrow> started op \<Rightarrow> bool" where
  "is_pending cid rb x =
     (case pending_of x of Some e \<Rightarrow> en_chain_id e = cid \<and> en_rollback_applied e = rb | None \<Rightarrow> False)"

lemma is_pendingD:
  assumes "is_pending cid rb x"
  shows "x = (fst x, Inr (Pending (the (pending_of x))))"
    "en_chain_id (the (pending_of x)) = cid" "en_rollback_applied (the (pending_of x)) = rb"
  using assms by (cases x rule: pending_of.cases; simp add: is_pending_def)+

lemma demo_eval: "is_pending None False demo_b1" "is_pending (Some 1) False demo_b2" "is_pending (Some 1) True demo_b3"
  by code_simp+

lemmas demo_pending = demo_eval [THEN is_pendingD(1), folded demo_enc1_def demo_enc2_def demo_enc3_def]

lemmas demo_chain = demo_eval [THEN is_pendingD(2), folded demo_enc1_def demo_enc2_def demo_enc3_def]

lemmas demo_rolled = demo_eval [THEN is_pendingD(3), folded demo_enc1_def demo_enc2_def demo_enc3_def]

lemma demo_record: "record_output demo_enc1 (demo_out [98]) = Inr demo_rec1"
proof -
  have "isl (record_output demo_enc1 (demo_out [98])) = False" by code_simp
  then show ?thesis by (simp add: demo_rec1_def)
qed

lemma demo_finish: "demo_f1 = (fst demo_f1, demo_s1, Inr (projr (snd (snd demo_f1))))"
proof -
  have "isl (snd (snd demo_f1)) = False" by code_simp
  then show ?thesis by (simp add: demo_s1_def prod_eq_iff)
qed

lemma demo_new: "new_session \<lparr>sh_session_id = ''s'', sh_base_url = None, sh_reward_info_url = None\<rparr>
    (Some 20) (Some 20) None True 0 = Inr demo_s0"
  by (simp add: demo_s0_def new_session_def)

lemma demo_paired: "paired (demo_out ids)"
  by (simp add: paired_def demo_out_def)

lemma demo_reach1: "reachable demo_codec demo_s0 demo_g1"
proof -
  let ?g0 = "\<lparr>gs_session = demo_s0, gs_flights = (\<lambda>_. None)\<rparr> :: gsys"
  have "gstep demo_codec ?g0 (?g0\<lparr>gs_session := fst demo_b1,
      gs_flights := (gs_flights ?g0)(0 := Some (Generating demo_enc1))\<rparr>)"
    by (rule gstep.begin_pending [where now = 0 and rq = demo_rq1])
      (use demo_pending(1) in \<open>simp_all add: demo_b1_def\<close>)
  with reachable.start [of demo_codec demo_s0] show ?thesis
    by (auto simp: demo_g1_def no_flights_def intro: reachable.step)
qed

lemma demo_reach2: "reachable demo_codec demo_s0 demo_g2"
proof -
  have "gstep demo_codec demo_g1 (demo_g1\<lparr>gs_session := demo_s1, gs_flights := (gs_flights demo_g1)(0 := None)\<rparr>)"
    by (rule gstep.finish_ok [OF _ demo_paired demo_record,
          where cache = "[]" and fresh = "\<lambda>_. []" and now = 0 and cache' = "fst demo_f1"
            and outcome = "projr (snd (snd demo_f1))"])
      (use demo_finish in \<open>simp_all add: demo_g1_def demo_f1_def\<close>)
  moreover have "demo_g1\<lparr>gs_session := demo_s1, gs_flights := (gs_flights demo_g1)(0 := None)\<rparr> = demo_g2"
    by (simp add: demo_g1_def demo_g2_def no_flights_def fun_eq_iff)
  ultimately show ?thesis using demo_reach1 by (metis reachable.step)
qed

lemma demo_reach3: "reachable demo_codec demo_s0 demo_g3"
proof -
  have "gstep demo_codec demo_g2 (demo_g2\<lparr>gs_session := fst demo_b2,
      gs_flights := (gs_flights demo_g2)(0 := Some (Generating demo_enc2))\<rparr>)"
    by (rule gstep.begin_pending [where now = 0 and rq = demo_rq2])
      (use demo_pending(2) in \<open>simp_all add: demo_b2_def demo_g2_def no_flights_def\<close>)
  with demo_reach2 show ?thesis
    by (auto simp: demo_g2_def demo_g3_def dest: reachable.step)
qed

lemma demo_reach4: "reachable demo_codec demo_s0 demo_g4"
proof -
  have "gstep demo_codec demo_g2 (demo_g2\<lparr>gs_session := fst demo_b3,
      gs_flights := (gs_flights demo_g2)(0 := Some (Generating demo_enc3))\<rparr>)"
    by (rule gstep.begin_pending [where now = 0 and rq = demo_rq3])
      (use demo_pending(3) in \<open>simp_all add: demo_b3_def demo_g2_def no_flights_def\<close>)
  with demo_reach2 show ?thesis
    by (auto simp: demo_g2_def demo_g4_def dest: reachable.step)
qed

lemmas demo_reach = demo_reach1 demo_reach2 demo_reach3 demo_reach4

lemma demo_phase: "ss_phase (gs_session demo_g1) = ACTIVE" "ss_phase (gs_session demo_g3) = ACTIVE"
  "ss_phase (gs_session demo_g4) = ACTIVE"
  using begin_pending_cases(1,4) [of demo_codec 0 demo_rq1 demo_s0 "fst demo_b1" demo_enc1]
    begin_pending_cases(1,4) [of demo_codec 0 demo_rq2 demo_s1 "fst demo_b2" demo_enc2]
    begin_pending_cases(1,4) [of demo_codec 0 demo_rq3 demo_s1 "fst demo_b3" demo_enc3]
    demo_pending
  by (simp_all add: demo_g1_def demo_g3_def demo_g4_def demo_b1_def [symmetric] demo_b2_def [symmetric]
      demo_b3_def [symmetric])

end
