(* ===== verification/SessionProps.thy ===== *)
theory SessionProps
  imports SessionDemo
begin

text \<open>
  The properties of the gateway session.  States are those that interleaved requests can reach
  from a new session; the demonstration run supplies the concrete instances.
\<close>

subsection \<open>Requests in flight\<close>

lemma generating_owner:
  "gs_flights g p = Some (Generating enc) \<Longrightarrow> owner g p = en_chain_id enc"
  by (simp add: owner_def)

text \<open>
  C1: two requests in flight never generate on the same chain, however the requests of a session
  interleave; and while the session is active, the chain of a generation in flight is present and
  reserved.
\<close>

theorem no_shared_generation:
  assumes "new_session h pl rl sp rb now = Inr s0" "reachable cd s0 g"
    and "gs_flights g p = Some (Generating e1)" "en_chain_id e1 = Some c"
  shows "(\<forall>q e2. gs_flights g q = Some (Generating e2) \<longrightarrow> en_chain_id e2 = Some c \<longrightarrow> q = p) \<and>
    (ss_phase (gs_session g) = ACTIVE \<longrightarrow>
       c \<in> ss_reserved_chain_ids (gs_session g) \<and>
       c \<in> cs_chain_id ` set (ss_active_chains (gs_session g)))"
proof -
  note inv = reachable_sys_inv [OF assms(1,2)]
  have own: "owner g p = Some c" using assms(3,4) by (simp add: generating_owner)
  have "q = p" if "gs_flights g q = Some (Generating e2)" "en_chain_id e2 = Some c" for q e2
    using sys_invD(3) [OF inv _ own] that by (simp add: generating_owner)
  then show ?thesis
    using sys_invD(2) [OF inv own] flight_linked [OF inv assms(3) _ assms(4)] by blast
qed

lemma no_shared_generation_witness:
  "{q. \<exists>e2. gs_flights demo_g3 q = Some (Generating e2) \<and> en_chain_id e2 = Some 1} = {0} \<and>
   1 \<in> ss_reserved_chain_ids (gs_session demo_g3) \<and>
   1 \<in> cs_chain_id ` set (ss_active_chains (gs_session demo_g3))"
proof -
  have f: "gs_flights demo_g3 0 = Some (Generating demo_enc2)" by (simp add: demo_g3_def)
  from no_shared_generation [OF demo_new demo_reach3 f demo_chain(2)] demo_phase(2) f demo_chain(2)
  show ?thesis by blast
qed

text \<open>
  C2: when the back end's output has been recorded and decoded, the second locked section of a
  request in flight on an active session cannot fail: its chain is found, the outcome reports the
  prompt and completion sizes, the chain with the request's history and the new assistant message
  carries the context followed by the generated tokens, masked 1, and every other chain is left
  as it was.
\<close>

theorem finish_commits:
  assumes "new_session h pl rl sp rb now0 = Inr s0" "reachable cd s0 g"
    and "gs_flights g p = Some (Generating enc)" "ss_phase (gs_session g) = ACTIVE"
    and "paired out" "record_output enc out = Inr enc'"
    and "decode_response cd cache fresh (bo_token_ids out) (en_tools enc') (bo_stop_reason out) =
           (cache', Inr (msg, fr))"
    and "compute_message_hash cd msg = Inr mh"
  shows "\<exists>s' c. finish_generation cd cache fresh now enc' out (gs_session g) =
      (cache', s', Inr \<lparr>go_assistant_msg = msg, go_finish_reason = fr,
         go_prompt_tokens = length (en_context_ids enc), go_completion_tokens = length (bo_token_ids out)\<rparr>) \<and>
    c \<in> set (ss_active_chains s') \<and> cs_message_history c = en_messages enc @ [msg] \<and>
    tb_prompt_ids (cs_buffer c) = tb_prompt_ids (en_buffer enc) \<and>
    tb_response_ids (cs_buffer c) = tb_response_ids (en_buffer enc) @ bo_token_ids out \<and>
    tb_response_mask (cs_buffer c) = tb_response_mask (en_buffer enc) @ replicate (length (bo_token_ids out)) 1 \<and>
    cs_chain_id c = (case en_chain_id enc of Some cid \<Rightarrow> cid | None \<Rightarrow> ss_next_chain_id (gs_session g)) \<and>
    (\<forall>c' \<in> set (ss_active_chains (gs_session g)). Some (cs_chain_id c') \<noteq> en_chain_id enc \<longrightarrow>
       c' \<in> set (ss_active_chains s')) \<and>
    ss_reserved_chain_ids s' = ss_reserved_chain_ids (gs_session g) - set_option (en_chain_id enc)"
proof -
  note inv = reachable_sys_inv [OF assms(1,2)]
  note R = record_output_Inr [OF assms(6)]
  obtain s1 r where c: "commit_generation_to_chain cd enc' msg (gs_session g) = (s1, r)"
    by (cases "commit_generation_to_chain cd enc' msg (gs_session g)")
  from commit_in_flight [OF inv assms(3-6) c] assms(8) have r: "r = Inr ()"
    and res: "ss_reserved_chain_ids s1 = ss_reserved_chain_ids (gs_session g)"
    and keep: "\<forall>c \<in> set (ss_active_chains (gs_session g)). Some (cs_chain_id c) \<noteq> en_chain_id enc' \<longrightarrow>
         c \<in> set (ss_active_chains s1)"
    and new: "\<exists>c \<in> set (ss_active_chains s1). cs_buffer c = en_buffer enc' \<and>
          cs_message_history c = en_messages enc' @ [msg] \<and>
          (case en_chain_id enc' of Some cid \<Rightarrow> cs_chain_id c = cid
           | None \<Rightarrow> cs_chain_id c = ss_next_chain_id (gs_session g))"
    by auto
  from new obtain c0 where c0: "c0 \<in> set (ss_active_chains s1)" "cs_buffer c0 = en_buffer enc'"
    "cs_message_history c0 = en_messages enc' @ [msg]"
    "cs_chain_id c0 = (case en_chain_id enc' of Some cid \<Rightarrow> cid | None \<Rightarrow> ss_next_chain_id (gs_session g))"
    by (auto split: option.splits)
  show ?thesis
    by (rule exI [of _ "touch now (discard_reservation (en_chain_id enc') s1)"], rule exI [of _ c0])
      (use assms(4,7) c r res keep c0 R in \<open>simp add: finish_generation_def\<close>)
qed

lemma demo_decode: "decode_response demo_codec [] (\<lambda>_. []) (bo_token_ids (demo_out [98]))
    (en_tools demo_rec1) (bo_stop_reason (demo_out [98])) =
  ([], Inr (demo_msg ''assistant'' ''b'', ''stop''))"
  by (simp add: decode_response_def demo_codec_def demo_out_def demo_msg_def finish_reason_of_def
      plain_message_def Let_def) code_simp

lemma demo_hash: "\<exists>h. compute_message_hash demo_codec (demo_msg ''assistant'' ''b'') = Inr h"
  by (simp add: compute_message_hash_def canonicalize_message_def demo_msg_def Let_def)

lemma finish_commits_witness:
  "\<exists>mh. compute_message_hash demo_codec (demo_msg ''assistant'' ''b'') = Inr mh \<and> (\<exists>s' c.
    finish_generation demo_codec [] (\<lambda>_. []) 0 demo_rec1 (demo_out [98]) (gs_session demo_g1) =
      ([], s', Inr \<lparr>go_assistant_msg = demo_msg ''assistant'' ''b'', go_finish_reason = ''stop'',
         go_prompt_tokens = length (en_context_ids demo_enc1),
         go_completion_tokens = length (bo_token_ids (demo_out [98]))\<rparr>) \<and>
    c \<in> set (ss_active_chains s'))"
proof -
  from demo_hash obtain mh where mh: "compute_message_hash demo_codec (demo_msg ''assistant'' ''b'') = Inr mh" ..
  have "gs_flights demo_g1 0 = Some (Generating demo_enc1)" by (simp add: demo_g1_def)
  from finish_commits [OF demo_new demo_reach1 this demo_phase(1) demo_paired demo_record demo_decode mh, of 0]
  show ?thesis using mh by blast
qed

text \<open>
  C5: in every reachable state, each active chain has a 0/1 mask as long as its response, log
  probabilities that are absent or aligned with it, and a tip hash that is the prefix hash of its
  whole history; every materialised trajectory is aligned in the same way; chain ids are distinct
  and order numbers are distinct.
\<close>

theorem reachable_alignment:
  assumes "new_session h pl rl sp rb now = Inr s0" "reachable cd s0 g"
  shows "(\<forall>c \<in> set (ss_active_chains (gs_session g)).
        length (tb_response_mask (cs_buffer c)) = length (tb_response_ids (cs_buffer c)) \<and>
        set (tb_response_mask (cs_buffer c)) \<subseteq> {0, 1} \<and> logprobs_aligned (cs_buffer c) \<and>
        (\<exists>hs. extend_message_prefix_hashes cd [] (cs_message_history c) = Inr hs \<and>
              hs \<noteq> [] \<and> cs_message_tip_hash c = last hs)) \<and>
     (\<forall>m \<in> set (ss_materialized_chains (gs_session g)). traj_ok (mc_trajectory m)) \<and>
     distinct (map cs_chain_id (ss_active_chains (gs_session g))) \<and>
     distinct (map mc_order_seq (ss_materialized_chains (gs_session g)) @
               map cs_updated_seq (ss_active_chains (gs_session g)))"
proof -
  note inv = sys_invD(1) [OF reachable_sys_inv [OF assms]]
  have "length (tb_response_mask (cs_buffer c)) = length (tb_response_ids (cs_buffer c)) \<and>
        set (tb_response_mask (cs_buffer c)) \<subseteq> {0, 1} \<and> logprobs_aligned (cs_buffer c) \<and>
        (\<exists>hs. extend_message_prefix_hashes cd [] (cs_message_history c) = Inr hs \<and>
              hs \<noteq> [] \<and> cs_message_tip_hash c = last hs)"
    if "c \<in> set (ss_active_chains (gs_session g))" for c
    using session_invD(3) [OF inv that] by (auto simp: chain_ok_def buffer_ok_def start_ok_def)
  then show ?thesis
    using inv session_invD(1,5) [OF inv] by (simp add: session_inv_def)
qed

lemma reachable_alignment_witness:
  "\<exists>cd s0 g. reachable cd s0 g \<and> distinct (map cs_chain_id (ss_active_chains (gs_session g)))"
  using reachable_alignment [OF demo_new demo_reach3] demo_reach3 by blast

text \<open>
  C3: a request in flight that continues a chain without rollback starts from that chain's own
  tokens: the prompt is the chain's prompt, the response is the chain's response followed by
  context tokens that are all masked 0, and no generation mark is lost.
\<close>

theorem continuation_extends_chain:
  assumes "new_session h pl rl sp rb now = Inr s0" "reachable cd s0 g"
    and "gs_flights g p = Some (Generating enc)" "en_chain_id enc = Some cid"
    and "ss_phase (gs_session g) = ACTIVE" "\<not> en_rollback_applied enc"
  shows "\<exists>c \<in> set (ss_active_chains (gs_session g)). cs_chain_id c = cid \<and> en_rollback_dropped enc = 0 \<and>
     tb_prompt_ids (en_buffer enc) = tb_prompt_ids (cs_buffer c) \<and>
     (\<exists>ids. tb_response_ids (en_buffer enc) = tb_response_ids (cs_buffer c) @ ids \<and>
        tb_response_mask (en_buffer enc) = tb_response_mask (cs_buffer c) @ replicate (length ids) 0) \<and>
     tb_generation_versions (en_buffer enc) = tb_generation_versions (cs_buffer c)"
  using sys_invD(7) [OF reachable_sys_inv [OF assms(1,2)] assms(3,5)] assms(4,6)
  by (auto simp: linked_def continues_def Let_def)

lemma continuation_extends_chain_witness:
  "\<exists>c \<in> set (ss_active_chains (gs_session demo_g3)). cs_chain_id c = 1 \<and> en_rollback_dropped demo_enc2 = 0"
proof -
  have f: "gs_flights demo_g3 0 = Some (Generating demo_enc2)" by (simp add: demo_g3_def)
  from continuation_extends_chain [OF demo_new demo_reach3 f demo_chain(2) demo_phase(2)] demo_rolled(2)
  show ?thesis by blast
qed

text \<open>
  C4: a request in flight that rolls a chain back drops exactly the tokens after the start of the
  last assistant message and the assistant prefix before it: what is kept is a prefix of the
  chain's tokens with its own mask, the context that follows is masked 0, the dropped count is
  the number of trained tokens after that start, and one generation mark is removed.
\<close>

theorem rollback_drops_last_assistant:
  assumes "new_session h pl rl sp rb now = Inr s0" "reachable cd s0 g"
    and "gs_flights g p = Some (Generating enc)" "en_chain_id enc = Some cid"
    and "ss_phase (gs_session g) = ACTIVE" "en_rollback_applied enc"
  shows "\<exists>c \<in> set (ss_active_chains (gs_session g)). cs_chain_id c = cid \<and>
     (let n = la_response_ids_len (cs_last_assistant_start c); b0 = cs_buffer c; b = en_buffer enc in
      n \<le> length (tb_response_ids b0) \<and>
      en_rollback_dropped enc = sum_list (drop n (tb_response_mask b0)) \<and>
      (if n = 0 then tb_prompt_ids b0 = tb_prompt_ids b @ assistant_prefix cd
       else tb_prompt_ids b = tb_prompt_ids b0) \<and>
      (\<exists>kept ids. take n (tb_response_ids b0) = kept @ (if n = 0 then [] else assistant_prefix cd) \<and>
         tb_response_ids b = kept @ ids \<and>
         tb_response_mask b = take (length kept) (tb_response_mask b0) @ replicate (length ids) 0) \<and>
      tb_generation_versions b = butlast (tb_generation_versions b0))"
proof -
  note inv = reachable_sys_inv [OF assms(1,2)]
  from sys_invD(7) [OF inv assms(3,5)] assms(4) obtain c where
    c: "c \<in> set (ss_active_chains (gs_session g))" "cs_chain_id c = cid"
    and k: "continues cd c True (en_buffer enc) (en_rollback_dropped enc)"
    using assms(6) by (auto simp: linked_def)
  have "la_response_ids_len (cs_last_assistant_start c) \<le> length (tb_response_ids (cs_buffer c))"
    using session_invD(3) [OF sys_invD(1) [OF inv] c(1)] by (auto simp: chain_ok_def start_ok_def)
  with k show ?thesis
    by (intro bexI [OF _ c(1)]) (auto simp: c(2) continues_def Let_def split: if_splits)
qed

lemma rollback_drops_last_assistant_witness:
  "\<exists>c \<in> set (ss_active_chains (gs_session demo_g4)). cs_chain_id c = 1 \<and>
     en_rollback_dropped demo_enc3 =
       sum_list (drop (la_response_ids_len (cs_last_assistant_start c)) (tb_response_mask (cs_buffer c)))"
proof -
  have f: "gs_flights demo_g4 0 = Some (Generating demo_enc3)" by (simp add: demo_g4_def)
  from rollback_drops_last_assistant [OF demo_new demo_reach4 f demo_chain(3) demo_phase(3)] demo_rolled(3)
  show ?thesis by (auto simp: Let_def)
qed

text \<open>
  C6: no reservation is leaked: once no request is in flight, no chain is reserved, whatever
  failed, was cancelled or was finalized in between; and a reservation always belongs to exactly
  one request in flight.
\<close>

theorem no_leaked_reservation:
  assumes "new_session h pl rl sp rb now = Inr s0" "reachable cd s0 g"
  shows "((\<forall>p. gs_flights g p = None) \<longrightarrow> ss_reserved_chain_ids (gs_session g) = {}) \<and>
    (\<forall>c \<in> ss_reserved_chain_ids (gs_session g). \<exists>!p. owner g p = Some c)"
proof -
  note inv = reachable_sys_inv [OF assms]
  have "\<exists>!p. owner g p = Some c" if "c \<in> ss_reserved_chain_ids (gs_session g)" for c
    using sys_invD(4) [OF inv that] sys_invD(3) [OF inv] by blast
  moreover have "owner g p = None" if "gs_flights g p = None" for p
    using that by (simp add: owner_def)
  ultimately show ?thesis by fastforce
qed

lemma no_leaked_reservation_witness: "ss_reserved_chain_ids (gs_session demo_g2) = {}"
  using no_leaked_reservation [OF demo_new demo_reach2] by (simp add: demo_g2_def no_flights_def)

end
