(* ===== verification/HashProps.thy ===== *)
theory HashProps
  imports SessionProps
begin

text \<open>
  What prefix hashes say about messages.  A session never compares messages: it compares hashes
  of canonical JSON texts.  Under collision-freeness of the hash on the texts actually hashed,
  equality of two prefix hashes is equality of the canonical messages, and chain selection is
  selection by canonical prefix.
\<close>

subsection \<open>The hash chain over canonical texts\<close>

definition canonical_text :: "codec \<Rightarrow> dict \<Rightarrow> string result" where
  "canonical_text cd m = rbind (canonicalize_message cd m) (\<lambda>c. Inr (utf8 (dumps (cd_frepr cd) (PDict c))))"

definition message_input :: "string \<Rightarrow> string" where
  "message_input j = ''uni-agent-message-v1'' @ nul @ j"

definition prefix_input :: "string \<Rightarrow> string \<Rightarrow> string" where
  "prefix_input p mh = ''uni-agent-prefix-v1'' @ nul @ p @ nul @ mh"

definition empty_input :: string where
  "empty_input = ''uni-agent-prefix-v1'' @ nul @ ''empty''"

text \<open>The prefix hash of a list of canonical texts, the last one first.\<close>

primrec text_hash :: "codec \<Rightarrow> string list \<Rightarrow> string" where
  "text_hash cd [] = cd_sha256 cd empty_input"
| "text_hash cd (j # js) =
     cd_sha256 cd (prefix_input (text_hash cd js) (cd_sha256 cd (message_input j)))"

text \<open>All texts hashed on the way.\<close>

primrec hashed_texts :: "codec \<Rightarrow> string list \<Rightarrow> string set" where
  "hashed_texts cd [] = {empty_input}"
| "hashed_texts cd (j # js) =
     {message_input j, prefix_input (text_hash cd js) (cd_sha256 cd (message_input j))} \<union> hashed_texts cd js"

lemma compute_message_hash_text:
  "compute_message_hash cd m = rbind (canonical_text cd m) (\<lambda>j. Inr (cd_sha256 cd (message_input j)))"
  by (cases "canonicalize_message cd m") (auto simp: compute_message_hash_def canonical_text_def message_input_def)

lemma chain_hashes_text:
  assumes "chain_hashes cd (text_hash cd js0) ms = Inr hs"
  shows "\<exists>js. rmap (canonical_text cd) ms = Inr js \<and>
    (\<forall>n < length hs. hs ! n = text_hash cd (rev (take (Suc n) js) @ js0))"
  using assms
proof (induction ms arbitrary: js0 hs)
  case (Cons m ms)
  then obtain j t where j: "canonical_text cd m = Inr j"
    and t: "chain_hashes cd (text_hash cd (j # js0)) ms = Inr t" "hs = text_hash cd (j # js0) # t"
    by (auto simp: err_simps Let_def compute_message_hash_text prefix_hash_def prefix_input_def)
  from Cons.IH [OF t(1)] obtain js where js: "rmap (canonical_text cd) ms = Inr js"
    "\<forall>n < length t. t ! n = text_hash cd (rev (take (Suc n) js) @ j # js0)" by blast
  have "hs ! n = text_hash cd (rev (take (Suc n) (j # js)) @ js0)" if "n < length hs" for n
    using that js(2) t(2) by (cases n) auto
  then show ?case using j js(1) by (intro exI [of _ "j # js"]) simp
qed simp

lemma history_hashes_text:
  assumes "history_hashes cd ms = Inr hs"
  obtains js where "rmap (canonical_text cd) ms = Inr js" "length js = length hs"
    "\<And>n. n < length hs \<Longrightarrow> hs ! n = text_hash cd (rev (take (Suc n) js))"
proof -
  have "chain_hashes cd (text_hash cd []) ms = Inr hs"
    using assms by (simp add: history_hashes_eq EMPTY_PREFIX_HASH_def empty_input_def)
  from chain_hashes_text [OF this] obtain js where "rmap (canonical_text cd) ms = Inr js"
    "\<forall>n < length hs. hs ! n = text_hash cd (rev (take (Suc n) js))" by auto
  with that [of js] show thesis
    using rmap_length [of "canonical_text cd" ms js] history_hashes_length [OF assms] by simp
qed

lemma nul_split:
  assumes "p @ nul @ m = q @ nul @ n" "char_of (0::nat) \<notin> set p" "char_of (0::nat) \<notin> set q"
  shows "p = q \<and> m = n"
  using assms
proof (induction p arbitrary: q)
  case Nil
  then show ?case by (cases q) (auto simp: nul_def)
next
  case (Cons x p)
  then obtain q' where "q = x # q'" by (cases q) (auto simp: nul_def)
  with Cons show ?case by auto
qed

lemma prefix_input_inj:
  "char_of (0::nat) \<notin> set p \<Longrightarrow> char_of (0::nat) \<notin> set q \<Longrightarrow>
     prefix_input p m = prefix_input q n \<longleftrightarrow> p = q \<and> m = n"
  using nul_split [of p m q n] by (auto simp: prefix_input_def)

lemma empty_input_ne: "empty_input \<noteq> prefix_input p m"
proof
  assume "empty_input = prefix_input p m"
  then have "''empty'' = p @ nul @ m" by (simp add: empty_input_def prefix_input_def)
  moreover have "char_of (0::nat) \<notin> set ''empty''" by code_simp
  moreover have "char_of (0::nat) \<in> set (p @ nul @ m)" by (simp add: nul_def)
  ultimately show False by metis
qed

text \<open>The digest is hexadecimal and no two of the texts hashed collide.\<close>

definition digests_ok :: "codec \<Rightarrow> string set \<Rightarrow> bool" where
  "digests_ok cd T \<longleftrightarrow> (\<forall>s. char_of (0::nat) \<notin> set (cd_sha256 cd s)) \<and> inj_on (cd_sha256 cd) T"

lemma text_hash_nul: "digests_ok cd T \<Longrightarrow> char_of (0::nat) \<notin> set (text_hash cd js)"
  by (cases js) (auto simp: digests_ok_def)

lemma text_hash_inj:
  assumes "digests_ok cd (hashed_texts cd js \<union> hashed_texts cd ks)"
  shows "text_hash cd js = text_hash cd ks \<longleftrightarrow> js = ks"
  using assms
proof (induction js arbitrary: ks)
  case Nil
  then show ?case
    by (cases ks) (auto simp: digests_ok_def inj_on_def empty_input_ne)
next
  case (Cons j js)
  note ok = Cons.prems
  show ?case
  proof (cases ks)
    case Nil
    with ok show ?thesis by (auto simp: digests_ok_def inj_on_def empty_input_ne [symmetric])
  next
    case (Cons k ks')
    let ?mj = "cd_sha256 cd (message_input j)" and ?mk = "cd_sha256 cd (message_input k)"
    have sub: "digests_ok cd (hashed_texts cd js \<union> hashed_texts cd ks')"
      using ok Cons by (auto simp: digests_ok_def inj_on_def)
    have inj: "inj_on (cd_sha256 cd) (hashed_texts cd (j # js) \<union> hashed_texts cd ks)"
      using ok by (simp add: digests_ok_def)
    have "text_hash cd (j # js) = text_hash cd ks \<longleftrightarrow>
        prefix_input (text_hash cd js) ?mj = prefix_input (text_hash cd ks') ?mk"
      using inj_on_eq_iff [OF inj] Cons by simp
    also have "\<dots> \<longleftrightarrow> text_hash cd js = text_hash cd ks' \<and> ?mj = ?mk"
      using text_hash_nul [OF ok] by (simp add: prefix_input_inj)
    also have "?mj = ?mk \<longleftrightarrow> message_input j = message_input k"
      using inj_on_eq_iff [OF inj] Cons by simp
    also have "text_hash cd js = text_hash cd ks' \<longleftrightarrow> js = ks'" by (rule Cons.IH [OF sub])
    finally show ?thesis using Cons by (auto simp: message_input_def)
  qed
qed

lemma hashed_texts_suffix: "hashed_texts cd ks \<subseteq> hashed_texts cd (js @ ks)"
  by (induction js) auto

lemma hashed_texts_take: "hashed_texts cd (rev (take n js)) \<subseteq> hashed_texts cd (rev js)"
  using hashed_texts_suffix [of cd "rev (take n js)" "rev (drop n js)"]
  by (metis append_take_drop_id rev_append)

lemma digests_ok_mono: "digests_ok cd T \<Longrightarrow> S \<subseteq> T \<Longrightarrow> digests_ok cd S"
  by (auto simp: digests_ok_def dest: inj_on_subset)


subsection \<open>The demonstration run with an arbitrary hash\<close>

definition hash_codec :: "(string \<Rightarrow> string) \<Rightarrow> codec" where
  "hash_codec f = demo_codec\<lparr>cd_sha256 := f\<rparr>"

definition hr_begin :: "(string \<Rightarrow> string) \<Rightarrow> started op" where
  "hr_begin f = begin_generation (hash_codec f) 0 demo_rq1 demo_s0"

definition hr_enc :: "(string \<Rightarrow> string) \<Rightarrow> encoded_data" where
  "hr_enc f = the (pending_of (hr_begin f))"

definition hr_rec :: "(string \<Rightarrow> string) \<Rightarrow> encoded_data" where
  "hr_rec f = projr (record_output (hr_enc f) (demo_out [98]))"

definition hr_finish :: "(string \<Rightarrow> string) \<Rightarrow> parser_cache \<times> generation_outcome op" where
  "hr_finish f = finish_generation (hash_codec f) [] (\<lambda>_. []) 0 (hr_rec f) (demo_out [98]) (fst (hr_begin f))"

definition hr_state :: "(string \<Rightarrow> string) \<Rightarrow> gsys" where
  "hr_state f = \<lparr>gs_session = fst (snd (hr_finish f)), gs_flights = no_flights\<rparr>"

lemma hr_history:
  "map cs_message_history (ss_active_chains (gs_session (hr_state f))) =
     [[demo_msg ''user'' ''a'', demo_msg ''assistant'' ''b'']]"
  by code_simp

lemma hr_reach: "reachable (hash_codec f) demo_s0 (hr_state f)"
proof -
  let ?g0 = "\<lparr>gs_session = demo_s0, gs_flights = (\<lambda>_. None)\<rparr> :: gsys"
  let ?g1 = "?g0\<lparr>gs_session := fst (hr_begin f), gs_flights := (gs_flights ?g0)(0 := Some (Generating (hr_enc f)))\<rparr>"
  have "is_pending None False (hr_begin f)" by code_simp
  from is_pendingD(1) [OF this] have "hr_begin f = (fst (hr_begin f), Inr (Pending (hr_enc f)))"
    by (simp add: hr_enc_def)
  then have "gstep (hash_codec f) ?g0 ?g1"
    by (intro gstep.begin_pending [where now = 0 and rq = demo_rq1]) (simp_all add: hr_begin_def)
  with reachable.start have g1: "reachable (hash_codec f) demo_s0 ?g1" by (rule reachable.step)
  have "isl (record_output (hr_enc f) (demo_out [98])) = False" by code_simp
  then have rec: "record_output (hr_enc f) (demo_out [98]) = Inr (hr_rec f)" by (simp add: hr_rec_def)
  have "isl (snd (snd (hr_finish f))) = False" by code_simp
  then have fin: "hr_finish f = (fst (hr_finish f), fst (snd (hr_finish f)), Inr (projr (snd (snd (hr_finish f)))))"
    by (simp add: prod_eq_iff)
  have "gstep (hash_codec f) ?g1 (?g1\<lparr>gs_session := fst (snd (hr_finish f)), gs_flights := (gs_flights ?g1)(0 := None)\<rparr>)"
    by (rule gstep.finish_ok [OF _ demo_paired rec, where cache = "[]" and fresh = "\<lambda>_. []" and now = 0
          and cache' = "fst (hr_finish f)" and outcome = "projr (snd (snd (hr_finish f)))"])
      (use fin in \<open>simp_all add: hr_finish_def\<close>)
  moreover have "?g1\<lparr>gs_session := fst (snd (hr_finish f)), gs_flights := (gs_flights ?g1)(0 := None)\<rparr> = hr_state f"
    by (simp add: hr_state_def no_flights_def fun_eq_iff)
  ultimately show ?thesis using g1 by (metis reachable.step)
qed

subsection \<open>A collision-free hash\<close>

text \<open>A hash with both properties: the hexadecimal form of the text itself.\<close>

definition hex_text :: "string \<Rightarrow> string" where
  "hex_text s = concat (map (\<lambda>c. let n = (of_char c :: nat) in [hex_digit (n div 16), hex_digit (n mod 16)]) s)"

lemma hex_digit_inj: "m < 16 \<Longrightarrow> n < 16 \<Longrightarrow> hex_digit m = hex_digit n \<longleftrightarrow> m = n"
  by (auto simp: hex_digit_def)

lemma hex_text_inj: "hex_text s = hex_text t \<longleftrightarrow> s = t"
proof (induction s arbitrary: t)
  case Nil
  then show ?case by (cases t) (auto simp: hex_text_def Let_def)
next
  case (Cons c s)
  show ?case
  proof (cases t)
    case (Cons d t')
    have b: "(of_char c :: nat) < 256" "(of_char d :: nat) < 256" by simp_all
    have "(of_char c :: nat) div 16 = of_char d div 16 \<and> (of_char c :: nat) mod 16 = of_char d mod 16
        \<longleftrightarrow> (of_char c :: nat) = of_char d" by (metis div_mult_mod_eq)
    with b Cons Cons.IH [of t'] show ?thesis
      by (auto simp: hex_text_def Let_def hex_digit_inj less_mult_imp_div_less)
  qed (simp add: hex_text_def Let_def)
qed

lemma hex_digit_nul: "n < 16 \<Longrightarrow> hex_digit n \<noteq> char_of (0::nat)"
  by (auto simp: hex_digit_def char_of_eq_iff take_bit_eq_mod)

lemma hex_text_nul: "char_of (0::nat) \<notin> set (hex_text s)"
proof -
  have "hex_digit ((of_char c :: nat) div 16) \<noteq> char_of (0::nat)"
    "hex_digit ((of_char c :: nat) mod 16) \<noteq> char_of (0::nat)" for c :: char
    by (rule hex_digit_nul, simp add: less_mult_imp_div_less)+
  then show ?thesis by (auto simp: hex_text_def Let_def dest: sym)
qed

definition hex_codec :: codec where
  "hex_codec = hash_codec hex_text"

lemma hex_digests_ok: "digests_ok hex_codec T"
  by (auto simp: digests_ok_def hex_codec_def hash_codec_def hex_text_nul hex_text_inj inj_on_def)

end
