(* ===== verification/SelectProps.thy ===== *)
theory SelectProps
  imports HashProps
begin


text \<open>
  C10: selection is by canonical prefix: in a reachable state an active chain matches a request
  exactly when the canonical texts of its whole history are a prefix of the canonical texts of
  the request's messages.
\<close>

theorem match_is_canonical_prefix:
  assumes "new_session h pl rl sp rb now = Inr s0" "reachable cd s0 g"
    and "c \<in> set (ss_active_chains (gs_session g))"
    and "extend_message_prefix_hashes cd [] ms = Inr hs" "rmap (canonical_text cd) ms = Inr js"
    and "rmap (canonical_text cd) (cs_message_history c) = Inr ks"
    and "digests_ok cd (hashed_texts cd (rev js) \<union> hashed_texts cd (rev ks))"
  shows "is_chain_prefix_hash_match c hs \<longleftrightarrow> take (length ks) js = ks"
proof -
  have cok: "chain_ok cd c"
    using session_invD(3) [OF sys_invD(1) [OF reachable_sys_inv [OF assms(1,2)]] assms(3)] .
  then obtain hc where hc: "history_hashes cd (cs_message_history c) = Inr hc"
    "cs_message_tip_hash c = last hc" by (auto simp: chain_ok_def)
  have "0 < length (cs_message_history c) - 1" using cok by (auto simp: chain_ok_def start_ok_def)
  then have ne: "hc \<noteq> []" using history_hashes_length [OF hc(1)] by auto
  from history_hashes_text [OF hc(1)] assms(6) have K: "length ks = length hc"
    "\<And>n. n < length hc \<Longrightarrow> hc ! n = text_hash cd (rev (take (Suc n) ks))" by auto
  from history_hashes_text [OF assms(4)] assms(5) have J: "length js = length hs"
    "\<And>n. n < length hs \<Longrightarrow> hs ! n = text_hash cd (rev (take (Suc n) js))" by auto
  define n where "n = length hc"
  have n: "length (cs_message_history c) = n" "0 < n"
    using history_hashes_length [OF hc(1)] ne unfolding n_def by (simp, metis length_greater_0_conv)
  show ?thesis
  proof (cases "n \<le> length hs")
    case False
    then show ?thesis using n K(1) J(1) by (auto simp: is_chain_prefix_hash_match_def n_def Let_def)
  next
    case True
    have tip: "cs_message_tip_hash c = text_hash cd (rev ks)"
      using K(2) [of "n - 1"] n hc(2) ne K(1) by (simp add: last_conv_nth n_def)
    have at: "hs ! (n - 1) = text_hash cd (rev (take n js))" using J(2) [of "n - 1"] n True by simp
    have "digests_ok cd (hashed_texts cd (rev ks) \<union> hashed_texts cd (rev (take n js)))"
      by (rule digests_ok_mono [OF assms(7)]) (use hashed_texts_take in blast)
    from text_hash_inj [OF this] show ?thesis using True n tip at K(1)
      by (auto simp: is_chain_prefix_hash_match_def Let_def n_def)
  qed
qed

lemma match_is_canonical_prefix_witness:
  "\<exists>c \<in> set (ss_active_chains (gs_session (hr_state hex_text))). \<exists>hs.
     extend_message_prefix_hashes hex_codec [] (rq_messages demo_rq2) = Inr hs \<and>
     is_chain_prefix_hash_match c hs"
proof -
  obtain c where c: "ss_active_chains (gs_session (hr_state hex_text)) = [c]"
    "cs_message_history c = [demo_msg ''user'' ''a'', demo_msg ''assistant'' ''b'']"
    using hr_history [of hex_text] by (auto simp: map_eq_Cons_conv)
  have canon: "\<exists>j. canonical_text hex_codec (demo_msg r s) = Inr j" for r s
    by (simp add: canonical_text_def canonicalize_message_def demo_msg_def Let_def)
  obtain j1 j2 j3 where j: "canonical_text hex_codec (demo_msg ''user'' ''a'') = Inr j1"
    "canonical_text hex_codec (demo_msg ''assistant'' ''b'') = Inr j2"
    "canonical_text hex_codec (demo_msg ''user'' ''c'') = Inr j3" using canon by metis
  have js: "rmap (canonical_text hex_codec) (rq_messages demo_rq2) = Inr [j1, j2, j3]"
    using j by (simp add: demo_rq2_def demo_rq_def)
  have ks: "rmap (canonical_text hex_codec) (cs_message_history c) = Inr [j1, j2]" using j c(2) by simp
  obtain hs where hs: "extend_message_prefix_hashes hex_codec [] (rq_messages demo_rq2) = Inr hs"
    using j by (auto simp: extend_message_prefix_hashes_def demo_rq2_def demo_rq_def Let_def
        compute_message_hash_text)
  have mem: "c \<in> set (ss_active_chains (gs_session (hr_state hex_text)))" using c by simp
  from match_is_canonical_prefix [OF demo_new hr_reach [of hex_text, folded hex_codec_def] mem hs js ks hex_digests_ok]
  have "is_chain_prefix_hash_match c hs" by simp
  then show ?thesis using hs mem by blast
qed

lemma pick_exact_optimal:
  assumes "select_chain s tools hs = Some (c, False)" "c' \<in> set (exact_chains s tools hs)"
  shows "(length (cs_message_history c'), cs_updated_seq c') \<le> (length (cs_message_history c), cs_updated_seq c)"
proof -
  let ?E = "map exact_candidate (exact_chains s tools hs)"
  obtain xs where sel: "pick_candidate (?E @ xs) = Some (c, False)" and xs: "\<forall>x \<in> set xs. \<not> snd (snd x)"
  proof (cases "length (deepest_chains s tools hs) = 1")
    case True
    then show ?thesis using assms(1)
      by (intro that [of "[(hd (deepest_chains s tools hs), nat (max_depth (rollback_chains s tools hs)), False)]"])
        (simp_all add: select_chain_eq Let_def)
  next
    case False
    then show ?thesis using assms(1)
      by (intro that [of "[]"]) (auto simp: select_chain_eq Let_def split: if_splits)
  qed
  from sel obtain n where mem: "(c, n, \<not> False) \<in> set (?E @ xs)"
    and mx: "\<And>x. x \<in> set (?E @ xs) \<Longrightarrow> candidate_key x \<le> candidate_key (c, n, \<not> False)"
    by (rule pick_candidate_Some) blast
  from mem xs have "n = length (cs_message_history c)" by (auto simp: exact_candidate_def)
  moreover have "candidate_key (exact_candidate c') \<le> candidate_key (c, n, \<not> False)"
    by (rule mx) (use assms(2) in auto)
  ultimately show ?thesis by (auto simp: candidate_key_def exact_candidate_def less_eq_prod_def)
qed


lemma demo_select: "\<exists>c hs. select_chain demo_s1 None hs = Some (c, True)"
proof -
  have phase: "prepare_generation_inputs demo_codec demo_s1 demo_rq3 = Inr demo_enc3"
    using begin_pending_cases(2) [of demo_codec 0 demo_rq3 demo_s1 "fst demo_b3" demo_enc3] demo_pending(3)
    by (simp add: demo_b3_def [symmetric])
  have inv: "session_inv demo_codec demo_s1"
    using sys_invD(1) [OF reachable_sys_inv [OF demo_new demo_reach2]] by (simp add: demo_g2_def)
  show ?thesis
    using prepare_chain_id [OF phase inv demo_chain(3)] demo_rolled(3)
    by (metis demo_rq3_def demo_rq_def generation_request.select_convs(2))
qed


text \<open>
  a request starts a new chain in exactly two cases: no free chain with its tools matches
  it and none can be rolled back; or the deepest rollback is shared by several chains and lies
  beyond every exactly matching chain.
\<close>

theorem new_chain_iff:
  "select_chain s tools hs = None \<longleftrightarrow>
     (exact_chains s tools hs = [] \<and> rollback_chains s tools hs = []) \<or>
     (2 \<le> length (deepest_chains s tools hs) \<and>
      (\<forall>c \<in> set (exact_chains s tools hs).
         int (length (cs_message_history c)) < max_depth (rollback_chains s tools hs)))"
proof -
  let ?R = "rollback_chains s tools hs" and ?D = "deepest_chains s tools hs" and ?X = "exact_chains s tools hs"
  have DR: "?D = [] \<longleftrightarrow> ?R = []"
    using max_depth_in [of ?R] by (auto simp: deepest_chains_def filter_empty_conv)
  have mx: "max_depth ?R > max_service (map exact_candidate ?X) \<longleftrightarrow>
      (\<forall>c \<in> set ?X. int (length (cs_message_history c)) < max_depth ?R)" if "?R \<noteq> []"
  proof -
    have pos: "-1 < max_depth ?R" using max_depth_in [OF that] depth_of_nonneg by (metis less_le_trans minus_less_iff neg_less_0_iff_less zero_less_one)
    have "max_service (map exact_candidate xs) < k \<longleftrightarrow> -1 < k \<and> (\<forall>c \<in> set xs. int (length (cs_message_history c)) < k)" for xs k
      by (induction xs) (auto simp: max_service_def exact_candidate_def)
    then show ?thesis using pos by blast
  qed
  consider "length ?D = 0" | "length ?D = 1" | "2 \<le> length ?D" by linarith
  then show ?thesis
  proof cases
    case 1
    then show ?thesis using DR by (simp add: select_chain_eq Let_def pick_candidate_None)
  next
    case 2
    moreover from 2 DR have "?R \<noteq> []" by auto
    ultimately show ?thesis by (simp add: select_chain_eq Let_def pick_candidate_None)
  next
    case 3
    with DR have R: "?R \<noteq> []" by auto
    have two: "\<not> (\<forall>c \<in> set ?X. int (length (cs_message_history c)) < max_depth ?R) \<Longrightarrow> ?X \<noteq> []" by auto
    show ?thesis using 3 R two mx [OF R]
      by (auto simp: select_chain_eq Let_def pick_candidate_None)
  qed
qed

lemma new_chain_iff_witness: "select_chain demo_s0 None [''h''] = None"
proof -
  have "ss_active_chains demo_s0 = []" by (simp add: demo_s0_def new_session_def)
  then have "exact_chains demo_s0 None [''h''] = [] \<and> rollback_chains demo_s0 None [''h''] = []"
    by (simp add: exact_chains_def rollback_chains_def)
  then show ?thesis using new_chain_iff by blast
qed

end
