(* ===== verification/LifeProps.thy ===== *)
theory LifeProps
  imports SelectProps
begin

text \<open>
  Properties of the session's life cycle, of the token budget, and of what the hashes ignore.
\<close>

subsection \<open>Life cycle\<close>



text \<open>
  C12: a finalized or aborted session is frozen: no step of any request, nor a reward, finalize
  or abort call, changes it again; so late back-end results are dropped.
\<close>

theorem closed_session_frozen:
  assumes "new_session h pl rl sp rb now0 = Inr s0" "reachable cd s0 g"
    and "gstep cd g g'" "ss_phase (gs_session g) \<noteq> ACTIVE"
  shows "gs_session g' = gs_session g"
proof -
  note inv = reachable_sys_inv [OF assms(1,2)]
  have noreq: "ss_reserved_chain_ids (gs_session g) = {}"
    using sys_inv_inactive_reserved [OF _ assms(4)] sys_invD(1) [OF inv] session_invD(4) assms(4)
    by (auto simp: session_inv_def)
  from assms(3) inv assms(4) noreq show ?thesis
  proof (induction rule: gstep.induct)
    case (finish_ok g p enc out enc' cache fresh now cache' s' outcome)
    then show ?case by (simp add: finish_generation_def)
  next
    case (finish_error g p enc out enc' cache fresh now cache' s' e)
    then show ?case by (simp add: finish_generation_def)
  next
    case (release g p cid)
    then show ?case by (simp add: release_chain_reservation_def)
  next
    case (abort now g s' r'')
    then show ?case by (auto simp: abort_cases split: session_phase.splits)
  qed (auto simp: begin_generation_def set_reward_info_def finalize_inactive)
qed

definition demo_closed :: gsys where
  "demo_closed = demo_g1\<lparr>gs_session := aborted_session 1 (gs_session demo_g1)\<rparr>"

definition demo_failed :: gsys where
  "demo_failed = demo_closed\<lparr>gs_flights := (gs_flights demo_closed)(0 := after_failure demo_enc1)\<rparr>"

lemma demo_closed_step: "gstep demo_codec demo_g1 demo_closed"
  unfolding demo_closed_def using demo_phase(1) by (intro gstep.abort [where now = 1]) (simp add: abort_cases)

lemma closed_session_frozen_witness: "gs_session demo_failed = gs_session demo_closed"
proof -
  have r: "reachable demo_codec demo_s0 demo_closed"
    by (rule reachable.step [OF demo_reach1 demo_closed_step])
  have p: "ss_phase (gs_session demo_closed) \<noteq> ACTIVE" by (simp add: demo_closed_def aborted_session_def)
  have f: "gs_flights demo_closed 0 = Some (Generating demo_enc1)"
    by (simp add: demo_closed_def demo_g1_def)
  have "gstep demo_codec demo_closed demo_failed" unfolding demo_failed_def by (rule gstep.fail [OF f])
  from closed_session_frozen [OF demo_new r this p] show ?thesis .
qed

text \<open>
  a request in flight can always leave: whatever happened to the session meanwhile, the
  failure of its back-end call and the release of its reservation are possible steps, after which
  the request is gone and the session's chains are what they were.
\<close>

theorem flight_can_leave:
  assumes "gs_flights g p = Some f"
  shows "\<exists>g'. (gstep cd)\<^sup>*\<^sup>* g g' \<and> gs_flights g' p = None \<and>
     (\<forall>q. q \<noteq> p \<longrightarrow> gs_flights g' q = gs_flights g q) \<and>
     ss_active_chains (gs_session g') = ss_active_chains (gs_session g) \<and>
     ss_reserved_chain_ids (gs_session g') = ss_reserved_chain_ids (gs_session g) - set_option (flight_chain f)"
proof -
  have rel: "\<exists>g'. (gstep cd)\<^sup>*\<^sup>* g g' \<and> gs_flights g' p = None \<and>
     (\<forall>q. q \<noteq> p \<longrightarrow> gs_flights g' q = gs_flights g q) \<and>
     ss_active_chains (gs_session g') = ss_active_chains (gs_session g) \<and>
     ss_reserved_chain_ids (gs_session g') = ss_reserved_chain_ids (gs_session g) - {cid}"
    if "gs_flights g p = Some (Releasing cid)" for g cid
  proof -
    have "gstep cd g (g\<lparr>gs_session := release_chain_reservation cid (gs_session g),
                   gs_flights := (gs_flights g)(p := None)\<rparr>)" by (rule gstep.release [OF that])
    from r_into_rtranclp [of "gstep cd", OF this] show ?thesis
      by (intro exI conjI, assumption) (simp_all add: release_chain_reservation_def)
  qed
  show ?thesis
  proof (cases f)
    case (Releasing cid)
    then show ?thesis using rel [of g cid] assms by simp
  next
    case (Generating enc)
    let ?g1 = "g\<lparr>gs_flights := (gs_flights g)(p := after_failure enc)\<rparr>"
    have s: "gstep cd g ?g1" using assms Generating by (intro gstep.fail) simp
    show ?thesis
    proof (cases "en_chain_id enc")
      case None
      then have "gs_flights ?g1 p = None" by (simp add: after_failure_def)
      then show ?thesis using s Generating None by (intro exI [of _ ?g1]) auto
    next
      case (Some cid)
      then have "gs_flights ?g1 p = Some (Releasing cid)" by (simp add: after_failure_def)
      from rel [OF this] obtain g' where g': "(gstep cd)\<^sup>*\<^sup>* ?g1 g'" "gs_flights g' p = None"
        "\<forall>q. q \<noteq> p \<longrightarrow> gs_flights g' q = gs_flights ?g1 q"
        "ss_active_chains (gs_session g') = ss_active_chains (gs_session ?g1)"
        "ss_reserved_chain_ids (gs_session g') = ss_reserved_chain_ids (gs_session ?g1) - {cid}" by blast
      have "(gstep cd)\<^sup>*\<^sup>* g g'" using s g'(1) by (rule converse_rtranclp_into_rtranclp)
      then show ?thesis using g'(2-5) Generating Some by (intro exI [of _ g']) auto
    qed
  qed
qed

lemma flight_can_leave_witness:
  "\<exists>g'. (gstep demo_codec)\<^sup>*\<^sup>* demo_g3 g' \<and> gs_flights g' 0 = None \<and>
     ss_reserved_chain_ids (gs_session g') = ss_reserved_chain_ids (gs_session demo_g3) - {1}"
  using flight_can_leave [of demo_g3 0 "Generating demo_enc2" demo_codec] demo_chain(2)
  by (auto simp: demo_g3_def)

subsection \<open>The token budget\<close>

lemma clamp_max_tokens_le:
  assumes "clamp_max_tokens sp r = Inr sp'"
  shows "\<exists>v q. dget sp' ''max_tokens'' = Some v \<and> num_val v = Some q \<and> q \<le> of_int r \<and>
     (\<forall>k. k \<noteq> ''max_tokens'' \<longrightarrow> dget sp' k = dget sp k)"
  using assms by (auto simp: clamp_max_tokens_def split: option.splits if_splits)

lemma prepare_clamped:
  assumes "prepare_generation_inputs cd s rq = Inr enc" "\<not> en_capacity_exhausted enc"
    and "ss_trajectory_capacity s = Some c"
  shows "clamp_max_tokens (rq_sampling_params rq) (c - int (length (en_context_ids enc))) = Inr (en_sampling_params enc)"
proof -
  from assms(1) obtain hs where "(case select_chain s (rq_tools rq) hs of
         None \<Rightarrow> prepare_fresh cd s rq hs
       | Some (chain, rollback) \<Rightarrow> prepare_continue cd s rq hs chain rollback) = Inr enc"
    by (auto simp: prepare_generation_inputs_def err_simps)
  then obtain hs cid rolled dropped b img vid ex where
    "encoded_of s rq hs cid rolled dropped b img vid ex = Inr enc"
    by (auto simp: prepare_fresh_def prepare_continue_def err_simps Let_def split: option.splits prod.splits if_splits)
  from encoded_of_Inr(7,14) [OF this] assms(2,3) show ?thesis by simp
qed



subsection \<open>What hashes ignore\<close>

definition strip_call_id :: "pv \<Rightarrow> pv" where
  "strip_call_id tc = (case tc of PDict d \<Rightarrow> PDict (dpop d ''id'') | v \<Rightarrow> v)"

lemma canonicalize_tool_call_strip:
  "is_dict tc \<Longrightarrow> canonicalize_tool_call cd (strip_call_id tc) = canonicalize_tool_call cd tc"
  by (cases tc) (simp_all add: canonicalize_tool_call_def strip_call_id_def AList.delete_idem Let_def
      split: option.splits pv.splits)

lemma rmap_strip:
  "\<forall>tc \<in> set tcs. is_dict tc \<Longrightarrow>
     rmap (canonicalize_tool_call cd) (map strip_call_id tcs) = rmap (canonicalize_tool_call cd) tcs"
  by (induction tcs) (auto simp: canonicalize_tool_call_strip)

text \<open>
  the message hash ignores tool-call identifiers: storing any \<open>tool_call_id\<close> in a message,
  or removing the ids of all its tool calls, does not change its hash.
\<close>

theorem hash_ignores_ids:
  assumes "dget m ''tool_calls'' = Some (PList tcs)" "\<forall>tc \<in> set tcs. is_dict tc"
  shows "compute_message_hash cd (dset m ''tool_call_id'' v) = compute_message_hash cd m \<and>
    compute_message_hash cd (dset m ''tool_calls'' (PList (map strip_call_id tcs))) = compute_message_hash cd m"
proof -
  have com: "dpop (dset m ''tool_calls'' w) ''tool_call_id'' = dset (dpop m ''tool_call_id'') ''tool_calls'' w" for w
    by (induction m) auto
  have upd: "dset (dset d ''tool_calls'' w) ''tool_calls'' w' = dset d ''tool_calls'' w'" for w w' and d :: dict
    by (induction d) auto
  have "canonicalize_message cd (dset m ''tool_call_id'' v) = canonicalize_message cd m"
    by (simp add: canonicalize_message_def delete_update_same)
  moreover have "canonicalize_message cd (dset m ''tool_calls'' (PList (map strip_call_id tcs))) = canonicalize_message cd m"
    using assms by (simp add: canonicalize_message_def com upd rmap_strip Let_def)
  ultimately show ?thesis by (simp add: compute_message_hash_def)
qed

definition demo_call :: dict where
  "demo_call = [(''role'', PStr ''assistant''),
     (''tool_calls'', PList [PDict [(''id'', PStr ''call_1''), (''type'', PStr ''function'')]])]"

lemma hash_ignores_ids_witness:
  "compute_message_hash demo_codec (dset demo_call ''tool_call_id'' PNone) = compute_message_hash demo_codec demo_call"
  using hash_ignores_ids [of demo_call "[PDict [(''id'', PStr ''call_1''), (''type'', PStr ''function'')]]" demo_codec PNone]
  by (simp add: demo_call_def)

text \<open>
  the tools hash, the key of the parser cache, is independent of the order of dictionary keys
  at every level, as its documentation says.
\<close>

theorem tools_hash_key_order:
  assumes "same_json_list tools tools'"
  shows "canonical_tools_hash cd tools = canonical_tools_hash cd tools'"
  using dumps_same_json(2) [OF assms] by (simp add: canonical_tools_hash_def)

lemma tools_hash_key_order_witness:
  "canonical_tools_hash demo_codec [PDict [(''name'', PStr ''f''), (''type'', PStr ''g'')]] =
   canonical_tools_hash demo_codec [PDict [(''type'', PStr ''g''), (''name'', PStr ''f'')]]"
  by (rule tools_hash_key_order) simp

end
