(* ===== verification/OpenAI.thy ===== *)
theory OpenAI
  imports Session
begin

text \<open>
  The OpenAI Chat Completions adapter, \<open>gateway/adapters/openai.py\<close>: lowering a request,
  building a response, and the server-sent events of a streamed one.  \<open>loads\<close> is the JSON
  reader (\<open>None\<close> when it raises), \<open>fr\<close> the decimal form of a float, \<open>uid\<close> the hexadecimal
  text of a fresh uuid and \<open>created\<close> the clock in seconds.  The set of allowed sampling keys
  is given in an order of iteration.
\<close>

subsection \<open>Errors\<close>

definition OPENAI_ERROR_TYPE_BY_STATUS :: "(int \<times> string) list" where
  "OPENAI_ERROR_TYPE_BY_STATUS = [(400, ''invalid_request_error''), (409, ''conflict_error'')]"

definition openai_error_body :: "int \<Rightarrow> string \<Rightarrow> dict" where
  "openai_error_body status_code message =
     (let error_type =
        (case map_of OPENAI_ERROR_TYPE_BY_STATUS status_code of
           Some t \<Rightarrow> t
         | None \<Rightarrow> if 400 \<le> status_code \<and> status_code < 500 then ''invalid_request_error''
                   else ''internal_server_error'')
      in [(''error'', PDict [(''message'', PStr message), (''type'', PStr error_type),
                             (''code'', PNone), (''param'', PNone)])])"

subsection \<open>Lowering a request\<close>

definition normalize_message_content :: "pv \<Rightarrow> pv result" where
  "normalize_message_content content =
     (if is_list content \<or> is_dict content \<or> is_str content then Inr content
      else if content = PNone then Inr (PStr [])
      else Inl (MalformedRequestError (''Unsupported content type: '' @ type_name content)))"

definition normalize_arguments :: "(string \<Rightarrow> pv option) \<Rightarrow> dict \<Rightarrow> dict" where
  "normalize_arguments loads function =
     (case dget function ''arguments'' of
        Some (PStr s) \<Rightarrow>
          (case loads s of Some v \<Rightarrow> dset function ''arguments'' v | None \<Rightarrow> function)
      | _ \<Rightarrow> function)"

definition normalize_tool_call :: "(string \<Rightarrow> pv option) \<Rightarrow> pv \<Rightarrow> pv result" where
  "normalize_tool_call loads tool_call =
     (case tool_call of
        PDict d \<Rightarrow>
          (case dget d ''function'' of
             Some (PDict f) \<Rightarrow> Inr (PDict (dset d ''function'' (PDict (normalize_arguments loads f))))
           | _ \<Rightarrow> Inl (MalformedRequestError ''tool_call.function must be an object''))
      | _ \<Rightarrow> Inl (MalformedRequestError ''tool_calls entries must be objects''))"

definition normalize_tool_calls :: "(string \<Rightarrow> pv option) \<Rightarrow> pv \<Rightarrow> pv result" where
  "normalize_tool_calls loads tool_calls =
     (case tool_calls of
        PList tcs \<Rightarrow> rbind (rmap (normalize_tool_call loads) tcs) (\<lambda>r. Inr (PList r))
      | _ \<Rightarrow> Inl (MalformedRequestError ''tool_calls must be a list''))"

text \<open>One optional field: absent, or checked and stored.\<close>

definition opt_field :: "dict \<Rightarrow> string \<Rightarrow> (pv \<Rightarrow> pv result) \<Rightarrow> dict \<Rightarrow> dict result" where
  "opt_field message key check normalized =
     (case dget message key of
        None \<Rightarrow> Inr normalized
      | Some v \<Rightarrow> rbind (check v) (\<lambda>w. Inr (dset normalized key w)))"

definition check_name :: "pv \<Rightarrow> pv result" where
  "check_name v = (if is_str v then Inr v else Inl (MalformedRequestError ''message.name must be a string''))"

definition check_reasoning :: "pv \<Rightarrow> pv result" where
  "check_reasoning v =
     (if v = PNone \<or> is_str v then Inr v
      else Inl (MalformedRequestError ''message.reasoning_content must be a string or null''))"

definition normalize_message ::
  "(rat \<Rightarrow> string) \<Rightarrow> (string \<Rightarrow> pv option) \<Rightarrow> pv \<Rightarrow> dict result" where
  "normalize_message fr loads message =
     (case message of
        PDict m \<Rightarrow>
          (case dget m ''role'' of
             Some (PStr (r # rs)) \<Rightarrow>
               rbind (normalize_message_content (dget_or m ''content'' (PStr []))) (\<lambda>content.
               rbind (opt_field m ''name'' check_name
                        [(''role'', PStr (r # rs)), (''content'', content)]) (\<lambda>n1.
               rbind (opt_field m ''tool_calls'' (normalize_tool_calls loads) n1) (\<lambda>n2.
               rbind (opt_field m ''tool_call_id'' (\<lambda>v. Inr (PStr (py_str fr v))) n2) (\<lambda>n3.
                 opt_field m ''reasoning_content'' check_reasoning n3))))
           | _ \<Rightarrow> Inl (MalformedRequestError ''message.role must be a non-empty string''))
      | _ \<Rightarrow> Inl (MalformedRequestError ''messages entries must be objects''))"

text \<open>The tool-choice gate returns the lowered choice.\<close>

definition openai_tool_choice :: "dict \<Rightarrow> string result" where
  "openai_tool_choice payload =
     (case dget_or payload ''tool_choice'' (PStr ''auto'') of
        PStr s \<Rightarrow>
          if lower s \<in> {''auto'', ''none''} then Inr (lower s)
          else Inl (MalformedRequestError (''tool_choice='' @ [quote2] @ s @ [quote2] @
                 '' is not supported (only '' @ [quote2] @ ''auto'' @ [quote2] @ '' / '' @
                 [quote2] @ ''none'' @ [quote2] @ '' are supported)''))
      | PDict _ \<Rightarrow> Inl (MalformedRequestError (''tool_choice with a specific function is not supported (only '' @
                 [quote2] @ ''auto'' @ [quote2] @ '' / '' @ [quote2] @ ''none'' @ [quote2] @ '' are supported)''))
      | _ \<Rightarrow> Inl (MalformedRequestError ''tool_choice must be a string or object''))"

fun merge_sampling :: "dict \<Rightarrow> dict \<Rightarrow> string list \<Rightarrow> dict" where
  "merge_sampling payload sp [] = sp"
| "merge_sampling payload sp (k # ks) =
     merge_sampling payload (case dget payload k of Some v \<Rightarrow> dset sp k v | None \<Rightarrow> sp) ks"

definition openai_to_internal ::
  "(rat \<Rightarrow> string) \<Rightarrow> (string \<Rightarrow> pv option) \<Rightarrow> dict \<Rightarrow> dict \<Rightarrow> string list \<Rightarrow> generation_request result" where
  "openai_to_internal fr loads payload base_sampling_params allowed_sampling_keys =
     (let n_value = dget_or payload ''n'' (PInt 1) in
      if \<not> py_eq (PInt 1) n_value
      then Inl (MalformedRequestError (''n='' @ py_str fr n_value @ '' is not supported (only n=1)''))
      else if dget_or payload ''response_format'' PNone \<noteq> PNone
      then Inl (MalformedRequestError ''response_format is not supported'')
      else
        rbind (openai_tool_choice payload) (\<lambda>tool_choice.
          case dget payload ''messages'' of
            Some (PList (m # ms)) \<Rightarrow>
              (let tools = dget_or payload ''tools'' PNone in
               if tools \<noteq> PNone \<and> \<not> is_list tools
               then Inl (MalformedRequestError ''tools must be a list'')
               else
                 rbind (rmap (normalize_message fr loads) (m # ms)) (\<lambda>messages.
                   Inr \<lparr>rq_messages = messages,
                        rq_tools = (if tool_choice = ''none'' then None
                                    else case tools of PList ts \<Rightarrow> Some ts | _ \<Rightarrow> None),
                        rq_sampling_params = merge_sampling payload base_sampling_params allowed_sampling_keys\<rparr>))
          | _ \<Rightarrow> Inl (MalformedRequestError ''messages must be non-empty'')))"

subsection \<open>Responses\<close>

definition usage_of :: "generation_outcome \<Rightarrow> pv" where
  "usage_of outcome =
     PDict [(''prompt_tokens'', PInt (int (go_prompt_tokens outcome))),
            (''completion_tokens'', PInt (int (go_completion_tokens outcome))),
            (''total_tokens'', PInt (int (go_prompt_tokens outcome + go_completion_tokens outcome)))]"

definition openai_build_response :: "string \<Rightarrow> int \<Rightarrow> generation_outcome \<Rightarrow> string \<Rightarrow> dict" where
  "openai_build_response uid created outcome model =
     [(''id'', PStr (''chatcmpl-'' @ uid)), (''object'', PStr ''chat.completion''),
      (''created'', PInt created), (''model'', PStr model),
      (''choices'', PList [PDict [(''index'', PInt 0), (''message'', PDict (go_assistant_msg outcome)),
                                  (''finish_reason'', PStr (go_finish_reason outcome))]]),
      (''usage'', usage_of outcome)]"

definition chunk_body ::
  "string \<Rightarrow> int \<Rightarrow> string \<Rightarrow> dict \<Rightarrow> pv \<Rightarrow> pv option \<Rightarrow> dict" where
  "chunk_body chunk_id created model delta finish usage =
     [(''id'', PStr chunk_id), (''object'', PStr ''chat.completion.chunk''),
      (''created'', PInt created), (''model'', PStr model),
      (''choices'', PList [PDict [(''index'', PInt 0), (''delta'', PDict delta), (''finish_reason'', finish)]])] @
     (case usage of None \<Rightarrow> [] | Some u \<Rightarrow> [(''usage'', u)])"

text \<open>The deltas that carry the message: text fields when non-empty, then the indexed tool calls.\<close>

definition text_delta :: "dict \<Rightarrow> string \<Rightarrow> dict list" where
  "text_delta msg key =
     (case dget msg key of Some (PStr (c # cs)) \<Rightarrow> [[(key, PStr (c # cs))]] | _ \<Rightarrow> [])"

definition indexed_call :: "nat \<times> pv \<Rightarrow> pv result" where
  "indexed_call it =
     (case it of (idx, PDict d) \<Rightarrow> Inr (PDict (dset d ''index'' (PInt (int idx))))
               | (idx, v) \<Rightarrow> Inl (TypeError (type_name v @ '' object is not a mapping'')))"

definition tool_delta :: "dict \<Rightarrow> dict list result" where
  "tool_delta msg =
     (case dget msg ''tool_calls'' of
        Some (PList (tc # tcs)) \<Rightarrow>
          rbind (rmap indexed_call (enumerate 0 (tc # tcs))) (\<lambda>calls. Inr [[(''tool_calls'', PList calls)]])
      | Some v \<Rightarrow> if truthy v then Inl (TypeError (type_name v @ '' of tool calls'')) else Inr []
      | None \<Rightarrow> Inr [])"

definition openai_chunks :: "string \<Rightarrow> int \<Rightarrow> generation_outcome \<Rightarrow> string \<Rightarrow> dict list result" where
  "openai_chunks uid created outcome model =
     (let msg = go_assistant_msg outcome;
          chunk = (\<lambda>delta. chunk_body (''chatcmpl-'' @ uid) created model delta PNone None)
      in rbind (tool_delta msg) (\<lambda>tools.
           Inr (chunk [(''role'', PStr ''assistant'')] #
                map chunk (text_delta msg ''reasoning_content'' @ text_delta msg ''content'' @ tools) @
                [chunk_body (''chatcmpl-'' @ uid) created model [] (PStr (go_finish_reason outcome))
                   (Some (usage_of outcome))])))"

definition sse_data :: "(rat \<Rightarrow> string) \<Rightarrow> dict \<Rightarrow> string" where
  "sse_data fr body = ''data: '' @ json_text fr (PDict body) @ nl @ nl"

definition openai_stream_response ::
  "(rat \<Rightarrow> string) \<Rightarrow> string \<Rightarrow> int \<Rightarrow> generation_outcome \<Rightarrow> string \<Rightarrow> string list result" where
  "openai_stream_response fr uid created outcome model =
     rbind (openai_chunks uid created outcome model) (\<lambda>cs.
       Inr (map (\<lambda>c. utf8 (sse_data fr c)) cs @ [''data: [DONE]'' @ nl @ nl]))"

end
