(* ===== verification/Anthropic.thy ===== *)
theory Anthropic
  imports OpenAI
begin

text \<open>
  The Anthropic Messages adapter, \<open>gateway/adapters/anthropic.py\<close>: error bodies, responses and
  event streams, and the lowering of a request, with mid-conversation system entries folded into
  a neighbouring user message.  \<open>fresh i\<close> is the \<open>i\<close>-th token drawn from \<open>secrets\<close>.
\<close>

subsection \<open>Responses\<close>

definition STOP_REASON_MAP :: "(string \<times> string) list" where
  "STOP_REASON_MAP =
    [(''stop'', ''end_turn''), (''length'', ''max_tokens''), (''tool_calls'', ''tool_use''),
     (''function_call'', ''tool_use''), (''content_filter'', ''refusal'')]"

definition ANTHROPIC_ERROR_TYPE_BY_STATUS :: "(int \<times> string) list" where
  "ANTHROPIC_ERROR_TYPE_BY_STATUS =
    [(400, ''invalid_request_error''), (409, ''invalid_request_error''), (500, ''api_error'')]"

definition anthropic_error_body :: "int \<Rightarrow> string \<Rightarrow> dict" where
  "anthropic_error_body status_code message =
     [(''type'', PStr ''error''),
      (''error'', PDict
        [(''type'', PStr (case map_of ANTHROPIC_ERROR_TYPE_BY_STATUS status_code of
                            Some t \<Rightarrow> t | None \<Rightarrow> ''api_error'')),
         (''message'', PStr message)])]"

definition tool_call_input :: "(string \<Rightarrow> pv option) \<Rightarrow> pv \<Rightarrow> dict" where
  "tool_call_input loads arguments =
     (case arguments of
        PDict d \<Rightarrow> d
      | PStr s \<Rightarrow> (case loads s of Some (PDict d) \<Rightarrow> d | _ \<Rightarrow> [])
      | _ \<Rightarrow> [])"

text \<open>The blocks of the tool calls, the \<open>i\<close>-th call first; entries that are no object are skipped.\<close>

definition call_function :: "dict \<Rightarrow> dict" where
  "call_function tool_call =
     (case dget tool_call ''function'' of Some (PDict f) \<Rightarrow> f | _ \<Rightarrow> [])"

definition tool_use_block ::
  "(string \<Rightarrow> pv option) \<Rightarrow> (nat \<Rightarrow> string) \<Rightarrow> nat \<Rightarrow> dict \<Rightarrow> dict" where
  "tool_use_block loads fresh i tool_call =
     (let f = call_function tool_call;
          tid = dget_or tool_call ''id'' PNone
      in [(''type'', PStr ''tool_use''),
          (''id'', if truthy tid then tid else PStr (''toolu_'' @ fresh i)),
          (''name'', dget_or f ''name'' (PStr ''tool'')),
          (''input'', PDict (tool_call_input loads (dget_or f ''arguments'' PNone)))])"

fun tool_use_blocks ::
  "(string \<Rightarrow> pv option) \<Rightarrow> (nat \<Rightarrow> string) \<Rightarrow> nat \<Rightarrow> pv list \<Rightarrow> dict list" where
  "tool_use_blocks loads fresh i [] = []"
| "tool_use_blocks loads fresh i (tc # tcs) =
     (case tc of
        PDict d \<Rightarrow> tool_use_block loads fresh i d # tool_use_blocks loads fresh (Suc i) tcs
      | _ \<Rightarrow> tool_use_blocks loads fresh (Suc i) tcs)"

definition text_block :: "string \<Rightarrow> dict" where
  "text_block s = [(''type'', PStr ''text''), (''text'', PStr s)]"

definition outcome_to_blocks ::
  "(string \<Rightarrow> pv option) \<Rightarrow> (nat \<Rightarrow> string) \<Rightarrow> dict \<Rightarrow> dict list" where
  "outcome_to_blocks loads fresh msg =
     (let texts = (case dget msg ''content'' of Some (PStr (c # cs)) \<Rightarrow> [text_block (c # cs)] | _ \<Rightarrow> []);
          calls = (case dget msg ''tool_calls'' of Some (PList tcs) \<Rightarrow> tool_use_blocks loads fresh 0 tcs | _ \<Rightarrow> []);
          blocks = texts @ calls
      in if blocks = [] then [text_block []] else blocks)"

definition stop_reason_of :: "string \<Rightarrow> string" where
  "stop_reason_of finish = dget_or STOP_REASON_MAP finish ''end_turn''"

definition anthropic_usage :: "nat \<Rightarrow> nat \<Rightarrow> pv" where
  "anthropic_usage i out = PDict [(''input_tokens'', PInt (int i)), (''output_tokens'', PInt (int out))]"

definition anthropic_build_response ::
  "(string \<Rightarrow> pv option) \<Rightarrow> (nat \<Rightarrow> string) \<Rightarrow> string \<Rightarrow> generation_outcome \<Rightarrow> string \<Rightarrow> dict" where
  "anthropic_build_response loads fresh mid outcome model =
     [(''id'', PStr (''msg_'' @ mid)), (''type'', PStr ''message''), (''role'', PStr ''assistant''),
      (''model'', PStr model),
      (''content'', PList (map PDict (outcome_to_blocks loads fresh (go_assistant_msg outcome)))),
      (''stop_reason'', PStr (stop_reason_of (go_finish_reason outcome))),
      (''stop_sequence'', PNone),
      (''usage'', anthropic_usage (go_prompt_tokens outcome) (go_completion_tokens outcome))]"

text \<open>The events of a stream: a name and a body.\<close>

definition block_events :: "(rat \<Rightarrow> string) \<Rightarrow> nat \<times> dict \<Rightarrow> (string \<times> dict) list" where
  "block_events fr ib =
     (let (idx, block) = ib; field = (\<lambda>k. dget_or block k PNone);
          text = (field ''type'' = PStr ''text'');
          start = (if text then [(''type'', PStr ''text''), (''text'', PStr [])]
                   else [(''type'', PStr ''tool_use''), (''id'', field ''id''), (''name'', field ''name''),
                         (''input'', PDict [])]);
          delta = (if text then [(''type'', PStr ''text_delta''), (''text'', field ''text'')]
                   else [(''type'', PStr ''input_json_delta''),
                         (''partial_json'', PStr (json_text fr (field ''input'')))])
      in [(''content_block_start'', [(''type'', PStr ''content_block_start''), (''index'', PInt (int idx)),
              (''content_block'', PDict start)]),
          (''content_block_delta'', [(''type'', PStr ''content_block_delta''), (''index'', PInt (int idx)),
              (''delta'', PDict delta)]),
          (''content_block_stop'', [(''type'', PStr ''content_block_stop''), (''index'', PInt (int idx))])])"

definition anthropic_events ::
  "(rat \<Rightarrow> string) \<Rightarrow> (string \<Rightarrow> pv option) \<Rightarrow> (nat \<Rightarrow> string) \<Rightarrow> string \<Rightarrow> generation_outcome \<Rightarrow> string
     \<Rightarrow> (string \<times> dict) list" where
  "anthropic_events fr loads fresh mid outcome model =
     [(''message_start'', [(''type'', PStr ''message_start''),
        (''message'', PDict [(''id'', PStr (''msg_'' @ mid)), (''type'', PStr ''message''),
           (''role'', PStr ''assistant''), (''model'', PStr model), (''content'', PList []),
           (''stop_reason'', PNone), (''stop_sequence'', PNone),
           (''usage'', anthropic_usage (go_prompt_tokens outcome) 0)])])] @
     concat (map (block_events fr) (enumerate 0 (outcome_to_blocks loads fresh (go_assistant_msg outcome)))) @
     [(''message_delta'', [(''type'', PStr ''message_delta''),
        (''delta'', PDict [(''stop_reason'', PStr (stop_reason_of (go_finish_reason outcome))),
                           (''stop_sequence'', PNone)]),
        (''usage'', anthropic_usage (go_prompt_tokens outcome) (go_completion_tokens outcome))]),
      (''message_stop'', [(''type'', PStr ''message_stop'')])]"

definition sse_event :: "(rat \<Rightarrow> string) \<Rightarrow> string \<times> dict \<Rightarrow> string" where
  "sse_event fr e = (case e of (name, data) \<Rightarrow>
     ''event: '' @ name @ nl @ ''data: '' @ json_text fr (PDict data) @ nl @ nl)"

definition anthropic_stream_response ::
  "(rat \<Rightarrow> string) \<Rightarrow> (string \<Rightarrow> pv option) \<Rightarrow> (nat \<Rightarrow> string) \<Rightarrow> string \<Rightarrow> generation_outcome \<Rightarrow> string
     \<Rightarrow> string list" where
  "anthropic_stream_response fr loads fresh mid outcome model =
     map (\<lambda>e. utf8 (sse_event fr e)) (anthropic_events fr loads fresh mid outcome model)"

subsection \<open>System text\<close>

definition billing_header :: string where
  "billing_header = ''x-anthropic-billing-header:''"

text \<open>
  One match of \<open>^\s*x-anthropic-billing-header:[^\n]*\n?\<close> at a line start: the rest of the text
  after it.
\<close>

definition billing_match :: "string \<Rightarrow> string option" where
  "billing_match s =
     (let t = dropWhile is_space s in
      if lower (take (length billing_header) t) = billing_header
      then Some (drop 1 (dropWhile (\<lambda>c. c \<noteq> CHR 0x0A) (drop (length billing_header) t)))
      else None)"

lemma length_dropWhile_Suc: "length (dropWhile p s) < Suc (length s)"
  using length_dropWhile_le [of p s] by simp

lemma billing_match_shorter:
  assumes "billing_match s = Some r"
  shows "length r < length s"
proof -
  let ?t = "dropWhile is_space s" and ?n = "length billing_header"
  from assms have m: "lower (take ?n ?t) = billing_header"
    and r: "r = drop 1 (dropWhile (\<lambda>c. c \<noteq> CHR 0x0A) (drop ?n ?t))"
    by (auto simp: billing_match_def Let_def split: if_splits)
  from m have "length (take ?n ?t) = ?n" by (metis length_map lower_def)
  then have "?n \<le> length ?t" by simp
  moreover have "0 < ?n" by (simp add: billing_header_def)
  ultimately have "?n \<le> length ?t" "0 < ?n" by blast+
  moreover have "length ?t \<le> length s" by (rule length_dropWhile_le)
  moreover have "length r \<le> length ?t - ?n"
    using length_dropWhile_le [of "\<lambda>c. c \<noteq> CHR 0x0A" "drop ?n ?t"] r by simp
  ultimately show ?thesis by linarith
qed

text \<open>\<open>re.sub\<close> with \<open>MULTILINE\<close>: \<open>bol\<close> says whether the scan stands at a line start.\<close>

function sub_billing :: "bool \<Rightarrow> string \<Rightarrow> string" where
  "sub_billing bol s =
     (case (if bol then billing_match s else None) of
        Some r \<Rightarrow> sub_billing True r
      | None \<Rightarrow> (case s of [] \<Rightarrow> [] | c # cs \<Rightarrow> c # sub_billing (c = CHR 0x0A) cs))"
  by pat_completeness auto
termination
  by (relation "measure (\<lambda>(bol, s). length s)") (auto split: if_splits dest: billing_match_shorter)

declare sub_billing.simps [simp del]

definition strip_billing_header :: "string \<Rightarrow> string" where
  "strip_billing_header s = strip (sub_billing True s)"

definition block_text :: "string \<Rightarrow> dict \<Rightarrow> string result" where
  "block_text what block =
     (case dget_or block ''text'' (PStr []) of
        PStr s \<Rightarrow> Inr s
      | _ \<Rightarrow> Inl (MalformedRequestError (what @ '' text must be a string'')))"

definition type_is :: "string \<Rightarrow> dict \<Rightarrow> bool" where
  "type_is t block \<longleftrightarrow> dget block ''type'' = Some (PStr t)"

definition type_str :: "(rat \<Rightarrow> string) \<Rightarrow> dict \<Rightarrow> string" where
  "type_str fr block = py_str fr (dget_or block ''type'' PNone)"

definition system_block :: "(rat \<Rightarrow> string) \<Rightarrow> pv \<Rightarrow> string result" where
  "system_block fr block =
     (case block of
        PDict d \<Rightarrow>
          if type_is ''text'' d then block_text ''system'' d
          else Inl (MalformedRequestError (''Unsupported system block type: '' @ type_str fr d))
      | _ \<Rightarrow> Inl (MalformedRequestError ''system blocks must be objects''))"

definition system_to_text :: "(rat \<Rightarrow> string) \<Rightarrow> pv \<Rightarrow> string result" where
  "system_to_text fr system =
     (case system of
        PNone \<Rightarrow> Inr []
      | PStr s \<Rightarrow> Inr (strip_billing_header s)
      | PList blocks \<Rightarrow> rbind (rmap (system_block fr) blocks)
          (\<lambda>parts. Inr (strip_billing_header (join nl (filter (\<lambda>p. p \<noteq> []) parts))))
      | _ \<Rightarrow> Inl (MalformedRequestError ''system must be a string or text block list''))"

subsection \<open>User and assistant content\<close>

definition image_url_part :: "string \<Rightarrow> dict" where
  "image_url_part url = [(''type'', PStr ''image_url''), (''image_url'', PDict [(''url'', PStr url)])]"

definition image_block_to_openai_part :: "(rat \<Rightarrow> string) \<Rightarrow> dict \<Rightarrow> dict result" where
  "image_block_to_openai_part fr block =
     (case dget block ''source'' of
        Some (PDict source) \<Rightarrow>
          if type_is ''base64'' source then
            (case (dget source ''media_type'', dget source ''data'') of
               (Some (PStr mt), Some (PStr data)) \<Rightarrow>
                 Inr (image_url_part (''data:'' @ mt @ '';base64,'' @ data))
             | _ \<Rightarrow> Inl (MalformedRequestError ''base64 image source requires media_type and data''))
          else if type_is ''url'' source then
            (case dget source ''url'' of
               Some (PStr url) \<Rightarrow> Inr (image_url_part url)
             | _ \<Rightarrow> Inl (MalformedRequestError ''url image source requires url''))
          else Inl (MalformedRequestError (''Unsupported image source type: '' @ type_str fr source))
      | _ \<Rightarrow> Inl (MalformedRequestError ''image.source must be an object''))"

definition tool_message :: "string \<Rightarrow> string \<Rightarrow> dict" where
  "tool_message tid content =
     [(''role'', PStr ''tool''), (''tool_call_id'', PStr tid), (''content'', PStr content)]"

definition user_message :: "pv \<Rightarrow> dict" where
  "user_message content = [(''role'', PStr ''user''), (''content'', content)]"

text \<open>State of the loop over tool-result blocks: messages, buffered texts, tool message emitted.\<close>

type_synonym tr_state = "dict list \<times> string list \<times> bool"

definition flush_text :: "string \<Rightarrow> tr_state \<Rightarrow> tr_state" where
  "flush_text tid st =
     (case st of (messages, texts, emitted) \<Rightarrow>
        if texts = [] then st else (messages @ [tool_message tid (join nl texts)], [], True))"

definition tool_result_block ::
  "(rat \<Rightarrow> string) \<Rightarrow> string \<Rightarrow> tr_state \<Rightarrow> pv \<Rightarrow> tr_state result" where
  "tool_result_block fr tid st block =
     (case block of
        PDict d \<Rightarrow>
          if type_is ''text'' d then
            (case st of (messages, texts, emitted) \<Rightarrow>
               rbind (block_text ''tool_result'' d) (\<lambda>t. Inr (messages, texts @ [t], emitted)))
          else if type_is ''image'' d then
            (case st of (messages, texts, emitted) \<Rightarrow>
               let st1 = (if texts = [] \<and> \<not> emitted then (messages @ [tool_message tid []], texts, True) else st) in
               case flush_text tid st1 of (messages', texts', emitted') \<Rightarrow>
                 rbind (image_block_to_openai_part fr d) (\<lambda>part.
                   Inr (messages' @ [user_message (PList [PDict part])], texts', emitted')))
          else Inl (MalformedRequestError (''Unsupported tool_result block type: '' @ type_str fr d))
      | _ \<Rightarrow> Inl (MalformedRequestError ''tool_result content blocks must be objects''))"

fun rfold :: "('s \<Rightarrow> 'a \<Rightarrow> 's result) \<Rightarrow> 's \<Rightarrow> 'a list \<Rightarrow> 's result" where
  "rfold f s [] = Inr s"
| "rfold f s (x # xs) = rbind (f s x) (\<lambda>s'. rfold f s' xs)"

definition tool_result_messages :: "(rat \<Rightarrow> string) \<Rightarrow> string \<Rightarrow> pv \<Rightarrow> dict list result" where
  "tool_result_messages fr tid content =
     (case content of
        PStr s \<Rightarrow> Inr [tool_message tid s]
      | PNone \<Rightarrow> Inr [tool_message tid []]
      | PList blocks \<Rightarrow>
          rbind (rfold (tool_result_block fr tid) ([], [], False) blocks) (\<lambda>st.
            case flush_text tid st of (messages, _, _) \<Rightarrow>
              Inr (if messages = [] then [tool_message tid []] else messages))
      | _ \<Rightarrow> Inl (MalformedRequestError ''tool_result.content must be a string or block list''))"

definition part_text :: "dict \<Rightarrow> string" where
  "part_text part = (case dget part ''text'' of Some (PStr s) \<Rightarrow> s | _ \<Rightarrow> [])"

definition flush_user :: "dict list \<Rightarrow> dict list \<Rightarrow> dict list" where
  "flush_user messages parts =
     (if parts = [] then messages
      else messages @ [user_message
        (if \<exists>p \<in> set parts. \<not> type_is ''text'' p then PList (map PDict parts)
         else PStr (join nl (map part_text parts)))])"

definition user_block ::
  "(rat \<Rightarrow> string) \<Rightarrow> dict list \<times> dict list \<Rightarrow> pv \<Rightarrow> (dict list \<times> dict list) result" where
  "user_block fr st block =
     (case st of (messages, parts) \<Rightarrow>
        case block of
          PDict d \<Rightarrow>
            if type_is ''text'' d then
              rbind (block_text ''user'' d) (\<lambda>t. Inr (messages, parts @ [text_block t]))
            else if type_is ''image'' d then
              rbind (image_block_to_openai_part fr d) (\<lambda>p. Inr (messages, parts @ [p]))
            else if type_is ''tool_result'' d then
              (case dget d ''tool_use_id'' of
                 Some (PStr (c # cs)) \<Rightarrow>
                   rbind (tool_result_messages fr (c # cs) (dget_or d ''content'' (PStr [])))
                     (\<lambda>ms. Inr (flush_user messages parts @ ms, []))
               | _ \<Rightarrow> Inl (MalformedRequestError ''tool_result.tool_use_id must be a non-empty string''))
            else Inl (MalformedRequestError (''Unsupported user block type: '' @ type_str fr d))
        | _ \<Rightarrow> Inl (MalformedRequestError ''user content blocks must be objects''))"

definition user_messages_from_content :: "(rat \<Rightarrow> string) \<Rightarrow> pv \<Rightarrow> dict list result" where
  "user_messages_from_content fr content =
     (case content of
        PStr s \<Rightarrow> Inr [user_message (PStr s)]
      | PList blocks \<Rightarrow> rbind (rfold (user_block fr) ([], []) blocks)
          (\<lambda>(messages, parts). Inr (flush_user messages parts))
      | _ \<Rightarrow> Inl (MalformedRequestError ''user content must be a string or block list''))"

definition tool_use_call :: "dict \<Rightarrow> pv result" where
  "tool_use_call d =
     (case dget d ''id'' of
        Some (PStr (c # cs)) \<Rightarrow>
          (case dget d ''name'' of
             Some (PStr name) \<Rightarrow>
               (case dget_or d ''input'' (PDict []) of
                  PDict args \<Rightarrow> Inr (PDict [(''id'', PStr (c # cs)), (''type'', PStr ''function''),
                    (''function'', PDict [(''name'', PStr name), (''arguments'', PDict args)])])
                | _ \<Rightarrow> Inl (MalformedRequestError ''tool_use.input must be an object''))
           | _ \<Rightarrow> Inl (MalformedRequestError ''tool_use.name must be a string''))
      | _ \<Rightarrow> Inl (MalformedRequestError ''tool_use.id must be a non-empty string''))"

definition assistant_block ::
  "(rat \<Rightarrow> string) \<Rightarrow> string list \<times> pv list \<Rightarrow> pv \<Rightarrow> (string list \<times> pv list) result" where
  "assistant_block fr st block =
     (case st of (texts, calls) \<Rightarrow>
        case block of
          PDict d \<Rightarrow>
            if type_is ''text'' d then
              rbind (block_text ''assistant'' d) (\<lambda>t. Inr (texts @ [t], calls))
            else if type_is ''tool_use'' d then
              rbind (tool_use_call d) (\<lambda>c. Inr (texts, calls @ [c]))
            else if type_is ''thinking'' d then Inr (texts, calls)
            else if type_is ''redacted_thinking'' d
            then Inl (MalformedRequestError ''redacted_thinking blocks are not supported'')
            else Inl (MalformedRequestError (''Unsupported assistant block type: '' @ type_str fr d))
        | _ \<Rightarrow> Inl (MalformedRequestError ''assistant content blocks must be objects''))"

definition assistant_message_from_content :: "(rat \<Rightarrow> string) \<Rightarrow> pv \<Rightarrow> dict result" where
  "assistant_message_from_content fr content =
     (case content of
        PStr s \<Rightarrow> Inr [(''role'', PStr ''assistant''), (''content'', PStr s)]
      | PList blocks \<Rightarrow> rbind (rfold (assistant_block fr) ([], []) blocks)
          (\<lambda>(texts, calls). Inr ([(''role'', PStr ''assistant''), (''content'', PStr (join nl texts))] @
             (if calls = [] then [] else [(''tool_calls'', PList calls)])))
      | _ \<Rightarrow> Inl (MalformedRequestError ''assistant content must be a string or block list''))"

subsection \<open>Folding mid-conversation system entries\<close>

text \<open>Content that is neither a list nor a string is formatted into the f-string.\<close>

definition fold_reminder_into_user :: "(rat \<Rightarrow> string) \<Rightarrow> dict \<Rightarrow> string \<Rightarrow> bool \<Rightarrow> dict" where
  "fold_reminder_into_user fr message reminder prepend =
     (let content = dget_or message ''content'' (PStr []) in
      case content of
        PList cs \<Rightarrow>
          dset message ''content''
            (PList (if prepend then PDict (text_block reminder) # cs else cs @ [PDict (text_block reminder)]))
      | _ \<Rightarrow>
          if \<not> truthy content then dset message ''content'' (PStr reminder)
          else if prepend then dset message ''content'' (PStr (reminder @ nl @ py_str fr content))
          else dset message ''content'' (PStr (py_str fr content @ nl @ reminder)))"

definition role_is :: "string \<Rightarrow> pv \<Rightarrow> bool" where
  "role_is r m = (case m of PDict d \<Rightarrow> is_role r d | _ \<Rightarrow> False)"

definition as_dict :: "pv \<Rightarrow> dict" where
  "as_dict m = (case m of PDict d \<Rightarrow> d | _ \<Rightarrow> [])"

text \<open>Fold into the last user message of the output, if there is one.\<close>

fun fold_last_user :: "(rat \<Rightarrow> string) \<Rightarrow> string \<Rightarrow> pv list \<Rightarrow> pv list option" where
  "fold_last_user fr reminder [] = None"
| "fold_last_user fr reminder (m # ms) =
     (case fold_last_user fr reminder ms of
        Some ms' \<Rightarrow> Some (m # ms')
      | None \<Rightarrow> if role_is ''user'' m
                then Some (PDict (fold_reminder_into_user fr (as_dict m) reminder False) # ms) else None)"

definition reminder_of :: "string \<Rightarrow> string" where
  "reminder_of system_text = ''<system-reminder>'' @ nl @ system_text @ nl @ ''</system-reminder>''"

definition fold_step ::
  "(rat \<Rightarrow> string) \<Rightarrow> pv list \<times> string \<Rightarrow> pv \<Rightarrow> (pv list \<times> string) result" where
  "fold_step fr st message =
     (case st of (out, pending) \<Rightarrow>
        if role_is ''system'' message then
          rbind (system_to_text fr (dget_or (as_dict message) ''content'' (PStr []))) (\<lambda>system_text.
            if system_text = [] then Inr (out, pending)
            else
              (let reminder = reminder_of system_text in
               case fold_last_user fr reminder out of
                 Some out' \<Rightarrow> Inr (out', pending)
               | None \<Rightarrow> Inr (out, if pending \<noteq> [] then pending @ nl @ reminder else reminder)))
        else if pending \<noteq> [] \<and> role_is ''user'' message
        then Inr (out @ [PDict (fold_reminder_into_user fr (as_dict message) pending True)], [])
        else Inr (out @ [message], pending))"

definition fold_mid_list_system_into_user :: "(rat \<Rightarrow> string) \<Rightarrow> pv \<Rightarrow> pv result" where
  "fold_mid_list_system_into_user fr messages =
     (case messages of
        PList ms \<Rightarrow>
          if \<not> (\<exists>m \<in> set ms. role_is ''system'' m) then Inr messages
          else rbind (rfold (fold_step fr) ([], []) ms) (\<lambda>(out, pending).
            Inr (PList (if pending \<noteq> [] then out @ [PDict (user_message (PStr pending))] else out)))
      | _ \<Rightarrow> Inr messages)"

definition message_to_internal :: "(rat \<Rightarrow> string) \<Rightarrow> pv \<Rightarrow> dict list result" where
  "message_to_internal fr message =
     (case message of
        PDict d \<Rightarrow>
          (let content = dget_or d ''content'' (PStr []) in
           if is_role ''user'' d then user_messages_from_content fr content
           else if is_role ''assistant'' d
           then rbind (assistant_message_from_content fr content) (\<lambda>m. Inr [m])
           else Inl (MalformedRequestError (''Unsupported message role: '' @ py_str fr (dget_or d ''role'' PNone))))
      | _ \<Rightarrow> Inl (MalformedRequestError ''messages entries must be objects''))"

definition messages_to_internal :: "(rat \<Rightarrow> string) \<Rightarrow> pv \<Rightarrow> dict list result" where
  "messages_to_internal fr messages =
     (case messages of
        PList (m # ms) \<Rightarrow> rbind (rmap (message_to_internal fr) (m # ms)) (\<lambda>r. Inr (concat r))
      | _ \<Rightarrow> Inl (MalformedRequestError ''messages must be non-empty''))"

subsection \<open>Tools, tool choice and the whole request\<close>

definition convert_tool :: "pv \<Rightarrow> pv result" where
  "convert_tool tool =
     (case tool of
        PDict d \<Rightarrow>
          (case dget d ''name'' of
             Some (PStr name) \<Rightarrow>
               Inr (PDict [(''type'', PStr ''function''),
                 (''function'', PDict ([(''name'', PStr name), (''parameters'', dget_or d ''input_schema'' (PDict []))] @
                    (case dget d ''description'' of Some (PStr s) \<Rightarrow> [(''description'', PStr s)] | _ \<Rightarrow> [])))])
           | _ \<Rightarrow> Inl (MalformedRequestError ''tool.name must be a string''))
      | _ \<Rightarrow> Inl (MalformedRequestError ''tools entries must be objects''))"

definition convert_tools :: "pv \<Rightarrow> pv list option result" where
  "convert_tools tools =
     (case tools of
        PNone \<Rightarrow> Inr None
      | PList ts \<Rightarrow> rbind (rmap convert_tool ts) (\<lambda>r. Inr (Some r))
      | _ \<Rightarrow> Inl (MalformedRequestError ''tools must be a list''))"

definition apply_tool_choice ::
  "(rat \<Rightarrow> string) \<Rightarrow> dict \<Rightarrow> pv list option \<Rightarrow> pv list option result" where
  "apply_tool_choice fr payload tools =
     (case dget_or payload ''tool_choice'' (PStr ''auto'') of
        PStr s \<Rightarrow>
          if s = ''auto'' then Inr tools
          else if s = ''none'' then Inr None
          else Inl (MalformedRequestError (''Unsupported tool_choice: '' @ s))
      | PDict d \<Rightarrow>
          if type_is ''auto'' d then Inr tools
          else if type_is ''none'' d then Inr None
          else Inl (MalformedRequestError (''Unsupported tool_choice type: '' @ type_str fr d))
      | _ \<Rightarrow> Inl (MalformedRequestError ''tool_choice must be a string or object''))"

definition anthropic_sampling :: "dict \<Rightarrow> dict \<Rightarrow> string list \<Rightarrow> dict" where
  "anthropic_sampling payload base allowed =
     (let sp = merge_sampling payload base
                 (filter (\<lambda>k. k \<in> set allowed) [''max_tokens'', ''temperature'', ''top_p'', ''top_k''])
      in if ''stop'' \<in> set allowed then
           (case dget payload ''stop_sequences'' of Some v \<Rightarrow> dset sp ''stop'' v | None \<Rightarrow> sp)
         else sp)"

definition system_message :: "string \<Rightarrow> dict" where
  "system_message s = [(''role'', PStr ''system''), (''content'', PStr s)]"

definition anthropic_to_internal ::
  "(rat \<Rightarrow> string) \<Rightarrow> pv \<Rightarrow> dict \<Rightarrow> string list \<Rightarrow> generation_request result" where
  "anthropic_to_internal fr payload base_sampling_params allowed_sampling_keys =
     (case payload of
        PDict p \<Rightarrow>
          rbind (fold_mid_list_system_into_user fr (dget_or p ''messages'' PNone)) (\<lambda>folded.
          rbind (messages_to_internal fr folded) (\<lambda>messages.
          rbind (system_to_text fr (dget_or p ''system'' PNone)) (\<lambda>system_text.
          rbind (convert_tools (dget_or p ''tools'' PNone)) (\<lambda>converted.
          rbind (apply_tool_choice fr p converted) (\<lambda>tools.
            Inr \<lparr>rq_messages = (if system_text \<noteq> [] then system_message system_text # messages else messages),
                 rq_tools = tools,
                 rq_sampling_params = anthropic_sampling p base_sampling_params allowed_sampling_keys\<rparr>)))))
      | _ \<Rightarrow> Inl (MalformedRequestError ''payload must be an object''))"

end
