(* ===== verification/AdapterProps.thy ===== *)
theory AdapterProps
  imports Anthropic LifeProps
begin

text \<open>
  Properties of the two wire adapters: what an accepted request looks like inside, the fate of
  mid-conversation system entries and tool results, and the agreement of streamed and
  non-streamed responses.
\<close>

subsection \<open>OpenAI requests\<close>

definition content_ok :: "pv \<Rightarrow> bool" where
  "content_ok v \<longleftrightarrow> is_str v \<or> is_list v \<or> is_dict v"

definition chat_fields :: "string set" where
  "chat_fields = {''role'', ''content'', ''name'', ''tool_calls'', ''tool_call_id'', ''reasoning_content''}"

definition normalized_ok :: "string \<Rightarrow> dict \<Rightarrow> bool" where
  "normalized_ok r m \<longleftrightarrow> fst ` set m \<subseteq> chat_fields \<and> distinct (map fst m) \<and>
     r \<noteq> [] \<and> dget m ''role'' = Some (PStr r) \<and> (\<exists>c. dget m ''content'' = Some c \<and> content_ok c)"

lemma keys_dset: "fst ` set (dset d k v) = insert k (fst ` set d)"
  by (simp add: dom_update)

lemma normalized_ok_dset:
  assumes "normalized_ok r m" "k \<in> chat_fields" "k \<noteq> ''role''" "k \<noteq> ''content''"
  shows "normalized_ok r (dset m k v)"
proof -
  from assms(1) obtain c where c: "fst ` set m \<subseteq> chat_fields" "distinct (map fst m)" "r \<noteq> []"
    "dget m ''role'' = Some (PStr r)" "dget m ''content'' = Some c" "content_ok c"
    unfolding normalized_ok_def by blast
  have "dget (dset m k v) ''role'' = Some (PStr r)" "dget (dset m k v) ''content'' = Some c"
    using c(4,5) assms(3,4) by (simp_all only: dget_dset if_not_P not_sym)
  moreover have "fst ` set (dset m k v) \<subseteq> chat_fields" using c(1) assms(2) by (simp add: keys_dset)
  moreover have "distinct (map fst (dset m k v))" using c(2) by simp
  ultimately show ?thesis unfolding normalized_ok_def using c(3,6) by blast
qed

lemma opt_field_ok:
  assumes "opt_field message k check m = Inr m'" "normalized_ok r m" "k \<in> chat_fields"
    "k \<noteq> ''role''" "k \<noteq> ''content''"
  shows "normalized_ok r m'"
  using assms normalized_ok_dset by (auto simp: opt_field_def err_simps split: option.splits)

lemma normalize_message_ok:
  assumes "normalize_message fr loads message = Inr m'"
  shows "\<exists>m r. message = PDict m \<and> dget m ''role'' = Some (PStr r) \<and> normalized_ok r m'"
proof -
  from assms obtain m c cs where m: "message = PDict m" "dget m ''role'' = Some (PStr (c # cs))"
    by (auto simp: normalize_message_def split: pv.splits option.splits list.splits)
  with assms obtain content n1 n2 n3 where
    s: "normalize_message_content (dget_or m ''content'' (PStr [])) = Inr content"
      "opt_field m ''name'' check_name [(''role'', PStr (c # cs)), (''content'', content)] = Inr n1"
      "opt_field m ''tool_calls'' (normalize_tool_calls loads) n1 = Inr n2"
      "opt_field m ''tool_call_id'' (\<lambda>v. Inr (PStr (py_str fr v))) n2 = Inr n3"
      "opt_field m ''reasoning_content'' check_reasoning n3 = Inr m'"
    by (auto simp: normalize_message_def err_simps)
  have "content_ok content"
    using s(1) by (auto simp: normalize_message_content_def content_ok_def split: if_splits)
  then have "normalized_ok (c # cs) [(''role'', PStr (c # cs)), (''content'', content)]"
    by (simp add: normalized_ok_def chat_fields_def)
  then have "normalized_ok (c # cs) m'"
    using opt_field_ok [OF s(2)] opt_field_ok [OF s(3)] opt_field_ok [OF s(4)] opt_field_ok [OF s(5)]
    by (simp add: chat_fields_def)
  with m show ?thesis by blast
qed

lemma merge_sampling_get:
  "dget (merge_sampling payload sp ks) k =
     (if k \<in> set ks \<and> dget payload k \<noteq> None then dget payload k else dget sp k)"
  by (induction ks arbitrary: sp) (auto split: option.splits)

text \<open>
  an OpenAI request that is accepted passes the capability gates (one choice, no response
  format, tool choice auto or none); its messages correspond one to one to the payload's, each
  with the role it had, a content that is text, a list or an object and none but the known chat
  fields; tools are dropped exactly when tool choice is none; and the sampling parameters are the
  session's, overridden by the payload on the allowed keys and nowhere else.
\<close>

theorem openai_accepts:
  assumes "openai_to_internal fr loads payload base allowed = Inr rq"
  shows "py_eq (PInt 1) (dget_or payload ''n'' (PInt 1)) \<and> dget_or payload ''response_format'' PNone = PNone \<and>
    (\<exists>ms. dget payload ''messages'' = Some (PList ms) \<and> ms \<noteq> [] \<and>
       list_all2 (\<lambda>m m'. \<exists>d r. m = PDict d \<and> dget d ''role'' = Some (PStr r) \<and> normalized_ok r m')
         ms (rq_messages rq)) \<and>
    (\<exists>choice. dget_or payload ''tool_choice'' (PStr ''auto'') = PStr choice \<and>
       (lower choice = ''none'' \<and> rq_tools rq = None \<or>
        lower choice = ''auto'' \<and>
          dget_or payload ''tools'' PNone = (case rq_tools rq of None \<Rightarrow> PNone | Some ts \<Rightarrow> PList ts))) \<and>
    (\<forall>k. dget (rq_sampling_params rq) k =
       (if k \<in> set allowed \<and> dget payload k \<noteq> None then dget payload k else dget base k))"
proof -
  from assms have n: "py_eq (PInt 1) (dget_or payload ''n'' (PInt 1))"
    and rf: "dget_or payload ''response_format'' PNone = PNone"
    by (auto simp: openai_to_internal_def Let_def split: if_splits)
  from assms n rf obtain tc where tc: "openai_tool_choice payload = Inr tc" and
    rest: "(case dget payload ''messages'' of
            Some (PList (m # ms)) \<Rightarrow>
              (let tools = dget_or payload ''tools'' PNone in
               if tools \<noteq> PNone \<and> \<not> is_list tools
               then Inl (MalformedRequestError ''tools must be a list'')
               else
                 rbind (rmap (normalize_message fr loads) (m # ms)) (\<lambda>messages.
                   Inr \<lparr>rq_messages = messages,
                        rq_tools = (if tc = ''none'' then None
                                    else case tools of PList ts \<Rightarrow> Some ts | _ \<Rightarrow> None),
                        rq_sampling_params = merge_sampling payload base allowed\<rparr>))
          | _ \<Rightarrow> Inl (MalformedRequestError ''messages must be non-empty'')) = Inr rq"
    by (auto simp: openai_to_internal_def Let_def err_simps)
  from rest obtain m ms where ms: "dget payload ''messages'' = Some (PList (m # ms))"
    by (auto split: option.splits pv.splits list.splits)
  with rest obtain messages where tools: "dget_or payload ''tools'' PNone = PNone \<or> is_list (dget_or payload ''tools'' PNone)"
    and mm: "rmap (normalize_message fr loads) (m # ms) = Inr messages"
    and rq: "rq = \<lparr>rq_messages = messages,
        rq_tools = (if tc = ''none'' then None
                    else case dget_or payload ''tools'' PNone of PList ts \<Rightarrow> Some ts | _ \<Rightarrow> None),
        rq_sampling_params = merge_sampling payload base allowed\<rparr>"
    by (auto simp: Let_def err_simps simp del: rmap.simps split: if_splits)
  have all: "list_all2 (\<lambda>m m'. \<exists>d r. m = PDict d \<and> dget d ''role'' = Some (PStr r) \<and> normalized_ok r m')
         (m # ms) messages"
    by (rule list_all2_mono [OF mm [unfolded rmap_Inr_iff]]) (rule normalize_message_ok)
  obtain choice where choice: "dget_or payload ''tool_choice'' (PStr ''auto'') = PStr choice"
    "tc = lower choice" "tc = ''auto'' \<or> tc = ''none''"
    using tc by (auto simp: openai_tool_choice_def split: pv.splits if_splits)
  have t: "tc = ''none'' \<and> rq_tools rq = None \<or> tc = ''auto'' \<and>
      dget_or payload ''tools'' PNone = (case rq_tools rq of None \<Rightarrow> PNone | Some ts \<Rightarrow> PList ts)"
    using choice(3) tools rq by (cases "dget_or payload ''tools'' PNone") auto
  show ?thesis
    using n rf ms all choice t rq by (auto simp: merge_sampling_get)
qed

definition demo_payload :: dict where
  "demo_payload = [(''messages'', PList [PDict (user_message (PStr ''hi''))]), (''top_p'', PInt 1),
     (''tool_choice'', PStr ''none'')]"

lemma openai_accepts_witness:
  "\<exists>rq. openai_to_internal (\<lambda>_. []) (\<lambda>_. None) demo_payload [] [''top_p''] = Inr rq \<and>
     dget (rq_sampling_params rq) ''top_p'' = Some (PInt 1)"
proof -
  have "isl (openai_to_internal (\<lambda>_. []) (\<lambda>_. None) demo_payload [] [''top_p'']) = False" by code_simp
  then obtain rq where rq: "openai_to_internal (\<lambda>_. []) (\<lambda>_. None) demo_payload [] [''top_p''] = Inr rq"
    by (auto simp: isl_def split: sum.splits) (metis old.sum.exhaust)
  from openai_accepts [OF this] rq show ?thesis by (simp add: demo_payload_def)
qed

subsection \<open>OpenAI streams\<close>

text \<open>A client that puts the deltas of a stream together.\<close>

definition drop_index :: "pv \<Rightarrow> pv" where
  "drop_index v = (case v of PDict d \<Rightarrow> PDict (dpop d ''index'') | v \<Rightarrow> v)"

fun merge_field :: "dict \<Rightarrow> string \<times> pv \<Rightarrow> dict" where
  "merge_field msg (k, PStr s) =
     (if k = ''role'' then dset msg k (PStr s)
      else dset msg k (PStr ((case dget msg k of Some (PStr t) \<Rightarrow> t | _ \<Rightarrow> []) @ s)))"
| "merge_field msg (k, PList xs) =
     dset msg k (PList ((case dget msg k of Some (PList ys) \<Rightarrow> ys | _ \<Rightarrow> []) @ map drop_index xs))"
| "merge_field msg (k, v) = dset msg k v"

definition chunk_choice :: "dict \<Rightarrow> dict" where
  "chunk_choice body = (case dget body ''choices'' of Some (PList [PDict c]) \<Rightarrow> c | _ \<Rightarrow> [])"

definition chunk_delta :: "dict \<Rightarrow> dict" where
  "chunk_delta body = (case dget (chunk_choice body) ''delta'' of Some (PDict d) \<Rightarrow> d | _ \<Rightarrow> [])"

definition assemble_chunks :: "dict list \<Rightarrow> dict" where
  "assemble_chunks bodies =
     foldl (\<lambda>msg body. foldl merge_field msg (chunk_delta body)) [(''role'', PNone), (''content'', PStr [])] bodies"

definition last_finish :: "dict list \<Rightarrow> pv option" where
  "last_finish bodies = dget (chunk_choice (last bodies)) ''finish_reason''"

lemma chunk_delta_body [simp]: "chunk_delta (chunk_body cid created model delta f u) = delta"
  by (simp add: chunk_delta_def chunk_choice_def chunk_body_def split: option.splits)

lemma tool_call_entries_indexed:
  "rmap indexed_call (enumerate k (map (\<lambda>(i, fc). tool_call_entry fresh i fc) (enumerate j calls))) =
     Inr (map (\<lambda>(n, v). PDict (dset (as_dict v) ''index'' (PInt (int n))))
       (enumerate k (map (\<lambda>(i, fc). tool_call_entry fresh i fc) (enumerate j calls))))"
  by (induction calls arbitrary: j k) (auto simp: indexed_call_def tool_call_entry_def as_dict_def)

lemma drop_index_entries:
  "map drop_index (map (\<lambda>(n, v). PDict (dset (as_dict v) ''index'' (PInt (int n))))
      (enumerate k (map (\<lambda>(i, fc). tool_call_entry fresh i fc) (enumerate j calls)))) =
   map (\<lambda>(i, fc). tool_call_entry fresh i fc) (enumerate j calls)"
  by (induction calls arbitrary: j k) (auto simp: drop_index_def tool_call_entry_def as_dict_def)

definition outcome_of :: "dict \<times> string \<Rightarrow> nat \<Rightarrow> nat \<Rightarrow> generation_outcome" where
  "outcome_of mf p c = \<lparr>go_assistant_msg = fst mf, go_finish_reason = snd mf, go_prompt_tokens = p,
     go_completion_tokens = c\<rparr>"

lemma decode_response_shape:
  assumes "decode_response cd cache fresh ids tools stop = (cache', Inr (msg, fr))"
  shows "(\<exists>content. msg = [(''role'', PStr ''assistant''), (''content'', PStr content)]) \<or>
    (\<exists>content calls. calls \<noteq> [] \<and> msg = tool_call_message fresh content calls)"
  using assms
  by (auto simp: decode_response_def Let_def plain_message_def split: option.splits if_splits prod.splits sum.splits)

text \<open>
  streaming loses nothing: for every message the codec decodes, a client that merges the
  deltas of the streamed chunks obtains exactly the assistant message of the non-streamed response,
  and the last chunk carries the same finish reason and usage.
\<close>

theorem stream_equals_response:
  assumes "decode_response cd cache fresh ids tools stop = (cache', Inr (msg, fr))"
    and "outcome = outcome_of (msg, fr) p c"
  shows "\<exists>bodies. openai_chunks uid created outcome model = Inr bodies \<and>
     assemble_chunks bodies = msg \<and> last_finish bodies = Some (PStr fr) \<and>
     dget (last bodies) ''usage'' = dget (openai_build_response uid created outcome model) ''usage'' \<and>
     dget (openai_build_response uid created outcome model) ''choices'' =
       Some (PList [PDict [(''index'', PInt 0), (''message'', PDict (assemble_chunks bodies)),
                           (''finish_reason'', PStr fr)]])"
  using decode_response_shape [OF assms(1)]
proof (elim disjE exE conjE)
  fix content
  assume msg: "msg = [(''role'', PStr ''assistant''), (''content'', PStr content)]"
  then show ?thesis using assms(2)
    by (cases content)
      (simp_all add: openai_chunks_def outcome_of_def text_delta_def tool_delta_def Let_def
        assemble_chunks_def last_finish_def chunk_choice_def chunk_body_def chunk_delta_def
        openai_build_response_def)
next
  fix content calls
  assume calls: "calls \<noteq> []" and msg: "msg = tool_call_message fresh content calls"
  define es where "es = map (\<lambda>(i, fc). tool_call_entry fresh i fc) (enumerate 0 calls)"
  define xs where "xs = map (\<lambda>(n, v). PDict (dset (as_dict v) ''index'' (PInt (int n)))) (enumerate 0 es)"
  have es: "es \<noteq> []" "rmap indexed_call (enumerate 0 es) = Inr xs" "map drop_index xs = es"
    using calls tool_call_entries_indexed [of 0 fresh 0 calls] drop_index_entries [of 0 fresh 0 calls]
    by (auto simp: es_def xs_def enumerate_eq_zip)
  have m: "msg = [(''role'', PStr ''assistant''), (''content'', PStr content), (''tool_calls'', PList es)]"
    using msg by (simp add: tool_call_message_def es_def)
  have td: "tool_delta msg = Inr [[(''tool_calls'', PList xs)]]"
    using es m by (cases es) (auto simp: tool_delta_def)
  show ?thesis using assms(2) td m es
    by (cases content)
      (simp_all add: openai_chunks_def outcome_of_def text_delta_def Let_def
        assemble_chunks_def last_finish_def chunk_choice_def chunk_body_def chunk_delta_def
        openai_build_response_def)
qed

lemma stream_equals_response_witness:
  "\<exists>bodies. openai_chunks ''u'' 0 (outcome_of (demo_msg ''assistant'' ''b'', ''stop'') 2 1) ''m'' = Inr bodies \<and>
     assemble_chunks bodies = demo_msg ''assistant'' ''b''"
  using stream_equals_response [OF demo_decode refl, where uid = "''u''" and created = 0 and p = 2 and c = 1 and model = "''m''"] by blast

subsection \<open>System entries in the middle of a conversation\<close>

lemma as_dict_role: "role_is r m \<Longrightarrow> m = PDict (as_dict m) \<and> is_role r (as_dict m)"
  by (auto simp: role_is_def as_dict_def split: pv.splits)

lemma role_is_PDict [simp]: "role_is r (PDict d) = is_role r d"
  by (simp add: role_is_def)

lemma is_role_unique: "is_role r m \<Longrightarrow> is_role r' m \<longleftrightarrow> r = r'"
  by (simp add: is_role_def)

lemma fold_reminder_role [simp]: "is_role r (fold_reminder_into_user fr m rem pre) = is_role r m"
  by (simp add: fold_reminder_into_user_def is_role_def Let_def split: pv.splits)

lemma user_message_role [simp]: "is_role r (user_message c) \<longleftrightarrow> r = ''user''"
  by (auto simp: user_message_def is_role_def)

text \<open>The messages other than user and system entries, in order.\<close>

definition others :: "pv list \<Rightarrow> pv list" where
  "others ms = filter (\<lambda>m. \<not> role_is ''user'' m \<and> \<not> role_is ''system'' m) ms"

definition count_users :: "pv list \<Rightarrow> nat" where
  "count_users ms = length (filter (role_is ''user'') ms)"

definition no_system :: "pv list \<Rightarrow> bool" where
  "no_system ms \<longleftrightarrow> (\<forall>m \<in> set ms. \<not> role_is ''system'' m)"

lemma fold_last_user_Some:
  assumes "fold_last_user fr rem ms = Some ms'"
  shows "others ms' = others ms" "count_users ms' = count_users ms" "no_system ms' = no_system ms"
    "0 < count_users ms"
  using assms
proof (induction ms arbitrary: ms')
  case (Cons m ms)
  { case 1 then show ?case using Cons.IH(1)
      by (cases m) (auto simp: others_def as_dict_def role_is_def is_role_unique split: option.splits if_splits) }
  { case 2 then show ?case using Cons.IH(2)
      by (cases m) (auto simp: count_users_def as_dict_def role_is_def split: option.splits if_splits) }
  { case 3 then show ?case using Cons.IH(3)
      by (cases m) (auto simp: no_system_def as_dict_def role_is_def is_role_unique split: option.splits if_splits) }
  { case 4 then show ?case using Cons.IH(4) by (auto simp: count_users_def split: option.splits if_splits) }
qed simp_all

lemma fold_last_user_None: "fold_last_user fr rem ms = None \<longleftrightarrow> count_users ms = 0"
  by (induction ms) (auto simp: count_users_def split: option.splits)

lemma role_user_not_system: "role_is ''user'' m \<Longrightarrow> \<not> role_is ''system'' m"
  by (auto simp: role_is_def is_role_def split: pv.splits)

text \<open>What the forward pass keeps: nothing pending once a user message is out.\<close>

definition fold_inv :: "pv list \<Rightarrow> pv list \<times> string \<Rightarrow> bool" where
  "fold_inv seen st \<longleftrightarrow> (case st of (out, pending) \<Rightarrow>
     no_system out \<and> others out = others seen \<and> count_users out = count_users seen \<and>
     (pending \<noteq> [] \<longrightarrow> count_users out = 0))"

lemma fold_step_inv:
  assumes "fold_step fr st m = Inr st'" "fold_inv seen st"
  shows "fold_inv (seen @ [m]) st'"
proof -
  obtain out pending where st: "st = (out, pending)" by (cases st)
  show ?thesis
  proof (cases "role_is ''system'' m")
    case True
    then have seen: "others (seen @ [m]) = others seen" "count_users (seen @ [m]) = count_users seen"
      using role_user_not_system [of m] by (auto simp: others_def count_users_def)
    from True assms(1) st obtain sys where sys: "(if sys = [] then Inr (out, pending)
       else (case fold_last_user fr (reminder_of sys) out of
                 Some out' \<Rightarrow> Inr (out', pending)
               | None \<Rightarrow> Inr (out, if pending \<noteq> [] then pending @ nl @ reminder_of sys else reminder_of sys))) = (Inr st' :: (pv list \<times> string) result)"
      unfolding fold_step_def Let_def by (auto simp: rbind_Inr_iff)
    show ?thesis
    proof (cases "fold_last_user fr (reminder_of sys) out")
      case None
      then show ?thesis using sys assms(2) st seen fold_last_user_None [of fr "reminder_of sys" out]
        by (auto simp: fold_inv_def split: if_splits)
    next
      case (Some out')
      then show ?thesis using sys assms(2) st seen fold_last_user_Some [OF Some]
        by (auto simp: fold_inv_def split: if_splits)
    qed
  next
    case False
    then show ?thesis using assms st
      by (cases m) (auto simp: fold_step_def fold_inv_def others_def count_users_def no_system_def
          is_role_unique role_is_def as_dict_def split: if_splits)
  qed
qed

lemma rfold_inv:
  assumes "\<And>seen s x s'. f s x = Inr s' \<Longrightarrow> P seen s \<Longrightarrow> P (seen @ [x]) s'"
  shows "rfold f s xs = Inr s' \<Longrightarrow> P seen s \<Longrightarrow> P (seen @ xs) s'"
proof (induction xs arbitrary: s seen)
  case (Cons x xs)
  then obtain s1 where s1: "f s x = Inr s1" "rfold f s1 xs = Inr s'" by (auto simp: err_simps)
  from Cons.IH [OF s1(2) assms [OF s1(1) Cons.prems(2)]] show ?case by simp
qed simp

text \<open>
  folding removes every system entry from the message list and nothing else: assistant and
  other messages stay as they were, in order; the number of user messages is the same, except that
  one is added when the list had none and a reminder was left over.
\<close>

theorem fold_system_entries:
  assumes "fold_mid_list_system_into_user fr (PList ms) = Inr r"
  shows "\<exists>out. r = PList out \<and> no_system out \<and> others out = others ms \<and>
     (count_users out = count_users ms \<or> count_users ms = 0 \<and> count_users out = 1)"
proof (cases "\<exists>m \<in> set ms. role_is ''system'' m")
  case False
  then show ?thesis using assms by (auto simp: fold_mid_list_system_into_user_def no_system_def)
next
  case True
  with assms obtain out pending where f: "rfold (fold_step fr) ([], []) ms = Inr (out, pending)"
    and r: "r = PList (if pending \<noteq> [] then out @ [PDict (user_message (PStr pending))] else out)"
    by (auto simp: fold_mid_list_system_into_user_def err_simps)
  have "fold_inv ([] @ ms) (out, pending)"
    by (rule rfold_inv [where P = fold_inv, OF fold_step_inv f])
      (simp_all add: fold_inv_def no_system_def others_def count_users_def)
  then show ?thesis using r
    by (auto simp: fold_inv_def no_system_def others_def count_users_def)
qed

definition demo_reminder :: "pv list" where
  "demo_reminder = [PDict (system_message ''x''), PDict (user_message (PStr ''hi''))]"

lemma fold_system_entries_witness:
  "\<exists>out. fold_mid_list_system_into_user (\<lambda>_. []) (PList demo_reminder) = Inr (PList out) \<and>
     no_system out \<and> count_users out = 1"
proof -
  have "isl (fold_mid_list_system_into_user (\<lambda>_. []) (PList demo_reminder)) = False" by code_simp
  then obtain r where r: "fold_mid_list_system_into_user (\<lambda>_. []) (PList demo_reminder) = Inr r"
    by (cases "fold_mid_list_system_into_user (\<lambda>_. []) (PList demo_reminder)") auto
  have "count_users demo_reminder = 1"
    by (simp add: count_users_def demo_reminder_def system_message_def user_message_def is_role_def)
  with fold_system_entries [OF r] r show ?thesis by auto
qed

subsection \<open>Tool results and the whole request\<close>

definition is_part :: "dict \<Rightarrow> bool" where
  "is_part p \<longleftrightarrow> (\<exists>s. p = text_block s) \<or> (\<exists>u. p = image_url_part u)"

definition image_message :: "dict \<Rightarrow> bool" where
  "image_message m \<longleftrightarrow> (\<exists>u. m = user_message (PList [PDict (image_url_part u)]))"

definition is_image_block :: "pv \<Rightarrow> bool" where
  "is_image_block b = (case b of PDict d \<Rightarrow> type_is ''image'' d | _ \<Rightarrow> False)"

lemma image_block_part: "image_block_to_openai_part fr d = Inr p \<Longrightarrow> \<exists>u. p = image_url_part u"
  by (auto simp: image_block_to_openai_part_def split: option.splits pv.splits if_splits)

lemma type_is_unique: "type_is r m \<Longrightarrow> type_is r' m \<longleftrightarrow> r = r'"
  by (simp add: type_is_def)

lemma tool_not_image: "\<not> image_message (tool_message t s)"
  by (simp add: image_message_def tool_message_def user_message_def)

text \<open>
  The loop over the blocks: a first tool message, then tool messages and images only; no message
  yet means no image seen.
\<close>

definition tr_inv :: "string \<Rightarrow> pv list \<Rightarrow> tr_state \<Rightarrow> bool" where
  "tr_inv tid seen st \<longleftrightarrow> (case st of (ms, texts, emitted) \<Rightarrow>
     (ms \<noteq> [] \<longrightarrow> (\<exists>s. hd ms = tool_message tid s)) \<and> (emitted \<longleftrightarrow> ms \<noteq> []) \<and>
     (\<forall>m \<in> set ms. (\<exists>s. m = tool_message tid s) \<or> image_message m) \<and>
     length (filter image_message ms) = length (filter is_image_block seen))"

lemma flush_text_inv: "tr_inv tid seen st \<Longrightarrow> tr_inv tid seen (flush_text tid st)"
  by (cases st; cases "fst st") (auto simp: tr_inv_def flush_text_def tool_not_image)

lemma tool_result_block_inv:
  assumes "tool_result_block fr tid st b = Inr st'" "tr_inv tid seen st"
  shows "tr_inv tid (seen @ [b]) st'"
proof -
  obtain ms texts em where st: "st = (ms, texts, em)" by (cases st)
  from assms(1) obtain d where b: "b = PDict d" by (auto simp: tool_result_block_def split: pv.splits)
  show ?thesis
  proof (cases "type_is ''text'' d")
    case True
    then have "\<not> is_image_block b" by (simp add: b is_image_block_def type_is_def)
    with True assms st b show ?thesis by (auto simp: tool_result_block_def tr_inv_def err_simps)
  next
    case False
    with assms(1) b have img: "type_is ''image'' d" by (auto simp: tool_result_block_def split: if_splits)
    define st1 where "st1 = (if texts = [] \<and> \<not> em then (ms @ [tool_message tid []], texts, True) else st)"
    have i1: "tr_inv tid seen st1"
      using assms(2) st by (auto simp: tr_inv_def st1_def tool_not_image)
    obtain ms' texts' em' where f: "flush_text tid st1 = (ms', texts', em')" by (cases "flush_text tid st1")
    have i2: "tr_inv tid seen (ms', texts', em')" using flush_text_inv [OF i1] f by simp
    have ne: "ms' \<noteq> []"
      using f i2 by (auto simp: st1_def st flush_text_def tr_inv_def split: if_splits)
    from assms(1) False img b f st obtain part where part: "image_block_to_openai_part fr d = Inr part"
      "st' = (ms' @ [user_message (PList [PDict part])], texts', em')"
      by (auto simp: tool_result_block_def st1_def err_simps Let_def)
    have "image_message (user_message (PList [PDict part]))"
      using image_block_part [OF part(1)] by (auto simp: image_message_def)
    then show ?thesis using i2 ne part(2) img b by (auto simp: tr_inv_def is_image_block_def)
  qed
qed

lemma tool_result_list:
  assumes "tool_result_messages fr tid (PList blocks) = Inr ms"
  obtains m ts e where "tr_inv tid blocks (m, ts, e)" "ms = (if m = [] then [tool_message tid []] else m)"
proof -
  from assms obtain st where st: "rfold (tool_result_block fr tid) ([], [], False) blocks = Inr st"
    by (cases "rfold (tool_result_block fr tid) ([], [], False) blocks") (auto simp: tool_result_messages_def)
  obtain m ts e where f: "flush_text tid st = (m, ts, e)" by (cases "flush_text tid st")
  have "tr_inv tid ([] @ blocks) st"
    by (rule rfold_inv [where P = "tr_inv tid", OF tool_result_block_inv st]) (simp_all add: tr_inv_def)
  from flush_text_inv [OF this] f have "tr_inv tid blocks (m, ts, e)" by simp
  moreover have "ms = (if m = [] then [tool_message tid []] else m)"
    using assms st f by (simp add: tool_result_messages_def)
  ultimately show thesis by (rule that)
qed

text \<open>
  the messages of a tool result begin with a tool message for the call's id, so that the
  assistant's call is closed before any user message; all further tool messages carry the same id,
  everything else is a user message holding one image, and there is one of these per image block.
\<close>

theorem tool_result_closes_call:
  assumes "tool_result_messages fr tid (PList blocks) = Inr ms"
  shows "ms \<noteq> [] \<and> (\<exists>s. hd ms = tool_message tid s) \<and>
     (\<forall>m \<in> set ms. (\<exists>s. m = tool_message tid s) \<or> image_message m) \<and>
     length (filter image_message ms) = length (filter is_image_block blocks)"
proof -
  from assms obtain m ts e where "tr_inv tid blocks (m, ts, e)" "ms = (if m = [] then [tool_message tid []] else m)"
    by (rule tool_result_list)
  then show ?thesis by (auto simp: tr_inv_def tool_not_image split: if_splits)
qed

definition demo_image :: pv where
  "demo_image = PDict [(''type'', PStr ''image''),
     (''source'', PDict [(''type'', PStr ''url''), (''url'', PStr ''u'')])]"

lemma tool_result_closes_call_witness:
  "\<exists>ms. tool_result_messages (\<lambda>_. []) ''c'' (PList [demo_image]) = Inr ms \<and>
     (\<exists>s. hd ms = tool_message ''c'' s) \<and> length (filter image_message ms) = 1"
proof -
  have "isl (tool_result_messages (\<lambda>_. []) ''c'' (PList [demo_image])) = False" by code_simp
  then obtain ms where ms: "tool_result_messages (\<lambda>_. []) ''c'' (PList [demo_image]) = Inr ms"
    by (cases "tool_result_messages (\<lambda>_. []) ''c'' (PList [demo_image])") auto
  from tool_result_closes_call [OF ms] ms show ?thesis
    by (simp add: is_image_block_def demo_image_def type_is_def)
qed

text \<open>The shapes of a lowered message.\<close>

definition call_ok :: "pv \<Rightarrow> bool" where
  "call_ok c \<longleftrightarrow> (\<exists>i n args. i \<noteq> [] \<and> c = PDict [(''id'', PStr i), (''type'', PStr ''function''),
     (''function'', PDict [(''name'', PStr n), (''arguments'', PDict args)])])"

definition lowered :: "dict \<Rightarrow> bool" where
  "lowered m \<longleftrightarrow>
     (\<exists>t s. t \<noteq> [] \<and> m = tool_message t s) \<or>
     (\<exists>s. m = user_message (PStr s)) \<or>
     (\<exists>ps. m = user_message (PList (map PDict ps)) \<and> (\<forall>p \<in> set ps. is_part p) \<and>
           (\<exists>u. image_url_part u \<in> set ps)) \<or>
     (\<exists>s calls. m = [(''role'', PStr ''assistant''), (''content'', PStr s)] @
           (if calls = [] then [] else [(''tool_calls'', PList calls)]) \<and> (\<forall>c \<in> set calls. call_ok c))"

lemma tool_result_lowered:
  assumes "tool_result_messages fr tid c = Inr ms" "tid \<noteq> []"
  shows "\<forall>m \<in> set ms. lowered m"
proof -
  have tool: "lowered (tool_message tid s)" for s using assms(2) by (auto simp: lowered_def)
  have img: "lowered m" if "image_message m" for m
  proof -
    from that obtain u where m: "m = user_message (PList (map PDict [image_url_part u]))"
      by (auto simp: image_message_def)
    have "\<forall>p \<in> set [image_url_part u]. is_part p" by (auto simp: is_part_def)
    moreover have "image_url_part u \<in> set [image_url_part u]" by simp
    ultimately show ?thesis unfolding lowered_def using m by blast
  qed
  show ?thesis
  proof (cases "\<exists>bs. c = PList bs")
    case False
    then show ?thesis using assms(1) tool by (auto simp: tool_result_messages_def split: pv.splits)
  next
    case True
    then obtain bs where c: "c = PList bs" ..
    from assms(1) c obtain m ts e where "tr_inv tid bs (m, ts, e)" "ms = (if m = [] then [tool_message tid []] else m)"
      by (auto elim: tool_result_list)
    then show ?thesis using tool img by (auto simp: tr_inv_def split: if_splits)
  qed
qed

definition user_inv :: "pv list \<Rightarrow> dict list \<times> dict list \<Rightarrow> bool" where
  "user_inv seen st \<longleftrightarrow> (\<forall>m \<in> set (fst st). lowered m) \<and> (\<forall>p \<in> set (snd st). is_part p)"

lemma flush_user_lowered:
  assumes "\<forall>m \<in> set ms. lowered m" "\<forall>p \<in> set ps. is_part p"
  shows "\<forall>m \<in> set (flush_user ms ps). lowered m"
proof -
  have txtp: "type_is ''text'' p \<Longrightarrow> is_part p \<Longrightarrow> \<exists>s. p = text_block s" for p
    by (auto simp: is_part_def image_url_part_def type_is_def)
  have "lowered (user_message (if \<exists>p \<in> set ps. \<not> type_is ''text'' p then PList (map PDict ps)
         else PStr (join nl (map part_text ps))))"
  proof (cases "\<exists>p \<in> set ps. \<not> type_is ''text'' p")
    case True
    then obtain p where p: "p \<in> set ps" "\<not> type_is ''text'' p" by blast
    with assms(2) obtain u where "p = image_url_part u"
      by (auto simp: is_part_def text_block_def type_is_def)
    with p have "image_url_part u \<in> set ps" by simp
    with assms(2) True show ?thesis unfolding lowered_def by auto
  qed (auto simp: lowered_def)
  then show ?thesis using assms(1) by (auto simp: flush_user_def)
qed

lemma user_block_inv:
  assumes "user_block fr st b = Inr st'" "user_inv seen st"
  shows "user_inv (seen @ [b]) st'"
proof -
  obtain ms ps where st: "st = (ms, ps)" by (cases st)
  from assms(1) st obtain d where b: "b = PDict d" by (auto simp: user_block_def split: pv.splits)
  from assms(1) st b consider t where "st' = (ms, ps @ [text_block t])"
    | p where "image_block_to_openai_part fr d = Inr p" "st' = (ms, ps @ [p])"
    | x xs c rs where "tool_result_messages fr (x # xs) c = Inr rs" "st' = (flush_user ms ps @ rs, [])"
    by (auto simp: user_block_def err_simps split: if_splits option.splits pv.splits list.splits)
  then show ?thesis
  proof cases
    case 1
    then show ?thesis using assms(2) st by (auto simp: user_inv_def is_part_def)
  next
    case 2
    then show ?thesis using assms(2) st image_block_part by (fastforce simp: user_inv_def is_part_def)
  next
    case 3
    then show ?thesis using assms(2) st flush_user_lowered [of ms ps] tool_result_lowered [of fr "x # xs" c rs]
      by (auto simp: user_inv_def)
  qed
qed

lemma user_messages_lowered:
  assumes "user_messages_from_content fr c = Inr ms"
  shows "\<forall>m \<in> set ms. lowered m"
proof (cases "\<exists>bs. c = PList bs")
  case False
  then show ?thesis using assms by (auto simp: user_messages_from_content_def lowered_def split: pv.splits)
next
  case True
  then obtain bs where c: "c = PList bs" ..
  with assms obtain a b where f: "rfold (user_block fr) ([], []) bs = Inr (a, b)" and ms: "ms = flush_user a b"
    by (auto simp: user_messages_from_content_def err_simps)
  have "user_inv ([] @ bs) (a, b)"
    by (rule rfold_inv [where P = user_inv, OF user_block_inv f]) (simp_all add: user_inv_def)
  then show ?thesis using ms flush_user_lowered [of a b] by (simp add: user_inv_def)
qed

lemma assistant_block_inv:
  assumes "assistant_block fr st b = Inr st'" "\<forall>c \<in> set (snd st). call_ok c"
  shows "\<forall>c \<in> set (snd st'). call_ok c"
proof -
  obtain ts cs where st: "st = (ts, cs)" by (cases st)
  have "tool_use_call d = Inr c \<Longrightarrow> call_ok c" for d c
    by (auto simp: tool_use_call_def call_ok_def split: option.splits pv.splits list.splits)
  then show ?thesis using assms st
    by (auto simp: assistant_block_def err_simps split: pv.splits if_splits)
qed

lemma assistant_message_lowered:
  assumes "assistant_message_from_content fr c = Inr m"
  shows "lowered m"
proof (cases "\<exists>bs. c = PList bs")
  case False
  then obtain s where "m = [(''role'', PStr ''assistant''), (''content'', PStr s)]"
    using assms by (auto simp: assistant_message_from_content_def split: pv.splits)
  then show ?thesis unfolding lowered_def
    by (intro disjI2 exI [of _ s] exI [of _ "[]"]) simp
next
  case True
  then obtain bs where c: "c = PList bs" ..
  with assms obtain a b where f: "rfold (assistant_block fr) ([], []) bs = Inr (a, b)"
    and m: "m = [(''role'', PStr ''assistant''), (''content'', PStr (join nl a))] @
      (if b = [] then [] else [(''tool_calls'', PList b)])"
    by (auto simp: assistant_message_from_content_def err_simps)
  have "(\<lambda>_ st. \<forall>c \<in> set (snd st). call_ok c) ([] @ bs) (a, b)"
    by (rule rfold_inv [where P = "\<lambda>_ st. \<forall>c \<in> set (snd st). call_ok c", OF assistant_block_inv f]) simp_all
  then show ?thesis unfolding lowered_def using m by auto
qed

lemma message_to_internal_lowered:
  assumes "message_to_internal fr m = Inr ms"
  shows "\<forall>x \<in> set ms. lowered x"
  using assms user_messages_lowered assistant_message_lowered
  by (auto simp: message_to_internal_def Let_def err_simps split: pv.splits if_splits)

text \<open>
  C13: an Anthropic request that is accepted becomes a chat a template can render: one system
  message at most, only at the front, only from the top-level system field; every other message is
  a tool message with an id, a user message with text or with text and image parts, or an assistant
  message with text and well-formed function calls.
\<close>

theorem anthropic_lowers_to_chat:
  assumes "anthropic_to_internal fr (PDict p) base allowed = Inr rq"
  shows "\<exists>sys ms. system_to_text fr (dget_or p ''system'' PNone) = Inr sys \<and>
     rq_messages rq = (if sys = [] then ms else system_message sys # ms) \<and> (\<forall>m \<in> set ms. lowered m)"
proof -
  from assms obtain folded ms sys where f: "messages_to_internal fr folded = Inr ms"
    "system_to_text fr (dget_or p ''system'' PNone) = Inr sys"
    "rq_messages rq = (if sys = [] then ms else system_message sys # ms)"
    by (auto simp: anthropic_to_internal_def err_simps)
  from f(1) obtain xs rs where "rmap (message_to_internal fr) xs = Inr rs" "ms = concat rs"
    by (auto simp: messages_to_internal_def err_simps simp del: rmap.simps split: pv.splits list.splits)
  then have "\<forall>m \<in> set ms. lowered m"
    using message_to_internal_lowered rmap_Inr_set [of "message_to_internal fr" xs rs] by fastforce
  with f show ?thesis by blast
qed

definition demo_claude :: dict where
  "demo_claude = [(''system'', PStr ''s''), (''messages'', PList demo_reminder)]"

lemma anthropic_lowers_to_chat_witness:
  "\<exists>rq sys ms. anthropic_to_internal (\<lambda>_. []) (PDict demo_claude) [] [] = Inr rq \<and>
     rq_messages rq = (if sys = [] then ms else system_message sys # ms) \<and> (\<forall>m \<in> set ms. lowered m)"
proof -
  have "isl (anthropic_to_internal (\<lambda>_. []) (PDict demo_claude) [] []) = False" by code_simp
  then obtain rq where rq: "anthropic_to_internal (\<lambda>_. []) (PDict demo_claude) [] [] = Inr rq"
    by (cases "anthropic_to_internal (\<lambda>_. []) (PDict demo_claude) [] []") auto
  from anthropic_lowers_to_chat [OF rq] rq show ?thesis by blast
qed

subsection \<open>Anthropic streams\<close>

text \<open>A client that rebuilds the content blocks from the events.\<close>

definition patch_block :: "(string \<Rightarrow> pv option) \<Rightarrow> dict \<Rightarrow> dict \<Rightarrow> dict" where
  "patch_block loads block delta =
     (if type_is ''text_delta'' delta
      then dset block ''text'' (PStr (part_text block @ part_text delta))
      else (case dget delta ''partial_json'' of
              Some (PStr s) \<Rightarrow> (case loads s of Some v \<Rightarrow> dset block ''input'' v | None \<Rightarrow> block)
            | _ \<Rightarrow> block))"

definition apply_event :: "(string \<Rightarrow> pv option) \<Rightarrow> dict list \<Rightarrow> string \<times> dict \<Rightarrow> dict list" where
  "apply_event loads blocks e =
     (if fst e = ''content_block_start'' then blocks @ [as_dict (dget_or (snd e) ''content_block'' PNone)]
      else if fst e = ''content_block_delta''
      then butlast blocks @ [patch_block loads (last blocks) (as_dict (dget_or (snd e) ''delta'' PNone))]
      else blocks)"

definition stream_blocks :: "(string \<Rightarrow> pv option) \<Rightarrow> (string \<times> dict) list \<Rightarrow> dict list" where
  "stream_blocks loads events = foldl (apply_event loads) [] events"

definition block_input :: "dict \<Rightarrow> pv" where
  "block_input b = dget_or b ''input'' PNone"

definition block_shape :: "dict \<Rightarrow> bool" where
  "block_shape b \<longleftrightarrow> (\<exists>s. b = text_block s) \<or>
     (\<exists>i n args. b = [(''type'', PStr ''tool_use''), (''id'', i), (''name'', n), (''input'', PDict args)])"

lemma tool_use_blocks_shape: "b \<in> set (tool_use_blocks loads fresh i tcs) \<Longrightarrow> block_shape b"
  by (induction tcs arbitrary: i)
    (auto simp: block_shape_def tool_use_block_def Let_def split: pv.splits)

lemma outcome_blocks_shape: "\<forall>b \<in> set (outcome_to_blocks loads fresh msg). block_shape b"
  using tool_use_blocks_shape
  by (auto simp: outcome_to_blocks_def Let_def block_shape_def split: option.splits pv.splits list.splits if_splits)

lemma stream_block:
  assumes "block_shape b" "type_is ''tool_use'' b \<longrightarrow> loads (json_text fr (block_input b)) = Some (block_input b)"
  shows "foldl (apply_event loads) bs (block_events fr (k, b)) = bs @ [b]"
  using assms
  by (auto simp: block_shape_def block_events_def apply_event_def patch_block_def text_block_def type_is_def
      part_text_def dget_or_def as_dict_def block_input_def Let_def)

lemma stream_all_blocks:
  assumes "\<forall>b \<in> set xs. block_shape b \<and>
     (type_is ''tool_use'' b \<longrightarrow> loads (json_text fr (block_input b)) = Some (block_input b))"
  shows "foldl (apply_event loads) bs (concat (map (block_events fr) (enumerate k xs))) = bs @ xs"
  using assms by (induction xs arbitrary: bs k) (auto simp: stream_block)

text \<open>
  the Anthropic stream carries the same content as the plain response: if the client's JSON
  reader reads back the inputs of the tool calls as they are written, the blocks it rebuilds from
  the events are the content of the response, and the closing event has its stop reason and usage.
\<close>

theorem anthropic_stream_equals_response:
  assumes "\<forall>b \<in> set (outcome_to_blocks rd fresh (go_assistant_msg outcome)). type_is ''tool_use'' b \<longrightarrow>
      loads (json_text fr (block_input b)) = Some (block_input b)"
  shows "dget (anthropic_build_response rd fresh mid outcome model) ''content'' =
       Some (PList (map PDict (stream_blocks loads (anthropic_events fr rd fresh mid outcome model)))) \<and>
    (\<exists>e \<in> set (anthropic_events fr rd fresh mid outcome model). fst e = ''message_delta'' \<and>
       dget (as_dict (dget_or (snd e) ''delta'' PNone)) ''stop_reason'' =
         dget (anthropic_build_response rd fresh mid outcome model) ''stop_reason'' \<and>
       dget (snd e) ''usage'' = dget (anthropic_build_response rd fresh mid outcome model) ''usage'')"
proof -
  have "stream_blocks loads (anthropic_events fr rd fresh mid outcome model) =
      outcome_to_blocks rd fresh (go_assistant_msg outcome)"
    using stream_all_blocks [of "outcome_to_blocks rd fresh (go_assistant_msg outcome)" loads fr "[]" 0]
      outcome_blocks_shape [of rd fresh "go_assistant_msg outcome"] assms
    by (simp add: stream_blocks_def anthropic_events_def apply_event_def)
  then show ?thesis
    by (simp add: anthropic_build_response_def anthropic_events_def as_dict_def dget_or_def)
qed

lemma anthropic_stream_equals_response_witness:
  "dget (anthropic_build_response (\<lambda>_. None) (\<lambda>_. []) [] (outcome_of (demo_call, ''tool_calls'') 2 1) ''m'') ''content'' =
     Some (PList (map PDict (stream_blocks (\<lambda>s. if s = ''{}'' then Some (PDict []) else None)
       (anthropic_events (\<lambda>_. []) (\<lambda>_. None) (\<lambda>_. []) [] (outcome_of (demo_call, ''tool_calls'') 2 1) ''m''))))"
proof (rule anthropic_stream_equals_response [THEN conjunct1], intro ballI impI)
  fix b
  assume "b \<in> set (outcome_to_blocks (\<lambda>_. None) (\<lambda>_. []) (go_assistant_msg (outcome_of (demo_call, ''tool_calls'') 2 1)))"
  then have "block_input b = PDict []"
    by (auto simp: outcome_to_blocks_def outcome_of_def demo_call_def tool_use_block_def Let_def block_input_def
        dget_or_def tool_call_input_def call_function_def)
  then show "(if json_text (\<lambda>_. []) (block_input b) = ''{}'' then Some (PDict []) else None) = Some (block_input b)"
    by simp
qed

end
