(* ===== verification/Gateway.thy ===== *)
theory Gateway
  imports AdapterProps
begin

text \<open>
  The gateway actor, \<open>gateway/gateway.py\<close> with \<open>gateway/config.py\<close>: sessions by id, the three
  HTTP routes with their exception handlers, and the life-cycle methods called through Ray.  A
  request runs to completion here; the interleaving of requests on one session is in
  \<open>SessionSteps\<close>.  The HTTP server (uvicorn, FastAPI routing) is outside: starting it yields a
  port.
\<close>

subsection \<open>Configuration and state\<close>

record actor_config =
  ag_allowed_request_sampling_param_keys :: "string list option"
  ag_prompt_length :: "int option"
  ag_response_length :: "int option"
  ag_enable_last_assistant_rollback :: pv

definition actor_config_post_init :: "actor_config \<Rightarrow> unit result" where
  "actor_config_post_init c =
     (case ag_enable_last_assistant_rollback c of
        PBool _ \<Rightarrow>
          (case ag_prompt_length c of
             Some p \<Rightarrow> if p \<le> 0 then Inl (ValueError (''prompt_length must be positive when set, got '' @ str_of_int p))
               else (case ag_response_length c of
                  Some r \<Rightarrow> if r \<le> 0 then Inl (ValueError (''response_length must be positive when set, got '' @ str_of_int r))
                    else Inr ()
                | None \<Rightarrow> Inr ())
           | None \<Rightarrow> (case ag_response_length c of
                Some r \<Rightarrow> if r \<le> 0 then Inl (ValueError (''response_length must be positive when set, got '' @ str_of_int r))
                  else Inr ()
              | None \<Rightarrow> Inr ()))
      | v \<Rightarrow> Inl (ValueError (''enable_last_assistant_rollback must be a bool, got '' @ type_name v)))"

definition DEFAULT_ALLOWED_REQUEST_SAMPLING_KEYS :: "string list" where
  "DEFAULT_ALLOWED_REQUEST_SAMPLING_KEYS = [''temperature'', ''top_p'', ''top_k'', ''max_tokens'', ''stop'']"

record actor =
  ac_server_address :: string
  ac_allowed :: "string list"
  ac_prompt_length :: "int option"
  ac_response_length :: "int option"
  ac_enable_rollback :: bool
  ac_sessions :: "(string \<times> session) list"
  ac_server_port :: "nat option"
  ac_server_task :: bool
  ac_server_base_url :: "string option"
  ac_parser_cache :: parser_cache

type_synonym 'a aop = "actor \<times> 'a result"

definition new_actor :: "actor_config \<Rightarrow> string \<Rightarrow> actor" where
  "new_actor c addr =
     \<lparr>ac_server_address = addr,
      ac_allowed = (case ag_allowed_request_sampling_param_keys c of
                      None \<Rightarrow> DEFAULT_ALLOWED_REQUEST_SAMPLING_KEYS | Some ks \<Rightarrow> ks),
      ac_prompt_length = ag_prompt_length c, ac_response_length = ag_response_length c,
      ac_enable_rollback = (ag_enable_last_assistant_rollback c = PBool True),
      ac_sessions = [], ac_server_port = None, ac_server_task = False, ac_server_base_url = None,
      ac_parser_cache = []\<rparr>"

subsection \<open>Server life cycle\<close>

definition start_actor :: "(string \<Rightarrow> bool) \<Rightarrow> nat \<Rightarrow> actor \<Rightarrow> actor" where
  "start_actor is_ipv6 port a =
     (if ac_server_task a then a
      else let addr = ac_server_address a;
               host = (if is_ipv6 addr then ''['' @ addr @ '']'' else addr)
           in a\<lparr>ac_server_port := Some port, ac_server_task := True,
                ac_server_base_url := Some (''http://'' @ host @ '':'' @ str_of_nat port)\<rparr>)"

definition shutdown_actor :: "actor \<Rightarrow> actor" where
  "shutdown_actor a =
     (if \<not> ac_server_task a then a
      else a\<lparr>ac_server_task := False, ac_server_port := None, ac_server_base_url := None\<rparr>)"

subsection \<open>Sessions\<close>

definition unknown_session :: "string \<Rightarrow> string" where
  "unknown_session sid = ''Unknown session_id: '' @ sid"

definition get_session :: "actor \<Rightarrow> string \<Rightarrow> session result" where
  "get_session a sid =
     (case dget (ac_sessions a) sid of Some s \<Rightarrow> Inr s | None \<Rightarrow> Inl (KeyError (unknown_session sid)))"

definition put_session :: "string \<Rightarrow> session \<Rightarrow> actor \<Rightarrow> actor" where
  "put_session sid s a = a\<lparr>ac_sessions := dset (ac_sessions a) sid s\<rparr>"

definition pop_session :: "string \<Rightarrow> actor \<Rightarrow> actor" where
  "pop_session sid a = a\<lparr>ac_sessions := dpop (ac_sessions a) sid\<rparr>"

definition create_session :: "rat \<Rightarrow> string \<Rightarrow> dict option \<Rightarrow> actor \<Rightarrow> session_handle aop" where
  "create_session now sid sampling_params a =
     (case ac_server_base_url a of
        None \<Rightarrow> (a, Inl (RuntimeError ''GatewayActor.start() must be called before session creation''))
      | Some url \<Rightarrow>
          if dhas (ac_sessions a) sid
          then (a, Inl (RuntimeError (''Session '' @ sid @ '' already exists'')))
          else
            (let handle = \<lparr>sh_session_id = sid,
                           sh_base_url = Some (url @ ''/sessions/'' @ sid @ ''/v1''),
                           sh_reward_info_url = Some (url @ ''/sessions/'' @ sid @ ''/reward_info'')\<rparr> in
             case new_session handle (ac_prompt_length a) (ac_response_length a) sampling_params
                    (ac_enable_rollback a) now of
               Inl e \<Rightarrow> (a, Inl e)
             | Inr s \<Rightarrow> (put_session sid s a, Inr handle)))"

definition set_session_reward_info :: "rat \<Rightarrow> string \<Rightarrow> pv \<Rightarrow> actor \<Rightarrow> unit aop" where
  "set_session_reward_info now sid reward_info a =
     (case get_session a sid of
        Inl e \<Rightarrow> (a, Inl e)
      | Inr s \<Rightarrow>
          (case (if ss_phase s \<noteq> ACTIVE then set_reward_info now None s
                 else if reward_info = PNone then set_reward_info now None s
                 else case py_dict reward_info of
                        Inl e \<Rightarrow> (s, Inl e)
                      | Inr d \<Rightarrow> set_reward_info now (Some d) s) of
             (s', r) \<Rightarrow> (put_session sid s' a, r)))"

definition finalize_session :: "rat \<Rightarrow> string \<Rightarrow> actor \<Rightarrow> trajectory list aop" where
  "finalize_session now sid a =
     (case get_session a sid of
        Inl e \<Rightarrow> (a, Inl e)
      | Inr s \<Rightarrow>
          (case finalize now s of
             (s', Inl e) \<Rightarrow> (put_session sid s' a, Inl e)
           | (s', Inr ts) \<Rightarrow> (pop_session sid a, Inr ts)))"

definition abort_session :: "rat \<Rightarrow> string \<Rightarrow> actor \<Rightarrow> unit aop" where
  "abort_session now sid a =
     (case dget (ac_sessions a) sid of
        None \<Rightarrow> (a, Inr ())
      | Some s \<Rightarrow>
          (case abort now s of
             (s', Inl e) \<Rightarrow> (put_session sid s' a, Inl e)
           | (s', Inr _) \<Rightarrow> (pop_session sid a, Inr ())))"

definition get_session_state :: "string \<Rightarrow> actor \<Rightarrow> session_snapshot result" where
  "get_session_state sid a = rbind (get_session a sid) (\<lambda>s. Inr (snapshot_state s))"

subsection \<open>Generation requests\<close>

text \<open>What the environment supplies to one request: clock, fresh identifiers, the back end.\<close>

record http_env =
  he_now :: rat
  he_created :: int
  he_fresh :: "nat \<Rightarrow> string"
  he_uid :: string
  he_backend :: backend

datatype response = JSONResponse int dict | EventStream "string list"

definition validate_sampling_params :: "dict \<Rightarrow> unit result" where
  "validate_sampling_params sp =
     (case dget sp ''max_tokens'' of
        None \<Rightarrow> Inr ()
      | Some (PInt n) \<Rightarrow> if n \<le> 0 then Inl (MalformedRequestError ''max_tokens must be a positive integer'') else Inr ()
      | Some _ \<Rightarrow> Inl (MalformedRequestError ''max_tokens must be a positive integer''))"

definition malformed_to_http :: "exn \<Rightarrow> exn" where
  "malformed_to_http e = (case e of MalformedRequestError m \<Rightarrow> HTTPException 400 m | e \<Rightarrow> e)"

definition lower_request ::
  "(dict \<Rightarrow> dict \<Rightarrow> string list \<Rightarrow> generation_request result) \<Rightarrow> actor \<Rightarrow> session \<Rightarrow> dict
     \<Rightarrow> generation_request result" where
  "lower_request to_internal a s payload =
     (case rbind (to_internal payload (ss_sampling_params s) (ac_allowed a)) (\<lambda>internal.
             rbind (validate_sampling_params (rq_sampling_params internal)) (\<lambda>_. Inr internal)) of
        Inl e \<Rightarrow> Inl (malformed_to_http e) | Inr internal \<Rightarrow> Inr internal)"

definition request_model :: "codec \<Rightarrow> dict \<Rightarrow> string" where
  "request_model cd payload =
     (let m = dget_or payload ''model'' PNone in if truthy m then py_str (cd_frepr cd) m else ''unknown'')"

definition wants_stream :: "dict \<Rightarrow> bool" where
  "wants_stream payload \<longleftrightarrow> dget payload ''stream'' = Some (PBool True)"

text \<open>The part the two provider handlers share: look up, lower, generate, answer.\<close>

definition handle_generation ::
  "codec \<Rightarrow> http_env \<Rightarrow> (dict \<Rightarrow> dict \<Rightarrow> string list \<Rightarrow> generation_request result)
     \<Rightarrow> (generation_outcome \<Rightarrow> string \<Rightarrow> bool \<Rightarrow> response result) \<Rightarrow> string \<Rightarrow> pv \<Rightarrow> actor \<Rightarrow> response aop" where
  "handle_generation cd env to_internal answer sid payload a =
     (case dget (ac_sessions a) sid of
        None \<Rightarrow> (a, Inl (HTTPException 404 (unknown_session sid)))
      | Some s \<Rightarrow>
          (case payload of
             PDict p \<Rightarrow>
               (case lower_request to_internal a s p of
                  Inl e \<Rightarrow> (a, Inl e)
                | Inr internal \<Rightarrow>
                    (case run_generation cd (ac_parser_cache a) (he_fresh env) (he_now env) (he_backend env) internal s of
                       (cache', s', r) \<Rightarrow>
                         (put_session sid s' (a\<lparr>ac_parser_cache := cache'\<rparr>),
                          rbind r (\<lambda>outcome. answer outcome (request_model cd p) (wants_stream p)))))
           | v \<Rightarrow> (a, Inl (OtherException ''AttributeError'' (type_name v @ '' object has no attribute get'')))))"

definition handle_openai_chat_completions :: "codec \<Rightarrow> http_env \<Rightarrow> string \<Rightarrow> pv \<Rightarrow> actor \<Rightarrow> response aop" where
  "handle_openai_chat_completions cd env =
     handle_generation cd env (openai_to_internal (cd_frepr cd) (cd_loads cd))
       (\<lambda>outcome model stream.
          if stream then rbind (openai_stream_response (cd_frepr cd) (he_uid env) (he_created env) outcome model)
                           (\<lambda>chunks. Inr (EventStream chunks))
          else Inr (JSONResponse 200 (openai_build_response (he_uid env) (he_created env) outcome model)))"

text \<open>A body that is no object is refused by the Anthropic adapter itself.\<close>

definition handle_anthropic_messages :: "codec \<Rightarrow> http_env \<Rightarrow> string \<Rightarrow> pv \<Rightarrow> actor \<Rightarrow> response aop" where
  "handle_anthropic_messages cd env sid payload a =
     (if dhas (ac_sessions a) sid \<and> \<not> is_dict payload
      then (a, Inl (HTTPException 400 ''payload must be an object''))
      else handle_generation cd env (\<lambda>p. anthropic_to_internal (cd_frepr cd) (PDict p))
             (\<lambda>outcome model stream.
                Inr (if stream
                     then EventStream (anthropic_stream_response (cd_frepr cd) (cd_loads cd) (he_fresh env) (he_uid env) outcome model)
                     else JSONResponse 200 (anthropic_build_response (cd_loads cd) (he_fresh env) (he_uid env) outcome model)))
             sid payload a)"

subsection \<open>Routes and exception handlers\<close>

definition error_body_for_path :: "string \<Rightarrow> int \<Rightarrow> string \<Rightarrow> dict" where
  "error_body_for_path path status_code message =
     (if endswith path ''/v1/messages'' then anthropic_error_body status_code message
      else openai_error_body status_code message)"

text \<open>A control-flow exception is not turned into a response.\<close>

definition to_response :: "string \<Rightarrow> response result \<Rightarrow> response result" where
  "to_response path r =
     (case r of
        Inr resp \<Rightarrow> Inr resp
      | Inl (HTTPException code msg) \<Rightarrow> Inr (JSONResponse code (error_body_for_path path code msg))
      | Inl (BaseExc c) \<Rightarrow> Inl (BaseExc c)
      | Inl e \<Rightarrow> Inr (JSONResponse 500 (error_body_for_path path 500 ''Internal server error'')))"

datatype route = OpenAIChat | AnthropicMessages | RewardInfo

definition route_path :: "route \<Rightarrow> string \<Rightarrow> string" where
  "route_path rt sid = ''/sessions/'' @ sid @
     (case rt of OpenAIChat \<Rightarrow> ''/v1/chat/completions'' | AnthropicMessages \<Rightarrow> ''/v1/messages''
      | RewardInfo \<Rightarrow> ''/reward_info'')"

text \<open>\<open>body\<close> is \<open>None\<close> when the request is no JSON; a \<open>KeyError\<close> prints its argument quoted.\<close>

definition reward_info_route :: "http_env \<Rightarrow> string \<Rightarrow> pv option \<Rightarrow> actor \<Rightarrow> response aop" where
  "reward_info_route env sid body a =
     (case body of
        None \<Rightarrow> (a, Inl (ValueError ''JSONDecodeError''))
      | Some (PDict p) \<Rightarrow>
          (case set_session_reward_info (he_now env) sid (dget_or p ''reward_info'' PNone) a of
             (a', Inl (KeyError m)) \<Rightarrow> (a', Inl (HTTPException 404 (repr_str m)))
           | (a', Inl e) \<Rightarrow> (a', Inl e)
           | (a', Inr _) \<Rightarrow> (a', Inr (JSONResponse 200 [(''status'', PStr ''ok'')])))
      | Some v \<Rightarrow> (a, Inl (OtherException ''AttributeError'' (type_name v @ '' object has no attribute get''))))"

definition handle_route :: "codec \<Rightarrow> http_env \<Rightarrow> route \<Rightarrow> string \<Rightarrow> pv option \<Rightarrow> actor \<Rightarrow> response aop" where
  "handle_route cd env rt sid body a =
     (case (case rt of
              RewardInfo \<Rightarrow> reward_info_route env sid body a
            | _ \<Rightarrow>
                (case body of
                   None \<Rightarrow> (a, Inl (HTTPException 400 ''Invalid JSON body''))
                 | Some payload \<Rightarrow>
                     if rt = OpenAIChat then handle_openai_chat_completions cd env sid payload a
                     else handle_anthropic_messages cd env sid payload a)) of
        (a', r) \<Rightarrow> (a', to_response (route_path rt sid) r))"

end
