(* ===== verification/GatewayProps.thy ===== *)
theory GatewayProps
  imports Gateway
begin

text \<open>
  The actor's invariant: every stored session is well formed, active, carries its own id and has
  no chain reserved; all routes and life-cycle methods keep it and touch one session only.
\<close>

subsection \<open>A whole request as a run of the session's transition system\<close>

abbreviation idle :: "session \<Rightarrow> gsys" where
  "idle s \<equiv> \<lparr>gs_session = s, gs_flights = (\<lambda>_. None)\<rparr>"

definition backend_paired :: "backend \<Rightarrow> bool" where
  "backend_paired b \<longleftrightarrow> (\<forall>sid ids sp im vi out. b sid ids sp im vi = Inr out \<longrightarrow> paired out)"

lemma run_step: "gstep cd g1 g2 \<Longrightarrow> (gstep cd)\<^sup>*\<^sup>* g2 g3 \<Longrightarrow> (gstep cd)\<^sup>*\<^sup>* g1 g3"
  by (rule converse_rtranclp_into_rtranclp)

lemma fail_run:
  assumes "gs_flights g = (\<lambda>_. None)(0 := Some (Generating enc))"
  shows "(gstep cd)\<^sup>*\<^sup>* g (idle (discard_reservation (en_chain_id enc) (gs_session g)))"
proof -
  let ?g1 = "g\<lparr>gs_flights := (gs_flights g)(0 := after_failure enc)\<rparr>"
  have s1: "gstep cd g ?g1" by (rule gstep.fail) (simp add: assms)
  show ?thesis
  proof (cases "en_chain_id enc")
    case None
    have "?g1 = idle (discard_reservation (en_chain_id enc) (gs_session g))"
      using None assms by (cases g) (simp add: after_failure_def discard_reservation_def fun_eq_iff)
    with s1 show ?thesis by (metis r_into_rtranclp)
  next
    case (Some cid)
    have "gs_flights ?g1 0 = Some (Releasing cid)" using Some by (simp add: after_failure_def)
    from gstep.release [OF this, of cd]
    have s2: "gstep cd ?g1 (?g1\<lparr>gs_session := release_chain_reservation cid (gs_session ?g1),
        gs_flights := (gs_flights ?g1)(0 := None)\<rparr>)" .
    have "?g1\<lparr>gs_session := release_chain_reservation cid (gs_session ?g1),
        gs_flights := (gs_flights ?g1)(0 := None)\<rparr> = idle (discard_reservation (en_chain_id enc) (gs_session g))"
      using Some assms by (cases g)
        (simp add: release_chain_reservation_def discard_reservation_def fun_eq_iff)
    with s1 s2 show ?thesis by (metis rtranclp.rtrancl_into_rtrancl r_into_rtranclp)
  qed
qed

lemma call_backend_paired:
  "backend_paired b \<Longrightarrow> call_backend b s enc = Inr out \<Longrightarrow> paired out"
  by (auto simp: call_backend_def backend_paired_def split: sum.splits)

lemma run_generation_run:
  assumes "run_generation cd cache fresh now backend rq s = (cache', s', r)" "backend_paired backend"
    "sys_inv cd (idle s)"
  shows "(gstep cd)\<^sup>*\<^sup>* (idle s) (idle s')"
proof -
  obtain s1 b where b: "begin_generation cd now rq s = (s1, b)" by (cases "begin_generation cd now rq s")
  show ?thesis
  proof (cases "\<exists>enc. b = Inr (Pending enc)")
    case False
    then have "s' = s1" using assms(1) b
      by (auto simp: run_generation_def split: sum.splits started.splits)
    moreover have "gstep cd (idle s) ((idle s)\<lparr>gs_session := s1\<rparr>)"
      by (rule gstep.begin_closed [where p = 0 and now = now and rq = rq and r = b]) (use b False in auto)
    ultimately show ?thesis by auto
  next
    case True
    then obtain enc where enc: "b = Inr (Pending enc)" ..
    let ?g1 = "(idle s)\<lparr>gs_session := s1, gs_flights := (gs_flights (idle s))(0 := Some (Generating enc))\<rparr>"
    have st1: "gstep cd (idle s) ?g1"
      by (rule gstep.begin_pending [where now = now and rq = rq]) (use b enc in auto)
    have inv1: "sys_inv cd ?g1" by (rule gstep_sys_inv [OF st1 assms(3)])
    have fl: "gs_flights ?g1 = (\<lambda>_. None)(0 := Some (Generating enc))" by simp
    have failed: "(gstep cd)\<^sup>*\<^sup>* ?g1 (idle (discard_reservation (en_chain_id enc) s1))"
      using fail_run [OF fl] by simp
    show ?thesis
    proof (cases "rbind (call_backend backend s1 enc) (\<lambda>out. rbind (record_output enc out) (\<lambda>enc'. Inr (out, enc')))")
      case (Inl e)
      then have "s' = discard_reservation (en_chain_id enc) s1"
        using assms(1) b enc by (simp add: run_generation_def)
      with failed run_step [OF st1] show ?thesis by simp
    next
      case (Inr oe)
      then obtain out enc' where oe: "oe = (out, enc')" "call_backend backend s1 enc = Inr out"
        "record_output enc out = Inr enc'" by (auto simp: err_simps)
      note pd = call_backend_paired [OF assms(2) oe(2)]
      obtain c2 s2 q where f: "finish_generation cd cache fresh now enc' out s1 = (c2, s2, q)"
        by (cases "finish_generation cd cache fresh now enc' out s1") auto
      have g1p: "gs_flights ?g1 0 = Some (Generating enc)" by simp
      show ?thesis
      proof (cases q)
        case (Inl e)
        then have s': "s' = discard_reservation (en_chain_id enc) s2"
          using assms(1) b enc Inr oe f by (simp add: run_generation_def)
        have "s2 = gs_session ?g1"
          by (rule finish_generation_Inl(1) [OF inv1 g1p pd oe(3)]) (use f Inl in simp)
        with s' failed run_step [OF st1] show ?thesis by simp
      next
        case (Inr outcome)
        then have s': "s' = s2" using assms(1) b enc oe f
            \<open>rbind (call_backend backend s1 enc) (\<lambda>out. rbind (record_output enc out) (\<lambda>enc'. Inr (out, enc'))) = Inr oe\<close>
          by (simp add: run_generation_def)
        have "gstep cd ?g1 (?g1\<lparr>gs_session := s2, gs_flights := (gs_flights ?g1)(0 := None)\<rparr>)"
          by (rule gstep.finish_ok [OF g1p pd oe(3)]) (use f Inr in simp)
        moreover have "?g1\<lparr>gs_session := s2, gs_flights := (gs_flights ?g1)(0 := None)\<rparr> = idle s2"
          by (simp add: fun_eq_iff)
        ultimately show ?thesis using s' run_step [OF st1] by auto
      qed
    qed
  qed
qed

lemma idle_inv: "sys_inv cd (idle s) \<longleftrightarrow> session_inv cd s \<and> ss_reserved_chain_ids s = {}"
  by (auto simp: sys_inv_def owner_def)

lemma run_generation_inv:
  assumes "run_generation cd cache fresh now backend rq s = (cache', s', r)" "backend_paired backend"
    "session_inv cd s" "ss_reserved_chain_ids s = {}"
  shows "session_inv cd s' \<and> ss_reserved_chain_ids s' = {}"
proof -
  have "sys_inv cd (idle s)" using assms(3,4) by (simp add: idle_inv)
  with gw.run_inv [OF run_generation_run [OF assms(1,2)]] show ?thesis by (simp add: idle_inv)
qed

text \<open>Requests change neither the phase nor the handle of a session.\<close>

lemma close_length_exhausted_frame:
  "close_length_exhausted_chain enc s = (s', r) \<Longrightarrow> ss_phase s' = ss_phase s \<and> ss_handle s' = ss_handle s"
  by (auto simp: close_length_exhausted_chain_def Let_def next_order_seq_def record_rollback_stats_def
      split: option.splits sum.splits if_splits)

lemma commit_frame:
  "commit_generation_to_chain cd enc msg s = (s', r) \<Longrightarrow> ss_phase s' = ss_phase s \<and> ss_handle s' = ss_handle s"
  by (auto simp: commit_generation_to_chain_def Let_def next_order_seq_def allocate_chain_id_def
      record_rollback_stats_def split: option.splits sum.splits if_splits)

lemma discard_reservation_handle [simp]: "ss_handle (discard_reservation cid s) = ss_handle s"
  by (simp add: discard_reservation_def split: option.splits)

lemma begin_frame:
  "begin_generation cd now rq s = (s', r) \<Longrightarrow> ss_phase s' = ss_phase s \<and> ss_handle s' = ss_handle s"
  by (auto simp: begin_generation_def reserve_chain_def split: if_splits sum.splits prod.splits option.splits
      dest: close_length_exhausted_frame)

lemma finish_frame:
  "finish_generation cd cache fresh now enc out s = (c, s', r) \<Longrightarrow> ss_phase s' = ss_phase s \<and> ss_handle s' = ss_handle s"
  by (auto simp: finish_generation_def split: if_splits sum.splits prod.splits dest: commit_frame)

lemma run_generation_frame:
  assumes "run_generation cd cache fresh now backend rq s = (cache', s', r)"
  shows "ss_phase s' = ss_phase s \<and> ss_handle s' = ss_handle s"
proof -
  obtain s1 b where b: "begin_generation cd now rq s = (s1, b)" by (cases "begin_generation cd now rq s")
  note B = begin_frame [OF b]
  show ?thesis
  proof (cases "\<exists>enc. b = Inr (Pending enc)")
    case False
    then show ?thesis using assms b B by (auto simp: run_generation_def split: sum.splits started.splits)
  next
    case True
    then obtain enc where enc: "b = Inr (Pending enc)" ..
    show ?thesis
    proof (cases "rbind (call_backend backend s1 enc) (\<lambda>out. rbind (record_output enc out) (\<lambda>enc'. Inr (out, enc')))")
      case (Inl e)
      then show ?thesis using assms b enc B by (auto simp: run_generation_def)
    next
      case (Inr oe)
      obtain out enc' where oe: "oe = (out, enc')" by (cases oe)
      obtain c2 s2 q where f: "finish_generation cd cache fresh now enc' out s1 = (c2, s2, q)"
        by (cases "finish_generation cd cache fresh now enc' out s1") auto
      from finish_frame [OF f] assms b enc Inr oe f B show ?thesis
        by (cases q) (auto simp: run_generation_def)
    qed
  qed
qed

subsection \<open>The actor's invariant\<close>

definition stored_ok :: "codec \<Rightarrow> string \<Rightarrow> session \<Rightarrow> bool" where
  "stored_ok cd sid s \<longleftrightarrow> session_inv cd s \<and> ss_phase s = ACTIVE \<and> ss_reserved_chain_ids s = {} \<and>
     sh_session_id (ss_handle s) = sid"

definition actor_inv :: "codec \<Rightarrow> actor \<Rightarrow> bool" where
  "actor_inv cd a \<longleftrightarrow> (\<forall>sid s. dget (ac_sessions a) sid = Some s \<longrightarrow> stored_ok cd sid s)"

lemma actor_inv_put: "actor_inv cd a \<Longrightarrow> stored_ok cd sid s \<Longrightarrow> actor_inv cd (put_session sid s a)"
  by (simp add: actor_inv_def put_session_def)

lemma actor_inv_pop: "actor_inv cd a \<Longrightarrow> actor_inv cd (pop_session sid a)"
  by (simp add: actor_inv_def pop_session_def)

lemma new_session_stored:
  "new_session h p r sp rb now = Inr s \<Longrightarrow> stored_ok cd (sh_session_id h) s"
  using new_session_inv [of h p r sp rb now s cd]
  by (auto simp: stored_ok_def new_session_def split: if_splits)

lemma create_session_inv:
  assumes "actor_inv cd a" "create_session now sid sp a = (a', r)"
  shows "actor_inv cd a'"
  using assms new_session_stored
  by (fastforce simp: create_session_def Let_def split: option.splits if_splits sum.splits intro: actor_inv_put)

lemma handle_generation_inv:
  assumes "actor_inv cd a" "handle_generation cd env f g sid payload a = (a', r)"
    "backend_paired (he_backend env)"
  shows "actor_inv cd a'"
proof -
  consider "a' = a" | s rq c s' q where "dget (ac_sessions a) sid = Some s"
    "run_generation cd (ac_parser_cache a) (he_fresh env) (he_now env) (he_backend env) rq s = (c, s', q)"
    "a' = put_session sid s' (a\<lparr>ac_parser_cache := c\<rparr>)"
  proof (cases "dget (ac_sessions a) sid")
    case None
    then show ?thesis using assms(2) that(1) by (simp add: handle_generation_def)
  next
    case (Some s)
    show ?thesis
    proof (cases "\<exists>p rq. payload = PDict p \<and> lower_request f a s p = Inr rq")
      case False
      then show ?thesis using assms(2) that(1) Some
        by (cases payload; cases "lower_request f a s (as_dict payload)") (auto simp: handle_generation_def as_dict_def)
    next
      case True
      then obtain p rq where p: "payload = PDict p" "lower_request f a s p = Inr rq" by blast
      obtain c s' q where "run_generation cd (ac_parser_cache a) (he_fresh env) (he_now env) (he_backend env) rq s = (c, s', q)"
        by (cases "run_generation cd (ac_parser_cache a) (he_fresh env) (he_now env) (he_backend env) rq s") auto
      then show ?thesis using assms(2) that(2) Some p by (simp add: handle_generation_def)
    qed
  qed
  then show ?thesis
  proof cases
    case 2
    have s: "stored_ok cd sid s" using assms(1) 2(1) by (simp add: actor_inv_def)
    have "stored_ok cd sid s'"
      using run_generation_inv [OF 2(2) assms(3)] run_generation_frame [OF 2(2)] s by (simp add: stored_ok_def)
    moreover have "actor_inv cd (a\<lparr>ac_parser_cache := c\<rparr>)" using assms(1) by (simp add: actor_inv_def)
    ultimately show ?thesis using 2(3) actor_inv_put by simp
  qed (use assms in simp)
qed

lemma rewarded_session_simps [simp]:
  "ss_phase (rewarded_session now d s) = ss_phase s" "ss_handle (rewarded_session now d s) = ss_handle s"
  "ss_reserved_chain_ids (rewarded_session now d s) = ss_reserved_chain_ids s"
  by (simp_all add: rewarded_session_def split: option.splits)

lemma set_reward_info_eq:
  "set_reward_info now d s =
     (if ss_phase s \<noteq> ACTIVE then (s, Inl (RuntimeError (not_active s))) else (rewarded_session now d s, Inr ()))"
  by (simp add: set_reward_info_def rewarded_session_def)

lemma set_session_reward_info_inv:
  assumes "actor_inv cd a" "set_session_reward_info now sid ri a = (a', r)"
  shows "actor_inv cd a'"
proof (cases "dget (ac_sessions a) sid")
  case None
  then show ?thesis using assms by (simp add: set_session_reward_info_def get_session_def)
next
  case (Some s)
  have s: "stored_ok cd sid s" using assms(1) Some by (simp add: actor_inv_def)
  have k: "stored_ok cd sid (rewarded_session now d s)" for d
    using s by (simp add: stored_ok_def)
  obtain s' where "a' = put_session sid s' a" "s' = s \<or> (\<exists>d. s' = rewarded_session now d s)"
    using assms(2) Some s
    by (auto simp: set_session_reward_info_def get_session_def set_reward_info_eq stored_ok_def
        split: if_splits sum.splits)
  then show ?thesis using k s assms(1) actor_inv_put by blast
qed

lemma finalize_session_inv:
  assumes "actor_inv cd a" "finalize_session now sid a = (a', r)"
  shows "actor_inv cd a'"
proof (cases "dget (ac_sessions a) sid")
  case None
  then show ?thesis using assms by (simp add: finalize_session_def get_session_def)
next
  case (Some s)
  have s: "stored_ok cd sid s" using assms(1) Some by (simp add: actor_inv_def)
  then show ?thesis using assms Some finalize_active [of cd s now] actor_inv_pop
    by (simp add: finalize_session_def get_session_def stored_ok_def) metis
qed

lemma abort_session_inv:
  assumes "actor_inv cd a" "abort_session now sid a = (a', r)"
  shows "actor_inv cd a'"
proof (cases "dget (ac_sessions a) sid")
  case None
  then show ?thesis using assms by (simp add: abort_session_def)
next
  case (Some s)
  have s: "stored_ok cd sid s" using assms(1) Some by (simp add: actor_inv_def)
  then show ?thesis using assms Some actor_inv_pop
    by (auto simp: abort_session_def abort_cases stored_ok_def)
qed

text \<open>The steps of an actor: its life-cycle methods and its routes.\<close>

inductive astep :: "codec \<Rightarrow> actor \<Rightarrow> actor \<Rightarrow> bool" for cd where
  a_start: "astep cd a (start_actor v6 port a)"
| a_shutdown: "astep cd a (shutdown_actor a)"
| a_create: "create_session now sid sp a = (a', r) \<Longrightarrow> astep cd a a'"
| a_finalize: "finalize_session now sid a = (a', r') \<Longrightarrow> astep cd a a'"
| a_abort: "abort_session now sid a = (a', r'') \<Longrightarrow> astep cd a a'"
| a_reward: "set_session_reward_info now sid ri a = (a', r'') \<Longrightarrow> astep cd a a'"
| a_route: "handle_route cd env rt sid body a = (a', resp) \<Longrightarrow> backend_paired (he_backend env) \<Longrightarrow> astep cd a a'"

lemma reward_info_route_inv:
  "actor_inv cd a \<Longrightarrow> reward_info_route env sid body a = (a', r) \<Longrightarrow> actor_inv cd a'"
  by (auto simp: reward_info_route_def split: option.splits pv.splits prod.splits sum.splits exn.splits
      dest: set_session_reward_info_inv)

lemma handle_route_inv:
  assumes "actor_inv cd a" "handle_route cd env rt sid body a = (a', r)" "backend_paired (he_backend env)"
  shows "actor_inv cd a'"
proof (cases rt)
  case RewardInfo
  then show ?thesis using assms(1,2) reward_info_route_inv
    by (auto simp: handle_route_def split: prod.splits)
next
  case OpenAIChat
  then show ?thesis using assms handle_generation_inv
    by (auto simp: handle_route_def handle_openai_chat_completions_def split: prod.splits option.splits)
next
  case AnthropicMessages
  show ?thesis
  proof (cases body)
    case None
    then show ?thesis using assms AnthropicMessages by (simp add: handle_route_def)
  next
    case (Some payload)
    obtain a2 q where h: "handle_anthropic_messages cd env sid payload a = (a2, q)"
      by (cases "handle_anthropic_messages cd env sid payload a")
    have "actor_inv cd a2" using h assms(1,3) handle_generation_inv
      by (auto simp: handle_anthropic_messages_def split: if_splits) 
    then show ?thesis using assms(2) AnthropicMessages Some h by (simp add: handle_route_def)
  qed
qed

interpretation actor: invariant_system "\<lambda>a. \<exists>c addr. a = new_actor c addr" "astep cd" "actor_inv cd" for cd
proof
  show "actor_inv cd a" if "\<exists>c addr. a = new_actor c addr" for a
    using that by (auto simp: actor_inv_def new_actor_def)
  show "actor_inv cd a'" if "actor_inv cd a" "astep cd a a'" for a a'
    using that(2,1)
  proof (cases rule: astep.cases)
    case (a_start v6 port)
    then show ?thesis using that(1) by (simp add: actor_inv_def start_actor_def Let_def)
  next
    case a_shutdown
    then show ?thesis using that(1) by (simp add: actor_inv_def shutdown_actor_def)
  next
    case (a_create now sid sp r)
    then show ?thesis using that(1) create_session_inv by blast
  next
    case (a_finalize now sid r')
    then show ?thesis using that(1) finalize_session_inv by blast
  next
    case (a_abort now sid r'')
    then show ?thesis using that(1) abort_session_inv by blast
  next
    case (a_reward now sid ri r'')
    then show ?thesis using that(1) set_session_reward_info_inv by blast
  next
    case (a_route env rt sid body resp)
    then show ?thesis using that(1) handle_route_inv by blast
  qed
qed

subsection \<open>Properties\<close>

definition others_kept :: "string \<Rightarrow> actor \<Rightarrow> actor \<Rightarrow> bool" where
  "others_kept sid a a' \<longleftrightarrow> (\<forall>k. k \<noteq> sid \<longrightarrow> dget (ac_sessions a') k = dget (ac_sessions a) k)"

lemma others_kept_put [simp]: "others_kept sid a (put_session sid s a')= others_kept sid a a'"
  by (auto simp: others_kept_def put_session_def)

lemma others_kept_pop [simp]: "others_kept sid a (pop_session sid a') = others_kept sid a a'"
  by (auto simp: others_kept_def pop_session_def)

lemma others_kept_refl [simp]: "others_kept sid a a" "others_kept sid a (a\<lparr>ac_parser_cache := c\<rparr>)"
  by (simp_all add: others_kept_def)

text \<open>
  whatever routes and methods ran before, every session an actor knows can be finalized: the
  call returns one aligned trajectory per chain and forgets the session, leaves all other sessions
  alone, and a second call reports the session as unknown.
\<close>

theorem actor_finalizes_known_session:
  assumes "(astep cd)\<^sup>*\<^sup>* (new_actor c addr) a" "dget (ac_sessions a) sid = Some s"
  shows "\<exists>a' ts. finalize_session now sid a = (a', Inr ts) \<and> (\<forall>t \<in> set ts. traj_ok t) \<and>
     length ts = length (ss_materialized_chains s) + length (ss_active_chains s) \<and>
     dget (ac_sessions a') sid = None \<and> others_kept sid a a' \<and>
     finalize_session later sid a' = (a', Inl (KeyError (unknown_session sid)))"
proof -
  have "actor_inv cd a" by (rule actor.reach_inv [OF _ assms(1)]) blast
  then have s: "stored_ok cd sid s" using assms(2) by (simp add: actor_inv_def)
  then have fin: "finalize now s = (finalized_session now s, Inr (ordered_trajectories (finalized_session now s)))"
    and inv: "session_inv cd (finalized_session now s)"
    using finalize_active finalized_session_inv by (auto simp: stored_ok_def)
  from inv have ok: "\<forall>t \<in> set (ordered_trajectories (finalized_session now s)). traj_ok t"
    by (auto simp: ordered_trajectories_def session_inv_def traj_ok_def)
  have len: "length (ordered_trajectories (finalized_session now s)) =
      length (ss_materialized_chains s) + length (ss_active_chains s)"
    by (simp only: ordered_trajectories_def length_map length_sort) (simp add: finalized_session_def)
  have "finalize_session now sid a = (pop_session sid a, Inr (ordered_trajectories (finalized_session now s)))"
    using fin assms(2) by (simp add: finalize_session_def get_session_def)
  then show ?thesis using ok len
    by (intro exI [of _ "pop_session sid a"] exI [of _ "ordered_trajectories (finalized_session now s)"] conjI)
      (simp_all add: pop_session_def finalize_session_def get_session_def others_kept_def)
qed

definition demo_config :: actor_config where
  "demo_config = \<lparr>ag_allowed_request_sampling_param_keys = None, ag_prompt_length = Some 20,
     ag_response_length = Some 20, ag_enable_last_assistant_rollback = PBool True\<rparr>"

definition demo_actor :: actor where
  "demo_actor = start_actor (\<lambda>_. False) 8000 (new_actor demo_config ''h'')"

lemma demo_create: "\<exists>a s h. create_session 0 ''s'' None demo_actor = (a, Inr h) \<and>
    dget (ac_sessions a) ''s'' = Some s"
  by (simp add: create_session_def demo_actor_def start_actor_def new_actor_def demo_config_def
      new_session_def put_session_def Let_def dhas_def)

lemma actor_finalizes_known_session_witness:
  "\<exists>a a' ts. finalize_session 1 ''s'' a = (a', Inr ts) \<and> dget (ac_sessions a') ''s'' = None"
proof -
  obtain a s h where a: "create_session 0 ''s'' None demo_actor = (a, Inr h)"
    "dget (ac_sessions a) ''s'' = Some s" using demo_create by blast
  have "(astep demo_codec)\<^sup>*\<^sup>* (new_actor demo_config ''h'') a"
    unfolding demo_actor_def
    by (rule converse_rtranclp_into_rtranclp [OF a_start r_into_rtranclp [of "astep demo_codec"]],
        rule a_create [OF a(1) [unfolded demo_actor_def]])
  from actor_finalizes_known_session [OF this a(2)] show ?thesis by blast
qed

lemma handle_generation_frame:
  assumes "handle_generation cd env f g sid payload a = (a', r)"
  shows "others_kept sid a a'" "dget (ac_sessions a) sid = None \<Longrightarrow> a' = a \<and> r = Inl (HTTPException 404 (unknown_session sid))"
    "dhas (ac_sessions a') sid = dhas (ac_sessions a) sid"
  using assms
  by (auto simp: handle_generation_def dhas_def put_session_def others_kept_def
      split: option.splits pv.splits sum.splits prod.splits)

text \<open>
  the two generation routes are isolated and always answer.  Serving one session leaves every
  other session unchanged and never creates or removes one; an unknown session is answered 404 and
  a body that is no JSON 400, without touching the actor; and every exception other than a
  control-flow one becomes a response with an error body in the shape of the route's provider.
\<close>

theorem generation_route_isolated:
  assumes "rt \<noteq> RewardInfo" "handle_route cd env rt sid body a = (a', r)"
  shows "others_kept sid a a' \<and> dhas (ac_sessions a') sid = dhas (ac_sessions a) sid \<and>
    (body = None \<longrightarrow> a' = a \<and>
       r = Inr (JSONResponse 400 (error_body_for_path (route_path rt sid) 400 ''Invalid JSON body''))) \<and>
    (body \<noteq> None \<longrightarrow> \<not> dhas (ac_sessions a) sid \<longrightarrow> a' = a \<and>
       r = Inr (JSONResponse 404 (error_body_for_path (route_path rt sid) 404 (unknown_session sid)))) \<and>
    (\<forall>e. r = Inl e \<longrightarrow> (\<exists>c. e = BaseExc c)) \<and>
    (\<forall>code d. r = Inr (JSONResponse code d) \<longrightarrow> code \<noteq> 200 \<longrightarrow>
       (\<exists>m. d = error_body_for_path (route_path rt sid) code m))"
proof -
  obtain q where r: "r = to_response (route_path rt sid) q" and
    q: "(case body of None \<Rightarrow> (a, Inl (HTTPException 400 ''Invalid JSON body''))
         | Some payload \<Rightarrow> if rt = OpenAIChat then handle_openai_chat_completions cd env sid payload a
                     else handle_anthropic_messages cd env sid payload a) = (a', q)"
    using assms by (cases rt) (auto simp: handle_route_def split: prod.splits)
  have ok: "\<forall>code d. q = Inr (JSONResponse code d) \<longrightarrow> code = 200"
    using q by (auto simp: handle_openai_chat_completions_def handle_anthropic_messages_def handle_generation_def
        rbind_Inr_iff split: option.splits if_splits pv.splits sum.splits prod.splits)
  have resp: "(\<forall>e. r = Inl e \<longrightarrow> (\<exists>c. e = BaseExc c)) \<and>
    (\<forall>code d. r = Inr (JSONResponse code d) \<longrightarrow> code \<noteq> 200 \<longrightarrow>
       (\<exists>m. d = error_body_for_path (route_path rt sid) code m))"
  proof (cases q)
    case (Inl e)
    then show ?thesis using r by (cases e) (auto simp: to_response_def)
  next
    case (Inr x)
    then show ?thesis using r ok by (auto simp: to_response_def)
  qed
  show ?thesis
  proof (cases body)
    case None
    then show ?thesis using q r resp by (auto simp: to_response_def)
  next
    case (Some payload)
    have "others_kept sid a a' \<and> dhas (ac_sessions a') sid = dhas (ac_sessions a) sid \<and>
      (\<not> dhas (ac_sessions a) sid \<longrightarrow> a' = a \<and> q = Inl (HTTPException 404 (unknown_session sid)))"
    proof (cases "rt = OpenAIChat")
      case True
      with q Some have "handle_openai_chat_completions cd env sid payload a = (a', q)" by simp
      from handle_generation_frame [OF this [unfolded handle_openai_chat_completions_def]]
      show ?thesis by (simp add: dhas_def)
    next
      case False
      with q Some have h: "handle_anthropic_messages cd env sid payload a = (a', q)" by simp
      show ?thesis
      proof (cases "dhas (ac_sessions a) sid \<and> \<not> is_dict payload")
        case True
        with h show ?thesis by (simp add: handle_anthropic_messages_def)
      next
        case False
        with h have "handle_generation cd env (\<lambda>p. anthropic_to_internal (cd_frepr cd) (PDict p))
             (\<lambda>outcome model stream.
                Inr (if stream
                     then EventStream (anthropic_stream_response (cd_frepr cd) (cd_loads cd) (he_fresh env) (he_uid env) outcome model)
                     else JSONResponse 200 (anthropic_build_response (cd_loads cd) (he_fresh env) (he_uid env) outcome model)))
             sid payload a = (a', q)" by (simp only: handle_anthropic_messages_def if_False)
        from handle_generation_frame [OF this] show ?thesis by (simp add: dhas_def)
      qed
    qed
    then show ?thesis using resp r Some by (auto simp: to_response_def)
  qed
qed

definition demo_env :: http_env where
  "demo_env = \<lparr>he_now = 0, he_created = 0, he_fresh = (\<lambda>_. []), he_uid = [],
     he_backend = (\<lambda>_ _ _ _ _. Inr (demo_out [98]))\<rparr>"

lemma generation_route_isolated_witness:
  "handle_route demo_codec demo_env AnthropicMessages ''x'' (Some (PDict [])) demo_actor =
     (demo_actor, Inr (JSONResponse 404 (error_body_for_path (route_path AnthropicMessages ''x'') 404 (unknown_session ''x''))))"
proof -
  obtain a' r where h: "handle_route demo_codec demo_env AnthropicMessages ''x'' (Some (PDict [])) demo_actor = (a', r)"
    by (cases "handle_route demo_codec demo_env AnthropicMessages ''x'' (Some (PDict [])) demo_actor")
  have "\<not> dhas (ac_sessions demo_actor) ''x''"
    by (simp add: demo_actor_def start_actor_def new_actor_def dhas_def Let_def)
  with generation_route_isolated [OF _ h] h show ?thesis by simp
qed

end
