(* ===== verification/Manager.thy ===== *)
theory Manager
  imports GatewayProps
begin

text \<open>
  The driver-side manager, \<open>gateway/manager.py\<close>: a pool of actors, a load counter per actor and
  the route of each session.  \<open>create_session\<close> suspends between its reservation and its outcome,
  the closing calls between their lookup and the release of the route, so these halves are
  separate definitions; the sequential calls compose them with the actor's methods.
\<close>

record manager =
  gm_gateways :: "actor list"
  gm_gateway_count :: nat
  gm_active :: "int list"
  gm_routes :: "(string \<times> nat) list"

type_synonym 'a mop = "manager \<times> 'a result"

definition new_manager :: "int \<Rightarrow> actor_config option \<Rightarrow> nat \<Rightarrow> (nat \<Rightarrow> actor) \<Rightarrow> manager result" where
  "new_manager gateway_count config alive_cpu_nodes spawn =
     (if gateway_count \<le> 0 then Inl (ValueError ''gateway_count must be positive'')
      else if config = None
      then Inl (ValueError ''gateway_actor_config is required when gateway_count > 0'')
      else if alive_cpu_nodes = 0
      then Inl (RuntimeError ''No alive CPU nodes available for GatewayActor placement'')
      else (let n = nat gateway_count in
            Inr \<lparr>gm_gateways = map spawn [0..<n], gm_gateway_count = n, gm_active = replicate n 0,
                 gm_routes = []\<rparr>))"

definition select_gateway_index :: "manager \<Rightarrow> nat result" where
  "select_gateway_index m =
     (if gm_gateways m = [] then Inl (RuntimeError ''No gateway actors configured'')
      else Inr (min_key (\<lambda>i. gm_active m ! i) 0 [1..<length (gm_gateways m)]))"

definition get_gateway_index :: "manager \<Rightarrow> string \<Rightarrow> nat result" where
  "get_gateway_index m sid =
     (case dget (gm_routes m) sid of Some i \<Rightarrow> Inr i | None \<Rightarrow> Inl (KeyError sid))"

definition add_load :: "nat \<Rightarrow> int \<Rightarrow> manager \<Rightarrow> manager" where
  "add_load i d m = m\<lparr>gm_active := (gm_active m)[i := gm_active m ! i + d]\<rparr>"

definition drop_route :: "string \<Rightarrow> manager \<Rightarrow> manager" where
  "drop_route sid m = m\<lparr>gm_routes := dpop (gm_routes m) sid\<rparr>"

text \<open>The reservation made before the remote call, and its rollback.\<close>

definition reserve_route :: "string \<Rightarrow> nat \<Rightarrow> manager \<Rightarrow> manager" where
  "reserve_route sid i m = add_load i 1 (m\<lparr>gm_routes := dset (gm_routes m) sid i\<rparr>)"

definition rollback_route :: "string \<Rightarrow> nat \<Rightarrow> manager \<Rightarrow> manager" where
  "rollback_route sid i m = drop_route sid (add_load i (-1) m)"

definition release_route :: "string \<Rightarrow> nat \<Rightarrow> manager \<Rightarrow> manager" where
  "release_route sid i m = add_load i (-1) (drop_route sid m)"

definition put_gateway :: "nat \<Rightarrow> actor \<Rightarrow> manager \<Rightarrow> manager" where
  "put_gateway i a m = m\<lparr>gm_gateways := (gm_gateways m)[i := a]\<rparr>"

definition manager_create_session :: "rat \<Rightarrow> string \<Rightarrow> dict option \<Rightarrow> manager \<Rightarrow> session_handle mop" where
  "manager_create_session now sid sampling_params m =
     (case select_gateway_index m of
        Inl e \<Rightarrow> (m, Inl e)
      | Inr i \<Rightarrow>
          (let m1 = reserve_route sid i m in
           case create_session now sid sampling_params (gm_gateways m1 ! i) of
             (a, Inr h) \<Rightarrow> (put_gateway i a m1, Inr h)
           | (a, Inl e) \<Rightarrow> (rollback_route sid i (put_gateway i a m1), Inl e)))"

definition manager_finalize_session :: "rat \<Rightarrow> string \<Rightarrow> manager \<Rightarrow> trajectory list mop" where
  "manager_finalize_session now sid m =
     (case get_gateway_index m sid of
        Inl e \<Rightarrow> (m, Inl e)
      | Inr i \<Rightarrow>
          (case finalize_session now sid (gm_gateways m ! i) of
             (a, Inl e) \<Rightarrow> (put_gateway i a m, Inl e)
           | (a, Inr ts) \<Rightarrow> (release_route sid i (put_gateway i a m), Inr ts)))"

definition manager_abort_session :: "rat \<Rightarrow> string \<Rightarrow> manager \<Rightarrow> unit mop" where
  "manager_abort_session now sid m =
     (case get_gateway_index m sid of
        Inl e \<Rightarrow> (m, Inl e)
      | Inr i \<Rightarrow>
          (case abort_session now sid (gm_gateways m ! i) of
             (a, Inl e) \<Rightarrow> (put_gateway i a m, Inl e)
           | (a, Inr _) \<Rightarrow> (release_route sid i (put_gateway i a m), Inr ())))"

definition manager_shutdown :: "manager \<Rightarrow> manager" where
  "manager_shutdown m = \<lparr>gm_gateways = [], gm_gateway_count = 0, gm_active = [], gm_routes = []\<rparr>"

subsection \<open>Concurrent calls\<close>

datatype call = Creating nat | Closing nat

fun call_index :: "call \<Rightarrow> nat" where
  "call_index (Creating i) = i"
| "call_index (Closing i) = i"

record msys =
  ms_manager :: manager
  ms_calls :: "string \<Rightarrow> call option"

text \<open>
  Callers use a session id once at a time: a new id to create, one closing call per session.
  Between the halves of a call any other call may run.
\<close>

inductive mstep :: "msys \<Rightarrow> msys \<Rightarrow> bool" where
  create_begin: "ms_calls s sid = None \<Longrightarrow> dget (gm_routes (ms_manager s)) sid = None \<Longrightarrow>
     select_gateway_index (ms_manager s) = Inr i \<Longrightarrow>
     mstep s (s\<lparr>ms_manager := reserve_route sid i (ms_manager s), ms_calls := (ms_calls s)(sid := Some (Creating i))\<rparr>)"
| create_ok: "ms_calls s sid = Some (Creating i) \<Longrightarrow> mstep s (s\<lparr>ms_calls := (ms_calls s)(sid := None)\<rparr>)"
| create_failed: "ms_calls s sid = Some (Creating i) \<Longrightarrow>
     mstep s (s\<lparr>ms_manager := rollback_route sid i (ms_manager s), ms_calls := (ms_calls s)(sid := None)\<rparr>)"
| close_begin: "ms_calls s sid = None \<Longrightarrow> get_gateway_index (ms_manager s) sid = Inr i \<Longrightarrow>
     mstep s (s\<lparr>ms_calls := (ms_calls s)(sid := Some (Closing i))\<rparr>)"
| close_ok: "ms_calls s sid = Some (Closing i) \<Longrightarrow>
     mstep s (s\<lparr>ms_manager := release_route sid i (ms_manager s), ms_calls := (ms_calls s)(sid := None)\<rparr>)"
| close_failed: "ms_calls s sid = Some (Closing i) \<Longrightarrow> mstep s (s\<lparr>ms_calls := (ms_calls s)(sid := None)\<rparr>)"

inductive_cases mstepE: "mstep s s'"

definition routed :: "manager \<Rightarrow> nat \<Rightarrow> nat" where
  "routed m i = card (dict_store.holding (gm_routes m) i)"

definition loads_ok :: "manager \<Rightarrow> bool" where
  "loads_ok m \<longleftrightarrow> length (gm_active m) = length (gm_gateways m) \<and>
     (\<forall>sid i. dget (gm_routes m) sid = Some i \<longrightarrow> i < length (gm_gateways m)) \<and>
     (\<forall>i < length (gm_gateways m). gm_active m ! i = int (routed m i))"

definition msys_inv :: "msys \<Rightarrow> bool" where
  "msys_inv s \<longleftrightarrow> loads_ok (ms_manager s) \<and>
     (\<forall>sid c. ms_calls s sid = Some c \<longrightarrow> dget (gm_routes (ms_manager s)) sid = Some (call_index c))"

lemma select_gateway_index_Inr:
  assumes "select_gateway_index m = Inr i"
  shows "i < length (gm_gateways m)" "\<forall>j < length (gm_gateways m). gm_active m ! i \<le> gm_active m ! j"
proof -
  let ?f = "\<lambda>i. gm_active m ! i" and ?xs = "[1..<length (gm_gateways m)]"
  from assms have ne: "gm_gateways m \<noteq> []" and i: "i = min_key ?f 0 ?xs"
    by (auto simp: select_gateway_index_def split: if_splits)
  have "i \<in> insert 0 (set ?xs)" using min_key_in [of ?f 0 ?xs] i by simp
  then show "i < length (gm_gateways m)" using ne by auto
  show "\<forall>j < length (gm_gateways m). gm_active m ! i \<le> gm_active m ! j"
  proof (intro allI impI)
    fix j
    assume "j < length (gm_gateways m)"
    then have "j \<in> insert 0 (set ?xs)" by auto
    from min_key_le [OF this, of ?f] show "gm_active m ! i \<le> gm_active m ! j" using i by simp
  qed
qed

lemma loads_ok_reserve:
  assumes "loads_ok m" "dget (gm_routes m) sid = None" "i < length (gm_gateways m)"
  shows "loads_ok (reserve_route sid i m)"
  using assms dict_store.holding_store_fresh [OF assms(2), of i]
  by (auto simp: loads_ok_def reserve_route_def add_load_def routed_def nth_list_update)

lemma loads_ok_release:
  assumes "loads_ok m" "dget (gm_routes m) sid = Some i"
  shows "loads_ok (release_route sid i m)"
  using assms dict_store.holding_drop [OF assms(2)]
  by (auto simp: loads_ok_def release_route_def add_load_def drop_route_def routed_def nth_list_update)

lemma rollback_release: "rollback_route sid i m = release_route sid i m"
  by (simp add: rollback_route_def release_route_def add_load_def drop_route_def)

lemma mstep_inv: "msys_inv s \<Longrightarrow> mstep s s' \<Longrightarrow> msys_inv s'"
proof (erule mstepE)
  fix sid i
  assume inv: "msys_inv s" and *: "ms_calls s sid = None" "dget (gm_routes (ms_manager s)) sid = None"
    "select_gateway_index (ms_manager s) = Inr i"
    "s' = s\<lparr>ms_manager := reserve_route sid i (ms_manager s), ms_calls := (ms_calls s)(sid := Some (Creating i))\<rparr>"
  then show "msys_inv s'"
    using loads_ok_reserve [of "ms_manager s" sid i] select_gateway_index_Inr(1) [OF *(3)]
    by (auto simp: msys_inv_def reserve_route_def add_load_def)
next
  fix sid i
  assume inv: "msys_inv s" and *: "ms_calls s sid = Some (Creating i)"
    "s' = s\<lparr>ms_manager := rollback_route sid i (ms_manager s), ms_calls := (ms_calls s)(sid := None)\<rparr>"
  then have "loads_ok (release_route sid i (ms_manager s))"
    by (intro loads_ok_release) (auto simp: msys_inv_def)
  then show "msys_inv s'" using inv *
    by (auto simp: msys_inv_def rollback_release release_route_def add_load_def drop_route_def)
next
  fix sid i
  assume inv: "msys_inv s" and *: "ms_calls s sid = Some (Closing i)"
    "s' = s\<lparr>ms_manager := release_route sid i (ms_manager s), ms_calls := (ms_calls s)(sid := None)\<rparr>"
  then have "loads_ok (release_route sid i (ms_manager s))"
    by (intro loads_ok_release) (auto simp: msys_inv_def)
  then show "msys_inv s'" using inv *
    by (auto simp: msys_inv_def release_route_def add_load_def drop_route_def)
qed (auto simp: msys_inv_def get_gateway_index_def split: option.splits)

definition fresh_manager :: "msys \<Rightarrow> bool" where
  "fresh_manager s \<longleftrightarrow> (\<exists>n c k spawn. new_manager n c k spawn = Inr (ms_manager s)) \<and> ms_calls s = (\<lambda>_. None)"

lemma new_manager_loads_ok: "new_manager n c k spawn = Inr m \<Longrightarrow> loads_ok m"
  by (auto simp: new_manager_def loads_ok_def routed_def dict_store.holding_def Let_def split: if_splits)

interpretation pool: invariant_system fresh_manager mstep msys_inv
proof
  show "msys_inv s" if "fresh_manager s" for s
    using that new_manager_loads_ok unfolding fresh_manager_def msys_inv_def by auto
qed (rule mstep_inv)

subsection \<open>Properties\<close>


definition demo_manager :: manager where
  "demo_manager = \<lparr>gm_gateways = [demo_actor, demo_actor], gm_gateway_count = 2, gm_active = [0, 0],
     gm_routes = []\<rparr>"

lemma demo_manager_new: "new_manager 2 (Some demo_config) 1 (\<lambda>_. demo_actor) = Inr demo_manager"
  by (simp add: new_manager_def demo_manager_def upt_rec numeral_2_eq_2)


text \<open>A burst: every call reserves its slot before any of them returns.\<close>

definition burst :: "string list \<Rightarrow> manager \<Rightarrow> manager result" where
  "burst sids m = rfold (\<lambda>m sid. rbind (select_gateway_index m) (\<lambda>i. Inr (reserve_route sid i m))) m sids"

definition balanced :: "manager \<Rightarrow> bool" where
  "balanced m \<longleftrightarrow> (\<forall>i < length (gm_gateways m). \<forall>j < length (gm_gateways m). gm_active m ! i \<le> gm_active m ! j + 1)"

lemma sum_list_bump: "i < length xs \<Longrightarrow> sum_list (xs[i := xs ! i + d]) = sum_list xs + (d :: int)"
  by (induction xs arbitrary: i) (auto split: nat.splits)

lemma reserve_balanced:
  assumes "balanced m" "select_gateway_index m = Inr i" "length (gm_active m) = length (gm_gateways m)"
  shows "balanced (reserve_route sid i m)" "sum_list (gm_active (reserve_route sid i m)) = sum_list (gm_active m) + 1"
proof -
  note S = select_gateway_index_Inr [OF assms(2)]
  have b: "gm_active m ! j \<le> gm_active m ! i + 1" if "j < length (gm_gateways m)" for j
    using assms(1) that S(1) by (simp add: balanced_def)
  show "balanced (reserve_route sid i m)"
    using assms(1,3) S b by (fastforce simp: balanced_def reserve_route_def add_load_def nth_list_update)
  have "sum_list ((gm_active m)[i := gm_active m ! i + 1]) = sum_list (gm_active m) + 1"
    using S(1) assms(3) by (simp add: sum_list_bump)
  then show "sum_list (gm_active (reserve_route sid i m)) = sum_list (gm_active m) + 1"
    by (simp add: reserve_route_def add_load_def)
qed

lemma burst_balanced_aux:
  assumes "balanced m" "length (gm_active m) = length (gm_gateways m)" "gm_gateways m \<noteq> []"
  shows "\<exists>m'. burst sids m = Inr m' \<and> balanced m' \<and> gm_gateways m' = gm_gateways m \<and>
     sum_list (gm_active m') = sum_list (gm_active m) + int (length sids)"
  using assms
proof (induction sids arbitrary: m)
  case Nil
  then show ?case by (simp add: burst_def)
next
  case (Cons sid sids)
  obtain i where i: "select_gateway_index m = Inr i"
    using Cons.prems(3) by (simp add: select_gateway_index_def)
  let ?m = "reserve_route sid i m"
  have "gm_gateways ?m = gm_gateways m" "length (gm_active ?m) = length (gm_active m)"
    by (simp_all add: reserve_route_def add_load_def)
  with Cons.IH [of ?m] reserve_balanced [OF Cons.prems(1) i Cons.prems(2), of sid] Cons.prems i
  show ?case by (simp add: burst_def algebra_simps)
qed

text \<open>
  a burst of concurrent creates is spread evenly: because each call takes its slot before it
  suspends, after any number of reservations on a fresh pool the loads of two actors differ by at
  most one, and their sum is the number of sessions.
\<close>

theorem burst_is_balanced:
  assumes "new_manager n c k spawn = Inr m"
  shows "\<exists>m'. burst sids m = Inr m' \<and> sum_list (gm_active m') = int (length sids) \<and>
     (\<forall>i < nat n. \<forall>j < nat n. gm_active m' ! i \<le> gm_active m' ! j + 1)"
proof -
  from assms have m: "balanced m" "length (gm_active m) = length (gm_gateways m)" "gm_gateways m \<noteq> []"
    "length (gm_gateways m) = nat n" "sum_list (gm_active m) = 0"
    by (auto simp: new_manager_def balanced_def Let_def sum_list_replicate split: if_splits)
  from burst_balanced_aux [OF m(1-3), of sids] m(4,5) show ?thesis by (auto simp: balanced_def)
qed

lemma burst_is_balanced_witness:
  "\<exists>m'. burst [''a'', ''b'', ''c''] demo_manager = Inr m' \<and> gm_active m' ! 0 \<le> gm_active m' ! 1 + 1"
  using burst_is_balanced [OF demo_manager_new, of "[''a'', ''b'', ''c'']"] by auto

text \<open>
  creating a session through the manager and finalizing it again restores every load counter
  and every route, and returns no trajectory, when the id is new to the manager and to the pool.
\<close>

theorem create_finalize_roundtrip:
  assumes "manager_create_session now sid sp m = (m1, Inr h)" "loads_ok m" "dget (gm_routes m) sid = None"
  shows "\<exists>m2. manager_finalize_session later sid m1 = (m2, Inr []) \<and> gm_active m2 = gm_active m \<and>
     (\<forall>k. dget (gm_routes m2) k = dget (gm_routes m) k) \<and>
     (\<forall>i k. i < length (gm_gateways m) \<longrightarrow>
        dget (ac_sessions (gm_gateways m2 ! i)) k = dget (ac_sessions (gm_gateways m ! i)) k)"
proof -
  from assms(1) obtain i a where i: "select_gateway_index m = Inr i"
    and c: "create_session now sid sp (gm_gateways m ! i) = (a, Inr h)"
    and m1: "m1 = put_gateway i a (reserve_route sid i m)"
    by (auto simp: manager_create_session_def Let_def reserve_route_def add_load_def split: sum.splits prod.splits)
  have lt: "i < length (gm_gateways m)" by (rule select_gateway_index_Inr(1) [OF i])
  from c obtain s where a: "a = put_session sid s (gm_gateways m ! i)" "dget (ac_sessions (gm_gateways m ! i)) sid = None"
    and s: "\<exists>h p r sp rb now. new_session h p r sp rb now = Inr s"
    by (auto simp: create_session_def Let_def dhas_def split: option.splits if_splits sum.splits) blast
  from s have fresh: "ss_phase s = ACTIVE" "ss_active_chains s = []" "ss_materialized_chains s = []"
    by (auto simp: new_session_def split: if_splits)
  have fin: "finalize later s = (finalized_session later s, Inr [])"
  proof -
    from s have "session_inv undefined s" using new_session_inv by blast
    from finalize_active [OF this fresh(1), of later] fresh show ?thesis
      by (simp add: ordered_trajectories_def finalized_session_def)
  qed
  have len: "length (gm_active m) = length (gm_gateways m)" using assms(2) by (simp add: loads_ok_def)
  let ?m2 = "release_route sid i (put_gateway i (pop_session sid a) m1)"
  have "manager_finalize_session later sid m1 = (?m2, Inr [])"
    using m1 a fin lt
    by (simp add: manager_finalize_session_def get_gateway_index_def put_gateway_def reserve_route_def add_load_def
        finalize_session_def get_session_def put_session_def)
  moreover have "gm_active ?m2 = gm_active m"
    using m1 len lt by (simp add: release_route_def add_load_def drop_route_def put_gateway_def reserve_route_def)
  moreover have "\<forall>k. dget (gm_routes ?m2) k = dget (gm_routes m) k"
    using m1 assms(3) by (simp add: release_route_def add_load_def drop_route_def put_gateway_def reserve_route_def)
  moreover have "\<forall>j k. j < length (gm_gateways m) \<longrightarrow>
        dget (ac_sessions (gm_gateways ?m2 ! j)) k = dget (ac_sessions (gm_gateways m ! j)) k"
    using m1 a lt by (auto simp: release_route_def add_load_def drop_route_def put_gateway_def reserve_route_def
        nth_list_update pop_session_def put_session_def)
  ultimately show ?thesis by blast
qed

lemma demo_manager_loads_ok: "loads_ok demo_manager"
  by (rule new_manager_loads_ok [OF demo_manager_new])

lemma demo_manager_create: "\<exists>m1 h. manager_create_session 0 ''s'' None demo_manager = (m1, Inr h)"
proof -
  obtain a h where "create_session 0 ''s'' None demo_actor = (a, Inr h)" using demo_create by blast
  then show ?thesis
    by (simp add: manager_create_session_def demo_manager_def select_gateway_index_def upt_rec
        reserve_route_def add_load_def Let_def)
qed

lemma create_finalize_roundtrip_witness:
  "\<exists>m1 m2. manager_finalize_session 1 ''s'' m1 = (m2, Inr []) \<and> gm_active m2 = [0, 0]"
proof -
  obtain m1 h where c: "manager_create_session 0 ''s'' None demo_manager = (m1, Inr h)"
    using demo_manager_create by blast
  from create_finalize_roundtrip [OF c demo_manager_loads_ok, of 1] show ?thesis
    by (auto simp: demo_manager_def)
qed

text \<open>
  creating a session id that the manager's single actor already holds fails, as it should, but
  the rollback removes the route of the session that exists: it stays on its actor and in the load
  counter, and can no longer be finalized or aborted through the manager.
\<close>

theorem duplicate_create_orphans_session:
  assumes "gm_gateways m = [a]" "gm_active m = [n]" "dget (gm_routes m) sid = Some 0"
    and "dhas (ac_sessions a) sid" "ac_server_base_url a = Some url"
  shows "\<exists>m'. manager_create_session now sid sp m =
       (m', Inl (RuntimeError (''Session '' @ sid @ '' already exists''))) \<and>
     gm_gateways m' = [a] \<and> gm_active m' = [n] \<and> dget (gm_routes m') sid = None \<and>
     manager_finalize_session later sid m' = (m', Inl (KeyError sid)) \<and>
     manager_abort_session later sid m' = (m', Inl (KeyError sid))"
  using assms
  by (simp add: manager_create_session_def select_gateway_index_def create_session_def Let_def
      reserve_route_def rollback_route_def add_load_def drop_route_def put_gateway_def
      manager_finalize_session_def manager_abort_session_def get_gateway_index_def)

definition demo_single :: manager where
  "demo_single = \<lparr>gm_gateways = [put_session ''s'' demo_s0 demo_actor], gm_gateway_count = 1, gm_active = [1],
     gm_routes = [(''s'', 0)]\<rparr>"

lemma duplicate_create_orphans_session_witness:
  "\<exists>m'. gm_active m' = [1] \<and> manager_finalize_session 1 ''s'' m' = (m', Inl (KeyError ''s''))"
proof -
  let ?a = "put_session ''s'' demo_s0 demo_actor"
  have "dhas (ac_sessions ?a) ''s''" by (simp add: put_session_def)
  moreover obtain url where "ac_server_base_url ?a = Some url"
    by (simp add: put_session_def demo_actor_def start_actor_def new_actor_def Let_def)
  moreover have "gm_gateways demo_single = [?a]" "gm_active demo_single = [1]"
    "dget (gm_routes demo_single) ''s'' = Some 0" by (simp_all add: demo_single_def)
  ultimately show ?thesis
    using duplicate_create_orphans_session [of demo_single ?a 1 "''s''" url 0 None 1] by blast
qed

end
