(* ===== verification/PyText.thy ===== *)
theory PyText
  imports Prelude
begin

text \<open>
  Further operations of the Python library used outside the gateway: numeric conversions,
  splitting, searching and replacing in strings, line handling, and the padding of text.
\<close>

subsection \<open>Numeric conversions\<close>

definition is_digit :: "char \<Rightarrow> bool" where
  "is_digit c = (48 \<le> (of_char c :: nat) \<and> (of_char c :: nat) \<le> 57)"

definition digit_val :: "char \<Rightarrow> int" where
  "digit_val c = int (of_char c) - 48"

text \<open>A run of digits, single underscores allowed between two digits.\<close>

fun digits_val :: "int \<Rightarrow> bool \<Rightarrow> string \<Rightarrow> int option" where
  "digits_val acc after_digit [] = (if after_digit then Some acc else None)"
| "digits_val acc after_digit (c # cs) =
     (if is_digit c then digits_val (acc * 10 + digit_val c) True cs
      else if c = CHR ''_'' \<and> after_digit then digits_val acc False cs
      else None)"

definition parse_int :: "string \<Rightarrow> int option" where
  "parse_int s =
     (case strip s of
        [] \<Rightarrow> None
      | c # cs \<Rightarrow>
          if c = CHR ''-'' then map_option uminus (digits_val 0 False cs)
          else if c = CHR ''+'' then digits_val 0 False cs
          else digits_val 0 False (c # cs))"

text \<open>\<open>int(v)\<close>: a float is truncated towards zero.\<close>

definition py_int :: "pv \<Rightarrow> int result" where
  "py_int v =
     (case v of
        PBool b \<Rightarrow> Inr (if b then 1 else 0)
      | PInt i \<Rightarrow> Inr i
      | PFloat r \<Rightarrow> Inr (if 0 \<le> r then \<lfloor>r\<rfloor> else \<lceil>r\<rceil>)
      | PStr s \<Rightarrow> (case parse_int s of
            Some i \<Rightarrow> Inr i
          | None \<Rightarrow> Inl (ValueError (''invalid literal for int() with base 10: '' @ repr_str s)))
      | _ \<Rightarrow> Inl (TypeError (''int() argument must be a string, a bytes-like object or a real number, not '' @
               repr_str (type_name v))))"

text \<open>\<open>float(v)\<close>; the grammar of decimal floats is a parameter, \<open>fparse\<close>.\<close>

definition py_float :: "(string \<Rightarrow> rat option) \<Rightarrow> pv \<Rightarrow> rat result" where
  "py_float fparse v =
     (case v of
        PStr s \<Rightarrow> (case fparse s of
            Some r \<Rightarrow> Inr r
          | None \<Rightarrow> Inl (ValueError (''could not convert string to float: '' @ repr_str s)))
      | _ \<Rightarrow> (case num_val v of
            Some r \<Rightarrow> Inr r
          | None \<Rightarrow> Inl (TypeError (''float() argument must be a string or a real number, not '' @
               repr_str (type_name v)))))"

lemma py_int_PInt [simp]: "py_int (PInt i) = Inr i"
  by (simp add: py_int_def)

lemma py_float_num [simp]: "py_float fp (PFloat r) = Inr r" "py_float fp (PInt i) = Inr (of_int i)"
  by (simp_all add: py_float_def)

subsection \<open>Attribute access on a parsed value\<close>

definition attribute_error :: "pv \<Rightarrow> string \<Rightarrow> exn" where
  "attribute_error v a =
     OtherException ''AttributeError'' (repr_str (type_name v) @ '' object has no attribute '' @ repr_str a)"

text \<open>\<open>v.get(...)\<close> and \<open>v.items()\<close> start by asking for a dictionary.\<close>

definition need_dict :: "string \<Rightarrow> pv \<Rightarrow> dict result" where
  "need_dict a v = (case v of PDict d \<Rightarrow> Inr d | _ \<Rightarrow> Inl (attribute_error v a))"

text \<open>\<open>d[k]\<close>.\<close>

definition dict_item :: "dict \<Rightarrow> string \<Rightarrow> pv result" where
  "dict_item d k = (case dget d k of Some v \<Rightarrow> Inr v | None \<Rightarrow> Inl (KeyError k))"

text \<open>\<open>d.get(k)\<close>.\<close>

definition get_none :: "dict \<Rightarrow> string \<Rightarrow> pv" where
  "get_none d k = dget_or d k PNone"

lemma need_dict_PDict [simp]: "need_dict a (PDict d) = Inr d"
  by (simp add: need_dict_def)

end
