(* ===== verification/TqFields.thy ===== *)
theory TqFields
  imports Manager PyText
begin

text \<open>
  From a finalized trajectory to the training columns: \<open>framework/framework.py\<close> (runner
  configuration, trajectory selection, scoring, the fields and tags of a trajectory),
  \<open>framework/multi_modal_postprocess.py\<close>, and the two functions of verl's
  \<open>tensordict_utils.py\<close> that batch the fields.  A tensor is its element type, its shape and its
  elements in row-major order; \<open>f32\<close> rounds to single precision.
\<close>

subsection \<open>Tensors\<close>

datatype dtype = Int64 | Float32 | BoolT

record tensor =
  tn_dtype :: dtype
  tn_shape :: "nat list"
  tn_data :: "rat list"

definition tensor_dim :: "tensor \<Rightarrow> nat" where
  "tensor_dim t = length (tn_shape t)"

definition fits_int64 :: "int \<Rightarrow> bool" where
  "fits_int64 i \<longleftrightarrow> - (2 ^ 63) \<le> i \<and> i < 2 ^ 63"

text \<open>\<open>torch.tensor(ids, dtype=torch.long)\<close> and its float counterpart.\<close>

definition long_vec :: "int list \<Rightarrow> tensor result" where
  "long_vec ids =
     (if list_all fits_int64 ids
      then Inr \<lparr>tn_dtype = Int64, tn_shape = [length ids], tn_data = map of_int ids\<rparr>
      else Inl (RuntimeError ''Overflow when unpacking long long''))"

definition float_vec :: "(rat \<Rightarrow> rat) \<Rightarrow> rat list \<Rightarrow> tensor" where
  "float_vec f32 xs = \<lparr>tn_dtype = Float32, tn_shape = [length xs], tn_data = map f32 xs\<rparr>"

definition filled_like :: "rat \<Rightarrow> dtype \<Rightarrow> tensor \<Rightarrow> tensor" where
  "filled_like v dt t = \<lparr>tn_dtype = dt, tn_shape = tn_shape t, tn_data = replicate (length (tn_data t)) v\<rparr>"

definition cat_vec :: "tensor \<Rightarrow> tensor \<Rightarrow> tensor" where
  "cat_vec a b = \<lparr>tn_dtype = tn_dtype a, tn_shape = [hd (tn_shape a) + hd (tn_shape b)],
     tn_data = tn_data a @ tn_data b\<rparr>"

text \<open>\<open>torch.as_tensor\<close> of a nested list: all rows have one shape, all leaves are numbers.\<close>

fun nested_shape :: "pv \<Rightarrow> nat list result"
  and nested_shapes :: "nat list \<Rightarrow> pv list \<Rightarrow> unit result"
where
  "nested_shape (PList []) = Inr [0]"
| "nested_shape (PList (x # xs)) =
     rbind (nested_shape x) (\<lambda>d. rbind (nested_shapes d xs) (\<lambda>_. Inr (Suc (length xs) # d)))"
| "nested_shape v =
     (if num_val v \<noteq> None then Inr []
      else if is_str v then Inl (TypeError ''new(): invalid data type of a string'')
      else Inl (RuntimeError (''Could not infer dtype of '' @ type_name v)))"
| "nested_shapes d [] = Inr ()"
| "nested_shapes d (x # xs) =
     rbind (nested_shape x) (\<lambda>e.
       if e = d then nested_shapes d xs else Inl (ValueError ''expected sequence of equal length''))"

fun leaves :: "pv \<Rightarrow> pv list"
  and leaves_list :: "pv list \<Rightarrow> pv list"
where
  "leaves (PList xs) = leaves_list xs"
| "leaves v = [v]"
| "leaves_list [] = []"
| "leaves_list (x # xs) = leaves x @ leaves_list xs"

definition is_float :: "pv \<Rightarrow> bool" where
  "is_float v = (case v of PFloat _ \<Rightarrow> True | _ \<Rightarrow> False)"

definition is_bool :: "pv \<Rightarrow> bool" where
  "is_bool v = (case v of PBool _ \<Rightarrow> True | _ \<Rightarrow> False)"

definition leaves_dtype :: "pv list \<Rightarrow> dtype" where
  "leaves_dtype vs =
     (if vs = [] \<or> list_ex is_float vs then Float32 else if list_all is_bool vs then BoolT else Int64)"

definition as_tensor :: "(rat \<Rightarrow> rat) \<Rightarrow> pv \<Rightarrow> tensor result" where
  "as_tensor f32 v =
     rbind (nested_shape v) (\<lambda>d.
       let vs = leaves v; dt = leaves_dtype vs; xs = map (\<lambda>x. the (num_val x)) vs in
       if dt = Int64 \<and> \<not> list_all (\<lambda>x. fits_int64 \<lfloor>x\<rfloor>) xs
       then Inl (RuntimeError ''Overflow when unpacking long long'')
       else Inr \<lparr>tn_dtype = dt, tn_shape = d, tn_data = (if dt = Float32 then map f32 xs else xs)\<rparr>)"

definition align_routed_experts :: "(rat \<Rightarrow> rat) \<Rightarrow> pv \<Rightarrow> nat \<Rightarrow> tensor option result" where
  "align_routed_experts f32 source seq_len =
     rbind (as_tensor f32 source) (\<lambda>experts.
       if tensor_dim experts \<noteq> 3 then Inr None
       else
         let rows = tn_shape experts ! 0; width = tn_shape experts ! 1 * tn_shape experts ! 2;
             covered = min rows seq_len
         in Inr (Some \<lparr>tn_dtype = tn_dtype experts,
              tn_shape = [seq_len, tn_shape experts ! 1, tn_shape experts ! 2],
              tn_data = take (covered * width) (tn_data experts) @ replicate ((seq_len - covered) * width) 0\<rparr>))"

subsection \<open>Runner configuration\<close>

record runner_config =
  rn_runner_fqn :: string
  rn_runner_kwargs :: dict
  rn_dispatch_mode :: string
  rn_max_concurrent_sessions :: int
  rn_trajectory_selection :: string

definition runner_config_post_init :: "runner_config \<Rightarrow> runner_config result" where
  "runner_config_post_init c =
     (if rn_runner_fqn c = [] then Inl (ValueError ''runner_fqn is required'')
      else if rn_dispatch_mode c \<notin> {''inline_async'', ''ray_task''}
      then Inl (ValueError (''Unknown dispatch mode: '' @ rn_dispatch_mode c))
      else if rn_max_concurrent_sessions c < 0
      then Inl (ValueError (''max_concurrent_sessions must be non-negative, got '' @
                  str_of_int (rn_max_concurrent_sessions c)))
      else if rn_trajectory_selection c \<notin> {''all'', ''longest''}
      then Inl (ValueError (''Unknown trajectory selection: '' @ rn_trajectory_selection c @
                  ''. Expected '' @ repr_str ''all'' @ '' or '' @ repr_str ''longest''))
      else Inr c)"

text \<open>
  \<open>resolve\<close> is OmegaConf's conversion of a configuration node to plain data, \<open>load_tools\<close>
  verl's \<open>initialize_tools_from_config\<close>.
\<close>

definition rename_value_error :: "string \<Rightarrow> 'a result \<Rightarrow> 'a result" where
  "rename_value_error prefix r =
     (case r of Inl (ValueError m) \<Rightarrow> Inl (ValueError (prefix @ m)) | _ \<Rightarrow> r)"

definition runner_kwargs_of ::
  "(rat \<Rightarrow> string) \<Rightarrow> (pv \<Rightarrow> pv result) \<Rightarrow> (string \<Rightarrow> pv list result) \<Rightarrow> string \<Rightarrow> dict \<Rightarrow> dict result" where
  "runner_kwargs_of fr resolve load_tools runner_name cfg =
     rbind (resolve (dget_or cfg ''runner_kwargs'' (PDict []))) (\<lambda>v.
     rbind (if truthy v then py_dict v else Inr []) (\<lambda>kwargs.
     let path = get_none cfg ''tool_config_path'' in
     if truthy path then
       rbind (load_tools (py_str fr path)) (\<lambda>tools.
         if tools = []
         then Inl (ValueError (''agent_runners.'' @ runner_name @
                ''.tool_config_path did not initialize any tools: '' @ py_str fr path))
         else Inr (dset kwargs ''tool_config'' (PList tools)))
     else Inr kwargs))"

definition runner_config_from ::
  "(rat \<Rightarrow> string) \<Rightarrow> (pv \<Rightarrow> pv result) \<Rightarrow> (string \<Rightarrow> pv list result) \<Rightarrow> string \<Rightarrow> dict \<Rightarrow> runner_config result" where
  "runner_config_from fr resolve load_tools runner_name cfg =
     rbind (runner_kwargs_of fr resolve load_tools runner_name cfg) (\<lambda>kwargs.
     let cap = dget_or cfg ''max_concurrent_sessions'' (PInt 0); fqn = get_none cfg ''runner_fqn'' in
     rbind (py_int (if truthy cap then cap else PInt 0)) (\<lambda>n.
     rename_value_error (''agent_runners.'' @ runner_name @ '': '')
       (runner_config_post_init
          \<lparr>rn_runner_fqn = (if fqn = PNone then [] else py_str fr fqn), rn_runner_kwargs = kwargs,
           rn_dispatch_mode = py_str fr (dget_or cfg ''dispatch_mode'' (PStr ''inline_async'')),
           rn_max_concurrent_sessions = n,
           rn_trajectory_selection = py_str fr (dget_or cfg ''trajectory_selection'' (PStr ''all''))\<rparr>)))"

definition short_failure_reason :: "exn \<Rightarrow> string" where
  "short_failure_reason e =
     (let message = (if exn_str e = [] then exn_class e else exn_str e)
      in take 512 (exn_class e @ '':'' @ message))"

subsection \<open>Trajectory selection\<close>

definition trajectory_rank :: "trajectory \<Rightarrow> int \<times> nat \<times> nat" where
  "trajectory_rank t = (sum_list (tr_response_mask t), length (tr_response_ids t), tr_num_turns t)"

definition rank_key :: "nat \<times> trajectory \<Rightarrow> (int \<times> nat \<times> nat) \<times> nat" where
  "rank_key item = (trajectory_rank (snd item), fst item)"

definition select_session_trajectories :: "trajectory list \<Rightarrow> string \<Rightarrow> trajectory list" where
  "select_session_trajectories ts selection =
     (if selection = ''all'' then ts
      else case List.enumerate 0 ts of
        [] \<Rightarrow> ts
      | [x] \<Rightarrow> ts
      | x # xs \<Rightarrow> [snd (max_key rank_key x xs)])"

subsection \<open>Multimodal inputs\<close>

text \<open>
  The processor is a parameter: the text of a token list, the tensors it produces for text, images
  and videos, its rope index, and the two placeholder tokens.  \<open>tuple_items\<close> gives the members of
  a video that is a Python tuple.
\<close>

record processor =
  pc_decode :: "int list \<Rightarrow> string"
  pc_call :: "string \<Rightarrow> pv \<Rightarrow> pv \<Rightarrow> pv \<Rightarrow> (string \<times> tensor) list result"
  pc_rope :: "int list \<Rightarrow> int list \<Rightarrow> tensor option \<Rightarrow> tensor option \<Rightarrow> int list option \<Rightarrow> tensor result"
  pc_image_token :: int
  pc_video_token :: int
  pc_tuple_items :: "pv \<Rightarrow> pv list option"

definition split_videos_and_metadata :: "(pv \<Rightarrow> pv list option) \<Rightarrow> pv \<Rightarrow> (pv \<times> pv) result" where
  "split_videos_and_metadata tuple_items videos =
     (case videos of
        PList (v # vs) \<Rightarrow>
          (case tuple_items v of
             Some [a, b] \<Rightarrow>
               rbind (rmap (\<lambda>w. case tuple_items w of Some xs \<Rightarrow> Inr xs
                        | None \<Rightarrow> Inl (TypeError (type_name w @ '' object is not iterable''))) (v # vs)) (\<lambda>rows.
               if list_all (\<lambda>xs. 2 \<le> length xs) rows
               then Inr (PList (map (\<lambda>xs. xs ! 0) rows), PList (map (\<lambda>xs. xs ! 1) rows))
               else Inl (ValueError ''not enough values to unpack''))
           | _ \<Rightarrow> Inr (PList (v # vs), PNone))
      | _ \<Rightarrow> Inr (videos, PNone))"

text \<open>\<open>torch.repeat_interleave(thw[:, 1] * thw[:, 2], thw[:, 0])\<close> on the rows of the grid.\<close>

fun grid_seqlens :: "rat list \<Rightarrow> rat list" where
  "grid_seqlens (t # h # w # rest) = replicate (nat \<lfloor>t\<rfloor>) (h * w) @ grid_seqlens rest"
| "grid_seqlens _ = []"

definition compute_multi_modal_inputs ::
  "processor option \<Rightarrow> int list \<Rightarrow> dict option \<Rightarrow> (string \<times> tensor) list result" where
  "compute_multi_modal_inputs proc input_ids mm =
     (case (proc, mm) of
        (Some pc, Some (kv # d)) \<Rightarrow>
          rbind (split_videos_and_metadata (pc_tuple_items pc) (get_none (kv # d) ''videos'')) (\<lambda>(videos, meta).
          rbind (pc_call pc (pc_decode pc input_ids) (get_none (kv # d) ''images'') videos meta) (\<lambda>out.
          let inputs = dpop (dpop out ''input_ids'') ''attention_mask'' in
          Inr (case dget inputs ''image_grid_thw'' of
                 None \<Rightarrow> inputs
               | Some g \<Rightarrow>
                   (let lens = grid_seqlens (tn_data g)
                    in dset inputs ''images_seqlens''
                         \<lparr>tn_dtype = Int64, tn_shape = [length lens], tn_data = lens\<rparr>))))
      | _ \<Rightarrow> Inr [])"

text \<open>\<open>clip(cumsum(mask) - 1, min=0)\<close>.\<close>

fun cumsum :: "int \<Rightarrow> int list \<Rightarrow> int list" where
  "cumsum acc [] = []"
| "cumsum acc (x # xs) = (acc + x) # cumsum (acc + x) xs"

definition compute_position_id_with_mask :: "int list \<Rightarrow> int list" where
  "compute_position_id_with_mask ms = map (\<lambda>c. max 0 (c - 1)) (cumsum 0 ms)"

text \<open>A masked position keeps the filler 1, the others are counted.\<close>

fun text_positions :: "int \<Rightarrow> int list \<Rightarrow> int list" where
  "text_positions k [] = []"
| "text_positions k (m # ms) = (if m = 0 then 1 # text_positions k ms else k # text_positions (k + 1) ms)"

definition mm_token_types :: "processor \<Rightarrow> int list \<Rightarrow> int list" where
  "mm_token_types pc ids =
     map (\<lambda>i. if i = pc_video_token pc then 2 else if i = pc_image_token pc then 1 else 0) ids"

definition compute_position_ids ::
  "processor option \<Rightarrow> int list \<Rightarrow> int list \<Rightarrow> (string \<times> tensor) list \<Rightarrow> tensor result" where
  "compute_position_ids proc input_ids attention_mask inputs =
     (let plain = compute_position_id_with_mask attention_mask;
          text_only = \<lparr>tn_dtype = Int64, tn_shape = [length plain], tn_data = map of_int plain\<rparr> in
      case (proc, inputs) of
        (Some pc, kv # d) \<Rightarrow>
          rbind (pc_rope pc input_ids attention_mask (dget (kv # d) ''image_grid_thw'')
                   (dget (kv # d) ''video_grid_thw'')
                   (if dhas (kv # d) ''mm_token_type_ids'' then Some (mm_token_types pc input_ids) else None))
            (\<lambda>vision. let row = text_positions 0 attention_mask in
               Inr \<lparr>tn_dtype = Int64, tn_shape = [1 + hd (tn_shape vision), length input_ids],
                    tn_data = map of_int row @ tn_data vision\<rparr>)
      | _ \<Rightarrow> Inr text_only)"

subsection \<open>Scoring\<close>

text \<open>A score and its extra information per trajectory.\<close>

type_synonym annotation = "rat \<times> dict"

definition score_from_reward_info :: "(string \<Rightarrow> rat option) \<Rightarrow> trajectory list \<Rightarrow> annotation list option result" where
  "score_from_reward_info fparse ts =
     rbind (py_index ts (-1)) (\<lambda>t.
       let info = tr_reward_info t; reward = get_none info ''reward'';
           rest = dpop (dpop info ''reward'') ''finished'' in
       if reward = PNone then Inr None
       else rbind (py_float fparse reward) (\<lambda>r. Inr (Some (map (\<lambda>_. (r, rest)) ts))))"

record reward_data =
  rd_prompts :: tensor
  rd_responses :: tensor
  rd_input_ids :: tensor
  rd_attention_mask :: tensor
  rd_non_tensor :: dict

definition row_of :: "tensor \<Rightarrow> tensor" where
  "row_of t = t\<lparr>tn_shape := 1 # tn_shape t\<rparr>"

definition copy_keys :: "string list \<Rightarrow> dict \<Rightarrow> dict" where
  "copy_keys ks d = concat (map (\<lambda>k. case dget d k of Some v \<Rightarrow> [(k, v)] | None \<Rightarrow> []) ks)"

definition trajectory_to_reward_dataproto :: "trajectory \<Rightarrow> dict \<Rightarrow> reward_data result" where
  "trajectory_to_reward_dataproto t sample_fields =
     rbind (long_vec (tr_prompt_ids t)) (\<lambda>p.
     rbind (long_vec (tr_response_ids t)) (\<lambda>r.
     let ids = cat_vec p r in
     Inr \<lparr>rd_prompts = row_of p, rd_responses = row_of r, rd_input_ids = row_of ids,
          rd_attention_mask = row_of (filled_like 1 Int64 ids),
          rd_non_tensor = copy_keys [''raw_prompt'', ''data_source'', ''reward_model'', ''extra_info'',
              ''tools_kwargs'', ''agent_name''] sample_fields @
            [(''__num_turns__'', PInt (int (tr_num_turns t)))]\<rparr>))"

text \<open>\<open>worker\<close> is the remote \<open>compute_score\<close> of the worker that was picked.\<close>

definition scoring_fields :: "trajectory \<Rightarrow> dict \<Rightarrow> dict result" where
  "scoring_fields t sample_fields =
     (if tr_reward_info t = [] then Inr sample_fields
      else rbind (let e = get_none sample_fields ''extra_info'' in if truthy e then py_dict e else Inr []) (\<lambda>d.
        Inr (dset sample_fields ''extra_info'' (PDict (dupdate d (tr_reward_info t))))))"

definition read_score :: "(string \<Rightarrow> rat option) \<Rightarrow> (rat \<Rightarrow> string) \<Rightarrow> pv \<Rightarrow> pv \<Rightarrow> annotation result" where
  "read_score fparse fr uid res =
     (let err = ValueError (''RewardLoopWorker result missing '' @ repr_str ''reward_score'' @
                  '' key or invalid for uid='' @ py_str fr uid) in
      case res of
        PDict d \<Rightarrow>
          (case dget d ''reward_score'' of
             None \<Rightarrow> Inl err
           | Some s \<Rightarrow>
               rbind (py_float fparse s) (\<lambda>score.
               let extra = get_none d ''reward_extra_info'' in
               rbind (if truthy extra then py_dict extra else Inr []) (\<lambda>e. Inr (score, e))))
      | _ \<Rightarrow> Inl err)"

definition score_trajectories ::
  "(string \<Rightarrow> rat option) \<Rightarrow> (rat \<Rightarrow> string) \<Rightarrow> (reward_data \<Rightarrow> pv result) \<Rightarrow> trajectory list \<Rightarrow> dict \<Rightarrow>
     annotation list result" where
  "score_trajectories fparse fr worker ts sample_fields =
     (if ts = [] then Inl (AssertionError ''expected non-empty session_trajectories'')
      else
        rbind (scoring_fields (last ts) sample_fields) (\<lambda>flds.
        rbind (trajectory_to_reward_dataproto (last ts) flds) (\<lambda>data.
        rbind (worker data) (\<lambda>res.
        rbind (read_score fparse fr (get_none sample_fields ''uid'') res) (\<lambda>a. Inr (map (\<lambda>_. a) ts))))))"

definition annotate :: "trajectory \<Rightarrow> annotation \<Rightarrow> trajectory" where
  "annotate t a = t\<lparr>tr_reward_score := Some (fst a),
     tr_extra_fields := dset (tr_extra_fields t) ''reward_extra_info'' (PDict (snd a))\<rparr>"

definition annotate_all :: "trajectory list \<Rightarrow> annotation list \<Rightarrow> trajectory list result" where
  "annotate_all ts as =
     (if length as = length ts then Inr (map2 annotate ts as)
      else Inl (ValueError ''zip() arguments have different lengths''))"

subsection \<open>Fields and tag of one trajectory\<close>

datatype fval = FT tensor | FV pv | FM "(string \<times> tensor) list"

type_synonym fields = "(string \<times> fval) list"

definition step_pv :: "int option \<Rightarrow> pv" where
  "step_pv g = (case g of None \<Rightarrow> PNone | Some i \<Rightarrow> PInt i)"

definition finished_of :: "trajectory \<Rightarrow> pv result" where
  "finished_of t =
     (let v = get_none (tr_reward_info t) ''finished'' in
      if v = PNone \<or> is_bool v then Inr v else Inl (ValueError ''reward_info.finished must be a bool or null''))"

definition training_mask :: "bool \<Rightarrow> pv \<Rightarrow> tensor \<Rightarrow> tensor" where
  "training_mask mask_unfinished finished m =
     (if mask_unfinished \<and> finished = PBool False then filled_like 0 Int64 m else m)"

text \<open>\<open>rm_scores\<close>: zero except for the score at the last response token.\<close>

definition rm_scores :: "(rat \<Rightarrow> rat) \<Rightarrow> rat option \<Rightarrow> tensor \<Rightarrow> tensor" where
  "rm_scores f32 score responses =
     (let z = filled_like 0 Float32 responses; n = length (tn_data responses) in
      case score of
        Some r \<Rightarrow> if 0 < n then z\<lparr>tn_data := (tn_data z)[n - 1 := f32 r]\<rparr> else z
      | None \<Rightarrow> z)"

definition SAMPLE_KEYS :: "string list" where
  "SAMPLE_KEYS = [''uid'', ''raw_prompt'', ''data_source'', ''reward_model'', ''extra_info'',
     ''tools_kwargs'', ''agent_name'']"

definition dset_opt :: "fields \<Rightarrow> string \<Rightarrow> fval option \<Rightarrow> fields" where
  "dset_opt f k v = (case v of None \<Rightarrow> f | Some x \<Rightarrow> dset f k x)"

definition base_fields :: "tensor \<Rightarrow> tensor \<Rightarrow> tensor \<Rightarrow> (string \<times> tensor) list \<Rightarrow> fields" where
  "base_fields p r pos mm =
     [(''prompts'', FT p), (''responses'', FT r), (''input_ids'', FT (cat_vec p r)),
      (''attention_mask'', FT (filled_like 1 Int64 (cat_vec p r))), (''position_ids'', FT pos),
      (''multi_modal_inputs'', FM mm)]"

definition sequence_fields ::
  "(rat \<Rightarrow> rat) \<Rightarrow> processor option \<Rightarrow> trajectory \<Rightarrow> tensor \<Rightarrow> tensor \<Rightarrow> fields result" where
  "sequence_fields f32 proc t p r =
     (let ids = tr_prompt_ids t @ tr_response_ids t in
      rbind (compute_multi_modal_inputs proc ids (tr_multi_modal_data t)) (\<lambda>mm.
      rbind (compute_position_ids proc ids (map (\<lambda>_. 1) ids) mm) (\<lambda>pos.
      rbind (case tr_routed_experts t of None \<Rightarrow> Inr None
             | Some e \<Rightarrow> align_routed_experts f32 e (length ids)) (\<lambda>experts.
      Inr (dset (dset_opt (dset_opt (base_fields p r pos mm) ''rollout_log_probs''
                             (map_option (\<lambda>l. FT (float_vec f32 l)) (tr_response_logprobs t)))
                   ''routed_experts'' (map_option FT experts))
             ''rm_scores'' (FT (rm_scores f32 (tr_reward_score t) r)))))))"

definition trajectory_field ::
  "(rat \<Rightarrow> rat) \<Rightarrow> processor option \<Rightarrow> bool \<Rightarrow> trajectory \<Rightarrow> dict \<Rightarrow> nat \<Rightarrow> int option \<Rightarrow> fields result" where
  "trajectory_field f32 proc mask_unfinished t sample_fields session_index global_steps =
     rbind (long_vec (tr_prompt_ids t)) (\<lambda>p.
     rbind (long_vec (tr_response_ids t)) (\<lambda>r.
     rbind (long_vec (tr_response_mask t)) (\<lambda>source_mask.
     rbind (finished_of t) (\<lambda>finished.
     rbind (sequence_fields f32 proc t p r) (\<lambda>f.
     let m = FT (training_mask mask_unfinished finished source_mask);
         extra = map (\<lambda>(k, v). (k, FV v)) (dpop (tr_extra_fields t) ''materialization_reason'');
         f1 = dpop (dset (dset (dupdate f extra) ''response_mask'' m) ''loss_mask'' m) ''multi_modal_data'';
         f2 = dupdate f1 (map (\<lambda>(k, v). (k, FV v)) (copy_keys SAMPLE_KEYS sample_fields));
         f3 = dset (dset f2 ''session_id'' (FV (PInt (int session_index))))
                ''global_steps'' (FV (step_pv global_steps))
     in Inr (dset f3 ''num_turns''
          (FT \<lparr>tn_dtype = Int64, tn_shape = [], tn_data = [of_nat (tr_num_turns t)]\<rparr>)))))))"

definition version_tag :: "dict \<Rightarrow> string \<Rightarrow> int option \<Rightarrow> pv" where
  "version_tag extra k global_steps =
     (let v = dget_or extra k (step_pv global_steps) in if v = PNone then step_pv global_steps else v)"

definition trajectory_tag :: "trajectory \<Rightarrow> int option \<Rightarrow> string \<Rightarrow> dict" where
  "trajectory_tag t global_steps uid =
     (let extra = tr_extra_fields t; np = length (tr_prompt_ids t); nr = length (tr_response_ids t);
          tag = [(''global_steps'', step_pv global_steps),
                 (''min_global_steps'', version_tag extra ''min_global_steps'' global_steps),
                 (''max_global_steps'', version_tag extra ''max_global_steps'' global_steps),
                 (''status'', PStr ''success''), (''prompt_len'', PInt (int np)),
                 (''response_len'', PInt (int nr)), (''seq_len'', PInt (int (np + nr))), (''uid'', PStr uid)];
          reason = get_none extra ''materialization_reason''
      in if reason = PNone then tag else dset tag ''materialization_reason'' reason)"

definition trajectory_to_tq_field_and_tag ::
  "(rat \<Rightarrow> rat) \<Rightarrow> processor option \<Rightarrow> bool \<Rightarrow> dict \<Rightarrow> nat \<Rightarrow> int option \<Rightarrow> string \<Rightarrow> trajectory \<Rightarrow>
     (fields \<times> dict) result" where
  "trajectory_to_tq_field_and_tag f32 proc mask_unfinished sample_fields session_index global_steps uid t =
     rbind (trajectory_field f32 proc mask_unfinished t sample_fields session_index global_steps)
       (\<lambda>f. Inr (f, trajectory_tag t global_steps uid))"

subsection \<open>Columns of a batch\<close>

datatype column = Stacked "tensor list" | Jagged nat "tensor list" | Listed "fval list"

definition TQ_NESTED_SEQUENCE_FIELDS :: "string list" where
  "TQ_NESTED_SEQUENCE_FIELDS = [''prompts'', ''responses'', ''response_mask'', ''loss_mask'', ''input_ids'',
     ''attention_mask'', ''position_ids'', ''rollout_log_probs'', ''routed_experts'', ''rm_scores'',
     ''teacher_logprobs'', ''teacher_ids'']"

fun tensor_of :: "fval \<Rightarrow> tensor option" where
  "tensor_of (FT t) = Some t"
| "tensor_of _ = None"

definition all_tensors :: "fval list \<Rightarrow> tensor list option" where
  "all_tensors vs =
     (if list_all (\<lambda>v. tensor_of v \<noteq> None) vs then Some (map (\<lambda>v. the (tensor_of v)) vs) else None)"

definition shared_keys :: "fields list \<Rightarrow> string list" where
  "shared_keys fs =
     (case fs of [] \<Rightarrow> [] | f # rest \<Rightarrow> filter (\<lambda>k. list_all (\<lambda>g. dhas g k) rest) (map fst f))"

definition keep_keys :: "string list \<Rightarrow> fields \<Rightarrow> fields" where
  "keep_keys ks f = filter (\<lambda>(k, v). k \<in> set ks) f"

definition stack_values :: "fval list \<Rightarrow> column result" where
  "stack_values vs =
     (case all_tensors vs of
        Some (t # ts) \<Rightarrow>
          if list_all (\<lambda>u. tn_shape u = tn_shape t) ts then Inr (Stacked (t # ts))
          else if list_all (\<lambda>u. tensor_dim u = tensor_dim t) ts \<and> tensor_dim t \<noteq> 0 then Inr (Jagged 1 (t # ts))
          else Inl (RuntimeError ''cannot build a nested tensor'')
      | _ \<Rightarrow> Inr (Listed vs))"

definition list_of_dict_to_tensordict :: "fields list \<Rightarrow> (string \<times> column) list result" where
  "list_of_dict_to_tensordict fs =
     (case fs of
        [] \<Rightarrow> Inl (AssertionError [])
      | f # _ \<Rightarrow>
          rmap (\<lambda>k. rbind (rmap (\<lambda>g. case dget g k of Some v \<Rightarrow> Inr v | None \<Rightarrow> Inl (KeyError k)) fs) (\<lambda>vs.
                 rbind (stack_values vs) (\<lambda>c. Inr (k, c)))) (map fst f))"

text \<open>Off the ragged dimension the shapes must agree for the concatenation.\<close>

definition drop_dim :: "nat \<Rightarrow> nat list \<Rightarrow> nat list" where
  "drop_dim i d = take i d @ drop (Suc i) d"

definition nested_tensor_from_tensor_list :: "tensor list \<Rightarrow> nat option \<Rightarrow> column result" where
  "nested_tensor_from_tensor_list ts ragged_idx =
     (case ts of
        [] \<Rightarrow> Inl (AssertionError ''Must provide at least one tensor'')
      | t # _ \<Rightarrow>
          (let dim = tensor_dim t; idx = (case ragged_idx of None \<Rightarrow> dim | Some i \<Rightarrow> i) in
           if \<not> (1 \<le> idx \<and> idx \<le> dim) then Inl (AssertionError ''ragged_idx out of range'')
           else if dim = 1 then
             (if list_all (\<lambda>u. tensor_dim u = 1) ts then Inr (Jagged 1 ts)
              else Inl (RuntimeError ''cannot build a nested tensor''))
           else if list_all (\<lambda>u. tensor_dim u = dim \<and> drop_dim (idx - 1) (tn_shape u) = drop_dim (idx - 1) (tn_shape t)) ts
           then Inr (Jagged idx ts)
           else Inl (RuntimeError ''Sizes of tensors must match'')))"

definition ragged_idx_of :: "string \<Rightarrow> tensor list \<Rightarrow> nat option" where
  "ragged_idx_of k ts =
     (if k = ''routed_experts'' then Some 1
      else if k = ''position_ids'' \<and> tensor_dim (hd ts) = 2 then Some 2 else None)"

definition nest_column :: "fields list \<Rightarrow> (string \<times> column) list \<Rightarrow> string \<Rightarrow> (string \<times> column) list result" where
  "nest_column fs td k =
     (if \<not> dhas (hd fs) k then Inr td
      else case all_tensors (map (\<lambda>f. the (dget f k)) fs) of
             None \<Rightarrow> Inr td
           | Some ts \<Rightarrow>
               rbind (nested_tensor_from_tensor_list ts (ragged_idx_of k ts)) (\<lambda>c. Inr (dset td k c)))"

definition list_of_tq_fields_to_tensordict :: "fields list \<Rightarrow> (string \<times> column) list result" where
  "list_of_tq_fields_to_tensordict rows =
     (let fs = map (keep_keys (shared_keys rows)) rows in
      rbind (list_of_dict_to_tensordict fs) (\<lambda>td. rfold (nest_column fs) td TQ_NESTED_SEQUENCE_FIELDS))"

end
