(* ===== verification/Rollout.thy ===== *)
theory Rollout
  imports TqFields
begin

text \<open>
  The agent framework, \<open>framework/framework.py\<close>: one gateway session per rollout, the per-runner
  concurrency limit, the sessions of a prompt, the prompts of a batch, and the TransferQueue
  writes.  What runs outside the repository or in parallel is an argument: the agent runner acts on
  the manager's state, a put to the TransferQueue answers with a result, and \<open>asyncio.gather\<close>
  hands the outcomes of its coroutines over in order.  The written operations are a log.
\<close>

subsection \<open>The framework object\<close>

record rollout_config =
  rc_temperature :: pv
  rc_top_p :: pv
  rc_top_k :: pv
  rc_calculate_log_probs :: pv
  rc_val_temperature :: pv
  rc_val_top_p :: pv
  rc_val_top_k :: pv
  rc_n :: pv
  rc_val_n :: pv

record framework =
  fw_runner_registry :: "(string \<times> runner_config) list"
  fw_reward_loop_worker :: bool
  fw_processor :: "processor option"
  fw_rollout_config :: "rollout_config option"
  fw_log_dir :: "string option"
  fw_mask_unfinished_episode :: bool

text \<open>The library functions the framework calls, and the outcome of a TransferQueue operation.\<close>

datatype tq_op = KvPut string string dict | KvBatchPut "string list" "(string \<times> column) list" "dict list" string

record rollout_env =
  re_f32 :: "rat \<Rightarrow> rat"
  re_fr :: "rat \<Rightarrow> string"
  re_fparse :: "string \<Rightarrow> rat option"
  re_put :: "tq_op \<Rightarrow> unit result"
  re_worker :: "reward_data \<Rightarrow> pv result"

definition framework_registry ::
  "(rat \<Rightarrow> string) \<Rightarrow> (pv \<Rightarrow> pv result) \<Rightarrow> (string \<Rightarrow> pv list result) \<Rightarrow> dict \<Rightarrow> (string \<times> runner_config) list result" where
  "framework_registry fr resolve load_tools runners =
     rfold (\<lambda>reg (name, v). rbind (need_dict ''get'' v) (\<lambda>cfg.
       rbind (runner_config_from fr resolve load_tools name cfg) (\<lambda>c. Inr (dset reg name c)))) [] runners"

definition framework_log_dir :: "(rat \<Rightarrow> string) \<Rightarrow> string option \<Rightarrow> dict \<Rightarrow> string option" where
  "framework_log_dir fr log_dir_env af_cfg =
     (case dget af_cfg ''log_dir'' of
        Some v \<Rightarrow> (if truthy v then Some (py_str fr v) else None)
      | None \<Rightarrow> (case log_dir_env of
            Some (c # cs) \<Rightarrow> Some (c # cs)
          | _ \<Rightarrow> Some ''/tmp/uni_agent_logs''))"

definition framework_from_config ::
  "(rat \<Rightarrow> string) \<Rightarrow> (pv \<Rightarrow> pv result) \<Rightarrow> (string \<Rightarrow> pv list result) \<Rightarrow> string option \<Rightarrow> dict \<Rightarrow> bool \<Rightarrow>
     processor option \<Rightarrow> rollout_config \<Rightarrow> framework result" where
  "framework_from_config fr resolve load_tools log_dir_env af_cfg workers proc rollout =
     (let runners = get_none af_cfg ''agent_runners'' in
      if \<not> truthy runners
      then Inl (ValueError ''actor_rollout_ref.rollout.custom.agent_framework.agent_runners is required'')
      else
        rbind (need_dict ''items'' runners) (\<lambda>d.
        rbind (framework_registry fr resolve load_tools d) (\<lambda>reg.
        case dget_or af_cfg ''mask_unfinished_episode'' (PBool False) of
          PBool b \<Rightarrow>
            Inr \<lparr>fw_runner_registry = reg,
                 fw_reward_loop_worker = (truthy (dget_or af_cfg ''use_reward_loop_worker'' (PBool True)) \<and> workers),
                 fw_processor = proc, fw_rollout_config = Some rollout,
                 fw_log_dir = framework_log_dir fr log_dir_env af_cfg, fw_mask_unfinished_episode = b\<rparr>
        | _ \<Rightarrow> Inl (ValueError ''actor_rollout_ref.rollout.custom.agent_framework.mask_unfinished_episode must be a bool''))))"

definition build_session_sampling_params :: "rollout_config \<Rightarrow> string \<Rightarrow> dict \<Rightarrow> dict" where
  "build_session_sampling_params c partition_id sample_fields =
     (let p = [(''temperature'', rc_temperature c), (''top_p'', rc_top_p c), (''top_k'', rc_top_k c),
               (''repetition_penalty'', PFloat 1), (''logprobs'', rc_calculate_log_probs c)] in
      if partition_id = ''val''
      then dupdate p [(''temperature'', rc_val_temperature c), (''top_p'', rc_val_top_p c), (''top_k'', rc_val_top_k c)]
      else case dget sample_fields ''__do_sample__'' of
             Some v \<Rightarrow> if truthy v then p
               else dupdate p [(''temperature'', PInt 0), (''top_p'', PFloat 1), (''top_k'', PInt (-1))]
           | None \<Rightarrow> p)"

subsection \<open>Samples of a batch\<close>

text \<open>The columns of the prompt batch: a tensor of rank 0 or more, a stack, or one shared value.\<close>

datatype prompt_column = Scalar pv | Rows "pv list" | Stack "pv list" | Shared pv | ForeignColumn

definition sample_value :: "nat \<Rightarrow> prompt_column \<Rightarrow> pv result" where
  "sample_value i c =
     (case c of
        Scalar v \<Rightarrow> Inr v
      | Rows vs \<Rightarrow> py_index vs (int i)
      | Stack vs \<Rightarrow> py_index vs (int i)
      | Shared v \<Rightarrow> Inr v
      | ForeignColumn \<Rightarrow> Inl (AssertionError []))"

definition extract_sample_fields :: "(string \<times> prompt_column) list \<Rightarrow> nat \<Rightarrow> dict result" where
  "extract_sample_fields prompts i =
     rmap (\<lambda>(k, c). rbind (sample_value i c) (\<lambda>v. Inr (k, v))) prompts"

subsection \<open>Choosing the runner, and its concurrency limit\<close>

definition choose_runner :: "framework \<Rightarrow> dict \<Rightarrow> (string \<times> runner_config) result" where
  "choose_runner fw sample_fields =
     (case fw_runner_registry fw of
        [r] \<Rightarrow> Inr r
      | reg \<Rightarrow>
          (case get_none sample_fields ''agent_name'' of
             PNone \<Rightarrow> Inl (ValueError ''agent_name is required when multiple agent_runners are configured'')
           | PStr n \<Rightarrow> (case dget reg n of
                 Some c \<Rightarrow> Inr (n, c)
               | None \<Rightarrow> Inl (ValueError (''Unknown agent runner: '' @ n)))
           | v \<Rightarrow> Inl (ValueError (''agent_name must be a string, got '' @ type_name v))))"

text \<open>
  The semaphores belong to one event loop and are made anew when a session runs on another loop;
  a session that holds a semaphore of an earlier binding gives that one back.
\<close>

record limiter =
  lm_loop :: "nat option"
  lm_epoch :: nat
  lm_semaphores :: "(string \<times> nat) list"

definition bind_loop :: "nat \<Rightarrow> limiter \<Rightarrow> limiter" where
  "bind_loop loop l =
     (if lm_loop l = Some loop then l
      else \<lparr>lm_loop = Some loop, lm_epoch = Suc (lm_epoch l), lm_semaphores = []\<rparr>)"

definition runner_semaphore :: "string \<Rightarrow> nat \<Rightarrow> limiter \<Rightarrow> limiter" where
  "runner_semaphore name cap l =
     (if dhas (lm_semaphores l) name then l
      else l\<lparr>lm_semaphores := dset (lm_semaphores l) name cap\<rparr>)"

definition set_semaphore :: "string \<Rightarrow> nat \<Rightarrow> limiter \<Rightarrow> limiter" where
  "set_semaphore name v l = l\<lparr>lm_semaphores := dset (lm_semaphores l) name v\<rparr>"

record limited =
  ld_limiter :: limiter
  ld_running :: "string \<Rightarrow> nat \<Rightarrow> nat"

definition bump :: "string \<Rightarrow> nat \<Rightarrow> nat \<Rightarrow> (string \<Rightarrow> nat \<Rightarrow> nat) \<Rightarrow> string \<Rightarrow> nat \<Rightarrow> nat" where
  "bump name e n f = f(name := (f name)(e := n))"

inductive lstep :: "(string \<Rightarrow> nat) \<Rightarrow> limited \<Rightarrow> limited \<Rightarrow> bool" for caps where
  arrive: "0 < caps name \<Longrightarrow> l = runner_semaphore name (caps name) (bind_loop loop (ld_limiter s)) \<Longrightarrow>
     lstep caps s (s\<lparr>ld_limiter := l\<rparr>)"
| acquire: "dget (lm_semaphores (ld_limiter s)) name = Some (Suc v) \<Longrightarrow> e = lm_epoch (ld_limiter s) \<Longrightarrow>
     lstep caps s \<lparr>ld_limiter = set_semaphore name v (ld_limiter s),
       ld_running = bump name e (Suc (ld_running s name e)) (ld_running s)\<rparr>"
| release: "ld_running s name e = Suc n \<Longrightarrow> e = lm_epoch (ld_limiter s) \<Longrightarrow>
     dget (lm_semaphores (ld_limiter s)) name = Some v \<Longrightarrow>
     lstep caps s \<lparr>ld_limiter = set_semaphore name (Suc v) (ld_limiter s), ld_running = bump name e n (ld_running s)\<rparr>"
| release_old: "ld_running s name e = Suc n \<Longrightarrow> e \<noteq> lm_epoch (ld_limiter s) \<Longrightarrow>
     lstep caps s (s\<lparr>ld_running := bump name e n (ld_running s)\<rparr>)"

inductive_cases lstepE: "lstep caps s s'"

subsection \<open>One session\<close>

text \<open>
  The \<open>try\<close> block around a session: only an \<open>Exception\<close> aborts it, and an error of the abort
  replaces the one that caused it.
\<close>

definition session_bracket ::
  "('m \<Rightarrow> 'm \<times> 'h result) \<Rightarrow> ('h \<Rightarrow> 'm \<Rightarrow> 'm \<times> unit result) \<Rightarrow> ('m \<Rightarrow> 'm \<times> 'r result) \<Rightarrow>
     ('m \<Rightarrow> 'm \<times> unit result) \<Rightarrow> 'm \<Rightarrow> 'm \<times> 'r result" where
  "session_bracket create body fin ab m =
     (case create m of
        (m1, Inl e) \<Rightarrow> (m1, Inl e)
      | (m1, Inr h) \<Rightarrow>
          (case (case body h m1 of (m2, Inl e) \<Rightarrow> (m2, Inl e) | (m2, Inr _) \<Rightarrow> fin m2) of
             (m3, Inr r) \<Rightarrow> (m3, Inr r)
           | (m3, Inl e) \<Rightarrow>
               if is_exception e
               then (case ab m3 of (m4, Inl e') \<Rightarrow> (m4, Inl e') | (m4, Inr _) \<Rightarrow> (m4, Inl e))
               else (m3, Inl e)))"

datatype runner_call = RayTask string dict | Inline string

definition runner_call_of :: "string \<Rightarrow> runner_config \<Rightarrow> runner_call" where
  "runner_call_of name c =
     (if rn_dispatch_mode c = ''ray_task'' then RayTask (rn_runner_fqn c) (rn_runner_kwargs c) else Inline name)"

type_synonym runner = "runner_call \<Rightarrow> pv \<Rightarrow> session_handle \<Rightarrow> nat \<Rightarrow> pv option \<Rightarrow> manager \<Rightarrow> manager \<times> unit result"

definition session_id_of :: "nat \<Rightarrow> nat \<Rightarrow> string \<Rightarrow> string" where
  "session_id_of sample_index session_index uuid =
     ''session-sample-'' @ str_of_nat sample_index @ ''-rollout-'' @ str_of_nat session_index @ ''-'' @ uuid"

definition score_session ::
  "rollout_env \<Rightarrow> framework \<Rightarrow> dict \<Rightarrow> trajectory list \<Rightarrow> trajectory list result" where
  "score_session env fw sample_fields ts =
     (if ts = [] then Inr ts
      else
        rbind (score_from_reward_info (re_fparse env) ts) (\<lambda>a.
        rbind (case a of
                 Some as \<Rightarrow> Inr (Some as)
               | None \<Rightarrow> if fw_reward_loop_worker fw
                   then rbind (score_trajectories (re_fparse env) (re_fr env) (re_worker env) ts sample_fields) (\<lambda>as. Inr (Some as))
                   else Inr None) (\<lambda>annotations.
        case annotations of None \<Rightarrow> Inr ts | Some as \<Rightarrow> annotate_all ts as)))"

definition run_session ::
  "rollout_env \<Rightarrow> framework \<Rightarrow> runner \<Rightarrow> rat \<Rightarrow> string \<Rightarrow> dict \<Rightarrow> nat \<Rightarrow> nat \<Rightarrow> string \<Rightarrow> runner_config \<Rightarrow> dict \<Rightarrow>
     manager \<Rightarrow> manager \<times> (trajectory list \<times> dict) result" where
  "run_session env fw runner now uuid sample_fields sample_index session_index name c sampling_params m =
     (let sid = session_id_of sample_index session_index uuid in
      case dict_item sample_fields ''raw_prompt'' of
        Inl e \<Rightarrow> (m, Inl e)
      | Inr raw_prompt \<Rightarrow>
          (let tools = get_none sample_fields ''tools_kwargs'';
               tools_kwargs = (if tools = PNone then None else Some tools) in
           case session_bracket (manager_create_session now sid (Some sampling_params))
                  (\<lambda>h. runner (runner_call_of name c) raw_prompt h sample_index tools_kwargs)
                  (manager_finalize_session now sid) (manager_abort_session now sid) m of
             (m', Inl e) \<Rightarrow> (m', Inl e)
           | (m', Inr ts) \<Rightarrow>
               (m', rbind (score_session env fw sample_fields
                             (select_session_trajectories ts (rn_trajectory_selection c)))
                      (\<lambda>ts'. Inr (ts', sample_fields)))))"

subsection \<open>Logs of a session\<close>

definition model_tokens :: "trajectory \<Rightarrow> int" where
  "model_tokens t = sum_list (tr_response_mask t)"

definition score_pv :: "rat option \<Rightarrow> pv" where
  "score_pv s = (case s of None \<Rightarrow> PNone | Some r \<Rightarrow> PFloat r)"

definition summary_line :: "(rat \<Rightarrow> string) \<Rightarrow> nat \<Rightarrow> trajectory \<Rightarrow> string" where
  "summary_line fr i t =
     (let reason = get_none (tr_extra_fields t) ''materialization_reason'';
          yes_no = (\<lambda>b. if b then ''yes'' else ''no'') in
      ''  ['' @ str_of_nat i @ ''] turns='' @ str_of_nat (tr_num_turns t) @
      '' prompt_tokens='' @ str_of_nat (length (tr_prompt_ids t)) @
      '' response_tokens='' @ str_of_nat (length (tr_response_ids t)) @
      '' model_tokens='' @ str_of_int (model_tokens t) @
      '' finished='' @ py_str fr (get_none (tr_reward_info t) ''finished'') @
      '' logprobs='' @ yes_no (tr_response_logprobs t \<noteq> None \<and> tr_response_logprobs t \<noteq> Some []) @
      '' experts='' @ yes_no (tr_routed_experts t \<noteq> None) @
      '' reward_score='' @ py_str fr (score_pv (tr_reward_score t)) @
      '' reward_info='' @ py_str fr (PDict (tr_reward_info t)) @
      (if truthy reason then '' materialization_reason='' @ py_str fr reason else []))"

definition log_trajectory_summary :: "(rat \<Rightarrow> string) \<Rightarrow> string \<Rightarrow> trajectory list \<Rightarrow> string" where
  "log_trajectory_summary fr sid ts =
     join nl ((''session '' @ sid @ '': '' @ str_of_nat (length ts) @ '' trajectory(ies)'') #
              map (\<lambda>(i, t). summary_line fr i t) (List.enumerate 0 ts))"

definition trajectory_meta :: "trajectory \<Rightarrow> dict" where
  "trajectory_meta t =
     [(''num_turns'', PInt (int (tr_num_turns t))),
      (''finished'', get_none (tr_reward_info t) ''finished''),
      (''reward_score'', score_pv (tr_reward_score t)),
      (''reward_info'', PDict (tr_reward_info t)),
      (''reward_extra_info'', get_none (tr_extra_fields t) ''reward_extra_info''),
      (''materialization_reason'', get_none (tr_extra_fields t) ''materialization_reason''),
      (''prompt_len'', PInt (int (length (tr_prompt_ids t)))),
      (''response_len'', PInt (int (length (tr_response_ids t)))),
      (''model_token_count'', PInt (model_tokens t)),
      (''has_routed_experts'', PBool (tr_routed_experts t \<noteq> None)),
      (''has_logprobs'', PBool (tr_response_logprobs t \<noteq> None))]"

subsection \<open>Writing a session's trajectories\<close>

definition tq_key :: "string \<Rightarrow> nat \<Rightarrow> nat \<Rightarrow> string" where
  "tq_key uid session_index index = uid @ ''_'' @ str_of_nat session_index @ ''_'' @ str_of_nat index"

text \<open>A writer returns the operations that took effect, in order, with its outcome.\<close>

definition tq_put :: "rollout_env \<Rightarrow> tq_op \<Rightarrow> tq_op list \<times> unit result" where
  "tq_put env x = (case re_put env x of Inl e \<Rightarrow> ([], Inl e) | Inr _ \<Rightarrow> ([x], Inr ()))"

definition write_session_trajectories_to_tq ::
  "rollout_env \<Rightarrow> framework \<Rightarrow> string \<Rightarrow> nat \<Rightarrow> trajectory list \<Rightarrow> dict \<Rightarrow> int option \<Rightarrow> string \<Rightarrow>
     tq_op list \<times> unit result" where
  "write_session_trajectories_to_tq env fw uid session_index ts sample_fields global_steps partition_id =
     (case rmap (trajectory_to_tq_field_and_tag (re_f32 env) (fw_processor fw) (fw_mask_unfinished_episode fw)
                   sample_fields session_index global_steps uid) ts of
        Inl e \<Rightarrow> ([], Inl e)
      | Inr rows \<Rightarrow>
          (case list_of_tq_fields_to_tensordict (map fst rows) of
             Inl e \<Rightarrow> ([], Inl e)
           | Inr td \<Rightarrow>
               tq_put env (KvBatchPut (map (tq_key uid session_index) [0..<length ts]) td (map snd rows) partition_id)))"

subsection \<open>The sessions of one prompt\<close>

record stats =
  st_success_sessions :: nat
  st_failed_sessions :: nat
  st_success_outputs :: nat
  st_unfinished_episodes :: nat
  st_failed_uids :: nat
  st_failure_reasons :: "string list"

definition no_stats :: stats where
  "no_stats = \<lparr>st_success_sessions = 0, st_failed_sessions = 0, st_success_outputs = 0,
     st_unfinished_episodes = 0, st_failed_uids = 0, st_failure_reasons = []\<rparr>"

definition failed_session :: "string \<Rightarrow> stats \<Rightarrow> stats" where
  "failed_session reason st = st\<lparr>st_failed_sessions := st_failed_sessions st + 1,
     st_failure_reasons := st_failure_reasons st @ [reason]\<rparr>"

definition is_unfinished :: "trajectory \<Rightarrow> bool" where
  "is_unfinished t \<longleftrightarrow> get_none (tr_reward_info t) ''finished'' = PBool False"

definition written_session :: "trajectory list \<Rightarrow> stats \<Rightarrow> stats" where
  "written_session ts st = st\<lparr>st_success_sessions := st_success_sessions st + 1,
     st_success_outputs := st_success_outputs st + length ts,
     st_unfinished_episodes := st_unfinished_episodes st + (if list_ex is_unfinished ts then 1 else 0)\<rparr>"

type_synonym outcome = "(trajectory list \<times> dict) result"

definition absorb_outcome ::
  "rollout_env \<Rightarrow> framework \<Rightarrow> string \<Rightarrow> int option \<Rightarrow> string \<Rightarrow> nat \<Rightarrow> outcome \<Rightarrow> stats \<Rightarrow> tq_op list \<times> stats result" where
  "absorb_outcome env fw uid global_steps partition_id i outcome st =
     (case outcome of
        Inl e \<Rightarrow> ([], if is_exception e then Inr (failed_session (short_failure_reason e) st) else Inl e)
      | Inr (ts, flds) \<Rightarrow>
          if ts = []
          then ([], Inr (failed_session (''empty trajectories for uid='' @ uid @ '' session_index='' @ str_of_nat i) st))
          else
            (case write_session_trajectories_to_tq env fw uid i ts flds global_steps partition_id of
               (ops, Inr _) \<Rightarrow> (ops, Inr (written_session ts st))
             | (ops, Inl e) \<Rightarrow>
                 (ops, if is_exception e then Inr (failed_session (''TQ write error: '' @ exn_str e) st) else Inl e)))"

fun absorb_outcomes ::
  "rollout_env \<Rightarrow> framework \<Rightarrow> string \<Rightarrow> int option \<Rightarrow> string \<Rightarrow> nat \<Rightarrow> outcome list \<Rightarrow> stats \<Rightarrow>
     tq_op list \<times> stats result" where
  "absorb_outcomes env fw uid g partition_id i [] st = ([], Inr st)"
| "absorb_outcomes env fw uid g partition_id i (out # outs) st =
     (case absorb_outcome env fw uid g partition_id i out st of
        (ops, Inl e) \<Rightarrow> (ops, Inl e)
      | (ops, Inr st') \<Rightarrow>
          (case absorb_outcomes env fw uid g partition_id (Suc i) outs st' of (ops', r) \<Rightarrow> (ops @ ops', r)))"

definition status_put :: "string \<Rightarrow> string \<Rightarrow> nat \<Rightarrow> tq_op" where
  "status_put uid partition_id successes =
     KvPut uid partition_id [(''status'', PStr (if 0 < successes then ''finished'' else ''failure''))]"

text \<open>\<open>sessions\<close> are the racing coroutines: sampling defaults and rollout index to outcome.\<close>

definition run_prompt_sessions_to_tq ::
  "rollout_env \<Rightarrow> framework \<Rightarrow> (dict \<Rightarrow> nat \<Rightarrow> outcome) \<Rightarrow> dict \<Rightarrow> int option \<Rightarrow> string \<Rightarrow> nat \<Rightarrow>
     tq_op list \<times> stats result" where
  "run_prompt_sessions_to_tq env fw sessions sample_fields global_steps partition_id num_sessions =
     (case get_none sample_fields ''uid'' of
        PNone \<Rightarrow> ([], Inl (ValueError
          (''OpenAICompatibleAgentFramework requires prompts['' @ repr_str ''uid'' @ ''] for TransferQueue output'')))
      | v \<Rightarrow>
          (let uid = py_str (re_fr env) v in
           case fw_rollout_config fw of
             None \<Rightarrow> ([], Inl (attribute_error PNone ''temperature''))
           | Some c \<Rightarrow>
               (let sampling = build_session_sampling_params c partition_id sample_fields in
                case absorb_outcomes env fw uid global_steps partition_id 0
                       (map (sessions sampling) [0..<num_sessions]) no_stats of
                  (ops, Inl e) \<Rightarrow> (ops, Inl e)
                | (ops, Inr st) \<Rightarrow>
                    (case tq_put env (status_put uid partition_id (st_success_sessions st)) of
                       (ops', Inl e) \<Rightarrow> (ops @ ops', Inl e)
                     | (ops', Inr _) \<Rightarrow>
                         (ops @ ops', Inr (st\<lparr>st_failed_uids := (if 0 < st_success_sessions st then 0 else 1)\<rparr>))))))"

subsection \<open>The prompts of a batch\<close>

record batch_stats =
  bs_num_input_prompts :: nat
  bs_stats :: stats

definition add_stats :: "stats \<Rightarrow> stats \<Rightarrow> stats" where
  "add_stats a b = \<lparr>st_success_sessions = st_success_sessions a + st_success_sessions b,
     st_failed_sessions = st_failed_sessions a + st_failed_sessions b,
     st_success_outputs = st_success_outputs a + st_success_outputs b,
     st_unfinished_episodes = st_unfinished_episodes a + st_unfinished_episodes b,
     st_failed_uids = st_failed_uids a + st_failed_uids b,
     st_failure_reasons = st_failure_reasons a @ st_failure_reasons b\<rparr>"

definition absorb_prompt :: "nat \<Rightarrow> stats \<Rightarrow> stats result \<Rightarrow> stats result" where
  "absorb_prompt num_sessions st outcome =
     (case outcome of
        Inl e \<Rightarrow>
          if is_exception e
          then Inr (add_stats st (no_stats\<lparr>st_failed_sessions := num_sessions, st_failed_uids := 1,
                 st_failure_reasons := [short_failure_reason e]\<rparr>))
          else Inl e
      | Inr p \<Rightarrow> Inr (add_stats st p))"

record prompt_batch =
  pb_len :: nat
  pb_columns :: "(string \<times> prompt_column) list"

text \<open>The operations of the prompts are logged prompt by prompt; at run time they interleave.\<close>

definition run_batch_to_tq ::
  "rollout_env \<Rightarrow> framework \<Rightarrow> (nat \<Rightarrow> dict \<Rightarrow> nat \<Rightarrow> outcome) \<Rightarrow> prompt_batch \<Rightarrow> int option \<Rightarrow> string \<Rightarrow> int \<Rightarrow>
     tq_op list \<times> batch_stats result" where
  "run_batch_to_tq env fw sessions prompts global_steps partition_id num_sessions =
     (if pb_len prompts = 0 then ([], Inl (AssertionError ''generate_sequences requires a non-empty batch''))
      else if num_sessions \<le> 0
      then ([], Inl (ValueError (''num_sessions must be positive, got '' @ str_of_int num_sessions)))
      else
        (case rmap (extract_sample_fields (pb_columns prompts)) [0..<pb_len prompts] of
           Inl e \<Rightarrow> ([], Inl e)
         | Inr samples \<Rightarrow>
             (let outs = map (\<lambda>(i, flds). run_prompt_sessions_to_tq env fw (sessions i) flds global_steps
                            partition_id (nat num_sessions)) (List.enumerate 0 samples)
              in (concat (map fst outs),
                  rbind (rfold (absorb_prompt (nat num_sessions)) no_stats (map snd outs)) (\<lambda>st.
                    Inr \<lparr>bs_num_input_prompts = pb_len prompts, bs_stats = st\<rparr>)))))"

definition num_sessions_of :: "rollout_config \<Rightarrow> bool \<Rightarrow> int result" where
  "num_sessions_of c is_validate = py_int (if is_validate then rc_val_n c else rc_n c)"

text \<open>\<open>validate\<close>, \<open>global_steps\<close> and \<open>uid\<close> are looked up among the columns of the batch.\<close>

definition shared_value :: "prompt_batch \<Rightarrow> string \<Rightarrow> pv" where
  "shared_value prompts k =
     (case dget (pb_columns prompts) k of Some (Shared v) \<Rightarrow> v | Some (Scalar v) \<Rightarrow> v | _ \<Rightarrow> PNone)"

definition generate_sequences ::
  "rollout_env \<Rightarrow> framework \<Rightarrow> (nat \<Rightarrow> dict \<Rightarrow> nat \<Rightarrow> outcome) \<Rightarrow> prompt_batch \<Rightarrow> int option \<Rightarrow> tq_op list \<times> unit result" where
  "generate_sequences env fw sessions prompts global_steps =
     (case fw_rollout_config fw of
        None \<Rightarrow> ([], Inl (RuntimeError ''OpenAICompatibleAgentFramework requires rollout_config for generate_sequences''))
      | Some c \<Rightarrow>
          (let is_validate = truthy (shared_value prompts ''validate'') in
           if global_steps = None \<and> \<not> is_validate
           then ([], Inl (ValueError (''OpenAICompatibleAgentFramework requires prompts['' @ repr_str ''global_steps'' @ ''] for training'')))
           else
             (case num_sessions_of c is_validate of
                Inl e \<Rightarrow> ([], Inl e)
              | Inr n \<Rightarrow>
                  if \<not> dhas (pb_columns prompts) ''uid''
                  then ([], Inl (ValueError (''OpenAICompatibleAgentFramework requires prompts['' @ repr_str ''uid'' @ ''] for TransferQueue output'')))
                  else
                    (case run_batch_to_tq env fw sessions prompts global_steps
                            (if is_validate then ''val'' else ''train'') n of
                       (ops, Inl e) \<Rightarrow> (ops, Inl e)
                     | (ops, Inr b) \<Rightarrow>
                         (ops, if st_success_outputs (bs_stats b) = 0
                               then Inl (RuntimeError (''All rollouts failed at global_steps='' @
                                      py_str (re_fr env) (step_pv global_steps) @ ''. failures='' @
                                      str_of_nat (st_failed_uids (bs_stats b)) @ ''/'' @
                                      str_of_nat (bs_num_input_prompts b)))
                               else Inr ())))))"

end
