(* ===== verification/RolloutProps.thy ===== *)
theory RolloutProps
  imports Rollout
begin

text \<open>
  Properties of the agent framework: the accounting of a prompt and of a batch, the concurrency
  limit, the release of every session, the retention and scoring of trajectories, and the shape of
  the training columns.
\<close>

subsection \<open>Keys of the TransferQueue\<close>

lemma digit_char_val: "d < 10 \<Longrightarrow> of_char (digit_char d) = 48 + (d :: nat)"
  by (simp add: digit_char_def)

lemma str_of_nat_digits: "c \<in> set (str_of_nat n) \<Longrightarrow> 48 \<le> (of_char c :: nat) \<and> (of_char c :: nat) \<le> 57"
proof (induction n rule: str_of_nat.induct)
  case (1 n)
  show ?case
  proof (cases "n < 10")
    case True
    then show ?thesis using 1(2) by (subst (asm) str_of_nat.simps) (simp add: digit_char_val)
  next
    case False
    with 1(2) have "c \<in> set (str_of_nat (n div 10)) \<or> c = digit_char (n mod 10)"
      by (subst (asm) str_of_nat.simps) auto
    then show ?thesis using 1(1) [OF False] digit_char_val [of "n mod 10"] by auto
  qed
qed

fun nat_of_str :: "string \<Rightarrow> nat" where
  "nat_of_str [] = 0"
| "nat_of_str (c # cs) = (of_char c - 48) * 10 ^ length cs + nat_of_str cs"

lemma nat_of_str_snoc: "nat_of_str (xs @ [c]) = 10 * nat_of_str xs + (of_char c - 48)"
  by (induction xs) (auto simp: algebra_simps)

lemma nat_of_str_of_nat [simp]: "nat_of_str (str_of_nat n) = n"
proof (induction n rule: str_of_nat.induct)
  case (1 n)
  show ?case
  proof (cases "n < 10")
    case True
    then show ?thesis by (subst str_of_nat.simps) (simp add: digit_char_val)
  next
    case False
    then have "nat_of_str (str_of_nat n) = 10 * (n div 10) + n mod 10"
      using 1 [OF False] by (subst str_of_nat.simps) (simp add: nat_of_str_snoc digit_char_val)
    then show ?thesis by simp
  qed
qed

lemma str_of_nat_inj: "str_of_nat m = str_of_nat n \<longleftrightarrow> m = n"
  by (metis nat_of_str_of_nat)

lemma no_underscore: "CHR ''_'' \<notin> set (str_of_nat n)"
proof
  assume "CHR ''_'' \<in> set (str_of_nat n)"
  from str_of_nat_digits [OF this] show False by simp
qed

lemma last_separator:
  assumes "a @ c # x = b @ c # y" "c \<notin> set x" "c \<notin> set y"
  shows "a = b \<and> x = y"
proof -
  have e: "rev x @ c # rev a = rev y @ c # rev b" using arg_cong [OF assms(1), of rev] by simp
  have "takeWhile (\<lambda>z. z \<noteq> c) (rev x @ c # rev a) = rev x" "takeWhile (\<lambda>z. z \<noteq> c) (rev y @ c # rev b) = rev y"
    using assms(2,3) by (simp_all add: takeWhile_append)
  with e have "rev x = rev y" by simp
  with e show ?thesis by simp
qed

lemma tq_key_inj: "tq_key u i j = tq_key u' i' j' \<longleftrightarrow> u = u' \<and> i = i' \<and> j = j'"
proof
  assume "tq_key u i j = tq_key u' i' j'"
  then have "(u @ ''_'' @ str_of_nat i) @ CHR ''_'' # str_of_nat j =
      (u' @ ''_'' @ str_of_nat i') @ CHR ''_'' # str_of_nat j'" by (simp add: tq_key_def)
  from last_separator [OF this no_underscore no_underscore]
  have e: "u @ ''_'' @ str_of_nat i = u' @ ''_'' @ str_of_nat i'" "j = j'" by (simp_all add: str_of_nat_inj)
  from e(1) have "u @ CHR ''_'' # str_of_nat i = u' @ CHR ''_'' # str_of_nat i'" by simp
  from last_separator [OF this no_underscore no_underscore] e(2)
  show "u = u' \<and> i = i' \<and> j = j'" by (simp add: str_of_nat_inj)
qed simp

subsection \<open>Accounting of a prompt\<close>

fun batch_keys :: "tq_op \<Rightarrow> string list" where
  "batch_keys (KvBatchPut ks td tags p) = ks"
| "batch_keys (KvPut k p tag) = []"

fun status_of :: "tq_op \<Rightarrow> (string \<times> dict) list" where
  "status_of (KvPut k p tag) = [(k, tag)]"
| "status_of (KvBatchPut ks td tags p) = []"

definition written_keys :: "tq_op list \<Rightarrow> string list" where
  "written_keys ops = concat (map batch_keys ops)"

definition statuses :: "tq_op list \<Rightarrow> (string \<times> dict) list" where
  "statuses ops = concat (map status_of ops)"

lemma written_keys_append [simp]: "written_keys (a @ b) = written_keys a @ written_keys b" "written_keys [] = []"
  by (simp_all add: written_keys_def)

lemma statuses_append [simp]: "statuses (a @ b) = statuses a @ statuses b" "statuses [] = []"
  by (simp_all add: statuses_def)

lemma tq_put_run: "tq_put env x = (case re_put env x of Inl e \<Rightarrow> ([], Inl e) | Inr _ \<Rightarrow> ([x], Inr ()))"
  by (simp add: tq_put_def)

lemma write_keys:
  assumes "write_session_trajectories_to_tq env fw uid i ts sf g p = (ops, r)"
  shows "statuses ops = []"
    "written_keys ops = (case r of Inl _ \<Rightarrow> [] | Inr _ \<Rightarrow> map (tq_key uid i) [0..<length ts])"
  using assms
  by (auto simp: write_session_trajectories_to_tq_def tq_put_run statuses_def written_keys_def split: sum.splits)

text \<open>What one outcome adds: one session, and its keys when it was written.\<close>

definition keys_of_session :: "string \<Rightarrow> nat \<Rightarrow> string list \<Rightarrow> bool" where
  "keys_of_session uid i ks \<longleftrightarrow> (\<exists>n. ks = map (tq_key uid i) [0..<n])"

definition counted :: "stats \<Rightarrow> nat" where
  "counted st = st_success_sessions st + st_failed_sessions st"

lemma absorb_outcome_step:
  assumes "absorb_outcome env fw uid g p i out st = (ops, Inr st')"
  shows "counted st' = Suc (counted st)" "statuses ops = []" "keys_of_session uid i (written_keys ops)"
    "st_success_outputs st' = st_success_outputs st + length (written_keys ops)"
    "st_failed_uids st' = st_failed_uids st"
    "st_success_sessions st' = st_success_sessions st + (if written_keys ops = [] then 0 else 1)"
proof -
  have ks: "keys_of_session uid i []" "keys_of_session uid i (map (tq_key uid i) [0..<n])" for n
    by (auto simp: keys_of_session_def intro: exI [of _ "0::nat"])
  consider (failed) reason where "st' = failed_session reason st" "statuses ops = []" "written_keys ops = []"
    | (ok) ts where "st' = written_session ts st" "statuses ops = []"
        "written_keys ops = map (tq_key uid i) [0..<length ts]" "ts \<noteq> []"
  proof (cases out)
    case (Inl e)
    then show ?thesis using assms by (auto simp: absorb_outcome_def split: if_splits intro: failed)
  next
    case (Inr x)
    obtain ts flds where x: "x = (ts, flds)" by (cases x)
    obtain os r where w: "write_session_trajectories_to_tq env fw uid i ts flds g p = (os, r)" by (rule prod.exhaust)
    show ?thesis using assms write_keys [OF w]
      by (cases r; cases "ts = []")
        (auto simp: absorb_outcome_def Inr x w split: if_splits intro: failed ok)
  qed
  note step = this
  show "counted st' = Suc (counted st)" "statuses ops = []" "keys_of_session uid i (written_keys ops)"
    "st_success_outputs st' = st_success_outputs st + length (written_keys ops)"
    "st_failed_uids st' = st_failed_uids st"
    "st_success_sessions st' = st_success_sessions st + (if written_keys ops = [] then 0 else 1)"
    by (rule step; simp add: ks counted_def failed_session_def written_session_def)+
qed

lemma absorb_outcomes_run:
  assumes "absorb_outcomes env fw uid g p i outs st = (ops, Inr st')"
  shows "counted st' = counted st + length outs \<and> statuses ops = [] \<and>
    st_success_outputs st' = st_success_outputs st + length (written_keys ops) \<and>
    st_failed_uids st' = st_failed_uids st \<and>
    (st_success_sessions st' = st_success_sessions st \<longleftrightarrow> written_keys ops = []) \<and>
    st_success_sessions st \<le> st_success_sessions st' \<and>
    distinct (written_keys ops) \<and> (\<forall>k \<in> set (written_keys ops). \<exists>j n. k = tq_key uid j n \<and> i \<le> j \<and> j < i + length outs)"
  using assms
proof (induction outs arbitrary: i st ops)
  case Nil
  then show ?case by simp
next
  case (Cons out outs)
  from Cons.prems obtain o1 s1 o2 where a: "absorb_outcome env fw uid g p i out st = (o1, Inr s1)"
    and b: "absorb_outcomes env fw uid g p (Suc i) outs s1 = (o2, Inr st')" and ops: "ops = o1 @ o2"
    by (auto split: prod.splits sum.splits)
  note A = absorb_outcome_step [OF a] and B = Cons.IH [OF b]
  from A(3) obtain n where k: "written_keys o1 = map (tq_key uid i) [0..<n]" by (auto simp: keys_of_session_def)
  have "distinct (written_keys o1)" by (simp add: k distinct_map inj_on_def tq_key_inj)
  moreover have "set (written_keys o1) \<inter> set (written_keys o2) = {}"
    using B by (fastforce simp: k tq_key_inj)
  ultimately have "distinct (written_keys ops)" using B ops by simp
  moreover have "\<forall>k \<in> set (written_keys ops). \<exists>j n. k = tq_key uid j n \<and> i \<le> j \<and> j < i + length (out # outs)"
    using B ops by (fastforce simp: k)
  ultimately show ?case using A B ops by (auto split: if_splits)
qed

lemma run_prompt_run:
  assumes "run_prompt_sessions_to_tq env fw sessions sf g p n = (ops, Inr st)"
  obtains uid outs ops1 st1 where "absorb_outcomes env fw uid g p 0 outs no_stats = (ops1, Inr st1)"
    "length outs = n" "ops = ops1 @ [status_put uid p (st_success_sessions st1)]"
    "st = st1\<lparr>st_failed_uids := (if 0 < st_success_sessions st1 then 0 else 1)\<rparr>"
  using assms
  by (fastforce simp: run_prompt_sessions_to_tq_def tq_put_run Let_def
      split: pv.splits option.splits prod.splits sum.splits)


subsection \<open>Accounting of a batch\<close>

definition prompt_ok :: "nat \<Rightarrow> tq_op list \<times> stats result \<Rightarrow> bool" where
  "prompt_ok n out = (case out of (ops, Inl e) \<Rightarrow> True
     | (ops, Inr st) \<Rightarrow> counted st = n \<and> st_failed_uids st \<le> 1 \<and>
         st_success_outputs st = length (written_keys ops))"

lemma run_prompt_ok: "prompt_ok n (run_prompt_sessions_to_tq env fw sessions sf g p n)"
proof -
  obtain ops r where run: "run_prompt_sessions_to_tq env fw sessions sf g p n = (ops, r)" by (rule prod.exhaust)
  have "counted st = n \<and> st_failed_uids st \<le> 1 \<and> st_success_outputs st = length (written_keys ops)"
    if "r = Inr st" for st
  proof -
    from run that have "run_prompt_sessions_to_tq env fw sessions sf g p n = (ops, Inr st)" by simp
    from run_prompt_run [OF this] obtain uid outs ops1 st1 where
      u: "absorb_outcomes env fw uid g p 0 outs no_stats = (ops1, Inr st1)" and l: "length outs = n"
      and ops: "ops = ops1 @ [status_put uid p (st_success_sessions st1)]"
      and st: "st = st1\<lparr>st_failed_uids := (if 0 < st_success_sessions st1 then 0 else 1)\<rparr>" .
    show ?thesis using absorb_outcomes_run [OF u]
      by (simp add: ops st l counted_def no_stats_def written_keys_def status_put_def)
  qed
  with run show ?thesis by (auto simp: prompt_ok_def split: sum.splits)
qed

lemma absorb_prompts_run:
  assumes "rfold (absorb_prompt n) st (map snd outs) = Inr st'" "\<forall>x \<in> set outs. prompt_ok n x"
  shows "counted st' = counted st + length outs * n \<and> st_failed_uids st' \<le> st_failed_uids st + length outs \<and>
    st_success_outputs st' \<le> st_success_outputs st + length (written_keys (concat (map fst outs)))"
  using assms
proof (induction outs arbitrary: st)
  case Nil
  then show ?case by simp
next
  case (Cons x outs)
  from Cons.prems(1) obtain st1 where a: "absorb_prompt n st (snd x) = Inr st1"
    and b: "rfold (absorb_prompt n) st1 (map snd outs) = Inr st'" by (auto simp: err_simps)
  from Cons.IH [OF b] Cons.prems(2) have IH: "counted st' = counted st1 + length outs * n"
    "st_failed_uids st' \<le> st_failed_uids st1 + length outs"
    "st_success_outputs st' \<le> st_success_outputs st1 + length (written_keys (concat (map fst outs)))" by simp_all
  obtain ops r where x: "x = (ops, r)" by (cases x)
  have "counted st1 = counted st + n \<and> st_failed_uids st1 \<le> st_failed_uids st + 1 \<and>
      st_success_outputs st1 \<le> st_success_outputs st + length (written_keys ops)"
    using a Cons.prems(2)
    by (auto simp: x absorb_prompt_def prompt_ok_def add_stats_def counted_def no_stats_def
        split: sum.splits if_splits)
  with IH show ?case by (simp add: x)
qed

text \<open>
  a batch is accounted for prompt by prompt.  When the batch returns, every one of the
  prompts times rollouts sessions is counted once as success or failure, even those of a prompt
  whose task raised; at most one uid per prompt counts as failed; and every output counted was
  written, so that a call of \<open>generate_sequences\<close> that returns has stored at least one trajectory.
\<close>

theorem batch_accounting:
  "(\<forall>ops b. run_batch_to_tq env fw sessions prompts g p n = (ops, Inr b) \<longrightarrow>
      bs_num_input_prompts b = pb_len prompts \<and>
      int (st_success_sessions (bs_stats b) + st_failed_sessions (bs_stats b)) = int (pb_len prompts) * n \<and>
      st_failed_uids (bs_stats b) \<le> pb_len prompts \<and>
      st_success_outputs (bs_stats b) \<le> length (written_keys ops)) \<and>
   (\<forall>ops. generate_sequences env fw sessions prompts g = (ops, Inr ()) \<longrightarrow> written_keys ops \<noteq> [])"
proof -
  have batch: "bs_num_input_prompts b = pb_len prompts \<and>
      int (st_success_sessions (bs_stats b) + st_failed_sessions (bs_stats b)) = int (pb_len prompts) * n \<and>
      st_failed_uids (bs_stats b) \<le> pb_len prompts \<and>
      st_success_outputs (bs_stats b) \<le> length (written_keys ops)"
    if run: "run_batch_to_tq env fw sessions prompts g p n = (ops, Inr b)" for ops b p n
  proof -
    define run1 where "run1 = (\<lambda>(i, flds). run_prompt_sessions_to_tq env fw (sessions i) flds g p (nat n))"
    from run obtain samples st where s: "rmap (extract_sample_fields (pb_columns prompts)) [0..<pb_len prompts] = Inr samples"
      and f: "rfold (absorb_prompt (nat n)) no_stats (map snd (map run1 (List.enumerate 0 samples))) = Inr st"
      and ops: "ops = concat (map fst (map run1 (List.enumerate 0 samples)))"
      and b: "b = \<lparr>bs_num_input_prompts = pb_len prompts, bs_stats = st\<rparr>" and n: "0 < n"
      by (auto simp: run_batch_to_tq_def Let_def run1_def err_simps split: if_splits sum.splits)
    have "length samples = pb_len prompts" using rmap_length [OF s] by simp
    moreover have "\<forall>x \<in> set (map run1 (List.enumerate 0 samples)). prompt_ok (nat n) x"
      by (auto simp: run1_def run_prompt_ok)
    note absorb_prompts_run [OF f this]
    ultimately show ?thesis using n
      by (simp add: b ops counted_def no_stats_def of_nat_mult flip: of_nat_add)
  qed
  moreover have "written_keys ops \<noteq> []" if "generate_sequences env fw sessions prompts g = (ops, Inr ())" for ops
  proof -
    from that obtain p n b where "run_batch_to_tq env fw sessions prompts g p n = (ops, Inr b)"
      and "st_success_outputs (bs_stats b) \<noteq> 0"
      by (auto simp: generate_sequences_def Let_def split: option.splits if_splits sum.splits prod.splits)
    from batch [OF this(1)] this(2) show ?thesis by auto
  qed
  ultimately show ?thesis by blast
qed

end
