(* ===== verification/FieldProps.thy ===== *)
theory FieldProps
  imports RolloutProps
begin

text \<open>
  Properties of what the framework keeps of a session and hands to training: the retained
  trajectory, the broadcast of the reward, and the fields of a trajectory.
\<close>

subsection \<open>Retention\<close>

lemma nth_enumerate0: "j < length ts \<Longrightarrow> List.enumerate 0 ts ! j = (j, ts ! j)"
  by (simp add: nth_enumerate_eq)

text \<open>
  the policy \<open>longest\<close> keeps one trajectory: one with the most trained tokens, among those
  with the most response tokens, then the most turns, and of equal ones the last.
\<close>

theorem longest_is_best:
  assumes "ts \<noteq> []" "selection \<noteq> ''all''"
  shows "\<exists>k < length ts. select_session_trajectories ts selection = [ts ! k] \<and>
    (\<forall>j < length ts. trajectory_rank (ts ! j) \<le> trajectory_rank (ts ! k)) \<and>
    (\<forall>j < length ts. k < j \<longrightarrow> trajectory_rank (ts ! j) < trajectory_rank (ts ! k))"
proof -
  obtain x xs where e: "List.enumerate 0 ts = x # xs"
    using assms(1) by (cases ts) simp_all
  let ?m = "max_key rank_key x xs"
  have "?m \<in> set (List.enumerate 0 ts)" using max_key_in [of rank_key x xs] e by simp
  then obtain k where k: "k < length ts" "?m = (k, ts ! k)"
    by (auto simp: in_set_enumerate_eq)
  have le: "rank_key (j, ts ! j) \<le> rank_key (k, ts ! k)" if "j < length ts" for j
  proof -
    have "(j, ts ! j) \<in> insert x (set xs)" using that nth_enumerate0 [OF that] e
      by (metis length_enumerate list.simps(15) nth_mem)
    from max_key_ge [OF this, of rank_key] show ?thesis by (simp add: k(2))
  qed
  have "select_session_trajectories ts selection = [ts ! k]"
  proof (cases xs)
    case Nil
    then have "length ts = 1" using e by (metis length_enumerate length_Cons list.size(3) One_nat_def)
    then obtain t where "ts = [t]" by (cases ts) auto
    with k(1) assms(2) show ?thesis by (simp add: select_session_trajectories_def)
  next
    case (Cons y ys)
    then show ?thesis using assms(2) e k(2) by (simp add: select_session_trajectories_def)
  qed
  moreover have "trajectory_rank (ts ! j) \<le> trajectory_rank (ts ! k)" if "j < length ts" for j
    using le [OF that] by (auto simp: rank_key_def intro: less_imp_le)
  moreover have "trajectory_rank (ts ! j) < trajectory_rank (ts ! k)" if "j < length ts" "k < j" for j
    using le [OF that(1)] that(2) by (auto simp: rank_key_def)
  ultimately show ?thesis using k(1) by blast
qed

definition demo_traj :: "int list \<Rightarrow> dict \<Rightarrow> trajectory" where
  "demo_traj ids info = \<lparr>tr_prompt_ids = [1, 2], tr_response_ids = ids, tr_response_mask = map (\<lambda>_. 1) ids,
     tr_response_logprobs = None, tr_reward_info = info, tr_reward_score = None, tr_num_turns = 2,
     tr_routed_experts = None, tr_multi_modal_data = None, tr_extra_fields = []\<rparr>"

lemma longest_is_best_witness:
  "select_session_trajectories [demo_traj [7, 8] [], demo_traj [9] []] ''longest'' = [demo_traj [7, 8] []]"
proof -
  let ?ts = "[demo_traj [7, 8] [], demo_traj [9] []]"
  from longest_is_best [of ?ts "''longest''"] obtain k where k: "k < 2" "select_session_trajectories ?ts ''longest'' = [?ts ! k]"
    "\<forall>j < 2. trajectory_rank (?ts ! j) \<le> trajectory_rank (?ts ! k)" by (auto simp: numeral_2_eq_2)
  from k(3) [rule_format, of 0] have "k \<noteq> 1" by (auto simp: demo_traj_def trajectory_rank_def)
  with k(1) have "k = 0" by simp
  with k(2) show ?thesis by simp
qed

subsection \<open>Training fields\<close>

definition ints :: "int list \<Rightarrow> tensor" where
  "ints xs = \<lparr>tn_dtype = Int64, tn_shape = [length xs], tn_data = map of_int xs\<rparr>"

lemma long_vec_Inr: "long_vec xs = Inr t \<longleftrightarrow> list_all fits_int64 xs \<and> t = ints xs"
  by (auto simp: long_vec_def ints_def)

lemma cat_ints [simp]: "cat_vec (ints a) (ints b) = ints (a @ b)"
  by (simp add: cat_vec_def ints_def)

lemma filled_ints [simp]: "filled_like 1 Int64 (ints a) = ints (replicate (length a) 1)"
  "filled_like 0 Int64 (ints a) = ints (replicate (length a) 0)"
  by (simp_all add: filled_like_def ints_def map_replicate_const)

lemma cumsum_ones: "cumsum acc (replicate n 1) = map (\<lambda>i. acc + 1 + int i) [0..<n]"
proof (induction n arbitrary: acc)
  case (Suc n)
  have "[0..<Suc n] = 0 # map Suc [0..<n]" by (simp add: upt_conv_Cons map_Suc_upt)
  then show ?case using Suc [of "acc + 1"] by (simp add: o_def algebra_simps)
qed simp

lemma position_ids_ones: "compute_position_id_with_mask (replicate n 1) = map int [0..<n]"
  by (simp add: compute_position_id_with_mask_def cumsum_ones o_def)

lemma copy_keys_fst: "fst ` set (copy_keys ks d) \<subseteq> set ks"
  by (auto simp: copy_keys_def split: option.splits)

lemma fst_set_dpop: "fst ` set (dpop d k) \<subseteq> fst ` set d"
  by (auto simp: AList.delete_eq)

text \<open>The columns the gateway's extra fields must not name.\<close>

definition CORE_KEYS :: "string list" where
  "CORE_KEYS = [''prompts'', ''responses'', ''input_ids'', ''attention_mask'', ''position_ids'', ''rm_scores'']"

definition core_fields :: "(rat \<Rightarrow> rat) \<Rightarrow> trajectory \<Rightarrow> fields \<Rightarrow> bool" where
  "core_fields f32 t f \<longleftrightarrow>
     dget f ''prompts'' = Some (FT (ints (tr_prompt_ids t))) \<and>
     dget f ''responses'' = Some (FT (ints (tr_response_ids t))) \<and>
     dget f ''input_ids'' = Some (FT (ints (tr_prompt_ids t @ tr_response_ids t))) \<and>
     dget f ''attention_mask'' =
       Some (FT (ints (replicate (length (tr_prompt_ids t) + length (tr_response_ids t)) 1))) \<and>
     dget f ''rm_scores'' = Some (FT \<lparr>tn_dtype = Float32, tn_shape = [length (tr_response_ids t)],
       tn_data = (if tr_reward_score t = None \<or> tr_response_ids t = [] then replicate (length (tr_response_ids t)) 0
                  else replicate (length (tr_response_ids t) - 1) 0 @ [f32 (the (tr_reward_score t))])\<rparr>)"

lemma rm_scores_ints:
  "rm_scores f32 s (ints xs) = \<lparr>tn_dtype = Float32, tn_shape = [length xs],
     tn_data = (if s = None \<or> xs = [] then replicate (length xs) 0
                else replicate (length xs - 1) 0 @ [f32 (the s)])\<rparr>"
proof (cases "s = None \<or> xs = []")
  case True
  then show ?thesis by (auto simp: rm_scores_def filled_like_def ints_def Let_def map_replicate_const split: option.splits)
next
  case False
  then obtain r where s: "s = Some r" by auto
  obtain n where n: "length xs = Suc n" using False by (cases xs) auto
  have "(replicate (Suc n) 0)[n := f32 r] = replicate n 0 @ [f32 r]"
    by (rule nth_equalityI) (auto simp: nth_append nth_list_update less_Suc_eq simp del: replicate_Suc)
  then show ?thesis using False by (simp add: rm_scores_def filled_like_def ints_def s n)
qed

lemma dget_dset_opt [simp]:
  "dget (dset_opt f k v) k' = (if k' = k \<and> v \<noteq> None then v else dget f k')"
  by (auto simp: dset_opt_def split: option.splits)

lemma sequence_fields_core:
  assumes "sequence_fields f32 proc t (ints (tr_prompt_ids t)) (ints (tr_response_ids t)) = Inr f"
  shows "core_fields f32 t f"
    "proc = None \<Longrightarrow> dget f ''position_ids'' =
       Some (FT (ints (map int [0..<length (tr_prompt_ids t) + length (tr_response_ids t)])))"
proof -
  let ?ids = "tr_prompt_ids t @ tr_response_ids t"
  from assms obtain mm pos experts where pos: "compute_position_ids proc ?ids (map (\<lambda>_. 1) ?ids) mm = Inr pos"
    and f: "f = dset (dset_opt (dset_opt (base_fields (ints (tr_prompt_ids t)) (ints (tr_response_ids t)) pos mm)
                ''rollout_log_probs'' (map_option (\<lambda>l. FT (float_vec f32 l)) (tr_response_logprobs t)))
                ''routed_experts'' (map_option FT experts))
             ''rm_scores'' (FT (rm_scores f32 (tr_reward_score t) (ints (tr_response_ids t))))"
    by (auto simp: sequence_fields_def Let_def err_simps)
  show "core_fields f32 t f"
    by (simp add: core_fields_def f base_fields_def rm_scores_ints)
  show "dget f ''position_ids'' = Some (FT (ints (map int [0..<length (tr_prompt_ids t) + length (tr_response_ids t)])))"
    if "proc = None"
  proof -
    have "pos = ints (map int [0..<length ?ids])"
      using pos that by (simp add: compute_position_ids_def Let_def ints_def map_replicate_const position_ids_ones
          flip: replicate_add)
    then show ?thesis by (simp add: f base_fields_def)
  qed
qed

lemma trajectory_field_Inr:
  assumes "trajectory_field f32 proc mu t sf si g = Inr f" "fst ` set (tr_extra_fields t) \<inter> set CORE_KEYS = {}"
  obtains f0 v where "sequence_fields f32 proc t (ints (tr_prompt_ids t)) (ints (tr_response_ids t)) = Inr f0"
    "finished_of t = Inr v" "\<And>k. k \<in> set CORE_KEYS \<Longrightarrow> dget f k = dget f0 k"
    "dget f ''response_mask'' = Some (FT (training_mask mu v (ints (tr_response_mask t))))"
    "dget f ''loss_mask'' = Some (FT (training_mask mu v (ints (tr_response_mask t))))"
proof -
  from assms(1) obtain f0 v where s: "sequence_fields f32 proc t (ints (tr_prompt_ids t)) (ints (tr_response_ids t)) = Inr f0"
    and v: "finished_of t = Inr v"
    and f: "f = (let m = FT (training_mask mu v (ints (tr_response_mask t)));
         extra = map (\<lambda>(k, v). (k, FV v)) (dpop (tr_extra_fields t) ''materialization_reason'');
         f1 = dpop (dset (dset (dupdate f0 extra) ''response_mask'' m) ''loss_mask'' m) ''multi_modal_data'';
         f2 = dupdate f1 (map (\<lambda>(k, v). (k, FV v)) (copy_keys SAMPLE_KEYS sf))
     in dset (dset (dset f2 ''session_id'' (FV (PInt (int si)))) ''global_steps'' (FV (step_pv g))) ''num_turns''
          (FT \<lparr>tn_dtype = Int64, tn_shape = [], tn_data = [of_nat (tr_num_turns t)]\<rparr>))"
    by (auto simp: trajectory_field_def err_simps long_vec_Inr Let_def)
  let ?e = "map (\<lambda>(k, v). (k, FV v)) (dpop (tr_extra_fields t) ''materialization_reason'')"
  let ?s = "map (\<lambda>(k, v). (k, FV v)) (copy_keys SAMPLE_KEYS sf)"
  have e: "k \<notin> fst ` set ?e" if "k \<in> set CORE_KEYS" for k
    using that assms(2) fst_set_dpop [where d = "tr_extra_fields t" and k = "''materialization_reason''"] by force
  have "fst ` set ?s = fst ` set (copy_keys SAMPLE_KEYS sf)" by force
  then have s2: "k \<notin> fst ` set ?s" if "k \<notin> set SAMPLE_KEYS" for k
    using that copy_keys_fst [of SAMPLE_KEYS sf] by blast
  have d: "set CORE_KEYS \<inter> set SAMPLE_KEYS = {}" "''response_mask'' \<notin> set SAMPLE_KEYS" "''loss_mask'' \<notin> set SAMPLE_KEYS"
    by (simp_all add: CORE_KEYS_def SAMPLE_KEYS_def)
  have core: "dget f k = dget f0 k" if "k \<in> set CORE_KEYS" for k
  proof -
    have "k \<notin> {''response_mask'', ''loss_mask'', ''multi_modal_data'', ''session_id'', ''global_steps'', ''num_turns''}"
      using that by (auto simp: CORE_KEYS_def)
    moreover have "k \<notin> set SAMPLE_KEYS" using that d(1) by blast
    ultimately show ?thesis using dget_dupdate_other [OF e [OF that]] dget_dupdate_other [OF s2]
      by (simp add: f Let_def)
  qed
  have "dget f ''response_mask'' = Some (FT (training_mask mu v (ints (tr_response_mask t))))"
    "dget f ''loss_mask'' = Some (FT (training_mask mu v (ints (tr_response_mask t))))"
    using dget_dupdate_other [OF s2 [OF d(2)]] dget_dupdate_other [OF s2 [OF d(3)]] by (simp_all add: f Let_def)
  with s v core show thesis by (rule that)
qed

lemma trajectory_tag_lengths:
  "dget (trajectory_tag t g uid) ''seq_len'' = Some (PInt (int (length (tr_prompt_ids t @ tr_response_ids t))))"
  "g \<noteq> None \<Longrightarrow> dget (trajectory_tag t g uid) ''min_global_steps'' \<noteq> Some PNone"
  "g \<noteq> None \<Longrightarrow> dget (trajectory_tag t g uid) ''max_global_steps'' \<noteq> Some PNone"
  by (auto simp: trajectory_tag_def Let_def version_tag_def step_pv_def)



subsection \<open>The reward\<close>

lemma annotate_all_same: "annotate_all ts (map (\<lambda>_. a) ts) = Inr (map (\<lambda>t. annotate t a) ts)"
proof -
  have "map2 annotate ts (map (\<lambda>_. a) ts) = map (\<lambda>t. annotate t a) ts" by (induction ts) simp_all
  then show ?thesis by (simp add: annotate_all_def)
qed

lemma py_index_minus_one: "xs \<noteq> [] \<Longrightarrow> py_index xs (-1) = Inr (last xs)"
  by (cases xs rule: rev_cases) (simp_all add: py_index_def)

lemma score_trajectories_same:
  assumes "score_trajectories fparse fr worker ts sf = Inr as"
  shows "\<exists>a. as = map (\<lambda>_. a) ts"
  using assms
  by (auto simp: score_trajectories_def err_simps split: if_splits)

lemma score_from_reward_info_same:
  assumes "score_from_reward_info fparse ts = Inr (Some as)"
  shows "\<exists>a. as = map (\<lambda>_. a) ts"
  using assms by (auto simp: score_from_reward_info_def err_simps Let_def split: if_splits)

text \<open>
  scoring broadcasts one reward over a session: the reward the runner posted, with whatever else
  it posted except its completion flag as extra information, wins over the reward worker; without
  either the trajectories are unchanged; and in every case that returns, all trajectories get the
  same score and extra information and keep their tokens.
\<close>

theorem reward_broadcast:
  assumes "ts \<noteq> []"
  shows "(\<forall>r. get_none (tr_reward_info (last ts)) ''reward'' = PFloat r \<longrightarrow>
       score_session env fw sf ts = Inr (map (\<lambda>t. annotate t
         (r, dpop (dpop (tr_reward_info (last ts)) ''reward'') ''finished'')) ts)) \<and>
    (get_none (tr_reward_info (last ts)) ''reward'' = PNone \<and> \<not> fw_reward_loop_worker fw \<longrightarrow>
       score_session env fw sf ts = Inr ts) \<and>
    (\<forall>ts'. score_session env fw sf ts = Inr ts' \<longrightarrow> ts' = ts \<or> (\<exists>a. ts' = map (\<lambda>t. annotate t a) ts))"
proof (intro conjI allI impI)
  note idx = py_index_minus_one [OF assms]
  show "score_session env fw sf ts = Inr (map (\<lambda>t. annotate t
         (r, dpop (dpop (tr_reward_info (last ts)) ''reward'') ''finished'')) ts)"
    if "get_none (tr_reward_info (last ts)) ''reward'' = PFloat r" for r
    using assms that by (simp add: score_session_def score_from_reward_info_def idx Let_def annotate_all_same)
  show "score_session env fw sf ts = Inr ts"
    if "get_none (tr_reward_info (last ts)) ''reward'' = PNone \<and> \<not> fw_reward_loop_worker fw"
    using assms that by (simp add: score_session_def score_from_reward_info_def idx Let_def)
  fix ts'
  assume "score_session env fw sf ts = Inr ts'"
  with assms obtain a where s: "score_from_reward_info (re_fparse env) ts = Inr a"
    and k: "rbind (case a of Some as \<Rightarrow> Inr (Some as)
               | None \<Rightarrow> if fw_reward_loop_worker fw
                   then rbind (score_trajectories (re_fparse env) (re_fr env) (re_worker env) ts sf) (\<lambda>as. Inr (Some as))
                   else Inr None)
             (\<lambda>annotations. case annotations of None \<Rightarrow> Inr ts | Some as \<Rightarrow> annotate_all ts as) = Inr ts'"
    by (auto simp: score_session_def err_simps)
  have same: "\<exists>a. ts' = map (\<lambda>t. annotate t a) ts" if "annotate_all ts as = Inr ts'" "\<exists>a. as = map (\<lambda>_. a) ts" for as
    using that annotate_all_same by fastforce
  show "ts' = ts \<or> (\<exists>a. ts' = map (\<lambda>t. annotate t a) ts)"
  proof (cases a)
    case (Some as)
    then have "annotate_all ts as = Inr ts'" using k by simp
    with same score_from_reward_info_same [OF s [unfolded Some]] show ?thesis by blast
  next
    case None
    then have "ts' = ts \<or> (\<exists>as. score_trajectories (re_fparse env) (re_fr env) (re_worker env) ts sf = Inr as \<and>
        annotate_all ts as = Inr ts')"
      using k by (auto simp: err_simps split: if_splits)
    with same score_trajectories_same show ?thesis by blast
  qed
qed

definition demo_outcome_env :: rollout_env where
  "demo_outcome_env = \<lparr>re_f32 = id, re_fr = (\<lambda>_. []), re_fparse = (\<lambda>_. None), re_put = (\<lambda>_. Inr ()),
     re_worker = (\<lambda>_. Inl (RuntimeError []))\<rparr>"

definition demo_rollout_config :: rollout_config where
  "demo_rollout_config = \<lparr>rc_temperature = PInt 1, rc_top_p = PInt 1, rc_top_k = PInt (-1),
     rc_calculate_log_probs = PBool False, rc_val_temperature = PInt 0, rc_val_top_p = PInt 1,
     rc_val_top_k = PInt (-1), rc_n = PInt 2, rc_val_n = PInt 1\<rparr>"

definition demo_fw :: framework where
  "demo_fw = \<lparr>fw_runner_registry = [], fw_reward_loop_worker = False, fw_processor = None,
     fw_rollout_config = Some demo_rollout_config, fw_log_dir = None, fw_mask_unfinished_episode = False\<rparr>"

lemma reward_broadcast_witness:
  "score_session demo_outcome_env demo_fw [] [demo_traj [7] [(''reward'', PFloat 1)]] =
     Inr [annotate (demo_traj [7] [(''reward'', PFloat 1)]) (1, [])]"
  using reward_broadcast [of "[demo_traj [7] [(''reward'', PFloat 1)]]"]
  by (simp add: demo_traj_def get_none_def dget_or_def)

text \<open>A prompt with two rollouts, of which the second fails.\<close>

definition demo_sessions :: "dict \<Rightarrow> nat \<Rightarrow> outcome" where
  "demo_sessions _ i = (if i = 0 then Inr ([demo_traj [7] []], []) else Inl (RuntimeError ''x''))"

lemma demo_prompt_run:
  "isl (snd (run_prompt_sessions_to_tq demo_outcome_env demo_fw demo_sessions [(''uid'', PStr ''u'')] (Some 1) ''train'' 2)) = False"
  by code_simp

lemma not_isl_Inr: "isl r = False \<Longrightarrow> r = Inr (projr r)"
  by (cases r) simp_all


definition demo_batch :: prompt_batch where
  "demo_batch = \<lparr>pb_len = 1, pb_columns = [(''uid'', Stack [PStr ''u''])]\<rparr>"

lemma demo_batch_run:
  "isl (snd (run_batch_to_tq demo_outcome_env demo_fw (\<lambda>_. demo_sessions) demo_batch (Some 1) ''train'' 2)) = False"
  by code_simp

lemma batch_accounting_witness:
  "\<exists>ops b. run_batch_to_tq demo_outcome_env demo_fw (\<lambda>_. demo_sessions) demo_batch (Some 1) ''train'' 2 = (ops, Inr b) \<and>
     int (st_success_sessions (bs_stats b) + st_failed_sessions (bs_stats b)) = 2"
proof -
  let ?r = "run_batch_to_tq demo_outcome_env demo_fw (\<lambda>_. demo_sessions) demo_batch (Some 1) ''train'' 2"
  have r: "?r = (fst ?r, Inr (projr (snd ?r)))"
    using not_isl_Inr [OF demo_batch_run] by (simp add: prod_eq_iff)
  with batch_accounting [of demo_outcome_env demo_fw "\<lambda>_. demo_sessions" demo_batch "Some 1" "''train''" 2]
  have "int (st_success_sessions (bs_stats (projr (snd ?r))) + st_failed_sessions (bs_stats (projr (snd ?r)))) = 2"
    by (simp add: demo_batch_def)
  with r show ?thesis by blast
qed

end
