(* ===== verification/Lease.thy ===== *)
theory Lease
  imports RolloutProps
begin

text \<open>
  The framework holds a gateway session for the time of one rollout.  The contract between the
  framework's \<open>try\<close> block and the session pool is the locale \<open>session_pool\<close>; the manager model is its
  interpretation.
\<close>

locale session_pool =
  fixes live :: "'m \<Rightarrow> bool" and gone :: "'m \<Rightarrow> bool"
    and create :: "'m \<Rightarrow> 'm \<times> 'h result" and close :: "'m \<Rightarrow> 'm \<times> 'r result" and cancel :: "'m \<Rightarrow> 'm \<times> unit result"
  assumes create_Inl: "live m \<Longrightarrow> gone m \<Longrightarrow> create m = (m', Inl e) \<Longrightarrow> gone m'"
    and create_Inr: "live m \<Longrightarrow> gone m \<Longrightarrow> create m = (m', Inr h) \<Longrightarrow> live m'"
    and close_Inl: "live m \<Longrightarrow> close m = (m', Inl e) \<Longrightarrow> live m'"
    and close_Inr: "live m \<Longrightarrow> close m = (m', Inr r) \<Longrightarrow> gone m'"
    and cancel_gone: "live m \<Longrightarrow> cancel m = (m', u) \<Longrightarrow> gone m'"
begin

lemma bracket_gone:
  assumes "session_bracket create body close cancel m = (m', r)" "live m" "gone m"
    and body: "\<And>h m1. live m1 \<Longrightarrow> live (fst (body h m1))"
  shows "gone m' \<or> (\<exists>e. r = Inl e \<and> \<not> is_exception e)"
proof -
  obtain m1 c where c: "create m = (m1, c)" by (rule prod.exhaust)
  show ?thesis
  proof (cases c)
    case (Inl e)
    then show ?thesis using assms(1) c create_Inl [OF assms(2,3)] by (simp add: session_bracket_def)
  next
    case (Inr h)
    with c have l1: "live m1" using create_Inr [OF assms(2,3)] by blast
    obtain m2 b where b: "body h m1 = (m2, b)" by (rule prod.exhaust)
    with body [OF l1, of h] have l2: "live m2" by simp
    obtain m3 t where t: "(case b of Inl e \<Rightarrow> (m2, Inl e) | Inr _ \<Rightarrow> close m2) = (m3, t)" by (rule prod.exhaust)
    have l3: "live m3" if "t = Inl e" for e
      using that t l2 close_Inl [OF l2] by (auto split: sum.splits)
    have g3: "gone m3" if "t = Inr x" for x
      using that t close_Inr [OF l2] by (auto split: sum.splits)
    have run: "(m', r) = (case (m3, t) of (m3, Inr r) \<Rightarrow> (m3, Inr r)
        | (m3, Inl e) \<Rightarrow> if is_exception e
            then (case cancel m3 of (m4, Inl e') \<Rightarrow> (m4, Inl e') | (m4, Inr _) \<Rightarrow> (m4, Inl e)) else (m3, Inl e))"
      using assms(1) c Inr b t by (simp add: session_bracket_def split: sum.splits)
    show ?thesis
    proof (cases t)
      case (Inr x)
      then show ?thesis using run g3 by simp
    next
      case (Inl e)
      obtain m4 a where a: "cancel m3 = (m4, a)" by (rule prod.exhaust)
      from cancel_gone [OF l3 [OF Inl] a] run Inl a show ?thesis by (auto split: if_splits sum.splits)
    qed
  qed
qed

end

subsection \<open>The manager is a session pool\<close>

text \<open>
  While a session is leased, it is stored on at most the actor its route names, no stored session
  is finalized, and routes point to actors.
\<close>

definition lease_live :: "string \<Rightarrow> manager \<Rightarrow> bool" where
  "lease_live sid m \<longleftrightarrow>
     (\<forall>i < length (gm_gateways m). \<forall>k s. dget (ac_sessions (gm_gateways m ! i)) k = Some s \<longrightarrow> ss_phase s \<noteq> FINALIZED) \<and>
     (\<forall>i < length (gm_gateways m). dhas (ac_sessions (gm_gateways m ! i)) sid \<longrightarrow> dget (gm_routes m) sid = Some i) \<and>
     (\<forall>i. dget (gm_routes m) sid = Some i \<longrightarrow> i < length (gm_gateways m))"

definition lease_gone :: "string \<Rightarrow> manager \<Rightarrow> bool" where
  "lease_gone sid m \<longleftrightarrow> dget (gm_routes m) sid = None \<and>
     (\<forall>i < length (gm_gateways m). \<not> dhas (ac_sessions (gm_gateways m ! i)) sid)"

lemma lease_liveD:
  assumes "lease_live sid m"
  shows "i < length (gm_gateways m) \<Longrightarrow> dget (ac_sessions (gm_gateways m ! i)) k = Some s \<Longrightarrow> ss_phase s \<noteq> FINALIZED"
    "i < length (gm_gateways m) \<Longrightarrow> dhas (ac_sessions (gm_gateways m ! i)) sid \<Longrightarrow> dget (gm_routes m) sid = Some i"
    "dget (gm_routes m) sid = Some i \<Longrightarrow> i < length (gm_gateways m)"
  using assms unfolding lease_live_def by blast+

lemma lease_goneD:
  assumes "lease_gone sid m"
  shows "dget (gm_routes m) sid = None"
    "i < length (gm_gateways m) \<Longrightarrow> \<not> dhas (ac_sessions (gm_gateways m ! i)) sid"
  using assms unfolding lease_gone_def by blast+

lemma session_update_simps [simp]:
  "gm_gateways (put_gateway i a m) = (gm_gateways m)[i := a]" "gm_routes (put_gateway i a m) = gm_routes m"
  "gm_gateways (reserve_route sid i m) = gm_gateways m"
  "gm_routes (reserve_route sid i m) = dset (gm_routes m) sid i"
  "gm_gateways (release_route sid i m) = gm_gateways m"
  "gm_routes (release_route sid i m) = dpop (gm_routes m) sid"
  "gm_gateways (rollback_route sid i m) = gm_gateways m"
  "gm_routes (rollback_route sid i m) = dpop (gm_routes m) sid"
  "ac_sessions (put_session sid s a) = dset (ac_sessions a) sid s"
  "ac_sessions (pop_session sid a) = dpop (ac_sessions a) sid"
  by (simp_all add: put_gateway_def reserve_route_def release_route_def rollback_route_def add_load_def
      drop_route_def put_session_def pop_session_def)

lemma dhas_dpop [simp]: "dhas (dpop d k) k' \<longleftrightarrow> k' \<noteq> k \<and> dhas d k'"
  by (simp add: dhas_def)

lemma create_session_effect:
  assumes "create_session now sid sp a = (a', r)"
  shows "case r of Inl _ \<Rightarrow> a' = a
    | Inr _ \<Rightarrow> \<exists>s. a' = put_session sid s a \<and> ss_phase s = ACTIVE"
  using assms
  by (auto simp: create_session_def Let_def new_session_def split: option.splits if_splits sum.splits)

lemma materialize_phase: "ss_phase (fst (materialize_chains cs s)) = ss_phase s"
  by (induction cs s rule: materialize_chains.induct) (auto split: sum.splits)

lemma finalize_phase: "finalize now s = (s', Inl e) \<Longrightarrow> ss_phase s \<noteq> FINALIZED \<Longrightarrow> ss_phase s' \<noteq> FINALIZED"
  using materialize_phase [of "ss_active_chains (touch now s)" "touch now s"]
  by (auto simp: finalize_def materialize_active_chains_def Let_def touch_def split: if_splits sum.splits prod.splits)

lemma finalize_session_effect:
  assumes "finalize_session now sid a = (a', r)"
  shows "case r of Inr _ \<Rightarrow> a' = pop_session sid a
    | Inl _ \<Rightarrow> a' = a \<or> (\<exists>s s'. dget (ac_sessions a) sid = Some s \<and> a' = put_session sid s' a \<and>
        (ss_phase s \<noteq> FINALIZED \<longrightarrow> ss_phase s' \<noteq> FINALIZED))"
  using assms finalize_phase
  by (fastforce simp: finalize_session_def get_session_def split: option.splits prod.splits sum.splits)

lemma abort_session_effect:
  assumes "abort_session now sid a = (a', r)" "\<forall>s. dget (ac_sessions a) sid = Some s \<longrightarrow> ss_phase s \<noteq> FINALIZED"
  shows "r = Inr ()" "ac_sessions a' = dpop (ac_sessions a) sid"
  using assms
  by (auto simp: abort_session_def abort_cases delete_id map_of_eq_None_iff
      split: option.splits prod.splits sum.splits session_phase.splits)

lemma lease_create_Inl:
  assumes "lease_gone sid m" "manager_create_session now sid sp m = (m', Inl e)"
  shows "lease_gone sid m'"
proof (cases "select_gateway_index m")
  case (Inl x)
  then show ?thesis using assms by (simp add: manager_create_session_def)
next
  case (Inr i)
  obtain a r where c: "create_session now sid sp (gm_gateways m ! i) = (a, r)" by (rule prod.exhaust)
  from assms(2) Inr c create_session_effect [OF c] have "m' = rollback_route sid i (put_gateway i (gm_gateways m ! i) (reserve_route sid i m))"
    by (auto simp: manager_create_session_def Let_def split: sum.splits)
  then show ?thesis using lease_goneD(2) [OF assms(1)] by (simp add: lease_gone_def)
qed

lemma lease_gone_release:
  assumes "lease_live sid m" "dget (gm_routes m) sid = Some i" "\<not> dhas (ac_sessions a) sid"
  shows "lease_gone sid (release_route sid i (put_gateway i a m))"
proof -
  have "\<not> dhas (ac_sessions ((gm_gateways m)[i := a] ! j)) sid" if "j < length (gm_gateways m)" for j
    using lease_liveD(2) [OF assms(1) that] assms(2,3) that by (cases "i = j") auto
  then show ?thesis by (simp add: lease_gone_def)
qed

lemma lease_live_store:
  assumes "lease_live sid m" "i < length (gm_gateways m)" "ss_phase s \<noteq> FINALIZED"
    "\<And>j. j < length (gm_gateways m) \<Longrightarrow> dhas (ac_sessions (gm_gateways m ! j)) sid \<Longrightarrow> j = i"
    "gm_gateways m' = (gm_gateways m)[i := put_session sid s (gm_gateways m ! i)]"
    "dget (gm_routes m') sid = Some i"
  shows "lease_live sid m'"
proof -
  have "ss_phase s' \<noteq> FINALIZED"
    if "j < length (gm_gateways m)" "dget (ac_sessions (gm_gateways m' ! j)) k = Some s'" for j k s'
    using that lease_liveD(1) [OF assms(1) that(1)] assms(2,3,5)
    by (cases "i = j"; cases "k = sid") auto
  moreover have "dget (gm_routes m') sid = Some j"
    if "j < length (gm_gateways m)" "dhas (ac_sessions (gm_gateways m' ! j)) sid" for j
    using that assms(4) [OF that(1)] assms(2,5,6) by (cases "i = j") simp_all
  ultimately show ?thesis using assms(2,5,6) by (simp add: lease_live_def)
qed

lemma lease_create_Inr:
  assumes "lease_live sid m" "lease_gone sid m" "manager_create_session now sid sp m = (m', Inr h)"
  shows "lease_live sid m'" "\<exists>i. dget (gm_routes m') sid = Some i"
proof -
  from assms(3) obtain i where i: "select_gateway_index m = Inr i"
    by (auto simp: manager_create_session_def split: sum.splits)
  obtain a r where c: "create_session now sid sp (gm_gateways m ! i) = (a, r)" by (rule prod.exhaust)
  with assms(3) i have r: "r = Inr h" "m' = put_gateway i a (reserve_route sid i m)"
    by (auto simp: manager_create_session_def Let_def split: sum.splits)
  from create_session_effect [OF c] r(1) obtain s where "a = put_session sid s (gm_gateways m ! i)" "ss_phase s = ACTIVE"
    by auto
  with r(2) show "lease_live sid m'" using lease_goneD(2) [OF assms(2)]
    by (intro lease_live_store [OF assms(1) select_gateway_index_Inr(1) [OF i], of s]) auto
  from r(2) show "\<exists>i. dget (gm_routes m') sid = Some i" by simp
qed

lemma lease_close:
  assumes "lease_live sid m" "manager_finalize_session now sid m = (m', r)"
  shows "case r of Inl _ \<Rightarrow> lease_live sid m' | Inr _ \<Rightarrow> lease_gone sid m'"
proof (cases "dget (gm_routes m) sid")
  case None
  then show ?thesis using assms by (auto simp: manager_finalize_session_def get_gateway_index_def)
next
  case (Some i)
  obtain a t where c: "finalize_session now sid (gm_gateways m ! i) = (a, t)" by (rule prod.exhaust)
  note lt = lease_liveD(3) [OF assms(1) Some]
  show ?thesis
  proof (cases t)
    case (Inr ts)
    then have "r = Inr ts" "m' = release_route sid i (put_gateway i a m)" "a = pop_session sid (gm_gateways m ! i)"
      using assms(2) Some c finalize_session_effect [OF c]
      by (auto simp: manager_finalize_session_def get_gateway_index_def)
    then show ?thesis using lease_gone_release [OF assms(1) Some] by simp
  next
    case (Inl e)
    then have r: "r = Inl e" "m' = put_gateway i a m"
      using assms(2) Some c by (auto simp: manager_finalize_session_def get_gateway_index_def)
    from finalize_session_effect [OF c] Inl consider "a = gm_gateways m ! i"
      | s s' where "dget (ac_sessions (gm_gateways m ! i)) sid = Some s" "a = put_session sid s' (gm_gateways m ! i)"
          "ss_phase s \<noteq> FINALIZED \<longrightarrow> ss_phase s' \<noteq> FINALIZED" by auto
    then show ?thesis
    proof cases
      case 1
      have "put_gateway i (gm_gateways m ! i) m = m" by (simp add: put_gateway_def)
      with 1 show ?thesis using r assms(1) by simp
    next
      case 2
      note lease_liveD(1) [OF assms(1) lt 2(1)]
      moreover have "j = i" if "j < length (gm_gateways m)" "dhas (ac_sessions (gm_gateways m ! j)) sid" for j
        using lease_liveD(2) [OF assms(1) that] Some by simp
      ultimately have "lease_live sid m'"
        using lease_live_store [OF assms(1) lt, of s' m'] r(2) 2 Some by simp
      with r(1) show ?thesis by simp
    qed
  qed
qed

lemma lease_abort_Inr:
  assumes "lease_live sid m" "dget (gm_routes m) sid = Some i"
  shows "\<exists>a. manager_abort_session now sid m = (release_route sid i (put_gateway i a m), Inr ()) \<and>
    \<not> dhas (ac_sessions a) sid"
proof -
  obtain a t where c: "abort_session now sid (gm_gateways m ! i) = (a, t)" by (rule prod.exhaust)
  have "\<forall>s. dget (ac_sessions (gm_gateways m ! i)) sid = Some s \<longrightarrow> ss_phase s \<noteq> FINALIZED"
    using lease_liveD(1) [OF assms(1) lease_liveD(3) [OF assms]] by blast
  note A = abort_session_effect [OF c this]
  show ?thesis using assms(2) c A
    by (intro exI [of _ a]) (simp add: manager_abort_session_def get_gateway_index_def)
qed

lemma lease_cancel:
  assumes "lease_live sid m" "manager_abort_session now sid m = (m', r)"
  shows "lease_gone sid m'"
proof (cases "dget (gm_routes m) sid")
  case None
  then have "m' = m" using assms(2) by (auto simp: manager_abort_session_def get_gateway_index_def)
  then show ?thesis using None lease_liveD(2) [OF assms(1)] by (auto simp: lease_gone_def)
next
  case (Some i)
  from lease_abort_Inr [OF assms(1) this, of now] obtain a
    where "m' = release_route sid i (put_gateway i a m)" "\<not> dhas (ac_sessions a) sid" using assms(2) by auto
  with lease_gone_release [OF assms(1) Some] show ?thesis by simp
qed

interpretation lease: session_pool "lease_live sid" "lease_gone sid" "manager_create_session now sid sp"
  "manager_finalize_session later sid" "manager_abort_session later sid" for sid now sp later
proof
  show "lease_gone sid m'" if "lease_gone sid m" "manager_create_session now sid sp m = (m', Inl e)" for m m' e
    using that by (rule lease_create_Inl)
  show "lease_live sid m'" if "lease_live sid m" "lease_gone sid m" "manager_create_session now sid sp m = (m', Inr h)"
    for m m' h using that by (rule lease_create_Inr(1))
  show "lease_live sid m'" if "lease_live sid m" "manager_finalize_session later sid m = (m', Inl e)" for m m' e
    using lease_close [OF that] by simp
  show "lease_gone sid m'" if "lease_live sid m" "manager_finalize_session later sid m = (m', Inr r)" for m m' r
    using lease_close [OF that] by simp
qed (rule lease_cancel)

text \<open>
  C17: a rollout releases its session.  Whether the runner fails, the finalization fails or both
  succeed, after \<open>run_session\<close> neither the manager's routes nor any actor knows the session id,
  unless a control-flow exception ended the runner; such an exception passes the
  \<open>except Exception\<close> clause.
\<close>

theorem run_session_releases:
  assumes "run_session env fw runner now uuid sf i j name c sp m = (m', r)"
    and "lease_live (session_id_of i j uuid) m" "lease_gone (session_id_of i j uuid) m"
    and "\<And>call prompt h k tools m1. lease_live (session_id_of i j uuid) m1 \<Longrightarrow>
           lease_live (session_id_of i j uuid) (fst (runner call prompt h k tools m1))"
  shows "lease_gone (session_id_of i j uuid) m' \<or> (\<exists>e. r = Inl e \<and> \<not> is_exception e)"
proof (cases "dict_item sf ''raw_prompt''")
  case (Inl e)
  then show ?thesis using assms(1,3) by (simp add: run_session_def)
next
  case (Inr p)
  let ?sid = "session_id_of i j uuid"
  let ?b = "session_bracket (manager_create_session now ?sid (Some sp))
      (\<lambda>h. runner (runner_call_of name c) p h i
        (let tools = get_none sf ''tools_kwargs'' in if tools = PNone then None else Some tools))
      (manager_finalize_session now ?sid) (manager_abort_session now ?sid) m"
  obtain m1 x where b: "?b = (m1, x)" by (rule prod.exhaust)
  from lease.bracket_gone [OF b assms(2,3)] assms(4)
  have "lease_gone ?sid m1 \<or> (\<exists>e. x = Inl e \<and> \<not> is_exception e)" by blast
  then show ?thesis using assms(1) Inr b by (auto simp: run_session_def Let_def split: sum.splits)
qed

text \<open>A runner that is cancelled leaves its session behind: nothing is finalized or aborted.\<close>

lemma cancelled_runner_leaks:
  assumes "dict_item sf ''raw_prompt'' = Inr p"
    and "manager_create_session now (session_id_of i j uuid) (Some sp) m = (m1, Inr h)"
    and "\<And>call prompt h k tools. runner call prompt h k tools m1 = (m1, Inl (BaseExc ''CancelledError''))"
  shows "run_session env fw runner now uuid sf i j name c sp m = (m1, Inl (BaseExc ''CancelledError''))"
  using assms by (simp add: run_session_def session_bracket_def is_exception_def)

subsection \<open>A leased session\<close>

definition demo_lease_env :: rollout_env where
  "demo_lease_env = \<lparr>re_f32 = id, re_fr = (\<lambda>_. []), re_fparse = (\<lambda>_. None), re_put = (\<lambda>_. Inr ()),
     re_worker = (\<lambda>_. Inl (RuntimeError []))\<rparr>"

definition demo_runner_config :: runner_config where
  "demo_runner_config = \<lparr>rn_runner_fqn = ''m.r'', rn_runner_kwargs = [], rn_dispatch_mode = ''inline_async'',
     rn_max_concurrent_sessions = 1, rn_trajectory_selection = ''all''\<rparr>"

definition demo_framework :: framework where
  "demo_framework = \<lparr>fw_runner_registry = [(''r'', demo_runner_config)], fw_reward_loop_worker = False,
     fw_processor = None, fw_rollout_config = None, fw_log_dir = None, fw_mask_unfinished_episode = True\<rparr>"

text \<open>A runner that fails: its session is aborted.\<close>

definition demo_failing_runner :: runner where
  "demo_failing_runner call prompt h i tools m = (m, Inl (RuntimeError ''boom''))"

lemma run_session_releases_witness:
  "\<exists>m' r. run_session demo_lease_env demo_framework demo_failing_runner 0 ''u'' [(''raw_prompt'', PNone)] 0 0 ''r''
      demo_runner_config [] demo_manager = (m', r) \<and> r = Inl (RuntimeError ''boom'') \<and>
    lease_gone (session_id_of 0 0 ''u'') m'"
proof -
  let ?sid = "session_id_of 0 0 ''u''"
  obtain m' r where run: "run_session demo_lease_env demo_framework demo_failing_runner 0 ''u'' [(''raw_prompt'', PNone)] 0 0
      ''r'' demo_runner_config [] demo_manager = (m', r)" by (rule prod.exhaust)
  have e: "gm_gateways demo_manager = [demo_actor, demo_actor]" "gm_routes demo_manager = []" "ac_sessions demo_actor = []"
    by (simp_all add: demo_manager_def demo_actor_def start_actor_def new_actor_def Let_def)
  have l: "lease_live ?sid demo_manager" "lease_gone ?sid demo_manager"
    by (auto simp: lease_live_def lease_gone_def e dhas_def nth_Cons split: nat.splits)
  have "lease_gone ?sid m' \<or> (\<exists>e. r = Inl e \<and> \<not> is_exception e)"
    by (rule run_session_releases [OF run l]) (simp add: demo_failing_runner_def)
  moreover have "r = Inl (RuntimeError ''boom'')"
  proof -
    have "\<exists>h m1. manager_create_session 0 ?sid (Some []) demo_manager = (m1, Inr h)"
      by (auto simp: manager_create_session_def create_session_def new_session_def demo_manager_def demo_actor_def
          start_actor_def new_actor_def demo_config_def select_gateway_index_def upt_rec Let_def reserve_route_def
          add_load_def dhas_def)
    then obtain h m1 where c: "manager_create_session 0 ?sid (Some []) demo_manager = (m1, Inr h)" by blast
    from lease_create_Inr(2) [OF l this] obtain i where i: "dget (gm_routes m1) ?sid = Some i" by blast
    from lease_abort_Inr [OF lease_create_Inr(1) [OF l c] i, of 0]
    obtain m2 where "manager_abort_session 0 ?sid m1 = (m2, Inr ())" by blast
    then show ?thesis using run c
      by (auto simp: run_session_def session_bracket_def demo_failing_runner_def dict_item_def Let_def is_exception_def)
  qed
  ultimately show ?thesis using run by (auto simp: is_exception_def)
qed

end
