(* ===== verification/Limiter.thy ===== *)
theory Limiter
  imports Rollout
begin

text \<open>
  The semaphores of \<open>_run_session_with_concurrency_limit\<close>: how many sessions of one runner hold a
  permit, under any interleaving of arrivals, starts, ends and changes of the event loop.
\<close>

subsection \<open>The concurrency limit of a runner\<close>

definition fresh_limited :: "limited \<Rightarrow> bool" where
  "fresh_limited s \<longleftrightarrow> lm_loop (ld_limiter s) = None \<and> lm_semaphores (ld_limiter s) = [] \<and>
     ld_running s = (\<lambda>_ _. 0)"

definition permits_ok :: "(string \<Rightarrow> nat) \<Rightarrow> limited \<Rightarrow> string \<Rightarrow> nat \<Rightarrow> bool" where
  "permits_ok caps s name e \<longleftrightarrow>
     (if e = lm_epoch (ld_limiter s)
      then case dget (lm_semaphores (ld_limiter s)) name of
             Some v \<Rightarrow> v + ld_running s name e = caps name | None \<Rightarrow> ld_running s name e = 0
      else if lm_epoch (ld_limiter s) < e then ld_running s name e = 0
      else ld_running s name e \<le> caps name)"

definition limited_inv :: "(string \<Rightarrow> nat) \<Rightarrow> limited \<Rightarrow> bool" where
  "limited_inv caps s \<longleftrightarrow> (\<forall>name e. permits_ok caps s name e)"

lemma permits_bound: "permits_ok caps s name e \<Longrightarrow> ld_running s name e \<le> caps name"
  by (auto simp: permits_ok_def split: if_splits option.splits)

lemma limited_arrive:
  assumes "limited_inv caps s" "l = runner_semaphore name (caps name) (bind_loop loop (ld_limiter s))"
  shows "permits_ok caps (s\<lparr>ld_limiter := l\<rparr>) name' e"
proof -
  have old: "permits_ok caps s name' e" for name' e using assms(1) by (simp add: limited_inv_def)
  show ?thesis
  proof (cases "lm_loop (ld_limiter s) = Some loop")
    case True
    then show ?thesis using assms(2) old [of name' e]
      by (auto simp: permits_ok_def runner_semaphore_def bind_loop_def dhas_def split: if_splits option.splits)
  next
    case False
    have "ld_running s name' (Suc (lm_epoch (ld_limiter s))) = 0"
      using old [of name' "Suc (lm_epoch (ld_limiter s))"] by (simp add: permits_ok_def)
    moreover have "ld_running s name' e \<le> caps name'" using permits_bound [OF old] .
    moreover have "lm_epoch (ld_limiter s) < e \<Longrightarrow> ld_running s name' e = 0"
      using old [of name' e] by (simp add: permits_ok_def)
    ultimately show ?thesis using assms(2) False
      by (auto simp: permits_ok_def runner_semaphore_def bind_loop_def dhas_def)
  qed
qed

lemma lstep_inv:
  assumes "limited_inv caps s" "lstep caps s s'"
  shows "limited_inv caps s'"
  using assms(2)
proof cases
  case (arrive name l loop)
  then show ?thesis using limited_arrive [OF assms(1)] by (simp add: limited_inv_def)
next
  case (acquire name v e)
  then have "permits_ok caps s' name' e'" for name' e'
    using assms(1) [unfolded limited_inv_def, rule_format, of name' e']
    by (auto simp: permits_ok_def set_semaphore_def bump_def split: if_splits option.splits)
  then show ?thesis by (simp add: limited_inv_def)
next
  case (release name e n v)
  then have "permits_ok caps s' name' e'" for name' e'
    using assms(1) [unfolded limited_inv_def, rule_format, of name' e']
    by (auto simp: permits_ok_def set_semaphore_def bump_def split: if_splits option.splits)
  then show ?thesis by (simp add: limited_inv_def)
next
  case (release_old name e n)
  then have "permits_ok caps s' name' e'" for name' e'
    using assms(1) [unfolded limited_inv_def, rule_format, of name' e']
    by (auto simp: permits_ok_def bump_def split: if_splits option.splits)
  then show ?thesis by (simp add: limited_inv_def)
qed

interpretation limit: invariant_system fresh_limited "lstep caps" "limited_inv caps" for caps
proof
  show "limited_inv caps s" if "fresh_limited s" for s
    using that by (auto simp: limited_inv_def permits_ok_def fresh_limited_def)
qed (rule lstep_inv)

text \<open>
  at no time do more sessions of a runner hold a permit of one binding of its semaphore than
  the runner's \<open>max_concurrent_sessions\<close>, however arrivals, starts, ends and changes of the event
  loop interleave; and no permit is lost: in the current binding the free permits and the running
  sessions add up to the limit.
\<close>

theorem runner_limit:
  assumes "fresh_limited s0" "(lstep caps)\<^sup>*\<^sup>* s0 s"
  shows "ld_running s name e \<le> caps name \<and>
    (\<forall>v. dget (lm_semaphores (ld_limiter s)) name = Some v \<longrightarrow>
       v + ld_running s name (lm_epoch (ld_limiter s)) = caps name)"
proof -
  have inv: "permits_ok caps s name e" for name e
    using limit.reach_inv [OF assms] by (simp add: limited_inv_def)
  show ?thesis using permits_bound [OF inv] inv [of name "lm_epoch (ld_limiter s)"]
    by (auto simp: permits_ok_def)
qed

definition demo_limited :: limited where
  "demo_limited = \<lparr>ld_limiter = \<lparr>lm_loop = None, lm_epoch = 0, lm_semaphores = []\<rparr>, ld_running = (\<lambda>_ _. 0)\<rparr>"

definition demo_caps :: "string \<Rightarrow> nat" where
  "demo_caps _ = 1"

lemma runner_limit_witness:
  "\<exists>s. (lstep demo_caps)\<^sup>*\<^sup>* demo_limited s \<and> ld_running s ''r'' 1 = 1 \<and> ld_running s ''r'' 1 \<le> demo_caps ''r''"
proof -
  define l where "l = runner_semaphore ''r'' (demo_caps ''r'') (bind_loop 7 (ld_limiter demo_limited))"
  define s1 where "s1 = demo_limited\<lparr>ld_limiter := l\<rparr>"
  define s2 where "s2 = \<lparr>ld_limiter = set_semaphore ''r'' 0 (ld_limiter s1),
      ld_running = bump ''r'' 1 (Suc (ld_running s1 ''r'' 1)) (ld_running s1)\<rparr>"
  have "lstep demo_caps demo_limited s1" unfolding s1_def
    by (rule arrive [where name = "''r''" and loop = 7]) (simp_all add: demo_caps_def l_def)
  moreover have "lstep demo_caps s1 s2" unfolding s2_def
    by (rule acquire) (simp_all add: s1_def l_def demo_caps_def demo_limited_def runner_semaphore_def bind_loop_def dhas_def)
  ultimately have r: "(lstep demo_caps)\<^sup>*\<^sup>* demo_limited s2" by simp
  have "fresh_limited demo_limited" by (simp add: fresh_limited_def demo_limited_def)
  from runner_limit [OF this r, of "''r''" 1] have "ld_running s2 ''r'' 1 \<le> demo_caps ''r''" by simp
  moreover have "ld_running s2 ''r'' 1 = 1" by (simp add: s2_def s1_def demo_limited_def bump_def)
  ultimately show ?thesis using r by blast
qed

end
