(* ===== verification/PyLines.thy ===== *)
theory PyLines
  imports PyText
begin

text \<open>
  Searching, splitting and replacing in strings, and line handling, as the tools use them:
  \<open>str.partition\<close> at the leftmost occurrence, \<open>count\<close>, \<open>split\<close>, \<open>replace\<close>, \<open>expandtabs\<close>,
  \<open>splitlines\<close> and padding.
\<close>

named_theorems text_simps \<open>splitting, joining and counting in strings\<close>

subsection \<open>Leftmost occurrences\<close>

fun partition_at :: "string \<Rightarrow> string \<Rightarrow> (string \<times> string) option" where
  "partition_at p s =
     (if startswith s p then Some ([], drop (length p) s)
      else case s of [] \<Rightarrow> None | c # cs \<Rightarrow> map_option (\<lambda>(a, b). (c # a, b)) (partition_at p cs))"

declare partition_at.simps [simp del]

lemma partition_at_Some: "partition_at p s = Some (a, b) \<Longrightarrow> s = a @ p @ b"
proof (induction s arbitrary: a)
  case Nil
  then show ?case by (subst (asm) partition_at.simps) (auto simp: startswith_def split: if_splits)
next
  case (Cons c cs)
  show ?case
  proof (cases "startswith (c # cs) p")
    case True
    then have "a = []" "b = drop (length p) (c # cs)" using Cons.prems by (subst (asm) partition_at.simps, simp)+
    then show ?thesis using True by (metis append_Nil append_take_drop_id startswith_def)
  next
    case False
    then obtain a' where "partition_at p cs = Some (a', b)" "a = c # a'"
      using Cons.prems by (subst (asm) partition_at.simps) auto
    then show ?thesis using Cons.IH by simp
  qed
qed

lemma partition_at_first:
  assumes "partition_at p s = Some (a, b)" "s = x @ p @ y"
  shows "length a \<le> length x"
  using assms
proof (induction s arbitrary: a x)
  case Nil
  then show ?case by (subst (asm) partition_at.simps) (auto simp: startswith_def split: if_splits)
next
  case (Cons c cs)
  show ?case
  proof (cases "startswith (c # cs) p")
    case True
    then have "a = []" using Cons.prems(1) by (subst (asm) partition_at.simps) simp
    then show ?thesis by simp
  next
    case False
    then obtain a' where a: "partition_at p cs = Some (a', b)" "a = c # a'"
      using Cons.prems(1) by (subst (asm) partition_at.simps) auto
    from False Cons.prems(2) obtain x' where "x = c # x'" by (cases x) (auto simp: startswith_iff)
    with a Cons.IH [OF a(1)] Cons.prems(2) show ?thesis by simp
  qed
qed

lemma partition_at_None: "partition_at p s = None \<longleftrightarrow> (\<forall>a b. s \<noteq> a @ p @ b)"
proof (induction s)
  case Nil
  then show ?case by (subst partition_at.simps) (auto simp: startswith_def)
next
  case (Cons c cs)
  have "(\<forall>a b. c # cs \<noteq> a @ p @ b) \<longleftrightarrow> \<not> startswith (c # cs) p \<and> (\<forall>a b. cs \<noteq> a @ p @ b)"
    by (auto simp: startswith_iff) (metis append_eq_Cons_conv)+
  with Cons show ?case by (subst partition_at.simps) auto
qed

lemma partition_at_length: "p \<noteq> [] \<Longrightarrow> partition_at p s = Some (a, b) \<Longrightarrow> length b < length s"
  using partition_at_Some [of p s a b] by simp

subsection \<open>Splitting, counting, replacing\<close>

function split_str :: "string \<Rightarrow> string \<Rightarrow> string list" where
  "split_str p s =
     (if p = [] then [s]
      else case partition_at p s of None \<Rightarrow> [s] | Some (a, b) \<Rightarrow> a # split_str p b)"
  by pat_completeness auto
termination
  by (relation "measure (length \<circ> snd)") (auto dest: partition_at_length)

declare split_str.simps [simp del]

definition count_str :: "string \<Rightarrow> string \<Rightarrow> nat" where
  "count_str p s = length (split_str p s) - 1"

definition replace_str :: "string \<Rightarrow> string \<Rightarrow> string \<Rightarrow> string" where
  "replace_str p r s = join r (split_str p s)"

definition contains :: "string \<Rightarrow> string \<Rightarrow> bool" where
  "contains s p \<longleftrightarrow> partition_at p s \<noteq> None"

lemma split_str_ne: "split_str p s \<noteq> []"
  by (subst split_str.simps) (auto split: option.splits)

lemma join_Cons: "xs \<noteq> [] \<Longrightarrow> join sep (x # xs) = x @ sep @ join sep xs"
  by (cases xs) simp_all

lemma join_split [text_simps]: "join p (split_str p s) = s"
proof (induction p s rule: split_str.induct)
  case (1 p s)
  then show ?case
    by (subst split_str.simps)
      (auto split: option.splits prod.splits simp: join_Cons split_str_ne dest: partition_at_Some)
qed

lemma count_str_0 [text_simps]: "p \<noteq> [] \<Longrightarrow> count_str p s = 0 \<longleftrightarrow> partition_at p s = None"
  using split_str_ne by (auto simp: count_str_def split_str.simps [of p s] split: option.splits)

lemma count_str_1:
  assumes "p \<noteq> []" "count_str p s = 1"
  obtains a b where "partition_at p s = Some (a, b)" "partition_at p b = None" "split_str p s = [a, b]"
proof -
  from assms obtain a b where ab: "partition_at p s = Some (a, b)"
    using count_str_0 [of p s] by (cases "partition_at p s") auto
  then have s: "split_str p s = a # split_str p b" using assms(1) by (subst split_str.simps) simp
  then have "length (split_str p b) = 1" using assms(2) by (simp add: count_str_def)
  moreover have "partition_at p b \<noteq> None \<Longrightarrow> 2 \<le> length (split_str p b)"
    using assms(1) split_str_ne by (subst split_str.simps) (auto simp: Suc_le_eq)
  ultimately have "partition_at p b = None" by fastforce
  moreover from this have "split_str p b = [b]" by (subst split_str.simps) simp
  with s have "split_str p s = [a, b]" by simp
  ultimately show thesis by (intro that [OF ab])
qed

subsection \<open>Lines\<close>

definition lines :: "string \<Rightarrow> string list" where
  "lines s = split_str nl s"

definition unlines :: "string list \<Rightarrow> string" where
  "unlines ls = join nl ls"

lemma unlines_lines [text_simps]: "unlines (lines s) = s"
  by (simp add: unlines_def lines_def join_split)

text \<open>\<open>expandtabs\<close> with the default tab size; a line break resets the column.\<close>

definition tab :: char where "tab = char_of (9::nat)"
definition lf :: char where "lf = char_of (10::nat)"
definition cr :: char where "cr = char_of (13::nat)"

fun expandtabs_from :: "nat \<Rightarrow> string \<Rightarrow> string" where
  "expandtabs_from col [] = []"
| "expandtabs_from col (c # cs) =
     (if c = tab then replicate (8 - col mod 8) (CHR '' '') @ expandtabs_from (col + (8 - col mod 8)) cs
      else if c = lf \<or> c = cr then c # expandtabs_from 0 cs
      else c # expandtabs_from (col + 1) cs)"

definition expandtabs :: "string \<Rightarrow> string" where
  "expandtabs s = expandtabs_from 0 s"

lemma expandtabs_no_tab: "tab \<notin> set s \<Longrightarrow> expandtabs s = s"
proof -
  have "tab \<notin> set s \<Longrightarrow> expandtabs_from col s = s" for col
    by (induction s arbitrary: col) auto
  then show "tab \<notin> set s \<Longrightarrow> expandtabs s = s" by (simp add: expandtabs_def)
qed

lemma expandtabs_tab_free: "tab \<notin> set (expandtabs s)"
proof -
  have "tab \<noteq> CHR '' ''" "tab \<noteq> lf" "tab \<noteq> cr" by code_simp+
  then have "tab \<notin> set (expandtabs_from col s)" for col
    by (induction col s rule: expandtabs_from.induct) auto
  then show ?thesis by (simp add: expandtabs_def)
qed

text \<open>\<open>s[-n:]\<close> for a positive \<open>n\<close>.\<close>

definition last_chars :: "nat \<Rightarrow> string \<Rightarrow> string" where
  "last_chars n s = drop (length s - n) s"

text \<open>The number of lines \<open>splitlines\<close> gives: a final line break ends the last line.\<close>

definition is_break :: "char \<Rightarrow> bool" where
  "is_break c = (let n = (of_char c :: nat) in n = 10 \<or> n = 11 \<or> n = 12 \<or> n = 13 \<or> (28 \<le> n \<and> n \<le> 30) \<or> n = 133)"

fun count_lines :: "string \<Rightarrow> nat" where
  "count_lines [] = 0"
| "count_lines [c] = 1"
| "count_lines (c # d # cs) =
     (if c = cr \<and> d = lf then 1 + count_lines cs
      else if is_break c then 1 + count_lines (d # cs) else count_lines (d # cs))"

text \<open>\<open>replace("\r\n", "\n").replace("\r", "\n")\<close>.\<close>

definition universal_newlines :: "string \<Rightarrow> string" where
  "universal_newlines s = replace_str [cr] nl (replace_str [cr, lf] nl s)"

lemma replace_absent: "partition_at p s = None \<Longrightarrow> p \<noteq> [] \<Longrightarrow> replace_str p r s = s"
  by (simp add: replace_str_def split_str.simps [of p s])

lemma universal_newlines_id: "cr \<notin> set s \<Longrightarrow> universal_newlines s = s"
proof -
  assume "cr \<notin> set s"
  then have "partition_at [cr, lf] s = None" "partition_at [cr] s = None" by (auto simp: partition_at_None)
  then show "universal_newlines s = s" by (simp add: universal_newlines_def replace_absent)
qed

text \<open>\<open>f"{n:6}"\<close>: right-aligned in six columns.\<close>

definition pad_left :: "nat \<Rightarrow> string \<Rightarrow> string" where
  "pad_left w s = replicate (w - length s) (CHR '' '') @ s"

text \<open>\<open>xs[a:b]\<close> with bounds that are not negative.\<close>

definition slice :: "nat \<Rightarrow> nat \<Rightarrow> 'a list \<Rightarrow> 'a list" where
  "slice a b xs = drop a (take b xs)"

subsection \<open>Words\<close>

function words :: "string \<Rightarrow> string list" where
  "words s =
     (case dropWhile is_space s of
        [] \<Rightarrow> []
      | c # cs \<Rightarrow> takeWhile (\<lambda>x. \<not> is_space x) (c # cs) # words (dropWhile (\<lambda>x. \<not> is_space x) (c # cs)))"
  by pat_completeness auto
termination
proof (relation "measure length")
  fix s c cs assume d: "dropWhile is_space s = c # cs"
  then have "\<not> is_space c" by (metis hd_dropWhile list.distinct(1) list.sel(1))
  then have "length (dropWhile (\<lambda>x. \<not> is_space x) (c # cs)) \<le> length cs" by (simp add: length_dropWhile_le)
  moreover have "length (c # cs) \<le> length s" using d by (metis length_dropWhile_le)
  ultimately show "(dropWhile (\<lambda>x. \<not> is_space x) (c # cs), s) \<in> measure length" by simp
qed simp

declare words.simps [simp del]

end
