(* ===== verification/EditTool.thy ===== *)
theory EditTool
  imports PyLines Codec
begin

text \<open>
  The file editor tool, \<open>tools/edit_file.py\<close>.  The sandbox's data plane is a store of files by
  path: text that decodes as UTF-8, other bytes, or a directory; listing a directory and refusing a
  write are answers of the sandbox.  A method returns the editor with the observation or an error.
\<close>

subsection \<open>The sandbox's files\<close>

datatype node = Text string | Binary | Directory

record sandbox =
  sx_files :: "(string \<times> node) list"
  sx_write_error :: "string \<Rightarrow> exn option"
  sx_find :: "string \<Rightarrow> nat \<times> string \<times> string"

record editor =
  ed_sandbox :: sandbox
  ed_history :: "(string \<times> string list) list"

type_synonym 'a eop = "editor \<times> 'a result"

definition ToolError :: "string \<Rightarrow> exn" where
  "ToolError m = OtherException ''ToolError'' m"

definition path_exists :: "editor \<Rightarrow> string \<Rightarrow> bool" where
  "path_exists ed path = dhas (sx_files (ed_sandbox ed)) path"

definition is_directory :: "editor \<Rightarrow> string \<Rightarrow> bool" where
  "is_directory ed path = (dget (sx_files (ed_sandbox ed)) path = Some Directory)"

definition read_text :: "editor \<Rightarrow> string \<Rightarrow> string result" where
  "read_text ed path =
     (case dget (sx_files (ed_sandbox ed)) path of
        Some (Text s) \<Rightarrow> Inr (universal_newlines s)
      | Some Binary \<Rightarrow> Inl (ToolError (''The file `'' @ path @ ''` is not valid UTF-8 text.''))
      | Some Directory \<Rightarrow> Inl (OtherException ''IsADirectoryError'' path)
      | None \<Rightarrow> Inl (OtherException ''FileNotFoundError'' path))"

definition put_file :: "string \<Rightarrow> string \<Rightarrow> editor \<Rightarrow> editor" where
  "put_file path s ed =
     ed\<lparr>ed_sandbox := (ed_sandbox ed)\<lparr>sx_files := dset (sx_files (ed_sandbox ed)) path (Text s)\<rparr>\<rparr>"

definition write_text :: "string \<Rightarrow> string \<Rightarrow> editor \<Rightarrow> unit eop" where
  "write_text path s ed =
     (case sx_write_error (ed_sandbox ed) path of
        Some e \<Rightarrow> (ed, Inl e)
      | None \<Rightarrow> (put_file path s ed, Inr ()))"

definition history_of :: "editor \<Rightarrow> string \<Rightarrow> string list" where
  "history_of ed path = dget_or (ed_history ed) path []"

definition push_history :: "string \<Rightarrow> string \<Rightarrow> editor \<Rightarrow> editor" where
  "push_history path s ed = ed\<lparr>ed_history := dset (ed_history ed) path (history_of ed path @ [s])\<rparr>"

definition pop_history :: "string \<Rightarrow> editor \<Rightarrow> editor" where
  "pop_history path ed = ed\<lparr>ed_history := dset (ed_history ed) path (butlast (history_of ed path))\<rparr>"

subsection \<open>Output\<close>

definition SNIPPET_LINES :: nat where "SNIPPET_LINES = 4"
definition MAX_RESPONSE_LEN :: nat where "MAX_RESPONSE_LEN = 16000"

definition TRUNCATED_MESSAGE :: string where
  "TRUNCATED_MESSAGE = ''<response clipped><NOTE>To save on context only part of this file has been shown to you. '' @
     ''You should retry this tool after you have searched inside the file '' @
     ''with `grep -n` in order to find the line numbers of what you are looking for.</NOTE>''"

definition maybe_truncate :: "string \<Rightarrow> string" where
  "maybe_truncate s =
     (if length s \<le> MAX_RESPONSE_LEN then s else take MAX_RESPONSE_LEN s @ TRUNCATED_MESSAGE)"

definition number_line :: "nat \<Rightarrow> nat \<times> string \<Rightarrow> string" where
  "number_line init_line il = pad_left 6 (str_of_nat (fst il + init_line)) @ [tab] @ snd il"

definition make_output :: "string \<Rightarrow> string \<Rightarrow> nat \<Rightarrow> string" where
  "make_output content descriptor init_line =
     ''Here'' @ [quote1] @ ''s the result of running `cat -n` on '' @ descriptor @ '':'' @ nl @
     unlines (map (number_line init_line) (List.enumerate 0 (lines (expandtabs (maybe_truncate content))))) @ nl"

subsection \<open>Validation\<close>

definition validate_path :: "string \<Rightarrow> string \<Rightarrow> editor \<Rightarrow> string option" where
  "validate_path command path ed =
     (let ex = path_exists ed path; dir = (ex \<and> is_directory ed path) in
      if command = ''create'' \<and> endswith path ''/''
      then Some (''The path `'' @ path @ ''` ends with `/`. The `create` command requires a file path.'')
      else if \<not> ex \<and> command \<noteq> ''create''
      then Some (''The path `'' @ path @ ''` does not exist. Please provide a valid path.'')
      else if ex \<and> command = ''create''
      then Some (''File already exists at: `'' @ path @ ''`. Cannot overwrite files using command `create`.'')
      else if dir \<and> command \<noteq> ''view''
      then Some (''The path `'' @ path @ ''` is a directory and only the `view` command can be used on directories'')
      else None)"

subsection \<open>Commands\<close>

definition range_str :: "int list \<Rightarrow> string" where
  "range_str r = ''['' @ join '', '' (map str_of_int r) @ '']''"

definition view_lines :: "int list \<Rightarrow> string \<Rightarrow> string + nat \<times> string" where
  "view_lines r content =
     (let ls = lines content; n = length ls; bad = ''Invalid `view_range`: '' @ range_str r in
      case r of
        [a, b] \<Rightarrow>
          if a < 1 \<or> a > int n
          then Inl (bad @ ''. Its first element `'' @ str_of_int a @ ''` should be within the range of lines of the file: '' @
                 range_str [1, int n])
          else if b > int n
          then Inl (bad @ ''. Its second element `'' @ str_of_int b @ ''` should be smaller than the number of lines in the file: `'' @
                 str_of_nat n @ ''`'')
          else if b \<noteq> -1 \<and> b < a
          then Inl (bad @ ''. Its second element `'' @ str_of_int b @ ''` should be larger or equal than its first `'' @
                 str_of_int a @ ''`'')
          else Inr (nat a, unlines (slice (nat a - 1) (if b = -1 then n else nat b) ls))
      | _ \<Rightarrow> Inl ''Invalid `view_range`. It should be a list of two integers.'')"

definition view_file :: "string \<Rightarrow> int list option \<Rightarrow> editor \<Rightarrow> string eop" where
  "view_file path view_range ed =
     (if is_directory ed path then
        (ed, Inr (if view_range \<noteq> None \<and> view_range \<noteq> Some []
              then ''The `view_range` parameter is not allowed when `path` points to a directory.''
              else case sx_find (ed_sandbox ed) path of (code, out, err) \<Rightarrow>
                if code \<noteq> 0 then ''Failed to list directory `'' @ path @ ''`: '' @ strip err
                else ''Here'' @ [quote1] @ ''s the files and directories up to 2 levels deep in `'' @ path @
                  ''`, excluding hidden items:'' @ nl @ out @ nl))
      else
        (case read_text ed path of
           Inl e \<Rightarrow> (ed, Inl e)
         | Inr content \<Rightarrow>
             (case view_range of
                Some (a # r) \<Rightarrow>
                  (case view_lines (a # r) content of
                     Inl m \<Rightarrow> (ed, Inr m)
                   | Inr (first, part) \<Rightarrow> (ed, Inr (make_output part path first)))
              | _ \<Rightarrow> (ed, Inr (make_output content path 1)))))"

definition rstrip_slash :: "string \<Rightarrow> string" where
  "rstrip_slash s = rev (dropWhile (\<lambda>c. c = CHR ''/'') (rev s))"

text \<open>\<open>os.path.dirname\<close>.\<close>

definition dirname :: "string \<Rightarrow> string" where
  "dirname p =
     (let head = rev (dropWhile (\<lambda>c. c \<noteq> CHR ''/'') (rev p)) in
      if rstrip_slash head = [] then head else rstrip_slash head)"

definition create_file :: "string \<Rightarrow> string option \<Rightarrow> editor \<Rightarrow> string eop" where
  "create_file path file_text ed =
     (case file_text of
        None \<Rightarrow> (ed, Inr ''Parameter `file_text` is required for command: create'')
      | Some s \<Rightarrow>
          (let d = dirname (rstrip_slash path); parent = (if d = [] then ''/'' else d) in
           if \<not> is_directory ed parent
           then (ed, Inr (''The parent directory '' @ parent @ '' does not exist. Please create it first.''))
           else
             (case write_text path s ed of
                (ed1, Inl e) \<Rightarrow> (ed1, Inl e)
              | (ed1, Inr _) \<Rightarrow> (push_history path [] ed1, Inr (''File created successfully at: '' @ path)))))"

definition edit_message :: "string \<Rightarrow> string" where
  "edit_message path = ''The file '' @ path @ '' has been edited. ''"

definition replace_snippet :: "string \<Rightarrow> string \<Rightarrow> string \<Rightarrow> string \<Rightarrow> string" where
  "replace_snippet path before new_str new_content =
     (let line = count_str nl before;
          first = max 1 (line - SNIPPET_LINES);
          last_line = min (line + SNIPPET_LINES + count_str nl new_str) (count_lines new_content)
      in make_output (unlines (slice (first - 1) last_line (lines new_content))) (''a snippet of '' @ path) first)"

definition lines_with :: "string \<Rightarrow> string \<Rightarrow> nat list" where
  "lines_with old_str content =
     map (\<lambda>(i, l). i + 1) (filter (\<lambda>(i, l). contains l old_str) (List.enumerate 0 (lines content)))"

definition str_replace :: "string \<Rightarrow> string option \<Rightarrow> string option \<Rightarrow> editor \<Rightarrow> string eop" where
  "str_replace path old_opt new_opt ed =
     (case old_opt of
        Some (c # cs) \<Rightarrow>
          (case read_text ed path of
             Inl e \<Rightarrow> (ed, Inl e)
           | Inr raw \<Rightarrow>
               (let content = expandtabs raw; old_str = expandtabs (c # cs);
                    new_str = (case new_opt of None \<Rightarrow> [] | Some s \<Rightarrow> expandtabs s);
                    n = count_str old_str content in
                if n = 0
                then (ed, Inr (''No replacement was performed, old_str `'' @ old_str @ ''` did not appear verbatim in '' @ path @ ''.''))
                else if n > 1
                then (ed, Inr (''No replacement was performed. Multiple occurrences of old_str `'' @ old_str @
                       ''` in lines '' @ range_str (map int (lines_with old_str content)) @ ''. Please ensure it is unique''))
                else if new_str = old_str
                then (ed, Inr (''No replacement was performed, old_str `'' @ old_str @ ''` is the same as new_str `'' @ new_str @ ''`.''))
                else
                  (let new_content = replace_str old_str new_str content in
                   case write_text path new_content ed of
                     (ed1, Inl e) \<Rightarrow> (ed1, Inl e)
                   | (ed1, Inr _) \<Rightarrow>
                       (push_history path content ed1,
                        Inr (edit_message path @ replace_snippet path (hd (split_str old_str content)) new_str new_content @
                          ''Review the changes and make sure they are as expected. Edit the file again if necessary.'')))))
      | _ \<Rightarrow> (ed, Inr ''Parameter `old_str` is required for command: str_replace and must be a non-empty string.''))"

definition insert_lines :: "nat \<Rightarrow> string list \<Rightarrow> string list \<Rightarrow> string list" where
  "insert_lines k new_lines ls = take k ls @ new_lines @ drop k ls"

definition insert_snippet :: "nat \<Rightarrow> string list \<Rightarrow> string list \<Rightarrow> string list" where
  "insert_snippet k new_lines ls =
     slice (k - SNIPPET_LINES) k ls @ new_lines @ slice k (k + SNIPPET_LINES) ls"

definition insert_text :: "string \<Rightarrow> int option \<Rightarrow> string option \<Rightarrow> editor \<Rightarrow> string eop" where
  "insert_text path insert_line new_opt ed =
     (case (insert_line, new_opt) of
        (None, _) \<Rightarrow> (ed, Inr ''Parameter `insert_line` is required for command: insert'')
      | (_, None) \<Rightarrow> (ed, Inr ''Parameter `new_str` is required for command: insert'')
      | (Some k, Some s) \<Rightarrow>
          (case read_text ed path of
             Inl e \<Rightarrow> (ed, Inl e)
           | Inr raw \<Rightarrow>
               (let content = expandtabs raw; ls = lines content; new_lines = lines (expandtabs s); n = length ls in
                if k < 0 \<or> k > int n
                then (ed, Inr (''Invalid `insert_line` parameter: '' @ str_of_int k @
                       ''. It should be within the range of lines of the file: '' @ range_str [0, int n]))
                else
                  (case write_text path (unlines (insert_lines (nat k) new_lines ls)) ed of
                     (ed1, Inl e) \<Rightarrow> (ed1, Inl e)
                   | (ed1, Inr _) \<Rightarrow>
                       (push_history path content ed1,
                        Inr (edit_message path @
                          make_output (unlines (insert_snippet (nat k) new_lines ls)) ''a snippet of the edited file''
                            (nat (max 1 (k - int SNIPPET_LINES + 1))) @
                          ''Review the changes and make sure they are as expected (correct indentation, no duplicate lines, etc). '' @
                          ''Edit the file again if necessary.''))))))"

definition undo_edit :: "string \<Rightarrow> editor \<Rightarrow> string eop" where
  "undo_edit path ed =
     (if history_of ed path = [] then (ed, Inr (''No edit history found for '' @ path @ ''.''))
      else
        (let old_text = last (history_of ed path) in
         case write_text path old_text ed of
           (ed1, Inl e) \<Rightarrow> (ed1, Inl e)
         | (ed1, Inr _) \<Rightarrow>
             (pop_history path ed1,
              Inr (''Last edit to '' @ path @ '' undone successfully. '' @ make_output old_text path 1))))"

subsection \<open>Dispatch\<close>

text \<open>The arguments after pydantic's validation.\<close>

record edit_args =
  ea_command :: string
  ea_path :: string
  ea_file_text :: "string option"
  ea_old_str :: "string option"
  ea_new_str :: "string option"
  ea_insert_line :: "int option"
  ea_view_range :: "int list option"

definition edit_apply :: "edit_args \<Rightarrow> editor \<Rightarrow> string eop" where
  "edit_apply a ed =
     (let command = ea_command a; path = ea_path a in
      if command = [] then (ed, Inl (ToolError ''Parameter `command` is required.''))
      else if path = [] then (ed, Inl (ToolError ''Parameter `path` is required.''))
      else case validate_path command path ed of
        Some m \<Rightarrow> (ed, Inr m)
      | None \<Rightarrow>
          if command = ''view'' then view_file path (ea_view_range a) ed
          else if command = ''create'' then create_file path (ea_file_text a) ed
          else if command = ''str_replace'' then str_replace path (ea_old_str a) (ea_new_str a) ed
          else if command = ''insert'' then insert_text path (ea_insert_line a) (ea_new_str a) ed
          else if command = ''undo_edit'' then undo_edit path ed
          else (ed, Inr (''Unrecognized command `'' @ command @ ''`. The allowed commands for the str_replace_editor are: '' @
                 ''`view`, `create`, `str_replace`, `insert`, `undo_edit`'')))"

end
