(* ===== verification/EditProps.thy ===== *)
theory EditProps
  imports EditTool
begin

text \<open>
  Properties of the file editor: a replacement happens exactly when the old text occurs once, and
  undoing an edit restores the file and the history.
\<close>

lemma put_file_files [simp]:
  "sx_files (ed_sandbox (put_file path s ed)) = dset (sx_files (ed_sandbox ed)) path (Text s)"
  "ed_history (put_file path s ed) = ed_history ed"
  "sx_write_error (ed_sandbox (put_file path s ed)) = sx_write_error (ed_sandbox ed)"
  by (simp_all add: put_file_def)

lemma push_history_simps [simp]:
  "ed_sandbox (push_history path s ed) = ed_sandbox ed"
  "history_of (push_history path s ed) p = (if p = path then history_of ed path @ [s] else history_of ed p)"
  by (simp_all add: push_history_def history_of_def dget_or_def)

lemma pop_history_simps [simp]:
  "ed_sandbox (pop_history path ed) = ed_sandbox ed"
  "history_of (pop_history path ed) p = (if p = path then butlast (history_of ed path) else history_of ed p)"
  by (simp_all add: pop_history_def history_of_def dget_or_def)

lemma history_of_put_file [simp]: "history_of (put_file path s ed) p = history_of ed p"
  by (simp add: history_of_def)

lemma write_text_cases:
  "write_text path s ed =
     (case sx_write_error (ed_sandbox ed) path of Some e \<Rightarrow> (ed, Inl e) | None \<Rightarrow> (put_file path s ed, Inr ()))"
  by (simp add: write_text_def)

lemma expandtabs_ne: "expandtabs (c # cs) \<noteq> []"
  by (simp add: expandtabs_def)

text \<open>What \<open>str_replace\<close> does to the editor, by the number of occurrences.\<close>

definition replacement :: "string option \<Rightarrow> string" where
  "replacement new_opt = (case new_opt of None \<Rightarrow> [] | Some s \<Rightarrow> expandtabs s)"

lemma str_replace_effect:
  assumes "read_text ed path = Inr raw" "old = expandtabs (c # cs)"
  shows "fst (str_replace path (Some (c # cs)) new_opt ed) =
    (if count_str old (expandtabs raw) = 1 \<and> replacement new_opt \<noteq> old \<and> sx_write_error (ed_sandbox ed) path = None
     then push_history path (expandtabs raw)
            (put_file path (replace_str old (replacement new_opt) (expandtabs raw)) ed)
     else ed)"
  using assms by (auto simp: str_replace_def Let_def write_text_cases replacement_def split: option.splits)

text \<open>
  \<open>str_replace\<close> edits a file exactly when the old text, with its tabs expanded, occurs once in
  the tab-expanded file, differs from the new text, and the sandbox accepts the write.  Then the one
  occurrence is replaced, everything before and after it is kept, and the old content goes onto the
  undo stack; in every other case neither the files nor the undo stack change.
\<close>

theorem str_replace_edits_iff:
  assumes "read_text ed path = Inr raw"
  shows "(let old = expandtabs (c # cs); file = expandtabs raw; ed' = fst (str_replace path (Some (c # cs)) new_opt ed) in
     if count_str old file = 1 \<and> replacement new_opt \<noteq> old \<and> sx_write_error (ed_sandbox ed) path = None
     then \<exists>a b. file = a @ old @ b \<and> (\<forall>x y. file = x @ old @ y \<longrightarrow> length a \<le> length x) \<and>
        (\<forall>x y. b \<noteq> x @ old @ y) \<and>
        ed' = push_history path file (put_file path (a @ replacement new_opt @ b) ed)
     else ed' = ed)"
proof -
  let ?old = "expandtabs (c # cs)" and ?file = "expandtabs raw"
  show ?thesis
  proof (cases "count_str ?old ?file = 1")
    case True
    from count_str_1 [OF expandtabs_ne True] obtain a b where
      p: "partition_at ?old ?file = Some (a, b)" "partition_at ?old b = None" "split_str ?old ?file = [a, b]" .
    from p(3) have "replace_str ?old (replacement new_opt) ?file = a @ replacement new_opt @ b"
      by (simp add: replace_str_def)
    with str_replace_effect [OF assms refl, of c cs new_opt] True
    have E: "fst (str_replace path (Some (c # cs)) new_opt ed) =
        (if replacement new_opt \<noteq> ?old \<and> sx_write_error (ed_sandbox ed) path = None
         then push_history path ?file (put_file path (a @ replacement new_opt @ b) ed) else ed)" by simp
    have F: "?file = a @ ?old @ b" "\<forall>x y. ?file = x @ ?old @ y \<longrightarrow> length a \<le> length x" "\<forall>x y. b \<noteq> x @ ?old @ y"
      using partition_at_Some [OF p(1)] partition_at_first [OF p(1)] p(2) by (simp_all add: partition_at_None)
    show ?thesis
    proof (cases "replacement new_opt \<noteq> ?old \<and> sx_write_error (ed_sandbox ed) path = None")
      case c: True
      from E c have ed': "fst (str_replace path (Some (c # cs)) new_opt ed) =
          push_history path ?file (put_file path (a @ replacement new_opt @ b) ed)" by (simp only: if_True simp_thms)
      have cond: "count_str ?old ?file = 1 \<and> replacement new_opt \<noteq> ?old \<and> sx_write_error (ed_sandbox ed) path = None"
        using True c by blast
      show ?thesis unfolding Let_def if_P [OF cond] by (intro exI [of _ a] exI [of _ b] conjI F ed')
    next
      case False
      then have cond: "\<not> (count_str ?old ?file = 1 \<and> replacement new_opt \<noteq> ?old \<and> sx_write_error (ed_sandbox ed) path = None)"
        by blast
      show ?thesis unfolding Let_def if_not_P [OF cond] using E False by (simp only: if_False simp_thms)
    qed
  next
    case False
    with str_replace_effect [OF assms refl] show ?thesis by (simp add: Let_def)
  qed
qed

definition demo_editor :: "string \<Rightarrow> editor" where
  "demo_editor s = \<lparr>ed_sandbox = \<lparr>sx_files = [(''/f'', Text s)], sx_write_error = (\<lambda>_. None), sx_find = (\<lambda>_. (0, [], []))\<rparr>,
     ed_history = []\<rparr>"

lemma demo_read: "read_text (demo_editor ''x = 1'') ''/f'' = Inr ''x = 1''"
proof -
  have "universal_newlines ''x = 1'' = ''x = 1''"
    by (rule universal_newlines_id) code_simp
  then show ?thesis by (simp add: read_text_def demo_editor_def)
qed

lemma str_replace_edits_iff_witness:
  "fst (str_replace ''/f'' (Some ''y'') (Some ''2'') (demo_editor ''x = 1'')) = demo_editor ''x = 1''"
proof -
  have "count_str (expandtabs ''y'') (expandtabs ''x = 1'') \<noteq> 1" by code_simp
  with str_replace_edits_iff [OF demo_read, of "CHR ''y''" "[]" "Some ''2''"] show ?thesis by (simp add: Let_def)
qed

subsection \<open>Undo\<close>

lemma edit_effect:
  assumes "edit_apply a ed = (ed1, Inr m)" "ed1 \<noteq> ed" "ea_command a \<in> {''str_replace'', ''insert''}"
  obtains raw new where "read_text ed (ea_path a) = Inr raw"
    "ed1 = push_history (ea_path a) (expandtabs raw) (put_file (ea_path a) new ed)"
proof -
  let ?p = "ea_path a"
  from assms consider "str_replace ?p (ea_old_str a) (ea_new_str a) ed = (ed1, Inr m)"
    | "insert_text ?p (ea_insert_line a) (ea_new_str a) ed = (ed1, Inr m)"
    by (auto simp: edit_apply_def Let_def split: if_splits option.splits)
  then show thesis
  proof cases
    case 1
    from 1 assms(2) obtain c cs where o: "ea_old_str a = Some (c # cs)"
      by (auto simp: str_replace_def split: option.splits list.splits)
    from 1 assms(2) o obtain raw where r: "read_text ed ?p = Inr raw"
      by (auto simp: str_replace_def split: sum.splits)
    from str_replace_effect [OF r refl, of c cs "ea_new_str a"] 1 o assms(2) r that show thesis
      by (auto split: if_splits)
  next
    case 2
    then show thesis using assms(2) that
      by (auto simp: insert_text_def Let_def write_text_cases split: option.splits sum.splits if_splits)
  qed
qed

lemma insert_effect:
  assumes "read_text ed path = Inr raw" "0 \<le> k" "k \<le> int (length (lines (expandtabs raw)))"
    "sx_write_error (ed_sandbox ed) path = None"
  shows "\<exists>m. insert_text path (Some k) (Some s) ed =
    (push_history path (expandtabs raw) (put_file path
       (unlines (insert_lines (nat k) (lines (expandtabs s)) (lines (expandtabs raw)))) ed), Inr m)"
  using assms by (simp add: insert_text_def Let_def write_text_cases)

text \<open>
  undo is the inverse of an edit on a text file without tabs and carriage returns: after any
  \<open>str_replace\<close> or \<open>insert\<close> that changed the file, \<open>undo_edit\<close> restores the content of every path
  and every undo stack.
\<close>

theorem undo_restores:
  assumes "edit_apply a ed = (ed1, Inr m)" "ed1 \<noteq> ed" "ea_command a \<in> {''str_replace'', ''insert''}"
    and "dget (sx_files (ed_sandbox ed)) (ea_path a) = Some (Text s)" "tab \<notin> set s" "cr \<notin> set s"
    and "sx_write_error (ed_sandbox ed) (ea_path a) = None"
  shows "\<exists>ed2 m2. undo_edit (ea_path a) ed1 = (ed2, Inr m2) \<and>
    (\<forall>p. dget (sx_files (ed_sandbox ed2)) p = dget (sx_files (ed_sandbox ed)) p \<and> history_of ed2 p = history_of ed p)"
proof -
  from edit_effect [OF assms(1-3)] obtain raw new where r: "read_text ed (ea_path a) = Inr raw"
    and ed1: "ed1 = push_history (ea_path a) (expandtabs raw) (put_file (ea_path a) new ed)" .
  from r assms(4) have "raw = s" by (simp add: read_text_def universal_newlines_id [OF assms(6)])
  then have "expandtabs raw = s" using expandtabs_no_tab [OF assms(5)] by simp
  with ed1 assms(4,7) show ?thesis
    by (auto simp: undo_edit_def Let_def write_text_cases)
qed

definition demo_edit :: edit_args where
  "demo_edit = \<lparr>ea_command = ''insert'', ea_path = ''/f'', ea_file_text = None, ea_old_str = None, ea_new_str = Some ''y'',
     ea_insert_line = Some 0, ea_view_range = None\<rparr>"

lemma undo_restores_witness:
  "\<exists>ed1 ed2 m m2. edit_apply demo_edit (demo_editor ''x = 1'') = (ed1, Inr m) \<and> ed1 \<noteq> demo_editor ''x = 1'' \<and>
     undo_edit ''/f'' ed1 = (ed2, Inr m2) \<and> dget (sx_files (ed_sandbox ed2)) ''/f'' = Some (Text ''x = 1'')"
proof -
  let ?ed = "demo_editor ''x = 1''"
  have w: "sx_write_error (ed_sandbox ?ed) ''/f'' = None" by (simp add: demo_editor_def)
  from insert_effect [OF demo_read, of 0 "''y''", OF order_refl _ w] obtain ed1 m where
    i: "insert_text ''/f'' (Some 0) (Some ''y'') ?ed = (ed1, Inr m)" and h: "history_of ed1 ''/f'' \<noteq> []" by auto
  have "validate_path ''insert'' ''/f'' ?ed = None"
    by (simp add: validate_path_def Let_def path_exists_def is_directory_def dhas_def demo_editor_def)
  with i have e: "edit_apply demo_edit ?ed = (ed1, Inr m)" "history_of ed1 ''/f'' \<noteq> []"
    by (simp_all add: edit_apply_def demo_edit_def h)
  have ne: "ed1 \<noteq> ?ed" using e(2) by (auto simp: history_of_def dget_or_def demo_editor_def)
  have "ea_path demo_edit = ''/f''" "ea_command demo_edit = ''insert''" by (simp_all add: demo_edit_def)
  moreover have "tab \<notin> set ''x = 1''" "cr \<notin> set ''x = 1''" by code_simp+
  moreover have "dget (sx_files (ed_sandbox ?ed)) ''/f'' = Some (Text ''x = 1'')" "sx_write_error (ed_sandbox ?ed) ''/f'' = None"
    by (simp_all add: demo_editor_def)
  ultimately obtain ed2 m2 where "undo_edit ''/f'' ed1 = (ed2, Inr m2)"
    "dget (sx_files (ed_sandbox ed2)) ''/f'' = Some (Text ''x = 1'')"
    using undo_restores [OF e(1) ne, of "''x = 1''"] by auto
  with e(1) ne show ?thesis by blast
qed

text \<open>
  With a tab in the file undo does not restore it: the undo stack holds the tab-expanded content.
  And undoing a creation leaves an empty file, which \<open>create\<close> then refuses to overwrite.
\<close>

lemma undo_loses_tabs:
  "(let ed1 = fst (str_replace ''/f'' (Some ''x'') (Some ''y'') (demo_editor [tab, CHR ''x'']))
    in dget (sx_files (ed_sandbox (fst (undo_edit ''/f'' ed1)))) ''/f'') = Some (Text (replicate 8 (CHR '' '') @ ''x''))"
  by code_simp

lemma undo_create_leaves_empty_file:
  assumes "create_file path (Some s) ed = (ed1, Inr m)" "ed1 \<noteq> ed" "sx_write_error (ed_sandbox ed) path = None"
  shows "dget (sx_files (ed_sandbox (fst (undo_edit path ed1)))) path = Some (Text [])"
  using assms by (auto simp: create_file_def Let_def write_text_cases undo_edit_def split: if_splits)

end
