(* ===== verification/Tools.thy ===== *)
theory Tools
  imports EditTool
begin

text \<open>
  The tool layer, \<open>tools/base.py\<close>: results, the function schemas shown to the model, the toolbox
  with its life cycle and its dispatch.  A tool is a record of its operations on a state \<open>'s\<close>, which
  holds the sandbox and the tools' own state; the JSON parser and the validators of pydantic and
  jsonschema are part of the record or arguments.
\<close>

subsection \<open>Results\<close>

datatype tool_status = St_ok | St_format_error | St_error | St_timeout

record tool_result =
  to_text :: "string option"
  to_status :: tool_status

definition result_text :: "tool_result \<Rightarrow> string" where
  "result_text r = (case to_text r of None \<Rightarrow> [] | Some t \<Rightarrow> t)"

definition to_observation :: "nat \<Rightarrow> tool_result \<Rightarrow> string" where
  "to_observation max_length r =
     (let t = result_text r; elided = length t - max_length in
      ''Observation:'' @ nl @
      (if length t > max_length
       then take max_length t @ nl @ ''<response clipped>'' @ nl @
         ''<NOTE>The observation exceeded '' @ str_of_nat max_length @ '' characters, so '' @ str_of_nat elided @
         '' were elided. Retry with something that yields less output (e.g. head/tail/grep, or redirect to '' @
         ''a file); do not use interactive pagers.</NOTE>''
       else t))"

definition ToolCallFormatError :: "string \<Rightarrow> exn" where
  "ToolCallFormatError m = OtherException ''ToolCallFormatError'' m"

subsection \<open>Function schemas\<close>

definition is_null_variant :: "pv \<Rightarrow> bool" where
  "is_null_variant v = (v = PDict [(''type'', PStr ''null'')])"

text \<open>The \<open>anyOf\<close> of a JSON schema is a list.\<close>

definition collapse_any_of :: "dict \<Rightarrow> dict" where
  "collapse_any_of d =
     (case dget d ''anyOf'' of
        Some (PList vs) \<Rightarrow>
          (case filter (\<lambda>v. \<not> is_null_variant v) vs of
             [PDict m] \<Rightarrow> dupdate m (filter (\<lambda>(k, v). k \<noteq> ''anyOf'') d)
           | _ \<Rightarrow> d)
      | _ \<Rightarrow> d)"

definition PREFERRED_ORDER :: "string list" where
  "PREFERRED_ORDER = [''type'', ''description'', ''enum'', ''default'', ''items'', ''properties'', ''required'']"

definition order_schema :: "dict \<Rightarrow> dict" where
  "order_schema d = concat (map (\<lambda>k. case dget d k of Some v \<Rightarrow> [(k, v)] | None \<Rightarrow> []) PREFERRED_ORDER) @ filter (\<lambda>(k, v). k \<notin> set PREFERRED_ORDER) d"

fun normalize_json_schema :: "pv \<Rightarrow> pv"
  and normalize_items :: "pv list \<Rightarrow> pv list"
  and normalize_entries :: "dict \<Rightarrow> dict"
where
  "normalize_json_schema (PList vs) = PList (normalize_items vs)"
| "normalize_json_schema (PDict d) = PDict (order_schema (collapse_any_of (normalize_entries d)))"
| "normalize_json_schema v = v"
| "normalize_items [] = []"
| "normalize_items (v # vs) = normalize_json_schema v # normalize_items vs"
| "normalize_entries [] = []"
| "normalize_entries ((k, v) # d) =
     (let n = normalize_json_schema v in
      if k = ''title'' \<or> (k = ''default'' \<and> n = PNone) then normalize_entries d
      else (k, n) # normalize_entries d)"

definition build_function_schema :: "string \<Rightarrow> string \<Rightarrow> pv \<Rightarrow> pv" where
  "build_function_schema name description model_schema =
     PDict [(''type'', PStr ''function''),
       (''function'', PDict [(''name'', PStr name), (''description'', PStr description),
          (''parameters'', normalize_json_schema model_schema)])]"

subsection \<open>Tools\<close>

text \<open>
  The argument model of a tool: its JSON schema, pydantic's validation (coerced arguments or the
  details of the errors) and the errors of the JSON-schema validator.
\<close>

record args_model =
  am_schema :: pv
  am_validate :: "dict \<Rightarrow> string + dict"
  am_schema_errors :: "pv \<Rightarrow> dict \<Rightarrow> string option"

record 's tool =
  tl_name :: string
  tl_description :: string
  tl_args_model :: "args_model option"
  tl_run :: "dict \<Rightarrow> rat option \<Rightarrow> 's \<Rightarrow> 's \<times> tool_result result"
  tl_start :: "rat \<Rightarrow> 's \<Rightarrow> 's \<times> unit result"
  tl_close :: "'s \<Rightarrow> 's \<times> unit result"

definition tool_schema :: "'s tool \<Rightarrow> pv result" where
  "tool_schema t =
     (case tl_args_model t of
        None \<Rightarrow> Inl (OtherException ''NotImplementedError'' (tl_name t @ '' must set `args_model` or override schema()''))
      | Some m \<Rightarrow> Inr (build_function_schema (tl_name t) (tl_description t) (am_schema m)))"

type_synonym 's toolbox = "(string \<times> 's tool) list"

definition toolbox_of :: "'s tool list \<Rightarrow> 's toolbox" where
  "toolbox_of tools = foldl (\<lambda>tb t. dset tb (tl_name t) t) [] tools"

text \<open>The registry maps a key to the constructor of a tool class.\<close>

type_synonym 's registry = "(string \<times> (dict \<Rightarrow> 's tool result)) list"

definition get_tool :: "(rat \<Rightarrow> string) \<Rightarrow> 's registry \<Rightarrow> pv \<Rightarrow> dict \<Rightarrow> 's tool result" where
  "get_tool fr reg name kwargs =
     (let unknown = Inl (KeyError (''Unknown tool: '' @ py_repr fr name)) in
      case name of
        PStr n \<Rightarrow> (case dget reg n of Some ctor \<Rightarrow> ctor kwargs | None \<Rightarrow> unknown)
      | v \<Rightarrow> if is_list v \<or> is_dict v then Inl (TypeError (''unhashable type: '' @ repr_str (type_name v))) else unknown)"

definition tool_from_spec :: "(rat \<Rightarrow> string) \<Rightarrow> 's registry \<Rightarrow> pv \<Rightarrow> 's tool result" where
  "tool_from_spec fr reg entry =
     (let bad = Inl (ValueError (''each tools entry must be a mapping with a '' @ repr_str ''name'' @ '': '' @ py_repr fr entry)) in
      case entry of
        PDict d \<Rightarrow>
          if truthy (get_none d ''name'')
          then get_tool fr reg (get_none d ''name'') (filter (\<lambda>(k, v). k \<noteq> ''name'') d)
          else bad
      | _ \<Rightarrow> bad)"

definition toolbox_from_specs :: "(rat \<Rightarrow> string) \<Rightarrow> 's registry \<Rightarrow> pv list \<Rightarrow> 's toolbox result" where
  "toolbox_from_specs fr reg specs = rbind (rmap (tool_from_spec fr reg) specs) (\<lambda>tools. Inr (toolbox_of tools))"

definition toolbox_names :: "'s toolbox \<Rightarrow> string list" where
  "toolbox_names tb = map fst tb"

definition toolbox_schemas :: "'s toolbox \<Rightarrow> pv list result" where
  "toolbox_schemas tb = rmap (\<lambda>(k, t). tool_schema t) tb"

subsection \<open>Life cycle\<close>

text \<open>
  Attempts with a doubling timeout.  A cancellation is retried unless it was asked of the own task
  (\<open>cancelling\<close>); other control-flow exceptions pass.
\<close>

fun start_tool :: "('s \<Rightarrow> bool) \<Rightarrow> 's tool \<Rightarrow> nat \<Rightarrow> rat \<Rightarrow> 's \<Rightarrow> 's \<times> unit result" where
  "start_tool cancelling t 0 timeout s = (s, Inl (AssertionError []))"
| "start_tool cancelling t (Suc n) timeout s =
     (case tl_start t timeout s of
        (s', Inr _) \<Rightarrow> (s', Inr ())
      | (s', Inl e) \<Rightarrow>
          if (e = BaseExc ''CancelledError'' \<and> \<not> cancelling s') \<or> is_exception e
          then (if n = 0 then (s', Inl e) else start_tool cancelling t n (timeout * 2) s')
          else (s', Inl e))"

fun close_tools :: "'s tool list \<Rightarrow> 's \<Rightarrow> 's \<times> unit result" where
  "close_tools [] s = (s, Inr ())"
| "close_tools (t # ts) s =
     (case tl_close t s of
        (s', Inl e) \<Rightarrow> if is_exception e then close_tools ts s' else (s', Inl e)
      | (s', Inr _) \<Rightarrow> close_tools ts s')"

fun start_tools :: "('s \<Rightarrow> bool) \<Rightarrow> nat \<Rightarrow> rat \<Rightarrow> 's tool list \<Rightarrow> 's \<Rightarrow> 's \<times> unit result" where
  "start_tools cancelling retry timeout [] s = (s, Inr ())"
| "start_tools cancelling retry timeout (t # ts) s =
     (case start_tool cancelling t retry timeout s of
        (s', Inl e) \<Rightarrow> (s', Inl e)
      | (s', Inr _) \<Rightarrow> start_tools cancelling retry timeout ts s')"

definition toolbox_close :: "'s toolbox \<Rightarrow> 's \<Rightarrow> 's \<times> unit result" where
  "toolbox_close tb s = close_tools (map snd tb) s"

definition toolbox_enter :: "('s \<Rightarrow> bool) \<Rightarrow> int \<Rightarrow> rat \<Rightarrow> 's toolbox \<Rightarrow> 's \<Rightarrow> 's \<times> unit result" where
  "toolbox_enter cancelling retry timeout tb s =
     (case start_tools cancelling (nat (max 1 retry)) timeout (map snd tb) s of
        (s', Inr _) \<Rightarrow> (s', Inr ())
      | (s', Inl e) \<Rightarrow> (case toolbox_close tb s' of (s'', Inl e') \<Rightarrow> (s'', Inl e') | (s'', Inr _) \<Rightarrow> (s'', Inl e)))"

text \<open>\<open>async with toolbox.entered(...)\<close>: the body runs between enter and close.\<close>

definition toolbox_entered ::
  "('s \<Rightarrow> bool) \<Rightarrow> int \<Rightarrow> rat \<Rightarrow> 's toolbox \<Rightarrow> ('s \<Rightarrow> 's \<times> 'a result) \<Rightarrow> 's \<Rightarrow> 's \<times> 'a result" where
  "toolbox_entered cancelling retry timeout tb body s =
     (case toolbox_enter cancelling retry timeout tb s of
        (s1, Inl e) \<Rightarrow> (s1, Inl e)
      | (s1, Inr _) \<Rightarrow>
          (case body s1 of
             (s2, r) \<Rightarrow> (case toolbox_close tb s2 of (s3, Inl e) \<Rightarrow> (s3, Inl e) | (s3, Inr _) \<Rightarrow> (s3, r))))"

subsection \<open>Dispatch\<close>

text \<open>\<open>loads\<close> is \<open>json.loads\<close>: a value, or the text of the \<open>JSONDecodeError\<close>.\<close>

definition parse_arguments :: "(string \<Rightarrow> string + pv) \<Rightarrow> pv \<Rightarrow> pv \<Rightarrow> (rat \<Rightarrow> string) \<Rightarrow> dict result" where
  "parse_arguments loads name raw fr =
     (let need = (\<lambda>v. case v of PDict d \<Rightarrow> Inr d
            | _ \<Rightarrow> Inl (ToolCallFormatError (''Invalid action: arguments for '' @ py_repr fr name @
                     '' must be a JSON object, got '' @ type_name v @ ''.''))) in
      case raw of
        PNone \<Rightarrow> Inr []
      | PDict d \<Rightarrow> Inr d
      | PStr s \<Rightarrow>
          if strip s = [] then Inr []
          else (case loads (strip s) of
                  Inl m \<Rightarrow> Inl (ToolCallFormatError (''Invalid action: could not parse arguments for '' @ py_repr fr name @
                             '' as JSON ('' @ m @ '').''))
                | Inr v \<Rightarrow> need v)
      | v \<Rightarrow> need v)"

definition parameter_names :: "pv \<Rightarrow> string list" where
  "parameter_names schema =
     (case schema of
        PDict d \<Rightarrow> (case dget d ''properties'' of Some (PDict p) \<Rightarrow> map fst p | _ \<Rightarrow> [])
      | _ \<Rightarrow> [])"

definition str_list_repr :: "string list \<Rightarrow> string" where
  "str_list_repr xs = ''['' @ join '', '' (map repr_str xs) @ '']''"

definition validate_arguments :: "'s tool \<Rightarrow> dict \<Rightarrow> dict result" where
  "validate_arguments t args =
     (case tl_args_model t of
        None \<Rightarrow> Inr args
      | Some m \<Rightarrow>
          (let schema = normalize_json_schema (am_schema m);
               allowed = parameter_names schema;
               unknown = sort (filter (\<lambda>k. k \<notin> set allowed) (map fst args)) in
           if unknown \<noteq> []
           then Inl (ToolCallFormatError (''Invalid action: parameters '' @ str_list_repr unknown @
                  '' are not defined for function '' @ repr_str (tl_name t) @ ''.'' @ nl @
                  ''Allowed parameters should be one of: '' @ str_list_repr (sort allowed) @ ''.''))
           else case am_validate m args of
             Inl details \<Rightarrow> Inl (ToolCallFormatError (''Invalid action: arguments for function '' @ repr_str (tl_name t) @
                 '' failed schema validation: '' @ details @ ''.''))
           | Inr validated \<Rightarrow>
               (case am_schema_errors m schema validated of
                  Some details \<Rightarrow> Inl (ToolCallFormatError (''Invalid action: arguments for function '' @ repr_str (tl_name t) @
                      '' failed schema validation: '' @ details @ ''.''))
                | None \<Rightarrow> Inr validated)))"

definition find_tool :: "(rat \<Rightarrow> string) \<Rightarrow> 's toolbox \<Rightarrow> pv \<Rightarrow> 's tool result" where
  "find_tool fr tb name =
     (let unknown = Inl (ToolCallFormatError (''Invalid action: function '' @ py_repr fr name @
            '' is not defined in the tools list.'' @ nl @
            ''Allowed functions should be one of: '' @ str_list_repr (toolbox_names tb) @ ''.'')) in
      case name of
        PStr n \<Rightarrow> (case dget tb n of Some t \<Rightarrow> Inr t | None \<Rightarrow> unknown)
      | v \<Rightarrow> if is_list v \<or> is_dict v then Inl (TypeError (''unhashable type: '' @ repr_str (type_name v))) else unknown)"

text \<open>The \<open>except\<close> clauses of \<open>call\<close>.\<close>

definition call_error :: "exn \<Rightarrow> tool_result result" where
  "call_error e =
     (case e of
        OtherException c m \<Rightarrow>
          if c = ''ToolCallFormatError'' then Inr \<lparr>to_text = Some m, to_status = St_format_error\<rparr>
          else if c = ''ToolError'' then Inr \<lparr>to_text = Some (''Error: '' @ m), to_status = St_error\<rparr>
          else Inl e
      | _ \<Rightarrow> Inl e)"

definition toolbox_call ::
  "(string \<Rightarrow> string + pv) \<Rightarrow> (rat \<Rightarrow> string) \<Rightarrow> 's toolbox \<Rightarrow> pv \<Rightarrow> pv \<Rightarrow> rat option \<Rightarrow> 's \<Rightarrow> 's \<times> tool_result result" where
  "toolbox_call loads fr tb name args timeout s =
     (case rbind (find_tool fr tb name) (\<lambda>t. rbind (parse_arguments loads name args fr) (\<lambda>d.
             rbind (validate_arguments t d) (\<lambda>v. Inr (t, v)))) of
        Inl e \<Rightarrow> (s, call_error e)
      | Inr (t, v) \<Rightarrow>
          (case tl_run t v timeout s of
             (s', Inr r) \<Rightarrow> (s', Inr r)
           | (s', Inl e) \<Rightarrow> (s', call_error e)))"

subsection \<open>The control tools\<close>

definition submit_run :: "dict \<Rightarrow> tool_result" where
  "submit_run args = \<lparr>to_text = Some ''Submitted.'', to_status = St_ok\<rparr>"

definition finish_run :: "(rat \<Rightarrow> string) \<Rightarrow> dict \<Rightarrow> tool_result" where
  "finish_run fr args = \<lparr>to_text = Some (py_str fr (dget_or args ''answer'' (PStr []))), to_status = St_ok\<rparr>"

end
