(* ===== verification/ReAct.thy ===== *)
theory ReAct
  imports Tools Generation
begin

text \<open>
  The ReAct agent, \<open>agents/react/agent.py\<close>, with its chat client \<open>agents/react/model.py\<close> and the
  configuration of \<open>agents/base.py\<close>.  The HTTP exchange of one attempt is an argument; the state
  \<open>'s\<close> is the world the tools and the endpoint act on.  Token counts are the integers of the
  response's usage.
\<close>

subsection \<open>Configuration\<close>

record model_config =
  md_base_url :: "string option"
  md_api_key :: string
  md_model_name :: "string option"
  md_temperature :: "rat option"
  md_top_p :: "rat option"
  md_top_k :: "int option"
  md_max_total_tokens :: "int option"
  md_max_tokens_per_turn :: "int option"

definition opt_entry :: "string \<Rightarrow> ('a \<Rightarrow> pv) \<Rightarrow> 'a option \<Rightarrow> dict" where
  "opt_entry k f v = (case v of None \<Rightarrow> [] | Some x \<Rightarrow> [(k, f x)])"

definition sampling_params :: "model_config \<Rightarrow> dict" where
  "sampling_params m = opt_entry ''temperature'' PFloat (md_temperature m) @ opt_entry ''top_p'' PFloat (md_top_p m) @
     opt_entry ''top_k'' PInt (md_top_k m)"

record react_config =
  rx_model :: model_config
  rx_tools :: "pv list"
  rx_max_steps :: int
  rx_action_timeout :: "rat option"
  rx_timeout_budget :: int

subsection \<open>The chat client\<close>

record chat_model =
  ch_base_url :: string
  ch_model_name :: "string option"
  ch_sampling_params :: dict
  ch_tools_schemas :: "pv list"
  ch_max_retries :: nat

definition new_chat_model :: "string \<Rightarrow> string option \<Rightarrow> dict \<Rightarrow> pv list \<Rightarrow> int \<Rightarrow> chat_model" where
  "new_chat_model base_url model_name params tools_schemas max_retries =
     \<lparr>ch_base_url = rstrip_slash base_url, ch_model_name = model_name, ch_sampling_params = params,
      ch_tools_schemas = tools_schemas, ch_max_retries = nat (max 0 max_retries)\<rparr>"

definition normalize_message_for_api :: "dict \<Rightarrow> dict result" where
  "normalize_message_for_api m =
     rbind (dict_item m ''role'') (\<lambda>role.
     let c = get_none m ''content''; calls = get_none m ''tool_calls'';
         tid = get_none m ''tool_call_id''; name = get_none m ''name'' in
     Inr ([(''role'', role)] @ (if c \<noteq> PNone then [(''content'', c)] else []) @
       (if role = PStr ''assistant'' \<and> truthy calls then [(''tool_calls'', calls)] else []) @
       (if role = PStr ''tool'' \<and> tid \<noteq> PNone then [(''tool_call_id'', tid)] else []) @
       (if role = PStr ''tool'' \<and> name \<noteq> PNone then [(''name'', name)] else [])))"

definition chat_body :: "chat_model \<Rightarrow> dict list \<Rightarrow> dict option \<Rightarrow> dict result" where
  "chat_body ch messages params_opt =
     (let params = (case params_opt of Some p \<Rightarrow> p | None \<Rightarrow> ch_sampling_params ch);
          own = (case ch_model_name ch of None \<Rightarrow> PNone | Some n \<Rightarrow> PStr n);
          model_name = (if truthy (get_none params ''model'') then get_none params ''model'' else own) in
      rbind (rmap normalize_message_for_api messages) (\<lambda>ms.
      let body = dupdate [(''model'', model_name), (''messages'', PList (map PDict ms))] (dpop params ''model'') in
      Inr (if ch_tools_schemas ch = [] then body else dset body ''tools'' (PList (ch_tools_schemas ch)))))"

text \<open>One attempt: the status, the body text and what \<open>resp.json()\<close> gives, or a failed connection.\<close>

datatype http_reply = Replied int string "pv result" | Failed exn

definition transient_error :: "int \<Rightarrow> string \<Rightarrow> exn" where
  "transient_error status body = OtherException ''_TransientHTTPError'' (''HTTP '' @ str_of_int status @ '': '' @ take 500 body)"

definition read_reply :: "http_reply \<Rightarrow> pv result" where
  "read_reply r =
     (case r of
        Failed e \<Rightarrow> Inl e
      | Replied status body json \<Rightarrow>
          if status = 429 \<or> status \<ge> 500 then Inl (transient_error status body)
          else if status \<ge> 400
          then Inl (RuntimeError (''chat/completions returned HTTP '' @ str_of_int status @ '': '' @ take 1000 body))
          else json)"

text \<open>\<open>client_error\<close> holds of aiohttp's client errors and of timeouts.\<close>

definition is_retried :: "(exn \<Rightarrow> bool) \<Rightarrow> exn \<Rightarrow> bool" where
  "is_retried client_error e \<longleftrightarrow> client_error e \<or> exn_class e = ''_TransientHTTPError''"

fun post_attempts ::
  "(exn \<Rightarrow> bool) \<Rightarrow> (dict \<Rightarrow> 's \<Rightarrow> 's \<times> http_reply) \<Rightarrow> dict \<Rightarrow> nat \<Rightarrow> 's \<Rightarrow> 's \<times> pv result" where
  "post_attempts client_error http body retries s =
     (case http body s of
        (s', reply) \<Rightarrow>
          (case read_reply reply of
             Inr v \<Rightarrow> (s', Inr v)
           | Inl e \<Rightarrow>
               if is_retried client_error e
               then (case retries of 0 \<Rightarrow> (s', Inl e) | Suc n \<Rightarrow> post_attempts client_error http body n s')
               else (s', Inl e)))"

declare post_attempts.simps [simp del]

definition subscript :: "pv \<Rightarrow> string \<Rightarrow> pv result" where
  "subscript v k =
     (case v of PDict d \<Rightarrow> dict_item d k | _ \<Rightarrow> Inl (TypeError (type_name v @ '' indices must be integers or slices'')))"

definition first_item :: "pv \<Rightarrow> pv result" where
  "first_item v =
     (case v of PList (x # xs) \<Rightarrow> Inr x | PList [] \<Rightarrow> Inl (IndexError ''list index out of range'')
      | PDict d \<Rightarrow> Inl (KeyError ''0'') | _ \<Rightarrow> Inl (TypeError (type_name v @ '' object is not subscriptable'')))"

definition items_or_empty :: "pv \<Rightarrow> pv list result" where
  "items_or_empty v =
     (if \<not> truthy v then Inr []
      else case v of PList xs \<Rightarrow> Inr xs | PDict d \<Rightarrow> Inr (map (PStr \<circ> fst) d) | PStr s \<Rightarrow> Inr (map (\<lambda>c. PStr [c]) s)
      | _ \<Rightarrow> Inl (TypeError (type_name v @ '' object is not iterable'')))"

definition serialize_tool_call :: "pv \<Rightarrow> dict result" where
  "serialize_tool_call tc =
     rbind (subscript tc ''id'') (\<lambda>i.
     rbind (need_dict ''get'' tc) (\<lambda>d.
     rbind (subscript tc ''function'') (\<lambda>f.
     rbind (subscript f ''name'') (\<lambda>name.
     rbind (subscript f ''arguments'') (\<lambda>args.
     Inr [(''id'', i), (''type'', dget_or d ''type'' (PStr ''function'')),
          (''function'', PDict [(''name'', name), (''arguments'', args)])])))))"

record generation_info =
  gi_prompt_tokens :: pv
  gi_completion_tokens :: pv
  gi_finish_reason :: pv

type_synonym reply = "pv \<times> dict list \<times> generation_info"

definition parse_completion :: "pv \<Rightarrow> reply result" where
  "parse_completion data =
     rbind (subscript data ''choices'') (\<lambda>cs. rbind (first_item cs) (\<lambda>choice.
     rbind (subscript choice ''message'') (\<lambda>msg. rbind (need_dict ''get'' msg) (\<lambda>m.
     let content = (if truthy (get_none m ''content'') then get_none m ''content'' else PStr []) in
     rbind (items_or_empty (get_none m ''tool_calls'')) (\<lambda>tcs.
     rbind (rmap serialize_tool_call tcs) (\<lambda>calls.
     rbind (need_dict ''get'' data) (\<lambda>d.
     let u = get_none d ''usage'' in
     rbind (if truthy u then need_dict ''get'' u else Inr []) (\<lambda>usage.
     rbind (need_dict ''get'' choice) (\<lambda>ch.
     Inr (content, calls, \<lparr>gi_prompt_tokens = dget_or usage ''prompt_tokens'' (PInt 0),
            gi_completion_tokens = dget_or usage ''completion_tokens'' (PInt 0),
            gi_finish_reason = get_none ch ''finish_reason''\<rparr>))))))))))"

definition chat_query ::
  "(exn \<Rightarrow> bool) \<Rightarrow> (dict \<Rightarrow> 's \<Rightarrow> 's \<times> http_reply) \<Rightarrow> chat_model \<Rightarrow> dict list \<Rightarrow> dict option \<Rightarrow> 's \<Rightarrow> 's \<times> reply result" where
  "chat_query client_error http ch messages params s =
     (case chat_body ch messages params of
        Inl e \<Rightarrow> (s, Inl e)
      | Inr body \<Rightarrow>
          (case post_attempts client_error http body (ch_max_retries ch) s of
             (s', Inl e) \<Rightarrow> (s', Inl e)
           | (s', Inr data) \<Rightarrow> (s', parse_completion data)))"

subsection \<open>One turn\<close>

record agent_info =
  in_steps :: nat
  in_num_tool_calls :: nat
  in_timeouts :: nat
  in_errors :: nat
  in_total_tokens :: int
  in_error :: "string option"

record 's episode =
  ep_world :: 's
  ep_transcript :: "dict list"
  ep_info :: agent_info

record 's react_env =
  re_query :: "dict list \<Rightarrow> dict \<Rightarrow> 's \<Rightarrow> 's \<times> reply result"
  re_call :: "pv \<Rightarrow> pv \<Rightarrow> rat option \<Rightarrow> 's \<Rightarrow> 's \<times> tool_result result"

definition add_message :: "dict \<Rightarrow> 's episode \<Rightarrow> 's episode" where
  "add_message m ep = ep\<lparr>ep_transcript := ep_transcript ep @ [m]\<rparr>"

definition token_sum :: "generation_info \<Rightarrow> int result" where
  "token_sum g =
     (case (gi_prompt_tokens g, gi_completion_tokens g) of
        (PInt a, PInt b) \<Rightarrow> Inr (a + b)
      | _ \<Rightarrow> Inl (TypeError ''unsupported operand type(s) for +''))"

definition turn_budget :: "model_config \<Rightarrow> int option" where
  "turn_budget m =
     (case md_max_tokens_per_turn m of
        Some n \<Rightarrow> if n \<noteq> 0 then Some n else md_max_total_tokens m
      | None \<Rightarrow> md_max_total_tokens m)"

text \<open>The \<open>max_tokens\<close> of the next call, or no budget left.\<close>

definition next_max_tokens :: "model_config \<Rightarrow> int \<Rightarrow> int option option" where
  "next_max_tokens m spent =
     (case md_max_total_tokens m of
        None \<Rightarrow> Some (turn_budget m)
      | Some limit \<Rightarrow>
          if limit - spent \<le> 0 then None
          else Some (map_option (\<lambda>b. min b (limit - spent)) (turn_budget m)))"

definition observation_message :: "pv \<Rightarrow> pv \<Rightarrow> string \<Rightarrow> dict" where
  "observation_message i name content =
     [(''role'', PStr ''tool''), (''tool_call_id'', i), (''name'', name), (''content'', PStr content)]"

definition called_function :: "dict \<Rightarrow> dict result" where
  "called_function tc = need_dict ''get'' (dget_or tc ''function'' (PDict []))"

definition skipped_message :: "dict \<Rightarrow> dict result" where
  "skipped_message tc =
     rbind (called_function tc) (\<lambda>fn. Inr (observation_message (get_none tc ''id'') (dget_or fn ''name'' (PStr []))
       ''Skipped: timeout budget exhausted.''))"

definition count_result :: "tool_status \<Rightarrow> agent_info \<Rightarrow> agent_info" where
  "count_result st i =
     i\<lparr>in_num_tool_calls := in_num_tool_calls i + 1,
       in_timeouts := in_timeouts i + (if st = St_timeout then 1 else 0),
       in_errors := in_errors i + (if st = St_error \<or> st = St_format_error then 1 else 0)\<rparr>"

fun add_skipped :: "dict list \<Rightarrow> 's episode \<Rightarrow> 's episode \<times> unit result" where
  "add_skipped [] ep = (ep, Inr ())"
| "add_skipped (tc # tcs) ep =
     (case skipped_message tc of Inl e \<Rightarrow> (ep, Inl e) | Inr m \<Rightarrow> add_skipped tcs (add_message m ep))"

definition FINISH_TOOLS :: "pv set" where
  "FINISH_TOOLS = {PStr ''submit'', PStr ''finish''}"

fun run_tool_calls ::
  "'s react_env \<Rightarrow> react_config \<Rightarrow> bool \<Rightarrow> dict list \<Rightarrow> 's episode \<Rightarrow> 's episode \<times> string result" where
  "run_tool_calls env cfg saw_finish [] ep = (ep, Inr (if saw_finish then ''finished'' else ''completed''))"
| "run_tool_calls env cfg saw_finish (tc # tcs) ep =
     (case called_function tc of
        Inl e \<Rightarrow> (ep, Inl e)
      | Inr fn \<Rightarrow>
          (let name = dget_or fn ''name'' (PStr []) in
           case re_call env name (get_none fn ''arguments'') (rx_action_timeout cfg) (ep_world ep) of
             (w, Inl e) \<Rightarrow> (ep\<lparr>ep_world := w\<rparr>, Inl e)
           | (w, Inr r) \<Rightarrow>
               (let ep1 = add_message (observation_message (get_none tc ''id'') name (to_observation 100000 r))
                            (ep\<lparr>ep_world := w, ep_info := count_result (to_status r) (ep_info ep)\<rparr>) in
                if int (in_timeouts (ep_info ep1)) > rx_timeout_budget cfg
                then (case add_skipped tcs ep1 of (ep2, Inl e) \<Rightarrow> (ep2, Inl e) | (ep2, Inr _) \<Rightarrow> (ep2, Inr ''timeout_limit''))
                else run_tool_calls env cfg (saw_finish \<or> (name \<in> FINISH_TOOLS \<and> to_status r = St_ok)) tcs ep1)))"

definition assistant_message :: "pv \<Rightarrow> dict list \<Rightarrow> dict" where
  "assistant_message content calls =
     [(''role'', PStr ''assistant''), (''content'', content)] @
     (if calls = [] then [] else [(''tool_calls'', PList (map PDict calls))])"

definition react_step :: "'s react_env \<Rightarrow> react_config \<Rightarrow> 's episode \<Rightarrow> 's episode \<times> string result" where
  "react_step env cfg ep =
     (case next_max_tokens (rx_model cfg) (in_total_tokens (ep_info ep)) of
        None \<Rightarrow> (ep, Inr ''token_limit'')
      | Some max_tokens \<Rightarrow>
          (let params = (case max_tokens of None \<Rightarrow> sampling_params (rx_model cfg)
                         | Some n \<Rightarrow> dset (sampling_params (rx_model cfg)) ''max_tokens'' (PInt n)) in
           case re_query env (ep_transcript ep) params (ep_world ep) of
             (w, Inl e) \<Rightarrow> (ep\<lparr>ep_world := w\<rparr>, Inl e)
           | (w, Inr (content, calls, gen)) \<Rightarrow>
               (case token_sum gen of
                  Inl e \<Rightarrow> (ep\<lparr>ep_world := w\<rparr>, Inl e)
                | Inr spent \<Rightarrow>
                    (let ep1 = add_message (assistant_message content calls)
                                 (ep\<lparr>ep_world := w, ep_info := (ep_info ep)\<lparr>in_total_tokens := spent\<rparr>\<rparr>) in
                     if md_max_total_tokens (rx_model cfg) \<noteq> None \<and> spent \<ge> the (md_max_total_tokens (rx_model cfg))
                     then (ep1, Inr ''token_limit'')
                     else if gi_finish_reason gen = PStr ''length'' then (ep1, Inr ''token_limit'')
                     else if calls = [] then (ep1, Inr ''finished'')
                     else run_tool_calls env cfg False calls ep1))))"

subsection \<open>The episode\<close>

definition set_steps :: "nat \<Rightarrow> 's episode \<Rightarrow> 's episode" where
  "set_steps n ep = ep\<lparr>ep_info := (ep_info ep)\<lparr>in_steps := n\<rparr>\<rparr>"

text \<open>\<open>for step_idx in range(1, max_steps + 1)\<close> with its \<open>else\<close>; \<open>left\<close> steps are still allowed.\<close>

fun react_loop :: "'s react_env \<Rightarrow> react_config \<Rightarrow> nat \<Rightarrow> nat \<Rightarrow> 's episode \<Rightarrow> 's episode \<times> string result" where
  "react_loop env cfg i 0 ep = (ep, Inr ''max_steps'')"
| "react_loop env cfg i (Suc left) ep =
     (case react_step env cfg (set_steps i ep) of
        (ep', Inl e) \<Rightarrow> (ep', Inl e)
      | (ep', Inr reason) \<Rightarrow> if reason \<noteq> ''completed'' then (ep', Inr reason) else react_loop env cfg (Suc i) left ep')"

definition new_episode :: "dict list \<Rightarrow> 's \<Rightarrow> 's episode" where
  "new_episode messages w =
     \<lparr>ep_world = w, ep_transcript = messages,
      ep_info = \<lparr>in_steps = 0, in_num_tool_calls = 0, in_timeouts = 0, in_errors = 0, in_total_tokens = 0, in_error = None\<rparr>\<rparr>"

record agent_result =
  ar_output :: dict
  ar_transcript :: "dict list"
  ar_info :: agent_info
  ar_finished :: "bool option"

text \<open>\<open>enter\<close> and \<open>close\<close> are the toolbox's.\<close>

definition react_episode ::
  "'s react_env \<Rightarrow> react_config \<Rightarrow> ('s \<Rightarrow> 's \<times> unit result) \<Rightarrow> ('s \<Rightarrow> 's \<times> unit result) \<Rightarrow> dict list \<Rightarrow> 's \<Rightarrow>
     's episode \<times> string result" where
  "react_episode env cfg enter close messages w =
     (case enter w of
        (w1, Inl e) \<Rightarrow> (new_episode messages w1, Inl e)
      | (w1, Inr _) \<Rightarrow>
          (case react_loop env cfg 1 (nat (rx_max_steps cfg)) (new_episode messages w1) of
             (ep, r) \<Rightarrow>
               (case close (ep_world ep) of
                  (w2, Inl e) \<Rightarrow> (ep\<lparr>ep_world := w2\<rparr>, Inl e)
                | (w2, Inr _) \<Rightarrow> (ep\<lparr>ep_world := w2\<rparr>, r))))"

definition react_result :: "'s episode \<Rightarrow> string \<Rightarrow> agent_result" where
  "react_result ep reason =
     \<lparr>ar_output = [], ar_transcript = ep_transcript ep, ar_info = ep_info ep, ar_finished = Some (reason = ''finished'')\<rparr>"

definition react_run ::
  "'s react_env \<Rightarrow> react_config \<Rightarrow> ('s \<Rightarrow> 's \<times> unit result) \<Rightarrow> ('s \<Rightarrow> 's \<times> unit result) \<Rightarrow> dict list \<Rightarrow> 's \<Rightarrow>
     's \<times> agent_result result" where
  "react_run env cfg enter close messages w =
     (if md_base_url (rx_model cfg) = None
      then (w, Inl (ValueError ''react: config.model.base_url is not set (the endpoint the policy calls)''))
      else
        (case react_episode env cfg enter close messages w of
           (ep, Inr reason) \<Rightarrow> (ep_world ep, Inr (react_result ep reason))
         | (ep, Inl e) \<Rightarrow>
             if is_exception e
             then (ep_world ep, Inr (react_result (ep\<lparr>ep_info := (ep_info ep)\<lparr>in_error := Some (exn_class e @ '': '' @ exn_str e)\<rparr>\<rparr>)
                     ''unknown_error''))
             else (ep_world ep, Inl e)))"

text \<open>The environment built from the configured toolbox and chat client.\<close>

definition react_env_of ::
  "(string \<Rightarrow> string + pv) \<Rightarrow> (rat \<Rightarrow> string) \<Rightarrow> (exn \<Rightarrow> bool) \<Rightarrow> (dict \<Rightarrow> 's \<Rightarrow> 's \<times> http_reply) \<Rightarrow> chat_model \<Rightarrow>
     's toolbox \<Rightarrow> 's react_env" where
  "react_env_of loads fr client_error http ch tb =
     \<lparr>re_query = (\<lambda>messages params. chat_query client_error http ch messages (Some params)),
      re_call = toolbox_call loads fr tb\<rparr>"

definition react_agent_run ::
  "(rat \<Rightarrow> string) \<Rightarrow> (string \<Rightarrow> string + pv) \<Rightarrow> (exn \<Rightarrow> bool) \<Rightarrow> (dict \<Rightarrow> 's \<Rightarrow> 's \<times> http_reply) \<Rightarrow> ('s \<Rightarrow> bool) \<Rightarrow>
     's registry \<Rightarrow> react_config \<Rightarrow> dict list \<Rightarrow> 's \<Rightarrow> 's \<times> agent_result result" where
  "react_agent_run fr loads client_error http cancelling reg cfg messages w =
     (case md_base_url (rx_model cfg) of
        None \<Rightarrow> (w, Inl (ValueError ''react: config.model.base_url is not set (the endpoint the policy calls)''))
      | Some url \<Rightarrow>
          (case rbind (toolbox_from_specs fr reg (rx_tools cfg)) (\<lambda>tb.
                  rbind (toolbox_schemas tb) (\<lambda>schemas. Inr (tb, schemas))) of
             Inl e \<Rightarrow> (w, Inl e)
           | Inr (tb, schemas) \<Rightarrow>
               react_run (react_env_of loads fr client_error http
                   (new_chat_model url (md_model_name (rx_model cfg)) (sampling_params (rx_model cfg)) schemas 2) tb)
                 cfg (toolbox_enter cancelling 3 60 tb) (toolbox_close tb) messages w))"

end
