(* ===== verification/ReActProps.thy ===== *)
theory ReActProps
  imports ReAct
begin

text \<open>
  Properties of the agent loop: bad calls never reach a tool and never end the episode, every tool
  call is answered, and the episode keeps its budgets.
\<close>

named_theorems episode_simps \<open>fields of updated episodes\<close>

lemma add_message_simps [simp, episode_simps]:
  "ep_transcript (add_message m ep) = ep_transcript ep @ [m]" "ep_info (add_message m ep) = ep_info ep"
  "ep_world (add_message m ep) = ep_world ep"
  by (simp_all add: add_message_def)

lemma set_steps_simps [simp, episode_simps]:
  "ep_transcript (set_steps n ep) = ep_transcript ep" "ep_world (set_steps n ep) = ep_world ep"
  "in_steps (ep_info (set_steps n ep)) = n"
  "in_timeouts (ep_info (set_steps n ep)) = in_timeouts (ep_info ep)"
  "in_errors (ep_info (set_steps n ep)) = in_errors (ep_info ep)"
  "in_num_tool_calls (ep_info (set_steps n ep)) = in_num_tool_calls (ep_info ep)"
  "in_error (ep_info (set_steps n ep)) = in_error (ep_info ep)"
  by (simp_all add: set_steps_def)

subsection \<open>Dispatch of calls\<close>

lemma call_error_format: "call_error (ToolCallFormatError m) = Inr \<lparr>to_text = Some m, to_status = St_format_error\<rparr>"
  by (simp add: call_error_def ToolCallFormatError_def)

lemma call_error_Inl:
  "call_error e = Inl e' \<longleftrightarrow> e' = e \<and> (\<forall>m. e \<noteq> ToolError m \<and> e \<noteq> ToolCallFormatError m)"
  by (auto simp: call_error_def ToolError_def ToolCallFormatError_def split: exn.splits)

lemma parse_arguments_error: "parse_arguments loads name args fr = Inl e \<Longrightarrow> \<exists>m. e = ToolCallFormatError m"
  by (auto simp: parse_arguments_def Let_def split: pv.splits sum.splits if_splits)

lemma validate_arguments_error: "validate_arguments t d = Inl e \<Longrightarrow> \<exists>m. e = ToolCallFormatError m"
  by (auto simp: validate_arguments_def Let_def split: option.splits sum.splits if_splits)

lemma find_tool_name:
  "find_tool fr tb (PStr n) = (case dget tb n of Some t \<Rightarrow> Inr t
     | None \<Rightarrow> Inl (ToolCallFormatError (''Invalid action: function '' @ py_repr fr (PStr n) @
            '' is not defined in the tools list.'' @ nl @
            ''Allowed functions should be one of: '' @ str_list_repr (toolbox_names tb) @ ''.'')))"
  by (simp add: find_tool_def Let_def split: option.split)

lemma toolbox_call_known:
  assumes "dget tb n = Some t"
  shows "toolbox_call loads fr tb (PStr n) args timeout s =
    (case rbind (parse_arguments loads (PStr n) args fr) (validate_arguments t) of
       Inl e \<Rightarrow> (s, call_error e)
     | Inr v \<Rightarrow> (case tl_run t v timeout s of (w, Inr x) \<Rightarrow> (w, Inr x) | (w, Inl e) \<Rightarrow> (w, call_error e)))"
  using assms
  by (cases "parse_arguments loads (PStr n) args fr"; cases "rbind (parse_arguments loads (PStr n) args fr) (validate_arguments t)")
    (auto simp: toolbox_call_def find_tool_name split: sum.splits)

text \<open>
  a malformed call is an observation, not a failure: an unknown function, arguments that are no
  JSON object, unknown parameters and failed validation are answered with a format error and leave
  the world unchanged; a tool error is answered with an error; the only exceptions that leave
  \<open>call\<close> are those a tool raised itself, and the lookup of a name that cannot be hashed.
\<close>

theorem toolbox_call_answers:
  assumes "toolbox_call loads fr tb (PStr n) args timeout s = (s', r)"
  shows "(dget tb n = None \<longrightarrow> s' = s \<and> (\<exists>m. r = Inr \<lparr>to_text = Some m, to_status = St_format_error\<rparr>)) \<and>
    (\<forall>t e. dget tb n = Some t \<longrightarrow> rbind (parse_arguments loads (PStr n) args fr) (validate_arguments t) = Inl e \<longrightarrow>
       s' = s \<and> (\<exists>m. r = Inr \<lparr>to_text = Some m, to_status = St_format_error\<rparr>)) \<and>
    (\<forall>e. r = Inl e \<longrightarrow> (\<exists>t v. dget tb n = Some t \<and> tl_run t v timeout s = (s', Inl e) \<and>
       (\<forall>m. e \<noteq> ToolError m \<and> e \<noteq> ToolCallFormatError m)))"
proof (cases "dget tb n")
  case None
  then show ?thesis using assms by (auto simp: toolbox_call_def find_tool_name call_error_format)
next
  case (Some t)
  note run = assms [unfolded toolbox_call_known [OF Some]]
  show ?thesis
  proof (cases "rbind (parse_arguments loads (PStr n) args fr) (validate_arguments t)")
    case (Inl e)
    then obtain m where "e = ToolCallFormatError m"
      using parse_arguments_error validate_arguments_error by (auto simp: err_simps) blast+
    then show ?thesis using run Inl Some by (auto simp: call_error_format)
  next
    case (Inr v)
    obtain w x where t: "tl_run t v timeout s = (w, x)" by (rule prod.exhaust)
    then show ?thesis using run Inr Some
      by (cases x) (auto simp: call_error_Inl)
  qed
qed

text \<open>A toolbox with the submit tool.\<close>

definition demo_submit :: "unit tool" where
  "demo_submit = \<lparr>tl_name = ''submit'', tl_description = [], tl_args_model = None,
     tl_run = (\<lambda>args timeout s. (s, Inr (submit_run args))), tl_start = (\<lambda>_ s. (s, Inr ())), tl_close = (\<lambda>s. (s, Inr ()))\<rparr>"

definition demo_toolbox :: "unit toolbox" where
  "demo_toolbox = toolbox_of [demo_submit]"

lemma toolbox_call_answers_witness:
  "\<exists>m. snd (toolbox_call (\<lambda>_. Inl []) (\<lambda>_. []) demo_toolbox (PStr ''rm'') PNone None ()) =
     Inr \<lparr>to_text = Some m, to_status = St_format_error\<rparr>"
proof -
  have "dget demo_toolbox ''rm'' = None" by (simp add: demo_toolbox_def toolbox_of_def demo_submit_def)
  with toolbox_call_answers [where loads = "\<lambda>_. Inl []" and fr = "\<lambda>_. []" and tb = demo_toolbox and n = "''rm''" and
      args = PNone and timeout = None and s = "()", OF surjective_pairing]
  show ?thesis by blast
qed

subsection \<open>Answers to tool calls\<close>

definition answers :: "dict list \<Rightarrow> dict list \<Rightarrow> bool" where
  "answers tools calls \<longleftrightarrow> map (\<lambda>m. dget m ''tool_call_id'') tools = map (\<lambda>c. Some (get_none c ''id'')) calls \<and>
     (\<forall>m \<in> set tools. dget m ''role'' = Some (PStr ''tool''))"

lemma answers_Nil [simp]: "answers [] []" "answers (m # tools) [] = False" "answers [] (c # calls) = False"
  by (simp_all add: answers_def)

lemma answers_Cons [simp]:
  "answers (m # tools) (c # calls) \<longleftrightarrow> dget m ''tool_call_id'' = Some (get_none c ''id'') \<and>
     dget m ''role'' = Some (PStr ''tool'') \<and> answers tools calls"
  by (auto simp: answers_def)

lemma observation_message_fields [simp]:
  "dget (observation_message i n c) ''tool_call_id'' = Some i" "dget (observation_message i n c) ''role'' = Some (PStr ''tool'')"
  by (simp_all add: observation_message_def)

lemma add_skipped_run:
  assumes "add_skipped tcs ep = (ep', r)"
  shows "ep_info ep' = ep_info ep \<and> (\<exists>tools. ep_transcript ep' = ep_transcript ep @ tools \<and>
    (\<forall>m \<in> set tools. dget m ''role'' = Some (PStr ''tool'')) \<and> (\<forall>u. r = Inr u \<longrightarrow> answers tools tcs))"
  using assms
proof (induction tcs ep rule: add_skipped.induct)
  case (1 ep)
  then show ?case by auto
next
  case (2 tc tcs ep)
  show ?case
  proof (cases "skipped_message tc")
    case (Inl e)
    then show ?thesis using 2(2) by auto
  next
    case (Inr m)
    with 2(2) have run: "add_skipped tcs (add_message m ep) = (ep', r)" by simp
    from Inr have m: "dget m ''tool_call_id'' = Some (get_none tc ''id'')" "dget m ''role'' = Some (PStr ''tool'')"
      by (auto simp: skipped_message_def err_simps)
    from 2(1) [OF Inr run] obtain tools where t: "ep_info ep' = ep_info ep"
      "ep_transcript ep' = ep_transcript ep @ m # tools" "\<forall>u. r = Inr u \<longrightarrow> answers tools tcs"
      "\<forall>m \<in> set tools. dget m ''role'' = Some (PStr ''tool'')" by auto
    with m show ?thesis by (intro conjI exI [of _ "m # tools"]) auto
  qed
qed

text \<open>What a list of tool calls does to the episode: its counters, and its messages.\<close>

definition counters_ok :: "react_config \<Rightarrow> agent_info \<Rightarrow> bool" where
  "counters_ok cfg i \<longleftrightarrow> in_timeouts i + in_errors i \<le> in_num_tool_calls i \<and>
     int (in_timeouts i) \<le> max 0 (rx_timeout_budget cfg) + 1 \<and> in_error i = None"

definition within_budget :: "react_config \<Rightarrow> agent_info \<Rightarrow> bool" where
  "within_budget cfg i \<longleftrightarrow> int (in_timeouts i) \<le> max 0 (rx_timeout_budget cfg)"

lemma count_result_ok:
  "counters_ok cfg i \<Longrightarrow> within_budget cfg i \<Longrightarrow> counters_ok cfg (count_result st i)"
  by (auto simp: counters_ok_def within_budget_def count_result_def)

lemma run_tool_calls_run:
  assumes "run_tool_calls env cfg saw calls ep = (ep', r)" "counters_ok cfg (ep_info ep)" "within_budget cfg (ep_info ep)"
  shows "counters_ok cfg (ep_info ep') \<and> in_steps (ep_info ep') = in_steps (ep_info ep) \<and>
    (r = Inr ''completed'' \<longrightarrow> within_budget cfg (ep_info ep')) \<and>
    (\<forall>reason. r = Inr reason \<longrightarrow> reason \<in> {''completed'', ''finished'', ''timeout_limit''}) \<and>
    (\<exists>tools. ep_transcript ep' = ep_transcript ep @ tools \<and>
       (\<forall>m \<in> set tools. dget m ''role'' = Some (PStr ''tool'')) \<and> (\<forall>reason. r = Inr reason \<longrightarrow> answers tools calls))"
  using assms
proof (induction env cfg saw calls ep rule: run_tool_calls.induct)
  case (1 env cfg saw ep)
  then show ?case by (auto split: if_splits)
next
  case (2 env cfg saw tc tcs ep)
  show ?case
  proof (cases "called_function tc")
    case (Inl e)
    then show ?thesis using 2(2-4) by auto
  next
    case (Inr fn)
    let ?name = "dget_or fn ''name'' (PStr [])"
    obtain w x where c: "re_call env ?name (get_none fn ''arguments'') (rx_action_timeout cfg) (ep_world ep) = (w, x)"
      by (rule prod.exhaust)
    show ?thesis
    proof (cases x)
      case (Inl e)
      then show ?thesis using 2(2-4) Inr c by (auto simp: Let_def)
    next
      case x: (Inr res)
      let ?m = "observation_message (get_none tc ''id'') ?name (to_observation 100000 res)"
      let ?ep1 = "add_message ?m (ep\<lparr>ep_world := w, ep_info := count_result (to_status res) (ep_info ep)\<rparr>)"
      have ok: "counters_ok cfg (ep_info ?ep1)" using count_result_ok [OF 2(3,4)] by simp
      have st: "in_steps (ep_info ?ep1) = in_steps (ep_info ep)" by (simp add: count_result_def)
      show ?thesis
      proof (cases "int (in_timeouts (ep_info ?ep1)) > rx_timeout_budget cfg")
        case True
        obtain ep2 y where s: "add_skipped tcs ?ep1 = (ep2, y)" by (rule prod.exhaust)
        with 2(2) Inr c x True have out: "ep' = ep2" "r = (case y of Inl e \<Rightarrow> Inl e | Inr _ \<Rightarrow> Inr ''timeout_limit'')"
          by (auto simp: Let_def split: sum.splits)
        from add_skipped_run [OF s] obtain tools where t: "ep_info ep2 = ep_info ?ep1"
          "ep_transcript ep2 = ep_transcript ep @ ?m # tools" "\<forall>u. y = Inr u \<longrightarrow> answers tools tcs"
          "\<forall>m \<in> set tools. dget m ''role'' = Some (PStr ''tool'')" by auto
        show ?thesis using ok st t out
          by (intro conjI exI [of _ "?m # tools"]) (auto split: sum.splits)
      next
        case False
        then have wb: "within_budget cfg (ep_info ?ep1)" by (simp add: within_budget_def)
        from 2(2) Inr c x False have run: "run_tool_calls env cfg (saw \<or> (?name \<in> FINISH_TOOLS \<and> to_status res = St_ok)) tcs ?ep1 = (ep', r)"
          by (simp add: Let_def)
        from 2(1) [OF Inr refl c [symmetric] x refl False run ok wb] obtain tools where t:
          "counters_ok cfg (ep_info ep')" "in_steps (ep_info ep') = in_steps (ep_info ?ep1)"
          "r = Inr ''completed'' \<longrightarrow> within_budget cfg (ep_info ep')"
          "\<forall>reason. r = Inr reason \<longrightarrow> reason \<in> {''completed'', ''finished'', ''timeout_limit''}"
          "ep_transcript ep' = ep_transcript ep @ ?m # tools" "\<forall>reason. r = Inr reason \<longrightarrow> answers tools tcs"
          "\<forall>m \<in> set tools. dget m ''role'' = Some (PStr ''tool'')" by auto
        then show ?thesis using st by (intro conjI exI [of _ "?m # tools"]) auto
      qed
    qed
  qed
qed

lemma three_way:
  "(if a then x else if b then x else if c then y else z) = r \<Longrightarrow> r = x \<or> (c \<and> r = y) \<or> z = r"
  by (auto split: if_splits)

text \<open>The ways a step ends.  \<open>asked w n m ep\<close> is the episode after the model has answered \<open>m\<close>.\<close>

abbreviation asked :: "'s \<Rightarrow> int \<Rightarrow> dict \<Rightarrow> 's episode \<Rightarrow> 's episode" where
  "asked w n m ep \<equiv> add_message m (ep\<lparr>ep_world := w, ep_info := (ep_info ep)\<lparr>in_total_tokens := n\<rparr>\<rparr>)"

lemma react_step_outcome:
  assumes "react_step env cfg ep = (ep', r)"
  obtains (limit) "ep' = ep" "r = Inr ''token_limit''"
  | (fail) w e params where "w = fst (re_query env (ep_transcript ep) params (ep_world ep))"
      "ep' = ep\<lparr>ep_world := w\<rparr>" "r = Inl e"
  | (stop) w n content calls reason params where "w = fst (re_query env (ep_transcript ep) params (ep_world ep))"
      "ep' = asked w n (assistant_message content calls) ep" "r = Inr reason"
      "reason = ''token_limit'' \<or> (reason = ''finished'' \<and> calls = [])"
  | (tools) w n content calls params where "w = fst (re_query env (ep_transcript ep) params (ep_world ep))"
      "run_tool_calls env cfg False calls (asked w n (assistant_message content calls) ep) = (ep', r)"
proof (cases "next_max_tokens (rx_model cfg) (in_total_tokens (ep_info ep))")
  case None
  then show ?thesis using assms limit by (simp add: react_step_def)
next
  case (Some mt)
  let ?params = "case mt of None \<Rightarrow> sampling_params (rx_model cfg)
                 | Some n \<Rightarrow> dset (sampling_params (rx_model cfg)) ''max_tokens'' (PInt n)"
  obtain w x where q: "re_query env (ep_transcript ep) ?params (ep_world ep) = (w, x)" by (rule prod.exhaust)
  then have w: "w = fst (re_query env (ep_transcript ep) ?params (ep_world ep))" by simp
  show ?thesis
  proof (cases x)
    case (Inl e)
    with assms Some q have "ep' = ep\<lparr>ep_world := w\<rparr>" "r = Inl e" by (auto simp: react_step_def Let_def)
    then show ?thesis by (rule fail [OF w])
  next
    case x: (Inr y)
    obtain content calls gen where y: "y = (content, calls, gen)" by (rule prod_cases3)
    show ?thesis
    proof (cases "token_sum gen")
      case (Inl e)
      with assms Some q x y have "ep' = ep\<lparr>ep_world := w\<rparr>" "r = Inl e" by (auto simp: react_step_def Let_def)
      then show ?thesis by (rule fail [OF w])
    next
      case n: (Inr n)
      let ?ep1 = "asked w n (assistant_message content calls) ep"
      let ?A = "md_max_total_tokens (rx_model cfg) \<noteq> None \<and> n \<ge> the (md_max_total_tokens (rx_model cfg))"
      let ?B = "gi_finish_reason gen = PStr ''length''"
      have E: "react_step env cfg ep = (if ?A then (?ep1, Inr ''token_limit'') else if ?B then (?ep1, Inr ''token_limit'')
          else if calls = [] then (?ep1, Inr ''finished'') else run_tool_calls env cfg False calls ?ep1)"
        unfolding react_step_def Some option.case Let_def q x y prod.case sum.case n by (rule refl)
      have "(ep' = ?ep1 \<and> r = Inr ''token_limit'') \<or> (calls = [] \<and> ep' = ?ep1 \<and> r = Inr ''finished'') \<or>
          run_tool_calls env cfg False calls ?ep1 = (ep', r)"
        using three_way [OF trans [OF E [symmetric] assms]] unfolding prod.inject by blast
      then show ?thesis using stop [OF w] tools [OF w] by blast
    qed
  qed
qed

text \<open>
  every tool call of a turn is answered in order: a turn that is not cut off by a token limit
  appends one assistant message and then exactly one tool message per call, with the id of that
  call, even when the timeout budget runs out in the middle; a turn that is cut off appends no tool
  message, and none at all when no budget was left to ask the model.
\<close>

theorem react_step_answers:
  assumes "react_step env cfg ep = (ep', Inr reason)" "counters_ok cfg (ep_info ep)" "within_budget cfg (ep_info ep)"
  shows "(reason = ''token_limit'' \<and> ep' = ep) \<or>
    (\<exists>content calls tools. ep_transcript ep' = ep_transcript ep @ assistant_message content calls # tools \<and>
       (if reason = ''token_limit'' then tools = [] else answers tools calls))"
  using assms(1)
proof (cases rule: react_step_outcome)
  case (stop w n content calls reason' params)
  then show ?thesis
    by (intro disjI2 exI [of _ content] exI [of _ calls] exI [of _ "[]"]) auto
next
  case (tools w n content calls params)
  let ?ep1 = "asked w n (assistant_message content calls) ep"
  have ok1: "counters_ok cfg (ep_info ?ep1)" "within_budget cfg (ep_info ?ep1)"
    using assms(2,3) by (simp_all add: counters_ok_def within_budget_def)
  from run_tool_calls_run [OF tools(2) ok1] obtain ts where t: "ep_transcript ep' = ep_transcript ?ep1 @ ts" "answers ts calls"
    "reason \<noteq> ''token_limit''" by auto
  show ?thesis
    by (intro disjI2 exI [of _ content] exI [of _ calls] exI [of _ ts]) (simp add: t)
qed simp_all

text \<open>An agent whose model calls submit and then an unknown tool.\<close>

definition demo_call :: "string \<Rightarrow> string \<Rightarrow> dict" where
  "demo_call i name = [(''id'', PStr i), (''type'', PStr ''function''), (''function'', PDict [(''name'', PStr name), (''arguments'', PNone)])]"

definition demo_react_env :: "unit react_env" where
  "demo_react_env = \<lparr>re_query = (\<lambda>_ _ s. (s, Inr (PStr ''ok'', [demo_call ''a'' ''submit'', demo_call ''b'' ''rm''],
       \<lparr>gi_prompt_tokens = PInt 5, gi_completion_tokens = PInt 2, gi_finish_reason = PStr ''tool_calls''\<rparr>))),
     re_call = toolbox_call (\<lambda>_. Inl []) (\<lambda>_. []) demo_toolbox\<rparr>"

definition demo_cfg :: react_config where
  "demo_cfg = \<lparr>rx_model = \<lparr>md_base_url = Some ''u'', md_api_key = ''EMPTY'', md_model_name = None, md_temperature = None,
       md_top_p = None, md_top_k = None, md_max_total_tokens = None, md_max_tokens_per_turn = None\<rparr>,
     rx_tools = [], rx_max_steps = 3, rx_action_timeout = None, rx_timeout_budget = 0\<rparr>"


lemma demo_submit_call: "toolbox_call loads fr demo_toolbox (PStr ''submit'') PNone timeout s = (s, Inr (submit_run []))"
proof -
  have "dget demo_toolbox ''submit'' = Some demo_submit"
    by (simp add: demo_toolbox_def toolbox_of_def demo_submit_def)
  then show ?thesis
    by (simp add: toolbox_call_known parse_arguments_def validate_arguments_def err_simps) (simp add: demo_submit_def)
qed

lemma demo_unknown_call: "\<exists>m. toolbox_call loads fr demo_toolbox (PStr ''rm'') PNone timeout s =
  (s, Inr \<lparr>to_text = Some m, to_status = St_format_error\<rparr>)"
proof -
  have "dget demo_toolbox ''rm'' = None" by (simp add: demo_toolbox_def toolbox_of_def demo_submit_def)
  then show ?thesis by (simp add: toolbox_call_def find_tool_name call_error_format err_simps)
qed

lemma demo_fields:
  "re_call demo_react_env = toolbox_call (\<lambda>_. Inl []) (\<lambda>_. []) demo_toolbox" "rx_timeout_budget demo_cfg = 0"
  "rx_action_timeout demo_cfg = None"
  by (simp_all add: demo_react_env_def demo_cfg_def)

lemma demo_step: "snd (react_step demo_react_env demo_cfg (new_episode [] ())) = Inr ''finished''"
proof -
  obtain m where rm: "toolbox_call (\<lambda>_. Inl []) (\<lambda>_. []) demo_toolbox (PStr ''rm'') PNone None () =
      ((), Inr \<lparr>to_text = Some m, to_status = St_format_error\<rparr>)" using demo_unknown_call by blast
  have fns: "called_function (demo_call i n) = Inr [(''name'', PStr n), (''arguments'', PNone)]" for i n
    by (simp add: called_function_def demo_call_def need_dict_def dget_or_def)
  have E: "react_step demo_react_env demo_cfg (new_episode [] ()) = run_tool_calls demo_react_env demo_cfg False
      [demo_call ''a'' ''submit'', demo_call ''b'' ''rm'']
      (asked () 7 (assistant_message (PStr ''ok'') [demo_call ''a'' ''submit'', demo_call ''b'' ''rm'']) (new_episode [] ()))"
    by (simp add: react_step_def next_max_tokens_def turn_budget_def demo_cfg_def demo_react_env_def token_sum_def
        new_episode_def Let_def del: run_tool_calls.simps)
  have R: "snd (run_tool_calls demo_react_env demo_cfg False [demo_call ''a'' ''submit'', demo_call ''b'' ''rm'']
      (asked () 7 m1 (new_episode [] ()))) = Inr ''finished''" for m1
    by (simp add: fns demo_fields rm demo_submit_call submit_run_def dget_or_def get_none_def
        FINISH_TOOLS_def count_result_def new_episode_def Let_def)
  show ?thesis unfolding E by (rule R)
qed

lemma react_step_answers_witness:
  "\<exists>ep'. react_step demo_react_env demo_cfg (new_episode [] ()) = (ep', Inr ''finished'') \<and>
    (\<exists>content calls tools. ep_transcript ep' = assistant_message content calls # tools \<and> answers tools calls)"
proof -
  obtain ep' where s: "react_step demo_react_env demo_cfg (new_episode [] ()) = (ep', Inr ''finished'')"
    using demo_step by (metis surjective_pairing)
  with react_step_answers [OF s] show ?thesis
    by (auto simp: counters_ok_def within_budget_def new_episode_def)
qed

subsection \<open>Bounds of an episode\<close>

definition is_assistant :: "dict \<Rightarrow> bool" where
  "is_assistant m \<longleftrightarrow> dget m ''role'' = Some (PStr ''assistant'')"

definition turns :: "dict list \<Rightarrow> nat" where
  "turns ms = length (filter is_assistant ms)"

lemma turns_simps [simp]:
  "turns [] = 0" "turns (a @ b) = turns a + turns b"
  "turns (assistant_message content calls # ms) = Suc (turns ms)"
  by (simp_all add: turns_def is_assistant_def assistant_message_def)

lemma turns_tools: "\<forall>m \<in> set ms. dget m ''role'' = Some (PStr ''tool'') \<Longrightarrow> turns ms = 0"
  by (auto simp: turns_def is_assistant_def)

text \<open>\<open>q\<close> counts the requests to the model in the world.\<close>

definition counts_queries :: "('s \<Rightarrow> nat) \<Rightarrow> 's react_env \<Rightarrow> bool" where
  "counts_queries q env \<longleftrightarrow>
     (\<forall>ms params s. q (fst (re_query env ms params s)) = Suc (q s)) \<and>
     (\<forall>name args timeout s. q (fst (re_call env name args timeout s)) = q s)"

lemma run_tool_calls_queries:
  assumes "counts_queries q env" "run_tool_calls env cfg saw calls ep = (ep', r)"
  shows "q (ep_world ep') = q (ep_world ep)"
proof -
  have skip: "ep_world ep2 = ep_world ep1" if "add_skipped tcs ep1 = (ep2, y)" for tcs and ep1 ep2 :: "'a episode" and y
    using that by (induction tcs ep1 rule: add_skipped.induct) (auto split: sum.splits)
  show ?thesis
    using assms
  proof (induction env cfg saw calls ep rule: run_tool_calls.induct)
    case (2 env cfg saw tc tcs ep)
    show ?case
    proof (cases "called_function tc")
      case (Inl e)
      then show ?thesis using 2(3) by simp
    next
      case (Inr fn)
      obtain w x where c: "re_call env (dget_or fn ''name'' (PStr [])) (get_none fn ''arguments'') (rx_action_timeout cfg)
          (ep_world ep) = (w, x)" by (rule prod.exhaust)
      from 2(2) have w: "q w = q (ep_world ep)" unfolding counts_queries_def using c by (metis fst_conv)
      show ?thesis
      proof (cases x)
        case (Inl e)
        then show ?thesis using 2(3) Inr c w by (simp add: Let_def) auto
      next
        case x: (Inr res)
        show ?thesis
        proof (cases "int (in_timeouts (count_result (to_status res) (ep_info ep))) > rx_timeout_budget cfg")
          case True
          then show ?thesis using 2(3) Inr c x w
            by (auto simp: Let_def dest!: skip split: prod.splits sum.splits)
        next
          case False
          then show ?thesis using 2(3) Inr c x w 2(1) [OF Inr refl c [symmetric] x refl _ 2(2)]
            by (simp add: Let_def)
        qed
      qed
    qed
  qed simp
qed

lemma react_step_run:
  assumes "counts_queries q env" "react_step env cfg ep = (ep', r)"
    "counters_ok cfg (ep_info ep)" "within_budget cfg (ep_info ep)"
  shows "counters_ok cfg (ep_info ep') \<and> in_steps (ep_info ep') = in_steps (ep_info ep) \<and>
    (r = Inr ''completed'' \<longrightarrow> within_budget cfg (ep_info ep')) \<and>
    q (ep_world ep) \<le> q (ep_world ep') \<and> q (ep_world ep') \<le> Suc (q (ep_world ep)) \<and>
    (\<exists>new. ep_transcript ep' = ep_transcript ep @ new \<and> turns new + q (ep_world ep) \<le> q (ep_world ep'))"
  using assms(2)
proof (cases rule: react_step_outcome)
  case limit
  then show ?thesis using assms by simp
next
  case (fail w e params)
  then show ?thesis using assms by (auto simp: counts_queries_def)
next
  case (stop w n content calls reason params)
  then show ?thesis using assms
    by (auto simp: counts_queries_def counters_ok_def within_budget_def intro!: exI [of _ "[assistant_message content calls]"])
next
  case (tools w n content calls params)
  let ?ep1 = "asked w n (assistant_message content calls) ep"
  have ok1: "counters_ok cfg (ep_info ?ep1)" "within_budget cfg (ep_info ?ep1)"
    using assms(3,4) by (simp_all add: counters_ok_def within_budget_def)
  have q1: "q (ep_world ep') = Suc (q (ep_world ep))"
    using run_tool_calls_queries [OF assms(1) tools(2)] assms(1) tools(1) by (simp add: counts_queries_def)
  from run_tool_calls_run [OF tools(2) ok1] obtain ts where t: "counters_ok cfg (ep_info ep')"
    "in_steps (ep_info ep') = in_steps (ep_info ep)" "r = Inr ''completed'' \<longrightarrow> within_budget cfg (ep_info ep')"
    "ep_transcript ep' = ep_transcript ep @ assistant_message content calls # ts" "turns ts = 0"
    by (auto dest: turns_tools)
  then show ?thesis using q1
    by (intro conjI exI [of _ "assistant_message content calls # ts"]) simp_all
qed

lemma counters_set_steps [simp]:
  "counters_ok cfg (ep_info (set_steps n ep)) = counters_ok cfg (ep_info ep)"
  "within_budget cfg (ep_info (set_steps n ep)) = within_budget cfg (ep_info ep)"
  by (simp_all add: counters_ok_def within_budget_def)

lemma react_loop_run:
  assumes "counts_queries q env" "react_loop env cfg i left ep = (ep', r)"
    "counters_ok cfg (ep_info ep)" "within_budget cfg (ep_info ep)" "in_steps (ep_info ep) < i"
  shows "counters_ok cfg (ep_info ep') \<and> in_steps (ep_info ep') < i + left \<and>
    q (ep_world ep) \<le> q (ep_world ep') \<and> q (ep_world ep') \<le> q (ep_world ep) + left \<and>
    (\<exists>new. ep_transcript ep' = ep_transcript ep @ new \<and> turns new + q (ep_world ep) \<le> q (ep_world ep'))"
  using assms(2-5)
proof (induction left arbitrary: i ep)
  case 0
  then show ?case by simp
next
  case (Suc left)
  obtain ep1 x where s: "react_step env cfg (set_steps i ep) = (ep1, x)" by (rule prod.exhaust)
  from react_step_run [OF assms(1) s] Suc.prems(2,3) obtain new where st: "counters_ok cfg (ep_info ep1)"
    "in_steps (ep_info ep1) = i" "x = Inr ''completed'' \<longrightarrow> within_budget cfg (ep_info ep1)"
    "q (ep_world ep) \<le> q (ep_world ep1)" "q (ep_world ep1) \<le> Suc (q (ep_world ep))"
    "ep_transcript ep1 = ep_transcript ep @ new" "turns new + q (ep_world ep) \<le> q (ep_world ep1)" by auto
  show ?case
  proof (cases "x = Inr ''completed''")
    case False
    with Suc.prems(1) s have "ep' = ep1" by (cases x) (auto split: if_splits)
    with st show ?thesis by auto
  next
    case True
    with Suc.prems(1) s have run: "react_loop env cfg (Suc i) left ep1 = (ep', r)" by simp
    from Suc.IH [OF run st(1)] True st(2,3) obtain more where "counters_ok cfg (ep_info ep')"
      "in_steps (ep_info ep') < Suc i + left" "q (ep_world ep1) \<le> q (ep_world ep')"
      "q (ep_world ep') \<le> q (ep_world ep1) + left" "ep_transcript ep' = ep_transcript ep1 @ more"
      "turns more + q (ep_world ep1) \<le> q (ep_world ep')" by auto
    with st show ?thesis by (intro conjI exI [of _ "new @ more"]) auto
  qed
qed

lemma react_episode_run:
  fixes q :: "'s \<Rightarrow> nat"
  assumes "counts_queries q env" "\<forall>s. q (fst (enter s)) = q s" "\<forall>s. q (fst (close s)) = q s"
    "react_episode env cfg enter close messages w = (ep, r)"
  shows "counters_ok cfg (ep_info ep) \<and> in_steps (ep_info ep) \<le> nat (rx_max_steps cfg) \<and>
    q w \<le> q (ep_world ep) \<and> q (ep_world ep) \<le> q w + nat (rx_max_steps cfg) \<and>
    (\<exists>new. ep_transcript ep = messages @ new \<and> turns new + q w \<le> q (ep_world ep))"
proof -
  have new: "counters_ok cfg (ep_info (new_episode messages v))" "within_budget cfg (ep_info (new_episode messages v))"
    "in_steps (ep_info (new_episode messages v)) = 0" "ep_world (new_episode messages v) = v"
    "ep_transcript (new_episode messages v) = messages" for v :: 's
    by (simp_all add: new_episode_def counters_ok_def within_budget_def)
  obtain w1 x where e: "enter w = (w1, x)" by (rule prod.exhaust)
  with assms(2) have w1: "q w1 = q w" by (metis fst_conv)
  show ?thesis
  proof (cases x)
    case (Inl err)
    with assms(4) e have "ep = new_episode messages w1" by (simp add: react_episode_def)
    then show ?thesis using new w1 by simp
  next
    case (Inr u)
    obtain ep1 y where l: "react_loop env cfg 1 (nat (rx_max_steps cfg)) (new_episode messages w1) = (ep1, y)"
      by (rule prod.exhaust)
    obtain w2 z where c: "close (ep_world ep1) = (w2, z)" by (rule prod.exhaust)
    with assms(3) have w2: "q w2 = q (ep_world ep1)" by (metis fst_conv)
    from assms(4) e Inr l c have "ep = ep1\<lparr>ep_world := w2\<rparr>"
      by (cases z) (simp_all add: react_episode_def)
    with react_loop_run [OF assms(1) l] new [of w1] w1 w2 show ?thesis by auto
  qed
qed

text \<open>
  C38: an episode ends: whatever the model answers and whatever the tools do, also when a call raises,
  the model is asked at most \<open>max_steps\<close> times and speaks at most once per request; the conversation
  only grows; the counters fit together, at most one tool call times out beyond the budget, and an
  episode that failed is not reported as finished.
\<close>

theorem react_run_bounded:
  assumes "counts_queries q env" "\<forall>s. q (fst (enter s)) = q s" "\<forall>s. q (fst (close s)) = q s"
    "react_run env cfg enter close messages w = (w', r)"
  shows "q w' \<le> q w + nat (rx_max_steps cfg) \<and>
    (\<forall>res. r = Inr res \<longrightarrow> in_steps (ar_info res) \<le> nat (rx_max_steps cfg) \<and>
       in_timeouts (ar_info res) + in_errors (ar_info res) \<le> in_num_tool_calls (ar_info res) \<and>
       int (in_timeouts (ar_info res)) \<le> max 0 (rx_timeout_budget cfg) + 1 \<and>
       (in_error (ar_info res) \<noteq> None \<longrightarrow> ar_finished res = Some False) \<and>
       (\<exists>new. ar_transcript res = messages @ new \<and> turns new + q w \<le> q w'))"
proof (cases "md_base_url (rx_model cfg)")
  case None
  with assms(4) show ?thesis by (auto simp: react_run_def)
next
  case (Some url)
  obtain ep x where e: "react_episode env cfg enter close messages w = (ep, x)" by (rule prod.exhaust)
  note b = react_episode_run [OF assms(1-3) e]
  show ?thesis
  proof (cases x)
    case (Inr reason)
    with assms(4) Some e have "w' = ep_world ep" "r = Inr (react_result ep reason)" by (simp_all add: react_run_def)
    with b show ?thesis by (simp add: react_result_def counters_ok_def)
  next
    case (Inl err)
    show ?thesis
    proof (cases "is_exception err")
      case True
      with assms(4) Some e Inl have "w' = ep_world ep"
        "r = Inr (react_result (ep\<lparr>ep_info := (ep_info ep)\<lparr>in_error := Some (exn_class err @ '': '' @ exn_str err)\<rparr>\<rparr>)
           ''unknown_error'')" by (simp_all add: react_run_def)
      with b show ?thesis by (simp add: react_result_def counters_ok_def)
    next
      case False
      with assms(4) Some e Inl have "w' = ep_world ep" "r = Inl err" by (simp_all add: react_run_def)
      with b show ?thesis by simp
    qed
  qed
qed

text \<open>A model that never stops asking for a tool.\<close>

definition busy_env :: "nat react_env" where
  "busy_env = \<lparr>re_query = (\<lambda>_ _ k. (Suc k, Inr (PStr [], [demo_call ''a'' ''shell''],
       \<lparr>gi_prompt_tokens = PInt 5, gi_completion_tokens = PInt 2, gi_finish_reason = PStr ''tool_calls''\<rparr>))),
     re_call = (\<lambda>_ _ _ k. (k, Inr \<lparr>to_text = Some ''x'', to_status = St_ok\<rparr>))\<rparr>"

lemma react_run_bounded_witness:
  "fst (react_run busy_env demo_cfg (\<lambda>k. (k, Inr ())) (\<lambda>k. (k, Inr ())) [] 0) \<le> 3"
proof -
  have q: "counts_queries id busy_env" by (simp add: counts_queries_def busy_env_def)
  have "rx_max_steps demo_cfg = 3" by (simp add: demo_cfg_def)
  with react_run_bounded [OF q _ _ surjective_pairing, of "\<lambda>k. (k, Inr ())" "\<lambda>k. (k, Inr ())" demo_cfg "[]" 0]
  show ?thesis by simp
qed

end
