(* ===== verification/TaskConfig.thy ===== *)
theory TaskConfig
  imports Generation PyText
begin

text \<open>
  The task layer: composition of task configurations (\<open>tasks/config.py\<close>), the registries of tasks,
  agents and sandbox providers (\<open>tasks/registry.py\<close>, \<open>agents/registry.py\<close>,
  \<open>sandbox/registry.py\<close>), the result of an episode (\<open>tasks/base.py\<close>) and the runner that bridges a
  gateway session to a task (\<open>framework/task_runner.py\<close>).  The YAML parser, the import of a module
  and the HTTP client are arguments.
\<close>

subsection \<open>Merging configurations\<close>

fun deep_merge :: "pv \<Rightarrow> pv \<Rightarrow> pv"
  and merge_entries :: "dict \<Rightarrow> dict \<Rightarrow> dict"
where
  "deep_merge (PDict base) (PDict overrides) = PDict (merge_entries base overrides)"
| "deep_merge base overrides = overrides"
| "merge_entries acc [] = acc"
| "merge_entries acc ((k, v) # overrides) =
     merge_entries
       (dset acc k
         (if is_dict v
          then case dget acc k of Some w \<Rightarrow> if is_dict w then deep_merge w v else v | None \<Rightarrow> v
          else v))
       overrides"

subsection \<open>The configuration file\<close>

text \<open>One entry of the file; \<open>path\<close> only appears in the messages.\<close>

definition index_entry :: "(rat \<Rightarrow> string) \<Rightarrow> string \<Rightarrow> pv \<Rightarrow> (string \<times> dict) list \<Rightarrow> (string \<times> dict) list result" where
  "index_entry fr path entry index =
     (case entry of
        PDict d \<Rightarrow>
          if truthy (get_none d ''name'')
          then (let name = py_str fr (get_none d ''name'') in
                if dhas index name
                then Inl (ValueError (''task_config_path '' @ repr_str path @ '' contains duplicate task name '' @ repr_str name))
                else Inr (dset index name d))
          else Inl (ValueError (''task_config_path '' @ repr_str path @ '': each entry must be a mapping with a '' @
                 repr_str ''name'' @ '' (got '' @ py_repr fr entry @ '')''))
      | _ \<Rightarrow> Inl (ValueError (''task_config_path '' @ repr_str path @ '': each entry must be a mapping with a '' @
               repr_str ''name'' @ '' (got '' @ py_repr fr entry @ '')'')))"

fun index_entries :: "(rat \<Rightarrow> string) \<Rightarrow> string \<Rightarrow> pv list \<Rightarrow> (string \<times> dict) list \<Rightarrow> (string \<times> dict) list result" where
  "index_entries fr path [] index = Inr index"
| "index_entries fr path (e # es) index = rbind (index_entry fr path e index) (index_entries fr path es)"

definition load_task_config_file :: "(rat \<Rightarrow> string) \<Rightarrow> (string \<Rightarrow> pv result) \<Rightarrow> string \<Rightarrow> (string \<times> dict) list result" where
  "load_task_config_file fr load_yaml path =
     rbind (load_yaml path) (\<lambda>raw. index_entries fr path (case raw of PList es \<Rightarrow> es | _ \<Rightarrow> [raw]) [])"

text \<open>\<open>task_name not in defaults_by_name\<close>: the keys are strings, and the name has to be hashable.\<close>

definition name_known :: "(string \<times> dict) list \<Rightarrow> pv \<Rightarrow> bool result" where
  "name_known defaults v =
     (case v of
        PStr n \<Rightarrow> Inr (dhas defaults n)
      | _ \<Rightarrow> if is_list v \<or> is_dict v then Inl (TypeError (''unhashable type: '' @ repr_str (type_name v))) else Inr False)"

definition quoted_names :: "string list \<Rightarrow> string" where
  "quoted_names xs = ''['' @ join '', '' (map repr_str (sort xs)) @ '']''"

definition model_binding :: "dict \<Rightarrow> dict" where
  "model_binding runtime_model = filter (\<lambda>(k, v). v \<noteq> PNone) runtime_model"

definition resolve :: "(rat \<Rightarrow> string) \<Rightarrow> (string \<times> dict) list \<Rightarrow> dict \<Rightarrow> dict \<Rightarrow> dict result" where
  "resolve fr defaults sample runtime_model =
     (let name = get_none sample ''name'' in
      if \<not> truthy name then Inl (ValueError (''sample Task Config requires a '' @ repr_str ''name''))
      else
        rbind (if defaults = [] then Inr True else name_known defaults name) (\<lambda>known.
        if \<not> known
        then Inl (ValueError (''no Task Config for sample task '' @ py_repr fr name @ ''; available configs: '' @
               quoted_names (map fst defaults)))
        else
          (let resolved = merge_entries (dget_or defaults (py_str fr name) []) sample;
               binding = model_binding runtime_model in
           Inr (if binding = [] then resolved
                else merge_entries resolved [(''agent'', PDict [(''model'', PDict binding)])]))))"

subsection \<open>Registries\<close>

text \<open>
  A registry maps names to classes; \<open>modules\<close> names the module that registers a class.  The import
  of a module, which registers what it defines, is an argument.
\<close>

type_synonym 'c classes = "(string \<times> 'c) list"

definition register_class ::
  "('c \<Rightarrow> 'c \<Rightarrow> bool) \<Rightarrow> ('c \<Rightarrow> string) \<Rightarrow> string \<Rightarrow> string \<Rightarrow> 'c \<Rightarrow> 'c classes \<Rightarrow> 'c classes result" where
  "register_class same_cls cls_repr what name c reg =
     (case dget reg name of
        Some c' \<Rightarrow>
          if \<not> same_cls c' c
          then Inl (ValueError (what @ '' '' @ repr_str name @ '' already registered: '' @ cls_repr c' @ '' vs '' @ cls_repr c))
          else Inr (dset reg name c)
      | None \<Rightarrow> Inr (dset reg name c))"

definition find_class :: "string \<Rightarrow> (string \<times> string) list \<Rightarrow> string \<Rightarrow> 'c classes \<Rightarrow> 'c result" where
  "find_class what modules name reg =
     (case dget reg name of
        Some c \<Rightarrow> Inr c
      | None \<Rightarrow> Inl (ValueError (''Unknown '' @ what @ '': '' @ repr_str name @ ''. Available: '' @
                   quoted_names (remdups (map fst reg @ map fst modules)))))"

definition get_task_cls ::
  "(string \<Rightarrow> 'c classes \<Rightarrow> 'c classes result) \<Rightarrow> (string \<times> string) list \<Rightarrow> string \<Rightarrow> 'c classes \<Rightarrow> 'c classes \<times> 'c result" where
  "get_task_cls import_module modules name reg =
     (case (if \<not> dhas reg name \<and> dhas modules name then import_module (dget_or modules name []) reg else Inr reg) of
        Inl e \<Rightarrow> (reg, Inl e)
      | Inr reg' \<Rightarrow> (reg', find_class ''task'' modules name reg'))"

text \<open>The registries of agents and of sandboxes report a failed import in their own words.\<close>

definition load_module ::
  "(exn \<Rightarrow> string) \<Rightarrow> (string \<Rightarrow> 'c classes \<Rightarrow> 'c classes result) \<Rightarrow> (string \<times> string) list \<Rightarrow> string \<Rightarrow> 'c classes \<Rightarrow> 'c classes result" where
  "load_module failed import_module modules name reg =
     (case dget modules name of
        None \<Rightarrow> Inr reg
      | Some m \<Rightarrow>
          (case import_module m reg of
             Inl e \<Rightarrow> Inl (if exn_class e \<in> {''ImportError'', ''ModuleNotFoundError''} then OtherException ''ImportError'' (failed e) else e)
           | Inr reg' \<Rightarrow> Inr reg'))"

definition get_lazy_cls ::
  "string \<Rightarrow> (exn \<Rightarrow> string) \<Rightarrow> (string \<Rightarrow> 'c classes \<Rightarrow> 'c classes result) \<Rightarrow> (string \<times> string) list \<Rightarrow> string \<Rightarrow>
     'c classes \<Rightarrow> 'c classes \<times> 'c result" where
  "get_lazy_cls what failed import_module modules name reg =
     (case (if dhas reg name then Inr reg else load_module failed import_module modules name reg) of
        Inl e \<Rightarrow> (reg, Inl e)
      | Inr reg' \<Rightarrow> (reg', find_class what modules name reg'))"

definition TASK_MODULES :: "(string \<times> string) list" where
  "TASK_MODULES =
     [(''swe_bench'', ''uni_agent.tasks.swe_bench.task''),
      (''swe_bench_multilingual'', ''uni_agent.tasks.swe_bench_multilingual.task''),
      (''swe_rebench'', ''uni_agent.tasks.swe_rebench.task''),
      (''hotpotqa'', ''uni_agent.tasks.hotpotqa.task''),
      (''terminal_bench'', ''uni_agent.tasks.terminal_bench.task'')]"

definition AGENT_MODULES :: "(string \<times> string) list" where
  "AGENT_MODULES =
     [(''react'', ''uni_agent.agents.react.agent''),
      (''claude_code'', ''uni_agent.agents.claude_code.agent''),
      (''mini_swe_agent'', ''uni_agent.agents.mini_swe_agent.agent''),
      (''mini_swe_agent_blackbox'', ''uni_agent.agents.mini_swe_agent_blackbox.agent''),
      (''mini_swe_agent_treerollout'', ''uni_agent.agents.mini_swe_agent_treerollout.agent''),
      (''mem_agent'', ''uni_agent.agents.mem_agent.agent'')]"

definition SANDBOX_MODULES :: "(string \<times> string) list" where
  "SANDBOX_MODULES =
     [(''local'', ''uni_agent.sandbox.local''), (''docker'', ''uni_agent.sandbox.docker''),
      (''modal'', ''uni_agent.sandbox.modal''), (''vefaas'', ''uni_agent.sandbox.vefaas''),
      (''openyuanrong'', ''uni_agent.sandbox.openyuanrong''), (''cube'', ''uni_agent.sandbox.cube'')]"

definition agent_import_failed :: "string \<Rightarrow> exn \<Rightarrow> string" where
  "agent_import_failed name e =
     ''Failed to import agent '' @ repr_str name @ '' from '' @ repr_str (dget_or AGENT_MODULES name []) @
     ''. Install the optional dependencies it needs.''"

definition get_agent_cls ::
  "(string \<Rightarrow> 'c classes \<Rightarrow> 'c classes result) \<Rightarrow> string \<Rightarrow> 'c classes \<Rightarrow> 'c classes \<times> 'c result" where
  "get_agent_cls import_module name = get_lazy_cls ''agent'' (agent_import_failed name) import_module AGENT_MODULES name"

definition sandbox_import_failed :: "string \<Rightarrow> exn \<Rightarrow> string" where
  "sandbox_import_failed name e =
     ''Failed to import sandbox provider '' @ repr_str name @ '' from '' @ repr_str (dget_or SANDBOX_MODULES name []) @
     ''. Install the optional dependencies it needs (e.g. `pip install modal` for provider='' @ repr_str ''modal'' @ '').''"

definition get_sandbox_cls ::
  "(string \<Rightarrow> 'c classes \<Rightarrow> 'c classes result) \<Rightarrow> string \<Rightarrow> 'c classes \<Rightarrow> 'c classes \<times> 'c result" where
  "get_sandbox_cls import_module name =
     get_lazy_cls ''sandbox provider'' (sandbox_import_failed name) import_module SANDBOX_MODULES name"

subsection \<open>Running a task\<close>

record task_result =
  ts_reward :: pv
  ts_accuracy :: pv
  ts_finished :: pv
  ts_extra_info :: pv

text \<open>What an agent returns: its info, and whether it finished.\<close>

record agent_reply =
  ap_info :: dict
  ap_finished :: "bool option"

text \<open>A task class builds a task, \<open>cls(cls.config_model(**config))\<close>, whose \<open>run\<close> acts on the world.\<close>

type_synonym 's task = "'s \<Rightarrow> 's \<times> task_result result"
type_synonym 's task_class = "dict \<Rightarrow> 's task result"

definition get_task ::
  "(rat \<Rightarrow> string) \<Rightarrow> (string \<Rightarrow> 's task_class classes \<Rightarrow> 's task_class classes result) \<Rightarrow> dict \<Rightarrow>
     's task_class classes \<Rightarrow> 's task_class classes \<times> 's task result" where
  "get_task fr import_module config reg =
     (let name = get_none config ''name'' in
      if \<not> truthy name then (reg, Inl (KeyError (''task config has no '' @ repr_str ''name'')))
      else case name of
        PStr n \<Rightarrow>
          (case get_task_cls import_module TASK_MODULES n reg of
             (reg', Inl e) \<Rightarrow> (reg', Inl e)
           | (reg', Inr cls) \<Rightarrow> (reg', cls config))
      | v \<Rightarrow>
          (reg, Inl (if is_list v \<or> is_dict v then TypeError (''unhashable type: '' @ repr_str (type_name v))
             else ValueError (''Unknown task: '' @ py_repr fr v @ ''. Available: '' @
                    quoted_names (remdups (map fst reg @ map fst TASK_MODULES))))))"

definition reward_info_from_result :: "task_result \<Rightarrow> dict result" where
  "reward_info_from_result r =
     (if ts_finished r \<noteq> PNone \<and> \<not> (case ts_finished r of PBool b \<Rightarrow> True | _ \<Rightarrow> False)
      then Inl (ValueError ''TaskResult.finished must be a bool or None'')
      else Inr ([(''reward'', ts_reward r)] @
        (if ts_accuracy r \<noteq> PNone then [(''acc'', ts_accuracy r)] else []) @
        (if ts_finished r \<noteq> PNone then [(''finished'', ts_finished r)] else []) @
        (case ts_extra_info r of
           PDict d \<Rightarrow> (case dget d ''timing'' of Some (PDict t) \<Rightarrow> [(''timing'', PDict t)] | _ \<Rightarrow> [])
         | _ \<Rightarrow> [])))"

text \<open>\<open>post url body\<close> is the request and the check of its status; a failed request is only logged.\<close>

definition post_reward_info ::
  "(string \<Rightarrow> dict \<Rightarrow> 's \<Rightarrow> 's \<times> unit result) \<Rightarrow> string \<Rightarrow> task_result \<Rightarrow> 's \<Rightarrow> 's \<times> unit result" where
  "post_reward_info post url r s =
     (case reward_info_from_result r of
        Inl e \<Rightarrow> (s, Inl e)
      | Inr info \<Rightarrow>
          (case post url [(''reward_info'', PDict info)] s of
             (s', Inr _) \<Rightarrow> (s', Inr ())
           | (s', Inl e) \<Rightarrow> (s', if is_exception e then Inr () else Inl e)))"

record run_options =
  ro_task_config_path :: "string option"
  ro_api_key :: string
  ro_model_name :: "string option"
  ro_report_reward :: bool

definition opt_str :: "string option \<Rightarrow> pv" where
  "opt_str x = (case x of None \<Rightarrow> PNone | Some s \<Rightarrow> PStr s)"

definition runtime_model :: "session_handle \<Rightarrow> run_options \<Rightarrow> dict" where
  "runtime_model h opts =
     [(''base_url'', opt_str (sh_base_url h)), (''api_key'', PStr (ro_api_key opts)), (''model_name'', opt_str (ro_model_name opts))]"

definition sample_task_config :: "dict \<Rightarrow> dict result" where
  "sample_task_config tools_kwargs =
     (case get_none tools_kwargs ''task'' of
        PDict d \<Rightarrow> Inr d
      | _ \<Rightarrow> Inl (ValueError (''run_task requires tools_kwargs['' @ repr_str ''task'' @ ''] (the serialized Task Config)'')))"

definition load_defaults ::
  "(rat \<Rightarrow> string) \<Rightarrow> (string \<Rightarrow> pv result) \<Rightarrow> string option \<Rightarrow> (string \<times> dict) list result" where
  "load_defaults fr load_yaml path =
     (case path of
        None \<Rightarrow> Inr []
      | Some p \<Rightarrow> if p = [] then Inr [] else load_task_config_file fr load_yaml p)"

definition run_task ::
  "(rat \<Rightarrow> string) \<Rightarrow> (string \<Rightarrow> pv result) \<Rightarrow> (string \<Rightarrow> 's task_class classes \<Rightarrow> 's task_class classes result) \<Rightarrow>
     (string \<Rightarrow> dict \<Rightarrow> 's \<Rightarrow> 's \<times> unit result) \<Rightarrow> run_options \<Rightarrow> session_handle \<Rightarrow> dict \<Rightarrow> 's task_class classes \<Rightarrow> 's \<Rightarrow>
     's \<times> task_result result" where
  "run_task fr load_yaml import_module post opts h tools_kwargs reg s =
     (case rbind (sample_task_config tools_kwargs) (\<lambda>sample.
             rbind (load_defaults fr load_yaml (ro_task_config_path opts)) (\<lambda>defaults.
             resolve fr defaults sample (runtime_model h opts))) of
        Inl e \<Rightarrow> (s, Inl e)
      | Inr task \<Rightarrow>
          (case snd (get_task fr import_module task reg) of
             Inl e \<Rightarrow> (s, Inl e)
           | Inr run \<Rightarrow>
               (case run s of
                  (s1, Inl e) \<Rightarrow> (s1, Inl e)
                | (s1, Inr r) \<Rightarrow>
                    (case sh_reward_info_url h of
                       Some url \<Rightarrow>
                         if ro_report_reward opts \<and> url \<noteq> []
                         then (case post_reward_info post url r s1 of
                                 (s2, Inl e) \<Rightarrow> (s2, Inl e) | (s2, Inr _) \<Rightarrow> (s2, Inr r))
                         else (s1, Inr r)
                     | None \<Rightarrow> (s1, Inr r)))))"

end
