(* ===== verification/TaskProps.thy ===== *)
theory TaskProps
  imports TaskConfig GatewayProps Rollout
begin

text \<open>
  Properties of the task layer: the precedence of the configurations a task is composed from, and
  the way of a task's reward through the session's endpoint into the trajectories that are trained.
\<close>

subsection \<open>Paths into configurations\<close>

fun at_path :: "string list \<Rightarrow> pv \<Rightarrow> pv option" where
  "at_path [] v = Some v"
| "at_path (k # ks) (PDict d) = (case dget d k of Some v \<Rightarrow> at_path ks v | None \<Rightarrow> None)"
| "at_path (k # ks) v = None"

text \<open>The overrides say nothing about a path: they leave it at a dictionary without the next key.\<close>

fun untouched :: "string list \<Rightarrow> pv \<Rightarrow> bool" where
  "untouched (k # ks) (PDict d) = (case dget d k of Some v \<Rightarrow> untouched ks v | None \<Rightarrow> True)"
| "untouched ks v = False"

text \<open>The keys of a dictionary are distinct, at every depth.\<close>

fun keys_ok :: "pv \<Rightarrow> bool" and keys_ok_list :: "pv list \<Rightarrow> bool" and keys_ok_entries :: "dict \<Rightarrow> bool" where
  "keys_ok (PDict d) = (distinct (map fst d) \<and> keys_ok_entries d)"
| "keys_ok (PList vs) = keys_ok_list vs"
| "keys_ok v = True"
| "keys_ok_list [] = True"
| "keys_ok_list (v # vs) = (keys_ok v \<and> keys_ok_list vs)"
| "keys_ok_entries [] = True"
| "keys_ok_entries ((k, v) # d) = (keys_ok v \<and> keys_ok_entries d)"

lemma keys_ok_dget: "keys_ok_entries d \<Longrightarrow> dget d k = Some v \<Longrightarrow> keys_ok v"
  by (induction d) (auto split: if_splits)

lemma deep_merge_not_dict: "\<not> is_dict v \<Longrightarrow> deep_merge w v = v" "\<not> is_dict w \<Longrightarrow> deep_merge w v = v"
  by (cases w; cases v; simp)+

lemma untouched_absent: "untouched ks v \<Longrightarrow> at_path ks v = None"
  by (induction ks v rule: untouched.induct) (auto split: option.splits)

lemma dget_merge_entries:
  "distinct (map fst ovr) \<Longrightarrow> dget (merge_entries acc ovr) k =
     (case dget ovr k of None \<Rightarrow> dget acc k
      | Some v \<Rightarrow> Some (case dget acc k of Some w \<Rightarrow> deep_merge w v | None \<Rightarrow> v))"
proof (induction ovr arbitrary: acc)
  case Nil
  then show ?case by simp
next
  case (Cons kv ovr)
  obtain k0 v0 where kv: "kv = (k0, v0)" by (rule prod.exhaust)
  have absent: "dget ovr k0 = None" using Cons.prems kv by (simp add: map_of_eq_None_iff)
  have "(if is_dict v0 then case dget acc k0 of Some w \<Rightarrow> if is_dict w then deep_merge w v0 else v0 | None \<Rightarrow> v0 else v0) =
      (case dget acc k0 of Some w \<Rightarrow> deep_merge w v0 | None \<Rightarrow> v0)"
    by (simp add: deep_merge_not_dict split: option.split)
  with Cons kv absent show ?case by (simp split: option.split)
qed

lemma dget_filter:
  "distinct (map fst d) \<Longrightarrow> dget (filter (\<lambda>(k, v). P v) d) k =
     (case dget d k of Some v \<Rightarrow> if P v then Some v else None | None \<Rightarrow> None)"
proof (induction d)
  case (Cons kv d)
  obtain k0 v0 where "kv = (k0, v0)" by (rule prod.exhaust)
  moreover from this Cons.prems have "dget d k0 = None" by (simp add: map_of_eq_None_iff)
  ultimately show ?case using Cons by auto
qed simp

lemma at_path_merge_leaf:
  "keys_ok v \<Longrightarrow> at_path ks v = Some leaf \<Longrightarrow> \<not> is_dict leaf \<Longrightarrow> at_path ks (deep_merge w v) = Some leaf"
proof (induction ks arbitrary: v w)
  case Nil
  then show ?case by (simp add: deep_merge_not_dict)
next
  case (Cons k ks)
  then obtain d v' where d: "v = PDict d" "dget d k = Some v'" "at_path ks v' = Some leaf"
    by (cases v) (auto split: option.splits)
  with Cons.prems have ok: "keys_ok v'" "distinct (map fst d)" by (auto dest: keys_ok_dget)
  show ?case
  proof (cases w)
    case (PDict b)
    then show ?thesis using d ok Cons.IH [OF ok(1) d(3) Cons.prems(3)]
      by (simp add: dget_merge_entries split: option.split)
  qed (use d in auto)
qed

lemma at_path_merge_untouched:
  "keys_ok v \<Longrightarrow> untouched ks v \<Longrightarrow> at_path ks (deep_merge w v) = at_path ks w"
proof (induction ks arbitrary: v w)
  case Nil
  then show ?case by simp
next
  case (Cons k ks)
  then obtain d where d: "v = PDict d" by (cases v) auto
  show ?case
  proof (cases w)
    case (PDict b)
    show ?thesis
    proof (cases "dget d k")
      case None
      then show ?thesis using Cons.prems d PDict by (simp add: dget_merge_entries)
    next
      case (Some v')
      with Cons.prems d have ok: "keys_ok v'" "untouched ks v'" by (auto dest: keys_ok_dget)
      with Some Cons.prems d PDict Cons.IH [OF ok] untouched_absent [OF ok(2)] show ?thesis
        by (simp add: dget_merge_entries split: option.split)
    qed
  qed (use d Cons.prems(2) untouched_absent in \<open>auto split: option.splits\<close>)
qed

text \<open>
  a resolved configuration takes every value from the first source that sets it: the endpoint
  of the running session wins over the sample, the sample wins over the file, and what neither the
  endpoint nor the sample mentions is exactly what the file says.
\<close>

theorem resolve_precedence:
  assumes "resolve fr defaults sample rm = Inr task" "keys_ok (PDict sample)" "keys_ok (PDict rm)"
  defines "file \<equiv> dget_or defaults (py_str fr (get_none sample ''name'')) []"
    and "endpoint \<equiv> PDict [(''agent'', PDict [(''model'', PDict (model_binding rm))])]"
  shows "(\<forall>k v. dget rm k = Some v \<longrightarrow> v \<noteq> PNone \<longrightarrow> \<not> is_dict v \<longrightarrow>
       at_path [''agent'', ''model'', k] (PDict task) = Some v) \<and>
    (\<forall>ks v. at_path ks (PDict sample) = Some v \<longrightarrow> \<not> is_dict v \<longrightarrow> untouched ks endpoint \<longrightarrow>
       at_path ks (PDict task) = Some v) \<and>
    (\<forall>ks. untouched ks (PDict sample) \<longrightarrow> untouched ks endpoint \<longrightarrow> at_path ks (PDict task) = at_path ks (PDict file))"
proof -
  have bind: "dget (model_binding rm) k = (case dget rm k of Some v \<Rightarrow> if v = PNone then None else Some v | None \<Rightarrow> None)" for k
    using assms(3) dget_filter [of rm "\<lambda>v. v \<noteq> PNone" k] by (simp add: model_binding_def split: option.split)
  have "keys_ok_entries (model_binding rm)" using assms(3) unfolding model_binding_def
    by (induction rm) auto
  moreover have "distinct (map fst (model_binding rm))"
    using assms(3) by (auto simp: model_binding_def distinct_map_filter)
  ultimately have ok: "keys_ok endpoint" by (simp add: endpoint_def)
  have task: "PDict task = (let m = deep_merge (PDict file) (PDict sample) in
      if model_binding rm = [] then m else deep_merge m endpoint)"
    using assms(1) by (auto simp: resolve_def Let_def err_simps file_def endpoint_def split: if_splits)
  show ?thesis
  proof (intro conjI allI impI)
    fix k v assume k: "dget rm k = Some v" "v \<noteq> PNone" "\<not> is_dict v"
    then have "model_binding rm \<noteq> []" using bind [of k] by auto
    moreover have "at_path [''agent'', ''model'', k] endpoint = Some v"
      using bind [of k] k by (simp add: endpoint_def)
    ultimately show "at_path [''agent'', ''model'', k] (PDict task) = Some v"
      using at_path_merge_leaf [OF ok _ k(3)] task by (simp only: Let_def if_False)
  next
    fix ks v assume s: "at_path ks (PDict sample) = Some v" "\<not> is_dict v" "untouched ks endpoint"
    from at_path_merge_leaf [OF assms(2) s(1,2)] show "at_path ks (PDict task) = Some v"
      unfolding task Let_def using at_path_merge_untouched [OF ok s(3)] by (simp only: split: if_split) simp
  next
    fix ks assume u: "untouched ks (PDict sample)" "untouched ks endpoint"
    from at_path_merge_untouched [OF assms(2) u(1)] show "at_path ks (PDict task) = at_path ks (PDict file)"
      unfolding task Let_def using at_path_merge_untouched [OF ok u(2)] by (simp only: split: if_split) simp
  qed
qed

definition demo_defaults :: "(string \<times> dict) list" where
  "demo_defaults = [(''qa'', [(''name'', PStr ''qa''), (''agent'', PDict [(''name'', PStr ''react''), (''max_steps'', PInt 9)])])]"

definition demo_sample :: dict where
  "demo_sample = [(''name'', PStr ''qa''), (''agent'', PDict [(''max_steps'', PInt 3),
     (''model'', PDict [(''base_url'', PStr ''old''), (''top_k'', PInt 5)])])]"

definition demo_runtime :: dict where
  "demo_runtime = [(''base_url'', PStr ''new''), (''api_key'', PStr ''k''), (''model_name'', PNone)]"

lemma resolve_precedence_witness:
  "\<exists>task. resolve (\<lambda>_. []) demo_defaults demo_sample demo_runtime = Inr task \<and>
     at_path [''agent'', ''model'', ''base_url''] (PDict task) = Some (PStr ''new'') \<and>
     at_path [''agent'', ''max_steps''] (PDict task) = Some (PInt 3) \<and>
     at_path [''agent'', ''name''] (PDict task) = Some (PStr ''react'')"
proof -
  let ?task = "merge_entries (merge_entries (dget_or demo_defaults ''qa'' []) demo_sample)
    [(''agent'', PDict [(''model'', PDict (model_binding demo_runtime))])]"
  have name: "get_none demo_sample ''name'' = PStr ''qa''" "py_str (\<lambda>_. []) (PStr ''qa'') = ''qa''"
    by code_simp+
  have r: "resolve (\<lambda>_. []) demo_defaults demo_sample demo_runtime = Inr ?task"
    unfolding resolve_def name Let_def
    by (simp add: demo_defaults_def name_known_def dhas_def demo_runtime_def model_binding_def name)
  have k: "keys_ok (PDict demo_sample)" "keys_ok (PDict demo_runtime)" by code_simp+
  note P = resolve_precedence [OF r k, unfolded name]
  note P1 = P [THEN conjunct1, rule_format]
    and P2 = P [THEN conjunct2, THEN conjunct1, rule_format]
    and P3 = P [THEN conjunct2, THEN conjunct2, rule_format]
  have "dget demo_runtime ''base_url'' = Some (PStr ''new'')" by code_simp
  then have 1: "at_path [''agent'', ''model'', ''base_url''] (PDict ?task) = Some (PStr ''new'')"
    by (rule P1) simp_all
  have 2: "at_path [''agent'', ''max_steps''] (PDict ?task) = Some (PInt 3)"
    by (rule P2) code_simp+
  have "at_path [''agent'', ''name''] (PDict ?task) = at_path [''agent'', ''name''] (PDict (dget_or demo_defaults ''qa'' []))"
    by (rule P3) code_simp+
  moreover have "\<dots> = Some (PStr ''react'')" by code_simp
  ultimately have 3: "at_path [''agent'', ''name''] (PDict ?task) = Some (PStr ''react'')" by (rule trans)
  show ?thesis using r 1 2 3 by blast
qed

subsection \<open>From the task's reward to the trained trajectories\<close>

text \<open>The HTTP client of the runner, connected to the session's endpoint of the gateway actor.\<close>

definition gateway_post :: "codec \<Rightarrow> http_env \<Rightarrow> string \<Rightarrow> string \<Rightarrow> dict \<Rightarrow> actor \<Rightarrow> actor \<times> unit result" where
  "gateway_post cd env sid url body a =
     (case handle_route cd env RewardInfo sid (Some (PDict body)) a of
        (a', Inr (JSONResponse status _)) \<Rightarrow>
          (a', if status \<ge> 400 then Inl (OtherException ''ClientResponseError'' (str_of_int status)) else Inr ())
      | (a', Inr (EventStream _)) \<Rightarrow> (a', Inr ())
      | (a', Inl e) \<Rightarrow> (a', Inl (OtherException ''ClientResponseError'' ''500'')))"

lemma gateway_post_active:
  assumes "dget (ac_sessions a) sid = Some s" "ss_phase s = ACTIVE"
  shows "gateway_post cd env sid url [(''reward_info'', PDict info)] a =
    (put_session sid (rewarded_session (he_now env) (Some info) s) a, Inr ())"
  using assms
  by (simp add: gateway_post_def handle_route_def reward_info_route_def dget_or_def set_session_reward_info_def
      get_session_def set_reward_info_eq to_response_def)

lemma reward_info_fields:
  assumes "reward_info_from_result r = Inr info"
  shows "get_none info ''reward'' = ts_reward r" "get_none info ''finished'' = ts_finished r"
    "ts_finished r = PNone \<or> is_bool (ts_finished r)" "get_none (dpop (dpop info ''reward'') ''finished'') ''acc'' = ts_accuracy r"
  using assms
  by (auto simp: reward_info_from_result_def get_none_def dget_or_def is_bool_def split: if_splits pv.splits option.splits)

text \<open>
  C18: the reward a task returns is the reward its trajectories are trained on: posting it to the
  session of a reachable actor succeeds, and finalizing the session afterwards gives trajectories
  that all carry it, count as unfinished exactly when the task says so, and are annotated with the
  task's reward and its accuracy instead of being scored again.
\<close>

theorem reported_reward_is_trained:
  assumes "(astep cd)\<^sup>*\<^sup>* (new_actor c addr) a" "dget (ac_sessions a) sid = Some s"
    and "reward_info_from_result r = Inr info"
  shows "\<exists>a1 s1 a2 ts. post_reward_info (gateway_post cd env sid) url r a = (a1, Inr ()) \<and>
    dget (ac_sessions a1) sid = Some s1 \<and> ss_reward_info s1 = info \<and>
    finalize_session now sid a1 = (a2, Inr ts) \<and>
    (\<forall>t \<in> set ts. tr_reward_info t = info \<and> (is_unfinished t \<longleftrightarrow> ts_finished r = PBool False) \<and>
       finished_of t = Inr (ts_finished r)) \<and>
    (ts_reward r \<noteq> PNone \<longrightarrow> (\<forall>v. py_float (re_fparse renv) (ts_reward r) = Inr v \<longrightarrow>
       (\<exists>rest. score_session renv fw sf ts = annotate_all ts (map (\<lambda>_. (v, rest)) ts) \<and>
          get_none rest ''acc'' = ts_accuracy r)))"
proof -
  note F = reward_info_fields [OF assms(3)]
  let ?s = "rewarded_session (he_now env) (Some info) s"
  let ?a = "put_session sid ?s a"
  let ?ts = "ordered_trajectories (finalized_session now ?s)"
  have "actor_inv cd a" by (rule actor.reach_inv [OF _ assms(1)]) blast
  then have s: "session_inv cd s" "ss_phase s = ACTIVE" using assms(2) by (auto simp: actor_inv_def stored_ok_def)
  have post: "post_reward_info (gateway_post cd env sid) url r a = (?a, Inr ())"
    using gateway_post_active [OF assms(2) s(2)] by (simp add: post_reward_info_def assms(3))
  have "finalize now ?s = (finalized_session now ?s, Inr ?ts)"
    using s by (intro finalize_active [where cd = cd]) simp_all
  then have fin: "finalize_session now sid ?a = (pop_session sid ?a, Inr ?ts)"
    by (simp add: finalize_session_def get_session_def put_session_def)
  have ri: "ss_reward_info ?s = info" by (simp add: rewarded_session_def)
  have info: "tr_reward_info t = info" if "t \<in> set ?ts" for t
    using that by (auto simp: ordered_trajectories_def finalized_session_def ri)
  have score: "\<exists>rest. score_session renv fw sf ?ts = annotate_all ?ts (map (\<lambda>_. (v, rest)) ?ts) \<and>
      get_none rest ''acc'' = ts_accuracy r"
    if "ts_reward r \<noteq> PNone" "py_float (re_fparse renv) (ts_reward r) = Inr v" for v
  proof (cases "?ts = []")
    case True
    then show ?thesis using F(4) by (intro exI [of _ "dpop (dpop info ''reward'') ''finished''"]) (simp add: score_session_def annotate_all_def)
  next
    case False
    then have "py_index ?ts (- 1) = Inr (last ?ts)" by (simp add: py_index_last)
    moreover have "tr_reward_info (last ?ts) = info" using False info by (meson last_in_set)
    ultimately show ?thesis using False that F
      by (intro exI [of _ "dpop (dpop info ''reward'') ''finished''"])
        (simp add: score_session_def score_from_reward_info_def Let_def)
  qed
  have 1: "dget (ac_sessions ?a) sid = Some ?s" by (simp add: put_session_def)
  have 2: "\<forall>t \<in> set ?ts. tr_reward_info t = info \<and> (is_unfinished t \<longleftrightarrow> ts_finished r = PBool False) \<and>
       finished_of t = Inr (ts_finished r)"
    using info F(2,3) by (auto simp: is_unfinished_def finished_of_def Let_def)
  show ?thesis using post 1 ri fin 2 score by blast
qed

lemma reported_reward_is_trained_witness:
  "\<exists>a a1 s1. post_reward_info (gateway_post demo_codec demo_env ''s'') ''u''
      \<lparr>ts_reward = PFloat (1/2), ts_accuracy = PNone, ts_finished = PBool False, ts_extra_info = PNone\<rparr> a = (a1, Inr ()) \<and>
    dget (ac_sessions a1) ''s'' = Some s1 \<and>
    ss_reward_info s1 = [(''reward'', PFloat (1/2)), (''finished'', PBool False)]"
proof -
  let ?r = "\<lparr>ts_reward = PFloat (1/2), ts_accuracy = PNone, ts_finished = PBool False, ts_extra_info = PNone\<rparr>"
  obtain a s h where a: "create_session 0 ''s'' None demo_actor = (a, Inr h)"
    "dget (ac_sessions a) ''s'' = Some s" using demo_create by blast
  have "(astep demo_codec)\<^sup>*\<^sup>* (new_actor demo_config ''h'') a"
    unfolding demo_actor_def
    by (rule converse_rtranclp_into_rtranclp [OF a_start r_into_rtranclp [of "astep demo_codec"]],
        rule a_create [OF a(1) [unfolded demo_actor_def]])
  note R = reported_reward_is_trained [OF this a(2)]
  have "reward_info_from_result ?r = Inr [(''reward'', PFloat (1/2)), (''finished'', PBool False)]"
    by (simp add: reward_info_from_result_def)
  from R [OF this, where env = demo_env and url = "''u''"] show ?thesis by blast
qed

end
