(* ===== verification/Transport.thy ===== *)
theory Transport
  imports PyLines "HOL-Library.Word"
begin

text \<open>
  What the sandbox's text channel relies on: \<open>base64.b64encode\<close> and the lenient
  \<open>base64.b64decode\<close> of Python on bytes, and \<open>shlex.quote\<close> with the way a POSIX shell reads a word
  back.
\<close>

unbundle bit_operations_syntax

type_synonym byte = "8 word"

subsection \<open>The alphabet\<close>

definition B64_ALPHABET :: string where
  "B64_ALPHABET = ''ABCDEFGHIJKLMNOPQRSTUVWXYZabcdefghijklmnopqrstuvwxyz0123456789+/''"

definition b64_char :: "byte \<Rightarrow> char" where
  "b64_char v = B64_ALPHABET ! unat v"

definition b64_index :: "char \<Rightarrow> nat option" where
  "b64_index c =
     (let n = (of_char c :: nat) in
      if 65 \<le> n \<and> n \<le> 90 then Some (n - 65)
      else if 97 \<le> n \<and> n \<le> 122 then Some (n - 71)
      else if 48 \<le> n \<and> n \<le> 57 then Some (n + 4)
      else if c = CHR ''+'' then Some 62
      else if c = CHR ''/'' then Some 63
      else None)"

definition b64_val :: "char \<Rightarrow> byte option" where
  "b64_val c = map_option of_nat (b64_index c)"

lemma b64_table: "map b64_index B64_ALPHABET = map Some [0..<64]"
  by code_simp

lemma b64_no_pad: "CHR ''='' \<notin> set B64_ALPHABET"
  by code_simp

lemma b64_val_char:
  assumes "unat v < 64"
  shows "b64_val (b64_char v) = Some v" "b64_char v \<noteq> CHR ''=''"
proof -
  have len: "length B64_ALPHABET = 64" using arg_cong [OF b64_table, of length] by simp
  have "b64_index (B64_ALPHABET ! unat v) = map b64_index B64_ALPHABET ! unat v" using assms len by simp
  also have "\<dots> = Some (unat v)" using assms unfolding b64_table by simp
  finally show "b64_val (b64_char v) = Some v" by (simp add: b64_val_def b64_char_def)
  show "b64_char v \<noteq> CHR ''=''" using assms len b64_no_pad unfolding b64_char_def by (metis nth_mem)
qed

subsection \<open>Encoding and decoding\<close>

text \<open>The four groups of six bits of three bytes; missing bytes are zero and show as padding.\<close>

definition sextet1 :: "byte \<Rightarrow> byte" where "sextet1 a = drop_bit 2 a"
definition sextet2 :: "byte \<Rightarrow> byte \<Rightarrow> byte" where "sextet2 a b = push_bit 4 (a AND 3) OR drop_bit 4 b"
definition sextet3 :: "byte \<Rightarrow> byte \<Rightarrow> byte" where "sextet3 b c = push_bit 2 (b AND 15) OR drop_bit 6 c"
definition sextet4 :: "byte \<Rightarrow> byte" where "sextet4 c = c AND 63"

fun b64encode :: "byte list \<Rightarrow> string" where
  "b64encode [] = []"
| "b64encode [a] = [b64_char (sextet1 a), b64_char (sextet2 a 0), CHR ''='', CHR ''='']"
| "b64encode [a, b] = [b64_char (sextet1 a), b64_char (sextet2 a b), b64_char (sextet3 b 0), CHR ''='']"
| "b64encode (a # b # c # rest) =
     [b64_char (sextet1 a), b64_char (sextet2 a b), b64_char (sextet3 b c), b64_char (sextet4 c)] @ b64encode rest"

text \<open>
  The decoder of \<open>binascii\<close>: \<open>pos\<close> is the position in the current group of four, \<open>left\<close> the bits not
  yet written, \<open>pads\<close> the padding characters seen in a row, \<open>n\<close> the bytes written.  Characters
  outside the alphabet are skipped.
\<close>

fun a2b_base64 :: "nat \<Rightarrow> byte \<Rightarrow> nat \<Rightarrow> nat \<Rightarrow> string \<Rightarrow> byte list result" where
  "a2b_base64 pos left pads n [] =
     (if pos = 0 then Inr []
      else if pos = 1
      then Inl (OtherException ''binascii.Error'' (''Invalid base64-encoded string: number of data characters ('' @
             str_of_nat (n div 3 * 4 + 1) @ '') cannot be 1 more than a multiple of 4''))
      else Inl (OtherException ''binascii.Error'' ''Incorrect padding''))"
| "a2b_base64 pos left pads n (ch # cs) =
     (if ch = CHR ''='' then
        (if pos \<ge> 2 \<and> pos + (pads + 1) \<ge> 4 then Inr []
         else a2b_base64 pos left (if pos \<ge> 2 then pads + 1 else pads) n cs)
      else
        (case b64_val ch of
           None \<Rightarrow> a2b_base64 pos left pads n cs
         | Some v \<Rightarrow>
             if pos = 0 then a2b_base64 1 v 0 n cs
             else if pos = 1
             then rbind (a2b_base64 2 (v AND 15) 0 (n + 1) cs) (\<lambda>bs. Inr ((push_bit 2 left OR drop_bit 4 v) # bs))
             else if pos = 2
             then rbind (a2b_base64 3 (v AND 3) 0 (n + 1) cs) (\<lambda>bs. Inr ((push_bit 4 left OR drop_bit 2 v) # bs))
             else rbind (a2b_base64 0 0 0 (n + 1) cs) (\<lambda>bs. Inr ((push_bit 6 left OR v) # bs))))"

definition b64decode :: "string \<Rightarrow> byte list result" where
  "b64decode s = a2b_base64 0 0 0 0 s"

definition is_b64_char :: "char \<Rightarrow> bool" where
  "is_b64_char c \<longleftrightarrow> c = CHR ''='' \<or> b64_val c \<noteq> None"

lemma a2b_filter: "a2b_base64 pos left pads n s = a2b_base64 pos left pads n (filter is_b64_char s)"
proof (induction s arbitrary: pos left pads n)
  case (Cons ch cs)
  note IH = Cons.IH
  show ?case
  proof (cases "is_b64_char ch")
    case False
    then have "a2b_base64 pos left pads n (ch # cs) = a2b_base64 pos left pads n cs" by (simp add: is_b64_char_def)
    with False IH show ?thesis by simp
  next
    case True
    then have "filter is_b64_char (ch # cs) = ch # filter is_b64_char cs" by simp
    then show ?thesis by (simp only: a2b_base64.simps IH [symmetric])
  qed
qed simp

lemma byte_masks: "x AND 3 = take_bit 2 x" "x AND 15 = take_bit 4 x" "x AND 63 = take_bit 6 x" for x :: byte
  by (simp_all add: take_bit_eq_mask mask_eq_exp_minus_1)

lemma twice_pred: "2 \<le> n \<Longrightarrow> Suc (Suc (n - 2)) = n"
  by simp

lemma sextets_join:
  "push_bit 2 (sextet1 a) OR drop_bit 4 (sextet2 a b) = a"
  "push_bit 4 (sextet2 a b AND 15) OR drop_bit 2 (sextet3 b c) = b"
  "push_bit 6 (sextet3 b c AND 3) OR sextet4 c = c"
  unfolding sextet1_def sextet2_def sextet3_def sextet4_def byte_masks
  subgoal by (rule bit_word_eqI, case_tac "n < 2") (auto simp: bit_simps twice_pred)
  subgoal by (rule bit_word_eqI, case_tac "n < 4") (auto simp: bit_simps twice_pred)
  subgoal by (rule bit_word_eqI, case_tac "n < 6") (auto simp: bit_simps twice_pred)
  done

lemmas sextets_joined = sextets_join(1) sextets_join(2,3) [simplified]

lemma unat_sextet:
  assumes "take_bit 6 v = v"
  shows "unat v < 64"
proof -
  have "unat v = take_bit 6 (unat v)" by (metis assms unsigned_take_bit_eq)
  also have "\<dots> < 2 ^ 6" by (rule take_bit_nat_less_exp)
  finally show ?thesis by simp
qed

lemma sextets_bound: "unat (sextet1 a) < 64" "unat (sextet2 a b) < 64" "unat (sextet3 b c) < 64" "unat (sextet4 c) < 64"
  unfolding sextet1_def sextet2_def sextet3_def sextet4_def byte_masks
  by (rule unat_sextet, rule bit_word_eqI, auto simp: bit_simps dest: bit_imp_le_length)+

lemmas sextet_val [simp] = sextets_bound [THEN b64_val_char(1)] sextets_bound [THEN b64_val_char(2)]

lemma a2b_encode: "a2b_base64 0 left pads n (b64encode bs) = Inr bs"
proof (induction bs arbitrary: left pads n rule: b64encode.induct)
  case (4 a b c rest)
  then show ?case by (simp add: sextets_joined)
next
  case (2 a)
  show ?case by (simp add: sextets_joined)
next
  case (3 a b)
  show ?case by (simp add: sextets_joined)
qed simp

text \<open>Line breaks and other characters outside the alphabet do not matter.\<close>

lemma b64decode_encode: "filter is_b64_char s = b64encode bs \<Longrightarrow> b64decode s = Inr bs"
  unfolding b64decode_def by (subst a2b_filter) (simp add: a2b_encode)

subsection \<open>Quoting for a shell\<close>

definition is_shell_safe :: "char \<Rightarrow> bool" where
  "is_shell_safe c =
     (let n = (of_char c :: nat) in
      (48 \<le> n \<and> n \<le> 57) \<or> (65 \<le> n \<and> n \<le> 90) \<or> (97 \<le> n \<and> n \<le> 122) \<or> c \<in> set ''_@%+=:,./-'')"

text \<open>A single quote is closed, written between double quotes, and opened again.\<close>

definition QUOTED_QUOTE :: string where
  "QUOTED_QUOTE = [quote1, quote2, quote1, quote2, quote1]"

definition shlex_quote :: "string \<Rightarrow> string" where
  "shlex_quote s =
     (if s = [] then [quote1, quote1]
      else if list_all is_shell_safe s then s
      else [quote1] @ replace_str [quote1] QUOTED_QUOTE s @ [quote1])"

text \<open>How a shell reads one word: plain text, single quotes, and double quotes around plain text.\<close>

datatype quoting = Plain | Single | Double

text \<open>The value of the word at the start of a text and what follows it.\<close>

fun sh_token :: "quoting \<Rightarrow> string \<Rightarrow> (string \<times> string) option" where
  "sh_token Plain [] = Some ([], [])"
| "sh_token Single [] = None"
| "sh_token Double [] = None"
| "sh_token Plain (c # cs) =
     (if c = quote1 then sh_token Single cs
      else if c = quote2 then sh_token Double cs
      else if is_shell_safe c then map_option (apfst ((#) c)) (sh_token Plain cs)
      else Some ([], c # cs))"
| "sh_token Single (c # cs) = (if c = quote1 then sh_token Plain cs else map_option (apfst ((#) c)) (sh_token Single cs))"
| "sh_token Double (c # cs) =
     (if c = quote2 then sh_token Plain cs
      else if c \<in> {backslash, CHR ''$'', CHR ''`''} then None
      else map_option (apfst ((#) c)) (sh_token Double cs))"

definition sh_word :: "string \<Rightarrow> string option" where
  "sh_word s = (case sh_token Plain s of Some (v, []) \<Rightarrow> Some v | _ \<Rightarrow> None)"

lemma sh_token_append:
  "sh_token m s = Some (v, []) \<Longrightarrow> \<not> is_shell_safe c \<Longrightarrow> c \<noteq> quote1 \<Longrightarrow> c \<noteq> quote2 \<Longrightarrow>
     sh_token m (s @ c # rest) = Some (v, c # rest)"
  by (induction m s arbitrary: v rule: sh_token.induct) (auto split: if_splits)

lemma partition_at_char:
  "partition_at [q] (c # cs) = (if c = q then Some ([], cs) else map_option (\<lambda>(a, b). (c # a, b)) (partition_at [q] cs))"
  by (subst partition_at.simps) (simp add: startswith_def)

lemma split_char: "split_str [q] (c # cs) =
  (if c = q then [] # split_str [q] cs else (c # hd (split_str [q] cs)) # tl (split_str [q] cs))"
proof (cases "partition_at [q] cs")
  case None
  then show ?thesis
    by (subst split_str.simps) (simp add: partition_at_char split_str.simps [of "[q]" cs])
next
  case (Some ab)
  then show ?thesis
    by (cases ab, subst split_str.simps) (simp add: partition_at_char split_str.simps [of "[q]" cs])
qed

lemma replace_char: "replace_str [q] r s = concat (map (\<lambda>c. if c = q then r else [c]) s)"
proof (induction s)
  case Nil
  show ?case by (simp add: replace_str_def split_str.simps partition_at.simps startswith_def)
next
  case (Cons c cs)
  obtain x xs where x: "split_str [q] cs = x # xs" using split_str_ne by (cases "split_str [q] cs") auto
  then show ?case using Cons
    by (cases xs) (auto simp: replace_str_def split_char)
qed

lemma quote_chars: "quote1 \<noteq> quote2" "quote1 \<notin> {backslash, CHR ''$'', CHR ''`''}" "\<not> is_shell_safe quote1" "\<not> is_shell_safe quote2"
  by code_simp+

lemma sh_token_safe: "list_all is_shell_safe s \<Longrightarrow> sh_token Plain s = Some (s, [])"
  using quote_chars by (induction s) auto

lemma sh_token_single:
  "sh_token Single (concat (map (\<lambda>c. if c = quote1 then QUOTED_QUOTE else [c]) s) @ [quote1]) = Some (s, [])"
  using quote_chars by (induction s) (simp_all add: QUOTED_QUOTE_def)

lemma sh_word_safe: "list_all is_shell_safe s \<Longrightarrow> sh_word s = Some s"
  by (simp add: sh_word_def sh_token_safe)

lemma sh_word_quote: "sh_word (shlex_quote s) = Some s"
  using sh_token_single [of s] by (simp add: sh_word_def shlex_quote_def sh_token_safe replace_char)

lemma b64_char_safe: "unat v < 64 \<Longrightarrow> is_shell_safe (b64_char v)"
proof -
  assume v: "unat v < 64"
  have "list_all is_shell_safe B64_ALPHABET" by code_simp
  moreover have "length B64_ALPHABET = 64" using arg_cong [OF b64_table, of length] by simp
  ultimately show ?thesis using v unfolding b64_char_def list_all_iff by simp
qed

text \<open>An encoded text needs no quotes.\<close>

lemma b64encode_safe: "list_all is_shell_safe (b64encode bs)"
proof -
  have "is_shell_safe (CHR ''='')" by code_simp
  then show ?thesis
    by (induction bs rule: b64encode.induct) (simp_all add: b64_char_safe sextets_bound)
qed

end
