(* ===== verification/Sandbox.thy ===== *)
theory Sandbox
  imports Transport TaskConfig
begin

text \<open>
  The sandbox base class, \<open>sandbox/base.py\<close>, with the archive commands of \<open>sandbox/utils.py\<close>: the
  life cycle with its retries, the error policy of \<open>exec\<close>, and file transfer over the text channel.
  What a provider implements is a record of operations on the world \<open>'s\<close>.
\<close>

record exec_result =
  xr_exit_code :: int
  xr_stdout :: string
  xr_stderr :: string

type_synonym env_vars = "(string \<times> string) list"

record exec_options =
  xo_timeout :: "rat option"
  xo_workdir :: "string option"
  xo_env :: "env_vars option"

definition no_options :: exec_options where
  "no_options = \<lparr>xo_timeout = None, xo_workdir = None, xo_env = None\<rparr>"

text \<open>\<open>pr_start\<close> is \<open>start()\<close> under \<open>wait_for\<close> with the given timeout.\<close>

record 's provider =
  pr_start :: "rat option \<Rightarrow> 's \<Rightarrow> 's \<times> unit result"
  pr_stop :: "'s \<Rightarrow> 's \<times> unit result"
  pr_exec :: "string list \<Rightarrow> exec_options \<Rightarrow> 's \<Rightarrow> 's \<times> exec_result result"
  pr_is_timeout_error :: "exn \<Rightarrow> bool"
  pr_is_alive :: "'s \<Rightarrow> 's \<times> bool"

text \<open>One awaited call after another; an exception ends the sequence.\<close>

definition shell_bind :: "'s \<times> 'a result \<Rightarrow> ('a \<Rightarrow> 's \<Rightarrow> 's \<times> 'b result) \<Rightarrow> 's \<times> 'b result" where
  "shell_bind x f = (case x of (s, Inl e) \<Rightarrow> (s, Inl e) | (s, Inr v) \<Rightarrow> f v s)"

lemma shell_bind_Inr:
  "shell_bind x f = (s', Inr v) \<Longrightarrow> \<exists>s1 u. x = (s1, Inr u) \<and> f u s1 = (s', Inr v)"
  by (auto simp: shell_bind_def split: prod.splits sum.splits)

subsection \<open>Life cycle\<close>

definition env_number :: "(string \<Rightarrow> string option) \<Rightarrow> (string \<Rightarrow> rat option) \<Rightarrow> string \<Rightarrow> rat \<Rightarrow> rat" where
  "env_number getenv fparse name dflt =
     (case getenv name of
        None \<Rightarrow> dflt
      | Some raw \<Rightarrow> if strip raw = [] then dflt else case fparse raw of Some r \<Rightarrow> r | None \<Rightarrow> dflt)"

definition startup_timeout :: "(string \<Rightarrow> string option) \<Rightarrow> (string \<Rightarrow> rat option) \<Rightarrow> rat" where
  "startup_timeout getenv fparse = env_number getenv fparse ''SANDBOX_STARTUP_TIMEOUT'' 600"

definition base_is_timeout_error :: "exn \<Rightarrow> bool" where
  "base_is_timeout_error e \<longleftrightarrow> exn_class e = ''TimeoutError''"

definition run_start :: "(rat \<Rightarrow> string) \<Rightarrow> rat \<Rightarrow> 's provider \<Rightarrow> 's \<Rightarrow> 's \<times> unit result" where
  "run_start fr timeout p s =
     (case pr_start p (if timeout > 0 then Some timeout else None) s of
        (s', Inl e) \<Rightarrow>
          (s', Inl (if base_is_timeout_error e
                    then OtherException ''TimeoutError'' (''sandbox start() exceeded SANDBOX_STARTUP_TIMEOUT='' @ fr timeout @ ''s'')
                    else e))
      | (s', Inr u) \<Rightarrow> (s', Inr u))"

text \<open>The attempts of \<open>__aenter__\<close>: a failed start is cleaned up by \<open>stop()\<close>, whose failure is only logged.\<close>

fun start_attempts :: "(rat \<Rightarrow> string) \<Rightarrow> rat \<Rightarrow> 's provider \<Rightarrow> nat \<Rightarrow> 's \<Rightarrow> 's \<times> unit result" where
  "start_attempts fr timeout p 0 s = (s, Inl (AssertionError []))"
| "start_attempts fr timeout p (Suc n) s =
     (case run_start fr timeout p s of
        (s1, Inr _) \<Rightarrow> (s1, Inr ())
      | (s1, Inl e) \<Rightarrow>
          if \<not> is_exception e then (s1, Inl e)
          else
            (case pr_stop p s1 of
               (s2, Inl e') \<Rightarrow>
                 if \<not> is_exception e' then (s2, Inl e')
                 else if n = 0 then (s2, Inl e) else start_attempts fr timeout p n s2
             | (s2, Inr _) \<Rightarrow> if n = 0 then (s2, Inl e) else start_attempts fr timeout p n s2))"

definition sandbox_enter :: "(rat \<Rightarrow> string) \<Rightarrow> rat \<Rightarrow> 's provider \<Rightarrow> int \<Rightarrow> 's \<Rightarrow> 's \<times> unit result" where
  "sandbox_enter fr timeout p retry s = start_attempts fr timeout p (nat (max 1 retry)) s"

text \<open>\<open>async with sandbox\<close> and \<open>async with sandbox.entered(retry=...)\<close>.\<close>

definition sandbox_entered ::
  "(rat \<Rightarrow> string) \<Rightarrow> rat \<Rightarrow> 's provider \<Rightarrow> int \<Rightarrow> ('s \<Rightarrow> 's \<times> 'a result) \<Rightarrow> 's \<Rightarrow> 's \<times> 'a result" where
  "sandbox_entered fr timeout p retry body s =
     (case sandbox_enter fr timeout p retry s of
        (s1, Inl e) \<Rightarrow> (s1, Inl e)
      | (s1, Inr _) \<Rightarrow>
          (case body s1 of
             (s2, r) \<Rightarrow> (case pr_stop p s2 of (s3, Inl e) \<Rightarrow> (s3, Inl e) | (s3, Inr _) \<Rightarrow> (s3, r))))"

subsection \<open>Commands\<close>

definition opt_number :: "(rat \<Rightarrow> string) \<Rightarrow> rat option \<Rightarrow> string" where
  "opt_number fr t = (case t of None \<Rightarrow> ''None'' | Some r \<Rightarrow> fr r)"

definition sandbox_exec :: "(rat \<Rightarrow> string) \<Rightarrow> 's provider \<Rightarrow> string list \<Rightarrow> exec_options \<Rightarrow> 's \<Rightarrow> 's \<times> exec_result result" where
  "sandbox_exec fr p argv opts s =
     (case pr_exec p argv opts s of
        (s1, Inr r) \<Rightarrow> (s1, Inr r)
      | (s1, Inl e) \<Rightarrow>
          if \<not> is_exception e then (s1, Inl e)
          else if pr_is_timeout_error p e
          then (s1, Inr \<lparr>xr_exit_code = -1, xr_stdout = [],
                  xr_stderr = ''exec timed out after '' @ opt_number fr (xo_timeout opts) @ ''s: '' @ exn_str e\<rparr>)
          else
            (case pr_is_alive p s1 of
               (s2, alive) \<Rightarrow>
                 if \<not> alive then (s2, Inl e)
                 else (s2, Inr \<lparr>xr_exit_code = 127, xr_stdout = [], xr_stderr = exn_str e\<rparr>)))"

definition exec_shell :: "(rat \<Rightarrow> string) \<Rightarrow> 's provider \<Rightarrow> string \<Rightarrow> exec_options \<Rightarrow> 's \<Rightarrow> 's \<times> exec_result result" where
  "exec_shell fr p script opts s = sandbox_exec fr p [''bash'', ''-c'', script] opts s"

subsection \<open>Files\<close>

datatype content = Bytes "byte list" | Str string

definition content_bytes :: "content \<Rightarrow> byte list" where
  "content_bytes c = (case c of Bytes bs \<Rightarrow> bs | Str s \<Rightarrow> map of_char (utf8 s))"

text \<open>A call whose failure becomes a \<open>RuntimeError\<close>.\<close>

definition need_success :: "string \<Rightarrow> exec_result result \<Rightarrow> exec_result result" where
  "need_success what r =
     rbind r (\<lambda>res. if xr_exit_code res \<noteq> 0 then Inl (RuntimeError (what @ '': '' @ strip (xr_stderr res))) else Inr res)"

definition read_file :: "(rat \<Rightarrow> string) \<Rightarrow> 's provider \<Rightarrow> string \<Rightarrow> 's \<Rightarrow> 's \<times> byte list result" where
  "read_file fr p path s =
     (case sandbox_exec fr p [''base64'', path] no_options s of
        (s1, r) \<Rightarrow> (s1, rbind (need_success (''read_file '' @ repr_str path @ '' failed'') r) (\<lambda>res. b64decode (xr_stdout res))))"

definition write_script :: "string \<Rightarrow> byte list \<Rightarrow> string" where
  "write_script path bs =
     ''mkdir -p '' @ [quote2] @ ''$(dirname '' @ shlex_quote path @ '')'' @ [quote2] @ '' && printf %s '' @
     shlex_quote (b64encode bs) @ '' | base64 -d > '' @ shlex_quote path"

definition write_file :: "(rat \<Rightarrow> string) \<Rightarrow> 's provider \<Rightarrow> string \<Rightarrow> content \<Rightarrow> 's \<Rightarrow> 's \<times> unit result" where
  "write_file fr p path c s =
     (case exec_shell fr p (write_script path (content_bytes c)) no_options s of
        (s1, r) \<Rightarrow> (s1, rbind (need_success (''write_file '' @ repr_str path @ '' failed'') r) (\<lambda>_. Inr ())))"

subsection \<open>Directories\<close>

definition remote_pack_command :: "string \<Rightarrow> string \<Rightarrow> string" where
  "remote_pack_command source_dir archive =
     ''tar -czf '' @ shlex_quote archive @ '' -C '' @ shlex_quote source_dir @ '' .''"

definition remote_unpack_command :: "string \<Rightarrow> string \<Rightarrow> string" where
  "remote_unpack_command archive target_dir =
     ''mkdir -p '' @ shlex_quote target_dir @ '' && tar -xzf '' @ shlex_quote archive @ '' -C '' @ shlex_quote target_dir"

text \<open>\<open>finally: await self.exec(["rm", "-f", archive])\<close>: an error of the removal replaces the outcome.\<close>

definition removing :: "(rat \<Rightarrow> string) \<Rightarrow> 's provider \<Rightarrow> string \<Rightarrow> ('s \<Rightarrow> 's \<times> 'a result) \<Rightarrow> 's \<Rightarrow> 's \<times> 'a result" where
  "removing fr p archive body s =
     (case body s of
        (s1, r) \<Rightarrow>
          (case sandbox_exec fr p [''rm'', ''-f'', archive] no_options s1 of
             (s2, Inl e) \<Rightarrow> (s2, Inl e) | (s2, Inr _) \<Rightarrow> (s2, r)))"

text \<open>\<open>packed\<close> is the archive of the host directory.\<close>

definition upload_tree ::
  "(rat \<Rightarrow> string) \<Rightarrow> 's provider \<Rightarrow> string \<Rightarrow> ('s \<Rightarrow> 's \<times> byte list result) \<Rightarrow> string \<Rightarrow> 's \<Rightarrow> 's \<times> unit result" where
  "upload_tree fr p uuid packed remote_dir s =
     (let archive = ''/tmp/uni-agent-upload-'' @ uuid @ ''.tar.gz'' in
      case packed s of
        (s1, Inl e) \<Rightarrow> (s1, Inl e)
      | (s1, Inr bs) \<Rightarrow>
          (case write_file fr p archive (Bytes bs) s1 of
             (s2, Inl e) \<Rightarrow> (s2, Inl e)
           | (s2, Inr _) \<Rightarrow>
               removing fr p archive
                 (\<lambda>s. case exec_shell fr p (remote_unpack_command archive remote_dir) no_options s of
                    (s', r) \<Rightarrow> (s', rbind (need_success (''upload into '' @ repr_str remote_dir @
                         '' failed (sandbox needs tar and gzip)'') r) (\<lambda>_. Inr ())))
                 s2))"

text \<open>\<open>extract\<close> unpacks the archive into the host directory.\<close>

definition download_tree ::
  "(rat \<Rightarrow> string) \<Rightarrow> 's provider \<Rightarrow> string \<Rightarrow> (byte list \<Rightarrow> 's \<Rightarrow> 's \<times> unit result) \<Rightarrow> string \<Rightarrow> 's \<Rightarrow> 's \<times> unit result" where
  "download_tree fr p uuid extract remote_dir s =
     (let archive = ''/tmp/uni-agent-download-'' @ uuid @ ''.tar.gz'' in
      removing fr p archive
        (\<lambda>s. case exec_shell fr p (remote_pack_command remote_dir archive) no_options s of
           (s1, r) \<Rightarrow>
             (case need_success (''download of '' @ repr_str remote_dir @ '' failed (sandbox needs tar and gzip)'') r of
                Inl e \<Rightarrow> (s1, Inl e)
              | Inr _ \<Rightarrow>
                  (case read_file fr p archive s1 of
                     (s2, Inl e) \<Rightarrow> (s2, Inl e)
                   | (s2, Inr bs) \<Rightarrow> extract bs s2)))
        s)"

text \<open>A local path is a file or a directory of the host; \<open>read_local\<close> and \<open>store\<close> are the host's files.\<close>

definition sandbox_upload ::
  "(rat \<Rightarrow> string) \<Rightarrow> 's provider \<Rightarrow> string \<Rightarrow> bool \<Rightarrow> ('s \<Rightarrow> 's \<times> byte list result) \<Rightarrow> ('s \<Rightarrow> 's \<times> byte list result) \<Rightarrow>
     string \<Rightarrow> 's \<Rightarrow> 's \<times> unit result" where
  "sandbox_upload fr p uuid is_dir packed read_local remote_path s =
     (if is_dir then upload_tree fr p uuid packed remote_path s
      else
        (case read_local s of
           (s1, Inl e) \<Rightarrow> (s1, Inl e)
         | (s1, Inr bs) \<Rightarrow> write_file fr p remote_path (Bytes bs) s1))"

definition sandbox_download ::
  "(rat \<Rightarrow> string) \<Rightarrow> 's provider \<Rightarrow> string \<Rightarrow> (byte list \<Rightarrow> 's \<Rightarrow> 's \<times> unit result) \<Rightarrow> (byte list \<Rightarrow> 's \<Rightarrow> 's \<times> unit result) \<Rightarrow>
     string \<Rightarrow> 's \<Rightarrow> 's \<times> unit result" where
  "sandbox_download fr p uuid extract store remote_path s =
     (case exec_shell fr p (''test -d '' @ shlex_quote remote_path) no_options s of
        (s1, Inl e) \<Rightarrow> (s1, Inl e)
      | (s1, Inr r) \<Rightarrow>
          if xr_exit_code r = 0 then download_tree fr p uuid extract remote_path s1
          else
            (case read_file fr p remote_path s1 of
               (s2, Inl e) \<Rightarrow> (s2, Inl e)
             | (s2, Inr bs) \<Rightarrow> store bs s2))"

end
