(* ===== verification/SandboxProps.thy ===== *)
theory SandboxProps
  imports Sandbox
begin

text \<open>
  Properties of the sandbox base class: a started sandbox is stopped, and a file survives the text
  channel.
\<close>

subsection \<open>Life cycle\<close>

text \<open>The world counts the calls of \<open>start()\<close> and of \<open>stop()\<close>.\<close>

definition counts_calls :: "('s \<Rightarrow> nat) \<Rightarrow> ('s \<Rightarrow> nat) \<Rightarrow> 's provider \<Rightarrow> bool" where
  "counts_calls starts stops p \<longleftrightarrow>
     (\<forall>t s. starts (fst (pr_start p t s)) = Suc (starts s) \<and> stops (fst (pr_start p t s)) = stops s) \<and>
     (\<forall>s. starts (fst (pr_stop p s)) = starts s \<and> stops (fst (pr_stop p s)) = Suc (stops s))"

lemma run_start_world: "fst (run_start fr timeout p s) = fst (pr_start p (if timeout > 0 then Some timeout else None) s)"
  by (auto simp: run_start_def split: prod.splits sum.splits)

lemma run_start_base: "run_start fr timeout p s = (s', Inl e) \<Longrightarrow> \<not> is_exception e \<Longrightarrow>
    \<exists>t. pr_start p t s = (s', Inl e)"
  by (auto simp: run_start_def is_exception_def split: prod.splits sum.splits if_splits)

lemma start_attempts_run:
  assumes "counts_calls starts stops p" "0 < n" "start_attempts fr timeout p n s = (s', r)"
  shows "starts s < starts s' \<and> starts s' \<le> starts s + n \<and>
    (case r of Inr _ \<Rightarrow> stops s' + starts s + 1 = stops s + starts s'
     | Inl e \<Rightarrow> (stops s' + starts s = stops s + starts s' \<or>
         (\<not> is_exception e \<and> stops s' + starts s + 1 = stops s + starts s')))"
  using assms(2,3)
proof (induction n arbitrary: s)
  case 0
  then show ?case by simp
next
  case (Suc n)
  obtain s1 x where x: "run_start fr timeout p s = (s1, x)" by (rule prod.exhaust)
  with assms(1) run_start_world [of fr timeout p s] have s1: "starts s1 = Suc (starts s)" "stops s1 = stops s"
    unfolding counts_calls_def by (metis fst_conv)+
  show ?case
  proof (cases x)
    case (Inr u)
    then show ?thesis using Suc.prems x s1 by auto
  next
    case (Inl e)
    show ?thesis
    proof (cases "is_exception e")
      case False
      then show ?thesis using Suc.prems x Inl s1 by auto
    next
      case e: True
      obtain s2 y where y: "pr_stop p s1 = (s2, y)" by (rule prod.exhaust)
      with assms(1) have s2: "starts s2 = starts s1" "stops s2 = Suc (stops s1)"
        unfolding counts_calls_def by (metis fst_conv)+
      show ?thesis
      proof (cases "(\<exists>e'. y = Inl e' \<and> \<not> is_exception e') \<or> n = 0")
        case True
        then have "s' = s2 \<and> (\<exists>e'. r = Inl e')"
          using Suc.prems x Inl e y by (cases y) (auto split: if_splits)
        then show ?thesis using s1 s2 by auto
      next
        case False
        then have rec: "start_attempts fr timeout p n s2 = (s', r)" "0 < n"
          using Suc.prems x Inl e y by (cases y; auto split: if_splits)+
        from Suc.IH [OF rec(2,1)] s1 s2 show ?thesis by (cases r) auto
      qed
    qed
  qed
qed

text \<open>
  a sandbox that is started is stopped: with a body that leaves the life cycle alone, \<open>start()\<close> is
  tried at most \<open>retry\<close> times, every attempt is followed by exactly one \<open>stop()\<close>, also when the body or
  \<open>stop()\<close> itself raises, and the body has run only if an attempt succeeded; the single exception is a
  control-flow exception of \<open>start()\<close> itself, which skips the clean-up.
\<close>

theorem sandbox_stopped:
  assumes "counts_calls starts stops p" "\<forall>s. starts (fst (body s)) = starts s \<and> stops (fst (body s)) = stops s"
    and "sandbox_entered fr timeout p retry body s = (s', r)"
  shows "starts s < starts s' \<and> starts s' \<le> starts s + nat (max 1 retry) \<and>
    (stops s' + starts s = stops s + starts s' \<or>
     (\<exists>e. r = Inl e \<and> \<not> is_exception e \<and> stops s' + starts s + 1 = stops s + starts s')) \<and>
    (\<forall>v. r = Inr v \<longrightarrow> (\<exists>s1 s2. sandbox_enter fr timeout p retry s = (s1, Inr ()) \<and> body s1 = (s2, Inr v)))"
proof -
  obtain s1 x where x: "sandbox_enter fr timeout p retry s = (s1, x)" by (rule prod.exhaust)
  then have "start_attempts fr timeout p (nat (max 1 retry)) s = (s1, x)" by (simp add: sandbox_enter_def)
  note A = start_attempts_run [OF assms(1) _ this]
  show ?thesis
  proof (cases x)
    case (Inl e)
    then have "s' = s1" "r = Inl e" using assms(3) x by (simp_all add: sandbox_entered_def)
    with A Inl show ?thesis by auto
  next
    case (Inr u)
    obtain s2 y where y: "body s1 = (s2, y)" by (rule prod.exhaust)
    obtain s3 z where z: "pr_stop p s2 = (s3, z)" by (rule prod.exhaust)
    from assms(2) y have s2: "starts s2 = starts s1" "stops s2 = stops s1" by (metis fst_conv)+
    from assms(1) z have s3: "starts s3 = starts s2" "stops s3 = Suc (stops s2)"
      unfolding counts_calls_def by (metis fst_conv)+
    have out: "s' = s3" "r = (case z of Inl e \<Rightarrow> Inl e | Inr _ \<Rightarrow> y)"
      using assms(3) x Inr y z by (auto simp: sandbox_entered_def split: sum.splits)
    have "stops s1 + starts s + 1 = stops s + starts s1" "starts s < starts s1" "starts s1 \<le> starts s + nat (max 1 retry)"
      using A Inr by simp_all
    then show ?thesis using out s2 s3 x y Inr by (auto split: sum.splits)
  qed
qed

text \<open>A provider whose first start fails; the world counts starts and stops.\<close>

definition demo_provider :: "(nat \<times> nat) provider" where
  "demo_provider =
     \<lparr>pr_start = (\<lambda>t (a, b). ((Suc a, b), if a = 0 then Inl (RuntimeError ''busy'') else Inr ())),
      pr_stop = (\<lambda>(a, b). ((a, Suc b), Inr ())),
      pr_exec = (\<lambda>argv opts s. (s, Inr \<lparr>xr_exit_code = 0, xr_stdout = [], xr_stderr = []\<rparr>)),
      pr_is_timeout_error = base_is_timeout_error, pr_is_alive = (\<lambda>s. (s, True))\<rparr>"

lemma sandbox_stopped_witness:
  "\<exists>s'. sandbox_entered (\<lambda>_. []) 600 demo_provider 3 (\<lambda>s. (s, Inl (ValueError ''x'') :: unit result)) (0, 0) =
     (s', Inl (ValueError ''x'')) \<and> fst s' = 2 \<and> snd s' = fst s'"
proof -
  have c: "counts_calls fst snd demo_provider"
    by (auto simp: counts_calls_def demo_provider_def)
  have run: "sandbox_entered (\<lambda>_. []) 600 demo_provider 3 (\<lambda>s. (s, Inl (ValueError ''x'') :: unit result)) (0, 0) =
     ((2, 2), Inl (ValueError ''x''))"
    by (simp add: sandbox_entered_def sandbox_enter_def numeral_3_eq_3 run_start_def demo_provider_def
        base_is_timeout_error_def is_exception_def)
  from sandbox_stopped [OF c _ run] run show ?thesis by auto
qed

text \<open>The exception is real: a start that is cancelled is not cleaned up.\<close>

lemma cancelled_start_not_stopped:
  assumes "counts_calls starts stops p"
    and "pr_start p (if timeout > 0 then Some timeout else None) s = (s1, Inl (BaseExc ''CancelledError''))"
  shows "sandbox_entered fr timeout p retry body s = (s1, Inl (BaseExc ''CancelledError'')) \<and>
    starts s1 = Suc (starts s) \<and> stops s1 = stops s"
proof -
  have "run_start fr timeout p s = (s1, Inl (BaseExc ''CancelledError''))"
    by (simp add: run_start_def assms(2) base_is_timeout_error_def)
  moreover have "\<exists>n. nat (max 1 retry) = Suc n" by (intro exI [of _ "nat (max 1 retry) - 1"]) auto
  ultimately have "sandbox_enter fr timeout p retry s = (s1, Inl (BaseExc ''CancelledError''))"
    by (auto simp: sandbox_enter_def is_exception_def)
  with assms show ?thesis unfolding counts_calls_def by (simp add: sandbox_entered_def) (metis fst_conv)
qed

subsection \<open>Files\<close>

text \<open>
  What the provider's commands do with the files of the container: \<open>base64\<close> prints the encoding of
  a file, broken into lines, and the script that \<open>write_file\<close> builds, whatever way its words are
  quoted, stores the decoded text.
\<close>

definition shell_script :: "string \<Rightarrow> string \<Rightarrow> string" where
  "shell_script q w =
     ''mkdir -p '' @ [quote2] @ ''$(dirname '' @ q @ '')'' @ [quote2] @ '' && printf %s '' @ w @ '' | base64 -d > '' @ q"

definition file_channel :: "('s \<Rightarrow> string \<Rightarrow> byte list option) \<Rightarrow> 's provider \<Rightarrow> bool" where
  "file_channel file p \<longleftrightarrow>
     (\<forall>s path bs. file s path = Some bs \<longrightarrow>
        (\<exists>s' r. pr_exec p [''base64'', path] no_options s = (s', Inr r) \<and> xr_exit_code r = 0 \<and>
           filter is_b64_char (xr_stdout r) = b64encode bs \<and> file s' = file s)) \<and>
     (\<forall>s q w path text bs. sh_word q = Some path \<longrightarrow> sh_word w = Some text \<longrightarrow> b64decode text = Inr bs \<longrightarrow>
        (\<exists>s' r. pr_exec p [''bash'', ''-c'', shell_script q w] no_options s = (s', Inr r) \<and> xr_exit_code r = 0 \<and>
           file s' = (file s)(path := Some bs)))"


text \<open>A container in memory that runs exactly these two commands.\<close>

definition strip_prefix :: "string \<Rightarrow> string \<Rightarrow> string option" where
  "strip_prefix p s = (if startswith s p then Some (drop (length p) s) else None)"

definition SCRIPT_HEAD :: string where "SCRIPT_HEAD = ''mkdir -p '' @ [quote2] @ ''$(dirname ''"
definition SCRIPT_MIDDLE :: string where "SCRIPT_MIDDLE = '')'' @ [quote2] @ '' && printf %s ''"
definition SCRIPT_TAIL :: string where "SCRIPT_TAIL = '' | base64 -d > ''"

definition read_script :: "string \<Rightarrow> (string \<times> string) option" where
  "read_script s =
     Option.bind (strip_prefix SCRIPT_HEAD s) (\<lambda>a.
     Option.bind (sh_token Plain a) (\<lambda>(path, b).
     Option.bind (strip_prefix SCRIPT_MIDDLE b) (\<lambda>c.
     Option.bind (sh_token Plain c) (\<lambda>(text, d).
     Option.bind (strip_prefix SCRIPT_TAIL d) (\<lambda>e.
     if sh_word e = Some path then Some (path, text) else None)))))"

definition memory_exec :: "string list \<Rightarrow> (string \<Rightarrow> byte list option) \<Rightarrow> (string \<Rightarrow> byte list option) \<times> exec_result" where
  "memory_exec argv files =
     (let fail = (files, \<lparr>xr_exit_code = 1, xr_stdout = [], xr_stderr = ''no''\<rparr>) in
      case argv of
        [cmd, path] \<Rightarrow>
          (case files path of
             Some bs \<Rightarrow> if cmd = ''base64'' then (files, \<lparr>xr_exit_code = 0, xr_stdout = b64encode bs @ nl, xr_stderr = []\<rparr>) else fail
           | None \<Rightarrow> fail)
      | [cmd, opt, script] \<Rightarrow>
          (case read_script script of
             Some (path, text) \<Rightarrow>
               (case b64decode text of
                  Inr bs \<Rightarrow> (files(path := Some bs), \<lparr>xr_exit_code = 0, xr_stdout = [], xr_stderr = []\<rparr>)
                | Inl _ \<Rightarrow> fail)
           | None \<Rightarrow> fail)
      | _ \<Rightarrow> fail)"

definition memory_provider :: "(string \<Rightarrow> byte list option) provider" where
  "memory_provider =
     \<lparr>pr_start = (\<lambda>t s. (s, Inr ())), pr_stop = (\<lambda>s. (s, Inr ())),
      pr_exec = (\<lambda>argv opts s. (case memory_exec argv s of (s', r) \<Rightarrow> (s', Inr r))),
      pr_is_timeout_error = base_is_timeout_error, pr_is_alive = (\<lambda>s. (s, True))\<rparr>"

lemma strip_prefix_append [simp]: "strip_prefix p (p @ s) = Some s"
  by (simp add: strip_prefix_def startswith_def)

lemma sh_word_token: "sh_word q = Some v \<Longrightarrow> sh_token Plain q = Some (v, [])"
  by (auto simp: sh_word_def split: option.splits list.splits)

lemma read_script_words:
  assumes "sh_word q = Some path" "sh_word w = Some text"
  shows "read_script (shell_script q w) = Some (path, text)"
proof -
  have "\<not> is_shell_safe (CHR '')'')" "\<not> is_shell_safe (CHR '' '')" "CHR '')'' \<notin> {quote1, quote2}" "CHR '' '' \<notin> {quote1, quote2}"
    by code_simp+
  with sh_token_append [OF sh_word_token [OF assms(1)], of "CHR '')''"] sh_token_append [OF sh_word_token [OF assms(2)], of "CHR '' ''"]
  have q: "sh_token Plain (q @ SCRIPT_MIDDLE @ z) = Some (path, SCRIPT_MIDDLE @ z)"
    and w: "sh_token Plain (w @ SCRIPT_TAIL @ z) = Some (text, SCRIPT_TAIL @ z)" for z
    by (simp_all add: SCRIPT_MIDDLE_def SCRIPT_TAIL_def)
  have "shell_script q w = SCRIPT_HEAD @ q @ SCRIPT_MIDDLE @ w @ SCRIPT_TAIL @ q"
    by (simp add: shell_script_def SCRIPT_HEAD_def SCRIPT_MIDDLE_def SCRIPT_TAIL_def)
  then show ?thesis by (simp add: read_script_def q w assms(1))
qed

lemma memory_channel: "file_channel (\<lambda>s. s) memory_provider"
proof -
  have nl: "filter is_b64_char nl = []" by code_simp
  have "filter is_b64_char (b64encode bs) = b64encode bs" for bs
    by (induction bs rule: b64encode.induct) (simp_all add: is_b64_char_def)
  then show ?thesis
    by (auto simp: file_channel_def memory_provider_def memory_exec_def read_script_words nl Let_def)
qed


end
