(* ===== verification/Hotpot.thy ===== *)
theory Hotpot
  imports PyLines "HOL-Library.Sublist"
begin

text \<open>
  The HotpotQA reward, \<open>tasks/hotpotqa/reward.py\<close>: extraction of the last boxed answer and its
  score, the length of a longest common subsequence of tokens computed with one row of a table.
  Quotients are rational numbers.
\<close>

subsection \<open>The boxed answer\<close>

definition BOXED :: string where "BOXED = backslash # ''boxed''"
definition BOXED_SPACE :: string where "BOXED_SPACE = backslash # ''boxed ''"
definition BOXED_BRACE :: string where "BOXED_BRACE = backslash # ''boxed{''"
definition FBOX :: string where "FBOX = backslash # ''fbox''"
definition TEXT :: string where "TEXT = backslash # ''text''"
definition TEXT_BRACE :: string where "TEXT_BRACE = backslash # ''text{''"

text \<open>\<open>s.rfind(p)\<close>.\<close>

fun rfind :: "string \<Rightarrow> string \<Rightarrow> nat option" where
  "rfind p [] = (if p = [] then Some 0 else None)"
| "rfind p (c # cs) =
     (case rfind p cs of
        Some i \<Rightarrow> Some (Suc i)
      | None \<Rightarrow> if startswith (c # cs) p then Some 0 else None)"

text \<open>The text up to the brace that closes the first group; \<open>depth\<close> is the number of open braces.\<close>

fun scan_braces :: "int \<Rightarrow> string \<Rightarrow> string option" where
  "scan_braces depth [] = None"
| "scan_braces depth (c # cs) =
     (if c = CHR ''{'' then map_option ((#) c) (scan_braces (depth + 1) cs)
      else if c = CHR ''}'' then
        (if depth - 1 = 0 then Some [c] else map_option ((#) c) (scan_braces (depth - 1) cs))
      else map_option ((#) c) (scan_braces depth cs))"

definition last_boxed_only_string :: "string \<Rightarrow> string option" where
  "last_boxed_only_string v =
     (if contains v BOXED_SPACE
      then Some (BOXED_SPACE @ hd (split_str ''$'' (last (split_str BOXED_SPACE v))))
      else
        (case (case rfind BOXED v of Some i \<Rightarrow> Some i | None \<Rightarrow> rfind FBOX v) of
           None \<Rightarrow> None
         | Some i \<Rightarrow> scan_braces 0 (drop i v)))"

definition strip_chars :: "string \<Rightarrow> string \<Rightarrow> string" where
  "strip_chars cs s = rev (dropWhile (\<lambda>c. c \<in> set cs) (rev (dropWhile (\<lambda>c. c \<in> set cs) s)))"

definition remove_boxed :: "string \<Rightarrow> string result" where
  "remove_boxed v =
     (if startswith v BOXED_SPACE then Inr (drop (length BOXED_SPACE) v)
      else if \<not> startswith v BOXED_BRACE \<or> \<not> endswith v ''}''
      then Inl (ValueError (''Invalid boxed answer: '' @ repr_str v))
      else
        (let answer = butlast (drop (length BOXED_BRACE) v) in
         Inr (if contains answer TEXT_BRACE \<and> contains answer ''}''
              then strip_chars '' {}'' (last (split_str TEXT answer)) else answer)))"

subsection \<open>The score\<close>

text \<open>
  One pass over the row for one token of the left side: \<open>dp[i]\<close> is overwritten from left to right and
  \<open>previous\<close> keeps the overwritten value to the left.
\<close>

fun lcs_cells :: "string \<Rightarrow> nat \<Rightarrow> nat \<Rightarrow> string list \<Rightarrow> nat list \<Rightarrow> nat list" where
  "lcs_cells left i previous [] dp = dp"
| "lcs_cells left i previous (right # rights) dp =
     (let current = dp ! i in
      lcs_cells left (Suc i) current rights
        (dp[i := (if left = right then previous + 1 else max (dp ! i) (dp ! (i - 1)))]))"

definition lcs_row :: "string list \<Rightarrow> string \<Rightarrow> nat list \<Rightarrow> nat list" where
  "lcs_row rights left dp = lcs_cells left 1 0 rights dp"

definition lcs_table :: "string list \<Rightarrow> string list \<Rightarrow> nat list" where
  "lcs_table lefts rights = foldl (\<lambda>dp left. lcs_row rights left dp) (replicate (length rights + 1) 0) lefts"

definition lcs_ratio :: "string \<Rightarrow> string \<Rightarrow> rat" where
  "lcs_ratio v ground_truth =
     (let left = words (lower v); right = words (lower ground_truth) in
      if left = [] \<or> right = [] then 0
      else of_nat (last (lcs_table left right)) / of_nat (max (length left) (length right)))"

text \<open>A \<open>ValueError\<close> of an answer that is no box counts as a wrong answer.\<close>

definition compute_single :: "string \<Rightarrow> string \<Rightarrow> rat" where
  "compute_single solution ground_truth =
     (case last_boxed_only_string solution of
        None \<Rightarrow> 0
      | Some boxed \<Rightarrow>
          (case remove_boxed boxed of Inl _ \<Rightarrow> 0 | Inr answer \<Rightarrow> lcs_ratio answer (lower ground_truth)))"

definition compute_score :: "string \<Rightarrow> string list \<Rightarrow> rat" where
  "compute_score solution ground_truths =
     (let tail = lower (py_from (-300) solution) in
      case map (compute_single tail) ground_truths of
        [] \<Rightarrow> 0
      | x # xs \<Rightarrow> foldl max x xs)"

subsection \<open>Longest common subsequences\<close>

text \<open>The reference: the greatest length of a common subsequence.\<close>

definition lcs_length :: "'a list \<Rightarrow> 'a list \<Rightarrow> nat" where
  "lcs_length xs ys = Max (length ` {zs. subseq zs xs \<and> subseq zs ys})"

lemma common_finite [simp]: "finite {zs. subseq zs xs \<and> subseq zs ys}"
  by (rule finite_subset [OF _ finite_set [of "subseqs xs"]]) auto

lemma lcs_length_ge: "subseq zs xs \<Longrightarrow> subseq zs ys \<Longrightarrow> length zs \<le> lcs_length xs ys"
  unfolding lcs_length_def by (rule Max_ge) auto

lemma lcs_length_witness: "\<exists>zs. subseq zs xs \<and> subseq zs ys \<and> length zs = lcs_length xs ys"
proof -
  have "length ` {zs. subseq zs xs \<and> subseq zs ys} \<noteq> {}" by auto
  then have "lcs_length xs ys \<in> length ` {zs. subseq zs xs \<and> subseq zs ys}"
    unfolding lcs_length_def by (rule Max_in [rotated]) simp
  then show ?thesis by auto
qed

lemma lcs_length_le: "(\<And>zs. subseq zs xs \<Longrightarrow> subseq zs ys \<Longrightarrow> length zs \<le> n) \<Longrightarrow> lcs_length xs ys \<le> n"
  using lcs_length_witness [of xs ys] by metis

lemma lcs_length_Nil [simp]: "lcs_length [] ys = 0" "lcs_length xs [] = 0"
  by (auto intro!: antisym lcs_length_le)

lemma lcs_length_bound: "lcs_length xs ys \<le> length xs" "lcs_length xs ys \<le> length ys"
  by (auto intro!: lcs_length_le list_emb_length)

lemma lcs_length_full: "lcs_length xs ys = length xs \<Longrightarrow> subseq xs ys"
  using lcs_length_witness [of xs ys] by (metis subseq_same_length)

lemma lcs_length_Cons_same: "lcs_length (x # xs) (x # ys) = Suc (lcs_length xs ys)"
proof (rule antisym)
  show "lcs_length (x # xs) (x # ys) \<le> Suc (lcs_length xs ys)"
  proof (rule lcs_length_le)
    fix zs assume z: "subseq zs (x # xs)" "subseq zs (x # ys)"
    then have "subseq (tl zs) xs" "subseq (tl zs) ys"
      by (cases zs; auto split: if_splits dest: subseq_Cons')+
    from lcs_length_ge [OF this] show "length zs \<le> Suc (lcs_length xs ys)" by (cases zs) simp_all
  qed
next
  obtain zs where "subseq zs xs" "subseq zs ys" "length zs = lcs_length xs ys" using lcs_length_witness by blast
  then show "Suc (lcs_length xs ys) \<le> lcs_length (x # xs) (x # ys)"
    using lcs_length_ge [of "x # zs" "x # xs" "x # ys"] by simp
qed

lemma lcs_length_Cons_diff:
  assumes "x \<noteq> y"
  shows "lcs_length (x # xs) (y # ys) = max (lcs_length xs (y # ys)) (lcs_length (x # xs) ys)"
proof (rule antisym)
  show "lcs_length (x # xs) (y # ys) \<le> max (lcs_length xs (y # ys)) (lcs_length (x # xs) ys)"
  proof (rule lcs_length_le)
    fix zs assume z: "subseq zs (x # xs)" "subseq zs (y # ys)"
    then have "subseq zs xs \<or> subseq zs ys" using assms by (cases zs) (auto split: if_splits)
    with z show "length zs \<le> max (lcs_length xs (y # ys)) (lcs_length (x # xs) ys)"
      using lcs_length_ge [of zs xs "y # ys"] lcs_length_ge [of zs "x # xs" ys] by auto
  qed
next
  show "max (lcs_length xs (y # ys)) (lcs_length (x # xs) ys) \<le> lcs_length (x # xs) (y # ys)"
    by (auto intro!: lcs_length_le lcs_length_ge)
qed

lemma subseq_rev_rev [simp]: "subseq (rev zs) (rev xs) = subseq zs xs"
proof -
  have *: "subseq zs xs \<Longrightarrow> subseq (rev zs) (rev xs)" for zs xs :: "'a list"
    by (induction rule: list_emb.induct) (auto intro: list_emb_append_mono subseq_rev_drop_many)
  show ?thesis using * [of "rev zs" "rev xs"] * by auto
qed

lemma lcs_length_rev: "lcs_length (rev xs) (rev ys) = lcs_length xs ys"
proof (rule antisym)
  show "lcs_length (rev xs) (rev ys) \<le> lcs_length xs ys"
    using lcs_length_ge [of "rev _" xs ys] by (intro lcs_length_le) (metis length_rev rev_rev_ident subseq_rev_rev)
  show "lcs_length xs ys \<le> lcs_length (rev xs) (rev ys)"
    by (intro lcs_length_le) (metis lcs_length_ge length_rev subseq_rev_rev)
qed

lemma lcs_length_snoc:
  "lcs_length (xs @ [x]) (ys @ [y]) =
     (if x = y then Suc (lcs_length xs ys) else max (lcs_length xs (ys @ [y])) (lcs_length (xs @ [x]) ys))"
  using lcs_length_Cons_same [of x "rev xs" "rev ys"] lcs_length_Cons_diff [of x y "rev xs" "rev ys"]
    lcs_length_rev [of "xs @ [x]" "ys @ [y]"] lcs_length_rev [of xs ys] lcs_length_rev [of xs "ys @ [y]"]
    lcs_length_rev [of "xs @ [x]" ys] by (cases "x = y") simp_all

end
