(* ===== verification/HotpotProps.thy ===== *)
theory HotpotProps
  imports Hotpot
begin

text \<open>
  Properties of the HotpotQA reward: the one-row table computes the length of a longest common
  subsequence, and the score is one exactly for an answer with the tokens of an accepted one.
\<close>

lemma lcs_cells_correct:
  assumes "length dp = length (before @ after) + 1"
    and "\<forall>j \<le> length before. dp ! j = lcs_length (ls @ [l]) (take j (before @ after))"
    and "\<forall>j. length before < j \<longrightarrow> j \<le> length (before @ after) \<longrightarrow> dp ! j = lcs_length ls (take j (before @ after))"
  shows "length (lcs_cells l (length before + 1) (lcs_length ls before) after dp) = length dp \<and>
    (\<forall>j \<le> length (before @ after). lcs_cells l (length before + 1) (lcs_length ls before) after dp ! j =
       lcs_length (ls @ [l]) (take j (before @ after)))"
  using assms
proof (induction "after" arbitrary: before dp)
  case Nil
  then show ?case by simp
next
  case (Cons r rs)
  let ?i = "length before + 1"
  let ?v = "if l = r then lcs_length ls before + 1 else max (dp ! ?i) (dp ! (?i - 1))"
  let ?dp = "dp[?i := ?v]"
  have cur: "dp ! ?i = lcs_length ls (before @ [r])" using Cons.prems(3) by simp
  have left: "dp ! length before = lcs_length (ls @ [l]) before" using Cons.prems(2) by simp
  have v: "?v = lcs_length (ls @ [l]) (before @ [r])" using cur left by (simp add: lcs_length_snoc max.commute)
  have 1: "length ?dp = length ((before @ [r]) @ rs) + 1" using Cons.prems(1) by simp
  have 2: "\<forall>j \<le> length (before @ [r]). ?dp ! j = lcs_length (ls @ [l]) (take j ((before @ [r]) @ rs))"
    using Cons.prems(1,2) v by (auto simp: nth_list_update le_Suc_eq)
  have 3: "\<forall>j. length (before @ [r]) < j \<longrightarrow> j \<le> length ((before @ [r]) @ rs) \<longrightarrow>
      ?dp ! j = lcs_length ls (take j ((before @ [r]) @ rs))"
    using Cons.prems(3) by (auto simp: nth_list_update)
  have step: "lcs_cells l ?i (lcs_length ls before) (r # rs) dp =
      lcs_cells l (length (before @ [r]) + 1) (lcs_length ls (before @ [r])) rs ?dp"
    using cur by (simp add: Let_def)
  have "(before @ [r]) @ rs = before @ r # rs" by simp
  note R = Cons.IH [OF 1 2 3, unfolded this length_list_update]
  show ?case unfolding step by (rule R)
qed

lemma lcs_table_correct:
  "length (lcs_table ls rs) = length rs + 1 \<and> (\<forall>j \<le> length rs. lcs_table ls rs ! j = lcs_length ls (take j rs))"
proof (induction ls rule: rev_induct)
  case Nil
  then show ?case by (simp add: lcs_table_def less_Suc_eq_le del: replicate_Suc)
next
  case (snoc l ls)
  have "lcs_table (ls @ [l]) rs = lcs_cells l (length ([]::string list) + 1) (lcs_length ls []) rs (lcs_table ls rs)"
    by (simp add: lcs_table_def lcs_row_def)
  with lcs_cells_correct [of "lcs_table ls rs" "[]" rs ls l] snoc show ?case by simp
qed

lemma lcs_table_last: "last (lcs_table ls rs) = lcs_length ls rs"
proof -
  have "last (lcs_table ls rs) = lcs_table ls rs ! length rs"
    using lcs_table_correct [of ls rs] by (subst last_conv_nth) auto
  then show ?thesis using lcs_table_correct [of ls rs] by simp
qed

text \<open>
  the in-place row of the score computes a longest common subsequence: the ratio of two texts is
  the greatest length of a common subsequence of their lower-case tokens, divided by the number of
  tokens of the longer text, and zero when one of them has no token.
\<close>

theorem lcs_ratio_optimal:
  "lcs_ratio v g = (if words (lower v) = [] \<or> words (lower g) = [] then 0
     else of_nat (Max (length ` {zs. subseq zs (words (lower v)) \<and> subseq zs (words (lower g))})) /
          of_nat (max (length (words (lower v))) (length (words (lower g)))))"
  by (simp add: lcs_ratio_def Let_def lcs_table_last flip: lcs_length_def)

lemma lcs_ratio_bounds: "0 \<le> lcs_ratio v g" "lcs_ratio v g \<le> 1"
  using lcs_length_bound [of "words (lower v)" "words (lower g)"]
  by (auto simp: lcs_ratio_def Let_def lcs_table_last divide_le_eq_1 max_def)

lemma lcs_ratio_one: "lcs_ratio v g = 1 \<longleftrightarrow> words (lower v) = words (lower g) \<and> words (lower g) \<noteq> []"
proof
  let ?l = "words (lower v)" and ?r = "words (lower g)"
  assume r: "lcs_ratio v g = 1"
  then have ne: "?l \<noteq> []" "?r \<noteq> []" by (auto simp: lcs_ratio_def Let_def split: if_splits)
  then have "0 < max (length ?l) (length ?r)" by (simp add: max_def)
  with r ne have "lcs_length ?l ?r = max (length ?l) (length ?r)"
    by (simp add: lcs_ratio_def Let_def lcs_table_last divide_eq_1_iff)
  with lcs_length_bound [of ?l ?r] have "lcs_length ?l ?r = length ?l" "length ?l = length ?r" by auto
  with lcs_length_full [of ?l ?r] have "?l = ?r" by (metis subseq_same_length)
  with ne show "?l = ?r \<and> ?r \<noteq> []" by simp
next
  assume e: "words (lower v) = words (lower g) \<and> words (lower g) \<noteq> []"
  have "lcs_length xs xs = length xs" for xs :: "string list"
    using lcs_length_ge [of xs xs xs] lcs_length_bound [of xs xs] by simp
  with e show "lcs_ratio v g = 1" by (simp add: lcs_ratio_def Let_def lcs_table_last)
qed

lemma compute_single_bounds: "0 \<le> compute_single s g" "compute_single s g \<le> 1"
  by (auto simp: compute_single_def lcs_ratio_bounds split: option.split sum.split)

lemma foldl_max: "foldl max x xs = Max (insert x (set xs))" for x :: rat
  using Max.set_eq_fold [of x xs] by (simp add: foldl_conv_fold max.commute)

text \<open>
  a HotpotQA score lies between zero and one; it is one exactly when the answer boxed in the
  last 300 characters has the lower-case tokens of some accepted answer, and it is zero when no
  answer is boxed there or nothing is accepted.
\<close>

theorem compute_score_exact:
  defines "answer s \<equiv> (case last_boxed_only_string (lower (py_from (- 300) s)) of
      None \<Rightarrow> None | Some b \<Rightarrow> (case remove_boxed b of Inl _ \<Rightarrow> None | Inr a \<Rightarrow> Some (words (lower a))))"
  shows "0 \<le> compute_score s gs \<and> compute_score s gs \<le> 1 \<and>
    (compute_score s gs = 1 \<longleftrightarrow> (\<exists>g \<in> set gs. words (lower (lower g)) \<noteq> [] \<and> answer s = Some (words (lower (lower g))))) \<and>
    (answer s = None \<or> gs = [] \<longrightarrow> compute_score s gs = 0)"
proof (cases gs)
  case Nil
  then show ?thesis by (simp add: compute_score_def)
next
  case (Cons g0 gs')
  let ?f = "compute_single (lower (py_from (- 300) s))"
  have one: "?f g = 1 \<longleftrightarrow> words (lower (lower g)) \<noteq> [] \<and> answer s = Some (words (lower (lower g)))" for g
    by (auto simp: compute_single_def answer_def lcs_ratio_one split: option.split sum.split)
  have none: "answer s = None \<Longrightarrow> ?f g = 0" for g
    by (auto simp: compute_single_def answer_def split: option.splits sum.splits)
  have m: "compute_score s gs = Max (?f ` set gs)"
    by (simp add: compute_score_def Cons foldl_max Let_def)
  have fin: "finite (?f ` set gs)" "?f ` set gs \<noteq> {}" using Cons by auto
  then have "Max (?f ` set gs) \<in> ?f ` set gs" by (rule Max_in)
  then obtain g where g: "g \<in> set gs" "compute_score s gs = ?f g" using m by auto
  have ge: "?f g' \<le> compute_score s gs" if "g' \<in> set gs" for g' using fin that m by simp
  have "compute_score s gs = 1 \<longleftrightarrow> (\<exists>g \<in> set gs. ?f g = 1)"
    using g ge compute_single_bounds by (metis antisym)
  then show ?thesis using g compute_single_bounds none Cons by (simp add: one)
qed

lemma compute_score_exact_witness:
  "compute_score (backslash # ''boxed{Paris}'') [''paris'', ''rome''] = 1"
proof -
  let ?s = "backslash # ''boxed{Paris}''"
  have "last_boxed_only_string (lower (py_from (- 300) ?s)) = Some (backslash # ''boxed{paris}'')"
    "remove_boxed (backslash # ''boxed{paris}'') = Inr ''paris''"
    "words (lower ''paris'') = [''paris'']" "words (lower (lower ''paris'')) = [''paris'']"
    by code_simp+
  with compute_score_exact [of ?s "[''paris'', ''rome'']"] show ?thesis by simp
qed

end
