(* ===== verification/MemAgent.thy ===== *)
theory MemAgent
  imports ReAct Sandbox Hotpot
begin

text \<open>
  The memory agent, \<open>agents/mem_agent/agent.py\<close>: a long input is read in chunks, each in a fresh
  context, and only a memory text is carried over; and the HotpotQA task that scores its answer,
  \<open>tasks/hotpotqa/task.py\<close>.  The world \<open>'s\<close> is what the model endpoint acts on; its clock is an
  argument.
\<close>

subsection \<open>Data\<close>

record turn_output =
  to_step_idx :: nat
  to_response :: string
  to_prompt_tokens :: int
  to_completion_tokens :: int

record context_step =
  cx_prompt_messages :: "dict list"
  cx_messages :: "dict list"
  cx_steps :: "turn_output list"
  cx_reward :: rat
  cx_execution_time :: rat

definition new_context_step :: context_step where
  "new_context_step = \<lparr>cx_prompt_messages = [], cx_messages = [], cx_steps = [], cx_reward = 0, cx_execution_time = 0\<rparr>"

record context_result =
  cr_run_id :: string
  cr_execution_time :: rat
  cr_trajectory :: "context_step list"
  cr_final_state :: context_step
  cr_total_steps :: nat

definition set_result_reward :: "rat \<Rightarrow> context_result \<Rightarrow> context_result" where
  "set_result_reward r res = res\<lparr>cr_trajectory := map (\<lambda>c. c\<lparr>cx_reward := r\<rparr>) (cr_trajectory res)\<rparr>"

record mem_config =
  mc_name :: string
  mc_model :: model_config
  mc_max_steps :: nat
  mc_max_memorization_length :: int
  mc_max_chunks :: nat
  mc_max_final_response_length :: int

record 's mem_state =
  mm_world :: 's
  mm_trajectory :: "context_step list"
  mm_current :: "context_step option"
  mm_global_step_idx :: nat
  mm_step_idx :: nat
  mm_total_completion_tokens :: int
  mm_interaction_start :: rat
  mm_active :: bool
  mm_result :: "context_result option"
  mm_messages :: "dict list"

text \<open>\<open>me_query\<close> is the chat client.\<close>

record 's mem_env =
  me_query :: "dict list \<Rightarrow> dict \<Rightarrow> 's \<Rightarrow> 's \<times> reply result"
  me_clock :: "'s \<Rightarrow> rat"
  me_run_id :: string
  me_fr :: "rat \<Rightarrow> string"

definition new_mem_state :: "'s \<Rightarrow> 's mem_state" where
  "new_mem_state w =
     \<lparr>mm_world = w, mm_trajectory = [], mm_current = None, mm_global_step_idx = 0, mm_step_idx = 0,
      mm_total_completion_tokens = 0, mm_interaction_start = 0, mm_active = False, mm_result = None, mm_messages = []\<rparr>"

subsection \<open>Contexts\<close>

definition collect_context_step :: "'s mem_env \<Rightarrow> 's mem_state \<Rightarrow> 's mem_state" where
  "collect_context_step env st =
     (case mm_current st of
        None \<Rightarrow> st
      | Some c \<Rightarrow>
          if cx_steps c = [] then st
          else st\<lparr>mm_trajectory := mm_trajectory st @
                   [c\<lparr>cx_messages := mm_messages st,
                      cx_execution_time := me_clock env (mm_world st) - mm_interaction_start st\<rparr>],
                 mm_current := None\<rparr>)"

definition track_context_step :: "'s mem_env \<Rightarrow> 's mem_state \<Rightarrow> 's mem_state" where
  "track_context_step env st =
     st\<lparr>mm_current := Some new_context_step, mm_step_idx := 0, mm_interaction_start := me_clock env (mm_world st)\<rparr>"

definition update_context :: "'s mem_env \<Rightarrow> dict list \<Rightarrow> 's mem_state \<Rightarrow> 's mem_state \<times> unit result" where
  "update_context env messages st =
     (if \<not> mm_active st then (st, Inl (RuntimeError ''update_context() must be called inside context_session()''))
      else
        (let st1 = track_context_step env (collect_context_step env st) in
         (st1\<lparr>mm_current := map_option (\<lambda>c. c\<lparr>cx_prompt_messages := messages\<rparr>) (mm_current st1),
              mm_messages := messages\<rparr>, Inr ())))"

text \<open>The start of a context session, its end, and the bracket.\<close>

definition begin_session :: "mem_config \<Rightarrow> 's mem_state \<Rightarrow> 's mem_state \<times> unit result" where
  "begin_session cfg st =
     (if mm_active st then (st, Inl (RuntimeError ''MemAgent does not support nested context_session() calls''))
      else if md_base_url (mc_model cfg) = None
      then (st, Inl (ValueError (mc_name cfg @ '': config.model.base_url is not set (the endpoint the policy calls)'')))
      else (st\<lparr>mm_trajectory := [], mm_current := None, mm_global_step_idx := 0, mm_step_idx := 0,
               mm_total_completion_tokens := 0, mm_result := None, mm_messages := [], mm_active := True\<rparr>, Inr ()))"

definition end_session :: "'s mem_env \<Rightarrow> rat \<Rightarrow> 's mem_state \<Rightarrow> 's mem_state" where
  "end_session env started_at st =
     (let st1 = collect_context_step env st in
      st1\<lparr>mm_active := False,
          mm_result := Some \<lparr>cr_run_id = me_run_id env, cr_execution_time = me_clock env (mm_world st1) - started_at,
            cr_trajectory = mm_trajectory st1,
            cr_final_state = (if mm_trajectory st1 = [] then new_context_step else last (mm_trajectory st1)),
            cr_total_steps = mm_global_step_idx st1\<rparr>\<rparr>)"

definition context_session ::
  "'s mem_env \<Rightarrow> mem_config \<Rightarrow> ('s mem_state \<Rightarrow> 's mem_state \<times> unit result) \<Rightarrow> 's mem_state \<Rightarrow> 's mem_state \<times> unit result" where
  "context_session env cfg body st =
     (case begin_session cfg st of
        (st1, Inl e) \<Rightarrow> (st1, Inl e)
      | (st1, Inr _) \<Rightarrow>
          (case body st1 of (st2, r) \<Rightarrow> (end_session env (me_clock env (mm_world st1)) st2, r)))"

subsection \<open>One model call\<close>

definition sampling_params_for_step :: "mem_config \<Rightarrow> dict \<Rightarrow> int \<Rightarrow> dict result" where
  "sampling_params_for_step cfg overrides spent =
     (let params = dupdate (sampling_params (mc_model cfg)) overrides;
          max_tokens = (case dget params ''max_tokens'' of
              Some v \<Rightarrow> v
            | None \<Rightarrow> (case md_max_tokens_per_turn (mc_model cfg) of None \<Rightarrow> PNone | Some n \<Rightarrow> PInt n)) in
      rbind (case md_max_total_tokens (mc_model cfg) of
               None \<Rightarrow> Inr max_tokens
             | Some limit \<Rightarrow>
                 if limit - spent \<le> 0
                 then Inl (RuntimeError (''MemAgent reached max_total_tokens='' @ str_of_int limit))
                 else (case max_tokens of
                         PNone \<Rightarrow> Inr (PInt (limit - spent))
                       | v \<Rightarrow> (case num_val v of
                             Some q \<Rightarrow> Inr (if of_int (limit - spent) < q then PInt (limit - spent) else v)
                           | None \<Rightarrow> Inl (TypeError ''< not supported between instances of int and this type''))))
        (\<lambda>v. Inr (if v = PNone then params else dset params ''max_tokens'' v)))"

text \<open>\<open>ContextTurnOutput(...)\<close>: the response has to be a string, the counts integers.\<close>

definition turn_of_reply :: "nat \<Rightarrow> pv \<Rightarrow> generation_info \<Rightarrow> turn_output result" where
  "turn_of_reply step_idx content gen =
     (case (content, gi_prompt_tokens gen, gi_completion_tokens gen) of
        (PStr s, PInt p, PInt c) \<Rightarrow>
          Inr \<lparr>to_step_idx = step_idx, to_response = s, to_prompt_tokens = p, to_completion_tokens = c\<rparr>
      | _ \<Rightarrow> Inl (OtherException ''ValidationError'' ''ContextTurnOutput''))"

definition mem_step :: "'s mem_env \<Rightarrow> mem_config \<Rightarrow> dict \<Rightarrow> 's mem_state \<Rightarrow> 's mem_state \<times> turn_output result" where
  "mem_step env cfg overrides st =
     (case mm_current st of
        None \<Rightarrow> (st, Inl (RuntimeError ''Please call update_context() before calling the first step()''))
      | Some c \<Rightarrow>
          if mm_global_step_idx st \<ge> mc_max_steps cfg
          then (st, Inl (RuntimeError (''MemAgent reached max_steps='' @ str_of_nat (mc_max_steps cfg))))
          else
            (let st1 = st\<lparr>mm_global_step_idx := mm_global_step_idx st + 1, mm_step_idx := mm_step_idx st + 1\<rparr> in
             case sampling_params_for_step cfg overrides (mm_total_completion_tokens st1) of
               Inl e \<Rightarrow> (st1, Inl e)
             | Inr params \<Rightarrow>
                 (case me_query env (mm_messages st1) params (mm_world st1) of
                    (w, Inl e) \<Rightarrow> (st1\<lparr>mm_world := w\<rparr>, Inl e)
                  | (w, Inr (content, _, gen)) \<Rightarrow>
                      (case gi_completion_tokens gen of
                         PInt n \<Rightarrow>
                           (let st2 = st1\<lparr>mm_world := w, mm_total_completion_tokens := mm_total_completion_tokens st1 + n,
                                          mm_messages := mm_messages st1 @ [[(''role'', PStr ''assistant''), (''content'', content)]]\<rparr> in
                            case turn_of_reply (mm_step_idx st2) content gen of
                              Inl e \<Rightarrow> (st2, Inl e)
                            | Inr t \<Rightarrow> (st2\<lparr>mm_current := Some (c\<lparr>cx_steps := cx_steps c @ [t]\<rparr>)\<rparr>, Inr t))
                       | v \<Rightarrow> (st1\<lparr>mm_world := w\<rparr>,
                              Inl (TypeError (''unsupported operand type(s) for +=: int and '' @ type_name v)))))))"

subsection \<open>The policy\<close>

definition chunk_prompt :: "string \<Rightarrow> string \<Rightarrow> string \<Rightarrow> string" where
  "chunk_prompt prompt memory chunk =
     ''You are presented with a problem, a section of an article that may contain the answer to the problem, and a '' @
     ''previous memory. Please read the provided section carefully and update the memory with the new information that '' @
     ''helps to answer the problem. Be sure to retain all relevant details from the previous memory while adding any '' @
     ''new, useful information.'' @ nl @ nl @
     ''<problem>'' @ nl @ prompt @ nl @ ''</problem>'' @ nl @ nl @
     ''<memory>'' @ nl @ memory @ nl @ ''</memory>'' @ nl @ nl @
     ''<section>'' @ nl @ chunk @ nl @ ''</section>'' @ nl @ nl @
     ''Updated memory:'' @ nl"

definition final_prompt :: "string \<Rightarrow> string \<Rightarrow> string" where
  "final_prompt prompt memory =
     ''You are presented with a problem and a previous memory. Please answer the problem based on the previous memory '' @
     ''and put the answer in '' @ [backslash] @ ''boxed{}.'' @ nl @ nl @
     ''<problem>'' @ nl @ prompt @ nl @ ''</problem>'' @ nl @ nl @
     ''<memory>'' @ nl @ memory @ nl @ ''</memory>'' @ nl @ nl @
     ''Your answer:'' @ nl"

definition shown_memory :: "string option \<Rightarrow> string" where
  "shown_memory m = (case m of None \<Rightarrow> ''No previous memory'' | Some s \<Rightarrow> if s = [] then ''No previous memory'' else s)"

definition user_prompt :: "string \<Rightarrow> dict list" where
  "user_prompt s = [[(''role'', PStr ''user''), (''content'', PStr s)]]"

text \<open>A new context with one user message, and one call in it.\<close>

definition ask_once :: "'s mem_env \<Rightarrow> mem_config \<Rightarrow> string \<Rightarrow> int \<Rightarrow> 's mem_state \<Rightarrow> 's mem_state \<times> turn_output result" where
  "ask_once env cfg s max_tokens st =
     (case update_context env (user_prompt s) st of
        (st1, Inl e) \<Rightarrow> (st1, Inl e)
      | (st1, Inr _) \<Rightarrow> mem_step env cfg [(''max_tokens'', PInt max_tokens)] st1)"

fun read_chunks ::
  "'s mem_env \<Rightarrow> mem_config \<Rightarrow> string \<Rightarrow> string list \<Rightarrow> string option \<Rightarrow> 's mem_state \<Rightarrow> 's mem_state \<times> string option result" where
  "read_chunks env cfg prompt [] memory st = (st, Inr memory)"
| "read_chunks env cfg prompt (chunk # chunks) memory st =
     (if mm_global_step_idx st \<ge> mc_max_chunks cfg then (st, Inr memory)
      else
        (case ask_once env cfg (chunk_prompt prompt (shown_memory memory) chunk) (mc_max_memorization_length cfg) st of
           (st1, Inl e) \<Rightarrow> (st1, Inl e)
         | (st1, Inr t) \<Rightarrow> read_chunks env cfg prompt chunks (Some (to_response t)) st1))"

definition mem_policy :: "'s mem_env \<Rightarrow> mem_config \<Rightarrow> string \<Rightarrow> string list \<Rightarrow> 's mem_state \<Rightarrow> 's mem_state \<times> unit result" where
  "mem_policy env cfg prompt chunks st =
     (case read_chunks env cfg prompt chunks None st of
        (st1, Inl e) \<Rightarrow> (st1, Inl e)
      | (st1, Inr memory) \<Rightarrow>
          (case ask_once env cfg (final_prompt prompt (shown_memory memory)) (mc_max_final_response_length cfg) st1 of
             (st2, Inl e) \<Rightarrow> (st2, Inl e) | (st2, Inr _) \<Rightarrow> (st2, Inr ())))"

definition all_strings :: "pv list \<Rightarrow> string list option" where
  "all_strings vs = those (map (\<lambda>v. case v of PStr s \<Rightarrow> Some s | _ \<Rightarrow> None) vs)"

record mem_outcome =
  mo_response :: string
  mo_result :: context_result
  mo_transcript :: "dict list"

definition build_agent_result :: "'s mem_state \<Rightarrow> mem_outcome result" where
  "build_agent_result st =
     (if mm_active st then Inl (RuntimeError ''build_agent_result() must be called after context_session() exits'')
      else case mm_result st of
        None \<Rightarrow> Inl (RuntimeError ''No completed context session; call context_session() from run() first'')
      | Some res \<Rightarrow>
          Inr \<lparr>mo_response = (if cx_steps (cr_final_state res) = [] then [] else to_response (last (cx_steps (cr_final_state res)))),
               mo_result = res, mo_transcript = concat (map cx_messages (cr_trajectory res))\<rparr>)"

definition mem_run ::
  "'s mem_env \<Rightarrow> mem_config \<Rightarrow> dict list \<Rightarrow> dict \<Rightarrow> 's mem_state \<Rightarrow> 's mem_state \<times> mem_outcome result" where
  "mem_run env cfg messages raw_data st =
     (case messages of
        [] \<Rightarrow> (st, Inl (ValueError ''mem_agent requires a non-empty prompt message list''))
      | m # _ \<Rightarrow>
          (let prompt = py_str (me_fr env) (dget_or m ''content'' (PStr []));
               bad = ValueError (''mem_agent requires pre-split text chunks in raw_data['' @ repr_str ''chunks'' @ '']'') in
           case get_none raw_data ''chunks'' of
             PList vs \<Rightarrow>
               (case all_strings vs of
                  None \<Rightarrow> (st, Inl bad)
                | Some chunks \<Rightarrow>
                    (case context_session env cfg (mem_policy env cfg prompt chunks) st of
                       (st1, Inl e) \<Rightarrow> (st1, Inl e)
                     | (st1, Inr _) \<Rightarrow> (st1, build_agent_result st1)))
           | _ \<Rightarrow> (st, Inl bad)))"

subsection \<open>The HotpotQA task\<close>

definition accepted_answers :: "(rat \<Rightarrow> string) \<Rightarrow> string list \<Rightarrow> dict \<Rightarrow> string list" where
  "accepted_answers fr ground_truth metadata =
     (if ground_truth \<noteq> [] then ground_truth
      else
        (case (case dget_or metadata ''reward_model'' (PDict []) of
                 PDict d \<Rightarrow> dget_or d ''ground_truth'' (PList []) | _ \<Rightarrow> PList []) of
           PStr s \<Rightarrow> [s]
         | PList vs \<Rightarrow> map (py_str fr) vs
         | PNone \<Rightarrow> []
         | v \<Rightarrow> [py_str fr v]))"

definition is_thinking :: "turn_output \<Rightarrow> bool" where
  "is_thinking t \<longleftrightarrow> contains (lower (to_response t)) ''<think'' \<or> contains (lower (to_response t)) ''</think>''"

definition thinking_turns :: "context_result \<Rightarrow> nat" where
  "thinking_turns res = length (filter is_thinking (concat (map cx_steps (cr_trajectory res))))"

definition hotpot_result :: "string list \<Rightarrow> mem_outcome \<Rightarrow> task_result \<times> context_result" where
  "hotpot_result answers out =
     (let reward = compute_score (mo_response out) answers; n = thinking_turns (mo_result out) in
      (\<lparr>ts_reward = PFloat reward, ts_accuracy = PFloat reward, ts_finished = PNone,
        ts_extra_info = PDict [(''response'', PStr (mo_response out)),
          (''num_contexts'', PInt (int (length (cr_trajectory (mo_result out))))),
          (''total_steps'', PInt (int (cr_total_steps (mo_result out)))),
          (''thinking_detected'', PBool (0 < n)), (''thinking_turns'', PInt (int n))]\<rparr>,
       set_result_reward reward (mo_result out)))"

definition hotpot_run ::
  "rat \<Rightarrow> 's provider \<Rightarrow> 's mem_env \<Rightarrow> mem_config \<Rightarrow> string list \<Rightarrow> dict list \<Rightarrow> dict \<Rightarrow> 's \<Rightarrow> 's \<times> (task_result \<times> context_result) result" where
  "hotpot_run timeout p env cfg ground_truth prompt metadata s =
     (case sandbox_entered (me_fr env) timeout p 3
             (\<lambda>w. case mem_run env cfg prompt metadata (new_mem_state w) of (st, r) \<Rightarrow> (mm_world st, r)) s of
        (s1, Inl e) \<Rightarrow> (s1, Inl e)
      | (s1, Inr out) \<Rightarrow> (s1, Inr (hotpot_result (accepted_answers (me_fr env) ground_truth metadata) out)))"

end
