(* ===== verification/MemProps.thy ===== *)
theory MemProps
  imports MemAgent
begin

text \<open>
  Properties of the memory agent: what each model call sees, and how many there are.
\<close>

definition response_of :: "context_step \<Rightarrow> string" where
  "response_of c = to_response (last (cx_steps c))"

text \<open>A context that asked \<open>s\<close>, once.\<close>

definition asked_once :: "string \<Rightarrow> context_step \<Rightarrow> bool" where
  "asked_once s c \<longleftrightarrow> cx_prompt_messages c = user_prompt s \<and>
     cx_messages c = user_prompt s @ [[(''role'', PStr ''assistant''), (''content'', PStr (response_of c))]] \<and>
     map to_step_idx (cx_steps c) = [1]"

text \<open>The memory shown to context \<open>i\<close>: the answer of the context before it.\<close>

definition memory_at :: "string option \<Rightarrow> context_step list \<Rightarrow> nat \<Rightarrow> string" where
  "memory_at memory cs i = shown_memory (if i = 0 then memory else Some (response_of (cs ! (i - 1))))"

definition contexts :: "'s mem_env \<Rightarrow> 's mem_state \<Rightarrow> context_step list" where
  "contexts env st = mm_trajectory (collect_context_step env st)"

lemma collect_simps [simp]:
  "mm_active (collect_context_step env st) = mm_active st"
  "mm_global_step_idx (collect_context_step env st) = mm_global_step_idx st"
  "mm_world (collect_context_step env st) = mm_world st"
  by (auto simp: collect_context_step_def split: option.split)

lemma mem_step_Inr:
  assumes "mem_step env cfg ov st = (st', Inr t)"
  obtains c where "mm_current st = Some c" "mm_current st' = Some (c\<lparr>cx_steps := cx_steps c @ [t]\<rparr>)"
    "mm_global_step_idx st < mc_max_steps cfg" "mm_global_step_idx st' = Suc (mm_global_step_idx st)"
    "mm_trajectory st' = mm_trajectory st" "mm_active st' = mm_active st" "to_step_idx t = Suc (mm_step_idx st)"
    "mm_messages st' = mm_messages st @ [[(''role'', PStr ''assistant''), (''content'', PStr (to_response t))]]"
proof -
  from assms obtain c where c: "mm_current st = Some c" by (auto simp: mem_step_def split: option.splits)
  from assms c have g: "mm_global_step_idx st < mc_max_steps cfg"
    by (auto simp: mem_step_def not_le [symmetric] split: if_splits)
  let ?st1 = "st\<lparr>mm_global_step_idx := mm_global_step_idx st + 1, mm_step_idx := mm_step_idx st + 1\<rparr>"
  from assms c g obtain params where p: "sampling_params_for_step cfg ov (mm_total_completion_tokens st) = Inr params"
    by (cases "sampling_params_for_step cfg ov (mm_total_completion_tokens st)") (auto simp: mem_step_def Let_def)
  obtain w x where q: "me_query env (mm_messages st) params (mm_world st) = (w, x)" by (rule prod.exhaust)
  with assms c g p obtain content calls gen where x: "x = Inr (content, calls, gen)"
    by (cases x) (auto simp: mem_step_def Let_def)
  with assms c g p q obtain n where n: "gi_completion_tokens gen = PInt n"
    by (cases "gi_completion_tokens gen") (auto simp: mem_step_def Let_def)
  with assms c g p q x have t: "turn_of_reply (mm_step_idx st + 1) content gen = Inr t"
    by (cases "turn_of_reply (mm_step_idx st + 1) content gen") (auto simp: mem_step_def Let_def)
  then have r: "content = PStr (to_response t)" "to_step_idx t = Suc (mm_step_idx st)"
    by (auto simp: turn_of_reply_def split: pv.splits)
  have "st' = ?st1\<lparr>mm_world := w, mm_total_completion_tokens := mm_total_completion_tokens st + n,
      mm_messages := mm_messages st @ [[(''role'', PStr ''assistant''), (''content'', content)]],
      mm_current := Some (c\<lparr>cx_steps := cx_steps c @ [t]\<rparr>)\<rparr>"
    using assms c g p q x n t by (simp add: mem_step_def Let_def)
  with c g r show ?thesis by (intro that [of c]) simp_all
qed

lemma ask_once_Inr:
  assumes "ask_once env cfg s n st = (st', Inr t)" "mm_active st"
  shows "mm_active st'" "mm_global_step_idx st < mc_max_steps cfg" "mm_global_step_idx st' = Suc (mm_global_step_idx st)"
    "\<exists>c. contexts env st' = contexts env st @ [c] \<and> asked_once s c \<and> response_of c = to_response t"
proof -
  let ?st1 = "(track_context_step env (collect_context_step env st))
     \<lparr>mm_current := Some (new_context_step\<lparr>cx_prompt_messages := user_prompt s\<rparr>), mm_messages := user_prompt s\<rparr>"
  have "update_context env (user_prompt s) st = (?st1, Inr ())"
    using assms(2) by (simp add: update_context_def track_context_step_def Let_def)
  with assms(1) have step: "mem_step env cfg [(''max_tokens'', PInt n)] ?st1 = (st', Inr t)"
    by (simp add: ask_once_def)
  from step show "mm_active st'" "mm_global_step_idx st < mc_max_steps cfg" "mm_global_step_idx st' = Suc (mm_global_step_idx st)"
    using assms(2) by (auto elim!: mem_step_Inr simp: track_context_step_def)
  from step show "\<exists>c. contexts env st' = contexts env st @ [c] \<and> asked_once s c \<and> response_of c = to_response t"
  proof (rule mem_step_Inr)
    fix c assume c: "mm_current ?st1 = Some c" "mm_current st' = Some (c\<lparr>cx_steps := cx_steps c @ [t]\<rparr>)"
      "mm_trajectory st' = mm_trajectory ?st1" "to_step_idx t = Suc (mm_step_idx ?st1)"
      "mm_messages st' = mm_messages ?st1 @ [[(''role'', PStr ''assistant''), (''content'', PStr (to_response t))]]"
    then show ?thesis
      by (auto simp: contexts_def collect_context_step_def [of env st'] asked_once_def response_of_def
          track_context_step_def new_context_step_def)
  qed
qed

lemma read_chunks_Inr:
  assumes "read_chunks env cfg prompt chunks memory st = (st', Inr memory')" "mm_active st"
  shows "mm_active st' \<and> (\<exists>cs. contexts env st' = contexts env st @ cs \<and>
    length cs = min (length chunks) (mc_max_chunks cfg - mm_global_step_idx st) \<and>
    mm_global_step_idx st' = mm_global_step_idx st + length cs \<and>
    (\<forall>i < length cs. asked_once (chunk_prompt prompt (memory_at memory cs i) (chunks ! i)) (cs ! i)) \<and>
    shown_memory memory' = memory_at memory cs (length cs))"
  using assms
proof (induction chunks arbitrary: memory st)
  case Nil
  then show ?case by (auto simp: memory_at_def)
next
  case (Cons chunk chunks)
  show ?case
  proof (cases "mc_max_chunks cfg \<le> mm_global_step_idx st")
    case True
    with Cons.prems show ?thesis by (auto simp: memory_at_def)
  next
    case False
    obtain st1 x where a: "ask_once env cfg (chunk_prompt prompt (shown_memory memory) chunk)
        (mc_max_memorization_length cfg) st = (st1, x)" by (rule prod.exhaust)
    with Cons.prems(1) False obtain t where x: "x = Inr t" by (cases x) auto
    note A = ask_once_Inr [OF a [unfolded x] Cons.prems(2)]
    from A(4) obtain c where c: "contexts env st1 = contexts env st @ [c]"
      "asked_once (chunk_prompt prompt (shown_memory memory) chunk) c" "response_of c = to_response t" by blast
    from Cons.prems(1) False a x have run: "read_chunks env cfg prompt chunks (Some (to_response t)) st1 = (st', Inr memory')"
      by simp
    from Cons.IH [OF run A(1)] obtain cs where cs: "contexts env st' = contexts env st1 @ cs"
      "length cs = min (length chunks) (mc_max_chunks cfg - mm_global_step_idx st1)"
      "mm_global_step_idx st' = mm_global_step_idx st1 + length cs"
      "\<forall>i < length cs. asked_once (chunk_prompt prompt (memory_at (Some (to_response t)) cs i) (chunks ! i)) (cs ! i)"
      "shown_memory memory' = memory_at (Some (to_response t)) cs (length cs)" "mm_active st'" by blast
    have mem: "memory_at (Some (to_response t)) cs i = memory_at memory (c # cs) (Suc i)" for i
      by (cases i) (simp_all add: memory_at_def c(3))
    have "asked_once (chunk_prompt prompt (memory_at memory (c # cs) i) ((chunk # chunks) ! i)) ((c # cs) ! i)"
      if "i < length (c # cs)" for i
      using that cs(4) c(2) by (cases i) (simp_all add: mem memory_at_def [of memory _ 0])
    then show ?thesis using c cs A False
      by (intro conjI exI [of _ "c # cs"]) (simp_all add: mem)
  qed
qed

text \<open>
  the memory agent reads one chunk per context and forgets everything but its memory: a run that
  returns has read the first \<open>max_chunks\<close> chunks in order, each in a fresh context that shows the
  problem, that chunk and the previous answer only, and has then asked for the answer with the last
  memory; it reports that answer, and has called the model once per context, at most
  \<open>max_steps\<close> times in all.
\<close>

theorem mem_agent_contexts:
  assumes "mem_run env cfg (m # ms) raw (new_mem_state w) = (st, Inr out)"
    and "get_none raw ''chunks'' = PList (map PStr chunks)"
  defines "prompt \<equiv> py_str (me_fr env) (dget_or m ''content'' (PStr []))"
    and "n \<equiv> min (length chunks) (mc_max_chunks cfg)" and "cs \<equiv> cr_trajectory (mo_result out)"
  shows "length cs = n + 1 \<and> cr_total_steps (mo_result out) = n + 1 \<and> n + 1 \<le> mc_max_steps cfg \<and>
    (\<forall>i < n. asked_once (chunk_prompt prompt (memory_at None cs i) (chunks ! i)) (cs ! i)) \<and>
    asked_once (final_prompt prompt (memory_at None cs n)) (cs ! n) \<and>
    mo_response out = response_of (cs ! n) \<and> mo_transcript out = concat (map cx_messages cs)"
proof -
  have all: "all_strings (map PStr xs) = Some xs" for xs
    by (induction xs) (simp_all add: all_strings_def)
  obtain st1 x where s: "context_session env cfg (mem_policy env cfg prompt chunks) (new_mem_state w) = (st1, x)"
    by (rule prod.exhaust)
  have "(case (st1, x) of (st1, Inl e) \<Rightarrow> (st1, Inl e) | (st1, Inr _) \<Rightarrow> (st1, build_agent_result st1)) = (st, Inr out)"
    using assms(1) unfolding mem_run_def list.case assms(2) pv.case Let_def all option.case s [unfolded prompt_def] by assumption
  then have x: "x = Inr ()" and b: "build_agent_result st1 = Inr out"
    by (auto split: sum.splits)
  let ?st0 = "(new_mem_state w)\<lparr>mm_active := True\<rparr>"
  have "md_base_url (mc_model cfg) \<noteq> None"
    using s x by (auto simp: context_session_def begin_session_def new_mem_state_def split: prod.splits if_splits)
  then have "begin_session cfg (new_mem_state w) = (?st0, Inr ())"
    by (simp add: begin_session_def new_mem_state_def)
  with s x obtain st2 where p: "mem_policy env cfg prompt chunks ?st0 = (st2, Inr ())"
    and st1: "st1 = end_session env (me_clock env (mm_world ?st0)) st2"
    by (auto simp: context_session_def split: prod.splits)
  from p obtain st3 mem where r: "read_chunks env cfg prompt chunks None ?st0 = (st3, Inr mem)"
    by (auto simp: mem_policy_def split: prod.splits sum.splits)
  with p obtain t where a: "ask_once env cfg (final_prompt prompt (shown_memory mem)) (mc_max_final_response_length cfg) st3 = (st2, Inr t)"
    by (auto simp: mem_policy_def split: prod.splits sum.splits)
  have init: "contexts env ?st0 = []" "mm_global_step_idx ?st0 = 0"
    by (simp_all add: contexts_def collect_context_step_def new_mem_state_def)
  from read_chunks_Inr [OF r] init obtain cs0 where R: "mm_active st3" "contexts env st3 = cs0" "length cs0 = n"
    "mm_global_step_idx st3 = n"
    "\<forall>i < n. asked_once (chunk_prompt prompt (memory_at None cs0 i) (chunks ! i)) (cs0 ! i)"
    "shown_memory mem = memory_at None cs0 n" by (auto simp: n_def)
  note A = ask_once_Inr [OF a R(1)]
  from A(4) obtain c where c: "contexts env st2 = cs0 @ [c]" "asked_once (final_prompt prompt (shown_memory mem)) c"
    "response_of c = to_response t" unfolding R(2) by blast
  have out: "mo_result out = the (mm_result st1)" "mo_transcript out = concat (map cx_messages (cr_trajectory (mo_result out)))"
    "mo_response out = (if cx_steps (cr_final_state (mo_result out)) = [] then []
       else to_response (last (cx_steps (cr_final_state (mo_result out)))))"
    using b(1) by (auto simp: build_agent_result_def split: if_splits option.splits)
  have res: "cr_trajectory (the (mm_result st1)) = contexts env st2" "cr_total_steps (the (mm_result st1)) = mm_global_step_idx st2"
    "cr_final_state (the (mm_result st1)) = last (contexts env st2)"
    using c(1) by (simp_all add: st1 end_session_def contexts_def Let_def)
  have cs: "cs = cs0 @ [c]" unfolding cs_def out(1) res(1) by (rule c(1))
  have mem: "memory_at None (cs0 @ [c]) i = memory_at None cs0 i" if "i \<le> n" for i
    using that R(3) by (auto simp: memory_at_def nth_append)
  have "cx_steps c \<noteq> []" using c(2) by (auto simp: asked_once_def)
  then have "mo_response out = response_of (cs ! n)" using out(3) res(3) by (simp add: out(1) c(1) response_of_def cs nth_append R(3))
  moreover have "asked_once (chunk_prompt prompt (memory_at None cs i) (chunks ! i)) (cs ! i)" if "i < n" for i
    using R(5) that mem [of i] R(3) by (simp add: cs nth_append)
  moreover have "asked_once (final_prompt prompt (memory_at None cs n)) (cs ! n)"
    using c(2) mem [of n] R(6) by (simp add: cs nth_append R(3))
  moreover have "length cs = n + 1" using R(3) by (simp add: cs)
  moreover have "cr_total_steps (mo_result out) = n + 1" "n + 1 \<le> mc_max_steps cfg"
    using A(2,3) R(4) unfolding out(1) res(2) by simp_all
  moreover have "mo_transcript out = concat (map cx_messages cs)" unfolding cs_def by (rule out(2))
  ultimately show ?thesis by blast
qed

text \<open>An endpoint that answers with the number of the call.\<close>

definition demo_mem_env :: "nat mem_env" where
  "demo_mem_env =
     \<lparr>me_query = (\<lambda>ms params k. (Suc k, Inr (PStr (str_of_nat k), [],
        \<lparr>gi_prompt_tokens = PInt 5, gi_completion_tokens = PInt 2, gi_finish_reason = PStr ''stop''\<rparr>))),
      me_clock = (\<lambda>k. of_nat k), me_run_id = ''r'', me_fr = (\<lambda>_. [])\<rparr>"

definition demo_mem_config :: mem_config where
  "demo_mem_config =
     \<lparr>mc_name = ''mem_agent'', mc_model = \<lparr>md_base_url = Some ''u'', md_api_key = ''EMPTY'', md_model_name = None,
        md_temperature = None, md_top_p = None, md_top_k = None, md_max_total_tokens = None, md_max_tokens_per_turn = None\<rparr>,
      mc_max_steps = 50, mc_max_memorization_length = 1024, mc_max_chunks = 1, mc_max_final_response_length = 1024\<rparr>"

lemma mem_agent_contexts_witness:
  "\<exists>st out. mem_run demo_mem_env demo_mem_config [[(''content'', PStr ''p'')]] [(''chunks'', PList (map PStr [''x'', ''y'']))]
      (new_mem_state 0) = (st, Inr out) \<and> cr_total_steps (mo_result out) = 2"
proof -
  let ?run = "mem_run demo_mem_env demo_mem_config [[(''content'', PStr ''p'')]] [(''chunks'', PList (map PStr [''x'', ''y'']))]
      (new_mem_state 0)"
  have "\<exists>st out. ?run = (st, Inr out)"
    by (simp add: mem_run_def all_strings_def get_none_def dget_or_def context_session_def begin_session_def new_mem_state_def
        demo_mem_config_def mem_policy_def ask_once_def update_context_def track_context_step_def collect_context_step_def
        mem_step_def sampling_params_for_step_def sampling_params_def opt_entry_def demo_mem_env_def turn_of_reply_def
        end_session_def build_agent_result_def new_context_step_def Let_def dupdate_def)
  then obtain st out where run: "?run = (st, Inr out)" by blast
  have "get_none [(''chunks'', PList (map PStr [''x'', ''y'']))] ''chunks'' = PList (map PStr [''x'', ''y''])"
    by (simp add: get_none_def dget_or_def)
  from mem_agent_contexts [OF run this] run show ?thesis by (auto simp: demo_mem_config_def)
qed

end
