(* ===== verification/Shell.thy ===== *)
theory Shell
  imports Tools Sandbox
begin

text \<open>
  The shell tool, \<open>tools/shell.py\<close>: a native shell session, or a tmux session driven by one-shot
  commands whose exit code is polled from a file, and the tool that owns it.  The loop that waits for
  a command is a partial function: not returning is \<open>None\<close>.  The clock and the sleep of the event
  loop act on the world.
\<close>

subsection \<open>Sessions\<close>

record command_result =
  cm_command_id :: nat
  cm_command :: string
  cm_exit_code :: "int option"
  cm_stdout :: string
  cm_stderr :: string
  cm_start_time :: rat
  cm_end_time :: rat
  cm_timed_out :: bool

definition cm_duration :: "command_result \<Rightarrow> rat" where
  "cm_duration r = cm_end_time r - cm_start_time r"

record 's backend_ops =
  bk_exec :: "string list \<Rightarrow> 's \<Rightarrow> 's \<times> exec_result result"
  bk_exec_shell :: "string \<Rightarrow> rat option \<Rightarrow> 's \<Rightarrow> 's \<times> exec_result result"
  bk_write_file :: "string \<Rightarrow> string \<Rightarrow> 's \<Rightarrow> 's \<times> unit result"
  bk_clock :: "'s \<Rightarrow> rat"
  bk_sleep :: "rat \<Rightarrow> 's \<Rightarrow> 's"

text \<open>The operations of a sandbox.\<close>

definition backend_of :: "(rat \<Rightarrow> string) \<Rightarrow> ('s \<Rightarrow> rat) \<Rightarrow> (rat \<Rightarrow> 's \<Rightarrow> 's) \<Rightarrow> 's provider \<Rightarrow> 's backend_ops" where
  "backend_of fr clock sleep p =
     \<lparr>bk_exec = (\<lambda>argv. sandbox_exec fr p argv no_options),
      bk_exec_shell = (\<lambda>script t. exec_shell fr p script (no_options\<lparr>xo_timeout := t\<rparr>)),
      bk_write_file = (\<lambda>path s. write_file fr p path (Str s)), bk_clock = clock, bk_sleep = sleep\<rparr>"

subsection \<open>The native shell\<close>

text \<open>\<open>run\<close> is the handle's; \<open>counter\<close> numbers the commands of the session.\<close>

definition native_run ::
  "('s \<Rightarrow> rat) \<Rightarrow> (string \<Rightarrow> rat \<Rightarrow> 's \<Rightarrow> 's \<times> exec_result result) \<Rightarrow> nat \<Rightarrow> string \<Rightarrow> rat \<Rightarrow> 's \<Rightarrow> 's \<times> command_result result" where
  "native_run clock run counter command timeout s =
     (let started = clock s; cid = counter + 1 in
      case run command timeout s of
        (s1, Inr r) \<Rightarrow>
          (s1, Inr \<lparr>cm_command_id = cid, cm_command = command, cm_exit_code = Some (xr_exit_code r),
                 cm_stdout = xr_stdout r, cm_stderr = xr_stderr r, cm_start_time = started, cm_end_time = clock s1,
                 cm_timed_out = False\<rparr>)
      | (s1, Inl e) \<Rightarrow>
          if is_exception e \<and> (exn_class e = ''CommandTimeoutError'' \<or> base_is_timeout_error e)
          then (s1, Inr \<lparr>cm_command_id = cid, cm_command = command, cm_exit_code = None, cm_stdout = [],
                      cm_stderr = exn_str e, cm_start_time = started, cm_end_time = clock s1, cm_timed_out = True\<rparr>)
          else (s1, Inl e))"

subsection \<open>The tmux session\<close>

record tmux_shell =
  tx_session_id :: string
  tx_width :: int
  tx_height :: int
  tx_shell :: string
  tx_env :: "(string \<times> string) list"
  tx_counter :: nat

definition tx_dir :: "tmux_shell \<Rightarrow> string" where
  "tx_dir sh = ''/tmp/uni-agent-shell/'' @ tx_session_id sh"

definition tx_sock :: "tmux_shell \<Rightarrow> string" where
  "tx_sock sh = tx_dir sh @ ''/tmux.sock''"

definition tmux_argv :: "tmux_shell \<Rightarrow> string list \<Rightarrow> string list" where
  "tmux_argv sh args = [''tmux'', ''-S'', tx_sock sh] @ args"

definition cmd_base :: "tmux_shell \<Rightarrow> nat \<Rightarrow> string" where
  "cmd_base sh cid = tx_dir sh @ ''/cmd_'' @ str_of_nat cid"

definition out_path :: "tmux_shell \<Rightarrow> nat \<Rightarrow> string" where "out_path sh cid = cmd_base sh cid @ ''.out''"
definition err_path :: "tmux_shell \<Rightarrow> nat \<Rightarrow> string" where "err_path sh cid = cmd_base sh cid @ ''.err''"
definition rc_path :: "tmux_shell \<Rightarrow> nat \<Rightarrow> string" where "rc_path sh cid = cmd_base sh cid @ ''.rc''"

definition wait_channel :: "tmux_shell \<Rightarrow> nat \<Rightarrow> string" where
  "wait_channel sh cid = ''uniagent-'' @ tx_session_id sh @ ''-'' @ str_of_nat cid"

definition capture_wrapper :: "string \<Rightarrow> string \<Rightarrow> string \<Rightarrow> string \<Rightarrow> string option \<Rightarrow> string \<Rightarrow> string" where
  "capture_wrapper command_path out err rc signal sock =
     ''eval '' @ [quote2] @ ''$(cat '' @ shlex_quote command_path @ '')'' @ [quote2] @ '' > '' @ shlex_quote out @
     '' 2> '' @ shlex_quote err @ ''; __rc=$?; printf %s '' @ [quote2] @ ''$__rc'' @ [quote2] @ '' > '' @ shlex_quote rc @
     ''.part && mv '' @ shlex_quote rc @ ''.part '' @ shlex_quote rc @
     (case signal of None \<Rightarrow> [] | Some c \<Rightarrow> ''; tmux -S '' @ shlex_quote sock @ '' wait -S '' @ shlex_quote c)"

text \<open>A command whose failure raises; \<open>what\<close> starts the message.\<close>

definition exec_checked :: "'s backend_ops \<Rightarrow> string \<Rightarrow> string list \<Rightarrow> 's \<Rightarrow> 's \<times> unit result" where
  "exec_checked bk what argv s =
     (case bk_exec bk argv s of
        (s1, Inl e) \<Rightarrow> (s1, Inl e)
      | (s1, Inr r) \<Rightarrow>
          (s1, if xr_exit_code r \<noteq> 0 then Inl (RuntimeError (what @ strip (xr_stderr r))) else Inr ()))"

definition launch_argv :: "tmux_shell \<Rightarrow> string list" where
  "launch_argv sh =
     (if tx_env sh \<noteq> [] then [''env''] @ map (\<lambda>(k, v). k @ ''='' @ v) (tx_env sh) @ [tx_shell sh] else [tx_shell sh])"

text \<open>\<open>install\<close> is the script that installs tmux.\<close>

definition tmux_start :: "'s backend_ops \<Rightarrow> string \<Rightarrow> tmux_shell \<Rightarrow> 's \<Rightarrow> 's \<times> unit result" where
  "tmux_start bk install sh s =
     shell_bind (bk_exec bk [''tmux'', ''-V''] s) (\<lambda>v1 s1.
     shell_bind
       (if xr_exit_code v1 \<noteq> 0
        then shell_bind (bk_exec_shell bk install (Some 300) s1) (\<lambda>res s2.
             shell_bind (bk_exec bk [''tmux'', ''-V''] s2) (\<lambda>v2 s3.
             (s3, if xr_exit_code v2 \<noteq> 0
                  then Inl (RuntimeError (''tmux is not available and could not be installed in the sandbox (installer exit '' @
                         str_of_int (xr_exit_code res) @ ''): '' @ take 500 (strip (xr_stderr res))))
                  else Inr ())))
        else (s1, Inr ())) (\<lambda>_ s4.
     shell_bind (bk_exec bk [''mkdir'', ''-p'', tx_dir sh] s4) (\<lambda>_ s5.
     shell_bind
       (exec_checked bk ''failed to start tmux session: ''
         (tmux_argv sh ([''new-session'', ''-d'', ''-s'', tx_session_id sh, ''-x'', str_of_int (tx_width sh),
            ''-y'', str_of_int (tx_height sh)] @ launch_argv sh)) s5) (\<lambda>_ s6.
     shell_bind (bk_exec bk (tmux_argv sh [''set-option'', ''-g'', ''history-limit'', ''1000000'']) s6) (\<lambda>_ s7.
     (s7, Inr ()))))))"

definition tmux_close :: "'s backend_ops \<Rightarrow> tmux_shell \<Rightarrow> 's \<Rightarrow> 's \<times> unit result" where
  "tmux_close bk sh s =
     shell_bind (bk_exec bk (tmux_argv sh [''kill-session'', ''-t'', tx_session_id sh]) s) (\<lambda>_ s1.
     shell_bind (bk_exec bk [''rm'', ''-rf'', tx_dir sh] s1) (\<lambda>_ s2. (s2, Inr ())))"

definition bump_counter :: "tmux_shell \<Rightarrow> tmux_shell" where
  "bump_counter sh = sh\<lparr>tx_counter := tx_counter sh + 1\<rparr>"

text \<open>\<open>start_command\<close> of a shell whose counter has been advanced to \<open>cid\<close>.\<close>

definition start_command :: "'s backend_ops \<Rightarrow> tmux_shell \<Rightarrow> nat \<Rightarrow> string \<Rightarrow> 's \<Rightarrow> 's \<times> unit result" where
  "start_command bk sh cid command s =
     (let path = tx_dir sh @ ''/cmd_'' @ str_of_nat cid @ ''.input'' in
      shell_bind (bk_write_file bk path command s) (\<lambda>_ s1.
      exec_checked bk ''failed to inject command: ''
        (tmux_argv sh [''send-keys'', ''-t'', tx_session_id sh, ''--'',
           capture_wrapper path (out_path sh cid) (err_path sh cid) (rc_path sh cid) (Some (wait_channel sh cid)) (tx_sock sh),
           ''Enter'']) s1))"

definition tmux_poll :: "'s backend_ops \<Rightarrow> tmux_shell \<Rightarrow> nat \<Rightarrow> 's \<Rightarrow> 's \<times> int option result" where
  "tmux_poll bk sh cid s =
     shell_bind (bk_exec bk [''cat'', rc_path sh cid] s) (\<lambda>r s1.
     (s1, if xr_exit_code r \<noteq> 0 then Inr None
          else if strip (xr_stdout r) = [] then Inr None
          else rbind (py_int (PStr (strip (xr_stdout r)))) (\<lambda>i. Inr (Some i))))"

definition send_keys :: "'s backend_ops \<Rightarrow> tmux_shell \<Rightarrow> string list \<Rightarrow> 's \<Rightarrow> 's \<times> unit result" where
  "send_keys bk sh keys s =
     exec_checked bk ''send_keys failed: '' (tmux_argv sh ([''send-keys'', ''-t'', tx_session_id sh, ''--''] @ keys)) s"

text \<open>Ctrl-C, then suspend and kill the job if it is still alive.\<close>

definition tmux_interrupt :: "'s backend_ops \<Rightarrow> tmux_shell \<Rightarrow> nat \<Rightarrow> 's \<Rightarrow> 's \<times> int option result" where
  "tmux_interrupt bk sh cid s =
     shell_bind (send_keys bk sh [''C-c''] s) (\<lambda>_ s1.
     shell_bind (tmux_poll bk sh cid (bk_sleep bk 2 s1)) (\<lambda>code s2.
     if code \<noteq> None then (s2, Inr code)
     else
       shell_bind (send_keys bk sh [''C-z''] s2) (\<lambda>_ s3.
       shell_bind (send_keys bk sh [''kill -KILL %+'', ''Enter''] (bk_sleep bk 2 s3)) (\<lambda>_ s4.
       tmux_poll bk sh cid (bk_sleep bk 1 s4)))))"

definition wait_slice :: "rat \<Rightarrow> rat" where
  "wait_slice remaining = max (1 / 10) (min 2 remaining)"

definition wait_script :: "(rat \<Rightarrow> string) \<Rightarrow> tmux_shell \<Rightarrow> nat \<Rightarrow> rat \<Rightarrow> string" where
  "wait_script fr sh cid slc =
     ''timeout '' @ fr slc @ '' tmux -S '' @ shlex_quote (tx_sock sh) @ '' wait '' @ shlex_quote (wait_channel sh cid) @
     '' 2>/dev/null || true''"

text \<open>One round of the loop: a final outcome, or the state in which the next round starts.\<close>

definition wait_round ::
  "(rat \<Rightarrow> string) \<Rightarrow> 's backend_ops \<Rightarrow> tmux_shell \<Rightarrow> nat \<Rightarrow> rat \<Rightarrow> rat \<Rightarrow> 's \<Rightarrow> 's \<times> (bool \<times> int option) result option" where
  "wait_round fr bk sh cid started timeout s =
     (case tmux_poll bk sh cid s of
        (s1, Inl e) \<Rightarrow> (s1, Some (Inl e))
      | (s1, Inr (Some code)) \<Rightarrow> (s1, Some (Inr (False, Some code)))
      | (s1, Inr None) \<Rightarrow>
          (let elapsed = bk_clock bk s1 - started in
           if elapsed \<ge> timeout
           then (case tmux_interrupt bk sh cid s1 of
                   (s2, Inl e) \<Rightarrow> (s2, Some (Inl e)) | (s2, Inr code) \<Rightarrow> (s2, Some (Inr (True, code))))
           else
             (let slc = wait_slice (timeout - elapsed) in
              case bk_exec_shell bk (wait_script fr sh cid slc) (Some (slc + 10)) s1 of
                (s2, Inl e) \<Rightarrow> (s2, Some (Inl e)) | (s2, Inr _) \<Rightarrow> (s2, None))))"

partial_function (option) tmux_wait ::
  "(rat \<Rightarrow> string) \<Rightarrow> 's backend_ops \<Rightarrow> tmux_shell \<Rightarrow> nat \<Rightarrow> rat \<Rightarrow> rat \<Rightarrow> 's \<Rightarrow> ('s \<times> (bool \<times> int option) result) option" where
  "tmux_wait fr bk sh cid started timeout s =
     (case wait_round fr bk sh cid started timeout s of
        (s1, Some r) \<Rightarrow> Some (s1, r)
      | (s1, None) \<Rightarrow> tmux_wait fr bk sh cid started timeout s1)"



definition shell_read_text :: "'s backend_ops \<Rightarrow> string \<Rightarrow> 's \<Rightarrow> 's \<times> string result" where
  "shell_read_text bk path s =
     shell_bind (bk_exec bk [''cat'', path] s) (\<lambda>r s1. (s1, Inr (if xr_exit_code r = 0 then xr_stdout r else [])))"

definition tmux_run ::
  "(rat \<Rightarrow> string) \<Rightarrow> 's backend_ops \<Rightarrow> tmux_shell \<Rightarrow> string \<Rightarrow> rat \<Rightarrow> 's \<Rightarrow> (tmux_shell \<times> 's \<times> command_result result) option" where
  "tmux_run fr bk sh0 command timeout s =
     (let started = bk_clock bk s; sh = bump_counter sh0; cid = tx_counter sh in
      case start_command bk sh cid command s of
        (s1, Inl e) \<Rightarrow> Some (sh, s1, Inl e)
      | (s1, Inr _) \<Rightarrow>
          (case tmux_wait fr bk sh cid started timeout s1 of
             None \<Rightarrow> None
           | Some (s2, Inl e) \<Rightarrow> Some (sh, s2, Inl e)
           | Some (s2, Inr (timed_out, code)) \<Rightarrow>
               Some (sh,
                 shell_bind (shell_read_text bk (out_path sh cid) s2) (\<lambda>out s3.
                 shell_bind (shell_read_text bk (err_path sh cid) s3) (\<lambda>err s4.
                 (s4, Inr \<lparr>cm_command_id = cid, cm_command = command, cm_exit_code = code, cm_stdout = out, cm_stderr = err,
                        cm_start_time = started, cm_end_time = bk_clock bk s2, cm_timed_out = timed_out\<rparr>))))))"

text \<open>The screen of the session, and a change of its size, which a failed command leaves as it was.\<close>

definition capture_pane :: "'s backend_ops \<Rightarrow> tmux_shell \<Rightarrow> bool \<Rightarrow> 's \<Rightarrow> 's \<times> string result" where
  "capture_pane bk sh entire s =
     shell_bind
       (bk_exec bk (tmux_argv sh [''capture-pane'', ''-p''] @ (if entire then [''-S'', ''-''] else []) @ [''-t'', tx_session_id sh]) s)
       (\<lambda>r s1. (s1, Inr (xr_stdout r)))"

definition tmux_observe :: "'s backend_ops \<Rightarrow> tmux_shell \<Rightarrow> 's \<Rightarrow> 's \<times> tool_result result" where
  "tmux_observe bk sh s =
     shell_bind (capture_pane bk sh False s) (\<lambda>out s1. (s1, Inr \<lparr>to_text = Some out, to_status = St_ok\<rparr>))"

definition tmux_resize :: "'s backend_ops \<Rightarrow> int \<Rightarrow> int \<Rightarrow> tmux_shell \<Rightarrow> 's \<Rightarrow> tmux_shell \<times> 's \<times> unit result" where
  "tmux_resize bk width height sh s =
     (case exec_checked bk ''resize failed: ''
             (tmux_argv sh [''resize-window'', ''-t'', tx_session_id sh, ''-x'', str_of_int width, ''-y'', str_of_int height]) s of
        (s1, Inl e) \<Rightarrow> (sh, s1, Inl e)
      | (s1, Inr _) \<Rightarrow> (sh\<lparr>tx_width := width, tx_height := height\<rparr>, s1, Inr ()))"

subsection \<open>What the model sees\<close>

definition esc :: char where "esc = char_of (27::nat)"

definition in_range :: "nat \<Rightarrow> nat \<Rightarrow> char \<Rightarrow> bool" where
  "in_range a b c = (a \<le> of_char c \<and> (of_char c :: nat) \<le> b)"

text \<open>The rest of a text that starts with a control sequence; the three character classes are disjoint.\<close>

definition match_csi :: "string \<Rightarrow> string option" where
  "match_csi s =
     (case s of
        a # b # r \<Rightarrow>
          if a = esc \<and> b = CHR ''['' then
            (case dropWhile (in_range 32 47) (dropWhile (in_range 48 63) r) of
               c # r' \<Rightarrow> if in_range 64 126 c then Some r' else None
             | [] \<Rightarrow> None)
          else None
      | _ \<Rightarrow> None)"

lemma match_csi_length: "match_csi s = Some r \<Longrightarrow> length r < length s"
proof -
  assume m: "match_csi s = Some r"
  then obtain a b t c where s: "s = a # b # t"
    and d: "dropWhile (in_range 32 47) (dropWhile (in_range 48 63) t) = c # r"
    by (auto simp: match_csi_def split: list.splits if_splits)
  have "length (c # r) \<le> length t" unfolding d [symmetric] by (meson length_dropWhile_le order_trans)
  then show ?thesis using s by simp
qed

function strip_csi :: "string \<Rightarrow> string" where
  "strip_csi s =
     (case match_csi s of
        Some r \<Rightarrow> strip_csi r
      | None \<Rightarrow> (case s of [] \<Rightarrow> [] | c # cs \<Rightarrow> c # strip_csi cs))"
  by pat_completeness auto
termination
  by (relation "measure length") (auto dest: match_csi_length)

declare strip_csi.simps [simp del]

definition clean_output :: "string \<Rightarrow> string" where
  "clean_output s = filter (\<lambda>c. c \<noteq> cr) (strip_csi s)"

definition format_output :: "string \<Rightarrow> string \<Rightarrow> int option \<Rightarrow> string" where
  "format_output stdout stderr code =
     (let out = rstrip (clean_output stdout); err = rstrip (clean_output stderr) in
      join nl ([''[exit code: '' @ (case code of None \<Rightarrow> ''unknown'' | Some i \<Rightarrow> str_of_int i) @ '']'', ''[stdout]'',
          if out \<noteq> [] then out else ''(empty)''] @ (if err \<noteq> [] then [''[stderr]'', err] else [])))"

text \<open>\<open>fg\<close> is the format \<open>%g\<close> of a float.\<close>

definition format_timeout :: "(rat \<Rightarrow> string) \<Rightarrow> rat \<Rightarrow> string \<Rightarrow> string \<Rightarrow> string" where
  "format_timeout fg timeout stdout stderr =
     (let out = rstrip (clean_output stdout); err = rstrip (clean_output stderr) in
      join nl ([''The command was cancelled because it took more than '' @ fg timeout @ '' seconds. '' @
          ''Please try a different command that completes more quickly. A common cause '' @
          ''is a command that is interactive or waits for input -- this environment '' @
          ''cannot provide input, so such a command never completes.''] @
        (if out \<noteq> [] then [''[partial stdout]'', out] else []) @ (if err \<noteq> [] then [''[partial stderr]'', err] else [])))"

subsection \<open>The tool\<close>

text \<open>A session of either kind: how it runs a command, and how it is closed.\<close>

datatype 's session_shell =
    Native "string \<Rightarrow> rat \<Rightarrow> 's \<Rightarrow> 's \<times> exec_result result" "'s \<Rightarrow> 's \<times> unit result" nat
  | Tmux tmux_shell

definition session_run ::
  "(rat \<Rightarrow> string) \<Rightarrow> 's backend_ops \<Rightarrow> 's session_shell \<Rightarrow> string \<Rightarrow> rat \<Rightarrow> 's \<Rightarrow> ('s session_shell \<times> 's \<times> command_result result) option" where
  "session_run fr bk sh command timeout s =
     (case sh of
        Native run close n \<Rightarrow> Some (Native run close (n + 1), native_run (bk_clock bk) run n command timeout s)
      | Tmux t \<Rightarrow> map_option (\<lambda>(t', x). (Tmux t', x)) (tmux_run fr bk t command timeout s))"

definition session_close :: "'s backend_ops \<Rightarrow> 's session_shell \<Rightarrow> 's \<Rightarrow> 's \<times> unit result" where
  "session_close bk sh s = (case sh of Native run close n \<Rightarrow> close s | Tmux t \<Rightarrow> tmux_close bk t s)"

record shell_config =
  sc_env_vars :: "(string \<times> string) list"
  sc_command_timeout :: rat
  sc_width :: int
  sc_height :: int

text \<open>
  \<open>native\<close> is the provider's \<open>open_shell\<close>, for a provider that supports it; \<open>session_id\<close> the id drawn
  for a tmux session.
\<close>

definition open_shell_session ::
  "'s backend_ops \<Rightarrow> string \<Rightarrow> ((string \<times> string) list \<Rightarrow> 's \<Rightarrow> 's \<times> 's session_shell result) option \<Rightarrow> string \<Rightarrow> shell_config \<Rightarrow>
     's \<Rightarrow> 's \<times> 's session_shell result" where
  "open_shell_session bk install native session_id c s =
     (case native of
        Some open_shell \<Rightarrow> open_shell (sc_env_vars c) s
      | None \<Rightarrow>
          (let t = \<lparr>tx_session_id = session_id, tx_width = sc_width c, tx_height = sc_height c, tx_shell = ''bash'',
                    tx_env = sc_env_vars c, tx_counter = 0\<rparr> in
           shell_bind (tmux_start bk install t s) (\<lambda>_ s1. (s1, Inr (Tmux t)))))"

type_synonym 's shell_slot = "'s session_shell option"

definition ensure_shell ::
  "'s backend_ops \<Rightarrow> string \<Rightarrow> ((string \<times> string) list \<Rightarrow> 's \<Rightarrow> 's \<times> 's session_shell result) option \<Rightarrow> string \<Rightarrow> shell_config \<Rightarrow>
     's shell_slot \<Rightarrow> 's \<Rightarrow> 's \<times> 's session_shell result" where
  "ensure_shell bk install native session_id c slot s =
     (case slot of Some sh \<Rightarrow> (s, Inr sh) | None \<Rightarrow> open_shell_session bk install native session_id c s)"

definition shell_tool_start ::
  "'s backend_ops \<Rightarrow> string \<Rightarrow> ((string \<times> string) list \<Rightarrow> 's \<Rightarrow> 's \<times> 's session_shell result) option \<Rightarrow> string \<Rightarrow> shell_config \<Rightarrow>
     's shell_slot \<Rightarrow> 's \<Rightarrow> 's shell_slot \<times> 's \<times> unit result" where
  "shell_tool_start bk install native session_id c slot s =
     (case ensure_shell bk install native session_id c slot s of
        (s1, Inl e) \<Rightarrow> (slot, s1, Inl e) | (s1, Inr sh) \<Rightarrow> (Some sh, s1, Inr ()))"

definition shell_result :: "(rat \<Rightarrow> string) \<Rightarrow> rat \<Rightarrow> command_result \<Rightarrow> tool_result" where
  "shell_result fg timeout r =
     (if cm_timed_out r
      then \<lparr>to_text = Some (format_timeout fg timeout (cm_stdout r) (cm_stderr r)), to_status = St_timeout\<rparr>
      else \<lparr>to_text = Some (format_output (cm_stdout r) (cm_stderr r) (cm_exit_code r)), to_status = St_ok\<rparr>)"

definition shell_tool_run ::
  "(rat \<Rightarrow> string) \<Rightarrow> (rat \<Rightarrow> string) \<Rightarrow> 's backend_ops \<Rightarrow> string \<Rightarrow> ((string \<times> string) list \<Rightarrow> 's \<Rightarrow> 's \<times> 's session_shell result) option \<Rightarrow>
     string \<Rightarrow> shell_config \<Rightarrow> dict \<Rightarrow> rat option \<Rightarrow> 's shell_slot \<Rightarrow> 's \<Rightarrow> ('s shell_slot \<times> 's \<times> tool_result result) option" where
  "shell_tool_run fr fg bk install native session_id c args timeout slot s =
     (case get_none args ''command'' of
        PStr command \<Rightarrow>
          if strip command = [] then Some (slot, s, Inl (ToolError ''Parameter `command` is required for shell.''))
          else
            (let limit = (case timeout of Some t \<Rightarrow> t | None \<Rightarrow> sc_command_timeout c) in
             case ensure_shell bk install native session_id c slot s of
               (s1, Inl e) \<Rightarrow> Some (slot, s1, Inl e)
             | (s1, Inr sh) \<Rightarrow>
                 (case session_run fr bk sh command limit s1 of
                    None \<Rightarrow> None
                  | Some (sh', s2, r) \<Rightarrow> Some (Some sh', s2, rbind r (\<lambda>res. Inr (shell_result fg limit res)))))
      | _ \<Rightarrow> Some (slot, s, Inl (ToolError ''Parameter `command` is required for shell.'')))"

definition shell_tool_close :: "'s backend_ops \<Rightarrow> 's shell_slot \<Rightarrow> 's \<Rightarrow> 's shell_slot \<times> 's \<times> unit result" where
  "shell_tool_close bk slot s =
     (case slot of
        None \<Rightarrow> (None, s, Inr ())
      | Some sh \<Rightarrow> (case session_close bk sh s of (s1, Inl e) \<Rightarrow> (Some sh, s1, Inl e) | (s1, Inr _) \<Rightarrow> (None, s1, Inr ())))"

end
