(* ===== verification/ShellProps.thy ===== *)
theory ShellProps
  imports Shell
begin

text \<open>
  The shell tool: the wait loop of a tmux command ends, and what its outcome tells; the text the model
  sees.
\<close>

subsection \<open>The wait loop ends\<close>

text \<open>The clock never goes back, and a wait on the channel takes some time.\<close>

definition clock_moves :: "rat \<Rightarrow> 's backend_ops \<Rightarrow> bool" where
  "clock_moves d bk \<longleftrightarrow>
     (\<forall>argv s. bk_clock bk s \<le> bk_clock bk (fst (bk_exec bk argv s))) \<and>
     (\<forall>script t s. bk_clock bk s + d \<le> bk_clock bk (fst (bk_exec_shell bk script t s))) \<and>
     (\<forall>t s. 0 \<le> t \<longrightarrow> bk_clock bk s \<le> bk_clock bk (bk_sleep bk t s))"

lemma clock_exec: "clock_moves d bk \<Longrightarrow> bk_exec bk argv s = (s1, r) \<Longrightarrow> bk_clock bk s \<le> bk_clock bk s1"
  unfolding clock_moves_def by (metis fst_conv)

lemma clock_wait: "clock_moves d bk \<Longrightarrow> bk_exec_shell bk script t s = (s1, r) \<Longrightarrow> bk_clock bk s + d \<le> bk_clock bk s1"
  unfolding clock_moves_def by (metis fst_conv)

lemma clock_sleep: "clock_moves d bk \<Longrightarrow> 0 \<le> t \<Longrightarrow> bk_clock bk s \<le> bk_clock bk (bk_sleep bk t s)"
  unfolding clock_moves_def by blast

lemma clock_bind:
  assumes "shell_bind x f = (s', r)" "bk_clock bk s \<le> bk_clock bk (fst x)"
    and "\<And>v s1 s2 r'. x = (s1, Inr v) \<Longrightarrow> f v s1 = (s2, r') \<Longrightarrow> bk_clock bk s1 \<le> bk_clock bk s2"
  shows "bk_clock bk s \<le> bk_clock bk s'"
proof -
  obtain s1 y where x: "x = (s1, y)" by (cases x)
  show ?thesis
  proof (cases y)
    case (Inl e) then show ?thesis using assms(1,2) x by (simp add: shell_bind_def)
  next
    case (Inr v)
    then have "f v s1 = (s', r)" using assms(1) x by (simp add: shell_bind_def)
    then have "bk_clock bk s1 \<le> bk_clock bk s'" using assms(3) x Inr by blast
    then show ?thesis using assms(2) x by simp
  qed
qed

lemma clock_poll: "clock_moves d bk \<Longrightarrow> bk_clock bk s \<le> bk_clock bk (fst (tmux_poll bk sh cid s))"
  using clock_exec [of d bk "[''cat'', rc_path sh cid]" s]
  by (cases "bk_exec bk [''cat'', rc_path sh cid] s")
     (auto simp: tmux_poll_def shell_bind_def split: sum.splits)

lemma clock_send_keys: "clock_moves d bk \<Longrightarrow> bk_clock bk s \<le> bk_clock bk (fst (send_keys bk sh keys s))"
  using clock_exec [of d bk "tmux_argv sh ([''send-keys'', ''-t'', tx_session_id sh, ''--''] @ keys)" s]
  by (cases "bk_exec bk (tmux_argv sh ([''send-keys'', ''-t'', tx_session_id sh, ''--''] @ keys)) s")
     (auto simp: send_keys_def exec_checked_def split: sum.splits)

lemma clock_interrupt:
  assumes c: "clock_moves d bk" and i: "tmux_interrupt bk sh cid s = (s', r)"
  shows "bk_clock bk s \<le> bk_clock bk s'"
proof -
  note sends = clock_send_keys [OF c] and polls = clock_poll [OF c] and sleeps = clock_sleep [OF c]
  have poll_after: "0 \<le> t \<Longrightarrow> bk_clock bk s1 \<le> bk_clock bk (fst (tmux_poll bk sh cid (bk_sleep bk t s1)))" for t s1
    using sleeps polls order_trans by blast
  have keys_after: "0 \<le> t \<Longrightarrow> bk_clock bk s1 \<le> bk_clock bk (fst (send_keys bk sh ks (bk_sleep bk t s1)))" for t ks s1
    using sleeps sends order_trans by blast
  show ?thesis
    using i unfolding tmux_interrupt_def
  proof (rule clock_bind [OF _ sends])
    fix v s1 s2 r1
    assume "shell_bind (tmux_poll bk sh cid (bk_sleep bk 2 s1))
      (\<lambda>code s2. if code \<noteq> None then (s2, Inr code)
         else shell_bind (send_keys bk sh [''C-z''] s2) (\<lambda>_ s3.
              shell_bind (send_keys bk sh [''kill -KILL %+'', ''Enter''] (bk_sleep bk 2 s3)) (\<lambda>_ s4.
              tmux_poll bk sh cid (bk_sleep bk 1 s4)))) = (s2, r1)"
    then show "bk_clock bk s1 \<le> bk_clock bk s2"
    proof (rule clock_bind [OF _ poll_after [where t = 2]], simp)
      fix code s3 s4 r2
      assume m: "(if code \<noteq> None then (s3, Inr code)
         else shell_bind (send_keys bk sh [''C-z''] s3) (\<lambda>_ s3.
              shell_bind (send_keys bk sh [''kill -KILL %+'', ''Enter''] (bk_sleep bk 2 s3)) (\<lambda>_ s4.
              tmux_poll bk sh cid (bk_sleep bk 1 s4)))) = (s4, r2)"
      have last: "bk_clock bk a \<le> bk_clock bk b" if "tmux_poll bk sh cid (bk_sleep bk 1 a) = (b, q)" for a b q
        using poll_after [of 1 a] that by simp
      have kill: "bk_clock bk a \<le> bk_clock bk b"
        if "shell_bind (send_keys bk sh [''kill -KILL %+'', ''Enter''] (bk_sleep bk 2 a)) (\<lambda>_ s4.
              tmux_poll bk sh cid (bk_sleep bk 1 s4)) = (b, q)" for a b q
        using that by (rule clock_bind [OF _ keys_after [where t = 2]]) (use last in auto)
      show "bk_clock bk s3 \<le> bk_clock bk s4"
      proof (cases "code = None")
        case True
        then have "shell_bind (send_keys bk sh [''C-z''] s3) (\<lambda>_ s3.
              shell_bind (send_keys bk sh [''kill -KILL %+'', ''Enter''] (bk_sleep bk 2 s3)) (\<lambda>_ s4.
              tmux_poll bk sh cid (bk_sleep bk 1 s4))) = (s4, r2)" using m by simp
        then show ?thesis by (rule clock_bind [OF _ sends]) (use kill in blast)
      qed (use m in simp)
    qed
  qed
qed

text \<open>One round either ends the loop, with a code or past the limit, or moves the clock on.\<close>

lemma wait_round_goes_on:
  assumes c: "clock_moves d bk" and w: "wait_round fr bk sh cid started timeout s = (s1, None)"
  shows "bk_clock bk s + d \<le> bk_clock bk s1 \<and> bk_clock bk s < started + timeout"
proof -
  obtain s2 where p: "tmux_poll bk sh cid s = (s2, Inr None)" and n: "\<not> bk_clock bk s2 - started \<ge> timeout"
    using w by (auto simp: wait_round_def Let_def split: prod.splits sum.splits option.splits if_splits)
  then obtain r where "bk_exec_shell bk (wait_script fr sh cid (wait_slice (timeout - (bk_clock bk s2 - started))))
      (Some (wait_slice (timeout - (bk_clock bk s2 - started)) + 10)) s2 = (s1, r)"
    using w by (auto simp: wait_round_def Let_def split: prod.splits sum.splits)
  from clock_wait [OF c this] have "bk_clock bk s2 + d \<le> bk_clock bk s1" .
  moreover have "bk_clock bk s \<le> bk_clock bk s2" using clock_poll [OF c, of s sh cid] p by simp
  ultimately show ?thesis using n by linarith
qed

lemma wait_round_ends:
  assumes c: "clock_moves d bk" and w: "wait_round fr bk sh cid started timeout s = (s1, Some (Inr (timed_out, code)))"
  shows "if timed_out then timeout \<le> bk_clock bk s1 - started else code \<noteq> None"
proof (cases "\<exists>s2. tmux_poll bk sh cid s = (s2, Inr None)")
  case True
  then obtain s2 where p: "tmux_poll bk sh cid s = (s2, Inr None)" by blast
  have l: "bk_clock bk s2 - started \<ge> timeout" and i: "tmux_interrupt bk sh cid s2 = (s1, Inr code)" and t: timed_out
    using w p by (auto simp: wait_round_def Let_def split: prod.splits sum.splits if_splits)
  show ?thesis using l t clock_interrupt [OF c i] by simp
next
  case False
  then show ?thesis using w
    by (auto simp: wait_round_def Let_def split: prod.splits sum.splits option.splits)
qed

lemma tmux_wait_returns:
  assumes c: "clock_moves d bk" and n: "started + timeout \<le> bk_clock bk s + of_nat n * d"
  shows "\<exists>s' r. tmux_wait fr bk sh cid started timeout s = Some (s', r) \<and>
           (\<forall>timed_out code. r = Inr (timed_out, code) \<longrightarrow>
              (if timed_out then timeout \<le> bk_clock bk s' - started else code \<noteq> None))"
  using n
proof (induction n arbitrary: s)
  case 0
  obtain s1 o1 where w: "wait_round fr bk sh cid started timeout s = (s1, o1)" by (cases "wait_round fr bk sh cid started timeout s")
  then obtain r where o1: "o1 = Some r" using wait_round_goes_on [OF c, of fr sh cid started timeout s s1] 0 by (cases o1) auto
  show ?case using w unfolding o1 by (subst tmux_wait.simps) (auto dest!: wait_round_ends [OF c] split: if_splits)
next
  case (Suc n)
  obtain s1 o1 where w: "wait_round fr bk sh cid started timeout s = (s1, o1)" by (cases "wait_round fr bk sh cid started timeout s")
  show ?case
  proof (cases o1)
    case None
    have "started + timeout \<le> bk_clock bk s1 + of_nat n * d"
      using Suc.prems wait_round_goes_on [OF c w [unfolded None]] by (simp add: algebra_simps)
    then show ?thesis using Suc.IH [of s1] w None by (simp add: tmux_wait.simps [of fr bk sh cid started timeout s])
  next
    case (Some r)
    show ?thesis using w unfolding Some by (subst tmux_wait.simps) (auto dest!: wait_round_ends [OF c] split: if_splits)
  qed
qed

lemma tmux_wait_total:
  assumes c: "clock_moves d bk" and d: "0 < d"
  obtains s' r where "tmux_wait fr bk sh cid started timeout s = Some (s', r)"
    and "\<And>timed_out code. r = Inr (timed_out, code) \<Longrightarrow>
           (if timed_out then timeout \<le> bk_clock bk s' - started else code \<noteq> None)"
proof -
  obtain n where "(started + timeout - bk_clock bk s) / d \<le> of_nat n" using real_arch_simple by blast
  then have "started + timeout \<le> bk_clock bk s + of_nat n * d" using d by (simp add: field_simps)
  from tmux_wait_returns [OF c this] show thesis using that by blast
qed


text \<open>A sandbox whose command never ends: every poll finds an empty file, and a wait takes two seconds.\<close>

definition stuck_backend :: "rat backend_ops" where
  "stuck_backend =
     \<lparr>bk_exec = (\<lambda>argv t. (t, Inr \<lparr>xr_exit_code = 0, xr_stdout = [], xr_stderr = []\<rparr>)),
      bk_exec_shell = (\<lambda>script limit t. (t + 2, Inr \<lparr>xr_exit_code = 0, xr_stdout = [], xr_stderr = []\<rparr>)),
      bk_write_file = (\<lambda>path x t. (t, Inr ())), bk_clock = (\<lambda>t. t), bk_sleep = (\<lambda>d t. t + d)\<rparr>"

definition demo_tmux :: tmux_shell where
  "demo_tmux = \<lparr>tx_session_id = ''s'', tx_width = 120, tx_height = 40, tx_shell = ''bash'', tx_env = [], tx_counter = 4\<rparr>"

lemma stuck_clock: "clock_moves 2 stuck_backend"
  by (simp add: clock_moves_def stuck_backend_def)


subsection \<open>The text the model sees\<close>

text \<open>
  The control sequences go before the carriage returns, so a carriage return between the escape
  character and the rest leaves a control sequence in the text.
\<close>

lemma clean_leaves_escape: "clean_output (esc # cr # ''[31m'') = esc # ''[31m''"
  by code_simp

lemma clean_output_no_cr: "cr \<notin> set (clean_output s)"
  by (simp add: clean_output_def)

lemma strip_csi_id: "esc \<notin> set s \<Longrightarrow> strip_csi s = s"
proof (induction s)
  case (Cons c cs)
  then have "match_csi (c # cs) = None" by (auto simp: match_csi_def split: list.split)
  then show ?case using Cons by (simp add: strip_csi.simps [of "c # cs"])
qed (simp add: strip_csi.simps [of "[]"] match_csi_def)

text \<open>A text without escape characters loses its carriage returns only.\<close>

lemma clean_output_plain: "esc \<notin> set s \<Longrightarrow> clean_output s = filter (\<lambda>c. c \<noteq> cr) s"
  by (simp add: clean_output_def strip_csi_id)

end
