(* ===== verification/LogDispatch.thy ===== *)
theory LogDispatch
  imports Prelude
begin

text \<open>
  The per-execution logging of \<open>logging/\<close>: the root handler that routes a record to the file of its
  log id, with the caller threads that enqueue and the writer thread that owns the files
  (\<open>handlers.py\<close>), and the \<open>sample_logging\<close> block that binds a log id (\<open>session.py\<close>,
  \<open>context.py\<close>).  The threads are a step relation whose steps are the sections under the lock, the
  queue operations and the writer's handling of one item.
\<close>

subsection \<open>Records\<close>

text \<open>\<open>lr_message\<close> is \<open>None\<close> when the message does not format; \<open>lr_traceback\<close> is what \<open>Formatter.format\<close> appends.\<close>

record log_record =
  lr_name :: string
  lr_levelno :: int
  lr_levelname :: string
  lr_asctime :: string
  lr_message :: "string option"
  lr_traceback :: string

definition INFO :: int where "INFO = 20"
definition WARNING :: int where "WARNING = 30"
definition NAME_WIDTH :: nat where "NAME_WIDTH = 22"

definition pad_right :: "nat \<Rightarrow> string \<Rightarrow> string" where
  "pad_right w s = s @ replicate (w - length s) (CHR '' '')"

text \<open>\<open>ell\<close> is the ellipsis character.\<close>

definition short_name :: "char \<Rightarrow> string \<Rightarrow> string" where
  "short_name ell name =
     (let n = (if startswith name ''uni_agent.'' then drop 10 name else name) in
      if length n > NAME_WIDTH then ell # drop (length n - (NAME_WIDTH - 1)) n else n)"

definition format_record :: "char \<Rightarrow> (string \<Rightarrow> string) \<Rightarrow> log_record \<Rightarrow> string option" where
  "format_record ell redact r =
     map_option
       (\<lambda>m. redact (lr_asctime r @ '' | '' @ pad_right NAME_WIDTH (short_name ell (lr_name r)) @ '' | '' @
              pad_right 8 (lr_levelname r) @ '' | '' @ m @ lr_traceback r))
       (lr_message r)"

definition console_filter :: "bool \<Rightarrow> string option \<Rightarrow> log_record \<Rightarrow> bool" where
  "console_filter debug log_id r \<longleftrightarrow> log_id = None \<or> debug \<or> lr_levelno r \<ge> WARNING"

subsection \<open>The dispatch handler\<close>

datatype log_item = LWrite string string | LOpen string string | LClose string | LStop

text \<open>
  A file object: the lines written to it, how many of them a flush or close has pushed out, and whether
  it is closed; \<open>lf_log_id\<close> is the id it was opened for.
\<close>

record log_file =
  lf_log_id :: string
  lf_path :: string
  lf_text :: "string list"
  lf_synced :: nat
  lf_closed :: bool

text \<open>
  \<open>lw_objects\<close> lists every file object ever opened; \<open>lw_files\<close> and \<open>lw_dirty\<close> refer to them by
  position.
\<close>

record dispatch =
  lw_ids :: "string set"
  lw_queue :: "log_item list"
  lw_dropped :: nat
  lw_reported :: nat
  lw_objects :: "log_file list"
  lw_files :: "(string \<times> nat) list"
  lw_dirty :: "nat list"
  lw_stderr :: "nat list"
  lw_running :: bool

definition QUEUE_MAX :: nat where "QUEUE_MAX = 100000"

definition new_dispatch :: dispatch where
  "new_dispatch = \<lparr>lw_ids = {}, lw_queue = [], lw_dropped = 0, lw_reported = 0, lw_objects = [], lw_files = [],
     lw_dirty = [], lw_stderr = [], lw_running = True\<rparr>"

text \<open>The child of a fork: the file objects belong to the parent, everything else starts afresh.\<close>

definition reinit_after_fork :: "dispatch \<Rightarrow> dispatch" where
  "reinit_after_fork d =
     d\<lparr>lw_ids := {}, lw_dropped := 0, lw_reported := 0, lw_queue := [], lw_files := [], lw_dirty := [], lw_running := True\<rparr>"

text \<open>\<open>put_nowait\<close>: a full queue drops the item.\<close>

definition submit :: "log_item \<Rightarrow> dispatch \<Rightarrow> dispatch" where
  "submit item d =
     (if length (lw_queue d) < QUEUE_MAX then d\<lparr>lw_queue := lw_queue d @ [item]\<rparr>
      else d\<lparr>lw_dropped := lw_dropped d + 1\<rparr>)"

definition register_id :: "string \<Rightarrow> dispatch \<Rightarrow> dispatch" where
  "register_id log_id d = d\<lparr>lw_ids := insert log_id (lw_ids d)\<rparr>"

definition unregister_id :: "string \<Rightarrow> dispatch \<Rightarrow> dispatch" where
  "unregister_id log_id d = d\<lparr>lw_ids := lw_ids d - {log_id}\<rparr>"

text \<open>What \<open>emit\<close> decides to enqueue.\<close>

definition emit_item :: "char \<Rightarrow> (string \<Rightarrow> string) \<Rightarrow> string option \<Rightarrow> log_record \<Rightarrow> dispatch \<Rightarrow> log_item option" where
  "emit_item ell redact current r d =
     (case current of
        None \<Rightarrow> None
      | Some log_id \<Rightarrow>
          if lr_levelno r < INFO \<or> log_id \<notin> lw_ids d then None
          else map_option (\<lambda>line. LWrite log_id (line @ nl)) (format_record ell redact r))"

subsection \<open>The writer\<close>

text \<open>Which of the writer's system calls succeed; a flush or a close per file object.\<close>

record log_io =
  io_mkdir :: bool
  io_open :: bool
  io_write :: bool
  io_flush :: "nat \<Rightarrow> bool"
  io_flush_each_line :: bool

definition update_object :: "nat \<Rightarrow> (log_file \<Rightarrow> log_file) \<Rightarrow> dispatch \<Rightarrow> dispatch" where
  "update_object h f d = d\<lparr>lw_objects := (lw_objects d)[h := f (lw_objects d ! h)]\<rparr>"

definition flush_object :: "log_io \<Rightarrow> nat \<Rightarrow> dispatch \<Rightarrow> dispatch" where
  "flush_object io h d =
     (if io_flush io h then update_object h (\<lambda>f. f\<lparr>lf_synced := length (lf_text f)\<rparr>) d else d)"

text \<open>\<open>close()\<close> flushes, and closes even if the flush fails.\<close>

definition close_object :: "log_io \<Rightarrow> nat \<Rightarrow> dispatch \<Rightarrow> dispatch" where
  "close_object io h d = update_object h (\<lambda>f. f\<lparr>lf_closed := True\<rparr>) (flush_object io h d)"

definition undirty :: "nat \<Rightarrow> dispatch \<Rightarrow> dispatch" where
  "undirty h d = d\<lparr>lw_dirty := filter (\<lambda>k. k \<noteq> h) (lw_dirty d)\<rparr>"

definition pop_file :: "string \<Rightarrow> dispatch \<Rightarrow> dispatch" where
  "pop_file log_id d = d\<lparr>lw_files := dpop (lw_files d) log_id\<rparr>"

definition write_line :: "log_io \<Rightarrow> nat \<Rightarrow> string \<Rightarrow> dispatch \<Rightarrow> dispatch" where
  "write_line io h line d =
     (if \<not> io_write io then d
      else
        (let d1 = update_object h (\<lambda>f. f\<lparr>lf_text := lf_text f @ [line]\<rparr>) d in
         if io_flush_each_line io then flush_object io h d1
         else d1\<lparr>lw_dirty := (if h \<in> set (lw_dirty d1) then lw_dirty d1 else lw_dirty d1 @ [h])\<rparr>))"

definition replace_previous :: "log_io \<Rightarrow> string \<Rightarrow> dispatch \<Rightarrow> dispatch" where
  "replace_previous io log_id d =
     (case dget (lw_files d) log_id of
        None \<Rightarrow> d
      | Some h \<Rightarrow> close_object io h (undirty h (pop_file log_id d)))"

definition open_file :: "log_io \<Rightarrow> string \<Rightarrow> string \<Rightarrow> dispatch \<Rightarrow> dispatch" where
  "open_file io log_id path d =
     (if \<not> io_mkdir io then d
      else
        (let d1 = replace_previous io log_id d in
         if \<not> io_open io then d1
         else d1\<lparr>lw_objects := lw_objects d1 @ [\<lparr>lf_log_id = log_id, lf_path = path, lf_text = [], lf_synced = 0, lf_closed = False\<rparr>],
                 lw_files := dset (lw_files d1) log_id (length (lw_objects d1))\<rparr>))"

text \<open>Here a failing flush skips the close.\<close>

definition close_file :: "log_io \<Rightarrow> string \<Rightarrow> dispatch \<Rightarrow> dispatch" where
  "close_file io log_id d =
     (case dget (lw_files d) log_id of
        None \<Rightarrow> d
      | Some h \<Rightarrow>
          (let d1 = undirty h (pop_file log_id d) in
           if io_flush io h then close_object io h (flush_object io h d1) else d1))"

definition apply_item :: "log_io \<Rightarrow> log_item \<Rightarrow> dispatch \<Rightarrow> dispatch" where
  "apply_item io item d =
     (case item of
        LWrite log_id line \<Rightarrow> (case dget (lw_files d) log_id of Some h \<Rightarrow> write_line io h line d | None \<Rightarrow> d)
      | LOpen log_id path \<Rightarrow> open_file io log_id path d
      | LClose log_id \<Rightarrow> close_file io log_id d
      | LStop \<Rightarrow> d)"

definition flush_files :: "log_io \<Rightarrow> dispatch \<Rightarrow> dispatch" where
  "flush_files io d =
     (let d1 = fold (flush_object io) (lw_dirty d) d; d2 = d1\<lparr>lw_dirty := []\<rparr> in
      if lw_dropped d2 \<noteq> lw_reported d2
      then d2\<lparr>lw_stderr := lw_stderr d2 @ [lw_dropped d2], lw_reported := lw_dropped d2\<rparr> else d2)"

text \<open>\<open>_drain\<close>: everything queued is handled, further stop marks skipped.\<close>

definition drain_items :: "log_io \<Rightarrow> dispatch \<Rightarrow> dispatch" where
  "drain_items io d = fold (apply_item io) (lw_queue d) (d\<lparr>lw_queue := []\<rparr>)"

definition close_all :: "log_io \<Rightarrow> dispatch \<Rightarrow> dispatch" where
  "close_all io d =
     (let d1 = flush_files io d in
      (fold (close_object io) (map snd (lw_files d1)) d1)\<lparr>lw_files := [], lw_dirty := []\<rparr>)"

text \<open>The writer takes a stop mark: it drains, closes and ends.\<close>

definition stop_writer :: "log_io \<Rightarrow> dispatch \<Rightarrow> dispatch" where
  "stop_writer io d = (close_all io (drain_items io d))\<lparr>lw_running := False\<rparr>"

text \<open>\<open>_shutdown\<close> enqueues the stop mark; a full queue loses it without counting.\<close>

definition shutdown :: "dispatch \<Rightarrow> dispatch" where
  "shutdown d = (if length (lw_queue d) < QUEUE_MAX then d\<lparr>lw_queue := lw_queue d @ [LStop]\<rparr> else d)"

subsection \<open>The threads\<close>

text \<open>
  \<open>ls_pending t\<close> is the item the call of thread \<open>t\<close> is about to enqueue; \<open>ls_submitted\<close> records the
  items in the order in which they were handed to the queue, dropped ones included.
\<close>

record log_system =
  ls_dispatch :: dispatch
  ls_pending :: "nat \<Rightarrow> log_item option"
  ls_submitted :: "log_item list"

definition new_log_system :: "log_system \<Rightarrow> bool" where
  "new_log_system s \<longleftrightarrow> s = \<lparr>ls_dispatch = new_dispatch, ls_pending = (\<lambda>_. None), ls_submitted = []\<rparr>"

definition begin_call :: "nat \<Rightarrow> log_item \<Rightarrow> (dispatch \<Rightarrow> dispatch) \<Rightarrow> log_system \<Rightarrow> log_system" where
  "begin_call t item f s = s\<lparr>ls_dispatch := f (ls_dispatch s), ls_pending := (ls_pending s)(t := Some item)\<rparr>"

definition end_call :: "nat \<Rightarrow> log_item \<Rightarrow> log_system \<Rightarrow> log_system" where
  "end_call t item s =
     s\<lparr>ls_dispatch := submit item (ls_dispatch s), ls_pending := (ls_pending s)(t := None),
       ls_submitted := ls_submitted s @ [item]\<rparr>"

inductive dstep :: "char \<Rightarrow> (string \<Rightarrow> string) \<Rightarrow> log_system \<Rightarrow> log_system \<Rightarrow> bool" for ell redact where
  d_register: "ls_pending s t = None \<Longrightarrow> dstep ell redact s (begin_call t (LOpen log_id path) (register_id log_id) s)"
| d_unregister: "ls_pending s t = None \<Longrightarrow> dstep ell redact s (begin_call t (LClose log_id) (unregister_id log_id) s)"
| d_emit: "ls_pending s t = None \<Longrightarrow> emit_item ell redact current r (ls_dispatch s) = Some item \<Longrightarrow>
     dstep ell redact s (begin_call t item (\<lambda>d. d) s)"
| d_submit: "ls_pending s t = Some item \<Longrightarrow> dstep ell redact s (end_call t item s)"
| d_shutdown: "dstep ell redact s (s\<lparr>ls_dispatch := shutdown (ls_dispatch s)\<rparr>)"
| d_apply: "lw_running (ls_dispatch s) \<Longrightarrow> lw_queue (ls_dispatch s) = item # q \<Longrightarrow> item \<noteq> LStop \<Longrightarrow>
     dstep ell redact s (s\<lparr>ls_dispatch := apply_item io item ((ls_dispatch s)\<lparr>lw_queue := q\<rparr>)\<rparr>)"
| d_flush: "lw_running (ls_dispatch s) \<Longrightarrow> dstep ell redact s (s\<lparr>ls_dispatch := flush_files io (ls_dispatch s)\<rparr>)"
| d_stop: "lw_running (ls_dispatch s) \<Longrightarrow> lw_queue (ls_dispatch s) = LStop # q \<Longrightarrow>
     dstep ell redact s (s\<lparr>ls_dispatch := stop_writer io ((ls_dispatch s)\<lparr>lw_queue := q\<rparr>)\<rparr>)"
| d_fork: "dstep ell redact s (s\<lparr>ls_dispatch := reinit_after_fork (ls_dispatch s), ls_pending := (\<lambda>_. None)\<rparr>)"

inductive_cases dstepE: "dstep ell redact s s'"

subsection \<open>One execution\<close>

datatype root_handler = DispatchHandler | ConsoleHandler | ForeignHandler nat

record log_process =
  lp_handlers :: "root_handler list"
  lp_levels :: "string \<Rightarrow> int option"
  lp_ready :: bool
  lp_current :: "string option"

definition QUIET_LOGGERS :: "string list" where
  "QUIET_LOGGERS = [''httpx'', ''httpcore'', ''openai'', ''urllib3'', ''asyncio'', ''ray'', ''hpack'', ''h2'', ''grpclib'', ''modal'',
     ''LiteLLM'', ''litellm'', ''litellm_model'']"

text \<open>The root logger has the empty name.\<close>

definition ensure_process_logging :: "log_process \<Rightarrow> log_process" where
  "ensure_process_logging p =
     (if lp_ready p then p
      else p\<lparr>lp_handlers := [DispatchHandler, ConsoleHandler],
             lp_levels := (\<lambda>n. if n = [] then Some INFO else if n \<in> set QUIET_LOGGERS then Some WARNING else lp_levels p n),
             lp_ready := True\<rparr>)"

record sample_log =
  sl_log_id :: string
  sl_log_path :: "string option"

text \<open>Entering gives the token of the context variable; the file operations go to the dispatch handler.\<close>

definition sample_enter :: "sample_log \<Rightarrow> log_process \<Rightarrow> log_process \<times> string option \<times> log_item option" where
  "sample_enter c p =
     (let p1 = ensure_process_logging p in
      (p1\<lparr>lp_current := Some (sl_log_id c)\<rparr>, lp_current p1, map_option (LOpen (sl_log_id c)) (sl_log_path c)))"

definition sample_exit :: "sample_log \<Rightarrow> string option \<Rightarrow> log_process \<Rightarrow> log_process \<times> log_item option" where
  "sample_exit c token p = (p\<lparr>lp_current := token\<rparr>, map_option (\<lambda>_. LClose (sl_log_id c)) (sl_log_path c))"

text \<open>The block: the id is bound inside and restored after, whatever the body does.\<close>

definition sample_logging ::
  "sample_log \<Rightarrow> (log_process \<Rightarrow> log_process \<times> 'a result) \<Rightarrow> log_process \<Rightarrow> log_process \<times> 'a result" where
  "sample_logging c body p =
     (case sample_enter c p of (p1, token, _) \<Rightarrow>
        (case body p1 of (p2, r) \<Rightarrow> (fst (sample_exit c token p2), r)))"

end
