(* ===== verification/LogProps.thy ===== *)
theory LogProps
  imports LogDispatch "HOL-Library.Sublist"
begin

text \<open>
  Logging: however the calling threads and the writer interleave, a line ends in the file of its own
  log id or nowhere, in order; and stopping the writer loses nothing that was queued.
\<close>

subsection \<open>Lines of an id\<close>

fun lines_for :: "string \<Rightarrow> log_item list \<Rightarrow> string list" where
  "lines_for i [] = []"
| "lines_for i (LWrite j line # items) = (if j = i then line # lines_for i items else lines_for i items)"
| "lines_for i (_ # items) = lines_for i items"

lemma lines_for_append: "lines_for i (xs @ ys) = lines_for i xs @ lines_for i ys"
  by (induction i xs rule: lines_for.induct) simp_all

lemma lines_for_snoc: "lines_for i (xs @ [x]) = lines_for i xs @ lines_for i [x]"
  by (rule lines_for_append)

lemma lines_for_tail: "subseq (lines_for i q) (lines_for i (item # q))"
  by (cases item) auto

lemma subseq_extend: "subseq xs ys \<Longrightarrow> subseq xs (ys @ zs)"
  by (metis append_Nil2 list_emb_append_mono list_emb_Nil)

lemma subseq_front: "subseq (xs @ ys) zs \<Longrightarrow> subseq xs zs"
  using subseq_order.order_trans [OF subseq_extend [OF subseq_order.order_refl]] by blast

text \<open>The invariant of one file object, against what is queued and what was submitted.\<close>

definition object_ok :: "log_item list \<Rightarrow> log_item list \<Rightarrow> log_file \<Rightarrow> bool" where
  "object_ok q submitted f \<longleftrightarrow>
     LOpen (lf_log_id f) (lf_path f) \<in> set submitted \<and>
     subseq (lf_text f @ lines_for (lf_log_id f) q) (lines_for (lf_log_id f) submitted) \<and>
     lf_synced f \<le> length (lf_text f)"

definition files_ok :: "dispatch \<Rightarrow> bool" where
  "files_ok d \<longleftrightarrow> (\<forall>i h. dget (lw_files d) i = Some h \<longrightarrow> h < length (lw_objects d) \<and> lf_log_id (lw_objects d ! h) = i) \<and>
     (\<forall>h \<in> set (lw_dirty d). h < length (lw_objects d))"

definition queue_ok :: "log_item list \<Rightarrow> log_item list \<Rightarrow> bool" where
  "queue_ok q submitted \<longleftrightarrow> length q \<le> QUEUE_MAX \<and> (\<forall>i. subseq (lines_for i q) (lines_for i submitted)) \<and>
     set q \<subseteq> insert LStop (set submitted)"

definition log_inv :: "log_system \<Rightarrow> bool" where
  "log_inv s \<longleftrightarrow>
     queue_ok (lw_queue (ls_dispatch s)) (ls_submitted s) \<and> files_ok (ls_dispatch s) \<and>
     (\<forall>f \<in> set (lw_objects (ls_dispatch s)). object_ok (lw_queue (ls_dispatch s)) (ls_submitted s) f)"

text \<open>What the writer does to the file objects, with the queue left as it is.\<close>

definition objects_ok :: "log_item list \<Rightarrow> dispatch \<Rightarrow> bool" where
  "objects_ok sub d \<longleftrightarrow> files_ok d \<and> (\<forall>f \<in> set (lw_objects d). object_ok (lw_queue d) sub f)"

lemma objects_okD: "objects_ok sub d \<Longrightarrow> h < length (lw_objects d) \<Longrightarrow> object_ok (lw_queue d) sub (lw_objects d ! h)"
  by (simp add: objects_ok_def)

lemma update_object_simps [simp]:
  "lw_queue (update_object h f d) = lw_queue d" "lw_files (update_object h f d) = lw_files d"
  "lw_dirty (update_object h f d) = lw_dirty d" "length (lw_objects (update_object h f d)) = length (lw_objects d)"
  by (simp_all add: update_object_def)

lemma update_object_ok:
  assumes "objects_ok sub d" "\<And>g. lf_log_id (f g) = lf_log_id g"
    and "h < length (lw_objects d) \<Longrightarrow> object_ok (lw_queue d) sub (f (lw_objects d ! h))"
  shows "objects_ok sub (update_object h f d)"
proof (cases "h < length (lw_objects d)")
  case True
  have id: "lf_log_id ((lw_objects d)[h := f (lw_objects d ! h)] ! k) = lf_log_id (lw_objects d ! k)" for k
    using assms(2) True by (cases "k = h") simp_all
  have "\<forall>g \<in> set ((lw_objects d)[h := f (lw_objects d ! h)]). object_ok (lw_queue d) sub g"
    using assms(1,3) True set_update_subset_insert [of "lw_objects d" h] by (auto simp: objects_ok_def)
  then show ?thesis using assms(1) by (simp add: objects_ok_def files_ok_def update_object_def id)
next
  case False
  then show ?thesis using assms(1) by (simp add: update_object_def list_update_beyond)
qed

lemma flush_object_ok: "objects_ok sub d \<Longrightarrow> objects_ok sub (flush_object io h d)"
  unfolding flush_object_def
  by (auto intro!: update_object_ok dest: objects_okD simp: object_ok_def)

lemma close_object_ok: "objects_ok sub d \<Longrightarrow> objects_ok sub (close_object io h d)"
  unfolding close_object_def
  by (rule update_object_ok)
     (auto intro: flush_object_ok dest: flush_object_ok [of sub d io h, THEN objects_okD, of h] simp: object_ok_def)

lemma undirty_pop_ok: "objects_ok sub d \<Longrightarrow> objects_ok sub (undirty h (pop_file i d))"
  by (auto simp: objects_ok_def files_ok_def undirty_def pop_file_def split: if_splits)

lemma flush_queue [simp]:
  "lw_queue (flush_object io h d) = lw_queue d" "length (lw_objects (flush_object io h d)) = length (lw_objects d)"
  "lw_files (flush_object io h d) = lw_files d" "lw_dirty (flush_object io h d) = lw_dirty d"
  by (simp_all add: flush_object_def)

lemma close_queue [simp]:
  "lw_queue (close_object io h d) = lw_queue d" "length (lw_objects (close_object io h d)) = length (lw_objects d)"
  "lw_files (close_object io h d) = lw_files d" "lw_dirty (close_object io h d) = lw_dirty d"
  by (simp_all add: close_object_def)

lemma replace_previous_ok: "objects_ok sub d \<Longrightarrow> objects_ok sub (replace_previous io i d)"
  by (auto simp: replace_previous_def intro!: close_object_ok undirty_pop_ok split: option.split)

lemma replace_previous_queue [simp]: "lw_queue (replace_previous io i d) = lw_queue d"
  by (simp add: replace_previous_def undirty_def pop_file_def split: option.split)

lemma close_file_ok: "objects_ok sub d \<Longrightarrow> objects_ok sub (close_file io i d)"
  by (auto simp: close_file_def Let_def intro!: close_object_ok flush_object_ok undirty_pop_ok split: option.split)

lemma close_file_queue [simp]: "lw_queue (close_file io i d) = lw_queue d"
  by (simp add: close_file_def Let_def undirty_def pop_file_def split: option.split)

lemma open_file_ok:
  assumes "objects_ok sub d" "LOpen i path \<in> set sub" "subseq (lines_for i (lw_queue d)) (lines_for i sub)"
  shows "objects_ok sub (open_file io i path d)"
  using replace_previous_ok [OF assms(1), of io i] assms
  by (auto simp: open_file_def Let_def objects_ok_def files_ok_def object_ok_def nth_append less_Suc_eq split: if_splits)

lemma open_file_queue [simp]: "lw_queue (open_file io i path d) = lw_queue d"
  by (simp add: open_file_def Let_def)

lemma write_line_queue [simp]: "lw_queue (write_line io h line d) = lw_queue d"
  by (simp add: write_line_def Let_def)

lemma write_line_ok:
  assumes ok: "objects_ok sub d" and h: "dget (lw_files d) i = Some h"
    and item: "\<And>f. f \<in> set (lw_objects d) \<Longrightarrow> lf_log_id f = i \<Longrightarrow>
      subseq (lf_text f @ line # lines_for i (lw_queue d)) (lines_for i sub)"
  shows "objects_ok sub (write_line io h line d)"
proof -
  have hl: "h < length (lw_objects d)" and id: "lf_log_id (lw_objects d ! h) = i"
    using ok h by (auto simp: objects_ok_def files_ok_def)
  let ?d = "update_object h (\<lambda>f. f\<lparr>lf_text := lf_text f @ [line]\<rparr>) d"
  have "objects_ok sub ?d"
    using objects_okD [OF ok hl] item [OF nth_mem [OF hl] id] id
    by (intro update_object_ok [OF ok]) (auto simp: object_ok_def)
  moreover from this have "objects_ok sub (flush_object io h ?d)" by (rule flush_object_ok)
  moreover have "objects_ok sub (?d\<lparr>lw_dirty := (if h \<in> set (lw_dirty ?d) then lw_dirty ?d else lw_dirty ?d @ [h])\<rparr>)"
    using \<open>objects_ok sub ?d\<close> hl by (auto simp: objects_ok_def files_ok_def)
  ultimately show ?thesis using ok by (simp add: write_line_def Let_def)
qed

text \<open>Taking an item off the queue and handling it.\<close>

lemma object_ok_shorter: "object_ok (item # q) sub f \<Longrightarrow> object_ok q sub f"
  using list_emb_append_mono [OF subseq_order.order_refl [of "lf_text f"] lines_for_tail [of "lf_log_id f" q item]]
  by (auto simp: object_ok_def intro: subseq_order.order_trans)

lemma objects_ok_shorter: "objects_ok sub (d\<lparr>lw_queue := item # q\<rparr>) \<Longrightarrow> objects_ok sub (d\<lparr>lw_queue := q\<rparr>)"
  by (auto simp: objects_ok_def files_ok_def intro: object_ok_shorter)

lemma queue_ok_tail: "queue_ok (item # q) sub \<Longrightarrow> queue_ok q sub"
  using lines_for_tail [of _ q item] by (auto simp: queue_ok_def intro: subseq_order.order_trans)

lemma apply_item_ok:
  assumes q: "queue_ok (item # q) sub" and ok: "objects_ok sub (d\<lparr>lw_queue := item # q\<rparr>)"
  shows "objects_ok sub (apply_item io item (d\<lparr>lw_queue := q\<rparr>)) \<and> lw_queue (apply_item io item (d\<lparr>lw_queue := q\<rparr>)) = q"
proof -
  note short = objects_ok_shorter [OF ok] and tail = queue_ok_tail [OF q]
  show ?thesis
  proof (cases item)
    case (LWrite i line)
    show ?thesis
    proof (cases "dget (lw_files d) i")
      case None
      then show ?thesis using short LWrite by (simp add: apply_item_def)
    next
      case (Some h)
      have "objects_ok sub (write_line io h line (d\<lparr>lw_queue := q\<rparr>))"
        by (rule write_line_ok [OF short, of i])
           (use Some ok LWrite in \<open>auto simp: objects_ok_def object_ok_def\<close>)
      then show ?thesis using Some LWrite by (simp add: apply_item_def)
    qed
  next
    case (LOpen i path)
    then show ?thesis using q tail short by (auto simp: apply_item_def queue_ok_def intro!: open_file_ok)
  qed (use short in \<open>auto simp: apply_item_def intro: close_file_ok\<close>)
qed

lemma fold_flush_ok: "objects_ok sub d \<Longrightarrow> objects_ok sub (fold (flush_object io) hs d) \<and> lw_queue (fold (flush_object io) hs d) = lw_queue d"
  by (induction hs arbitrary: d) (simp_all add: flush_object_ok)

lemma fold_close_ok: "objects_ok sub d \<Longrightarrow> objects_ok sub (fold (close_object io) hs d) \<and> lw_queue (fold (close_object io) hs d) = lw_queue d"
  by (induction hs arbitrary: d) (simp_all add: close_object_ok)

lemma flush_files_ok: "objects_ok sub d \<Longrightarrow> objects_ok sub (flush_files io d) \<and> lw_queue (flush_files io d) = lw_queue d"
  using fold_flush_ok [of sub d io "lw_dirty d"]
  by (auto simp: flush_files_def Let_def objects_ok_def files_ok_def)

lemma close_all_ok: "objects_ok sub d \<Longrightarrow> objects_ok sub (close_all io d) \<and> lw_queue (close_all io d) = lw_queue d"
  using flush_files_ok [of sub d io] fold_close_ok [of sub "flush_files io d" io "map snd (lw_files (flush_files io d))"]
  by (auto simp: close_all_def Let_def objects_ok_def files_ok_def)

text \<open>No operation on the files looks at the queue.\<close>

lemma queue_commutes:
  "update_object h f (d\<lparr>lw_queue := q\<rparr>) = (update_object h f d)\<lparr>lw_queue := q\<rparr>"
  "flush_object io h (d\<lparr>lw_queue := q\<rparr>) = (flush_object io h d)\<lparr>lw_queue := q\<rparr>"
  "close_object io h (d\<lparr>lw_queue := q\<rparr>) = (close_object io h d)\<lparr>lw_queue := q\<rparr>"
  by (simp_all add: update_object_def flush_object_def close_object_def)

lemma file_commutes:
  "undirty h (d\<lparr>lw_queue := q\<rparr>) = (undirty h d)\<lparr>lw_queue := q\<rparr>"
  "pop_file i (d\<lparr>lw_queue := q\<rparr>) = (pop_file i d)\<lparr>lw_queue := q\<rparr>"
  by (simp_all add: undirty_def pop_file_def)

lemma item_commutes:
  "write_line io h line (d\<lparr>lw_queue := q\<rparr>) = (write_line io h line d)\<lparr>lw_queue := q\<rparr>"
  "replace_previous io i (d\<lparr>lw_queue := q\<rparr>) = (replace_previous io i d)\<lparr>lw_queue := q\<rparr>"
  "close_file io i (d\<lparr>lw_queue := q\<rparr>) = (close_file io i d)\<lparr>lw_queue := q\<rparr>"
  by (simp_all add: write_line_def replace_previous_def close_file_def queue_commutes file_commutes Let_def split: option.split)

lemma open_commutes: "open_file io i path (d\<lparr>lw_queue := q\<rparr>) = (open_file io i path d)\<lparr>lw_queue := q\<rparr>"
  by (simp add: open_file_def item_commutes Let_def)

lemma apply_item_commutes: "apply_item io item (d\<lparr>lw_queue := q\<rparr>) = (apply_item io item d)\<lparr>lw_queue := q\<rparr>"
  by (cases item) (simp_all add: apply_item_def item_commutes open_commutes split: option.split)

lemma drain_fold_ok:
  "queue_ok q sub \<Longrightarrow> objects_ok sub (d\<lparr>lw_queue := q\<rparr>) \<Longrightarrow> objects_ok sub ((fold (apply_item io) q d)\<lparr>lw_queue := []\<rparr>)"
proof (induction q arbitrary: d)
  case (Cons item q)
  have "objects_ok sub ((apply_item io item d)\<lparr>lw_queue := q\<rparr>)"
    using apply_item_ok [OF Cons.prems] unfolding apply_item_commutes by blast
  then show ?case using Cons.IH queue_ok_tail [OF Cons.prems(1)] by simp
qed simp

lemma apply_fold_queue: "lw_queue (fold (apply_item io) items d) = lw_queue d"
proof (induction items arbitrary: d)
  case (Cons item items)
  have "apply_item io item d = (apply_item io item d)\<lparr>lw_queue := lw_queue d\<rparr>"
    using apply_item_commutes [where d = d and q = "lw_queue d"] by simp
  also have "lw_queue \<dots> = lw_queue d" by simp
  finally have "lw_queue (apply_item io item d) = lw_queue d" .
  then show ?case using Cons by simp
qed simp

lemma drain_ok:
  assumes "queue_ok (lw_queue d) sub" "objects_ok sub d"
  shows "objects_ok sub (drain_items io d) \<and> lw_queue (drain_items io d) = []"
proof -
  have q: "lw_queue (drain_items io d) = []" by (simp add: drain_items_def apply_fold_queue)
  have "objects_ok sub ((fold (apply_item io) (lw_queue d) (d\<lparr>lw_queue := []\<rparr>))\<lparr>lw_queue := []\<rparr>)"
    by (rule drain_fold_ok) (use assms in simp_all)
  moreover have "(drain_items io d)\<lparr>lw_queue := []\<rparr> = drain_items io d" using q by simp
  ultimately show ?thesis using q by (simp add: drain_items_def)
qed

lemma stop_ok:
  assumes "queue_ok (lw_queue d) sub" "objects_ok sub d"
  shows "objects_ok sub (stop_writer io d) \<and> lw_queue (stop_writer io d) = []"
proof -
  note d = drain_ok [OF assms, of io]
  have c: "objects_ok sub (close_all io (drain_items io d))" "lw_queue (close_all io (drain_items io d)) = []"
    using close_all_ok [OF d [THEN conjunct1], of io] d by simp_all
  show ?thesis using c by (simp add: stop_writer_def objects_ok_def files_ok_def)
qed

subsection \<open>Every step keeps it\<close>

lemma object_ok_submitted:
  "object_ok q sub f \<Longrightarrow> object_ok q (sub @ [item]) f"
  by (auto simp: object_ok_def lines_for_append intro: subseq_extend)

lemma object_ok_enqueued:
  "object_ok q sub f \<Longrightarrow> object_ok (q @ [item]) (sub @ [item]) f"
  by (auto simp: object_ok_def lines_for_append simp flip: append_assoc intro: list_emb_append_mono)

lemma queue_ok_submitted: "queue_ok q sub \<Longrightarrow> queue_ok q (sub @ [item])"
  by (auto simp: queue_ok_def lines_for_append intro: subseq_extend)

lemma queue_ok_enqueued: "queue_ok q sub \<Longrightarrow> length q < QUEUE_MAX \<Longrightarrow> queue_ok (q @ [item]) (sub @ [item])"
  by (auto simp: queue_ok_def lines_for_append intro: list_emb_append_mono)

lemma queue_ok_stop: "queue_ok q sub \<Longrightarrow> length q < QUEUE_MAX \<Longrightarrow> queue_ok (q @ [LStop]) sub"
  by (auto simp: queue_ok_def lines_for_append)

lemma log_inv_parts:
  "log_inv s \<longleftrightarrow> queue_ok (lw_queue (ls_dispatch s)) (ls_submitted s) \<and> objects_ok (ls_submitted s) (ls_dispatch s)"
  by (auto simp: log_inv_def objects_ok_def)

lemma dstep_inv:
  assumes inv: "log_inv s" and step: "dstep ell redact s s'"
  shows "log_inv s'"
proof -
  note q = inv [unfolded log_inv_parts, THEN conjunct1] and o = inv [unfolded log_inv_parts, THEN conjunct2]
  show ?thesis
    using step
  proof cases
    case (d_submit t item)
    show ?thesis
      using q o unfolding d_submit log_inv_parts
      by (auto simp: end_call_def submit_def objects_ok_def files_ok_def object_ok_submitted object_ok_enqueued
          queue_ok_submitted queue_ok_enqueued)
  next
    case d_shutdown
    show ?thesis
      using q o unfolding d_shutdown log_inv_parts
      by (auto simp: shutdown_def objects_ok_def files_ok_def object_ok_def lines_for_append queue_ok_stop)
  next
    case (d_apply item q' io)
    have "objects_ok (ls_submitted s) ((ls_dispatch s)\<lparr>lw_queue := item # q'\<rparr>)"
      using o by (simp flip: d_apply(3))
    from apply_item_ok [OF q [unfolded d_apply(3)] this, of io] queue_ok_tail [OF q [unfolded d_apply(3)]]
    show ?thesis unfolding d_apply(1) log_inv_parts by simp
  next
    case (d_flush io)
    show ?thesis using flush_files_ok [OF o, of io] q unfolding d_flush log_inv_parts by simp
  next
    case (d_stop q' io)
    have o': "objects_ok (ls_submitted s) ((ls_dispatch s)\<lparr>lw_queue := q'\<rparr>)"
      by (rule objects_ok_shorter [where item = LStop]) (use o in \<open>simp flip: d_stop(3)\<close>)
    have "queue_ok q' (ls_submitted s)" by (rule queue_ok_tail [OF q [unfolded d_stop(3)]])
    from stop_ok [of "(ls_dispatch s)\<lparr>lw_queue := q'\<rparr>", OF _ o', of io] this
    show ?thesis unfolding d_stop(1) log_inv_parts by (simp add: queue_ok_def)
  next
    case d_fork
    show ?thesis
      using q o unfolding d_fork log_inv_parts
      by (auto simp: reinit_after_fork_def objects_ok_def files_ok_def object_ok_def queue_ok_def QUEUE_MAX_def
          dest!: subseq_front)
  qed (use q o in \<open>auto simp: log_inv_parts begin_call_def register_id_def unregister_id_def objects_ok_def files_ok_def\<close>)
qed

interpretation logging: invariant_system new_log_system "dstep ell redact" log_inv for ell redact
proof
  show "log_inv s" if "new_log_system s" for s
    using that by (simp add: new_log_system_def log_inv_def new_dispatch_def queue_ok_def files_ok_def)
qed (rule dstep_inv)

text \<open>
  C19: however the calling threads, the writer, forks and the shutdown interleave, and whatever system
  calls fail, a log line ends in a file that was registered for its own log id or nowhere: the text of
  every file object is, in order and without repetition, a selection of the lines submitted under the id
  the file was registered for.  The queue never exceeds its bound, so a slow disk costs lines and not
  memory.
\<close>

theorem log_lines_routed:
  assumes "new_log_system s0" "(dstep ell redact)\<^sup>*\<^sup>* s0 s" and "f \<in> set (lw_objects (ls_dispatch s))"
  shows "LOpen (lf_log_id f) (lf_path f) \<in> set (ls_submitted s) \<and>
    subseq (lf_text f) (lines_for (lf_log_id f) (ls_submitted s)) \<and>
    lf_synced f \<le> length (lf_text f) \<and> length (lw_queue (ls_dispatch s)) \<le> QUEUE_MAX"
  using logging.reach_inv [OF assms(1,2)] assms(3)
  by (auto simp: log_inv_def object_ok_def queue_ok_def dest: subseq_front)

text \<open>One record of one execution, written.\<close>

definition demo_record :: log_record where
  "demo_record = \<lparr>lr_name = ''uni_agent.x'', lr_levelno = 20, lr_levelname = ''INFO'', lr_asctime = ''t'', lr_message = Some ''m'',
     lr_traceback = []\<rparr>"

definition good_io :: log_io where
  "good_io = \<lparr>io_mkdir = True, io_open = True, io_write = True, io_flush = (\<lambda>_. True), io_flush_each_line = False\<rparr>"

definition demo_start :: log_system where
  "demo_start = \<lparr>ls_dispatch = new_dispatch, ls_pending = (\<lambda>_. None), ls_submitted = []\<rparr>"

definition demo_opened :: log_system where
  "demo_opened =
     (let s = end_call 0 (LOpen ''a'' ''p'') (begin_call 0 (LOpen ''a'' ''p'') (register_id ''a'') demo_start) in
      s\<lparr>ls_dispatch := apply_item good_io (LOpen ''a'' ''p'') ((ls_dispatch s)\<lparr>lw_queue := []\<rparr>)\<rparr>)"

definition demo_line :: string where
  "demo_line = the (format_record (CHR ''~'') (\<lambda>x. x) demo_record) @ nl"

lemma demo_opened_eq:
  "ls_dispatch demo_opened = new_dispatch\<lparr>lw_ids := {''a''},
     lw_objects := [\<lparr>lf_log_id = ''a'', lf_path = ''p'', lf_text = [], lf_synced = 0, lf_closed = False\<rparr>], lw_files := [(''a'', 0)]\<rparr>"
  "ls_pending demo_opened = (\<lambda>_. None)" "ls_submitted demo_opened = [LOpen ''a'' ''p'']"
  by (simp_all add: demo_opened_def demo_start_def new_dispatch_def end_call_def begin_call_def register_id_def submit_def
      QUEUE_MAX_def apply_item_def open_file_def good_io_def replace_previous_def Let_def fun_upd_def fun_eq_iff)

lemma demo_opened_run: "(dstep (CHR ''~'') (\<lambda>x. x))\<^sup>*\<^sup>* demo_start demo_opened"
proof -
  let ?R = "dstep (CHR ''~'') (\<lambda>x. x)"
  let ?s1 = "begin_call 0 (LOpen ''a'' ''p'') (register_id ''a'') demo_start"
  let ?s2 = "end_call 0 (LOpen ''a'' ''p'') ?s1"
  have 1: "?R demo_start ?s1" by (rule d_register) (simp add: demo_start_def)
  have 2: "?R ?s1 ?s2" by (rule d_submit) (simp add: begin_call_def)
  have q: "lw_running (ls_dispatch ?s2)" "lw_queue (ls_dispatch ?s2) = [LOpen ''a'' ''p'']"
    by (simp_all add: demo_start_def new_dispatch_def end_call_def begin_call_def register_id_def submit_def QUEUE_MAX_def)
  have 3: "?R ?s2 demo_opened"
    using d_apply [OF q, where io = good_io] by (simp add: demo_opened_def Let_def)
  have "?R\<^sup>*\<^sup>* demo_start ?s1" using 1 by (rule r_into_rtranclp)
  then have "?R\<^sup>*\<^sup>* demo_start ?s2" using 2 by (rule rtranclp.rtrancl_into_rtrancl)
  then show ?thesis using 3 by (rule rtranclp.rtrancl_into_rtrancl)
qed

lemma demo_emit:
  "emit_item (CHR ''~'') (\<lambda>x. x) (Some ''a'') demo_record d = (if ''a'' \<in> lw_ids d then Some (LWrite ''a'' demo_line) else None)"
  by (simp add: emit_item_def demo_line_def format_record_def demo_record_def INFO_def)

definition demo_emitted :: "log_system \<Rightarrow> log_system" where
  "demo_emitted s = end_call 0 (LWrite ''a'' demo_line) (begin_call 0 (LWrite ''a'' demo_line) (\<lambda>d. d) s)"

lemma demo_emitted_run:
  assumes "ls_pending s 0 = None" "''a'' \<in> lw_ids (ls_dispatch s)"
  shows "(dstep (CHR ''~'') (\<lambda>x. x))\<^sup>*\<^sup>* s (demo_emitted s)"
proof -
  let ?R = "dstep (CHR ''~'') (\<lambda>x. x)"
  have 1: "?R s (begin_call 0 (LWrite ''a'' demo_line) (\<lambda>d. d) s)"
    by (rule d_emit [where current = "Some ''a''" and r = demo_record]) (use assms in \<open>simp_all add: demo_emit\<close>)
  have 2: "?R (begin_call 0 (LWrite ''a'' demo_line) (\<lambda>d. d) s) (demo_emitted s)"
    unfolding demo_emitted_def by (rule d_submit) (simp add: begin_call_def)
  show ?thesis by (rule rtranclp.rtrancl_into_rtrancl [OF r_into_rtranclp [of ?R, OF 1] 2])
qed

definition demo_written :: log_system where
  "demo_written =
     (let s = demo_emitted demo_opened in
      s\<lparr>ls_dispatch := apply_item good_io (LWrite ''a'' demo_line) ((ls_dispatch s)\<lparr>lw_queue := []\<rparr>)\<rparr>)"

lemma demo_written_run: "(dstep (CHR ''~'') (\<lambda>x. x))\<^sup>*\<^sup>* demo_start demo_written"
proof -
  let ?R = "dstep (CHR ''~'') (\<lambda>x. x)"
  have e: "?R\<^sup>*\<^sup>* demo_start (demo_emitted demo_opened)"
    by (rule rtranclp_trans [OF demo_opened_run demo_emitted_run]) (simp_all add: demo_opened_eq)
  have "?R (demo_emitted demo_opened) demo_written"
    unfolding demo_written_def Let_def
    by (rule d_apply [where s = "demo_emitted demo_opened" and item = "LWrite ''a'' demo_line" and q = "[]" and io = good_io])
       (simp_all add: demo_emitted_def demo_opened_eq new_dispatch_def end_call_def begin_call_def submit_def QUEUE_MAX_def)
  then show ?thesis by (rule rtranclp.rtrancl_into_rtrancl [OF e])
qed

lemma demo_written_objects:
  "lw_objects (ls_dispatch demo_written) = [\<lparr>lf_log_id = ''a'', lf_path = ''p'', lf_text = [demo_line], lf_synced = 0, lf_closed = False\<rparr>]"
  by (simp add: demo_written_def demo_emitted_def demo_opened_eq new_dispatch_def end_call_def begin_call_def submit_def
      QUEUE_MAX_def apply_item_def write_line_def good_io_def update_object_def Let_def)

lemma log_lines_routed_witness:
  "\<exists>(s :: log_system) f. f \<in> set (lw_objects (ls_dispatch s)) \<and> lf_text f = [demo_line] \<and> LOpen ''a'' ''p'' \<in> set (ls_submitted s)"
proof -
  let ?f = "\<lparr>lf_log_id = ''a'', lf_path = ''p'', lf_text = [demo_line], lf_synced = 0, lf_closed = False\<rparr>"
  have m: "?f \<in> set (lw_objects (ls_dispatch demo_written))" by (simp add: demo_written_objects)
  have n: "new_log_system demo_start" by (simp add: new_log_system_def demo_start_def)
  have "LOpen ''a'' ''p'' \<in> set (ls_submitted demo_written)"
    using log_lines_routed [OF n demo_written_run m] by simp
  moreover have "lf_text ?f = [demo_line]" by simp
  ultimately show ?thesis using m by blast
qed

subsection \<open>Stopping the writer\<close>

definition io_good :: "log_io \<Rightarrow> bool" where
  "io_good io \<longleftrightarrow> io_mkdir io \<and> io_open io \<and> io_write io \<and> (\<forall>h. io_flush io h)"

definition concerns :: "string \<Rightarrow> log_item \<Rightarrow> bool" where
  "concerns i item \<longleftrightarrow> item = LClose i \<or> (\<exists>path. item = LOpen i path)"

definition text_of :: "dispatch \<Rightarrow> nat \<Rightarrow> string list" where
  "text_of d h = lf_text (lw_objects d ! h)"

lemma update_object_text:
  "(\<And>g. lf_text (f g) = lf_text g) \<Longrightarrow> text_of (update_object k f d) h = text_of d h"
  by (cases "k = h"; cases "k < length (lw_objects d)") (simp_all add: text_of_def update_object_def list_update_beyond)

lemma flush_text [simp]: "text_of (flush_object io k d) h = text_of d h"
  by (simp add: flush_object_def update_object_text)

lemma close_text [simp]: "text_of (close_object io k d) h = text_of d h"
  by (simp add: close_object_def update_object_text)

lemma undirty_text [simp]: "text_of (undirty k d) h = text_of d h" "text_of (pop_file i d) h = text_of d h"
  by (simp_all add: text_of_def undirty_def pop_file_def)

lemma undirty_files [simp]: "lw_files (undirty k d) = lw_files d" "lw_files (pop_file i d) = dpop (lw_files d) i"
  "lw_objects (undirty k d) = lw_objects d" "lw_objects (pop_file i d) = lw_objects d"
  by (simp_all add: undirty_def pop_file_def)

lemma replace_previous_other:
  "text_of (replace_previous io j d) h = text_of d h" "length (lw_objects (replace_previous io j d)) = length (lw_objects d)"
  "i \<noteq> j \<Longrightarrow> dget (lw_files (replace_previous io j d)) i = dget (lw_files d) i"
  by (simp_all add: replace_previous_def split: option.split)

lemma write_line_files [simp]: "lw_files (write_line io k line d) = lw_files d"
  by (simp add: write_line_def Let_def)

lemma write_line_text:
  "io_write io \<Longrightarrow> k < length (lw_objects d) \<Longrightarrow>
   text_of (write_line io k line d) h = (if h = k then text_of d h @ [line] else text_of d h)"
  by (auto simp: write_line_def Let_def flush_object_def update_object_def text_of_def)

lemma apply_item_text:
  assumes ok: "objects_ok sub d" and good: "io_good io" and h: "dget (lw_files d) i = Some h" and c: "\<not> concerns i item"
  shows "dget (lw_files (apply_item io item d)) i = Some h \<and> text_of (apply_item io item d) h = text_of d h @ lines_for i [item]"
proof -
  have files: "k < length (lw_objects d) \<and> lf_log_id (lw_objects d ! k) = j" if "dget (lw_files d) j = Some k" for j k
    using ok that by (auto simp: objects_ok_def files_ok_def)
  show ?thesis
  proof (cases item)
    case (LWrite j line)
    show ?thesis
    proof (cases "dget (lw_files d) j")
      case (Some k)
      have "h = k \<longleftrightarrow> j = i" by (metis files h Some option.inject)
      then show ?thesis
        using LWrite Some files [OF Some] good h by (simp add: apply_item_def write_line_text io_good_def)
    qed (use LWrite h in \<open>auto simp: apply_item_def\<close>)
  next
    case (LOpen j path)
    then have "i \<noteq> j" using c by (auto simp: concerns_def)
    then show ?thesis
      using LOpen h good files [OF h]
      by (simp add: apply_item_def open_file_def Let_def io_good_def replace_previous_other replace_previous_other(1) [unfolded text_of_def]
          text_of_def nth_append)
  next
    case (LClose j)
    then have "i \<noteq> j" using c by (auto simp: concerns_def)
    then show ?thesis
      using LClose h by (simp add: apply_item_def close_file_def Let_def split: option.split)
  qed (simp add: apply_item_def h)
qed

lemma drain_text:
  assumes "queue_ok q sub" "objects_ok sub (d\<lparr>lw_queue := q\<rparr>)" and good: "io_good io"
    and "dget (lw_files d) i = Some h" "\<forall>item \<in> set q. \<not> concerns i item"
  shows "dget (lw_files (fold (apply_item io) q d)) i = Some h \<and>
    text_of (fold (apply_item io) q d) h = text_of d h @ lines_for i q"
  using assms
proof (induction q arbitrary: d)
  case (Cons item q)
  let ?d = "apply_item io item d"
  have next_ok: "objects_ok sub (?d\<lparr>lw_queue := q\<rparr>)"
    using apply_item_ok [OF Cons.prems(1,2), of io] unfolding apply_item_commutes by blast
  have "dget (lw_files (d\<lparr>lw_queue := item # q\<rparr>)) i = Some h" using Cons.prems by simp
  from apply_item_text [OF Cons.prems(2) good this, of item] Cons.prems
  have "dget (lw_files ?d) i = Some h" "text_of ?d h = text_of d h @ lines_for i [item]"
    unfolding apply_item_commutes by (simp_all add: text_of_def)
  with Cons.IH [OF queue_ok_tail [OF Cons.prems(1)] next_ok good] Cons.prems
  show ?case using lines_for_append [of i "[item]" q] by simp
qed simp

definition settled :: "nat \<Rightarrow> dispatch \<Rightarrow> bool" where
  "settled h d \<longleftrightarrow> lf_synced (lw_objects d ! h) = length (text_of d h) \<and> lf_closed (lw_objects d ! h)"

lemma close_settles:
  "(\<forall>k. io_flush io k) \<Longrightarrow> h < length (lw_objects d) \<Longrightarrow> settled h (close_object io h d)"
  by (simp add: settled_def close_object_def flush_object_def update_object_def text_of_def)

lemma settled_close: "(\<forall>k. io_flush io k) \<Longrightarrow> settled h d \<Longrightarrow> settled h (close_object io k d)"
  by (cases "k = h"; cases "k < length (lw_objects d)")
     (simp_all add: settled_def close_object_def flush_object_def update_object_def text_of_def list_update_beyond)

lemma fold_close_text: "text_of (fold (close_object io) ks d) h = text_of d h"
  by (induction ks arbitrary: d) simp_all

lemma fold_flush_text: "text_of (fold (flush_object io) ks d) h = text_of d h"
  by (induction ks arbitrary: d) simp_all

lemma fold_flush_frame:
  "lw_files (fold (flush_object io) ks d) = lw_files d \<and> length (lw_objects (fold (flush_object io) ks d)) = length (lw_objects d)"
  by (induction ks arbitrary: d) simp_all

lemma fold_close_length: "length (lw_objects (fold (close_object io) ks d)) = length (lw_objects d)"
  by (induction ks arbitrary: d) simp_all

lemma fold_close_settles:
  assumes "\<forall>k. io_flush io k" "h \<in> set ks \<or> settled h d" "h < length (lw_objects d)"
  shows "settled h (fold (close_object io) ks d)"
  using assms by (induction ks arbitrary: d) (auto simp: close_settles settled_close)

lemma flush_files_frame:
  "lw_files (flush_files io d) = lw_files d" "length (lw_objects (flush_files io d)) = length (lw_objects d)"
  "text_of (flush_files io d) h = text_of d h"
  using fold_flush_frame [of io "lw_dirty d" d] fold_flush_text [of io "lw_dirty d" d h]
  by (simp_all add: flush_files_def Let_def text_of_def)

lemma close_all_settles:
  assumes "\<forall>k. io_flush io k" "dget (lw_files d) i = Some h" "h < length (lw_objects d)"
  shows "settled h (close_all io d) \<and> text_of (close_all io d) h = text_of d h"
proof -
  let ?d = "flush_files io d"
  let ?c = "fold (close_object io) (map snd (lw_files ?d)) ?d"
  have "(i, h) \<in> set (lw_files ?d)" using assms(2) by (simp add: flush_files_frame map_of_SomeD)
  then have "h \<in> set (map snd (lw_files ?d))" by force
  then have "settled h ?c" using fold_close_settles [OF assms(1)] assms(3) by (simp add: flush_files_frame)
  then show ?thesis
    by (simp add: close_all_def Let_def settled_def text_of_def fold_close_text [unfolded text_of_def]
        flush_files_frame(3) [unfolded text_of_def])
qed

text \<open>
  stopping the writer loses nothing that was accepted: when the writer reaches the stop mark of a
  shutdown and the disk works, the file of every log id that is open and stays open ends with all its
  queued lines, in order and after the lines it had; everything in it is flushed and the file is closed,
  and the queue is empty.
\<close>

theorem stop_writes_everything:
  assumes "new_log_system s0" "(dstep ell redact)\<^sup>*\<^sup>* s0 s" and "io_good io"
    and "lw_queue (ls_dispatch s) = LStop # q" and "dget (lw_files (ls_dispatch s)) i = Some h"
    and "\<forall>item \<in> set q. \<not> concerns i item"
  shows "let d = stop_writer io ((ls_dispatch s)\<lparr>lw_queue := q\<rparr>); f = lw_objects d ! h in
    lf_text f = lf_text (lw_objects (ls_dispatch s) ! h) @ lines_for i q \<and>
    lf_synced f = length (lf_text f) \<and> lf_closed f \<and> lw_queue d = [] \<and> lw_files d = []"
proof -
  have inv: "log_inv s" by (rule logging.reach_inv [OF assms(1,2)])
  let ?e = "(ls_dispatch s)\<lparr>lw_queue := []\<rparr>" and ?d0 = "(ls_dispatch s)\<lparr>lw_queue := q\<rparr>"
  have q: "queue_ok q (ls_submitted s)"
    using inv queue_ok_tail assms(4) by (auto simp: log_inv_parts)
  have o: "objects_ok (ls_submitted s) ?d0"
    by (rule objects_ok_shorter [where item = LStop]) (use inv in \<open>simp add: log_inv_parts flip: assms(4)\<close>)
  have dr: "drain_items io ?d0 = fold (apply_item io) q ?e" by (simp add: drain_items_def)
  have h: "dget (lw_files (drain_items io ?d0)) i = Some h"
    "text_of (drain_items io ?d0) h = text_of (ls_dispatch s) h @ lines_for i q"
    using drain_text [OF q _ assms(3), of ?e i h] o assms(5,6) by (simp_all add: dr text_of_def)
  have dok: "objects_ok (ls_submitted s) (drain_items io ?d0)" using drain_ok [of ?d0] q o by simp
  then have "h < length (lw_objects (drain_items io ?d0))" using h(1) by (auto simp: objects_ok_def files_ok_def)
  from close_all_settles [OF _ h(1) this, of io] assms(3) h(2)
  have "settled h (close_all io (drain_items io ?d0))"
    "text_of (close_all io (drain_items io ?d0)) h = text_of (ls_dispatch s) h @ lines_for i q"
    by (simp_all add: io_good_def)
  moreover have "lw_queue (stop_writer io ?d0) = []" using stop_ok [of ?d0 _ io] q o by simp
  moreover have "lw_files (close_all io (drain_items io ?d0)) = []" by (simp add: close_all_def Let_def)
  ultimately show ?thesis by (simp add: Let_def stop_writer_def settled_def text_of_def)
qed

definition demo_stopping :: log_system where
  "demo_stopping = demo_emitted (demo_opened\<lparr>ls_dispatch := shutdown (ls_dispatch demo_opened)\<rparr>)"

lemma demo_stopping_run: "(dstep (CHR ''~'') (\<lambda>x. x))\<^sup>*\<^sup>* demo_start demo_stopping"
proof -
  have "(dstep (CHR ''~'') (\<lambda>x. x))\<^sup>*\<^sup>* demo_start (demo_opened\<lparr>ls_dispatch := shutdown (ls_dispatch demo_opened)\<rparr>)"
    by (rule rtranclp.rtrancl_into_rtrancl [OF demo_opened_run d_shutdown])
  then show ?thesis
    unfolding demo_stopping_def
    by (rule rtranclp_trans [OF _ demo_emitted_run]) (simp_all add: demo_opened_eq shutdown_def new_dispatch_def)
qed

lemma stop_writes_everything_witness:
  "\<exists>(d :: dispatch) f. lw_objects d = [f] \<and> lf_text f = [demo_line] \<and> lf_synced f = 1 \<and> lf_closed f"
proof -
  have eq: "lw_queue (ls_dispatch demo_stopping) = [LStop, LWrite ''a'' demo_line]" "lw_files (ls_dispatch demo_stopping) = [(''a'', 0)]"
    "lw_objects (ls_dispatch demo_stopping) = [\<lparr>lf_log_id = ''a'', lf_path = ''p'', lf_text = [], lf_synced = 0, lf_closed = False\<rparr>]"
    by (simp_all add: demo_stopping_def demo_emitted_def demo_opened_eq shutdown_def new_dispatch_def end_call_def begin_call_def
        submit_def QUEUE_MAX_def)
  let ?d = "stop_writer good_io ((ls_dispatch demo_stopping)\<lparr>lw_queue := [LWrite ''a'' demo_line]\<rparr>)"
  note P = stop_writes_everything [OF _ demo_stopping_run, where io = good_io and i = "''a''" and h = 0
      and q = "[LWrite ''a'' demo_line]"]
  have p: "lf_text (lw_objects ?d ! 0) = [demo_line] \<and> lf_synced (lw_objects ?d ! 0) = 1 \<and> lf_closed (lw_objects ?d ! 0)"
    using P by (simp add: eq new_log_system_def demo_start_def io_good_def good_io_def concerns_def Let_def)
  have "length (lw_objects ?d) = 1"
    by (simp add: stop_writer_def fold_close_length flush_files_frame close_all_def drain_items_def apply_item_def write_line_def good_io_def eq Let_def)
  then obtain f where "lw_objects ?d = [f]" by (metis One_nat_def length_0_conv length_Suc_conv)
  with p have "lw_objects ?d = [f] \<and> lf_text f = [demo_line] \<and> lf_synced f = 1 \<and> lf_closed f" by simp
  then show ?thesis by blast
qed

end
