(* ===== verification/Terminal.thy ===== *)
theory Terminal
  imports Sandbox PyLines
begin

text \<open>
  The Terminal-Bench task, \<open>tasks/terminal_bench\<close>: the verifier with its reward files
  (\<open>reward.py\<close>), the sandbox configuration of a task and the life cycle around the agent
  (\<open>task.py\<close>).
\<close>

text \<open>
  What the task takes from Python and the process: the text of a float, \<open>%g\<close>, \<open>float(s)\<close>,
  \<open>json.loads\<close>, decoding UTF-8 with replacement, the environment and the clock.
\<close>

record 's tb_env =
  te_fr :: "rat \<Rightarrow> string"
  te_fg :: "rat \<Rightarrow> string"
  te_fparse :: "string \<Rightarrow> rat option"
  te_jparse :: "string \<Rightarrow> string + pv"
  te_decode :: "byte list \<Rightarrow> string"
  te_getenv :: "string \<Rightarrow> string option"
  te_clock :: "'s \<Rightarrow> rat"

subsection \<open>Fields of the data set\<close>

definition parse_json_mapping :: "'s tb_env \<Rightarrow> string \<Rightarrow> pv \<Rightarrow> dict result" where
  "parse_json_mapping env field raw =
     (if raw = PNone \<or> raw = PStr [] then Inr []
      else
        rbind (case raw of PStr s \<Rightarrow> (case te_jparse env s of Inl m \<Rightarrow> Inl (ValueError m) | Inr v \<Rightarrow> Inr v) | v \<Rightarrow> Inr v)
          (\<lambda>v. case v of PDict d \<Rightarrow> Inr d | _ \<Rightarrow> Inl (ValueError (field @ '' must contain a JSON object''))))"

text \<open>
  \<open>_ENV_REFERENCE_RE.fullmatch\<close>: the name ends at the first colon or brace, which has to be the closing
  brace of the text or the start of a default on one line.
\<close>

definition env_reference :: "string \<Rightarrow> (string \<times> string option) option" where
  "env_reference s =
     (if \<not> startswith s ''${'' then None
      else
        (let r = drop 2 s; stop = (\<lambda>c. c = CHR ''}'' \<or> c = CHR '':'');
             name = takeWhile (\<lambda>c. \<not> stop c) r; rest = dropWhile (\<lambda>c. \<not> stop c) r in
         if name = [] then None
         else if rest = ''}'' then Some (name, None)
         else if startswith rest '':-'' \<and> 3 \<le> length rest \<and> last rest = CHR ''}'' \<and> lf \<notin> set (butlast (drop 2 rest))
         then Some (name, Some (butlast (drop 2 rest)))
         else None))"

definition resolve_env_value :: "(string \<Rightarrow> string option) \<Rightarrow> string \<Rightarrow> string result" where
  "resolve_env_value getenv t =
     (case env_reference t of
        None \<Rightarrow> Inr t
      | Some (name, dflt) \<Rightarrow>
          (case getenv name of
             Some v \<Rightarrow> Inr v
           | None \<Rightarrow>
               (case dflt of
                  Some v \<Rightarrow> Inr v
                | None \<Rightarrow> Inl (ValueError (''required environment variable '' @ repr_str name @ '' is not set'')))))"

definition resolve_env_mapping :: "'s tb_env \<Rightarrow> dict \<Rightarrow> env_vars result" where
  "resolve_env_mapping env values =
     rmap (\<lambda>(k, v). rbind (resolve_env_value (te_getenv env) (py_str (te_fr env) v)) (\<lambda>t. Inr (k, t))) values"

subsection \<open>Archives\<close>

text \<open>\<open>base64.b64decode(..., validate=True)\<close>.\<close>

definition b64decode_strict :: "string \<Rightarrow> byte list result" where
  "b64decode_strict s =
     (if length s mod 4 = 0 \<and> dropWhile (\<lambda>c. b64_val c \<noteq> None) s \<in> {[], ''='', ''==''} then b64decode s
      else Inl (OtherException ''binascii.Error'' ''Only base64 data is allowed''))"

definition extract_command :: "string \<Rightarrow> string \<Rightarrow> string" where
  "extract_command archive target_dir =
     ''rm -rf -- '' @ shlex_quote target_dir @ '' && mkdir -p '' @ shlex_quote target_dir @
     '' && tar --no-same-owner -xzf '' @ shlex_quote archive @ '' -C '' @ shlex_quote target_dir"

definition ARCHIVE_PATH :: string where "ARCHIVE_PATH = ''/tmp/uni-agent-task-archive.tar.gz''"

definition decode_archive :: "string \<Rightarrow> pv \<Rightarrow> byte list result" where
  "decode_archive target_dir encoded =
     (if \<not> truthy encoded then Inl (ValueError (''Terminal-Bench archive for '' @ target_dir @ '' is empty''))
      else
        (let invalid = ValueError (''Terminal-Bench archive for '' @ target_dir @ '' is invalid'') in
         case encoded of
           PStr s \<Rightarrow> (case b64decode_strict s of Inl _ \<Rightarrow> Inl invalid | Inr bs \<Rightarrow> Inr bs)
         | _ \<Rightarrow> Inl invalid))"

definition install_archive :: "'s tb_env \<Rightarrow> 's provider \<Rightarrow> pv \<Rightarrow> string \<Rightarrow> 's \<Rightarrow> 's \<times> unit result" where
  "install_archive env p encoded target_dir s =
     shell_bind (s, decode_archive target_dir encoded) (\<lambda>bs s1.
     shell_bind (write_file (te_fr env) p ARCHIVE_PATH (Bytes bs) s1) (\<lambda>_ s2.
     removing (te_fr env) p ARCHIVE_PATH
       (\<lambda>s3. shell_bind (exec_shell (te_fr env) p (extract_command ARCHIVE_PATH target_dir) no_options s3) (\<lambda>r s4.
          (s4, if xr_exit_code r = 0 then Inr ()
               else Inl (RuntimeError (''failed to install archive into '' @ target_dir @ '': '' @
                      last_chars 2000 (strip (if xr_stderr r \<noteq> [] then xr_stderr r
                        else if xr_stdout r \<noteq> [] then xr_stdout r else ''unknown extraction error'')))))))
       s2))"

subsection \<open>Rewards\<close>

text \<open>A file that may be missing, read as text.\<close>

definition read_optional_text :: "'s tb_env \<Rightarrow> 's provider \<Rightarrow> string \<Rightarrow> 's \<Rightarrow> 's \<times> string option result" where
  "read_optional_text env p path s =
     shell_bind (sandbox_exec (te_fr env) p [''test'', ''-f'', path] no_options s) (\<lambda>r s1.
     if xr_exit_code r \<noteq> 0 then (s1, Inr None)
     else shell_bind (read_file (te_fr env) p path s1) (\<lambda>bs s2. (s2, Inr (Some (te_decode env bs)))))"

definition parse_reward_json :: "'s tb_env \<Rightarrow> string \<Rightarrow> (string \<times> rat) list result" where
  "parse_reward_json env t =
     (case te_jparse env t of
        Inl m \<Rightarrow> Inl (ValueError (''invalid /logs/verifier/reward.json: '' @ m))
      | Inr (PDict (kv # d)) \<Rightarrow>
          (case rmap (\<lambda>(k, v). rbind (py_float (te_fparse env) v) (\<lambda>r. Inr (k, r))) (kv # d) of
             Inl _ \<Rightarrow> Inl (ValueError ''/logs/verifier/reward.json values must be numeric'')
           | Inr rewards \<Rightarrow> Inr rewards)
      | Inr _ \<Rightarrow> Inl (ValueError ''/logs/verifier/reward.json must be a non-empty object''))"

definition parse_reward_text :: "'s tb_env \<Rightarrow> string \<Rightarrow> (string \<times> rat) list result" where
  "parse_reward_text env t =
     (if strip t = [] then Inl (ValueError ''/logs/verifier/reward.txt is empty'')
      else case te_fparse env (strip t) of
        None \<Rightarrow> Inl (ValueError (''invalid /logs/verifier/reward.txt value: '' @ repr_str (strip t)))
      | Some r \<Rightarrow> Inr [(''reward'', r)])"

definition primary_reward :: "(string \<times> rat) list \<Rightarrow> rat result" where
  "primary_reward rewards =
     (case dget rewards ''reward'' of
        Some r \<Rightarrow> Inr r
      | None \<Rightarrow>
          (case rewards of
             [(_, r)] \<Rightarrow> Inr r
           | _ \<Rightarrow> Inl (ValueError (''reward.json has multiple metrics but no primary '' @ repr_str ''reward'' @ '' key''))))"

definition parse_reward_files :: "'s tb_env \<Rightarrow> string option \<Rightarrow> string option \<Rightarrow> (rat \<times> (string \<times> rat) list) result" where
  "parse_reward_files env reward_json reward_text =
     rbind (case reward_json of
              Some t \<Rightarrow> parse_reward_json env t
            | None \<Rightarrow>
                (case reward_text of
                   Some t \<Rightarrow> parse_reward_text env t
                 | None \<Rightarrow> Inl (ValueError ''verifier produced neither reward.json nor reward.txt'')))
       (\<lambda>rewards. rbind (primary_reward rewards) (\<lambda>r. Inr (r, rewards)))"

record tb_result =
  tr_score :: rat
  tr_resolved :: bool
  tr_completed :: bool
  tr_time :: rat
  tr_exit_code :: int
  tr_output_tail :: string
  tr_stderr_tail :: string
  tr_rewards :: "(string \<times> rat) list option"
  tr_error :: "string option"

definition tb_outcome ::
  "'s tb_env \<Rightarrow> rat \<Rightarrow> rat \<Rightarrow> exec_result \<Rightarrow> string \<Rightarrow> string option \<Rightarrow> string option \<Rightarrow> tb_result" where
  "tb_outcome env timeout elapsed r output reward_json reward_text =
     (let (score, rewards, err) =
            (if xr_exit_code r = -1 then (0, None, Some (''verifier timed out after '' @ te_fg env timeout @ ''s''))
             else case parse_reward_files env reward_json reward_text of
               Inr (score, rewards) \<Rightarrow> (score, Some rewards, None)
             | Inl e \<Rightarrow> (0, None, Some (exn_str e))) in
      \<lparr>tr_score = score, tr_resolved = (err = None \<and> score = 1), tr_completed = (err = None), tr_time = elapsed,
       tr_exit_code = xr_exit_code r, tr_output_tail = last_chars 12000 output, tr_stderr_tail = last_chars 2000 (xr_stderr r),
       tr_rewards = rewards, tr_error = err\<rparr>)"

definition RESET_COMMAND :: string where
  "RESET_COMMAND = ''rm -rf -- /logs/verifier && mkdir -p /logs/verifier && chmod 777 /logs/verifier''"

definition VERIFY_COMMAND :: string where
  "VERIFY_COMMAND = ''(/tests/test.sh) > /logs/verifier/test-stdout.txt 2>&1''"

definition REWARD_JSON :: string where "REWARD_JSON = ''/logs/verifier/reward.json''"
definition REWARD_TXT :: string where "REWARD_TXT = ''/logs/verifier/reward.txt''"

text \<open>A command that must succeed; \<open>what\<close> starts the message.\<close>

definition must_succeed :: "string \<Rightarrow> 's \<times> exec_result result \<Rightarrow> 's \<times> unit result" where
  "must_succeed what x =
     shell_bind x (\<lambda>r s. (s, if xr_exit_code r \<noteq> 0 then Inl (RuntimeError (what @ '': '' @ strip (xr_stderr r))) else Inr ()))"

definition read_rewards ::
  "'s tb_env \<Rightarrow> 's provider \<Rightarrow> rat \<Rightarrow> rat \<Rightarrow> exec_result \<Rightarrow> 's \<Rightarrow> 's \<times> tb_result result" where
  "read_rewards env p timeout elapsed r s =
     shell_bind (read_optional_text env p ''/logs/verifier/test-stdout.txt'' s) (\<lambda>output s1.
     shell_bind (read_optional_text env p REWARD_JSON s1) (\<lambda>reward_json s2.
     shell_bind (read_optional_text env p REWARD_TXT s2) (\<lambda>reward_text s3.
     (s3, Inr (tb_outcome env timeout elapsed r (case output of None \<Rightarrow> [] | Some t \<Rightarrow> t) reward_json reward_text)))))"

text \<open>From the reset of the verifier's directory to the outcome.\<close>

definition tb_verify :: "'s tb_env \<Rightarrow> 's provider \<Rightarrow> dict \<Rightarrow> string \<Rightarrow> rat \<Rightarrow> 's \<Rightarrow> 's \<times> tb_result result" where
  "tb_verify env p metadata instance_id timeout s1 =
     shell_bind (must_succeed (''failed to prepare verifier directories for '' @ instance_id)
                   (exec_shell (te_fr env) p RESET_COMMAND no_options s1)) (\<lambda>_ s2.
     shell_bind (s2, dict_item metadata ''tests_archive'') (\<lambda>archive s3.
     shell_bind (install_archive env p archive ''/tests'' s3) (\<lambda>_ s4.
     shell_bind (must_succeed (''failed to make verifier executable for '' @ instance_id)
                   (sandbox_exec (te_fr env) p [''chmod'', ''+x'', ''/tests/test.sh''] no_options s4)) (\<lambda>_ s5.
     shell_bind (s5, rbind (dict_item metadata ''verifier_env_json'') (\<lambda>raw.
                     rbind (parse_json_mapping env ''verifier_env_json'' raw) (resolve_env_mapping env))) (\<lambda>vars s6.
     shell_bind (exec_shell (te_fr env) p VERIFY_COMMAND
                   (no_options\<lparr>xo_timeout := Some timeout, xo_env := (if vars = [] then None else Some vars)\<rparr>) s6) (\<lambda>r s7.
     read_rewards env p timeout (te_clock env s7 - te_clock env s6) r s7))))))"

definition tb_compute_reward :: "'s tb_env \<Rightarrow> 's provider \<Rightarrow> dict \<Rightarrow> 's \<Rightarrow> 's \<times> tb_result result" where
  "tb_compute_reward env p metadata s =
     (case rbind (dict_item metadata ''instance_id'') (\<lambda>i.
           rbind (dict_item metadata ''verifier_timeout'') (\<lambda>t.
           rbind (py_float (te_fparse env) t) (\<lambda>t. Inr (py_str (te_fr env) i, t)))) of
        Inl e \<Rightarrow> (s, Inl e)
      | Inr (instance_id, timeout) \<Rightarrow> tb_verify env p metadata instance_id timeout s)"

subsection \<open>The sandbox of a task\<close>

record sandbox_config =
  sx_provider :: string
  sx_runtime_timeout :: rat
  sx_image :: string
  sx_kwargs :: dict

text \<open>\<open>list(v)\<close>, and \<open>d.setdefault(k, v)\<close>.\<close>

definition py_list :: "pv \<Rightarrow> pv list result" where
  "py_list v =
     (case v of
        PList vs \<Rightarrow> Inr vs
      | PStr s \<Rightarrow> Inr (map (\<lambda>c. PStr [c]) s)
      | PDict d \<Rightarrow> Inr (map (\<lambda>(k, _). PStr k) d)
      | _ \<Rightarrow> Inl (TypeError (repr_str (type_name v) @ '' object is not iterable'')))"

definition setdefault :: "string \<Rightarrow> pv \<Rightarrow> dict \<Rightarrow> dict" where
  "setdefault k v d = (if dhas d k then d else dset d k v)"

text \<open>\<open>v or w\<close>.\<close>

definition pv_or :: "pv \<Rightarrow> pv \<Rightarrow> pv" where
  "pv_or v w = (if truthy v then v else w)"

definition option_args :: "string \<Rightarrow> string \<Rightarrow> pv list" where
  "option_args a b = [PStr a, PStr b]"

text \<open>The resources a task asks for.\<close>

record tb_resources =
  tb_workdir :: pv
  tb_cpus :: pv
  tb_memory_mb :: pv
  tb_gpus :: int
  tb_gpu_types :: pv
  tb_allow_internet :: bool

definition tb_resources_of :: "dict \<Rightarrow> tb_resources result" where
  "tb_resources_of environment =
     rbind (py_int (pv_or (get_none environment ''gpus'') (PInt 0))) (\<lambda>gpus.
       Inr \<lparr>tb_workdir = get_none environment ''workdir'', tb_cpus = get_none environment ''cpus'',
            tb_memory_mb = get_none environment ''memory_mb'', tb_gpus = gpus,
            tb_gpu_types = pv_or (get_none environment ''gpu_types'') (PList []),
            tb_allow_internet = truthy (dget_or environment ''allow_internet'' (PBool True))\<rparr>)"

definition docker_run_args :: "'s tb_env \<Rightarrow> tb_resources \<Rightarrow> env_vars \<Rightarrow> pv list \<Rightarrow> pv list result" where
  "docker_run_args env q vars run_args =
     rbind (if tb_cpus q = PNone then Inr []
            else rbind (py_float (te_fparse env) (tb_cpus q)) (\<lambda>r. Inr (option_args ''--cpus'' (te_fg env r)))) (\<lambda>cpus.
     rbind (if tb_memory_mb q = PNone then Inr []
            else rbind (py_int (tb_memory_mb q)) (\<lambda>i. Inr (option_args ''--memory'' (str_of_int i @ ''m'')))) (\<lambda>memory.
     Inr (run_args @ option_args ''--platform'' ''linux/amd64'' @
          (if truthy (tb_workdir q) then option_args ''--workdir'' (py_str (te_fr env) (tb_workdir q)) else []) @
          cpus @ memory @
          (if tb_gpus q > 0 then option_args ''--gpus'' (str_of_int (tb_gpus q)) else []) @
          (if \<not> tb_allow_internet q then option_args ''--network'' ''none'' else []) @
          concat (map (\<lambda>(k, v). option_args ''--env'' (k @ ''='' @ v)) (sort_key id vars)))))"

definition gpu_type :: "(rat \<Rightarrow> string) \<Rightarrow> pv \<Rightarrow> string result" where
  "gpu_type fr types =
     (case types of
        PList [] \<Rightarrow> Inr ''any''
      | PList (v # _) \<Rightarrow> Inr (py_str fr v)
      | PStr (c # _) \<Rightarrow> Inr [c]
      | PDict _ \<Rightarrow> Inl (KeyError ''0'')
      | v \<Rightarrow> Inl (TypeError (repr_str (type_name v) @ '' object is not subscriptable'')))"

definition modal_kwargs :: "'s tb_env \<Rightarrow> tb_resources \<Rightarrow> env_vars \<Rightarrow> dict \<Rightarrow> dict result" where
  "modal_kwargs env q vars k0 =
     rbind (if tb_cpus q = PNone then Inr id
            else rbind (py_float (te_fparse env) (tb_cpus q)) (\<lambda>r. Inr (setdefault ''cpu'' (PFloat r)))) (\<lambda>cpu.
     rbind (if tb_memory_mb q = PNone then Inr id
            else rbind (py_int (tb_memory_mb q)) (\<lambda>i. Inr (setdefault ''memory'' (PInt i)))) (\<lambda>memory.
     rbind (if tb_gpus q > 0
            then rbind (gpu_type (te_fr env) (tb_gpu_types q)) (\<lambda>t. Inr (setdefault ''gpu'' (PStr (t @ '':'' @ str_of_int (tb_gpus q)))))
            else Inr id) (\<lambda>gpu.
     (let k1 = (if truthy (tb_workdir q) then setdefault ''workdir'' (PStr (py_str (te_fr env) (tb_workdir q))) k0 else k0);
          k2 = setdefault ''block_network'' (PBool (\<not> tb_allow_internet q)) (gpu (memory (cpu k1))) in
      rbind (py_dict (dget_or k2 ''env'' (PDict []))) (\<lambda>e.
      Inr (dset k2 ''env'' (PDict (dupdate e (map (\<lambda>(k, v). (k, PStr v)) vars)))))))))"

definition tb_sandbox_config :: "'s tb_env \<Rightarrow> sandbox_config \<Rightarrow> dict \<Rightarrow> sandbox_config result" where
  "tb_sandbox_config env c metadata =
     rbind (parse_json_mapping env ''environment_json'' (get_none metadata ''environment_json'')) (\<lambda>environment.
     rbind (rbind (need_dict ''items'' (dget_or environment ''env'' (PDict []))) (resolve_env_mapping env)) (\<lambda>vars.
     rbind (tb_resources_of environment) (\<lambda>q.
     if sx_provider c = ''docker''
     then rbind (py_list (dget_or (sx_kwargs c) ''run_args'' (PList []))) (\<lambda>args.
          rbind (docker_run_args env q vars args) (\<lambda>args'.
          Inr (c\<lparr>sx_kwargs := dset (sx_kwargs c) ''run_args'' (PList args')\<rparr>)))
     else if sx_provider c = ''modal''
     then rbind (modal_kwargs env q vars (sx_kwargs c)) (\<lambda>k. Inr (c\<lparr>sx_kwargs := k\<rparr>))
     else Inl (ValueError (''Terminal-Bench supports sandbox providers '' @ repr_str ''docker'' @ '' and '' @ repr_str ''modal'' @
            '', got '' @ repr_str (sx_provider c))))))"

subsection \<open>The task\<close>

definition opt_message :: "string option \<Rightarrow> pv" where
  "opt_message m = (case m of None \<Rightarrow> PNone | Some t \<Rightarrow> PStr t)"

definition run_oracle :: "'s tb_env \<Rightarrow> 's provider \<Rightarrow> dict \<Rightarrow> rat \<Rightarrow> 's \<Rightarrow> 's \<times> (dict \<times> bool) result" where
  "run_oracle env p metadata timeout s =
     shell_bind (s, dict_item metadata ''solution_archive'') (\<lambda>archive s1.
     shell_bind (install_archive env p archive ''/solution'' s1) (\<lambda>_ s2.
     shell_bind (must_succeed ''failed to make Terminal-Bench oracle executable''
                   (sandbox_exec (te_fr env) p [''chmod'', ''+x'', ''/solution/solve.sh''] no_options s2)) (\<lambda>_ s3.
     shell_bind (s3, rbind (parse_json_mapping env ''solution_env_json'' (get_none metadata ''solution_env_json''))
                        (resolve_env_mapping env)) (\<lambda>vars s4.
     shell_bind (exec_shell (te_fr env) p ''(/solution/solve.sh) > /logs/agent/oracle.txt 2>&1''
                   (no_options\<lparr>xo_timeout := Some timeout,
                      xo_env := Some (if dhas vars ''DEBIAN_FRONTEND'' then vars
                                      else dset vars ''DEBIAN_FRONTEND'' ''noninteractive'')\<rparr>) s4) (\<lambda>r s5.
     (s5, Inr ([(''mode'', PStr ''oracle''), (''exit_code'', PInt (xr_exit_code r)),
                (''timed_out'', PBool (xr_exit_code r = -1)),
                (''error'', if xr_exit_code r = 0 then PNone else PStr (last_chars 2000 (strip (xr_stderr r))))],
               xr_exit_code r = 0)))))))"

definition agent_note :: "bool \<Rightarrow> string option \<Rightarrow> dict" where
  "agent_note timed_out err = [(''mode'', PStr ''agent''), (''timed_out'', PBool timed_out), (''error'', opt_message err)]"

text \<open>\<open>agent\<close> is the agent's run under \<open>wait_for\<close>, which raises \<open>TimeoutError\<close> at the limit.\<close>

definition run_agent ::
  "'s tb_env \<Rightarrow> (rat \<Rightarrow> 's \<Rightarrow> 's \<times> agent_reply result) \<Rightarrow> rat \<Rightarrow> 's \<Rightarrow> 's \<times> (dict \<times> bool option) result" where
  "run_agent env agent timeout s =
     (case agent timeout s of
        (s1, Inr a) \<Rightarrow> (s1, Inr (dupdate (agent_note False None) (ap_info a), ap_finished a))
      | (s1, Inl e) \<Rightarrow>
          if \<not> is_exception e then (s1, Inl e)
          else if base_is_timeout_error e
          then (s1, Inr (agent_note True (Some (''agent exceeded '' @ te_fg env timeout @ ''s'')), Some False))
          else (s1, Inr (agent_note False (Some (exn_class e @ '': '' @ exn_str e)), Some False)))"

definition PREPARE_COMMAND :: string where
  "PREPARE_COMMAND = ''mkdir -p /logs/agent /logs/verifier /logs/artifacts && '' @
     ''chmod 777 /logs/agent /logs/verifier /logs/artifacts''"

definition solve_and_score ::
  "'s tb_env \<Rightarrow> 's provider \<Rightarrow> bool \<Rightarrow> (rat \<Rightarrow> 's \<Rightarrow> 's \<times> agent_reply result) \<Rightarrow> dict \<Rightarrow> rat \<Rightarrow> 's \<Rightarrow>
     's \<times> (tb_result \<times> dict \<times> bool option) result" where
  "solve_and_score env p oracle agent metadata agent_timeout s =
     shell_bind (must_succeed ''failed to prepare Terminal-Bench log directories''
                   (exec_shell (te_fr env) p PREPARE_COMMAND no_options s)) (\<lambda>_ s1.
     shell_bind (if oracle
                 then shell_bind (run_oracle env p metadata agent_timeout s1) (\<lambda>(info, ok) s2. (s2, Inr (info, Some ok)))
                 else run_agent env agent agent_timeout s1) (\<lambda>(info, finished) s3.
     shell_bind (tb_compute_reward env p metadata s3) (\<lambda>res s4. (s4, Inr (res, info, finished)))))"

definition rewards_pv :: "(string \<times> rat) list option \<Rightarrow> pv" where
  "rewards_pv r = (case r of None \<Rightarrow> PNone | Some rs \<Rightarrow> PDict (map (\<lambda>(k, v). (k, PFloat v)) rs))"

definition tb_extra_info :: "tb_result \<Rightarrow> dict \<Rightarrow> dict" where
  "tb_extra_info r info =
     [(''reward'', PFloat (tr_score r)), (''resolved'', PBool (tr_resolved r)), (''eval_completed'', PBool (tr_completed r)),
      (''eval_execution_time'', PFloat (tr_time r)),
      (''eval_report'', PDict [(''test_exit_code'', PInt (tr_exit_code r)), (''test_output_tail'', PStr (tr_output_tail r)),
         (''stderr_tail'', PStr (tr_stderr_tail r)), (''rewards'', rewards_pv (tr_rewards r)), (''error'', opt_message (tr_error r))]),
      (''agent'', PDict info)]"

text \<open>\<open>build\<close> is \<open>build_sandbox\<close>.\<close>

definition tb_run ::
  "'s tb_env \<Rightarrow> rat \<Rightarrow> (sandbox_config \<Rightarrow> 's provider result) \<Rightarrow> sandbox_config \<Rightarrow> bool \<Rightarrow> (rat \<Rightarrow> 's \<Rightarrow> 's \<times> agent_reply result) \<Rightarrow>
     dict \<Rightarrow> 's \<Rightarrow> 's \<times> task_result result" where
  "tb_run env start_timeout build c oracle agent metadata s =
     shell_bind (s, rbind (dict_item metadata ''instance_id'') (\<lambda>_.
                    rbind (dict_item metadata ''dataset_version'') (\<lambda>_.
                    rbind (rbind (dict_item metadata ''agent_timeout'') (py_float (te_fparse env))) (\<lambda>agent_timeout.
                    rbind (rbind (dict_item metadata ''verifier_timeout'') (py_float (te_fparse env))) (\<lambda>_.
                    rbind (tb_sandbox_config env c metadata) (\<lambda>c'.
                    rbind (build c') (\<lambda>p. Inr (agent_timeout, p)))))))) (\<lambda>(agent_timeout, p) s1.
     shell_bind (sandbox_entered (te_fr env) start_timeout p 3 (solve_and_score env p oracle agent metadata agent_timeout) s1)
       (\<lambda>(r, info, finished) s2.
          (s2, Inr \<lparr>ts_reward = PFloat (tr_score r), ts_accuracy = PFloat (tr_score r),
                  ts_finished = (case finished of None \<Rightarrow> PNone | Some b \<Rightarrow> PBool b),
                  ts_extra_info = PDict (tb_extra_info r info)\<rparr>)))"

end
