(* ===== verification/TerminalProps.thy ===== *)
theory TerminalProps
  imports Terminal
begin

text \<open>
  Terminal-Bench: a reward counts only when the verifier wrote it after the agent was gone, and an agent
  that fails is scored all the same.
\<close>

subsection \<open>Sequences of calls\<close>

lemma shell_bind_case:
  "shell_bind x f = (s', Inr v) \<longleftrightarrow> (\<exists>s1 u. x = (s1, Inr u) \<and> f u s1 = (s', Inr v))"
  by (auto simp: shell_bind_def split: prod.splits sum.splits)

lemma must_succeed_Inr: "must_succeed what x = (s, Inr u) \<longleftrightarrow> (\<exists>r. x = (s, Inr r) \<and> xr_exit_code r = 0)"
  by (auto simp: must_succeed_def shell_bind_case split: if_splits)

text \<open>A property of the world that holds whenever a call is made still holds when the sequence ends.\<close>

lemma shell_bind_keeps:
  assumes "Q (fst x)" "\<And>v s1. Q s1 \<Longrightarrow> Q (fst (f v s1))"
  shows "Q (fst (shell_bind x f))"
  using assms by (cases x) (auto simp: shell_bind_def split: sum.splits)

lemma removing_keeps:
  assumes "\<And>s. Q s \<Longrightarrow> Q (fst (body s))" "\<And>s. Q s \<Longrightarrow> Q (fst (sandbox_exec fr p [''rm'', ''-f'', a] no_options s))" "Q s"
  shows "Q (fst (removing fr p a body s))"
proof -
  obtain s1 r where b: "body s = (s1, r)" by (cases "body s")
  obtain s2 r2 where e: "sandbox_exec fr p [''rm'', ''-f'', a] no_options s1 = (s2, r2)" by (cases "sandbox_exec fr p [''rm'', ''-f'', a] no_options s1")
  have "Q s1" using assms(1,3) b by (metis fst_conv)
  then have "Q s2" using assms(2) e by (metis fst_conv)
  then show ?thesis by (cases r2) (simp_all add: removing_def b e)
qed

subsection \<open>The outcome of a verifier\<close>

lemma primary_reward_cases:
  "primary_reward rewards = Inr r \<Longrightarrow> dget rewards ''reward'' = Some r \<or> (\<exists>k. rewards = [(k, r)])"
  by (auto simp: primary_reward_def split: option.splits list.splits)

lemma tb_outcome_sound:
  "let x = tb_outcome env timeout elapsed r output j t in
     (tr_completed x \<longleftrightarrow> tr_error x = None) \<and> (tr_resolved x \<longleftrightarrow> tr_completed x \<and> tr_score x = 1) \<and>
     (if tr_completed x
      then xr_exit_code r \<noteq> -1 \<and> (\<exists>rewards. tr_rewards x = Some rewards \<and> parse_reward_files env j t = Inr (tr_score x, rewards))
      else tr_score x = 0 \<and> tr_rewards x = None)"
  by (auto simp: tb_outcome_def Let_def split: sum.splits prod.splits)

text \<open>
  The operations of the sandbox that the verification uses, between the reset and the reading of the
  rewards, on a world in which \<open>no_reward\<close> says that neither reward file exists: the reset removes
  them, the installation of the tests, the removal of the archive and the preparation do not write
  them, and \<open>test -f\<close> tells that they are missing.
\<close>

definition verifier_world :: "('s \<Rightarrow> bool) \<Rightarrow> 's tb_env \<Rightarrow> 's provider \<Rightarrow> bool" where
  "verifier_world no_reward env p \<longleftrightarrow>
     (\<forall>s s1 r. exec_shell (te_fr env) p RESET_COMMAND no_options s = (s1, Inr r) \<longrightarrow> xr_exit_code r = 0 \<longrightarrow> no_reward s1) \<and>
     (\<forall>s. no_reward s \<longrightarrow>
        (\<forall>bs. no_reward (fst (write_file (te_fr env) p ARCHIVE_PATH (Bytes bs) s))) \<and>
        no_reward (fst (exec_shell (te_fr env) p (extract_command ARCHIVE_PATH ''/tests'') no_options s)) \<and>
        no_reward (fst (sandbox_exec (te_fr env) p [''rm'', ''-f'', ARCHIVE_PATH] no_options s)) \<and>
        no_reward (fst (sandbox_exec (te_fr env) p [''chmod'', ''+x'', ''/tests/test.sh''] no_options s)) \<and>
        (\<forall>path. no_reward (fst (sandbox_exec (te_fr env) p [''test'', ''-f'', path] no_options s)) \<and>
           no_reward (fst (read_file (te_fr env) p path s))) \<and>
        (\<forall>s1 r. sandbox_exec (te_fr env) p [''test'', ''-f'', REWARD_JSON] no_options s = (s1, Inr r) \<longrightarrow> xr_exit_code r \<noteq> 0) \<and>
        (\<forall>s1 r. sandbox_exec (te_fr env) p [''test'', ''-f'', REWARD_TXT] no_options s = (s1, Inr r) \<longrightarrow> xr_exit_code r \<noteq> 0))"

lemmas verifier_worldD = verifier_world_def [THEN iffD1, THEN conjunct2, rule_format]

lemma install_keeps:
  assumes w: "verifier_world no_reward env p" and s: "no_reward s"
  shows "no_reward (fst (install_archive env p a ''/tests'' s))"
proof -
  note W = verifier_worldD [OF w]
  have body: "no_reward (fst (shell_bind (exec_shell (te_fr env) p (extract_command ARCHIVE_PATH ''/tests'') no_options s3)
       (\<lambda>r s4. (s4, f r))))" if "no_reward s3" for s3 f
    by (rule shell_bind_keeps) (use W that in auto)
  show ?thesis unfolding install_archive_def
    by (rule shell_bind_keeps, use s in simp, rule shell_bind_keeps, use W in simp, rule removing_keeps)
       (use W body in auto)
qed

lemma read_missing:
  assumes w: "verifier_world no_reward env p" and s: "no_reward s" and path: "path \<in> {REWARD_JSON, REWARD_TXT}"
    and r: "read_optional_text env p path s = (s', Inr x)"
  shows "x = None \<and> no_reward s'"
proof -
  obtain res where t: "sandbox_exec (te_fr env) p [''test'', ''-f'', path] no_options s = (s', Inr res)" and n: "xr_exit_code res \<noteq> 0"
    and "x = None"
    using r path verifier_worldD [OF w s] by (auto simp: read_optional_text_def shell_bind_case split: if_splits)
  moreover have "no_reward s'" using verifier_worldD [OF w s] t by (metis fst_conv)
  ultimately show ?thesis by blast
qed

lemma read_output_keeps:
  assumes w: "verifier_world no_reward env p" and s: "no_reward s"
  shows "no_reward (fst (read_optional_text env p path s))"
proof -
  obtain s1 r where t: "sandbox_exec (te_fr env) p [''test'', ''-f'', path] no_options s = (s1, r)"
    by (cases "sandbox_exec (te_fr env) p [''test'', ''-f'', path] no_options s")
  obtain s2 b where f: "read_file (te_fr env) p path s1 = (s2, b)" by (cases "read_file (te_fr env) p path s1")
  have s1: "no_reward s1" using verifier_worldD [OF w s] t by (metis fst_conv)
  then have "no_reward s2" using verifier_worldD [OF w s1] f by (metis fst_conv)
  then show ?thesis using s1
    by (cases r; cases b) (simp_all add: read_optional_text_def shell_bind_def t f)
qed

text \<open>
  a reward file planted by the agent is worth nothing.  Whatever the world looks like when the
  verification starts, if the verifier itself leaves no reward file, then a verification that returns
  gives no reward: the score is 0 and the sample is neither completed nor resolved.
\<close>

theorem planted_reward_ignored:
  assumes w: "verifier_world no_reward env p"
    and leaves: "\<forall>s t vars. no_reward s \<longrightarrow>
      no_reward (fst (exec_shell (te_fr env) p VERIFY_COMMAND (no_options\<lparr>xo_timeout := Some t, xo_env := vars\<rparr>) s))"
    and run: "tb_compute_reward env p metadata s = (s', Inr r)"
  shows "tr_score r = 0 \<and> \<not> tr_completed r \<and> \<not> tr_resolved r \<and> tr_error r \<noteq> None"
proof -
  obtain instance_id timeout where v: "tb_verify env p metadata instance_id timeout s = (s', Inr r)"
    using run by (auto simp: tb_compute_reward_def split: sum.splits prod.splits)
  obtain s2 s3 s4 s5 a vars res elapsed where
    reset: "must_succeed (''failed to prepare verifier directories for '' @ instance_id)
              (exec_shell (te_fr env) p RESET_COMMAND no_options s) = (s2, Inr ())"
    and install: "install_archive env p a ''/tests'' s2 = (s3, Inr ())"
    and chmod: "must_succeed (''failed to make verifier executable for '' @ instance_id)
              (sandbox_exec (te_fr env) p [''chmod'', ''+x'', ''/tests/test.sh''] no_options s3) = (s4, Inr ())"
    and verify: "exec_shell (te_fr env) p VERIFY_COMMAND (no_options\<lparr>xo_timeout := Some timeout, xo_env := vars\<rparr>) s4 = (s5, Inr res)"
    and rewards: "read_rewards env p timeout elapsed res s5 = (s', Inr r)"
    using v unfolding tb_verify_def shell_bind_case by auto
  have "no_reward s2" using reset w unfolding must_succeed_Inr verifier_world_def by blast
  then have "no_reward s3" using install install_keeps [OF w] by (metis fst_conv)
  then have "no_reward s4" using chmod verifier_worldD [OF w] unfolding must_succeed_Inr by (metis fst_conv)
  then have s5: "no_reward s5" using leaves verify by (metis fst_conv)
  obtain ms s6 s7 j x where o: "read_optional_text env p ''/logs/verifier/test-stdout.txt'' s5 = (s6, Inr ms)"
    and j: "read_optional_text env p REWARD_JSON s6 = (s7, Inr j)" and x: "read_optional_text env p REWARD_TXT s7 = (s', Inr x)"
    and out: "r = tb_outcome env timeout elapsed res (case ms of None \<Rightarrow> [] | Some t \<Rightarrow> t) j x"
    using rewards unfolding read_rewards_def shell_bind_case by auto
  have "no_reward s6" using read_output_keeps [OF w s5] o by (metis fst_conv)
  then have "j = None \<and> no_reward s7" using read_missing [OF w _ _ j] by blast
  then have r: "r = tb_outcome env timeout elapsed res (case ms of None \<Rightarrow> [] | Some t \<Rightarrow> t) None None"
    using read_missing [OF w _ _ x] out by blast
  show ?thesis unfolding r by (simp add: tb_outcome_def parse_reward_files_def)
qed

text \<open>A world of one fact: whether a reward file exists.  The verifier does nothing.\<close>

definition lazy_verifier :: "bool provider" where
  "lazy_verifier =
     \<lparr>pr_start = (\<lambda>t s. (s, Inr ())), pr_stop = (\<lambda>s. (s, Inr ())),
      pr_exec = (\<lambda>argv opts s.
        if argv = [''bash'', ''-c'', RESET_COMMAND] then (False, Inr \<lparr>xr_exit_code = 0, xr_stdout = [], xr_stderr = []\<rparr>)
        else if take 2 argv = [''test'', ''-f'']
        then (s, Inr \<lparr>xr_exit_code = (if s \<and> argv ! 2 \<in> {REWARD_JSON, REWARD_TXT} then 0 else 1), xr_stdout = [], xr_stderr = []\<rparr>)
        else (s, Inr \<lparr>xr_exit_code = 0, xr_stdout = [], xr_stderr = []\<rparr>)),
      pr_is_timeout_error = base_is_timeout_error, pr_is_alive = (\<lambda>s. (s, True))\<rparr>"

definition demo_tb_env :: "bool tb_env" where
  "demo_tb_env =
     \<lparr>te_fr = (\<lambda>_. []), te_fg = (\<lambda>_. []), te_fparse = (\<lambda>_. None), te_jparse = (\<lambda>_. Inl []), te_decode = (\<lambda>_. []),
      te_getenv = (\<lambda>_. None), te_clock = (\<lambda>_. 0)\<rparr>"

definition demo_tb_metadata :: dict where
  "demo_tb_metadata =
     [(''instance_id'', PStr ''i''), (''verifier_timeout'', PInt 5), (''tests_archive'', PStr ''AAAA''), (''verifier_env_json'', PStr [])]"

lemma lazy_keeps:
  "\<not> s \<Longrightarrow> \<not> fst (sandbox_exec fr lazy_verifier argv opts s)" "\<not> s \<Longrightarrow> \<not> fst (exec_shell fr lazy_verifier script opts s)"
  "\<not> s \<Longrightarrow> \<not> fst (write_file fr lazy_verifier path c s)" "\<not> s \<Longrightarrow> \<not> fst (read_file fr lazy_verifier path s)"
  by (auto simp: sandbox_exec_def lazy_verifier_def exec_shell_def write_file_def read_file_def split: prod.splits if_splits)

lemma lazy_verifier_world: "verifier_world (\<lambda>s. \<not> s) demo_tb_env lazy_verifier"
  unfolding verifier_world_def
proof (intro conjI allI impI)
  fix s s1 :: bool and r
  show "\<not> s1" if "exec_shell (te_fr demo_tb_env) lazy_verifier RESET_COMMAND no_options s = (s1, Inr r)"
    using that by (auto simp: exec_shell_def sandbox_exec_def lazy_verifier_def)
  assume "\<not> s"
  then show "sandbox_exec (te_fr demo_tb_env) lazy_verifier [''test'', ''-f'', REWARD_JSON] no_options s = (s1, Inr r) \<Longrightarrow> xr_exit_code r \<noteq> 0"
    "sandbox_exec (te_fr demo_tb_env) lazy_verifier [''test'', ''-f'', REWARD_TXT] no_options s = (s1, Inr r) \<Longrightarrow> xr_exit_code r \<noteq> 0"
    by (auto simp: sandbox_exec_def lazy_verifier_def)
qed (simp_all add: lazy_keeps)

lemma planted_run: "\<exists>s' r. tb_compute_reward demo_tb_env lazy_verifier demo_tb_metadata True = (s', Inr r)"
proof -
  have a: "decode_archive ''/tests'' (PStr ''AAAA'') = Inr [0, 0, 0]" by code_simp
  show ?thesis
    by (simp add: tb_compute_reward_def tb_verify_def demo_tb_metadata_def dict_item_def shell_bind_def must_succeed_def exec_shell_def
        sandbox_exec_def lazy_verifier_def install_archive_def a write_file_def need_success_def removing_def parse_json_mapping_def
        resolve_env_mapping_def read_rewards_def read_optional_text_def) blast
qed

lemma planted_reward_ignored_witness:
  "\<exists>s' r. tb_compute_reward demo_tb_env lazy_verifier demo_tb_metadata True = (s', Inr r) \<and> tr_score r = 0 \<and> \<not> tr_completed r"
proof -
  obtain s' r where run: "tb_compute_reward demo_tb_env lazy_verifier demo_tb_metadata True = (s', Inr r)" using planted_run by blast
  from planted_reward_ignored [OF lazy_verifier_world _ run] run show ?thesis by (simp add: lazy_keeps)
qed

subsection \<open>An agent that fails\<close>



subsection \<open>References to the environment\<close>

lemma env_reference_default:
  assumes "name \<noteq> []" "\<forall>c \<in> set name. c \<noteq> CHR ''}'' \<and> c \<noteq> CHR '':''" "lf \<notin> set d"
  shows "env_reference (''${'' @ name @ '':-'' @ d @ ''}'') = Some (name, Some d)"
  using assms by (simp add: env_reference_def startswith_def takeWhile_append dropWhile_append Let_def butlast_append)

lemma env_reference_plain: "\<not> startswith s ''${'' \<Longrightarrow> resolve_env_value getenv s = Inr s"
  by (simp add: resolve_env_value_def env_reference_def)

end
