(* ===== verification/SweBench.thy ===== *)
theory SweBench
  imports Sandbox PyLines
begin

text \<open>
  The software engineering tasks, \<open>tasks/swe_bench\<close>, \<open>tasks/swe_bench_multilingual\<close> and
  \<open>tasks/swe_rebench\<close>: the evaluation scripts, the pytest log parsers, the grading of a log and the life
  cycle of the three tasks.
\<close>

text \<open>
  What the package \<open>swebench\<close> provides: the files a patch touches, the test directives of an instance,
  the specification and the log parser of a repository, the markers around the test log, the statuses a
  log line can start with, the report of a status map and whether a report is a full resolution.
\<close>

record eval_ref =
  er_instance_id :: pv
  er_fail_to_pass :: pv
  er_pass_to_pass :: pv

type_synonym status_map = "(string \<times> string) list"

record 's swe_env =
  sw_fr :: "rat \<Rightarrow> string"
  sw_jparse :: "string \<Rightarrow> string + pv"
  sw_clock :: "'s \<Rightarrow> rat"
  sw_uuid :: string
  sw_modified_files :: "string \<Rightarrow> string list"
  sw_test_directives :: "dict \<Rightarrow> string list"
  sw_specs :: "pv \<Rightarrow> pv \<Rightarrow> dict result"
  sw_repo_parser :: "pv \<Rightarrow> (string \<Rightarrow> status_map) result"
  sw_repo_ext :: "pv \<Rightarrow> string result"
  sw_image_commands :: "dict \<Rightarrow> string list"
  sw_start :: string
  sw_end :: string
  sw_fail_only :: "pv list"
  sw_statuses :: "string list"
  sw_failed :: string
  sw_report :: "status_map \<Rightarrow> eval_ref \<Rightarrow> bool \<Rightarrow> pv"
  sw_full :: "pv \<Rightarrow> bool"

subsection \<open>Evaluation scripts\<close>

definition HEREDOC :: string where "HEREDOC = ''EOF_114329324912''"

text \<open>The elements of \<open>v\<close>, which a join needs to be strings.\<close>

definition strings_of :: "pv \<Rightarrow> string list result" where
  "strings_of v =
     (case v of
        PStr s \<Rightarrow> Inr (map (\<lambda>c. [c]) s)
      | PList vs \<Rightarrow> rmap (\<lambda>x. case x of PStr s \<Rightarrow> Inr s | _ \<Rightarrow> Inl (TypeError ''sequence item: expected str instance'')) vs
      | PDict d \<Rightarrow> Inr (map fst d)
      | _ \<Rightarrow> Inl (TypeError (repr_str (type_name v) @ '' object is not iterable'')))"

definition string_of :: "pv \<Rightarrow> string result" where
  "string_of v = (case v of PStr s \<Rightarrow> Inr s | _ \<Rightarrow> Inl (TypeError ''sequence item: expected str instance''))"

definition reset_tests :: "'s swe_env \<Rightarrow> string \<Rightarrow> string \<Rightarrow> string" where
  "reset_tests env base_commit test_patch =
     (let files = sw_modified_files env test_patch in
      if files \<noteq> [] then ''git checkout '' @ base_commit @ '' '' @ join '' '' files
      else ''echo '' @ [quote1] @ ''skip reset'' @ [quote1])"

definition apply_patch :: "string \<Rightarrow> string \<Rightarrow> string" where
  "apply_patch command test_patch =
     command @ '' - <<'' @ [quote1] @ HEREDOC @ [quote1] @ nl @ test_patch @ nl @ HEREDOC"

definition marker :: "string \<Rightarrow> string" where
  "marker m = '': '' @ [quote1] @ m @ [quote1]"

text \<open>The common part of the scripts of SWE-bench and SWE-rebench.\<close>

definition eval_script ::
  "'s swe_env \<Rightarrow> string \<Rightarrow> string \<Rightarrow> string \<Rightarrow> string list \<Rightarrow> string list \<Rightarrow> string list" where
  "eval_script env base_commit test_patch test_command eval_commands install =
     [''source /opt/miniconda3/bin/activate'', ''conda activate testbed'', ''cd /testbed''] @ eval_commands @
     [''git config --global --add safe.directory /testbed'', ''cd /testbed'', ''git status'', ''git show'',
      ''git -c core.fileMode=false diff '' @ base_commit, ''source /opt/miniconda3/bin/activate'', ''conda activate testbed''] @
     install @
     [reset_tests env base_commit test_patch, apply_patch ''git apply -v'' test_patch, marker (sw_start env), test_command,
      marker (sw_end env), reset_tests env base_commit test_patch]"

definition script_text :: "string list \<Rightarrow> string" where
  "script_text cmds = join nl ([''#!/bin/bash'', ''set -uxo pipefail''] @ cmds) @ nl"

definition fields2 :: "'s swe_env \<Rightarrow> dict \<Rightarrow> (string \<times> string) result" where
  "fields2 env metadata =
     rbind (dict_item metadata ''base_commit'') (\<lambda>b.
     rbind (rbind (dict_item metadata ''test_patch'') string_of) (\<lambda>t. Inr (py_str (sw_fr env) b, t)))"

definition bench_script :: "'s swe_env \<Rightarrow> dict \<Rightarrow> string result" where
  "bench_script env metadata =
     rbind (dict_item metadata ''repo'') (\<lambda>repo.
     rbind (sw_specs env repo (get_none metadata ''version'')) (\<lambda>specs.
     rbind (fields2 env metadata) (\<lambda>(base_commit, test_patch).
     rbind (rbind (dict_item specs ''test_cmd'') string_of) (\<lambda>test_cmd.
     rbind (case dget specs ''eval_commands'' of None \<Rightarrow> Inr [] | Some v \<Rightarrow> strings_of v) (\<lambda>cmds.
     rbind (case dget specs ''install'' of None \<Rightarrow> Inr [] | Some v \<Rightarrow> rbind (string_of v) (\<lambda>s. Inr [s])) (\<lambda>install.
     Inr (script_text (eval_script env base_commit test_patch (join '' '' (test_cmd # sw_test_directives env metadata)) cmds install))))))))"

definition rebench_script :: "'s swe_env \<Rightarrow> dict \<Rightarrow> string result" where
  "rebench_script env metadata =
     rbind (dict_item metadata ''repo'') (\<lambda>_.
     rbind (dict_item metadata ''test_cmd'') (\<lambda>raw.
     rbind (fields2 env metadata) (\<lambda>(base_commit, test_patch).
     rbind (case raw of PList _ \<Rightarrow> rbind (strings_of raw) (\<lambda>xs. Inr (join '' '' xs)) | v \<Rightarrow> string_of v) (\<lambda>test_cmd.
     rbind (let v = dget_or metadata ''eval_commands'' (PStr []) in if truthy v then strings_of v else Inr []) (\<lambda>cmds.
     rbind (let v = dget_or metadata ''install'' (PStr []) in if truthy v then rbind (string_of v) (\<lambda>s. Inr [s]) else Inr []) (\<lambda>install.
     Inr (script_text (eval_script env base_commit test_patch (join '' '' (test_cmd # sw_test_directives env metadata)) cmds install))))))))"

definition as_commands :: "pv \<Rightarrow> string list result" where
  "as_commands v = (if \<not> truthy v then Inr [] else case v of PStr s \<Rightarrow> Inr [s] | _ \<Rightarrow> strings_of v)"

definition multilingual_script :: "'s swe_env \<Rightarrow> dict \<Rightarrow> string result" where
  "multilingual_script env metadata =
     rbind (dict_item metadata ''repo'') (\<lambda>repo.
     rbind (dict_item metadata ''version'') (\<lambda>version.
     rbind (fields2 env metadata) (\<lambda>(base_commit, test_patch).
     rbind (sw_specs env repo (PStr (py_str (sw_fr env) version))) (\<lambda>specs.
     rbind (as_commands (get_none specs ''build'')) (\<lambda>build.
     rbind (rbind (dict_item specs ''test_cmd'') as_commands) (\<lambda>test_commands.
     rbind (sw_repo_ext env repo) (\<lambda>ext.
     Inr (script_text
       ([''chmod 1777 /tmp 2>/dev/null || true'', ''cd /testbed'', ''git config --global --add safe.directory /testbed'',
         ''cd /testbed'', reset_tests env base_commit test_patch] @
        (if ext = ''js'' then sw_image_commands env metadata else []) @
        [apply_patch ''git apply --verbose --reject'' test_patch] @ build @ [marker (sw_start env)] @ test_commands @
        [marker (sw_end env), reset_tests env base_commit test_patch])))))))))"

subsection \<open>The pytest logs of SWE-rebench\<close>

definition begins_with_status :: "'s swe_env \<Rightarrow> string \<Rightarrow> bool" where
  "begins_with_status env line \<longleftrightarrow> (\<exists>x \<in> set (sw_statuses env). startswith line x)"

definition ends_with_status :: "'s swe_env \<Rightarrow> string \<Rightarrow> bool" where
  "ends_with_status env line \<longleftrightarrow> (\<exists>x \<in> set (sw_statuses env). endswith line x)"

text \<open>The words of a line that starts with a status; a failure has its dash removed.\<close>

definition status_words :: "'s swe_env \<Rightarrow> string \<Rightarrow> string list" where
  "status_words env line = words (if startswith line (sw_failed env) then replace_str '' - '' '' '' line else line)"

text \<open>The test a line reports, with its status.\<close>

definition line_status :: "'s swe_env \<Rightarrow> string \<Rightarrow> (string \<times> string) option" where
  "line_status env line =
     (if begins_with_status env line
      then (case status_words env line of status # test # _ \<Rightarrow> Some (test, status) | _ \<Rightarrow> None)
      else None)"

definition parse_log_pytest :: "'s swe_env \<Rightarrow> string \<Rightarrow> status_map" where
  "parse_log_pytest env log_text =
     fold (\<lambda>line m. case line_status env line of Some (test, status) \<Rightarrow> dset m test status | None \<Rightarrow> m) (lines log_text) []"

text \<open>\<open>re.sub("[[](digits)m", "", line)\<close>.\<close>

definition match_sgr :: "string \<Rightarrow> string option" where
  "match_sgr s =
     (case s of
        c # r \<Rightarrow>
          if c = CHR ''['' \<and> takeWhile is_digit r \<noteq> []
          then (case dropWhile is_digit r of d # r' \<Rightarrow> if d = CHR ''m'' then Some r' else None | [] \<Rightarrow> None)
          else None
      | [] \<Rightarrow> None)"

lemma match_sgr_length: "match_sgr s = Some r \<Longrightarrow> length r < length s"
proof -
  assume m: "match_sgr s = Some r"
  then obtain c t where s: "s = c # t" and d: "dropWhile is_digit t = CHR ''m'' # r"
    by (auto simp: match_sgr_def split: list.splits if_splits)
  have "length (CHR ''m'' # r) \<le> length t" unfolding d [symmetric] by (rule length_dropWhile_le)
  then show ?thesis using s by simp
qed

function strip_sgr :: "string \<Rightarrow> string" where
  "strip_sgr s =
     (case match_sgr s of
        Some r \<Rightarrow> strip_sgr r
      | None \<Rightarrow> (case s of [] \<Rightarrow> [] | c # cs \<Rightarrow> c # strip_sgr cs))"
  by pat_completeness auto
termination
  by (relation "measure length") (auto dest: match_sgr_length)

declare strip_sgr.simps [simp del]

definition is_control :: "char \<Rightarrow> bool" where
  "is_control c = (let n = (of_char c :: nat) in 1 \<le> n \<and> n \<le> 31)"

definition clean_line :: "string \<Rightarrow> string" where
  "clean_line line = filter (\<lambda>c. \<not> is_control c) (strip_sgr line)"

text \<open>Older versions of pytest print the status at the end of the line.\<close>

definition line_status_v2 :: "'s swe_env \<Rightarrow> string \<Rightarrow> (string \<times> string) option" where
  "line_status_v2 env line =
     (if begins_with_status env line
      then (case status_words env line of status # test # _ \<Rightarrow> Some (test, status) | _ \<Rightarrow> None)
      else if ends_with_status env line
      then (case words line of test # status # _ \<Rightarrow> Some (test, status) | _ \<Rightarrow> None)
      else None)"

definition parse_log_pytest_v2 :: "'s swe_env \<Rightarrow> string \<Rightarrow> status_map" where
  "parse_log_pytest_v2 env log_text =
     fold (\<lambda>line m. case line_status_v2 env (clean_line line) of Some (test, status) \<Rightarrow> dset m test status | None \<Rightarrow> m)
       (lines log_text) []"

definition rebench_parser :: "'s swe_env \<Rightarrow> pv \<Rightarrow> (string \<Rightarrow> status_map) result" where
  "rebench_parser env name =
     (if name = PStr ''parse_log_pytest'' then Inr (parse_log_pytest env)
      else if name = PStr ''parse_log_pytest_v2'' then Inr (parse_log_pytest_v2 env)
      else Inl (OtherException ''NotImplementedError'' (''log parser '' @ py_repr (sw_fr env) name @ '' is not implemented for swe_rebench'')))"

text \<open>\<open>re.sub(ESC "[[][0-9;]*m" or CR, "", output)\<close>.\<close>

definition match_color :: "string \<Rightarrow> string option" where
  "match_color s =
     (case s of
        a # b # r \<Rightarrow>
          if a = char_of (27::nat) \<and> b = CHR ''[''
          then (case dropWhile (\<lambda>c. is_digit c \<or> c = CHR '';'') r of d # r' \<Rightarrow> if d = CHR ''m'' then Some r' else None | [] \<Rightarrow> None)
          else None
      | _ \<Rightarrow> None)"

lemma match_color_length: "match_color s = Some r \<Longrightarrow> length r < length s"
proof -
  assume m: "match_color s = Some r"
  then obtain a b t where s: "s = a # b # t" and d: "dropWhile (\<lambda>c. is_digit c \<or> c = CHR '';'') t = CHR ''m'' # r"
    by (auto simp: match_color_def split: list.splits if_splits)
  have "length (CHR ''m'' # r) \<le> length t" unfolding d [symmetric] by (rule length_dropWhile_le)
  then show ?thesis using s by simp
qed

function strip_colors :: "string \<Rightarrow> string" where
  "strip_colors s =
     (case match_color s of
        Some r \<Rightarrow> strip_colors r
      | None \<Rightarrow> (case s of [] \<Rightarrow> [] | c # cs \<Rightarrow> if c = cr then strip_colors cs else c # strip_colors cs))"
  by pat_completeness auto
termination
  by (relation "measure length") (auto dest: match_color_length)

declare strip_colors.simps [simp del]

subsection \<open>Grading\<close>

record eval_report =
  ev_resolved :: bool
  ev_found :: bool
  ev_test_status :: pv

definition no_report :: eval_report where
  "no_report = \<lparr>ev_resolved = False, ev_found = False, ev_test_status = PNone\<rparr>"

text \<open>The text between the first start marker and the next marker of either kind.\<close>

definition between_markers :: "'s swe_env \<Rightarrow> string \<Rightarrow> string option" where
  "between_markers env s =
     (if contains s (sw_start env) \<and> contains s (sw_end env)
      then Some (hd (split_str (sw_end env) (split_str (sw_start env) s ! 1))) else None)"

definition report_of :: "'s swe_env \<Rightarrow> status_map \<Rightarrow> eval_ref \<Rightarrow> pv \<Rightarrow> eval_report" where
  "report_of env status ref repo =
     (let report = sw_report env status ref (repo \<in> set (sw_fail_only env)) in
      \<lparr>ev_resolved = sw_full env report, ev_found = True, ev_test_status = report\<rparr>)"

definition json_list :: "'s swe_env \<Rightarrow> pv \<Rightarrow> pv result" where
  "json_list env v =
     (case v of
        PStr s \<Rightarrow> (case sw_jparse env s of Inl m \<Rightarrow> Inl (ValueError m) | Inr x \<Rightarrow> Inr x)
      | _ \<Rightarrow> Inl (TypeError (''the JSON object must be str, bytes or bytearray, not '' @ type_name v)))"

text \<open>\<open>list(v)\<close> of \<open>_as_list\<close>.\<close>

definition as_list :: "'s swe_env \<Rightarrow> pv \<Rightarrow> pv result" where
  "as_list env v =
     (case v of
        PNone \<Rightarrow> Inr (PList [])
      | PStr s \<Rightarrow> if strip s = [] then Inr (PList []) else json_list env v
      | PList xs \<Rightarrow> Inr (PList xs)
      | PDict d \<Rightarrow> Inr (PList (map (\<lambda>(k, _). PStr k) d))
      | _ \<Rightarrow> Inl (TypeError (repr_str (type_name v) @ '' object is not iterable'')))"

definition eval_ref_of :: "(pv \<Rightarrow> pv result) \<Rightarrow> pv \<Rightarrow> dict \<Rightarrow> eval_ref result" where
  "eval_ref_of conv dflt metadata =
     rbind (dict_item metadata ''instance_id'') (\<lambda>i.
     rbind (conv (dget_or metadata ''FAIL_TO_PASS'' dflt)) (\<lambda>f.
     rbind (conv (dget_or metadata ''PASS_TO_PASS'' dflt)) (\<lambda>p.
     Inr \<lparr>er_instance_id = i, er_fail_to_pass = f, er_pass_to_pass = p\<rparr>)))"

definition grade ::
  "'s swe_env \<Rightarrow> (dict \<Rightarrow> (string \<Rightarrow> status_map) result) \<Rightarrow> (dict \<Rightarrow> eval_ref result) \<Rightarrow> dict \<Rightarrow> string \<Rightarrow> eval_report result" where
  "grade env parser_of ref_of metadata eval_output =
     rbind (parser_of metadata) (\<lambda>parser.
     case between_markers env eval_output of
       None \<Rightarrow> Inr no_report
     | Some t \<Rightarrow>
         (let status = parser t in
          rbind (ref_of metadata) (\<lambda>ref.
          rbind (dict_item metadata ''repo'') (\<lambda>repo. Inr (report_of env status ref repo)))))"

definition bench_grade :: "'s swe_env \<Rightarrow> dict \<Rightarrow> string \<Rightarrow> eval_report result" where
  "bench_grade env =
     grade env (\<lambda>m. rbind (dict_item m ''repo'') (sw_repo_parser env)) (eval_ref_of (json_list env) (PStr ''[]''))"

definition rebench_grade :: "'s swe_env \<Rightarrow> dict \<Rightarrow> string \<Rightarrow> eval_report result" where
  "rebench_grade env =
     grade env (\<lambda>m. rbind (dict_item m ''log_parser'') (rebench_parser env)) (eval_ref_of (as_list env) PNone)"

text \<open>Here everything up to the end marker counts, further start markers included.\<close>

definition after_first_marker :: "'s swe_env \<Rightarrow> string \<Rightarrow> string option" where
  "after_first_marker env s =
     (if contains s (sw_start env) \<and> contains s (sw_end env)
      then map_option (\<lambda>(a, b). hd (split_str (sw_end env) b)) (partition_at (sw_start env) s) else None)"

text \<open>What \<open>make_test_spec\<close> makes of a row; a specification carries its own reference.\<close>

record test_spec =
  sp_repo :: pv
  sp_ref :: eval_ref

definition multilingual_grade :: "'s swe_env \<Rightarrow> test_spec \<Rightarrow> string \<Rightarrow> eval_report result" where
  "multilingual_grade env spec s =
     rbind (sw_repo_parser env (sp_repo spec)) (\<lambda>parser.
       let t = (case after_first_marker env s of Some x \<Rightarrow> x | None \<Rightarrow> s);
           status = (if parser t = [] \<and> t \<noteq> s then parser s else parser t) in
       Inr (if status = [] then no_report else report_of env status (sp_ref spec) (sp_repo spec)))"

subsection \<open>Rewards\<close>

record swe_result =
  sr_completed :: bool
  sr_time :: rat
  sr_report :: eval_report

definition sr_resolved :: "swe_result \<Rightarrow> bool" where
  "sr_resolved r = ev_resolved (sr_report r)"

text \<open>
  The script is written and run; \<open>command\<close> makes the command of the script's path, \<open>output_of\<close> the log
  of the command's result, and \<open>score\<close> grades it.
\<close>

definition evaluate ::
  "'s swe_env \<Rightarrow> 's provider \<Rightarrow> string \<Rightarrow> (string \<Rightarrow> string) \<Rightarrow> (exec_result \<Rightarrow> string) \<Rightarrow> (string \<Rightarrow> eval_report result) \<Rightarrow>
     rat \<Rightarrow> string result \<Rightarrow> 's \<Rightarrow> 's \<times> swe_result result" where
  "evaluate env p path command output_of score timeout script s =
     shell_bind (s, script) (\<lambda>t s1.
     shell_bind (write_file (sw_fr env) p path (Str t) s1) (\<lambda>_ s2.
     shell_bind (exec_shell (sw_fr env) p (command path)
                   (no_options\<lparr>xo_workdir := Some ''/testbed'', xo_timeout := Some timeout\<rparr>) s2) (\<lambda>r s3.
     (s3, rbind (score (output_of r)) (\<lambda>rep.
            Inr \<lparr>sr_completed = (xr_exit_code r = 0), sr_time = sw_clock env s3 - sw_clock env s2, sr_report = rep\<rparr>)))))"

definition run_script :: "string \<Rightarrow> string" where
  "run_script path = ''bash '' @ path @ '' 2>&1''"

definition bench_reward :: "'s swe_env \<Rightarrow> 's provider \<Rightarrow> dict \<Rightarrow> rat \<Rightarrow> 's \<Rightarrow> 's \<times> swe_result result" where
  "bench_reward env p metadata timeout =
     evaluate env p (''/tmp/eval_script_'' @ sw_uuid env @ ''.sh'') run_script xr_stdout (bench_grade env metadata) timeout
       (bench_script env metadata)"

definition rebench_reward :: "'s swe_env \<Rightarrow> 's provider \<Rightarrow> dict \<Rightarrow> rat \<Rightarrow> 's \<Rightarrow> 's \<times> swe_result result" where
  "rebench_reward env p metadata timeout =
     evaluate env p (''/tmp/eval_script_'' @ sw_uuid env @ ''.sh'') run_script (\<lambda>r. strip_colors (xr_stdout r))
       (rebench_grade env metadata) timeout (rebench_script env metadata)"

text \<open>\<open>make_spec\<close> is \<open>make_test_spec\<close>.\<close>

definition multilingual_reward ::
  "'s swe_env \<Rightarrow> (dict \<Rightarrow> test_spec result) \<Rightarrow> 's provider \<Rightarrow> dict \<Rightarrow> rat \<Rightarrow> 's \<Rightarrow> 's \<times> swe_result result" where
  "multilingual_reward env make_spec p metadata timeout s =
     shell_bind (s, make_spec metadata) (\<lambda>spec s1.
     evaluate env p (''/tmp/sbm_eval_'' @ sw_uuid env @ ''.sh'') (\<lambda>path. ''set -o pipefail; bash '' @ path @ '' 2>&1 | cat'')
       (\<lambda>r. xr_stdout r @ (if xr_stderr r \<noteq> [] then nl @ xr_stderr r else [])) (multilingual_grade env spec) timeout
       (multilingual_script env metadata) s1)"

subsection \<open>The tasks\<close>

definition report_pv :: "eval_report \<Rightarrow> dict" where
  "report_pv r = [(''resolved'', PBool (ev_resolved r)), (''found_eval_status'', PBool (ev_found r)), (''test_status'', ev_test_status r)]"

definition swe_info :: "swe_result \<Rightarrow> dict" where
  "swe_info r = [(''eval_completed'', PBool (sr_completed r)), (''eval_execution_time'', PFloat (sr_time r)),
     (''eval_report'', PDict (report_pv (sr_report r))), (''resolved'', PBool (sr_resolved r))]"

definition swe_task_result :: "swe_result \<Rightarrow> bool option \<Rightarrow> dict \<Rightarrow> task_result" where
  "swe_task_result r finished extra =
     (let x = PFloat (if sr_resolved r then 1 else 0) in
      \<lparr>ts_reward = x, ts_accuracy = x, ts_finished = (case finished of None \<Rightarrow> PNone | Some b \<Rightarrow> PBool b), ts_extra_info = PDict extra\<rparr>)"

definition GOLD_PATCH :: string where "GOLD_PATCH = ''/tmp/gold_patch.patch''"

definition apply_gold :: "'s swe_env \<Rightarrow> 's provider \<Rightarrow> dict \<Rightarrow> 's \<Rightarrow> 's \<times> exec_result result" where
  "apply_gold env p sample s =
     shell_bind (s, rbind (dict_item sample ''patch'') string_of) (\<lambda>patch s1.
     shell_bind (write_file (sw_fr env) p GOLD_PATCH (Str patch) s1) (\<lambda>_ s2.
     sandbox_exec (sw_fr env) p [''git'', ''apply'', ''--whitespace=fix'', GOLD_PATCH] (no_options\<lparr>xo_workdir := Some ''/testbed''\<rparr>) s2))"

text \<open>The solving step: the gold patch, whose application may fail unnoticed, or the agent.\<close>

definition solve ::
  "'s swe_env \<Rightarrow> 's provider \<Rightarrow> bool \<Rightarrow> ('s \<Rightarrow> 's \<times> agent_reply result) \<Rightarrow> dict \<Rightarrow> 's \<Rightarrow> 's \<times> (bool option \<times> pv) result" where
  "solve env p oracle agent sample s =
     (if oracle then shell_bind (apply_gold env p sample s) (\<lambda>_ s1. (s1, Inr (Some True, PNone)))
      else shell_bind (agent s) (\<lambda>a s1. (s1, Inr (ap_finished a, get_none (ap_info a) ''timing''))))"

definition timing_of :: "pv \<Rightarrow> rat \<Rightarrow> dict result" where
  "timing_of v reward_s =
     rbind (if truthy v then (case v of PDict d \<Rightarrow> Inr d | _ \<Rightarrow> Inl (TypeError (repr_str (type_name v) @ '' object is not a mapping'')))
            else Inr []) (\<lambda>d. Inr (dset d ''reward_s'' (PFloat reward_s)))"

definition bench_run ::
  "'s swe_env \<Rightarrow> rat \<Rightarrow> 's provider \<Rightarrow> bool \<Rightarrow> ('s \<Rightarrow> 's \<times> agent_reply result) \<Rightarrow> dict \<Rightarrow> 's \<Rightarrow> 's \<times> task_result result" where
  "bench_run env start_timeout p oracle agent sample =
     sandbox_entered (sw_fr env) start_timeout p 3 (\<lambda>s.
       shell_bind (solve env p oracle agent sample s) (\<lambda>(finished, timing) s1.
       shell_bind (bench_reward env p sample 300 s1) (\<lambda>r s2.
       (s2, rbind (timing_of timing (sw_clock env s2 - sw_clock env s1)) (\<lambda>d.
              Inr (swe_task_result r finished (dset (swe_info r) ''timing'' (PDict d))))))))"

definition REBENCH_CLEAN :: string where
  "REBENCH_CLEAN = join '' && '' [''git tag -d $(git tag -l) || true'', ''git reflog expire --expire=now --all || true'',
     ''git gc --prune=now || true'']"

definition rebench_run ::
  "'s swe_env \<Rightarrow> rat \<Rightarrow> 's provider \<Rightarrow> bool \<Rightarrow> ('s \<Rightarrow> 's \<times> agent_reply result) \<Rightarrow> dict \<Rightarrow> 's \<Rightarrow> 's \<times> task_result result" where
  "rebench_run env start_timeout p oracle agent sample =
     sandbox_entered (sw_fr env) start_timeout p 3 (\<lambda>s.
       shell_bind (exec_shell (sw_fr env) p REBENCH_CLEAN (no_options\<lparr>xo_workdir := Some ''/testbed''\<rparr>) s) (\<lambda>_ s1.
       shell_bind (solve env p oracle agent sample s1) (\<lambda>(finished, _) s2.
       shell_bind (rebench_reward env p sample 300 s2) (\<lambda>r s3.
       (s3, Inr (swe_task_result r finished (swe_info r)))))))"

definition MULTILINGUAL_CLEAN :: string where
  "MULTILINGUAL_CLEAN = join nl [''git tag -d $(git tag -l) 2>/dev/null || true'', ''git reflog expire --expire=now --all || true'',
     ''git gc --prune=now || true'']"

text \<open>Here a gold patch that does not apply is an error.\<close>

definition solve_checked ::
  "'s swe_env \<Rightarrow> 's provider \<Rightarrow> bool \<Rightarrow> ('s \<Rightarrow> 's \<times> agent_reply result) \<Rightarrow> dict \<Rightarrow> 's \<Rightarrow> 's \<times> bool option result" where
  "solve_checked env p oracle agent sample s =
     (if oracle
      then shell_bind (apply_gold env p sample s) (\<lambda>r s1.
        (s1, if xr_exit_code r = 0 then Inr (Some True)
             else Inl (RuntimeError (''failed to apply gold patch for '' @ py_str (sw_fr env) (dget_or sample ''instance_id'' (PStr ''?'')) @ '': '' @
                    (if strip (xr_stderr r) \<noteq> [] then strip (xr_stderr r) else strip (xr_stdout r))))))
      else shell_bind (agent s) (\<lambda>a s1. (s1, Inr (ap_finished a))))"

definition multilingual_run ::
  "'s swe_env \<Rightarrow> (dict \<Rightarrow> test_spec result) \<Rightarrow> rat \<Rightarrow> 's provider \<Rightarrow> bool \<Rightarrow> rat \<Rightarrow> ('s \<Rightarrow> 's \<times> agent_reply result) \<Rightarrow> dict \<Rightarrow>
     's \<Rightarrow> 's \<times> task_result result" where
  "multilingual_run env make_spec start_timeout p oracle eval_timeout agent sample =
     sandbox_entered (sw_fr env) start_timeout p 3 (\<lambda>s.
       shell_bind (exec_shell (sw_fr env) p MULTILINGUAL_CLEAN (no_options\<lparr>xo_workdir := Some ''/testbed''\<rparr>) s) (\<lambda>_ s1.
       shell_bind (solve_checked env p oracle agent sample s1) (\<lambda>finished s2.
       shell_bind (multilingual_reward env make_spec p sample eval_timeout s2) (\<lambda>r s3.
       (s3, Inr (swe_task_result r finished (swe_info r)))))))"

end
