(* ===== verification/SweProps.thy ===== *)
theory SweProps
  imports SweBench
begin

text \<open>
  Grading of software engineering tasks: what the log parsers compute, when the two agree, and what a
  reward of an evaluation rests on.
\<close>

subsection \<open>The log parsers\<close>

text \<open>The reports of a log in order, and the last one about a test.\<close>

definition reports :: "(string \<Rightarrow> (string \<times> string) option) \<Rightarrow> string list \<Rightarrow> (string \<times> string) list" where
  "reports f ls = List.map_filter f ls"

definition last_report :: "(string \<times> string) list \<Rightarrow> string \<Rightarrow> string option" where
  "last_report rs test =
     (let sts = map snd (filter (\<lambda>(t, _). t = test) rs) in if sts = [] then None else Some (last sts))"

lemma last_report_snoc: "last_report (rs @ [(t, st)]) test = (if t = test then Some st else last_report rs test)"
  by (auto simp: last_report_def Let_def)

lemma reports_snoc: "reports f (ls @ [l]) = reports f ls @ (case f l of None \<Rightarrow> [] | Some x \<Rightarrow> [x])"
  by (simp add: reports_def map_filter_def split: option.split)

lemma fold_reports:
  "dget (fold (\<lambda>line m. case f line of Some (test, status) \<Rightarrow> dset m test status | None \<Rightarrow> m) ls []) test =
   last_report (reports f ls) test"
proof (induction ls rule: rev_induct)
  case Nil
  show ?case by (simp add: last_report_def reports_def)
next
  case (snoc l ls)
  show ?case
  proof (cases "f l")
    case (Some x)
    then obtain t st where "f l = Some (t, st)" by (cases x) auto
    then show ?thesis using snoc by (simp add: reports_snoc last_report_snoc)
  qed (simp add: snoc reports_snoc)
qed

text \<open>
  the parsers of pytest logs are total and read the log the way it was written: the status of a test
  is the one of the last line that reports it, and a test without such a line is absent.
\<close>

theorem status_is_last_report:
  "dget (parse_log_pytest env log_text) test = last_report (reports (line_status env) (lines log_text)) test \<and>
   dget (parse_log_pytest_v2 env log_text) test =
     last_report (reports (line_status_v2 env \<circ> clean_line) (lines log_text)) test"
  using fold_reports [of "line_status env" "lines log_text" test]
    fold_reports [of "line_status_v2 env \<circ> clean_line" "lines log_text" test]
  by (simp add: parse_log_pytest_def parse_log_pytest_v2_def)

text \<open>A line without control characters and without the rest of a color code.\<close>

definition plain_line :: "string \<Rightarrow> bool" where
  "plain_line l \<longleftrightarrow> (\<forall>c \<in> set l. \<not> is_control c) \<and> (\<forall>a b. l = a @ b \<longrightarrow> match_sgr b = None)"

lemma strip_sgr_id: "(\<And>a b. l = a @ b \<Longrightarrow> match_sgr b = None) \<Longrightarrow> strip_sgr l = l"
proof (induction l)
  case Nil
  then show ?case by (simp add: strip_sgr.simps [of "[]"] match_sgr_def)
next
  case (Cons c cs)
  have "match_sgr (c # cs) = None" using Cons.prems [of "[]"] by simp
  moreover have "strip_sgr cs = cs" by (rule Cons.IH) (use Cons.prems [of "c # _"] in simp)
  ultimately show ?case by (simp add: strip_sgr.simps [of "c # cs"])
qed

lemma clean_plain: "plain_line l \<Longrightarrow> clean_line l = l"
  by (simp add: plain_line_def clean_line_def strip_sgr_id)

text \<open>
  the second parser extends the first: on a log of plain lines, in which no line merely ends with a
  status, both compute the same map, so the choice of the parser only matters for colored output and for
  old versions of pytest.
\<close>

theorem pytest_parsers_agree:
  assumes "\<forall>l \<in> set (lines log_text). plain_line l \<and> (ends_with_status env l \<longrightarrow> begins_with_status env l)"
  shows "parse_log_pytest_v2 env log_text = parse_log_pytest env log_text"
  unfolding parse_log_pytest_def parse_log_pytest_v2_def
proof (rule fold_cong, rule refl, rule refl)
  fix l assume "l \<in> set (lines log_text)"
  then have "clean_line l = l" "ends_with_status env l \<longrightarrow> begins_with_status env l" using assms clean_plain by auto
  then have "line_status_v2 env (clean_line l) = line_status env l"
    by (auto simp: line_status_v2_def line_status_def)
  then show "(\<lambda>m. case line_status_v2 env (clean_line l) of None \<Rightarrow> m | Some (test, status) \<Rightarrow> dset m test status) =
      (\<lambda>m. case line_status env l of None \<Rightarrow> m | Some (test, status) \<Rightarrow> dset m test status)"
    by simp
qed

definition demo_swe_env :: "unit swe_env" where
  "demo_swe_env =
     \<lparr>sw_fr = (\<lambda>_. []), sw_jparse = (\<lambda>_. Inl []), sw_clock = (\<lambda>_. 0), sw_uuid = ''u'', sw_modified_files = (\<lambda>_. []),
      sw_test_directives = (\<lambda>_. []), sw_specs = (\<lambda>_ _. Inr []), sw_repo_parser = (\<lambda>_. Inl (KeyError [])), sw_repo_ext = (\<lambda>_. Inr ''py''),
      sw_image_commands = (\<lambda>_. []), sw_start = ''START'', sw_end = ''END'', sw_fail_only = [], sw_statuses = [''FAILED'', ''PASSED''],
      sw_failed = ''FAILED'', sw_report = (\<lambda>m r b. PBool (dget m ''t'' = Some ''PASSED'')), sw_full = truthy\<rparr>"

lemma pytest_parsers_agree_witness:
  "parse_log_pytest_v2 demo_swe_env ''PASSED t'' = [(''t'', ''PASSED'')]"
proof -
  have l: "lines ''PASSED t'' = [''PASSED t'']" by code_simp
  have m: "match_sgr b = None" if "''PASSED t'' = a @ b" for a b :: string
  proof (cases b)
    case (Cons c r)
    then have "c \<in> set ''PASSED t''" unfolding that by simp
    then show ?thesis using Cons by (auto simp: match_sgr_def)
  qed (simp add: match_sgr_def)
  have "plain_line ''PASSED t''" unfolding plain_line_def using m by (auto simp: is_control_def Let_def)
  moreover have "begins_with_status demo_swe_env ''PASSED t''" by code_simp
  ultimately have "parse_log_pytest_v2 demo_swe_env ''PASSED t'' = parse_log_pytest demo_swe_env ''PASSED t''"
    by (intro pytest_parsers_agree) (simp add: l)
  also have "\<dots> = [(''t'', ''PASSED'')]" by code_simp
  finally show ?thesis .
qed

subsection \<open>The text that is graded\<close>

lemma contains_append: "contains (a @ p @ b) p"
  by (auto simp: contains_def partition_at_None)

text \<open>
  The script prints the change under test before it runs the tests.  If that change contains the start
  marker, the text after it is graded and the tests' own log is not.
\<close>

lemma earlier_marker_wins:
  assumes "sw_start env \<noteq> []" "partition_at (sw_start env) s = Some (a, b)" "partition_at (sw_start env) b = Some (c, d)"
    and "contains s (sw_end env)"
  shows "between_markers env s = Some (hd (split_str (sw_end env) c))"
  using assms by (simp add: between_markers_def contains_def split_str.simps [of _ s] split_str.simps [of _ b])

subsection \<open>Rewards\<close>

lemma evaluate_Inr:
  assumes "evaluate env p path command output_of score timeout script s = (s', Inr r)"
  obtains t s1 res where "script = Inr t" "write_file (sw_fr env) p path (Str t) s = (s1, Inr ())"
    "exec_shell (sw_fr env) p (command path) (no_options\<lparr>xo_workdir := Some ''/testbed'', xo_timeout := Some timeout\<rparr>) s1 = (s', Inr res)"
    "score (output_of res) = Inr (sr_report r)" "sr_completed r \<longleftrightarrow> xr_exit_code res = 0"
  using assms
  by (cases script) (auto simp: evaluate_def shell_bind_def rbind_Inr_iff split: prod.splits sum.splits)

lemma sandbox_entered_Inr:
  "sandbox_entered fr start_timeout p n body s = (s', Inr r) \<Longrightarrow> \<exists>s1 s2. body s1 = (s2, Inr r)"
  by (auto simp: sandbox_entered_def split: prod.splits sum.splits)

lemma grade_resolved:
  "grade env parser_of ref_of metadata s = Inr rep \<Longrightarrow> ev_resolved rep \<longleftrightarrow>
     (\<exists>parser t ref repo. parser_of metadata = Inr parser \<and> between_markers env s = Some t \<and> ref_of metadata = Inr ref \<and>
        dict_item metadata ''repo'' = Inr repo \<and> sw_full env (sw_report env (parser t) ref (repo \<in> set (sw_fail_only env))))"
  by (cases "parser_of metadata"; cases "ref_of metadata"; cases "dict_item metadata ''repo''")
     (auto simp: grade_def report_of_def no_report_def Let_def split: option.splits)


text \<open>A row whose test passes.\<close>

definition demo_swe_sample :: dict where
  "demo_swe_sample =
     [(''instance_id'', PStr ''i''), (''repo'', PStr ''r''), (''test_cmd'', PStr ''pytest''), (''base_commit'', PStr ''c''),
      (''test_patch'', PStr ''p''), (''log_parser'', PStr ''parse_log_pytest'')]"

definition demo_test_log :: string where
  "demo_test_log = ''START'' @ nl @ ''PASSED t'' @ nl @ ''END''"

definition demo_inner_log :: string where
  "demo_inner_log = nl @ ''PASSED t'' @ nl"

definition passing_sandbox :: "unit provider" where
  "passing_sandbox =
     \<lparr>pr_start = (\<lambda>t s. (s, Inr ())), pr_stop = (\<lambda>s. (s, Inr ())),
      pr_exec = (\<lambda>argv opts s. (s, Inr \<lparr>xr_exit_code = 0, xr_stdout = demo_test_log, xr_stderr = []\<rparr>)),
      pr_is_timeout_error = base_is_timeout_error, pr_is_alive = (\<lambda>s. (s, True))\<rparr>"

definition done_agent :: "unit \<Rightarrow> unit \<times> agent_reply result" where
  "done_agent s = (s, Inr \<lparr>ap_info = [], ap_finished = Some True\<rparr>)"

lemma passing_exec:
  "sandbox_exec fr passing_sandbox argv opts s = (s, Inr \<lparr>xr_exit_code = 0, xr_stdout = demo_test_log, xr_stderr = []\<rparr>)"
  "exec_shell fr passing_sandbox script opts s = (s, Inr \<lparr>xr_exit_code = 0, xr_stdout = demo_test_log, xr_stderr = []\<rparr>)"
  "write_file fr passing_sandbox path c s = (s, Inr ())"
  by (simp_all add: sandbox_exec_def passing_sandbox_def exec_shell_def write_file_def need_success_def)

lemma demo_rebench_parts:
  "\<exists>t. rebench_script demo_swe_env demo_swe_sample = Inr t"
  "between_markers demo_swe_env (strip_colors demo_test_log) = Some demo_inner_log"
  "rebench_parser demo_swe_env (get_none demo_swe_sample ''log_parser'') = Inr (parse_log_pytest demo_swe_env)"
  "parse_log_pytest demo_swe_env demo_inner_log = [(''t'', ''PASSED'')]"
  "eval_ref_of (as_list demo_swe_env) PNone demo_swe_sample =
     Inr \<lparr>er_instance_id = PStr ''i'', er_fail_to_pass = PList [], er_pass_to_pass = PList []\<rparr>"
  "dict_item demo_swe_sample ''repo'' = Inr (PStr ''r'')"
  "dict_item demo_swe_sample ''log_parser'' = Inr (PStr ''parse_log_pytest'')"
  "rebench_parser demo_swe_env (PStr ''parse_log_pytest'') = Inr (parse_log_pytest demo_swe_env)"
proof -
  show "\<exists>t. rebench_script demo_swe_env demo_swe_sample = Inr t"
    by (simp add: rebench_script_def demo_swe_sample_def dict_item_def dget_or_def fields2_def string_of_def)
  show "rebench_parser demo_swe_env (get_none demo_swe_sample ''log_parser'') = Inr (parse_log_pytest demo_swe_env)"
    by (simp add: rebench_parser_def get_none_def dget_or_def demo_swe_sample_def)
  show "rebench_parser demo_swe_env (PStr ''parse_log_pytest'') = Inr (parse_log_pytest demo_swe_env)"
    by (simp add: rebench_parser_def)
qed code_simp+

lemma demo_rebench_run:
  "\<exists>r. rebench_run demo_swe_env 600 passing_sandbox False done_agent demo_swe_sample () = ((), Inr r)"
proof -
  obtain t where t: "rebench_script demo_swe_env demo_swe_sample = Inr t" using demo_rebench_parts(1) by blast
  have "\<exists>rep. rebench_grade demo_swe_env demo_swe_sample (strip_colors demo_test_log) = Inr rep"
    by (simp add: rebench_grade_def grade_def demo_rebench_parts)
  then show ?thesis
    by (auto simp: rebench_run_def sandbox_entered_def sandbox_enter_def numeral_3_eq_3 run_start_def passing_exec shell_bind_def
        solve_def done_agent_def rebench_reward_def evaluate_def t) (simp_all add: passing_sandbox_def)
qed


end
