(* ===== verification/Lifecycle.thy ===== *)
theory Lifecycle
  imports Sandbox
begin

text \<open>\<open>int(x)\<close> of a float.\<close>

definition trunc :: "rat \<Rightarrow> int" where
  "trunc r = (if 0 \<le> r then \<lfloor>r\<rfloor> else \<lceil>r\<rceil>)"

text \<open>
  The contract between a sandbox provider and the bracket of the base class.  A provider that creates
  something outside (a container, a remote machine) keeps track of it: \<open>owned\<close> says that the outside
  holds nothing of this sandbox but what it knows of, \<open>clean\<close> that it holds nothing at all.  What a start
  leaves is owned, whatever its outcome, and a stop cleans it.
\<close>

locale container_life =
  fixes p :: "'s provider" and owned clean :: "'s \<Rightarrow> bool"
  assumes start_owned: "clean s \<Longrightarrow> owned (fst (pr_start p limit s))"
    and stop_clean: "owned s \<Longrightarrow> \<exists>s'. pr_stop p s = (s', Inr ()) \<and> clean s'"
begin

lemma run_start_owned: "clean s \<Longrightarrow> owned (fst (run_start fr timeout p s))"
  using start_owned [of s "if timeout > 0 then Some timeout else None"]
  by (auto simp: run_start_def split: prod.split sum.split)

text \<open>A failed start is cleaned up, unless a control-flow exception ended it.\<close>

lemma attempts_clean:
  assumes "clean s" "0 < n" "start_attempts fr timeout p n s = (s', r)"
  shows "(r = Inr () \<longrightarrow> owned s') \<and> (\<forall>e. r = Inl e \<longrightarrow> is_exception e \<longrightarrow> clean s')"
  using assms
proof (induction n arbitrary: s)
  case (Suc n)
  obtain s1 x where st: "run_start fr timeout p s = (s1, x)" by (cases "run_start fr timeout p s")
  have o1: "owned s1" using run_start_owned [OF Suc.prems(1), of fr timeout] st by simp
  obtain s2 where sp: "pr_stop p s1 = (s2, Inr ())" and c2: "clean s2" using stop_clean [OF o1] by blast
  show ?case
  proof (cases "\<exists>e. x = Inl e \<and> is_exception e \<and> n \<noteq> 0")
    case True
    then have "start_attempts fr timeout p n s2 = (s', r)" using Suc.prems(3) st sp by auto
    then show ?thesis using Suc.IH [OF c2] True by blast
  next
    case False
    then show ?thesis using Suc.prems(3) st sp o1 c2 by (cases x) (auto split: if_splits)
  qed
qed simp

lemma entered_cleans:
  assumes "clean s" and body: "\<And>t. owned t \<Longrightarrow> owned (fst (body t))"
    and run: "sandbox_entered fr timeout p retry body s = (s', r)"
  shows "clean s' \<or> (\<exists>e. r = Inl e \<and> \<not> is_exception e)"
proof -
  obtain s1 x where en: "start_attempts fr timeout p (nat (max 1 retry)) s = (s1, x)"
    by (cases "start_attempts fr timeout p (nat (max 1 retry)) s")
  note A = attempts_clean [OF assms(1) _ en]
  show ?thesis
  proof (cases x)
    case (Inl e)
    then show ?thesis using run en A by (auto simp: sandbox_entered_def sandbox_enter_def)
  next
    case (Inr u)
    obtain s2 y where b: "body s1 = (s2, y)" by (cases "body s1")
    have "owned s2" using body [of s1] A Inr b by simp
    then obtain s3 where sp: "pr_stop p s2 = (s3, Inr ())" and c: "clean s3" using stop_clean by blast
    have "s' = s3" using run en Inr b sp by (simp add: sandbox_entered_def sandbox_enter_def)
    then show ?thesis using c by simp
  qed
qed

end

end
