(* ===== verification/Docker.thy ===== *)
theory Docker
  imports Lifecycle
begin

text \<open>
  The Docker provider, \<open>sandbox/docker.py\<close>: a sandbox is one container, driven by the \<open>docker\<close>
  command.  Its start, stop and exec make a provider for the life cycle of the base class.
\<close>

record docker_config =
  dc_image :: string
  dc_binary :: string
  dc_container_name :: "string option"
  dc_run_args :: "string list"
  dc_pull_policy :: string
  dc_entrypoint :: string
  dc_command :: "string list"

text \<open>The constructor; \<open>None\<close> or an empty list of command words stands for \<open>infinity\<close>.\<close>

definition new_docker ::
  "string \<Rightarrow> string \<Rightarrow> string option \<Rightarrow> string list \<Rightarrow> string \<Rightarrow> string \<Rightarrow> string list \<Rightarrow> docker_config result" where
  "new_docker docker_image binary container_name run_args pull_policy entrypoint command =
     (if pull_policy \<notin> {''always'', ''missing'', ''never''}
      then Inl (ValueError (''pull_policy must be one of: '' @ repr_str ''always'' @ '', '' @ repr_str ''missing'' @ '', '' @ repr_str ''never''))
      else Inr \<lparr>dc_image = docker_image, dc_binary = binary, dc_container_name = container_name, dc_run_args = run_args,
             dc_pull_policy = pull_policy, dc_entrypoint = entrypoint,
             dc_command = (if command = [] then [''infinity''] else command)\<rparr>)"

text \<open>
  The host: \<open>dh_spawn argv cancel timeout\<close> runs a process to its end.  After \<open>cancel\<close> seconds the
  waiting task is cancelled and the process runs on, after \<open>timeout\<close> seconds the process is killed; both
  raise \<open>TimeoutError\<close> at the caller.  \<open>dh_uuid\<close> draws the hexadecimal digits of a name.
\<close>

record 's docker_host =
  dh_spawn :: "string list \<Rightarrow> rat option \<Rightarrow> rat option \<Rightarrow> 's \<Rightarrow> 's \<times> exec_result result"
  dh_uuid :: "'s \<Rightarrow> string"

text \<open>The sandbox object: the container it owns, in the world of the host.\<close>

record 's docker_state =
  dk_container :: "string option"
  dk_world :: 's

definition run_docker ::
  "'s docker_host \<Rightarrow> docker_config \<Rightarrow> string list \<Rightarrow> rat option \<Rightarrow> rat option \<Rightarrow> 's docker_state \<Rightarrow> 's docker_state \<times> exec_result result" where
  "run_docker h c args cancel timeout d =
     (case dh_spawn h (dc_binary c # args) cancel timeout (dk_world d) of
        (w, Inr r) \<Rightarrow> (d\<lparr>dk_world := w\<rparr>, Inr r)
      | (w, Inl e) \<Rightarrow>
          (d\<lparr>dk_world := w\<rparr>,
           Inl (if exn_class e = ''FileNotFoundError''
                then RuntimeError (''Docker executable '' @ repr_str (dc_binary c) @ '' was not found'') else e)))"

text \<open>\<open>stderr.strip() or stdout.strip()\<close>.\<close>

definition detail_of :: "exec_result \<Rightarrow> string" where
  "detail_of r = (if strip (xr_stderr r) \<noteq> [] then strip (xr_stderr r) else strip (xr_stdout r))"

definition container_name :: "'s docker_host \<Rightarrow> docker_config \<Rightarrow> 's \<Rightarrow> string" where
  "container_name h c w =
     (case dc_container_name c of
        Some n \<Rightarrow> if n \<noteq> [] then n else ''uni-agent-'' @ take 12 (dh_uuid h w)
      | None \<Rightarrow> ''uni-agent-'' @ take 12 (dh_uuid h w))"

definition run_args_of :: "docker_config \<Rightarrow> string \<Rightarrow> string list" where
  "run_args_of c name =
     [''run'', ''--rm'', ''-d'', ''--name'', name, ''--pull'', dc_pull_policy c] @
     (if dc_entrypoint c \<noteq> [] then [''--entrypoint'', dc_entrypoint c] else []) @ dc_run_args c @ [dc_image c] @ dc_command c"

definition check_image :: "'s docker_host \<Rightarrow> docker_config \<Rightarrow> rat option \<Rightarrow> 's docker_state \<Rightarrow> 's docker_state \<times> unit result" where
  "check_image h c cancel d =
     (if dc_pull_policy c \<noteq> ''never'' then (d, Inr ())
      else shell_bind (run_docker h c [''image'', ''inspect'', dc_image c] cancel None d) (\<lambda>r d1.
        (d1, if xr_exit_code r = 0 then Inr ()
             else Inl (RuntimeError (''Docker image '' @ repr_str (dc_image c) @ '' is not available locally: '' @ detail_of r)))))"

definition docker_start :: "'s docker_host \<Rightarrow> docker_config \<Rightarrow> rat option \<Rightarrow> 's docker_state \<Rightarrow> 's docker_state \<times> unit result" where
  "docker_start h c cancel d =
     (if dk_container d \<noteq> None then (d, Inr ())
      else shell_bind (check_image h c cancel d) (\<lambda>_ d1.
        (let name = container_name h c (dk_world d1) in
         shell_bind (run_docker h c (run_args_of c name) cancel None d1) (\<lambda>r d2.
           if xr_exit_code r = 0 then (d2\<lparr>dk_container := Some name\<rparr>, Inr ())
           else (d2, Inl (RuntimeError (''Failed to start Docker sandbox from '' @ repr_str (dc_image c) @ '': '' @ detail_of r)))))))"

definition docker_stop :: "'s docker_host \<Rightarrow> docker_config \<Rightarrow> 's docker_state \<Rightarrow> 's docker_state \<times> unit result" where
  "docker_stop h c d =
     (case dk_container d of
        None \<Rightarrow> (d, Inr ())
      | Some name \<Rightarrow> shell_bind (run_docker h c [''rm'', ''-f'', name] None None (d\<lparr>dk_container := None\<rparr>)) (\<lambda>_ d1. (d1, Inr ())))"

definition require_container :: "'s docker_state \<Rightarrow> string result" where
  "require_container d =
     (case dk_container d of None \<Rightarrow> Inl (RuntimeError ''DockerSandbox not started; call start() first'') | Some n \<Rightarrow> Inr n)"

definition docker_is_alive :: "'s docker_host \<Rightarrow> docker_config \<Rightarrow> 's docker_state \<Rightarrow> 's docker_state \<times> bool" where
  "docker_is_alive h c d =
     (case dk_container d of
        None \<Rightarrow> (d, False)
      | Some name \<Rightarrow>
          (case run_docker h c [''inspect'', ''--format'', ''{{.State.Running}}'', name] None (Some 10) d of
             (d1, Inr r) \<Rightarrow> (d1, xr_exit_code r = 0 \<and> strip (xr_stdout r) = ''true'')
           | (d1, Inl e) \<Rightarrow> (d1, False)))"

definition exec_args :: "exec_options \<Rightarrow> string \<Rightarrow> string list \<Rightarrow> string list" where
  "exec_args opts name argv =
     [''exec''] @
     (case xo_workdir opts of None \<Rightarrow> [] | Some w \<Rightarrow> if w = [] then [] else [''--workdir'', w]) @
     concat (map (\<lambda>(k, v). [''--env'', k @ ''='' @ v]) (case xo_env opts of None \<Rightarrow> [] | Some e \<Rightarrow> e)) @ [name] @ argv"

definition docker_exec ::
  "'s docker_host \<Rightarrow> docker_config \<Rightarrow> string list \<Rightarrow> exec_options \<Rightarrow> 's docker_state \<Rightarrow> 's docker_state \<times> exec_result result" where
  "docker_exec h c argv opts d =
     shell_bind (d, require_container d) (\<lambda>name d1. run_docker h c (exec_args opts name argv) None (xo_timeout opts) d1)"

definition docker_provider :: "'s docker_host \<Rightarrow> docker_config \<Rightarrow> 's docker_state provider" where
  "docker_provider h c =
     \<lparr>pr_start = docker_start h c, pr_stop = docker_stop h c, pr_exec = docker_exec h c,
      pr_is_timeout_error = base_is_timeout_error, pr_is_alive = docker_is_alive h c\<rparr>"

text \<open>Files are copied by \<open>docker cp\<close>; \<open>parent\<close> is the directory of the remote path.\<close>

definition docker_upload_file ::
  "(rat \<Rightarrow> string) \<Rightarrow> 's docker_host \<Rightarrow> docker_config \<Rightarrow> (string \<Rightarrow> string) \<Rightarrow> string \<Rightarrow> string \<Rightarrow> 's docker_state \<Rightarrow> 's docker_state \<times> unit result" where
  "docker_upload_file fr h c parent local_file remote_file d =
     shell_bind (d, require_container d) (\<lambda>name d1.
     shell_bind
       (if parent remote_file \<in> {[], ''.''} then (d1, Inr ())
        else shell_bind (sandbox_exec fr (docker_provider h c) [''mkdir'', ''-p'', parent remote_file] no_options d1) (\<lambda>r d2.
          (d2, if xr_exit_code r = 0 then Inr ()
               else Inl (RuntimeError (''Failed to create Docker sandbox directory '' @ repr_str (parent remote_file) @ '': '' @
                      strip (xr_stderr r)))))) (\<lambda>_ d3.
     shell_bind (run_docker h c [''cp'', local_file, name @ '':'' @ remote_file] None None d3) (\<lambda>r d4.
     (d4, if xr_exit_code r = 0 then Inr ()
          else Inl (RuntimeError (''Failed to upload '' @ local_file @ '' to '' @ repr_str remote_file @ '': '' @ strip (xr_stderr r)))))))"

text \<open>\<open>make_parent\<close> creates the directory of the local file.\<close>

definition docker_download_file ::
  "'s docker_host \<Rightarrow> docker_config \<Rightarrow> ('s docker_state \<Rightarrow> 's docker_state \<times> unit result) \<Rightarrow> string \<Rightarrow> string \<Rightarrow>
     's docker_state \<Rightarrow> 's docker_state \<times> unit result" where
  "docker_download_file h c make_parent remote_file local_file d =
     shell_bind (make_parent d) (\<lambda>_ d1.
     shell_bind (d1, require_container d1) (\<lambda>name d2.
     shell_bind (run_docker h c [''cp'', name @ '':'' @ remote_file, local_file] None None d2) (\<lambda>r d3.
     (d3, if xr_exit_code r = 0 then Inr ()
          else Inl (RuntimeError (''Failed to download '' @ repr_str remote_file @ '': '' @ strip (xr_stderr r)))))))"

subsection \<open>What is left behind\<close>

text \<open>
  What the \<open>docker\<close> command does to the containers that exist: a successful \<open>run\<close> adds the named one, a
  \<open>run\<close> that fails adds none, \<open>rm -f\<close> returns and removes the named one, and no other command changes
  them.
\<close>

definition docker_daemon :: "('s \<Rightarrow> string set) \<Rightarrow> 's docker_host \<Rightarrow> docker_config \<Rightarrow> bool" where
  "docker_daemon containers h c \<longleftrightarrow>
     (\<forall>name cancel w w' r. dh_spawn h (dc_binary c # run_args_of c name) cancel None w = (w', r) \<longrightarrow>
        containers w' = (case r of Inr x \<Rightarrow> if xr_exit_code x = 0 then insert name (containers w) else containers w
                           | Inl _ \<Rightarrow> containers w)) \<and>
     (\<forall>name w. \<exists>w' x. dh_spawn h [dc_binary c, ''rm'', ''-f'', name] None None w = (w', Inr x) \<and> containers w' = containers w - {name}) \<and>
     (\<forall>cancel w. containers (fst (dh_spawn h [dc_binary c, ''image'', ''inspect'', dc_image c] cancel None w)) = containers w) \<and>
     (\<forall>w. container_name h c w \<notin> containers w)"

lemmas daemon_run = docker_daemon_def [THEN iffD1, THEN conjunct1, rule_format]
lemmas daemon_rm = docker_daemon_def [THEN iffD1, THEN conjunct2, THEN conjunct1, rule_format]
lemmas daemon_inspect = docker_daemon_def [THEN iffD1, THEN conjunct2, THEN conjunct2, THEN conjunct1, rule_format]
lemmas daemon_fresh = docker_daemon_def [THEN iffD1, THEN conjunct2, THEN conjunct2, THEN conjunct2, rule_format]

lemma run_docker_world:
  "run_docker h c args cancel timeout d = (d', r) \<Longrightarrow>
   dk_container d' = dk_container d \<and> dk_world d' = fst (dh_spawn h (dc_binary c # args) cancel timeout (dk_world d)) \<and>
   (\<forall>x. r = Inr x \<longleftrightarrow> snd (dh_spawn h (dc_binary c # args) cancel timeout (dk_world d)) = Inr x)"
  by (auto simp: run_docker_def split: prod.splits sum.splits)

text \<open>The sandbox owns at most the container it started, on top of those that were there.\<close>

definition owns :: "('s \<Rightarrow> string set) \<Rightarrow> string set \<Rightarrow> 's docker_state \<Rightarrow> bool" where
  "owns containers base d \<longleftrightarrow>
     (case dk_container d of
        None \<Rightarrow> containers (dk_world d) = base
      | Some n \<Rightarrow> n \<notin> base \<and> containers (dk_world d) = insert n base)"

lemma check_image_owns:
  assumes dm: "docker_daemon containers h c" and o: "owns containers base d" and r: "check_image h c cancel d = (d', r)"
  shows "owns containers base d' \<and> dk_container d' = dk_container d"
proof (cases "dc_pull_policy c = ''never''")
  case True
  obtain d1 x where i: "run_docker h c [''image'', ''inspect'', dc_image c] cancel None d = (d1, x)"
    by (cases "run_docker h c [''image'', ''inspect'', dc_image c] cancel None d")
  have d: "d' = d1" using r True i by (auto simp: check_image_def shell_bind_def split: sum.splits)
  show ?thesis
    using run_docker_world [OF i] daemon_inspect [OF dm, of cancel "dk_world d"] o unfolding d owns_def
    by (auto split: option.splits)
qed (use o r in \<open>simp add: check_image_def\<close>)

lemma docker_start_owns:
  assumes dm: "docker_daemon containers h c" and o: "owns containers base d" and r: "docker_start h c cancel d = (d', r)"
  shows "owns containers base d'"
proof (cases "dk_container d")
  case (Some n)
  then show ?thesis using r o by (simp add: docker_start_def)
next
  case None
  obtain d1 x where i: "check_image h c cancel d = (d1, x)" by (cases "check_image h c cancel d")
  note I = check_image_owns [OF dm o i]
  show ?thesis
  proof (cases x)
    case (Inl e)
    then show ?thesis using r i None I by (simp add: docker_start_def shell_bind_def)
  next
    case (Inr u)
    let ?n = "container_name h c (dk_world d1)"
    obtain d2 y where s: "run_docker h c (run_args_of c ?n) cancel None d1 = (d2, y)"
      by (cases "run_docker h c (run_args_of c ?n) cancel None d1")
    obtain w z where sp: "dh_spawn h (dc_binary c # run_args_of c ?n) cancel None (dk_world d1) = (w, z)"
      by (cases "dh_spawn h (dc_binary c # run_args_of c ?n) cancel None (dk_world d1)")
    have base: "containers (dk_world d1) = base" using I None by (auto simp: owns_def)
    have fresh: "?n \<notin> base" using daemon_fresh [OF dm, of "dk_world d1"] base by simp
    note W = run_docker_world [OF s, unfolded sp, simplified] and D = daemon_run [OF dm sp]
    have n: "dk_container d1 = None" using I None by simp
    show ?thesis
    proof (cases y)
      case (Inl e)
      then have "containers w = base" using W D base by (cases z) auto
      moreover have "d' = d2" using r i None Inr s Inl by (simp add: docker_start_def shell_bind_def Let_def)
      ultimately show ?thesis using W n by (simp add: owns_def)
    next
      case y: (Inr v)
      then have w: "containers w = (if xr_exit_code v = 0 then insert ?n base else base)" using W D base by auto
      have "d' = (if xr_exit_code v = 0 then d2\<lparr>dk_container := Some ?n\<rparr> else d2)"
        using r i None Inr s y by (simp add: docker_start_def shell_bind_def Let_def split: if_splits)
      then show ?thesis using W n w fresh by (simp add: owns_def)
    qed
  qed
qed

lemma docker_stop_owns:
  assumes dm: "docker_daemon containers h c" and o: "owns containers base d"
  shows "\<exists>d'. docker_stop h c d = (d', Inr ()) \<and> owns containers base d' \<and> dk_container d' = None"
proof (cases "dk_container d")
  case (Some n)
  obtain w x where sp: "dh_spawn h [dc_binary c, ''rm'', ''-f'', n] None None (dk_world d) = (w, Inr x)"
    and w: "containers w = containers (dk_world d) - {n}" using daemon_rm [OF dm] by blast
  then show ?thesis using Some o by (auto simp: docker_stop_def run_docker_def shell_bind_def owns_def)
qed (use o in \<open>simp add: docker_stop_def\<close>)

text \<open>The contract of the \<open>docker\<close> command is part of the predicates, so that the laws need no premise.\<close>

definition docker_owned :: "('s \<Rightarrow> string set) \<Rightarrow> 's docker_host \<Rightarrow> docker_config \<Rightarrow> string set \<Rightarrow> 's docker_state \<Rightarrow> bool" where
  "docker_owned containers h c base d \<longleftrightarrow> docker_daemon containers h c \<and> owns containers base d"

definition docker_clean :: "('s \<Rightarrow> string set) \<Rightarrow> 's docker_host \<Rightarrow> docker_config \<Rightarrow> string set \<Rightarrow> 's docker_state \<Rightarrow> bool" where
  "docker_clean containers h c base d \<longleftrightarrow> docker_owned containers h c base d \<and> dk_container d = None"

interpretation docker: container_life "docker_provider h c" "docker_owned containers h c base" "docker_clean containers h c base"
  for h :: "'s docker_host" and c containers base
proof
  fix d :: "'s docker_state" and limit
  show "docker_owned containers h c base (fst (pr_start (docker_provider h c) limit d))" if "docker_clean containers h c base d"
    using that docker_start_owns
    by (metis docker_clean_def docker_owned_def docker_provider_def eq_fst_iff provider.select_convs(1))
  show "\<exists>d'. pr_stop (docker_provider h c) d = (d', Inr ()) \<and> docker_clean containers h c base d'"
    if "docker_owned containers h c base d"
    using that docker_stop_owns by (fastforce simp: docker_clean_def docker_owned_def docker_provider_def)
qed

text \<open>
  a Docker sandbox leaves no container behind: provided the \<open>docker\<close> command keeps its contract,
  leaving the bracket around a body that does not touch the containers itself, with a result or an
  exception, after any number of failed starts, the containers of the host are those that were there
  before, unless a control-flow exception ended the start, which is not cleaned up.
\<close>

theorem docker_leaves_no_container:
  assumes "docker_daemon containers h c" and "dk_container d = None"
    and "\<forall>e. containers (dk_world (fst (body e))) = containers (dk_world e) \<and> dk_container (fst (body e)) = dk_container e"
    and "sandbox_entered fr timeout (docker_provider h c) retry body d = (d', r)"
  shows "(containers (dk_world d') = containers (dk_world d) \<and> dk_container d' = None) \<or>
    (\<exists>e. r = Inl e \<and> \<not> is_exception e)"
proof -
  let ?base = "containers (dk_world d)"
  have "docker_clean containers h c ?base d" using assms(1,2) by (simp add: docker_clean_def docker_owned_def owns_def)
  moreover have "docker_owned containers h c ?base (fst (body t))" if "docker_owned containers h c ?base t" for t
    using that assms(3) by (auto simp: docker_owned_def owns_def split: option.splits)
  ultimately have "docker_clean containers h c ?base d' \<or> (\<exists>e. r = Inl e \<and> \<not> is_exception e)"
    using docker.entered_cleans [OF _ _ assms(4)] by blast
  then show ?thesis by (auto simp: docker_clean_def docker_owned_def owns_def)
qed

text \<open>
  The contract of \<open>run\<close> excludes one case: when the time limit of the start cancels the wait for a
  \<open>docker run\<close> that goes on to create its container, the sandbox does not know the name, and its
  clean-up leaves the container.
\<close>

lemma cancelled_run_leaves_container:
  assumes "dk_container d = None" "dc_pull_policy c \<noteq> ''never''"
    and "dh_spawn h (dc_binary c # run_args_of c (container_name h c (dk_world d))) cancel None (dk_world d) =
      (w, Inl (OtherException ''TimeoutError'' []))"
  shows "docker_start h c cancel d = (d\<lparr>dk_world := w\<rparr>, Inl (OtherException ''TimeoutError'' [])) \<and>
    docker_stop h c (d\<lparr>dk_world := w\<rparr>) = (d\<lparr>dk_world := w\<rparr>, Inr ())"
  using assms by (simp add: docker_start_def check_image_def shell_bind_def run_docker_def Let_def docker_stop_def)

text \<open>A host with room for one container, \<open>uni-agent-a\<close>; its world says whether it runs.\<close>

definition demo_docker_host :: "bool docker_host" where
  "demo_docker_host =
     \<lparr>dh_spawn = (\<lambda>argv cancel timeout w.
        let op = argv ! 1; done_with = (\<lambda>n :: int. Inr \<lparr>xr_exit_code = n, xr_stdout = [], xr_stderr = []\<rparr>) in
        if op = ''run'' then (if \<not> w \<and> argv ! 5 = ''uni-agent-a'' then (True, done_with 0) else (w, done_with 1))
        else if op = ''rm'' then (w \<and> argv ! 3 \<noteq> ''uni-agent-a'', done_with 0)
        else (w, done_with 0)),
      dh_uuid = (\<lambda>w. if w then ''b'' else ''a'')\<rparr>"

definition demo_containers :: "bool \<Rightarrow> string set" where
  "demo_containers w = (if w then {''uni-agent-a''} else {})"

definition demo_docker_config :: docker_config where
  "demo_docker_config =
     \<lparr>dc_image = ''python'', dc_binary = ''docker'', dc_container_name = None, dc_run_args = [], dc_pull_policy = ''missing'',
      dc_entrypoint = ''sleep'', dc_command = [''infinity'']\<rparr>"

lemma demo_spawn_run:
  "dh_spawn demo_docker_host (b # run_args_of c n) cancel timeout w =
     (if \<not> w \<and> n = ''uni-agent-a'' then (True, Inr \<lparr>xr_exit_code = 0, xr_stdout = [], xr_stderr = []\<rparr>)
      else (w, Inr \<lparr>xr_exit_code = 1, xr_stdout = [], xr_stderr = []\<rparr>))"
  unfolding demo_docker_host_def run_args_of_def Let_def by simp

lemma demo_spawn_rm:
  "dh_spawn demo_docker_host [b, ''rm'', ''-f'', n] cancel timeout w =
     (w \<and> n \<noteq> ''uni-agent-a'', Inr \<lparr>xr_exit_code = 0, xr_stdout = [], xr_stderr = []\<rparr>)"
  unfolding demo_docker_host_def Let_def by simp

lemma demo_spawn_other:
  "op \<noteq> ''run'' \<Longrightarrow> op \<noteq> ''rm'' \<Longrightarrow>
     dh_spawn demo_docker_host (b # op # rest) cancel timeout w = (w, Inr \<lparr>xr_exit_code = 0, xr_stdout = [], xr_stderr = []\<rparr>)"
  unfolding demo_docker_host_def Let_def by simp

lemma demo_fresh: "container_name demo_docker_host demo_docker_config w \<notin> demo_containers w"
  by (cases w) (simp_all add: container_name_def demo_docker_config_def demo_docker_host_def demo_containers_def)

lemma demo_docker_daemon: "docker_daemon demo_containers demo_docker_host demo_docker_config"
  unfolding docker_daemon_def
proof (intro conjI allI impI)
  fix name cancel w w' and r :: "exec_result result"
  assume "dh_spawn demo_docker_host (dc_binary demo_docker_config # run_args_of demo_docker_config name) cancel None w = (w', r)"
  then show "demo_containers w' = (case r of Inr x \<Rightarrow> if xr_exit_code x = 0 then insert name (demo_containers w) else demo_containers w
      | Inl _ \<Rightarrow> demo_containers w)"
    unfolding demo_spawn_run demo_containers_def by (cases "\<not> w \<and> name = ''uni-agent-a''") auto
next
  fix name w
  show "\<exists>w' x. dh_spawn demo_docker_host [dc_binary demo_docker_config, ''rm'', ''-f'', name] None None w = (w', Inr x) \<and>
      demo_containers w' = demo_containers w - {name}"
    unfolding demo_spawn_rm demo_containers_def by (cases "w \<and> name \<noteq> ''uni-agent-a''") auto
next
  fix cancel w
  show "demo_containers (fst (dh_spawn demo_docker_host [dc_binary demo_docker_config, ''image'', ''inspect'', dc_image demo_docker_config] cancel None w)) =
      demo_containers w"
    by (simp add: demo_spawn_other)
qed (rule demo_fresh)

theorem docker_leaves_no_container_witness:
  "\<exists>(d' :: bool docker_state) (r :: exec_result result).
     sandbox_entered (\<lambda>_. ''5'') 5 (docker_provider demo_docker_host demo_docker_config) 2
       (docker_exec demo_docker_host demo_docker_config [''ls''] no_options) \<lparr>dk_container = None, dk_world = False\<rparr> = (d', r) \<and>
     ((demo_containers (dk_world d') = {} \<and> dk_container d' = None) \<or> (\<exists>e. r = Inl e \<and> \<not> is_exception e))"
proof -
  let ?b = "docker_exec demo_docker_host demo_docker_config [''ls''] no_options"
  have "\<forall>e. demo_containers (dk_world (fst (?b e))) = demo_containers (dk_world e) \<and> dk_container (fst (?b e)) = dk_container e"
    by (simp add: docker_exec_def shell_bind_def require_container_def run_docker_def exec_args_def demo_spawn_other
        split: option.splits)
  then show ?thesis
    using docker_leaves_no_container [OF demo_docker_daemon, of "\<lparr>dk_container = None, dk_world = False\<rparr>" ?b "\<lambda>_. ''5''" 5 2]
    by (auto simp: demo_containers_def prod_eq_iff)
qed

end
