(* ===== verification/ClaudeCode.thy ===== *)
theory ClaudeCode
  imports Sandbox ReAct
begin

text \<open>
  The Claude Code agent, \<open>agents/claude_code/agent.py\<close>: it installs the \<open>claude\<close> program in the sandbox,
  points it at the Anthropic endpoint of the model and runs it once.
\<close>

record claude_config =
  cc_model :: model_config
  cc_max_turns :: "int option"
  cc_disallowed_tools :: "string list"
  cc_permission_mode :: string
  cc_verbose :: bool
  cc_run_timeout :: rat
  cc_extra_args :: "string list"
  cc_extra_env :: env_vars

definition QUIET_ENV :: env_vars where
  "QUIET_ENV = map (\<lambda>(k, v). (''CLAUDE_CODE_'' @ k, v))
     [(''DISABLE_NONESSENTIAL_TRAFFIC'', ''1''), (''DISABLE_EXPERIMENTAL_BETAS'', ''1''), (''ATTRIBUTION_HEADER'', ''0''),
      (''DISABLE_BACKGROUND_TASKS'', ''1''), (''FORK_SUBAGENT'', ''0''), (''SKIP_PROMPT_HISTORY'', ''1''),
      (''DISABLE_TERMINAL_TITLE'', ''1'')]"

definition NPM_INSTALL :: string where
  "NPM_INSTALL = ''npm install -g @anthropic-ai/claude-code --no-audit --no-fund''"

text \<open>The endpoint: Claude Code appends \<open>/v1/messages\<close> itself.\<close>

definition strip_v1 :: "string \<Rightarrow> string" where
  "strip_v1 base_url =
     (let b = rstrip_slash base_url in if endswith b ''/v1'' then rstrip_slash (take (length b - 3) b) else b)"

text \<open>A message is a dict of strings; its text is the \<open>content\<close>.\<close>

type_synonym text_message = "(string \<times> string) list"

definition content_with_role :: "string \<Rightarrow> text_message list \<Rightarrow> string option result" where
  "content_with_role role messages =
     (case find (\<lambda>m. dget m ''role'' = Some role) messages of
        None \<Rightarrow> Inr None
      | Some m \<Rightarrow> (case dget m ''content'' of None \<Rightarrow> Inl (KeyError ''content'') | Some c \<Rightarrow> Inr (Some c)))"

definition split_messages :: "text_message list \<Rightarrow> (string option \<times> string) result" where
  "split_messages messages =
     (if length messages > 2
      then Inl (ValueError (''claude_code accepts at most 2 messages (system?, user), got '' @ str_of_nat (length messages)))
      else
        rbind (content_with_role ''user'' messages) (\<lambda>problem.
          case problem of
            Some (c # cs) \<Rightarrow> rbind (content_with_role ''system'' messages) (\<lambda>system. Inr (system, c # cs))
          | _ \<Rightarrow> Inl (ValueError (''claude_code requires a '' @ repr_str ''user'' @ '' message (the problem statement)''))))"

definition claude_model_name :: "claude_config \<Rightarrow> string result" where
  "claude_model_name c =
     (case md_model_name (cc_model c) of
        Some (m # ms) \<Rightarrow> Inr (m # ms)
      | _ \<Rightarrow> Inl (ValueError ''claude_code: set config.model.model_name (the model claude sends)''))"

definition claude_argv :: "claude_config \<Rightarrow> string \<Rightarrow> string option \<Rightarrow> string list result" where
  "claude_argv c problem system_prompt =
     rbind (claude_model_name c) (\<lambda>model.
       Inr ([''claude'', ''-p'', problem, ''--model'', model, ''--permission-mode'', cc_permission_mode c] @
            (if cc_disallowed_tools c \<noteq> [] then [''--disallowedTools'', join '','' (cc_disallowed_tools c)] else []) @
            (case cc_max_turns c of None \<Rightarrow> [] | Some n \<Rightarrow> [''--max-turns'', str_of_int n]) @
            (case system_prompt of Some (s # ss) \<Rightarrow> [''--append-system-prompt'', s # ss] | _ \<Rightarrow> []) @
            (if cc_verbose c then [''--verbose''] else []) @ cc_extra_args c))"

text \<open>\<open>uuid\<close> is the placeholder token of a session without a key.\<close>

definition claude_env :: "string \<Rightarrow> claude_config \<Rightarrow> string \<Rightarrow> env_vars result" where
  "claude_env uuid c endpoint =
     rbind (claude_model_name c) (\<lambda>model.
       (let key = md_api_key (cc_model c); external = (key \<noteq> [] \<and> key \<noteq> ''EMPTY'') in
        Inr (dupdate (dupdate
          [(''ANTHROPIC_BASE_URL'', endpoint), (''IS_SANDBOX'', ''1''),
           (''ANTHROPIC_API_KEY'', if external then [] else ''sk-ant-REDACTED''),
           (''ANTHROPIC_AUTH_TOKEN'', if external then key else uuid),
           (''ANTHROPIC_MODEL'', model), (''ANTHROPIC_DEFAULT_OPUS_MODEL'', model), (''ANTHROPIC_DEFAULT_SONNET_MODEL'', model),
           (''ANTHROPIC_DEFAULT_HAIKU_MODEL'', model), (''CLAUDE_CODE_SUBAGENT_MODEL'', model),
           (''NO_PROXY'', ''*''), (''no_proxy'', ''*''), (''HTTP_PROXY'', []), (''http_proxy'', []), (''HTTPS_PROXY'', []),
           (''https_proxy'', [])] QUIET_ENV) (cc_extra_env c))))"

definition found :: "string \<Rightarrow> string" where
  "found program = ''command -v '' @ program @ '' >/dev/null 2>&1''"

text \<open>\<open>native\<close> is the script of the native installer.\<close>

definition ensure_claude :: "(rat \<Rightarrow> string) \<Rightarrow> string \<Rightarrow> 's provider \<Rightarrow> 's \<Rightarrow> 's \<times> unit result" where
  "ensure_claude fr native p s =
     shell_bind (exec_shell fr p (found ''claude'') no_options s) (\<lambda>here s1.
     if xr_exit_code here = 0 then (s1, Inr ())
     else shell_bind (exec_shell fr p (found ''npm'') no_options s1) (\<lambda>npm s2.
     (let has_npm = (xr_exit_code npm = 0) in
     shell_bind (exec_shell fr p (if has_npm then NPM_INSTALL else native) (no_options\<lparr>xo_timeout := Some 600\<rparr>) s2) (\<lambda>r s3.
     if xr_exit_code r \<noteq> 0
     then (s3, Inl (RuntimeError (''claude_code: failed to install Claude Code with '' @
                 (if has_npm then ''npm'' else ''native installer'') @ '': '' @
                 last_chars 2000 (strip (if xr_stderr r \<noteq> [] then xr_stderr r else if xr_stdout r \<noteq> [] then xr_stdout r
                   else ''unknown error'')))))
     else shell_bind (exec_shell fr p (found ''claude'') no_options s3) (\<lambda>again s4.
     (s4, if xr_exit_code again \<noteq> 0
          then Inl (RuntimeError ''claude_code: installation finished but claude is not available on PATH'')
          else Inr ()))))))"

definition SAFE_DIRECTORY :: string where
  "SAFE_DIRECTORY = ''git config --system safe.directory '' @ [quote1] @ ''*'' @ [quote1] @ '' || true''"

definition claude_reply :: "exec_result \<Rightarrow> agent_reply" where
  "claude_reply r =
     \<lparr>ap_info = [(''exit_code'', PInt (xr_exit_code r)), (''stdout_tail'', PStr (last_chars 2000 (strip (xr_stdout r)))),
        (''stderr_tail'', PStr (last_chars 2000 (strip (xr_stderr r))))],
      ap_finished = Some (xr_exit_code r = 0)\<rparr>"

definition claude_run ::
  "(rat \<Rightarrow> string) \<Rightarrow> string \<Rightarrow> string \<Rightarrow> claude_config \<Rightarrow> 's provider \<Rightarrow> text_message list \<Rightarrow> 's \<Rightarrow> 's \<times> agent_reply result" where
  "claude_run fr native uuid c p messages s =
     (case md_base_url (cc_model c) of
        Some (u # us) \<Rightarrow>
          shell_bind (s, split_messages messages) (\<lambda>(system_prompt, problem) s1.
          shell_bind (ensure_claude fr native p s1) (\<lambda>_ s2.
          shell_bind (exec_shell fr p SAFE_DIRECTORY no_options s2) (\<lambda>_ s3.
          shell_bind (s3, rbind (claude_argv c problem system_prompt) (\<lambda>argv.
                            rbind (claude_env uuid c (strip_v1 (u # us))) (\<lambda>env. Inr (argv, env)))) (\<lambda>(argv, env) s4.
          shell_bind (sandbox_exec fr p argv (no_options\<lparr>xo_env := Some env, xo_timeout := Some (cc_run_timeout c)\<rparr>) s4) (\<lambda>r s5.
          (s5, Inr (claude_reply r)))))))
      | _ \<Rightarrow> (s, Inl (ValueError ''claude_code: config.model.base_url is not set (the gateway/vLLM policy endpoint)'')))"

end
