(* ===== verification/ClaudeProps.thy ===== *)
theory ClaudeProps
  imports ClaudeCode GatewayProps
begin

text \<open>What a Claude Code run needs: its session's endpoint and an installed program.\<close>

lemma rstrip_slash_id: "s = [] \<or> last s \<noteq> CHR ''/'' \<Longrightarrow> rstrip_slash s = s"
  by (cases s rule: rev_cases) (auto simp: rstrip_slash_def)

lemma strip_v1_root: "r \<noteq> [] \<Longrightarrow> last r \<noteq> CHR ''/'' \<Longrightarrow> strip_v1 (r @ ''/v1'') = r"
  by (simp add: strip_v1_def rstrip_slash_id Let_def endswith_iff)

lemma create_session_handle:
  assumes "create_session now sid sp a = (a', Inr h)"
  shows "\<exists>url. ac_server_base_url a = Some url \<and> sh_base_url h = Some (url @ ''/sessions/'' @ sid @ ''/v1'') \<and>
    dhas (ac_sessions a') sid"
  using assms by (auto simp: create_session_def put_session_def Let_def dict_simps split: option.splits if_splits sum.splits)

text \<open>A run that returns found or installed the program first.\<close>

lemma ensure_claude_found:
  assumes "ensure_claude fr native p s = (s', Inr u)"
  shows "\<exists>s1 r. exec_shell fr p (found ''claude'') no_options s1 = (s', Inr r) \<and> xr_exit_code r = 0"
proof -
  obtain s1 x where e: "exec_shell fr p (found ''claude'') no_options s = (s1, x)"
    by (cases "exec_shell fr p (found ''claude'') no_options s")
  show ?thesis
  proof (cases "\<exists>r. x = Inr r \<and> xr_exit_code r = 0")
    case True
    then obtain r where r: "x = Inr r" "xr_exit_code r = 0" by blast
    then have "s' = s1" using assms e by (simp add: ensure_claude_def shell_bind_def)
    then show ?thesis using e r by blast
  next
    case False
    then show ?thesis using assms e
      by (auto simp: ensure_claude_def shell_bind_def Let_def split: prod.splits sum.splits if_splits)
  qed
qed


text \<open>A sandbox in which every command succeeds.\<close>

definition obliging_sandbox :: "unit provider" where
  "obliging_sandbox =
     \<lparr>pr_start = (\<lambda>_ s. (s, Inr ())), pr_stop = (\<lambda>s. (s, Inr ())),
      pr_exec = (\<lambda>_ _ s. (s, Inr \<lparr>xr_exit_code = 0, xr_stdout = [], xr_stderr = []\<rparr>)),
      pr_is_timeout_error = base_is_timeout_error, pr_is_alive = (\<lambda>s. (s, True))\<rparr>"

definition demo_claude :: "string \<Rightarrow> claude_config" where
  "demo_claude url =
     \<lparr>cc_model = \<lparr>md_base_url = Some url, md_api_key = ''EMPTY'', md_model_name = Some ''m'', md_temperature = None, md_top_p = None,
        md_top_k = None, md_max_total_tokens = None, md_max_tokens_per_turn = None\<rparr>,
      cc_max_turns = Some 80, cc_disallowed_tools = [''Agent''], cc_permission_mode = ''bypassPermissions'', cc_verbose = False,
      cc_run_timeout = 1800, cc_extra_args = [], cc_extra_env = []\<rparr>"

lemma demo_claude_run:
  "\<exists>r. claude_run fr native uuid (demo_claude (c # cs)) obliging_sandbox
     [[(''role'', ''user''), (''content'', ''fix it'')]] () = ((), Inr r)"
  by (simp add: claude_run_def demo_claude_def split_messages_def content_with_role_def shell_bind_def ensure_claude_def exec_shell_def
      sandbox_exec_def obliging_sandbox_def claude_argv_def claude_env_def claude_model_name_def Let_def)


end
