(* ===== verification/MiniSwe.thy ===== *)
theory MiniSwe
  imports Sandbox ReAct
begin

text \<open>
  The adapter for mini-swe-agent, \<open>agents/mini_swe_agent_blackbox/agent.py\<close>: the environment that forwards
  the agent's commands to the sandbox, the timed model call, the configuration it hands over and the
  thread the agent runs in.  The package \<open>minisweagent\<close> is a parameter.
\<close>

record mini_config =
  mn_model :: model_config
  mn_working_dir :: string
  mn_step_limit :: int
  mn_command_timeout :: int
  mn_agent_timeout :: int
  mn_cost_limit :: rat
  mn_max_format_errors :: int
  mn_system_template :: "string option"
  mn_instance_template :: string

definition SYSTEM_TEMPLATE :: string where
  "SYSTEM_TEMPLATE = unlines [''You are a software engineering agent.'', ''Use bash to inspect and modify the repository.'',
     ''When you have completed the task, run:'', ''COMPLETE_TASK_AND_SUBMIT_FINAL_OUTPUT'',
     ''followed by a concise summary of the changes.''] @ nl"

subsection \<open>The environment\<close>

text \<open>\<open>splitlines(keepends=True)\<close>.\<close>

definition is_line_end :: "char \<Rightarrow> bool" where
  "is_line_end c = ((of_char c :: nat) \<in> {10, 11, 12, 13, 28, 29, 30, 133})"

fun keep_lines :: "string \<Rightarrow> string \<Rightarrow> string list" where
  "keep_lines cur [] = (if cur = [] then [] else [cur])"
| "keep_lines cur [c] = [cur @ [c]]"
| "keep_lines cur (c # d # s) =
     (if c = cr \<and> d = lf then (cur @ [c, d]) # keep_lines [] s
      else if is_line_end c then (cur @ [c]) # keep_lines [] (d # s)
      else keep_lines (cur @ [c]) (d # s))"

record cmd_output =
  co_output :: string
  co_returncode :: int
  co_exception_info :: string
  co_extra :: "(string \<times> string) option"

definition COMPLETE :: string where "COMPLETE = ''COMPLETE_TASK_AND_SUBMIT_FINAL_OUTPUT''"

text \<open>\<open>_check_finished\<close>: the submission, when the command's first line asks for it.\<close>

definition check_finished :: "cmd_output \<Rightarrow> string option" where
  "check_finished r =
     (case keep_lines [] (lstrip (co_output r)) of
        first # rest \<Rightarrow> if strip first = COMPLETE \<and> co_returncode r = 0 then Some (concat rest) else None
      | [] \<Rightarrow> None)"

record env_stats =
  es_interaction_s :: rat
  es_calls :: nat
  es_durations :: "rat list"

datatype env_reply = Ran cmd_output | Submitted string

definition cmd_output_of :: "exec_result result \<Rightarrow> cmd_output" where
  "cmd_output_of r =
     (case r of
        Inr x \<Rightarrow> \<lparr>co_output = xr_stdout x @ xr_stderr x, co_returncode = xr_exit_code x, co_exception_info = [], co_extra = None\<rparr>
      | Inl e \<Rightarrow> \<lparr>co_output = [], co_returncode = -1,
                co_exception_info = ''An error occurred while executing the command: '' @ exn_str e,
                co_extra = Some (exn_class e, exn_str e)\<rparr>)"

text \<open>
  \<open>execute\<close> on the world and the statistics; an empty directory and a zero limit fall back to the
  configuration.
\<close>

definition mini_execute ::
  "(rat \<Rightarrow> string) \<Rightarrow> ('s \<Rightarrow> rat) \<Rightarrow> 's provider \<Rightarrow> string \<Rightarrow> int \<Rightarrow> string \<Rightarrow> string \<Rightarrow> int option \<Rightarrow> 's \<times> env_stats \<Rightarrow>
     ('s \<times> env_stats) \<times> env_reply result" where
  "mini_execute fr clock p dir limit command cwd timeout se =
     (let (s, st) = se;
          opts = no_options\<lparr>xo_workdir := Some (if cwd \<noteq> [] then cwd else dir),
                   xo_timeout := Some (of_int (case timeout of Some t \<Rightarrow> if t \<noteq> 0 then t else limit | None \<Rightarrow> limit))\<rparr>;
          (s1, r) = exec_shell fr p command opts s in
      case r of
        Inl (BaseExc c) \<Rightarrow> ((s1, st), Inl (BaseExc c))
      | _ \<Rightarrow>
          (let out = cmd_output_of r; dt = clock s1 - clock s;
               st1 = \<lparr>es_interaction_s = es_interaction_s st + dt, es_calls = es_calls st + 1, es_durations = es_durations st @ [dt]\<rparr> in
           ((s1, st1), Inr (case check_finished out of Some sub \<Rightarrow> Submitted sub | None \<Rightarrow> Ran out))))"

subsection \<open>The model call\<close>

text \<open>
  A call of the package's own \<open>query\<close> gives a message or raises; an exception of the package carries
  messages.
\<close>

record raised =
  ra_exn :: exn
  ra_messages :: "dict list"

definition plain_raise :: "exn \<Rightarrow> raised" where
  "plain_raise e = \<lparr>ra_exn = e, ra_messages = []\<rparr>"

definition finish_reason :: "(rat \<Rightarrow> string) \<Rightarrow> dict option \<Rightarrow> string option result" where
  "finish_reason fr payload =
     (case payload of
        None \<Rightarrow> Inr None
      | Some m \<Rightarrow>
          rbind (need_dict ''get'' (dget_or m ''extra'' (PDict []))) (\<lambda>extra.
          Inr (case dget extra ''response'' of
                 Some (PDict response) \<Rightarrow>
                   (case dget response ''choices'' of
                      Some (PList (PDict c # _)) \<Rightarrow>
                        (case get_none c ''finish_reason'' of PNone \<Rightarrow> None | v \<Rightarrow> Some (lower (py_str fr v)))
                    | _ \<Rightarrow> None)
               | _ \<Rightarrow> None)))"

definition payload_of :: "raised \<Rightarrow> dict option" where
  "payload_of e = (case ra_messages e of [] \<Rightarrow> None | m # _ \<Rightarrow> Some m)"

definition length_exceeded :: raised where
  "length_exceeded =
     \<lparr>ra_exn = OtherException ''InterruptAgentFlow'' [],
      ra_messages = [[(''role'', PStr ''exit''), (''content'', PStr ''TrajectoryLengthExceeded''),
         (''extra'', PDict [(''exit_status'', PStr ''TrajectoryLengthExceeded''), (''submission'', PStr [])])]]\<rparr>"

record query_stats =
  qs_rollout_s :: rat
  qs_calls :: nat
  qs_call_durations :: "rat list"
  qs_message_durations :: "rat list"

definition no_query_stats :: query_stats where
  "no_query_stats = \<lparr>qs_rollout_s = 0, qs_calls = 0, qs_call_durations = [], qs_message_durations = []\<rparr>"

definition count_call :: "rat \<Rightarrow> query_stats \<Rightarrow> query_stats" where
  "count_call dt st = st\<lparr>qs_rollout_s := qs_rollout_s st + dt, qs_calls := qs_calls st + 1,
     qs_call_durations := qs_call_durations st @ [dt]\<rparr>"

definition count_message :: "rat \<Rightarrow> query_stats \<Rightarrow> query_stats" where
  "count_message dt st = st\<lparr>qs_message_durations := qs_message_durations st @ [dt]\<rparr>"

text \<open>The exception that leaves the \<open>except\<close> clause.\<close>

definition query_error :: "(rat \<Rightarrow> string) \<Rightarrow> raised \<Rightarrow> raised" where
  "query_error fr e =
     (if \<not> is_exception (ra_exn e) then e
      else case finish_reason fr (payload_of e) of
        Inl e' \<Rightarrow> plain_raise e'
      | Inr r \<Rightarrow> if r = Some ''length'' then length_exceeded else e)"

definition mini_query ::
  "(rat \<Rightarrow> string) \<Rightarrow> ('s \<Rightarrow> rat) \<Rightarrow> ('s \<Rightarrow> 's \<times> (raised + dict)) \<Rightarrow> 's \<times> query_stats \<Rightarrow> ('s \<times> query_stats) \<times> (raised + dict)" where
  "mini_query fr clock ask sq =
     (let (s, st) = sq; (s1, r) = ask s; dt = clock s1 - clock s; st1 = count_call dt st in
      case r of
        Inl e \<Rightarrow> ((s1, st1), Inl (query_error fr e))
      | Inr m \<Rightarrow>
          (let st2 = count_message dt st1 in
           case finish_reason fr (Some m) of
             Inl e \<Rightarrow> ((s1, st2), Inl (plain_raise e))
           | Inr reason \<Rightarrow> ((s1, st2), if reason = Some ''length'' then Inl length_exceeded else Inr m)))"

text \<open>Any number of calls, whatever the package does, with anything happening in between.\<close>

inductive query_step :: "'s \<times> query_stats \<Rightarrow> 's \<times> query_stats \<Rightarrow> bool" where
  q_call: "mini_query fr clock ask sq = (sq1, r) \<Longrightarrow> query_step sq sq1"
| q_other: "query_step (s, st) (s1, st)"

subsection \<open>Configuration\<close>

definition content_str :: "(rat \<Rightarrow> string) \<Rightarrow> dict \<Rightarrow> string" where
  "content_str fr m = py_str fr (dget_or m ''content'' (PStr []))"

definition extract_task :: "(rat \<Rightarrow> string) \<Rightarrow> dict list \<Rightarrow> string result" where
  "extract_task fr messages =
     (let t = strip (join (nl @ nl) (map (content_str fr) (filter (\<lambda>m. get_none m ''role'' = PStr ''user'') messages))) in
      if t = [] then Inl (ValueError (''mini_swe_agent_blackbox requires a '' @ repr_str ''user'' @ '' message'')) else Inr t)"

definition system_template :: "(rat \<Rightarrow> string) \<Rightarrow> mini_config \<Rightarrow> dict list \<Rightarrow> string" where
  "system_template fr c messages =
     (case mn_system_template c of
        Some (t # ts) \<Rightarrow> t # ts
      | _ \<Rightarrow>
          (let texts = filter (\<lambda>t. t \<noteq> [])
                 (map (\<lambda>m. strip (content_str fr m)) (filter (\<lambda>m. get_none m ''role'' = PStr ''system'') messages)) in
           if texts \<noteq> [] then join (nl @ nl) texts else SYSTEM_TEMPLATE))"

definition mini_model_config :: "mini_config \<Rightarrow> dict" where
  "mini_model_config c =
     (let m = mn_model c;
          kwargs = [(''api_base'', case md_base_url m of None \<Rightarrow> PNone | Some u \<Rightarrow> PStr (strip u)), (''api_key'', PStr (md_api_key m)),
             (''custom_llm_provider'', PStr ''openai'')] @
            opt_entry ''temperature'' PFloat (md_temperature m) @ opt_entry ''top_p'' PFloat (md_top_p m) @
            opt_entry ''max_tokens'' PInt (md_max_tokens_per_turn m) in
      [(''model_name'', PStr (''openai/'' @ (case md_model_name m of Some (n # ns) \<Rightarrow> n # ns | _ \<Rightarrow> ''default''))),
       (''model_kwargs'', PDict kwargs), (''cost_tracking'', PStr ''ignore_errors'')])"

definition mini_agent_config :: "(rat \<Rightarrow> string) \<Rightarrow> mini_config \<Rightarrow> dict list \<Rightarrow> dict" where
  "mini_agent_config fr c messages =
     [(''system_template'', PStr (system_template fr c messages)), (''instance_template'', PStr (mn_instance_template c)),
      (''step_limit'', PInt (mn_step_limit c)), (''cost_limit'', PFloat (mn_cost_limit c)),
      (''wall_time_limit_seconds'', PInt (mn_agent_timeout c)), (''max_consecutive_format_errors'', PInt (mn_max_format_errors c))]"

subsection \<open>The run\<close>

text \<open>What the agent's thread leaves: the package's result, messages and info, with the statistics.\<close>

record mini_outcome =
  mo_result :: dict
  mo_messages :: "dict list"
  mo_info :: dict

definition timing_dict :: "rat \<Rightarrow> query_stats \<Rightarrow> env_stats \<Rightarrow> dict" where
  "timing_dict agent_s q e =
     [(''gen_s'', PFloat agent_s), (''model_rollout_s'', PFloat (qs_rollout_s q)), (''sandbox_interaction_s'', PFloat (es_interaction_s e)),
      (''agent_overhead_s'', PFloat (max 0 (agent_s - qs_rollout_s q - es_interaction_s e))), (''model_calls'', PInt (int (qs_calls q))),
      (''sandbox_calls'', PInt (int (es_calls e))), (''model_call_durations_s'', PList (map PFloat (qs_call_durations q))),
      (''model_message_durations_s'', PList (map PFloat (qs_message_durations q))),
      (''sandbox_call_durations_s'', PList (map PFloat (es_durations e)))]"

text \<open>
  \<open>_run_agent_sync\<close>: \<open>drive\<close> is the package's \<open>agent.run(task)\<close>, which calls the model and the
  environment; an exception leaves the thread with nothing.
\<close>

definition run_agent_sync ::
  "('s \<Rightarrow> rat) \<Rightarrow> ('s \<Rightarrow> 's \<times> query_stats \<times> env_stats \<times> (dict \<times> dict list \<times> dict) result) \<Rightarrow> 's \<Rightarrow> 's \<times> mini_outcome result" where
  "run_agent_sync clock drive s =
     (case drive s of
        (s1, q, e, Inl x) \<Rightarrow> (s1, Inl x)
      | (s1, q, e, Inr (result, messages, info)) \<Rightarrow>
          (s1, Inr \<lparr>mo_result = result, mo_messages = messages,
                    mo_info = dset info ''timing'' (PDict (timing_dict (clock s1 - clock s) q e))\<rparr>))"

text \<open>The thread as the event loop sees it: whether it lives, a pause of the loop, what it has left.\<close>

record 's mini_thread =
  th_clock :: "'s \<Rightarrow> rat"
  th_alive :: "'s \<Rightarrow> bool"
  th_sleep :: "'s \<Rightarrow> 's"
  th_outcome :: "'s \<Rightarrow> mini_outcome result"

partial_function (option) await_thread :: "'s mini_thread \<Rightarrow> rat \<Rightarrow> rat \<Rightarrow> 's \<Rightarrow> 's option" where
  "await_thread th started timeout s =
     (if \<not> th_alive th s then Some s
      else
        (let s1 = th_sleep th s in
         if timeout > 0 \<and> th_clock th s1 - started > timeout then Some s1 else await_thread th started timeout s1))"

definition run_in_thread :: "'s mini_thread \<Rightarrow> int \<Rightarrow> 's \<Rightarrow> ('s \<times> mini_outcome result) option" where
  "run_in_thread th timeout s =
     map_option (\<lambda>s1.
       (s1, if th_alive th s1
            then Inl (OtherException ''TimeoutError'' (''mini_swe_agent_blackbox: agent exceeded timeout='' @ str_of_int timeout @ ''s''))
            else case th_outcome th s1 of
              Inl e \<Rightarrow> Inl (RuntimeError (''mini_swe_agent_blackbox: '' @ exn_str e))
            | Inr r \<Rightarrow> Inr r))
       (await_thread th (th_clock th s) (of_int timeout) s)"

record mini_reply =
  mr_output :: dict
  mr_transcript :: "dict list"
  mr_info :: dict
  mr_finished :: bool

definition mini_reply_of :: "mini_outcome \<Rightarrow> exec_result \<Rightarrow> rat \<Rightarrow> mini_reply result" where
  "mini_reply_of out diff diff_s =
     rbind (rbind (need_dict ''keys'' (dget_or (mo_info out) ''timing'' (PDict []))) (\<lambda>t. Inr (dset t ''final_git_diff_s'' (PFloat diff_s)))) (\<lambda>timing.
       Inr \<lparr>mr_output = [(''git_diff'', PStr (xr_stdout diff)), (''submission'', dget_or (mo_result out) ''submission'' (PStr [])),
               (''exit_status'', dget_or (mo_result out) ''exit_status'' (PStr []))],
            mr_transcript = mo_messages out,
            mr_info = [(''exit_status'', get_none (mo_result out) ''exit_status''), (''git_diff_stderr'', PStr (xr_stderr diff)),
               (''mini_swe_agent_info'', PDict (mo_info out)), (''timing'', PDict timing)],
            mr_finished = (\<not> truthy (get_none (mo_info out) ''error''))\<rparr>)"

text \<open>\<open>launch\<close> starts the agent's thread with the task and the two configurations.\<close>

definition mini_run ::
  "(rat \<Rightarrow> string) \<Rightarrow> mini_config \<Rightarrow> 's provider \<Rightarrow> (string \<Rightarrow> dict \<Rightarrow> dict \<Rightarrow> 's \<Rightarrow> 's \<times> 's mini_thread) \<Rightarrow> dict list \<Rightarrow> 's \<Rightarrow>
     ('s \<times> mini_reply result) option" where
  "mini_run fr c p launch messages s =
     (case md_base_url (mn_model c) of
        Some (u # us) \<Rightarrow>
          (case extract_task fr messages of
             Inl e \<Rightarrow> Some (s, Inl e)
           | Inr task \<Rightarrow>
               (case launch task (mini_model_config c) (mini_agent_config fr c messages) s of
                  (s1, th) \<Rightarrow>
                    (case run_in_thread th (mn_agent_timeout c) s1 of
                       None \<Rightarrow> None
                     | Some (s2, r) \<Rightarrow>
                         Some (shell_bind (s2, r) (\<lambda>out s3.
                               shell_bind (exec_shell fr p ''git diff''
                                 (no_options\<lparr>xo_workdir := Some (mn_working_dir c), xo_timeout := Some 60\<rparr>) s3) (\<lambda>diff s4.
                               (s4, mini_reply_of out diff (th_clock th s4 - th_clock th s3))))))))
      | _ \<Rightarrow> Some (s, Inl (ValueError ''mini_swe_agent_blackbox: config.model.base_url is not set'')))"

end
