(* ===== verification/MiniSweProps.thy ===== *)
theory MiniSweProps
  imports MiniSwe "HOL-Library.Sublist"
begin

text \<open>What the statistics of the model calls say, when a run returns, and what a submission is.\<close>

subsection \<open>Statistics\<close>

definition timing_inv :: "query_stats \<Rightarrow> bool" where
  "timing_inv st \<longleftrightarrow> qs_calls st = length (qs_call_durations st) \<and> qs_rollout_s st = sum_list (qs_call_durations st) \<and>
     subseq (qs_message_durations st) (qs_call_durations st)"

lemma mini_query_stats:
  assumes "mini_query fr clock ask (s, st) = ((s1, st1), r)"
  shows "s1 = fst (ask s) \<and> st1 = (let c = count_call (clock s1 - clock s) st in
    if isl (snd (ask s)) then c else count_message (clock s1 - clock s) c)"
  using assms by (cases "ask s"; cases "snd (ask s)") (auto simp: mini_query_def Let_def split: sum.splits)

lemma mini_query_inv: "mini_query fr clock ask (s, st) = ((s1, st1), r) \<Longrightarrow> timing_inv st \<Longrightarrow> timing_inv st1"
proof -
  assume q: "mini_query fr clock ask (s, st) = ((s1, st1), r)" and inv: "timing_inv st"
  have "subseq (qs_message_durations st) (qs_call_durations st @ [x])"
    "subseq (qs_message_durations st @ [x]) (qs_call_durations st @ [x])" for x
    using inv by (auto simp: timing_inv_def intro: subseq_rev_drop_many list_emb_append_mono)
  then show ?thesis using inv mini_query_stats [OF q]
    by (auto simp: timing_inv_def count_call_def count_message_def Let_def)
qed

interpretation queries: invariant_system "\<lambda>sq. snd sq = no_query_stats" query_step "\<lambda>sq. timing_inv (snd sq)"
proof
  show "timing_inv (snd sq)" if "snd sq = no_query_stats" for sq :: "'a \<times> query_stats"
    using that by (simp add: timing_inv_def no_query_stats_def)
  show "timing_inv (snd sq1)" if "timing_inv (snd sq)" "query_step sq sq1" for sq sq1 :: "'a \<times> query_stats"
    using that(2,1) by (cases sq; cases sq1) (auto elim!: query_step.cases dest: mini_query_inv)
qed

text \<open>
  failed model calls cannot shift the timing of the messages.  However many calls there were and
  however they ended, every call is counted once, the durations add up to the reported total, and the
  message durations are, in order, those of the calls that gave a message: the next call adds one
  exactly when the package's query returns.
\<close>

theorem query_timing_aligned:
  assumes "query_step\<^sup>*\<^sup>* (s0, no_query_stats) (s, st)" and "mini_query fr clock ask (s, st) = ((s1, st1), r)"
  shows "qs_calls st = length (qs_call_durations st) \<and> qs_rollout_s st = sum_list (qs_call_durations st) \<and>
    subseq (qs_message_durations st) (qs_call_durations st) \<and> qs_calls st1 = qs_calls st + 1 \<and>
    qs_message_durations st1 =
      qs_message_durations st @ (if isl (snd (ask s)) then [] else [clock s1 - clock s])"
  using queries.reach_inv [OF _ assms(1)] mini_query_stats [OF assms(2)]
  by (auto simp: timing_inv_def Let_def count_call_def count_message_def)

theorem query_timing_aligned_witness:
  "\<exists>st1 r. mini_query (\<lambda>_. ''1'') of_int (\<lambda>s. (s + 2, Inl (plain_raise (ValueError ''x'')))) (3 :: int, no_query_stats) = ((5, st1), r) \<and>
     qs_calls st1 = 1 \<and> qs_message_durations st1 = []"
proof -
  obtain s1 st1 r where q: "mini_query (\<lambda>_. ''1'') of_int (\<lambda>s. (s + 2, Inl (plain_raise (ValueError ''x'')))) (3 :: int, no_query_stats) =
     ((s1, st1), r)" by (metis prod.exhaust)
  have "s1 = 5" using mini_query_stats [OF q] by simp
  with query_timing_aligned [OF rtranclp.rtrancl_refl q] q show ?thesis by (simp add: no_query_stats_def)
qed

subsection \<open>The thread\<close>

definition thread_clock :: "rat \<Rightarrow> 's mini_thread \<Rightarrow> bool" where
  "thread_clock d th \<longleftrightarrow> 0 < d \<and> (\<forall>s. th_clock th s + d \<le> th_clock th (th_sleep th s))"

lemma await_thread_returns:
  assumes c: "thread_clock d th" and "0 < timeout"
    and n: "started + timeout < th_clock th s + of_nat n * d"
  shows "\<exists>s'. await_thread th started timeout s = Some s' \<and> (th_alive th s' \<longrightarrow> timeout < th_clock th s' - started)"
  using n
proof (induction n arbitrary: s)
  case 0
  have "th_clock th s + d \<le> th_clock th (th_sleep th s)" "0 < d" using c by (simp_all add: thread_clock_def)
  then have "timeout < th_clock th (th_sleep th s) - started" using 0 by simp
  then show ?case using assms(2) by (subst await_thread.simps) (auto simp: Let_def await_thread.simps [of th _ _ s])
next
  case (Suc n)
  have "th_clock th s + d \<le> th_clock th (th_sleep th s)" using c by (simp add: thread_clock_def)
  then have "started + timeout < th_clock th (th_sleep th s) + of_nat n * d" using Suc.prems by (simp add: algebra_simps)
  from Suc.IH [OF this] show ?case
    using assms(2) by (cases "th_alive th s"; cases "timeout < th_clock th (th_sleep th s) - started")
      (auto simp: await_thread.simps [of th started timeout s] Let_def)
qed

lemma run_in_thread_returns:
  assumes c: "thread_clock d th" and "0 < timeout"
  obtains s' r where "run_in_thread th timeout s = Some (s', r)"
    and "th_alive th s' \<Longrightarrow> \<exists>m. r = Inl (OtherException ''TimeoutError'' m) \<and> of_int timeout < th_clock th s' - th_clock th s"
    and "\<And>out. r = Inr out \<Longrightarrow> \<not> th_alive th s' \<and> th_outcome th s' = Inr out"
proof -
  have d: "0 < d" using c by (simp add: thread_clock_def)
  obtain n where "of_int timeout / d < of_nat n" using reals_Archimedean2 by blast
  then have "th_clock th s + of_int timeout < th_clock th s + of_nat n * d" using d by (simp add: field_simps)
  from await_thread_returns [OF c _ this] assms(2) obtain s' where
    "await_thread th (th_clock th s) (of_int timeout) s = Some s'" "th_alive th s' \<longrightarrow> of_int timeout < th_clock th s' - th_clock th s"
    by auto
  then show thesis by (intro that) (auto simp: run_in_thread_def split: sum.splits if_splits)
qed

text \<open>
  a run of mini-swe-agent returns even when the agent's thread hangs, provided its time limit is
  positive and every pause of the event loop takes some time.  A run with a reply took the diff of the
  repository after the thread had ended, so the diff it reports is final.
\<close>

theorem mini_run_returns:
  assumes "0 < mn_agent_timeout c" and "\<forall>task m a s. \<exists>d. thread_clock d (snd (launch task m a s))"
  shows "\<exists>s' r. mini_run fr c p launch messages s = Some (s', r) \<and>
    (\<forall>reply. r = Inr reply \<longrightarrow>
      (\<exists>task s1 th s2 out diff. extract_task fr messages = Inr task \<and>
         launch task (mini_model_config c) (mini_agent_config fr c messages) s = (s1, th) \<and>
         \<not> th_alive th s2 \<and> th_outcome th s2 = Inr out \<and>
         exec_shell fr p ''git diff'' (no_options\<lparr>xo_workdir := Some (mn_working_dir c), xo_timeout := Some 60\<rparr>) s2 = (s', Inr diff) \<and>
         dget (mr_output reply) ''git_diff'' = Some (PStr (xr_stdout diff))))"
proof (cases "md_base_url (mn_model c)")
  case (Some url)
  show ?thesis
  proof (cases "url = [] \<or> isl (extract_task fr messages)")
    case True
    then show ?thesis using Some by (cases url; cases "extract_task fr messages") (auto simp: mini_run_def)
  next
    case False
    then obtain u us task where url: "url = u # us" and task: "extract_task fr messages = Inr task"
      by (cases url; cases "extract_task fr messages") auto
    obtain s1 th where l: "launch task (mini_model_config c) (mini_agent_config fr c messages) s = (s1, th)"
      by (cases "launch task (mini_model_config c) (mini_agent_config fr c messages) s")
    then obtain d where c: "thread_clock d th" using assms(2) by (metis snd_conv)
    obtain s2 r where r: "run_in_thread th (mn_agent_timeout c) s1 = Some (s2, r)"
      and out: "\<And>out. r = Inr out \<Longrightarrow> \<not> th_alive th s2 \<and> th_outcome th s2 = Inr out"
      using run_in_thread_returns [OF c assms(1)] by metis
    note M = mini_run_def [of fr c p launch messages s] Some url task l r
    show ?thesis
    proof (cases r)
      case (Inl e)
      then show ?thesis using M by (simp add: shell_bind_def)
    next
      case (Inr out')
      obtain s' x where e: "exec_shell fr p ''git diff'' (no_options\<lparr>xo_workdir := Some (mn_working_dir c), xo_timeout := Some 60\<rparr>) s2 = (s', x)"
        by (cases "exec_shell fr p ''git diff'' (no_options\<lparr>xo_workdir := Some (mn_working_dir c), xo_timeout := Some 60\<rparr>) s2")
      show ?thesis using M Inr e out [OF Inr] task l
        by (cases x) (auto simp: shell_bind_def mini_reply_of_def rbind_Inr_iff)
    qed
  qed
qed (simp add: mini_run_def)

text \<open>The time limit leaves the thread running: nothing stops it, and its commands still reach the sandbox.\<close>

lemma timed_out_thread_lives:
  "run_in_thread th timeout s = Some (s', Inl (OtherException ''TimeoutError'' m)) \<Longrightarrow> th_alive th s'"
  by (auto simp: run_in_thread_def split: if_splits sum.splits)

text \<open>A thread that never ends, on a clock that counts the pauses.\<close>

definition hanging_thread :: "rat mini_thread" where
  "hanging_thread = \<lparr>th_clock = id, th_alive = (\<lambda>_. True), th_sleep = (\<lambda>s. s + 1 / 5), th_outcome = (\<lambda>_. Inl (RuntimeError []))\<rparr>"

definition demo_mini :: mini_config where
  "demo_mini = \<lparr>mn_model = \<lparr>md_base_url = Some ''u'', md_api_key = ''EMPTY'', md_model_name = None, md_temperature = None, md_top_p = None,
      md_top_k = None, md_max_total_tokens = None, md_max_tokens_per_turn = None\<rparr>, mn_working_dir = ''/testbed'', mn_step_limit = 30,
      mn_command_timeout = 60, mn_agent_timeout = 1800, mn_cost_limit = 0, mn_max_format_errors = 3, mn_system_template = None,
      mn_instance_template = ''t''\<rparr>"

definition idle_sandbox :: "rat provider" where
  "idle_sandbox =
     \<lparr>pr_start = (\<lambda>_ s. (s, Inr ())), pr_stop = (\<lambda>s. (s, Inr ())),
      pr_exec = (\<lambda>_ _ s. (s, Inr \<lparr>xr_exit_code = 0, xr_stdout = [], xr_stderr = []\<rparr>)),
      pr_is_timeout_error = base_is_timeout_error, pr_is_alive = (\<lambda>s. (s, True))\<rparr>"

theorem mini_run_returns_witness:
  "\<exists>s' r. mini_run (\<lambda>_. ''1'') demo_mini idle_sandbox (\<lambda>_ _ _ s. (s, hanging_thread)) [[(''role'', PStr ''user''), (''content'', PStr ''x'')]] 0 =
     Some (s', r)"
proof -
  have "thread_clock (1 / 5) hanging_thread" by (simp add: thread_clock_def hanging_thread_def)
  then show ?thesis
    using mini_run_returns [of demo_mini "\<lambda>_ _ _ s. (s, hanging_thread)" "\<lambda>_. ''1''" idle_sandbox] by (fastforce simp: demo_mini_def)
qed

subsection \<open>Submissions\<close>

lemma keep_lines_concat: "concat (keep_lines cur s) = cur @ s"
  by (induction cur s rule: keep_lines.induct) auto

text \<open>A submission is the rest of the output, byte for byte, after the line that asks for it.\<close>

lemma check_finished_iff:
  "check_finished r = Some sub \<Longrightarrow> co_returncode r = 0 \<and> (\<exists>first. lstrip (co_output r) = first @ sub \<and> strip first = COMPLETE)"
  using keep_lines_concat [of "[]" "lstrip (co_output r)", symmetric]
  by (fastforce simp: check_finished_def split: list.splits if_splits)

end
