(* ===== verification/Providers.thy ===== *)
theory Providers
  imports Lifecycle
begin

text \<open>
  The local sandbox (\<open>sandbox/local.py\<close>) and the providers that drive a remote machine through a vendor
  SDK: Modal (\<open>sandbox/modal.py\<close>), Cube (\<open>sandbox/cube.py\<close>) and openYuanrong
  (\<open>sandbox/openyuanrong.py\<close>).  Each SDK is a record of operations on the world.
\<close>

text \<open>\<open>int(timeout) if timeout else dflt\<close>.\<close>

definition whole_timeout :: "int option \<Rightarrow> rat option \<Rightarrow> int option" where
  "whole_timeout dflt t = (case t of Some r \<Rightarrow> if r \<noteq> 0 then Some (trunc r) else dflt | None \<Rightarrow> dflt)"

definition nonempty_env :: "env_vars option \<Rightarrow> env_vars option" where
  "nonempty_env e = (case e of Some (kv # kvs) \<Rightarrow> Some (kv # kvs) | _ \<Rightarrow> None)"

subsection \<open>Local\<close>

text \<open>The host: a process raises \<open>TimeoutError\<close> at its limit and is killed.\<close>

record 's local_host =
  lh_environ :: env_vars
  lh_spawn :: "string list \<Rightarrow> rat option \<Rightarrow> string option \<Rightarrow> env_vars option \<Rightarrow> 's \<Rightarrow> 's \<times> exec_result result"
  lh_read :: "string \<Rightarrow> 's \<Rightarrow> 's \<times> byte list result"
  lh_write :: "string \<Rightarrow> byte list \<Rightarrow> 's \<Rightarrow> 's \<times> unit result"
  lh_make_parent :: "string \<Rightarrow> 's \<Rightarrow> 's \<times> unit result"

definition local_exec :: "(rat \<Rightarrow> string) \<Rightarrow> 's local_host \<Rightarrow> string list \<Rightarrow> exec_options \<Rightarrow> 's \<Rightarrow> 's \<times> exec_result result" where
  "local_exec fr h argv opts s =
     (case lh_spawn h argv (xo_timeout opts) (xo_workdir opts)
             (map_option (dupdate (lh_environ h)) (nonempty_env (xo_env opts))) s of
        (s1, Inl e) \<Rightarrow>
          (s1, if base_is_timeout_error e
               then Inr \<lparr>xr_exit_code = -1, xr_stdout = [],
                 xr_stderr = ''local exec timed out after '' @ opt_number fr (xo_timeout opts) @ ''s''\<rparr>
               else Inl e)
      | (s1, Inr r) \<Rightarrow> (s1, Inr r))"

definition local_write_file :: "'s local_host \<Rightarrow> string \<Rightarrow> content \<Rightarrow> 's \<Rightarrow> 's \<times> unit result" where
  "local_write_file h path c s = shell_bind (lh_make_parent h path s) (\<lambda>_ s1. lh_write h path (content_bytes c) s1)"

definition local_read_file :: "'s local_host \<Rightarrow> string \<Rightarrow> 's \<Rightarrow> 's \<times> byte list result" where
  "local_read_file h path s = lh_read h path s"

definition local_provider :: "(rat \<Rightarrow> string) \<Rightarrow> 's local_host \<Rightarrow> 's provider" where
  "local_provider fr h =
     \<lparr>pr_start = (\<lambda>_ s. (s, Inr ())), pr_stop = (\<lambda>s. (s, Inr ())), pr_exec = local_exec fr h,
      pr_is_timeout_error = base_is_timeout_error, pr_is_alive = (\<lambda>s. (s, True))\<rparr>"

subsection \<open>A remote machine\<close>

text \<open>The sandbox object of a remote provider: the machine it holds, in the world.\<close>

record 's remote_state =
  rm_machine :: "string option"
  rm_world :: 's

definition on_world :: "('s \<Rightarrow> 's \<times> 'a) \<Rightarrow> 's remote_state \<Rightarrow> 's remote_state \<times> 'a" where
  "on_world f d = (case f (rm_world d) of (w, x) \<Rightarrow> (d\<lparr>rm_world := w\<rparr>, x))"

definition require_machine :: "string \<Rightarrow> 's remote_state \<Rightarrow> string result" where
  "require_machine cls d =
     (case rm_machine d of None \<Rightarrow> Inl (RuntimeError (cls @ '' not started; call start() first'')) | Some m \<Rightarrow> Inr m)"

text \<open>\<open>self._sandbox = await create(...)\<close>, unless there is one.\<close>

definition start_machine :: "('s \<Rightarrow> 's \<times> string result) \<Rightarrow> 's remote_state \<Rightarrow> 's remote_state \<times> unit result" where
  "start_machine create d =
     (if rm_machine d \<noteq> None then (d, Inr ())
      else shell_bind (on_world create d) (\<lambda>m d1. (d1\<lparr>rm_machine := Some m\<rparr>, Inr ())))"

text \<open>A probe that must never raise.\<close>

definition probe :: "'s \<times> bool result \<Rightarrow> 's \<times> bool" where
  "probe x = (case x of (s, Inr b) \<Rightarrow> (s, b) | (s, Inl _) \<Rightarrow> (s, False))"

subsection \<open>Modal\<close>

record 's modal_sdk =
  md_lookup :: "string \<Rightarrow> 's \<Rightarrow> 's \<times> string result"
  md_create :: "string \<Rightarrow> string \<Rightarrow> int \<Rightarrow> dict \<Rightarrow> rat option \<Rightarrow> 's \<Rightarrow> 's \<times> string result"
  md_poll :: "string \<Rightarrow> 's \<Rightarrow> 's \<times> int option result"
  md_terminate :: "string \<Rightarrow> 's \<Rightarrow> 's \<times> unit result"
  md_exec :: "string \<Rightarrow> string list \<Rightarrow> int option \<Rightarrow> string option \<Rightarrow> env_vars \<Rightarrow> 's \<Rightarrow> 's \<times> (string result \<times> string result \<times> int option result) result"
  md_read_bytes :: "string \<Rightarrow> string \<Rightarrow> 's \<Rightarrow> 's \<times> byte list result"
  md_write_bytes :: "string \<Rightarrow> byte list \<Rightarrow> string \<Rightarrow> 's \<Rightarrow> 's \<times> unit result"

record modal_config =
  mc_image :: string
  mc_app_name :: string
  mc_runtime_timeout :: rat
  mc_kwargs :: dict

text \<open>The keyword arguments of the call must not repeat its own.\<close>

definition own_keywords :: "string list \<Rightarrow> dict \<Rightarrow> unit result" where
  "own_keywords ks kwargs =
     (case find (\<lambda>k. dhas kwargs k) ks of
        None \<Rightarrow> Inr ()
      | Some k \<Rightarrow> Inl (TypeError (''got multiple values for keyword argument '' @ repr_str k)))"

definition modal_start :: "'s modal_sdk \<Rightarrow> modal_config \<Rightarrow> rat option \<Rightarrow> 's remote_state \<Rightarrow> 's remote_state \<times> unit result" where
  "modal_start sd c limit d =
     (if rm_machine d \<noteq> None then (d, Inr ())
      else shell_bind (on_world (md_lookup sd (mc_app_name c)) d) (\<lambda>app d1.
        shell_bind (d1, own_keywords [''image'', ''app'', ''timeout''] (mc_kwargs c)) (\<lambda>_ d2.
        start_machine (md_create sd app (mc_image c) (trunc (mc_runtime_timeout c)) (mc_kwargs c) limit) d2)))"

text \<open>The machine is forgotten even if the poll or the termination fails.\<close>

definition modal_stop :: "'s modal_sdk \<Rightarrow> 's remote_state \<Rightarrow> 's remote_state \<times> unit result" where
  "modal_stop sd d =
     (case rm_machine d of
        None \<Rightarrow> (d, Inr ())
      | Some m \<Rightarrow>
          (case shell_bind (on_world (md_poll sd m) d) (\<lambda>code d1.
                  if code = None then on_world (md_terminate sd m) d1 else (d1, Inr ())) of
             (d2, r) \<Rightarrow> (d2\<lparr>rm_machine := None\<rparr>, r)))"

definition modal_is_alive :: "'s modal_sdk \<Rightarrow> 's remote_state \<Rightarrow> 's remote_state \<times> bool" where
  "modal_is_alive sd d =
     (case rm_machine d of
        None \<Rightarrow> (d, False)
      | Some m \<Rightarrow> probe (shell_bind (on_world (md_poll sd m) d) (\<lambda>code d1. (d1, Inr (code = None)))))"

definition read_stream :: "string result \<Rightarrow> string result" where
  "read_stream r = (case r of Inr t \<Rightarrow> Inr t | Inl e \<Rightarrow> if is_exception e then Inr [] else Inl e)"

definition modal_env :: "env_vars option \<Rightarrow> env_vars" where
  "modal_env e = (let d = (case e of None \<Rightarrow> [] | Some d \<Rightarrow> d) in if dhas d ''PYTHONPATH'' then d else dset d ''PYTHONPATH'' [])"

definition modal_exec :: "'s modal_sdk \<Rightarrow> string list \<Rightarrow> exec_options \<Rightarrow> 's remote_state \<Rightarrow> 's remote_state \<times> exec_result result" where
  "modal_exec sd argv opts d =
     shell_bind (d, require_machine ''ModalSandbox'' d) (\<lambda>m d1.
     shell_bind (on_world (md_exec sd m argv (whole_timeout None (xo_timeout opts)) (xo_workdir opts) (modal_env (xo_env opts))) d1)
       (\<lambda>(out, err, code) d2.
         (d2, rbind (read_stream out) (\<lambda>out. rbind (read_stream err) (\<lambda>err. rbind code (\<lambda>code.
              Inr \<lparr>xr_exit_code = (case code of None \<Rightarrow> 0 | Some n \<Rightarrow> n), xr_stdout = out, xr_stderr = err\<rparr>))))))"

definition modal_provider :: "'s modal_sdk \<Rightarrow> modal_config \<Rightarrow> 's remote_state provider" where
  "modal_provider sd c =
     \<lparr>pr_start = modal_start sd c, pr_stop = modal_stop sd, pr_exec = modal_exec sd,
      pr_is_timeout_error = base_is_timeout_error, pr_is_alive = modal_is_alive sd\<rparr>"

text \<open>Absolute paths are read and written natively, relative ones over the shell.\<close>

definition modal_read_file :: "(rat \<Rightarrow> string) \<Rightarrow> 's modal_sdk \<Rightarrow> modal_config \<Rightarrow> string \<Rightarrow> 's remote_state \<Rightarrow> 's remote_state \<times> byte list result" where
  "modal_read_file fr sd c path d =
     (if \<not> startswith path ''/'' then read_file fr (modal_provider sd c) path d
      else shell_bind (d, require_machine ''ModalSandbox'' d) (\<lambda>m. on_world (md_read_bytes sd m path)))"

definition modal_write_file ::
  "(rat \<Rightarrow> string) \<Rightarrow> 's modal_sdk \<Rightarrow> modal_config \<Rightarrow> string \<Rightarrow> content \<Rightarrow> 's remote_state \<Rightarrow> 's remote_state \<times> unit result" where
  "modal_write_file fr sd c path content d =
     (if \<not> startswith path ''/'' then write_file fr (modal_provider sd c) path content d
      else shell_bind (d, require_machine ''ModalSandbox'' d) (\<lambda>m. on_world (md_write_bytes sd m (content_bytes content) path)))"

subsection \<open>Cube\<close>

datatype stream_item = TextItem string | BytesItem "byte list"
datatype stream = NoStream | TextStream string | ItemStream "stream_item list"

definition stream_text :: "(byte list \<Rightarrow> string) \<Rightarrow> stream \<Rightarrow> string" where
  "stream_text decode x =
     (case x of
        NoStream \<Rightarrow> []
      | TextStream s \<Rightarrow> s
      | ItemStream xs \<Rightarrow> concat (map (\<lambda>i. case i of TextItem s \<Rightarrow> s | BytesItem bs \<Rightarrow> decode bs) xs))"

definition normalize_api_url :: "string option \<Rightarrow> string option" where
  "normalize_api_url v =
     (case v of
        None \<Rightarrow> None
      | Some s \<Rightarrow>
          if strip s = [] then None
          else (let url = rev (dropWhile (\<lambda>c. c = CHR ''/'') (rev (strip s))) in
                Some (if contains url ''://'' then url else ''http://'' @ url)))"

record 's cube_sdk =
  cb_decode :: "byte list \<Rightarrow> string"
  cb_installed :: bool
  cb_create :: "dict \<Rightarrow> rat option \<Rightarrow> 's \<Rightarrow> 's \<times> string result"
  cb_close :: "(string \<Rightarrow> 's \<Rightarrow> 's \<times> unit result) option"
  cb_run :: "string \<Rightarrow> string \<Rightarrow> exec_options \<Rightarrow> 's \<Rightarrow> 's \<times> (int \<times> stream \<times> stream) result"

record cube_config =
  cu_template :: "string option"
  cu_api_url :: "string option"
  cu_kwargs :: dict

text \<open>\<open>v or os.getenv(name)\<close>.\<close>

definition or_env :: "(string \<Rightarrow> string option) \<Rightarrow> string option \<Rightarrow> string \<Rightarrow> string option" where
  "or_env getenv v name = (case v of Some (c # cs) \<Rightarrow> Some (c # cs) | _ \<Rightarrow> getenv name)"

definition new_cube :: "(string \<Rightarrow> string option) \<Rightarrow> string option \<Rightarrow> string option \<Rightarrow> dict \<Rightarrow> cube_config" where
  "new_cube getenv template api_url kwargs =
     \<lparr>cu_template = or_env getenv template ''CUBE_TEMPLATE_ID'',
      cu_api_url = normalize_api_url (or_env getenv api_url ''E2B_API_URL''), cu_kwargs = kwargs\<rparr>"

definition cube_kwargs :: "cube_config \<Rightarrow> string \<Rightarrow> dict" where
  "cube_kwargs c template =
     (let d = dupdate [(''template'', PStr template)] (cu_kwargs c) in
      case cu_api_url c of None \<Rightarrow> d | Some u \<Rightarrow> dset d ''api_url'' (PStr u))"

definition cube_start :: "'s cube_sdk \<Rightarrow> cube_config \<Rightarrow> rat option \<Rightarrow> 's remote_state \<Rightarrow> 's remote_state \<times> unit result" where
  "cube_start sd c limit d =
     (if rm_machine d \<noteq> None then (d, Inr ())
      else case cu_template c of
        Some (t # ts) \<Rightarrow>
          if \<not> cb_installed sd
          then (d, Inl (OtherException ''ImportError''
                  ''CubeSandbox requires e2b-code-interpreter; install the Cube-compatible SDK on every worker''))
          else start_machine (cb_create sd (cube_kwargs c (t # ts)) limit) d
      | _ \<Rightarrow> (d, Inl (ValueError ''CubeSandbox needs a template: set CUBE_TEMPLATE_ID or sandbox_kwargs.template'')))"

definition cube_stop :: "'s cube_sdk \<Rightarrow> 's remote_state \<Rightarrow> 's remote_state \<times> unit result" where
  "cube_stop sd d =
     (let d1 = d\<lparr>rm_machine := None\<rparr> in
      case rm_machine d of
        None \<Rightarrow> (d1, Inr ())
      | Some m \<Rightarrow> (case cb_close sd of None \<Rightarrow> (d1, Inr ()) | Some close \<Rightarrow> on_world (close m) d1))"

definition cube_exec_once :: "'s cube_sdk \<Rightarrow> string list \<Rightarrow> exec_options \<Rightarrow> 's remote_state \<Rightarrow> 's remote_state \<times> exec_result result" where
  "cube_exec_once sd argv opts d =
     shell_bind (d, require_machine ''CubeSandbox'' d) (\<lambda>m d1.
     shell_bind (on_world (cb_run sd m (join '' '' (map shlex_quote argv)) opts) d1) (\<lambda>(code, out, err) d2.
       (d2, Inr \<lparr>xr_exit_code = code, xr_stdout = stream_text (cb_decode sd) out, xr_stderr = stream_text (cb_decode sd) err\<rparr>)))"

text \<open>\<open>exec\<close> overrides the error policy of the base class: every failure is raised.\<close>

definition cube_exec :: "'s cube_sdk \<Rightarrow> string list \<Rightarrow> exec_options \<Rightarrow> 's remote_state \<Rightarrow> 's remote_state \<times> exec_result result" where
  "cube_exec sd argv opts d = cube_exec_once sd argv opts d"

definition cube_provider :: "'s cube_sdk \<Rightarrow> cube_config \<Rightarrow> 's remote_state provider" where
  "cube_provider sd c =
     \<lparr>pr_start = cube_start sd c, pr_stop = cube_stop sd, pr_exec = cube_exec_once sd,
      pr_is_timeout_error = base_is_timeout_error, pr_is_alive = (\<lambda>d. (d, rm_machine d \<noteq> None))\<rparr>"

subsection \<open>openYuanrong\<close>

text \<open>The process: its environment and the flag of the loaded SDK.\<close>

record yr_process =
  yp_env :: "string \<Rightarrow> string option"
  yp_initialized :: bool

definition setenv :: "string \<Rightarrow> string \<Rightarrow> yr_process \<Rightarrow> yr_process" where
  "setenv k v p = p\<lparr>yp_env := (yp_env p)(k := Some v)\<rparr>"

definition getenv_or :: "yr_process \<Rightarrow> string \<Rightarrow> string \<Rightarrow> string" where
  "getenv_or p k dflt = (case yp_env p k of None \<Rightarrow> dflt | Some v \<Rightarrow> v)"

text \<open>\<open>sdk\<close> and \<open>fallback\<close> say which of the two packages can be imported.\<close>

definition load_sandbox_module :: "bool \<Rightarrow> bool \<Rightarrow> yr_process \<Rightarrow> yr_process \<times> unit result" where
  "load_sandbox_module sdk fallback p =
     (if yp_initialized p then (p, Inr ())
      else
        (let server = getenv_or p ''OPENYUANRONG_SERVER_ADDRESS'' []; token = getenv_or p ''OPENYUANRONG_TOKEN'' [] in
         if server = [] \<or> token = []
         then (p, Inl (ValueError (''OPENYUANRONG_SERVER_ADDRESS and OPENYUANRONG_TOKEN environment variables must be set for sandbox'')))
         else
           (let p1 = setenv ''TUNNEL_SSL_VERIFY'' (getenv_or p ''OPENYUANRONG_TUNNEL_SSL_VERIFY'' ''0'') p in
            if getenv_or p1 ''USE_OPENYUANRONG_SDK'' ''0'' = ''1''
            then (if sdk then (p1\<lparr>yp_initialized := True\<rparr>, Inr ())
                  else (p1, Inl (OtherException ''ImportError'' ''USE_OPENYUANRONG_SDK=1 but openyuanrong_sandbox_sdk is not installed. Please install openyuanrong_sandbox_sdk or set USE_OPENYUANRONG_SDK=0.'')))
            else
              (let p2 = setenv ''AKERNEL_TOKEN'' token (setenv ''AKERNEL_SERVER_ADDRESS'' server p1) in
               if fallback then (p2\<lparr>yp_initialized := True\<rparr>, Inr ())
               else (p2, Inl (OtherException ''ImportError'' ''USE_OPENYUANRONG_SDK=0 but the fallback SDK is not installed. Please install it or set USE_OPENYUANRONG_SDK=1.''))))))"

definition resolve_sandbox_name :: "(string \<Rightarrow> string option) \<Rightarrow> string \<Rightarrow> string option" where
  "resolve_sandbox_name getenv uuid =
     (case getenv ''SANDBOX_NAME_PREFIX'' of Some (c # cs) \<Rightarrow> Some ((c # cs) @ take 8 uuid) | _ \<Rightarrow> None)"

record 's yr_sdk =
  yr_get_process :: "'s \<Rightarrow> yr_process"
  yr_put_process :: "yr_process \<Rightarrow> 's \<Rightarrow> 's"
  yr_importable :: bool
  yr_fallback :: bool
  yr_uuid :: "'s \<Rightarrow> string"
  yr_mount :: "pv \<Rightarrow> pv result"
  yr_create :: "dict \<Rightarrow> rat option \<Rightarrow> 's \<Rightarrow> 's \<times> string result"
  yr_kill :: "string \<Rightarrow> 's \<Rightarrow> 's \<times> unit result"
  yr_is_running :: "string \<Rightarrow> 's \<Rightarrow> 's \<times> bool result"
  yr_command :: "string \<Rightarrow> string \<Rightarrow> env_vars option \<Rightarrow> string option \<Rightarrow> int \<Rightarrow> 's \<Rightarrow> 's \<times> exec_result result"
  yr_read :: "string \<Rightarrow> string \<Rightarrow> 's \<Rightarrow> 's \<times> byte list result"
  yr_write :: "string \<Rightarrow> string \<Rightarrow> byte list \<Rightarrow> 's \<Rightarrow> 's \<times> unit result"

text \<open>\<open>yc_name\<close> is accepted by the constructor and not used.\<close>

record yr_config =
  yc_image :: string
  yc_cpu :: int
  yc_memory :: int
  yc_cpu_limit :: int
  yc_mem_limit :: int
  yc_idle_timeout :: int
  yc_env :: dict
  yc_cwd :: "string option"
  yc_name :: "string option"
  yc_mounts :: "pv list"
  yc_upstream :: "string option"
  yc_proxy_port :: "int option"
  yc_port_forwardings :: "int list"
  yc_extra_kwargs :: dict

definition coerce_mount :: "'s yr_sdk \<Rightarrow> pv \<Rightarrow> pv result" where
  "coerce_mount sd m = (case m of PDict _ \<Rightarrow> yr_mount sd m | _ \<Rightarrow> Inr m)"

definition when_text :: "string \<Rightarrow> string option \<Rightarrow> dict" where
  "when_text k v = (case v of Some (c # cs) \<Rightarrow> [(k, PStr (c # cs))] | _ \<Rightarrow> [])"

definition yr_kwargs :: "yr_config \<Rightarrow> pv list \<Rightarrow> string option \<Rightarrow> dict" where
  "yr_kwargs c mounts name = dupdate
     ([(''image'', PStr (yc_image c)), (''cpu'', PInt (yc_cpu c)), (''memory'', PInt (yc_memory c)),
       (''cpu_limit'', PInt (yc_cpu_limit c)), (''mem_limit'', PInt (yc_mem_limit c)), (''idle_timeout'', PInt (yc_idle_timeout c))] @
      (if mounts \<noteq> [] then [(''mounts'', PList mounts)] else []) @
      (if yc_env c \<noteq> [] then [(''env'', PDict (yc_env c))] else []) @ when_text ''cwd'' (yc_cwd c) @ when_text ''upstream'' (yc_upstream c) @
      (case yc_proxy_port c of Some n \<Rightarrow> if n \<noteq> 0 then [(''proxy_port'', PInt n)] else [] | None \<Rightarrow> []) @
      (if yc_port_forwardings c \<noteq> [] then [(''port_forwardings'', PList (map PInt (yc_port_forwardings c)))] else []) @
      (case name of None \<Rightarrow> [] | Some n \<Rightarrow> [(''name'', PStr n)])) (yc_extra_kwargs c)"

definition yr_load :: "'s yr_sdk \<Rightarrow> 's \<Rightarrow> 's \<times> unit result" where
  "yr_load sd s =
     (case load_sandbox_module (yr_importable sd) (yr_fallback sd) (yr_get_process sd s) of (p, r) \<Rightarrow> (yr_put_process sd p s, r))"

definition yr_start :: "'s yr_sdk \<Rightarrow> yr_config \<Rightarrow> rat option \<Rightarrow> 's remote_state \<Rightarrow> 's remote_state \<times> unit result" where
  "yr_start sd c limit d =
     (if rm_machine d \<noteq> None then (d, Inr ())
      else shell_bind (on_world (yr_load sd) d) (\<lambda>_ d1.
        shell_bind (d1, rmap (coerce_mount sd) (yc_mounts c)) (\<lambda>mounts d2.
        start_machine (yr_create sd (yr_kwargs c mounts
          (resolve_sandbox_name (yp_env (yr_get_process sd (rm_world d2))) (yr_uuid sd (rm_world d2)))) limit) d2)))"

text \<open>A failing kill is only logged.\<close>

definition yr_stop :: "'s yr_sdk \<Rightarrow> 's remote_state \<Rightarrow> 's remote_state \<times> unit result" where
  "yr_stop sd d =
     (case rm_machine d of
        None \<Rightarrow> (d, Inr ())
      | Some m \<Rightarrow>
          (case on_world (yr_kill sd m) d of
             (d1, Inl e) \<Rightarrow> if is_exception e then (d1\<lparr>rm_machine := None\<rparr>, Inr ()) else (d1, Inl e)
           | (d1, Inr _) \<Rightarrow> (d1\<lparr>rm_machine := None\<rparr>, Inr ())))"

definition yr_is_alive :: "'s yr_sdk \<Rightarrow> 's remote_state \<Rightarrow> 's remote_state \<times> bool" where
  "yr_is_alive sd d =
     (case rm_machine d of None \<Rightarrow> (d, False) | Some m \<Rightarrow> probe (on_world (yr_is_running sd m) d))"

definition yr_is_timeout_error :: "exn \<Rightarrow> bool" where
  "yr_is_timeout_error e \<longleftrightarrow> exn_class e = ''CommandTimeoutError'' \<or> base_is_timeout_error e"

definition yr_run_command :: "'s yr_sdk \<Rightarrow> string \<Rightarrow> exec_options \<Rightarrow> 's remote_state \<Rightarrow> 's remote_state \<times> exec_result result" where
  "yr_run_command sd cmd opts d =
     shell_bind (d, require_machine ''OpenyuanrongSandbox'' d) (\<lambda>m.
       on_world (yr_command sd m cmd (xo_env opts) (xo_workdir opts)
         (case whole_timeout (Some 60) (xo_timeout opts) of Some t \<Rightarrow> t | None \<Rightarrow> 60)))"

text \<open>\<open>exec_shell\<close> with its own error policy; \<open>exec\<close> joins the words.\<close>

definition yr_exec_shell :: "(rat \<Rightarrow> string) \<Rightarrow> 's yr_sdk \<Rightarrow> string \<Rightarrow> exec_options \<Rightarrow> 's remote_state \<Rightarrow> 's remote_state \<times> exec_result result" where
  "yr_exec_shell fr sd script opts d =
     (case yr_run_command sd script opts d of
        (d1, Inr r) \<Rightarrow> (d1, Inr r)
      | (d1, Inl e) \<Rightarrow>
          if \<not> is_exception e then (d1, Inl e)
          else if yr_is_timeout_error e
          then (d1, Inr \<lparr>xr_exit_code = -1, xr_stdout = [],
                  xr_stderr = ''exec timed out after '' @ opt_number fr (xo_timeout opts) @ ''s: '' @ exn_str e\<rparr>)
          else
            (case yr_is_alive sd d1 of
               (d2, alive) \<Rightarrow> if \<not> alive then (d2, Inl e) else (d2, Inr \<lparr>xr_exit_code = 127, xr_stdout = [], xr_stderr = exn_str e\<rparr>)))"

definition yr_exec :: "(rat \<Rightarrow> string) \<Rightarrow> 's yr_sdk \<Rightarrow> string list \<Rightarrow> exec_options \<Rightarrow> 's remote_state \<Rightarrow> 's remote_state \<times> exec_result result" where
  "yr_exec fr sd argv opts d = yr_exec_shell fr sd (join '' '' (map shlex_quote argv)) opts d"

text \<open>The same as a provider of the base class.\<close>

definition yr_provider :: "'s yr_sdk \<Rightarrow> yr_config \<Rightarrow> 's remote_state provider" where
  "yr_provider sd c =
     \<lparr>pr_start = yr_start sd c, pr_stop = yr_stop sd,
      pr_exec = (\<lambda>argv. yr_run_command sd (join '' '' (map shlex_quote argv))),
      pr_is_timeout_error = yr_is_timeout_error, pr_is_alive = yr_is_alive sd\<rparr>"

definition yr_read_file :: "'s yr_sdk \<Rightarrow> string \<Rightarrow> 's remote_state \<Rightarrow> 's remote_state \<times> byte list result" where
  "yr_read_file sd path d = shell_bind (d, require_machine ''OpenyuanrongSandbox'' d) (\<lambda>m. on_world (yr_read sd m path))"

definition yr_write_file :: "'s yr_sdk \<Rightarrow> string \<Rightarrow> content \<Rightarrow> 's remote_state \<Rightarrow> 's remote_state \<times> unit result" where
  "yr_write_file sd path c d =
     shell_bind (d, require_machine ''OpenyuanrongSandbox'' d) (\<lambda>m. on_world (yr_write sd m path (content_bytes c)))"

end
