(* ===== verification/ProviderProps.thy ===== *)
theory ProviderProps
  imports Providers
begin

text \<open>The remote providers keep the contract of the bracket, and openYuanrong that of the base class's \<open>exec\<close>.\<close>

subsection \<open>Machines\<close>

text \<open>What the SDK operations do to the machines that exist.\<close>

definition keeps :: "('s \<Rightarrow> string set) \<Rightarrow> ('s \<Rightarrow> 's \<times> 'a) \<Rightarrow> bool" where
  "keeps machines f \<longleftrightarrow> (\<forall>s. machines (fst (f s)) = machines s)"

definition creates :: "('s \<Rightarrow> string set) \<Rightarrow> ('s \<Rightarrow> 's \<times> string result) \<Rightarrow> bool" where
  "creates machines f \<longleftrightarrow> (\<forall>s. case f s of
     (s', Inr m) \<Rightarrow> m \<notin> machines s \<and> machines s' = insert m (machines s) | (s', Inl _) \<Rightarrow> machines s' = machines s)"

definition destroys :: "('s \<Rightarrow> string set) \<Rightarrow> (string \<Rightarrow> 's \<Rightarrow> 's \<times> unit result) \<Rightarrow> bool" where
  "destroys machines f \<longleftrightarrow> (\<forall>m s. machines (fst (f m s)) = machines s - {m} \<and> snd (f m s) = Inr ())"

lemma destroysD: "destroys machines f \<Longrightarrow> f m s = (w, z) \<Longrightarrow> machines w = machines s - {m} \<and> z = Inr ()"
  unfolding destroys_def by (metis fst_conv snd_conv)

definition remote_owned :: "('s \<Rightarrow> string set) \<Rightarrow> string set \<Rightarrow> 's remote_state \<Rightarrow> bool" where
  "remote_owned machines base d \<longleftrightarrow>
     (case rm_machine d of
        None \<Rightarrow> machines (rm_world d) = base
      | Some m \<Rightarrow> m \<notin> base \<and> machines (rm_world d) = insert m base)"

lemma on_world_fst [simp]: "fst (on_world f d) = d\<lparr>rm_world := fst (f (rm_world d))\<rparr>"
  "snd (on_world f d) = snd (f (rm_world d))"
  by (simp_all add: on_world_def split: prod.split)

lemma bind_owned:
  assumes "remote_owned machines base (fst x)"
    and "\<And>v d. remote_owned machines base d \<Longrightarrow> remote_owned machines base (fst (f v d))"
  shows "remote_owned machines base (fst (shell_bind x f))"
  using assms by (cases x; cases "snd x") (auto simp: shell_bind_def)

lemma keeps_owned: "keeps machines f \<Longrightarrow> remote_owned machines base d \<Longrightarrow> remote_owned machines base (fst (on_world f d))"
  by (auto simp: remote_owned_def keeps_def split: option.splits)

lemma start_machine_owned:
  assumes "creates machines f" "remote_owned machines base d"
  shows "remote_owned machines base (fst (start_machine f d))"
  using assms
  by (cases "f (rm_world d)"; cases "snd (f (rm_world d))")
     (auto simp: start_machine_def shell_bind_def on_world_def remote_owned_def creates_def
       dest!: spec [where x = "rm_world d"] split: option.splits)

subsection \<open>The three providers\<close>

datatype 's cloud = CModal "'s modal_sdk" modal_config | CCube "'s cube_sdk" cube_config | CYr "'s yr_sdk" yr_config

primrec cloud_provider :: "'s cloud \<Rightarrow> 's remote_state provider" where
  "cloud_provider (CModal sd c) = modal_provider sd c"
| "cloud_provider (CCube sd c) = cube_provider sd c"
| "cloud_provider (CYr sd c) = yr_provider sd c"

text \<open>
  The documented behaviour of the SDKs: a create adds a machine or fails, a kill removes it, a poll that
  gives an exit code tells that the machine is gone, nothing else touches the machines.
\<close>

definition polls :: "('s \<Rightarrow> string set) \<Rightarrow> (string \<Rightarrow> 's \<Rightarrow> 's \<times> int option result) \<Rightarrow> bool" where
  "polls machines f \<longleftrightarrow> (\<forall>m s. case f m s of
     (s', Inr None) \<Rightarrow> machines s' = machines s | (s', Inr (Some _)) \<Rightarrow> machines s' = machines s - {m} | (s', Inl _) \<Rightarrow> False)"

primrec cloud_contract :: "('s \<Rightarrow> string set) \<Rightarrow> 's cloud \<Rightarrow> bool" where
  "cloud_contract machines (CModal sd c) \<longleftrightarrow>
     (\<forall>n. keeps machines (md_lookup sd n)) \<and> (\<forall>app img t kw limit. creates machines (md_create sd app img t kw limit)) \<and>
     polls machines (md_poll sd) \<and> destroys machines (md_terminate sd)"
| "cloud_contract machines (CCube sd c) \<longleftrightarrow>
     (\<forall>kw limit. creates machines (cb_create sd kw limit)) \<and> (\<exists>close. cb_close sd = Some close \<and> destroys machines close)"
| "cloud_contract machines (CYr sd c) \<longleftrightarrow>
     (\<forall>p s. machines (yr_put_process sd p s) = machines s) \<and> (\<forall>kw limit. creates machines (yr_create sd kw limit)) \<and>
     destroys machines (yr_kill sd)"

lemma cloud_start_owned:
  assumes "cloud_contract machines x" "remote_owned machines base d"
  shows "remote_owned machines base (fst (pr_start (cloud_provider x) limit d))"
proof (cases x)
  case (CModal sd c)
  have start: "remote_owned machines base d \<Longrightarrow> remote_owned machines base (fst (start_machine (md_create sd app img t kw limit) d))" for d app img t kw
    by (rule start_machine_owned) (use assms(1) CModal in auto)
  have "remote_owned machines base (fst (on_world (md_lookup sd (mc_app_name c)) d))"
    by (rule keeps_owned) (use assms CModal in auto)
  then show ?thesis using assms(2) CModal
    by (auto simp: modal_provider_def modal_start_def intro!: bind_owned start)
next
  case (CCube sd c)
  then show ?thesis using assms
    by (auto simp: cube_provider_def cube_start_def start_machine_owned split: option.split list.split)
next
  case (CYr sd c)
  have "keeps machines (yr_load sd)" using assms(1) CYr by (simp add: keeps_def yr_load_def split: prod.split)
  then have load: "remote_owned machines base (fst (on_world (yr_load sd) d))" by (rule keeps_owned) (rule assms(2))
  have start: "remote_owned machines base d \<Longrightarrow> remote_owned machines base (fst (start_machine (yr_create sd kw limit) d))" for d kw
    by (rule start_machine_owned) (use assms(1) CYr in auto)
  show ?thesis using assms(2) CYr load by (auto simp: yr_provider_def yr_start_def intro!: bind_owned start)
qed

lemma removed_owned:
  assumes "remote_owned machines base d" "rm_machine d = Some m" "machines w = machines (rm_world d) - {m}"
  shows "remote_owned machines base (d\<lparr>rm_world := w, rm_machine := None\<rparr>)"
  using assms by (auto simp: remote_owned_def)

lemma cloud_stop_cleans:
  assumes "cloud_contract machines x" "remote_owned machines base d"
  shows "\<exists>d'. pr_stop (cloud_provider x) d = (d', Inr ()) \<and> remote_owned machines base d' \<and> rm_machine d' = None"
proof (cases "rm_machine d")
  case None
  then show ?thesis using assms(2)
    by (cases x) (auto simp: modal_provider_def modal_stop_def cube_provider_def cube_stop_def yr_provider_def yr_stop_def remote_owned_def)
next
  case (Some m)
  show ?thesis
  proof (cases x)
    case (CModal sd c)
    obtain w y where p: "md_poll sd m (rm_world d) = (w, y)" by (cases "md_poll sd m (rm_world d)")
    obtain w' z where k: "md_terminate sd m w = (w', z)" by (cases "md_terminate sd m w")
    have P: "case y of Inr None \<Rightarrow> machines w = machines (rm_world d) | Inr (Some _) \<Rightarrow> machines w = machines (rm_world d) - {m} | Inl _ \<Rightarrow> False"
      using assms(1) CModal p by (auto simp: polls_def dest!: spec [where x = m] spec [where x = "rm_world d"])
    have K: "machines w' = machines w - {m}" "z = Inr ()"
      using assms(1) CModal destroysD [where f = "md_terminate sd", OF _ k] by auto
    show ?thesis using CModal Some p k P K assms(2)
      by (cases y) (auto simp: modal_provider_def modal_stop_def shell_bind_def on_world_def remote_owned_def split: option.splits)
  next
    case (CCube sd c)
    then obtain close where c: "cb_close sd = Some close" "destroys machines close" using assms(1) by auto
    obtain w z where k: "close m (rm_world d) = (w, z)" by (cases "close m (rm_world d)")
    have "machines w = machines (rm_world d) - {m}" "z = Inr ()" using destroysD [OF c(2), OF k] by simp_all
    then show ?thesis using CCube Some c(1) k assms(2)
      by (auto simp: cube_provider_def cube_stop_def on_world_def Let_def remote_owned_def)
  next
    case (CYr sd c)
    obtain w z where k: "yr_kill sd m (rm_world d) = (w, z)" by (cases "yr_kill sd m (rm_world d)")
    have "machines w = machines (rm_world d) - {m}" "z = Inr ()" using assms(1) CYr destroysD [where f = "yr_kill sd", OF _ k] by auto
    then show ?thesis using CYr Some k assms(2)
      by (auto simp: yr_provider_def yr_stop_def on_world_def remote_owned_def)
  qed
qed

definition cloud_owned :: "('s \<Rightarrow> string set) \<Rightarrow> 's cloud \<Rightarrow> string set \<Rightarrow> 's remote_state \<Rightarrow> bool" where
  "cloud_owned machines x base d \<longleftrightarrow> cloud_contract machines x \<and> remote_owned machines base d"

definition cloud_clean :: "('s \<Rightarrow> string set) \<Rightarrow> 's cloud \<Rightarrow> string set \<Rightarrow> 's remote_state \<Rightarrow> bool" where
  "cloud_clean machines x base d \<longleftrightarrow> cloud_owned machines x base d \<and> rm_machine d = None"

interpretation cloud: container_life "cloud_provider x" "cloud_owned machines x base" "cloud_clean machines x base"
  for machines :: "'s \<Rightarrow> string set" and x base
proof
  fix d :: "'s remote_state" and limit
  show "cloud_owned machines x base (fst (pr_start (cloud_provider x) limit d))" if "cloud_clean machines x base d"
    using that cloud_start_owned by (auto simp: cloud_clean_def cloud_owned_def)
  show "\<exists>d'. pr_stop (cloud_provider x) d = (d', Inr ()) \<and> cloud_clean machines x base d'" if "cloud_owned machines x base d"
    using that cloud_stop_cleans by (fastforce simp: cloud_clean_def cloud_owned_def)
qed


text \<open>A cloud with at most one machine; its world is whether it runs.\<close>

definition demo_cube :: "bool cube_sdk" where
  "demo_cube =
     \<lparr>cb_decode = (\<lambda>_. []), cb_installed = True,
      cb_create = (\<lambda>_ _ w. if w then (w, Inl (RuntimeError ''quota'')) else (True, Inr ''vm'')),
      cb_close = Some (\<lambda>m w. (w \<and> m \<noteq> ''vm'', Inr ())), cb_run = (\<lambda>_ _ _ w. (w, Inr (0, NoStream, NoStream)))\<rparr>"

definition demo_machines :: "bool \<Rightarrow> string set" where
  "demo_machines w = (if w then {''vm''} else {})"


text \<open>When the kill fails, openYuanrong forgets a machine that goes on running.\<close>

lemma yr_failed_kill_forgets:
  assumes "rm_machine d = Some m" "yr_kill sd m (rm_world d) = (w, Inl e)" "is_exception e"
  shows "yr_stop sd d = (d\<lparr>rm_world := w, rm_machine := None\<rparr>, Inr ())"
  using assms by (simp add: yr_stop_def on_world_def)

subsection \<open>Error policy\<close>

text \<open>The commands of openYuanrong follow the error policy of the base class, so the lemmas about \<open>exec\<close> apply.\<close>

lemma yr_exec_is_base_exec: "yr_exec fr sd argv opts d = sandbox_exec fr (yr_provider sd c) argv opts d"
  by (simp add: yr_exec_def yr_exec_shell_def sandbox_exec_def yr_provider_def split: prod.split sum.split)

text \<open>A command without a limit, or with the limit zero, is cut after 60 seconds.\<close>

lemma yr_unlimited_is_60:
  "rm_machine d = Some m \<Longrightarrow> xo_timeout opts \<in> {None, Some 0} \<Longrightarrow>
     yr_run_command sd cmd opts d = on_world (yr_command sd m cmd (xo_env opts) (xo_workdir opts) 60) d"
  by (auto simp: yr_run_command_def require_machine_def shell_bind_def whole_timeout_def)

end
