(* ===== verification/Vefaas.thy ===== *)
theory Vefaas
  imports Lifecycle PyLines
begin

text \<open>
  The veFaaS provider, \<open>sandbox/vefaas.py\<close>: a remote sandbox created through a blocking SDK and driven
  over HTTP by a small \<open>swerex\<close> client.
\<close>

subsection \<open>Configuration\<close>

definition to_vefaas_image :: "string \<Rightarrow> string result" where
  "to_vefaas_image img =
     (if img = ''python:3.12'' then Inr ''enterprise-public-2-cn-beijing.cr.volces.com/vefaas-public/python:3.12''
      else if startswith img ''swebench/''
      then Inr (replace_str ''swebench/'' ''enterprise-public-cn-beijing.cr.volces.com/swe-bench-verified/'' img @ '':v2'')
      else if startswith img ''swerebench/''
      then Inr (replace_str ''swerebench/'' ''enterprise-public-cn-beijing.cr.volces.com/swe-rebench/'' img @ '':latest'')
      else Inl (ValueError (''Unsupported image: '' @ img)))"

definition split_env_list :: "string option \<Rightarrow> string list" where
  "split_env_list raw =
     (case raw of
        None \<Rightarrow> []
      | Some s \<Rightarrow> if s = [] then [] else filter (\<lambda>x. x \<noteq> []) (map strip (split_str '','' s)))"

definition function_pairs :: "(string \<Rightarrow> string option) \<Rightarrow> (string \<times> string) list result" where
  "function_pairs getenv =
     (let ids = split_env_list (getenv ''VEFAAS_FUNCTION_ID''); routes = split_env_list (getenv ''VEFAAS_FUNCTION_ROUTE'') in
      if ids = [] then Inl (ValueError ''VEFAAS_FUNCTION_ID is not set'')
      else if routes = [] then Inl (ValueError ''VEFAAS_FUNCTION_ROUTE is not set'')
      else if length ids \<noteq> length routes
      then Inl (ValueError (''VEFAAS_FUNCTION_ID has '' @ str_of_nat (length ids) @ '' entries but VEFAAS_FUNCTION_ROUTE has '' @
             str_of_nat (length routes) @ ''; they must pair up one-to-one''))
      else Inr (zip ids routes))"

text \<open>\<open>random.choice\<close>: \<open>pick\<close> is the random index.\<close>

definition select_function_pair :: "(string \<Rightarrow> string option) \<Rightarrow> (nat \<Rightarrow> nat) \<Rightarrow> (string \<times> string) result" where
  "select_function_pair getenv pick = rbind (function_pairs getenv) (\<lambda>ps. Inr (ps ! (pick (length ps) mod length ps)))"

definition install_command :: "string \<Rightarrow> string" where
  "install_command token =
     ''curl -fsSL https://vefaas-swe.tos-cn-beijing.ivolces.com/swe-rex/install_1.4.0.sh '' @
     ''-o /tmp/swe-rex-install.sh && exec bash /tmp/swe-rex-install.sh '' @ token"

text \<open>The keys of the SDK client; \<open>first_env\<close> is the first variable that is set and not empty.\<close>

definition first_env :: "(string \<Rightarrow> string option) \<Rightarrow> string list \<Rightarrow> string option" where
  "first_env getenv names = find (\<lambda>v. v \<noteq> []) (map (\<lambda>n. case getenv n of None \<Rightarrow> [] | Some v \<Rightarrow> v) names)"

definition vefaas_credentials :: "(string \<Rightarrow> string option) \<Rightarrow> (string \<times> string \<times> string \<times> string option) result" where
  "vefaas_credentials getenv =
     (case (first_env getenv [''VOLCE_ACCESS_KEY'', ''VOLCENGINE_ACCESS_KEY''], first_env getenv [''VOLCE_SECRET_KEY'', ''VOLCENGINE_SECRET_KEY'']) of
        (Some ak, Some sk) \<Rightarrow>
          Inr (ak, sk, case getenv ''VEFAAS_REGION'' of None \<Rightarrow> ''cn-beijing'' | Some r \<Rightarrow> r, getenv ''SANDBOX_PROXY'')
      | _ \<Rightarrow> Inl (ValueError ''VefaasSandbox needs Volcengine credentials: set VOLCE_ACCESS_KEY / VOLCE_SECRET_KEY.''))"

subsection \<open>The client\<close>

text \<open>An HTTP exchange gives the status and the body when it is JSON; \<open>vh_get\<close> answers with how long it took.\<close>

record 's vefaas_http =
  vh_post :: "string \<Rightarrow> env_vars \<Rightarrow> pv \<Rightarrow> rat \<Rightarrow> 's \<Rightarrow> 's \<times> (int \<times> pv option) result"
  vh_get :: "string \<Rightarrow> env_vars \<Rightarrow> rat \<Rightarrow> 's \<Rightarrow> 's \<times> rat \<times> int result"
  vh_uuid :: "'s \<Rightarrow> string"
  vh_sleep :: "rat \<Rightarrow> 's \<Rightarrow> 's \<times> unit result"
  vh_response :: "pv \<Rightarrow> (int option \<times> string \<times> string) result"

record vefaas_runtime =
  vr_base_url :: string
  vr_auth_token :: string
  vr_instance_name :: string
  vr_timeout :: rat

definition new_runtime :: "string \<Rightarrow> string \<Rightarrow> string \<Rightarrow> vefaas_runtime" where
  "new_runtime base_url token instance_name =
     \<lparr>vr_base_url = rev (dropWhile (\<lambda>c. c = CHR ''/'') (rev base_url)), vr_auth_token = token, vr_instance_name = instance_name,
      vr_timeout = 60\<rparr>"

definition runtime_headers :: "vefaas_runtime \<Rightarrow> env_vars" where
  "runtime_headers rt =
     (if vr_auth_token rt \<noteq> [] then [(''X-API-Key'', vr_auth_token rt)] else []) @
     (if vr_instance_name rt \<noteq> [] then [(''X-Faas-Instance-Name'', vr_instance_name rt)] else [])"

text \<open>The last dotted part of a class path.\<close>

definition last_part :: "string \<Rightarrow> string" where
  "last_part s = rev (takeWhile (\<lambda>c. c \<noteq> CHR ''.'') (rev s))"

definition swerex_error :: "(rat \<Rightarrow> string) \<Rightarrow> dict \<Rightarrow> exn" where
  "swerex_error fr info =
     (let text_or = (\<lambda>k dflt. let v = get_none info k in py_str fr (if truthy v then v else PStr dflt)); m = text_or ''message'' ''swerex runtime error'' in
      if last_part (text_or ''class_path'' []) = ''CommandTimeoutError'' then OtherException ''CommandTimeoutError'' m
      else OtherException ''SwerexException'' m)"

definition raise_for_error :: "(rat \<Rightarrow> string) \<Rightarrow> int \<Rightarrow> pv option \<Rightarrow> unit result" where
  "raise_for_error fr status data =
     (if status < 400 then Inr ()
      else case (if status = 511 then data else None) of
        Some (PDict d) \<Rightarrow>
          (case get_none d ''swerexception'' of
             PDict info \<Rightarrow> Inl (swerex_error fr info)
           | _ \<Rightarrow> Inl (OtherException ''ClientResponseError'' (str_of_int status)))
      | _ \<Rightarrow> Inl (OtherException ''ClientResponseError'' (str_of_int status)))"

definition runtime_post ::
  "(rat \<Rightarrow> string) \<Rightarrow> 's vefaas_http \<Rightarrow> vefaas_runtime \<Rightarrow> string \<Rightarrow> pv \<Rightarrow> rat \<Rightarrow> 's \<Rightarrow> 's \<times> pv result" where
  "runtime_post fr h rt endpoint payload timeout s =
     shell_bind (vh_post h (vr_base_url rt @ ''/'' @ endpoint)
        (dset (runtime_headers rt) ''X-Request-ID'' (vh_uuid h s)) payload timeout s) (\<lambda>(status, data) s1.
     (s1, rbind (raise_for_error fr status data) (\<lambda>_.
            case data of None \<Rightarrow> Inl (OtherException ''ContentTypeError'' []) | Some v \<Rightarrow> Inr v)))"

definition runtime_alive :: "'s vefaas_http \<Rightarrow> vefaas_runtime \<Rightarrow> rat \<Rightarrow> 's \<Rightarrow> 's \<times> rat \<times> bool result" where
  "runtime_alive h rt timeout s =
     (case vh_get h (vr_base_url rt @ ''/is_alive'') (runtime_headers rt) timeout s of
        (s1, dt, Inr status) \<Rightarrow> (s1, dt, Inr (status = 200))
      | (s1, dt, Inl e) \<Rightarrow> (s1, dt, if is_exception e then Inr False else Inl e))"

lemma wait_decreases:
  fixes t timeout elapsed :: rat
  assumes "elapsed \<le> t" "t < timeout"
  shows "\<lceil>(timeout - (t + 2)) / 2\<rceil> < \<lceil>(timeout - elapsed) / 2\<rceil>"
proof -
  have "(timeout - (t + 2)) / 2 = (timeout - t) / 2 - 1" by (simp add: field_simps)
  then have "\<lceil>(timeout - (t + 2)) / 2\<rceil> = \<lceil>(timeout - t) / 2\<rceil> - 1" by (simp only: ceiling_diff_one)
  moreover have "\<lceil>(timeout - t) / 2\<rceil> \<le> \<lceil>(timeout - elapsed) / 2\<rceil>" using assms(1) by (intro ceiling_mono divide_right_mono) simp_all
  ultimately show ?thesis by simp
qed

text \<open>
  The wait for the runtime, every two seconds until the deadline.  \<open>elapsed\<close> is the monotonic time since
  the start; a pause takes at least its two seconds.
\<close>

function wait_until_alive ::
  "(rat \<Rightarrow> string) \<Rightarrow> 's vefaas_http \<Rightarrow> vefaas_runtime \<Rightarrow> rat \<Rightarrow> rat \<Rightarrow> 's \<Rightarrow> 's \<times> unit result" where
  "wait_until_alive fr h rt timeout elapsed s =
     (case runtime_alive h rt (min (vr_timeout rt) 10) s of
        (s1, dt, Inl e) \<Rightarrow> (s1, Inl e)
      | (s1, dt, Inr True) \<Rightarrow> (s1, Inr ())
      | (s1, dt, Inr False) \<Rightarrow>
          (let t = elapsed + max 0 dt in
           if t \<ge> timeout
           then (s1, Inl (OtherException ''TimeoutError'' (''veFaaS runtime not alive within '' @ fr timeout @ ''s at '' @ vr_base_url rt)))
           else (case vh_sleep h 2 s1 of
                   (s2, Inl e) \<Rightarrow> (s2, Inl e)
                 | (s2, Inr _) \<Rightarrow> wait_until_alive fr h rt timeout (t + 2) s2)))"
  by pat_completeness auto

termination
  by (relation "measure (\<lambda>(fr, h, rt, timeout, elapsed, s). nat \<lceil>(timeout - elapsed) / 2\<rceil>)")
     (auto intro!: wait_decreases)

declare wait_until_alive.simps [simp del]

subsection \<open>The sandbox\<close>

text \<open>
  \<open>vf_create\<close> and \<open>vf_kill\<close> are the blocking SDK calls; \<open>vf_expired\<close> tells whether a pending
  cancellation is the one of the start's own time limit.
\<close>

record 's vefaas_api =
  vf_http :: "'s vefaas_http"
  vf_getenv :: "string \<Rightarrow> string option"
  vf_create :: "string \<Rightarrow> string \<Rightarrow> string \<Rightarrow> int \<Rightarrow> 's \<Rightarrow> 's \<times> string result"
  vf_kill :: "string \<Rightarrow> string \<Rightarrow> 's \<Rightarrow> 's \<times> unit result"
  vf_expired :: "'s \<Rightarrow> bool"

record vefaas_config =
  vc_image :: string
  vc_runtime_timeout :: rat
  vc_startup_timeout :: rat
  vc_function_id :: string
  vc_function_route :: string

record 's vefaas_state =
  vs_client :: bool
  vs_sandbox_id :: "string option"
  vs_runtime :: "vefaas_runtime option"
  vs_world :: 's

definition in_world :: "('s \<Rightarrow> 's \<times> 'a) \<Rightarrow> 's vefaas_state \<Rightarrow> 's vefaas_state \<times> 'a" where
  "in_world f d = (case f (vs_world d) of (w, x) \<Rightarrow> (d\<lparr>vs_world := w\<rparr>, x))"

definition require_runtime :: "'s vefaas_state \<Rightarrow> vefaas_runtime result" where
  "require_runtime d =
     (case vs_runtime d of None \<Rightarrow> Inl (RuntimeError ''VefaasSandbox not started; call start() first'') | Some rt \<Rightarrow> Inr rt)"

text \<open>A long command must not be cut off by the client's own limit.\<close>

definition http_timeout :: "rat \<Rightarrow> rat option \<Rightarrow> rat" where
  "http_timeout own t = (case t of Some c \<Rightarrow> if c \<noteq> 0 then max own (c + 30) else own | None \<Rightarrow> own)"

definition opt_num :: "rat option \<Rightarrow> pv" where
  "opt_num t = (case t of None \<Rightarrow> PNone | Some r \<Rightarrow> PFloat r)"

definition command_payload :: "string list \<Rightarrow> exec_options \<Rightarrow> pv" where
  "command_payload argv opts =
     PDict [(''command'', PList (map PStr argv)), (''shell'', PBool False),
       (''cwd'', case xo_workdir opts of None \<Rightarrow> PNone | Some w \<Rightarrow> PStr w),
       (''env'', case xo_env opts of Some (kv # kvs) \<Rightarrow> PDict (map (\<lambda>(k, v). (k, PStr v)) (kv # kvs)) | _ \<Rightarrow> PNone),
       (''timeout'', opt_num (xo_timeout opts))]"

definition exec_reply :: "(int option \<times> string \<times> string) result \<Rightarrow> exec_result result" where
  "exec_reply r =
     (case r of
        Inr (code, out, err) \<Rightarrow> Inr \<lparr>xr_exit_code = (case code of None \<Rightarrow> 0 | Some n \<Rightarrow> n), xr_stdout = out, xr_stderr = err\<rparr>
      | Inl e \<Rightarrow>
          if exn_class e = ''CommandTimeoutError'' then Inr \<lparr>xr_exit_code = -1, xr_stdout = [], xr_stderr = exn_str e\<rparr>
          else if exn_class e = ''SwerexException'' then Inr \<lparr>xr_exit_code = 1, xr_stdout = [], xr_stderr = exn_str e\<rparr>
          else Inl e)"

definition vefaas_exec ::
  "(rat \<Rightarrow> string) \<Rightarrow> 's vefaas_api \<Rightarrow> string list \<Rightarrow> exec_options \<Rightarrow> 's vefaas_state \<Rightarrow> 's vefaas_state \<times> exec_result result" where
  "vefaas_exec fr v argv opts d =
     shell_bind (d, require_runtime d) (\<lambda>rt d1.
       (case in_world (runtime_post fr (vf_http v) rt ''execute'' (command_payload argv opts)
                (http_timeout (vr_timeout rt) (xo_timeout opts))) d1 of
          (d2, r) \<Rightarrow> (d2, exec_reply (rbind r (vh_response (vf_http v))))))"

definition vefaas_is_timeout_error :: "exn \<Rightarrow> bool" where
  "vefaas_is_timeout_error e \<longleftrightarrow> exn_class e = ''CommandTimeoutError'' \<or> base_is_timeout_error e"

definition vefaas_is_alive :: "'s vefaas_api \<Rightarrow> 's vefaas_state \<Rightarrow> 's vefaas_state \<times> bool" where
  "vefaas_is_alive v d =
     (case vs_runtime d of
        None \<Rightarrow> (d, False)
      | Some rt \<Rightarrow>
          (case runtime_alive (vf_http v) rt 10 (vs_world d) of (w, _, r) \<Rightarrow> (d\<lparr>vs_world := w\<rparr>, r = Inr True)))"

text \<open>The last step of the start installs tmux over the sandbox's own \<open>exec\<close>.\<close>

definition install_tmux :: "(rat \<Rightarrow> string) \<Rightarrow> 's vefaas_api \<Rightarrow> 's vefaas_state \<Rightarrow> 's vefaas_state \<times> exec_result result" where
  "install_tmux fr v d =
     exec_shell fr \<lparr>pr_start = (\<lambda>_ d. (d, Inr ())), pr_stop = (\<lambda>d. (d, Inr ())), pr_exec = vefaas_exec fr v,
                    pr_is_timeout_error = vefaas_is_timeout_error, pr_is_alive = vefaas_is_alive v\<rparr>
       ''DEBIAN_FRONTEND=noninteractive apt-get install -y -qq tmux'' (no_options\<lparr>xo_timeout := Some 300\<rparr>) d"

definition vefaas_boot :: "(rat \<Rightarrow> string) \<Rightarrow> 's vefaas_api \<Rightarrow> vefaas_config \<Rightarrow> 's vefaas_state \<Rightarrow> 's vefaas_state \<times> unit result" where
  "vefaas_boot fr v c d =
     (if vs_runtime d \<noteq> None then (d, Inr ())
      else
        shell_bind (d, vefaas_credentials (vf_getenv v)) (\<lambda>_ d1.
        (let d2 = d1\<lparr>vs_client := True\<rparr>; token = vh_uuid (vf_http v) (vs_world d2) in
         shell_bind (in_world (vf_create v (vc_function_id c) (vc_image c) (install_command token) (trunc (vc_runtime_timeout c / 60))) d2)
           (\<lambda>sid d3.
             if sid = [] then (d3, Inl (RuntimeError ''veFaaS create_sandbox returned no sandbox id''))
             else
               (let rt = new_runtime (vc_function_route c) token sid in
                shell_bind (in_world (wait_until_alive fr (vf_http v) rt (vc_startup_timeout c) 0) (d3\<lparr>vs_sandbox_id := Some sid\<rparr>))
                  (\<lambda>_ d4. shell_bind (install_tmux fr v (d4\<lparr>vs_runtime := Some rt\<rparr>)) (\<lambda>_ d5. (d5, Inr ()))))))))"

text \<open>\<open>wait_for\<close>: a cancellation by its own limit becomes a \<open>TimeoutError\<close>.\<close>

definition vefaas_start ::
  "(rat \<Rightarrow> string) \<Rightarrow> 's vefaas_api \<Rightarrow> vefaas_config \<Rightarrow> rat option \<Rightarrow> 's vefaas_state \<Rightarrow> 's vefaas_state \<times> unit result" where
  "vefaas_start fr v c limit d =
     (case vefaas_boot fr v c d of
        (d1, Inl (BaseExc m)) \<Rightarrow>
          (d1, Inl (if limit \<noteq> None \<and> vf_expired v (vs_world d1) then OtherException ''TimeoutError'' [] else BaseExc m))
      | (d1, r) \<Rightarrow> (d1, r))"

definition close_runtime :: "(rat \<Rightarrow> string) \<Rightarrow> 's vefaas_api \<Rightarrow> 's vefaas_state \<Rightarrow> 's vefaas_state \<times> unit result" where
  "close_runtime fr v d =
     (case vs_runtime d of
        None \<Rightarrow> (d, Inr ())
      | Some rt \<Rightarrow>
          (case in_world (runtime_post fr (vf_http v) rt ''close'' PNone (vr_timeout rt)) d of
             (d1, Inl e) \<Rightarrow> if is_exception e then (d1\<lparr>vs_runtime := None\<rparr>, Inr ()) else (d1, Inl e)
           | (d1, Inr _) \<Rightarrow> (d1\<lparr>vs_runtime := None\<rparr>, Inr ())))"

text \<open>A failing kill leaves the id, so that a later stop can try again.\<close>

definition vefaas_stop :: "(rat \<Rightarrow> string) \<Rightarrow> 's vefaas_api \<Rightarrow> vefaas_config \<Rightarrow> 's vefaas_state \<Rightarrow> 's vefaas_state \<times> unit result" where
  "vefaas_stop fr v c d =
     shell_bind (close_runtime fr v d) (\<lambda>_ d1.
     shell_bind
       (case vs_sandbox_id d1 of
          Some sid \<Rightarrow>
            if vs_client d1
            then shell_bind (in_world (vf_kill v (vc_function_id c) sid) d1) (\<lambda>_ d2. (d2\<lparr>vs_sandbox_id := None\<rparr>, Inr ()))
            else (d1, Inr ())
        | None \<Rightarrow> (d1, Inr ()))
       (\<lambda>_ d3. (d3\<lparr>vs_client := False\<rparr>, Inr ())))"

definition vefaas_provider :: "(rat \<Rightarrow> string) \<Rightarrow> 's vefaas_api \<Rightarrow> vefaas_config \<Rightarrow> 's vefaas_state provider" where
  "vefaas_provider fr v c =
     \<lparr>pr_start = vefaas_start fr v c, pr_stop = vefaas_stop fr v c, pr_exec = vefaas_exec fr v,
      pr_is_timeout_error = vefaas_is_timeout_error, pr_is_alive = vefaas_is_alive v\<rparr>"

text \<open>Files ride in the bodies of the requests; \<open>decode\<close> is strict UTF-8 decoding.\<close>

definition vefaas_write_file ::
  "(rat \<Rightarrow> string) \<Rightarrow> 's vefaas_api \<Rightarrow> (byte list \<Rightarrow> string result) \<Rightarrow> string \<Rightarrow> content \<Rightarrow> 's vefaas_state \<Rightarrow> 's vefaas_state \<times> unit result" where
  "vefaas_write_file fr v decode path c d =
     shell_bind (d, case c of Bytes bs \<Rightarrow> decode bs | Str t \<Rightarrow> Inr t) (\<lambda>t d1.
     shell_bind (d1, require_runtime d1) (\<lambda>rt d2.
     shell_bind (in_world (runtime_post fr (vf_http v) rt ''write_file'' (PDict [(''path'', PStr path), (''content'', PStr t)]) (vr_timeout rt)) d2)
       (\<lambda>_ d3. (d3, Inr ()))))"

definition vefaas_read_file ::
  "(rat \<Rightarrow> string) \<Rightarrow> 's vefaas_api \<Rightarrow> string \<Rightarrow> 's vefaas_state \<Rightarrow> 's vefaas_state \<times> byte list result" where
  "vefaas_read_file fr v path d =
     shell_bind (d, require_runtime d) (\<lambda>rt d1.
     shell_bind (in_world (runtime_post fr (vf_http v) rt ''read_file'' (PDict [(''path'', PStr path)]) (vr_timeout rt)) d1) (\<lambda>r d2.
     (d2, rbind (need_dict ''content'' r) (\<lambda>o'. rbind (dict_item o' ''content'') (\<lambda>x.
            case x of PStr t \<Rightarrow> Inr (content_bytes (Str t)) | _ \<Rightarrow> Inl (ValueError ''content''))))))"

end
