(* ===== verification/VefaasProps.thy ===== *)
theory VefaasProps
  imports Vefaas
begin

text \<open>The veFaaS provider keeps the contract of the bracket, as long as its kills succeed.\<close>

definition keeps_world :: "('s \<Rightarrow> string set) \<Rightarrow> ('s \<Rightarrow> 's \<times> 'a) \<Rightarrow> bool" where
  "keeps_world machines f \<longleftrightarrow> (\<forall>w w' x. f w = (w', x) \<longrightarrow> machines w' = machines w)"

lemma keeps_worldD: "keeps_world machines f \<Longrightarrow> f w = (w', x) \<Longrightarrow> machines w' = machines w"
  by (simp add: keeps_world_def)

text \<open>
  The documented behaviour of the service: a create adds the sandbox it names, a kill removes it, the
  requests to a sandbox change none, and closing the client is not cancelled.
\<close>

definition vefaas_contract :: "('s \<Rightarrow> string set) \<Rightarrow> 's vefaas_api \<Rightarrow> bool" where
  "vefaas_contract machines v \<longleftrightarrow>
     (\<forall>fid img cmd t w w' r. vf_create v fid img cmd t w = (w', r) \<longrightarrow>
        (case r of
           Inr (c # cs) \<Rightarrow> (c # cs) \<notin> machines w \<and> machines w' = insert (c # cs) (machines w)
         | _ \<Rightarrow> machines w' = machines w)) \<and>
     (\<forall>fid sid w. \<exists>w'. vf_kill v fid sid w = (w', Inr ()) \<and> machines w' = machines w - {sid}) \<and>
     (\<forall>url hs body t. keeps_world machines (vh_post (vf_http v) url hs body t)) \<and>
     (\<forall>url hs body t w w' e. vh_post (vf_http v) url hs body t w = (w', Inl e) \<longrightarrow> is_exception e) \<and>
     (\<forall>url hs t. keeps_world machines (vh_get (vf_http v) url hs t)) \<and>
     (\<forall>t. keeps_world machines (vh_sleep (vf_http v) t))"

lemmas service_facts = vefaas_contract_def [THEN iffD1]
lemmas service_create = service_facts [THEN conjunct1, rule_format]
lemmas service_kill = service_facts [THEN conjunct2, THEN conjunct1, rule_format]
lemmas service_post = service_facts [THEN conjunct2, THEN conjunct2, THEN conjunct1, rule_format]
lemmas service_raises = service_facts [THEN conjunct2, THEN conjunct2, THEN conjunct2, THEN conjunct1, rule_format]
lemmas service_get = service_facts [THEN conjunct2, THEN conjunct2, THEN conjunct2, THEN conjunct2, THEN conjunct1, rule_format]
lemmas service_sleep = service_facts [THEN conjunct2, THEN conjunct2, THEN conjunct2, THEN conjunct2, THEN conjunct2, rule_format]

lemma post_world: "vefaas_contract machines v \<Longrightarrow> keeps_world machines (runtime_post fr (vf_http v) rt ep body t)"
  unfolding keeps_world_def runtime_post_def shell_bind_def
  by (auto split: prod.splits sum.splits dest: keeps_worldD [OF service_post])

lemma alive_world: "vefaas_contract machines v \<Longrightarrow> keeps_world machines (runtime_alive (vf_http v) rt t)"
  unfolding keeps_world_def runtime_alive_def
  by (auto split: prod.splits sum.splits dest: keeps_worldD [OF service_get])

lemma wait_world:
  assumes c: "vefaas_contract machines v"
  shows "machines (fst (wait_until_alive fr (vf_http v) rt timeout elapsed w)) = machines w"
proof (induction fr "vf_http v" rt timeout elapsed w rule: wait_until_alive.induct)
  case (1 fr rt timeout elapsed w)
  obtain w1 dt r where a: "runtime_alive (vf_http v) rt (min (vr_timeout rt) 10) w = (w1, dt, r)"
    by (metis prod.exhaust)
  obtain w2 u where s: "vh_sleep (vf_http v) 2 w1 = (w2, u)" by (cases "vh_sleep (vf_http v) 2 w1")
  note m = keeps_worldD [OF alive_world [OF c] a] keeps_worldD [OF service_sleep [OF c] s]
  show ?case
  proof (cases r)
    case (Inl e)
    then show ?thesis using a m by (subst wait_until_alive.simps) simp
  next
    case (Inr b)
    show ?thesis
    proof (cases "b \<or> timeout \<le> elapsed + max 0 dt \<or> isl u")
      case True
      then show ?thesis using a s m Inr by (subst wait_until_alive.simps) (cases b; cases u; auto simp: Let_def)
    next
      case False
      then have "machines (fst (wait_until_alive fr (vf_http v) rt timeout (elapsed + max 0 dt + 2) w2)) = machines w2"
        using 1 a s Inr by (cases u) auto
      then show ?thesis using a s m Inr False by (subst wait_until_alive.simps) (cases b; cases u; auto simp: Let_def)
    qed
  qed
qed

text \<open>The operations on a running sandbox change neither what the object holds nor the service's sandboxes.\<close>

definition steady :: "('s \<Rightarrow> string set) \<Rightarrow> 's vefaas_state \<Rightarrow> 's vefaas_state \<Rightarrow> bool" where
  "steady machines d d' \<longleftrightarrow> machines (vs_world d') = machines (vs_world d) \<and> vs_sandbox_id d' = vs_sandbox_id d \<and> vs_client d' = vs_client d"

lemma exec_steady:
  assumes c: "vefaas_contract machines v" and r: "vefaas_exec fr v argv opts d = (d', r)"
  shows "steady machines d d'"
proof (cases "vs_runtime d")
  case None
  then show ?thesis using r by (simp add: vefaas_exec_def require_runtime_def shell_bind_def steady_def)
next
  case (Some rt)
  let ?post = "runtime_post fr (vf_http v) rt ''execute'' (command_payload argv opts) (http_timeout (vr_timeout rt) (xo_timeout opts))"
  obtain w x where p: "?post (vs_world d) = (w, x)" by (cases "?post (vs_world d)")
  have "d' = d\<lparr>vs_world := w\<rparr>"
    using r Some p by (simp add: vefaas_exec_def require_runtime_def shell_bind_def in_world_def)
  then show ?thesis using keeps_worldD [OF post_world [OF c] p] by (simp add: steady_def)
qed

lemma alive_steady:
  assumes c: "vefaas_contract machines v"
  shows "steady machines d (fst (vefaas_is_alive v d))"
  using keeps_worldD [OF alive_world [OF c]] by (auto simp: vefaas_is_alive_def steady_def split: option.split prod.split)

lemma install_steady:
  assumes c: "vefaas_contract machines v" and r: "install_tmux fr v d = (d', r)"
  shows "steady machines d d'"
proof -
  obtain d1 x where e: "vefaas_exec fr v [''bash'', ''-c'', ''DEBIAN_FRONTEND=noninteractive apt-get install -y -qq tmux'']
      (no_options\<lparr>xo_timeout := Some 300\<rparr>) d = (d1, x)" by (metis prod.exhaust)
  have "d' = d1 \<or> d' = fst (vefaas_is_alive v d1)"
    using r e by (auto simp: install_tmux_def exec_shell_def sandbox_exec_def split: sum.splits prod.splits if_splits)
  then show ?thesis using exec_steady [OF c e] alive_steady [OF c, of d1] by (auto simp: steady_def)
qed

definition vefaas_owned :: "('s \<Rightarrow> string set) \<Rightarrow> 's vefaas_api \<Rightarrow> string set \<Rightarrow> 's vefaas_state \<Rightarrow> bool" where
  "vefaas_owned machines v base d \<longleftrightarrow> vefaas_contract machines v \<and>
     (case vs_sandbox_id d of
        None \<Rightarrow> machines (vs_world d) = base
      | Some sid \<Rightarrow> vs_client d \<and> sid \<notin> base \<and> machines (vs_world d) = insert sid base)"

definition vefaas_clean :: "('s \<Rightarrow> string set) \<Rightarrow> 's vefaas_api \<Rightarrow> string set \<Rightarrow> 's vefaas_state \<Rightarrow> bool" where
  "vefaas_clean machines v base d \<longleftrightarrow> vefaas_owned machines v base d \<and> vs_sandbox_id d = None"

lemma steady_owned: "steady machines d d' \<Longrightarrow> vefaas_owned machines v base d \<Longrightarrow> vefaas_owned machines v base d'"
  by (auto simp: steady_def vefaas_owned_def split: option.splits)

lemma boot_owned:
  assumes o: "vefaas_clean machines v base d" and r: "vefaas_boot fr v c d = (d', r)"
  shows "vefaas_owned machines v base d'"
proof -
  have c: "vefaas_contract machines v" and m: "machines (vs_world d) = base" and s: "vs_sandbox_id d = None"
    and od: "vefaas_owned machines v base d"
    using o by (auto simp: vefaas_clean_def vefaas_owned_def)
  show ?thesis
  proof (cases "vs_runtime d \<noteq> None \<or> isl (vefaas_credentials (vf_getenv v))")
    case True
    then show ?thesis using r od by (cases "vefaas_credentials (vf_getenv v)") (auto simp: vefaas_boot_def shell_bind_def split: if_splits)
  next
    case False
    then obtain k where k: "vefaas_credentials (vf_getenv v) = Inr k" by (cases "vefaas_credentials (vf_getenv v)") auto
    define token where "token = vh_uuid (vf_http v) (vs_world d)"
    obtain w x where cr: "vf_create v (vc_function_id c) (vc_image c) (install_command token) (trunc (vc_runtime_timeout c / 60)) (vs_world d) = (w, x)"
      by (metis prod.exhaust)
    note created = service_create [OF c cr]
    show ?thesis
    proof (cases "\<exists>sid. x = Inr sid \<and> sid \<noteq> []")
      case False
      then have "machines w = base" using created m by (auto split: sum.splits list.splits)
      moreover have "d' = d\<lparr>vs_client := True, vs_world := w\<rparr>"
        using r k cr False \<open>\<not> (_ \<or> isl _)\<close>
        by (cases x) (auto simp: vefaas_boot_def shell_bind_def in_world_def token_def Let_def)
      ultimately show ?thesis using c s by (simp add: vefaas_owned_def)
    next
      case True
      then obtain sid where x: "x = Inr sid" "sid \<noteq> []" by blast
      then have w: "sid \<notin> base" "machines w = insert sid base" using created m by (auto split: list.splits)
      define rt where "rt = new_runtime (vc_function_route c) token sid"
      define d3 where "d3 = d\<lparr>vs_client := True, vs_world := w, vs_sandbox_id := Some sid\<rparr>"
      have o3: "vefaas_owned machines v base d3" using c w by (simp add: vefaas_owned_def d3_def)
      obtain w4 y where wt: "wait_until_alive fr (vf_http v) rt (vc_startup_timeout c) 0 w = (w4, y)"
        by (metis prod.exhaust)
      define d4 where "d4 = d3\<lparr>vs_world := w4\<rparr>"
      have "machines w4 = machines w" using wait_world [OF c, of fr rt "vc_startup_timeout c" 0 w] wt by simp
      then have o4: "vefaas_owned machines v base d4" "vefaas_owned machines v base (d4\<lparr>vs_runtime := q\<rparr>)" for q
        using o3 by (auto simp: vefaas_owned_def d4_def d3_def)
      have boot: "vefaas_boot fr v c d =
          shell_bind (d4, y) (\<lambda>_ d4. shell_bind (install_tmux fr v (d4\<lparr>vs_runtime := Some rt\<rparr>)) (\<lambda>_ d5. (d5, Inr ())))"
        using k cr x wt \<open>\<not> (_ \<or> isl _)\<close>
        by (simp add: vefaas_boot_def shell_bind_def in_world_def token_def Let_def rt_def d3_def d4_def)
      obtain d5 z where i: "install_tmux fr v (d4\<lparr>vs_runtime := Some rt\<rparr>) = (d5, z)" by (metis prod.exhaust)
      have "vefaas_owned machines v base d5" by (rule steady_owned [OF install_steady [OF c i] o4(2)])
      then show ?thesis using r boot i o4(1) by (cases y; cases z) (auto simp: shell_bind_def)
    qed
  qed
qed

lemma stop_cleans:
  assumes o: "vefaas_owned machines v base d"
  shows "\<exists>d'. vefaas_stop fr v c d = (d', Inr ()) \<and> vefaas_clean machines v base d'"
proof -
  have ct: "vefaas_contract machines v" using o by (simp add: vefaas_owned_def)
  obtain d1 where close: "close_runtime fr v d = (d1, Inr ())" and st: "steady machines d d1"
  proof (cases "vs_runtime d")
    case None
    then show thesis using that by (simp add: close_runtime_def steady_def)
  next
    case (Some rt)
    obtain w x where p: "runtime_post fr (vf_http v) rt ''close'' PNone (vr_timeout rt) (vs_world d) = (w, x)" by (metis prod.exhaust)
    have "is_exception e" if "x = Inl e" for e
      using p that service_raises [OF ct]
      by (auto simp: runtime_post_def shell_bind_def raise_for_error_def swerex_error_def Let_def is_exception_def
          split: prod.splits sum.splits option.splits pv.splits if_splits)
    then show thesis using Some p that keeps_worldD [OF post_world [OF ct] p]
      by (cases x) (auto simp: close_runtime_def in_world_def steady_def)
  qed
  have o1: "vefaas_owned machines v base d1" by (rule steady_owned [OF st o])
  show ?thesis
  proof (cases "vs_sandbox_id d1")
    case None
    then show ?thesis using close o1 by (simp add: vefaas_stop_def shell_bind_def vefaas_clean_def vefaas_owned_def)
  next
    case (Some sid)
    obtain w where "vf_kill v (vc_function_id c) sid (vs_world d1) = (w, Inr ())" "machines w = machines (vs_world d1) - {sid}"
      using service_kill [OF ct] by blast
    then show ?thesis using close o1 Some
      by (auto simp: vefaas_stop_def shell_bind_def in_world_def vefaas_clean_def vefaas_owned_def)
  qed
qed

interpretation vefaas: container_life "vefaas_provider fr v c" "vefaas_owned machines v base" "vefaas_clean machines v base"
  for fr and v :: "'s vefaas_api" and c machines base
proof
  fix d :: "'s vefaas_state" and limit
  show "vefaas_owned machines v base (fst (pr_start (vefaas_provider fr v c) limit d))" if "vefaas_clean machines v base d"
    using boot_owned [OF that] by (auto simp: vefaas_provider_def vefaas_start_def split: prod.split sum.split exn.split)
  show "\<exists>d'. pr_stop (vefaas_provider fr v c) d = (d', Inr ()) \<and> vefaas_clean machines v base d'" if "vefaas_owned machines v base d"
    using stop_cleans [OF that] by (simp add: vefaas_provider_def)
qed

text \<open>The bracket releases every sandbox it created.\<close>

lemma vefaas_leaves_no_sandbox:
  assumes "vefaas_clean machines v base d" and "\<And>e. steady machines e (fst (body e))"
    and "sandbox_entered fr' timeout (vefaas_provider fr v c) retry body d = (d', r)"
  shows "machines (vs_world d') = base \<or> (\<exists>e. r = Inl e \<and> \<not> is_exception e)"
proof -
  have "vefaas_clean machines v base d' \<or> (\<exists>e. r = Inl e \<and> \<not> is_exception e)"
    by (rule vefaas.entered_cleans [OF assms(1) _ assms(3)]) (rule steady_owned [OF assms(2)])
  then show ?thesis by (auto simp: vefaas_clean_def vefaas_owned_def)
qed

text \<open>
  Without the contract on kills: after a failed start whose clean-up could not kill the sandbox, the next
  attempt creates another one and forgets the first.
\<close>

lemma retry_forgets_unkilled_sandbox:
  assumes "vs_sandbox_id d = Some old" "vs_runtime d = None" "vefaas_credentials (vf_getenv v) = Inr k"
    and "vf_create v (vc_function_id c) (vc_image c) (install_command (vh_uuid (vf_http v) (vs_world d)))
           (trunc (vc_runtime_timeout c / 60)) (vs_world d) = (w, Inr (x # xs))"
    and "wait_until_alive fr (vf_http v) (new_runtime (vc_function_route c) (vh_uuid (vf_http v) (vs_world d)) (x # xs))
           (vc_startup_timeout c) 0 w = (w', Inl e)"
  shows "\<exists>d'. vefaas_boot fr v c d = (d', Inl e) \<and> vs_sandbox_id d' = Some (x # xs)"
  using assms by (simp add: vefaas_boot_def shell_bind_def in_world_def Let_def)

subsection \<open>Requests\<close>

text \<open>The client's limit never cuts a command short, and a reported timeout becomes the exit code of a timeout.\<close>

lemma http_timeout_covers: "own \<le> http_timeout own t" "0 < own \<Longrightarrow> c < http_timeout own (Some c)"
  by (auto simp: http_timeout_def split: option.split)

lemma reported_timeout:
  assumes "get_none d ''swerexception'' = PDict info" "get_none info ''class_path'' = PStr ''swerex.exceptions.CommandTimeoutError''"
  shows "\<exists>m. exec_reply (rbind (rbind (raise_for_error fr 511 (Some (PDict d))) k) f) =
    Inr \<lparr>xr_exit_code = -1, xr_stdout = [], xr_stderr = m\<rparr>"
proof -
  have "last_part ''swerex.exceptions.CommandTimeoutError'' = ''CommandTimeoutError''" by code_simp
  then show ?thesis using assms by (auto simp: raise_for_error_def swerex_error_def exec_reply_def Let_def py_str_def)
qed

end
