(* ===== verification/Tensor.thy ===== *)
theory Tensor
  imports Prelude
begin

text \<open>
  The tensors of the policy optimization: a tensor of shape (batch, tokens) is the list of its rows, a
  tensor of shape (batch,) a list.  Values are rationals: rounding is not modelled, and neither are
  infinities and nan.  Square root, exponential, logarithm and sigmoid of torch are parameters, and so is
  the value of a division by zero (\<open>tm_div0\<close>), about which no lemma assumes anything.  Operations combine
  tensors of one shape, as the trainer's batches have it; torch raises on others.
  Second, the masked statistics of \<open>src/verl/verl/utils/torch_functional.py\<close>.
\<close>

type_synonym vec = "rat list"
type_synonym tensor = "rat list list"

record tmath =
  tm_sqrt :: "rat \<Rightarrow> rat"
  tm_exp :: "rat \<Rightarrow> rat"
  tm_log :: "rat \<Rightarrow> rat"
  tm_sigmoid :: "rat \<Rightarrow> rat"
  tm_div0 :: "rat \<Rightarrow> rat"

definition fdiv :: "tmath \<Rightarrow> rat \<Rightarrow> rat \<Rightarrow> rat" where
  "fdiv tm x y = (if y = 0 then tm_div0 tm x else x / y)"

subsection \<open>Elementwise operations\<close>

definition t1 :: "('a \<Rightarrow> 'b) \<Rightarrow> 'a list list \<Rightarrow> 'b list list" where
  "t1 f a = map (map f) a"

definition t2 :: "('a \<Rightarrow> 'b \<Rightarrow> 'c) \<Rightarrow> 'a list list \<Rightarrow> 'b list list \<Rightarrow> 'c list list" where
  "t2 f a b = map2 (map2 f) a b"

definition tsum :: "tensor \<Rightarrow> rat" where
  "tsum a = sum_list (map sum_list a)"

text \<open>\<open>a.sum(dim=-1)\<close> and \<open>v.unsqueeze(-1) * mask\<close>.\<close>

definition row_sums :: "tensor \<Rightarrow> vec" where
  "row_sums a = map sum_list a"

definition on_tokens :: "vec \<Rightarrow> tensor \<Rightarrow> tensor" where
  "on_tokens v msk = map2 (\<lambda>s row. map ((*) s) row) v msk"

text \<open>\<open>torch.clamp\<close> with both bounds, and the value of a condition as a float.\<close>

definition clamp :: "rat \<Rightarrow> rat \<Rightarrow> rat \<Rightarrow> rat" where
  "clamp lo hi x = min (max x lo) hi"

definition fbool :: "bool \<Rightarrow> rat" where
  "fbool b = (if b then 1 else 0)"

text \<open>A batch: as many rows as it has, each of one length.\<close>

definition shaped :: "nat \<Rightarrow> nat \<Rightarrow> 'a list list \<Rightarrow> bool" where
  "shaped bs n a \<longleftrightarrow> length a = bs \<and> (\<forall>row \<in> set a. length row = n)"

subsection \<open>Masked statistics\<close>

definition eps8 :: rat where
  "eps8 = 1 / 100000000"

text \<open>One dimension first: the sum over a row, or over the sequences of a batch.\<close>

definition masked_sum1 :: "vec \<Rightarrow> vec \<Rightarrow> rat" where
  "masked_sum1 values msk = sum_list (map2 (\<lambda>v k. (if k \<noteq> 0 then v else 0) * k) values msk)"

definition masked_sum :: "tensor \<Rightarrow> tensor \<Rightarrow> rat" where
  "masked_sum values msk = sum_list (map2 masked_sum1 values msk)"

definition masked_mean :: "tensor \<Rightarrow> tensor \<Rightarrow> rat" where
  "masked_mean values msk = masked_sum values msk / (tsum msk + eps8)"

definition masked_var :: "tensor \<Rightarrow> tensor \<Rightarrow> bool \<Rightarrow> rat result" where
  "masked_var values msk unbiased =
     (let mean = masked_mean values msk;
          variance = masked_mean (t1 (\<lambda>v. (v - mean) ^ 2) values) msk;
          mask_sum = tsum msk in
      if \<not> unbiased then Inr variance
      else if mask_sum = 0 then Inl (ValueError ''At least one element in the mask has to be 1.'')
      else if mask_sum = 1 then Inl (ValueError ''The sum of the mask is one, which can cause a division by zero.'')
      else Inr (variance * (mask_sum / (mask_sum - 1))))"

definition masked_whiten :: "tmath \<Rightarrow> tensor \<Rightarrow> tensor \<Rightarrow> bool \<Rightarrow> tensor result" where
  "masked_whiten tm values msk shift_mean =
     (let mean = masked_mean values msk in
      rbind (masked_var values msk True) (\<lambda>var.
      (let scale = fdiv tm 1 (tm_sqrt tm (var + eps8));
           whitened = t1 (\<lambda>v. (v - mean) * scale) values in
       Inr (if shift_mean then whitened else t1 ((+) mean) whitened))))"

definition clip_by_value :: "rat \<Rightarrow> rat \<Rightarrow> rat \<Rightarrow> rat" where
  "clip_by_value x tensor_min tensor_max = max (min x tensor_max) tensor_min"

text \<open>The entropy of one distribution, from its logits.\<close>

definition logsumexp :: "tmath \<Rightarrow> vec \<Rightarrow> rat" where
  "logsumexp tm xs = tm_log tm (sum_list (map (tm_exp tm) xs))"

definition softmax :: "tmath \<Rightarrow> vec \<Rightarrow> vec" where
  "softmax tm xs = map (\<lambda>x. fdiv tm (tm_exp tm x) (sum_list (map (tm_exp tm) xs))) xs"

definition entropy_from_logits :: "tmath \<Rightarrow> vec \<Rightarrow> rat" where
  "entropy_from_logits tm logits = logsumexp tm logits - sum_list (map2 (*) (softmax tm logits) logits)"

subsection \<open>Groups\<close>

text \<open>A \<open>defaultdict(list)\<close> filled in the order of the samples, and a dict computed from it.\<close>

fun group_add :: "'k \<Rightarrow> 'a \<Rightarrow> ('k \<times> 'a list) list \<Rightarrow> ('k \<times> 'a list) list" where
  "group_add k x [] = [(k, [x])]"
| "group_add k x ((k', xs) # d) = (if k = k' then (k', xs @ [x]) # d else (k', xs) # group_add k x d)"

definition group_by :: "'k list \<Rightarrow> 'a list \<Rightarrow> ('k \<times> 'a list) list" where
  "group_by index xs = fold (\<lambda>(k, x). group_add k x) (zip index xs) []"

definition map_values :: "('a \<Rightarrow> 'b) \<Rightarrow> ('k \<times> 'a) list \<Rightarrow> ('k \<times> 'b) list" where
  "map_values f d = map (\<lambda>(k, v). (k, f v)) d"

text \<open>\<open>d[k]\<close> for a key that is in the dict: every sample's group is.\<close>

definition item_of :: "('k \<times> 'a) list \<Rightarrow> 'k \<Rightarrow> 'a" where
  "item_of d k = the (map_of d k)"

text \<open>\<open>torch.mean\<close> and \<open>torch.std\<close> (with Bessel's correction) of the scores of a group.\<close>

definition tmean :: "vec \<Rightarrow> rat" where
  "tmean xs = sum_list xs / of_nat (length xs)"

definition tvar :: "vec \<Rightarrow> rat" where
  "tvar xs = sum_list (map (\<lambda>x. (x - tmean xs) ^ 2) xs) / (of_nat (length xs) - 1)"

definition tstd :: "tmath \<Rightarrow> vec \<Rightarrow> rat" where
  "tstd tm xs = tm_sqrt tm (tvar xs)"

text \<open>The scores of a group, in the order of the samples.\<close>

definition members :: "'k \<Rightarrow> 'k list \<Rightarrow> 'a list \<Rightarrow> 'a list" where
  "members k index xs = map snd (filter (\<lambda>p. fst p = k) (zip index xs))"

lemma map_of_group_add:
  "map_of (group_add k x d) k' = (if k' = k then Some (case map_of d k of None \<Rightarrow> [x] | Some xs \<Rightarrow> xs @ [x]) else map_of d k')"
  by (induction k x d rule: group_add.induct) auto

lemma fold_group_add:
  "map_of (fold (\<lambda>(k, x). group_add k x) ps d) k =
     (let ms = map snd (filter (\<lambda>p. fst p = k) ps) in
      case map_of d k of None \<Rightarrow> (if ms = [] then None else Some ms) | Some ys \<Rightarrow> Some (ys @ ms))"
proof (induction ps arbitrary: d)
  case Nil
  then show ?case by (simp split: option.split)
next
  case (Cons p ps)
  then show ?case by (cases p; cases "map_of d k") (auto simp: map_of_group_add Let_def)
qed

lemma map_of_group_by:
  "map_of (group_by index xs) k = (if members k index xs = [] then None else Some (members k index xs))"
  by (simp add: group_by_def members_def fold_group_add Let_def)

lemma map_of_map_values: "map_of (map_values f d) k = map_option f (map_of d k)"
  by (induction d) (auto simp: map_values_def)

lemma members_nonempty: "(k, x) \<in> set (zip index xs) \<Longrightarrow> members k index xs \<noteq> []"
  by (force simp: members_def filter_empty_conv)

lemma item_of_group: "(k, x) \<in> set (zip index xs) \<Longrightarrow> item_of (group_by index xs) k = members k index xs"
  by (simp add: item_of_def map_of_group_by members_nonempty)

lemma item_of_stat:
  "(k, x) \<in> set (zip index xs) \<Longrightarrow> item_of (map_values f (group_by index xs)) k = f (members k index xs)"
  by (simp add: item_of_def map_of_map_values map_of_group_by members_nonempty)

lemma map2_cong_zip:
  "(\<And>x y. (x, y) \<in> set (zip xs ys) \<Longrightarrow> f x y = g x y) \<Longrightarrow> map2 f xs ys = map2 g xs ys"
  by (intro map_cong) auto

end
