(* ===== verification/Advantages.thy ===== *)
theory Advantages
  imports Tensor
begin

text \<open>
  The advantage estimators of \<open>src/verl/verl/trainer/ppo/core_algos.py\<close>, the registry that finds them, the
  controllers of the KL coefficient, and the grouping helpers of \<open>src/verl/verl/utils/groupwise.py\<close>.
\<close>

subsection \<open>Registry\<close>

text \<open>The estimators by name; \<open>shown\<close> is the text of a function in the error.\<close>

definition register_adv_est :: "('f \<Rightarrow> string) \<Rightarrow> string \<Rightarrow> 'f \<Rightarrow> (string \<times> 'f) list \<Rightarrow> (string \<times> 'f) list result" where
  "register_adv_est shown name fn reg =
     (case dget reg name of
        Some old \<Rightarrow> if old \<noteq> fn
          then Inl (ValueError (''Adv estimator '' @ name @ '' has already been registered: '' @ shown old @ '' vs '' @ shown fn))
          else Inr (dset reg name fn)
      | None \<Rightarrow> Inr (dset reg name fn))"

definition get_adv_estimator_fn :: "(string \<times> 'f) list \<Rightarrow> string \<Rightarrow> 'f result" where
  "get_adv_estimator_fn reg name =
     (case dget reg name of
        None \<Rightarrow> Inl (ValueError (''Unknown advantage estimator simply: '' @ name)) | Some fn \<Rightarrow> Inr fn)"

definition register_policy_loss :: "string \<Rightarrow> 'f \<Rightarrow> (string \<times> 'f) list \<Rightarrow> (string \<times> 'f) list" where
  "register_policy_loss name fn reg = dset reg name fn"

definition get_policy_loss_fn :: "(string \<times> 'f) list \<Rightarrow> string \<Rightarrow> 'f result" where
  "get_policy_loss_fn reg name =
     (case dget reg name of
        None \<Rightarrow> Inl (ValueError (''Unsupported loss mode: '' @ name @ ''. Supported modes are: ['' @
                  join '', '' (map (\<lambda>e. repr_str (fst e)) reg) @ '']''))
      | Some fn \<Rightarrow> Inr fn)"

subsection \<open>Controllers of the KL coefficient\<close>

datatype kl_controller = FixedKL rat | AdaptiveKL rat rat rat

text \<open>The value, the target and the horizon of an adaptive controller.\<close>

fun kl_value :: "kl_controller \<Rightarrow> rat" where
  "kl_value (FixedKL v) = v"
| "kl_value (AdaptiveKL v target horizon) = v"

fun kl_update :: "tmath \<Rightarrow> rat \<Rightarrow> rat \<Rightarrow> kl_controller \<Rightarrow> kl_controller" where
  "kl_update tm current_kl n_steps (FixedKL v) = FixedKL v"
| "kl_update tm current_kl n_steps (AdaptiveKL v target horizon) =
     (let proportional_error = clamp (- (1 / 5)) (1 / 5) (fdiv tm current_kl target - 1);
          mult = 1 + fdiv tm (proportional_error * n_steps) horizon in
      AdaptiveKL (v * mult) target horizon)"

definition get_kl_controller :: "(rat \<Rightarrow> string) \<Rightarrow> string \<Rightarrow> rat \<Rightarrow> rat \<Rightarrow> rat \<Rightarrow> kl_controller result" where
  "get_kl_controller fr type kl_coef target_kl horizon =
     (if type = ''fixed'' then Inr (FixedKL kl_coef)
      else if type = ''adaptive''
      then (if horizon > 0 then Inr (AdaptiveKL kl_coef target_kl horizon)
            else Inl (AssertionError (''horizon must be larger than 0. Got '' @ fr horizon)))
      else Inl (OtherException ''NotImplementedError'' []))"

subsection \<open>Generalized advantage estimation\<close>

text \<open>
  One step of the loop over the tokens, from the last to the first, for one row: the next value, the
  last advantage, and the advantages so far.  On a token outside the mask both are carried over.
\<close>

definition gae_step :: "rat \<Rightarrow> rat \<Rightarrow> rat \<times> rat \<times> rat \<Rightarrow> rat \<times> rat \<times> vec \<Rightarrow> rat \<times> rat \<times> vec" where
  "gae_step gamma lam tok st =
     (case (tok, st) of ((r, v, k), (nextvalues, lastgaelam, advs)) \<Rightarrow>
        (let delta = r + gamma * nextvalues - v;
             lastgaelam1 = delta + gamma * lam * lastgaelam;
             nextvalues' = v * k + (1 - k) * nextvalues;
             lastgaelam' = lastgaelam1 * k + (1 - k) * lastgaelam in
         (nextvalues', lastgaelam', lastgaelam' # advs)))"

definition gae_row :: "rat \<Rightarrow> rat \<Rightarrow> vec \<Rightarrow> vec \<Rightarrow> vec \<Rightarrow> vec" where
  "gae_row gamma lam rewards values msk =
     snd (snd (foldr (gae_step gamma lam) (zip rewards (zip values msk)) (0, 0, [])))"

definition gae_advantages :: "rat \<Rightarrow> rat \<Rightarrow> tensor \<Rightarrow> tensor \<Rightarrow> tensor \<Rightarrow> tensor" where
  "gae_advantages gamma lam rewards values msk =
     map (\<lambda>(r, v, k). gae_row gamma lam r v k) (zip rewards (zip values msk))"

definition compute_gae_advantage_return ::
  "tmath \<Rightarrow> tensor \<Rightarrow> tensor \<Rightarrow> tensor \<Rightarrow> rat \<Rightarrow> rat \<Rightarrow> (tensor \<times> tensor) result" where
  "compute_gae_advantage_return tm token_level_rewards values response_mask gamma lam =
     (let advantages = gae_advantages gamma lam token_level_rewards values response_mask;
          returns = t2 (+) advantages values in
      rbind (masked_whiten tm advantages response_mask True) (\<lambda>whitened. Inr (whitened, returns)))"

subsection \<open>Estimators on the outcome of a response\<close>

text \<open>The mean and the deviation of a group; a group of one response keeps its score.\<close>

definition group_mean :: "vec \<Rightarrow> rat" where
  "group_mean xs = (if length xs = 1 then 0 else tmean xs)"

definition group_std :: "tmath \<Rightarrow> vec \<Rightarrow> rat" where
  "group_std tm xs = (if length xs = 1 then 1 else tstd tm xs)"

definition grpo_scores :: "tmath \<Rightarrow> vec \<Rightarrow> 'k list \<Rightarrow> rat \<Rightarrow> bool \<Rightarrow> vec" where
  "grpo_scores tm scores index epsilon norm_adv_by_std =
     (let id2score = group_by index scores;
          id2mean = map_values group_mean id2score;
          id2std = map_values (group_std tm) id2score in
      map2 (\<lambda>g s. if norm_adv_by_std then fdiv tm (s - item_of id2mean g) (item_of id2std g + epsilon)
                   else s - item_of id2mean g) index scores)"

definition compute_grpo_outcome_advantage :: "tmath \<Rightarrow> tensor \<Rightarrow> tensor \<Rightarrow> 'k list \<Rightarrow> rat \<Rightarrow> bool \<Rightarrow> tensor" where
  "compute_grpo_outcome_advantage tm token_level_rewards response_mask index epsilon norm_adv_by_std =
     on_tokens (grpo_scores tm (row_sums token_level_rewards) index epsilon norm_adv_by_std) response_mask"

text \<open>
  \<open>as_torch_index\<close>: arrays of integers are taken as they are, floats that are nearly integers rounded.  Of
  any other array numpy first tries to convert every label to an integer (\<open>conv\<close>; of floats it cuts off
  the fraction), and only when that fails are the labels numbered in sorted order.
\<close>

datatype 'l labels = IntLabels "int list" | FloatLabels "rat list" | OtherLabels "'l list"

definition np_unique :: "'l::linorder list \<Rightarrow> 'l list" where
  "np_unique xs = sort (remdups xs)"

definition position_in :: "'l list \<Rightarrow> 'l \<Rightarrow> nat" where
  "position_in us x = length (takeWhile (\<lambda>y. y \<noteq> x) us)"

definition unique_inverse :: "'l::linorder list \<Rightarrow> nat list" where
  "unique_inverse xs = map (position_in (np_unique xs)) xs"

definition truncated :: "rat \<Rightarrow> int" where
  "truncated x = (if x < 0 then \<lceil>x\<rceil> else \<lfloor>x\<rfloor>)"

definition as_torch_index :: "('l::linorder \<Rightarrow> int option) \<Rightarrow> 'l labels \<Rightarrow> int list" where
  "as_torch_index conv index =
     (case index of
        IntLabels xs \<Rightarrow> xs
      | FloatLabels xs \<Rightarrow>
          if \<forall>x \<in> set xs. \<bar>x - of_int (round x)\<bar> \<le> 1 / 1000000 then map round xs else map truncated xs
      | OtherLabels xs \<Rightarrow>
          if \<forall>x \<in> set xs. conv x \<noteq> None then map (\<lambda>x. the (conv x)) xs else map int (unique_inverse xs))"

text \<open>\<open>index_add_\<close> into zeros: the sum of the values with each group number.\<close>

definition index_add :: "nat \<Rightarrow> int list \<Rightarrow> vec \<Rightarrow> vec" where
  "index_add groups gidx xs = map (\<lambda>g. sum_list (members (int g) gidx xs)) [0..<groups]"

definition group_mean_std :: "tmath \<Rightarrow> vec \<Rightarrow> int list \<Rightarrow> rat \<Rightarrow> (vec \<times> vec \<times> vec) result" where
  "group_mean_std tm scores gidx eps =
     (if length scores \<noteq> length gidx
      then Inl (ValueError (''scores and gidx length mismatch: '' @ str_of_nat (length scores) @ '' vs '' @ str_of_nat (length gidx)))
      else if gidx = [] then Inr ([], [], [])
      else if \<exists>g \<in> set gidx. g < 0 then Inl (RuntimeError ''index out of range'')
      else (let G = nat (Max (set gidx) + 1);
                count = index_add G gidx (map (\<lambda>_. 1) scores);
                s1 = index_add G gidx scores;
                mean = map2 (\<lambda>s c. s / max c 1) s1 count;
                centered = map2 (\<lambda>s g. s - mean ! nat g) scores gidx;
                var_num = index_add G gidx (map (\<lambda>x. x * x) centered);
                var = map2 (\<lambda>v c. v / max (c - 1) 1) var_num count;
                std = map (\<lambda>v. tm_sqrt tm (max v eps)) var in
            Inr (map2 (\<lambda>x c. if c \<le> 1 then 0 else x) mean count, map2 (\<lambda>x c. if c \<le> 1 then 1 else x) std count, count)))"

definition compute_grpo_vectorized_outcome_advantage ::
  "tmath \<Rightarrow> ('l::linorder \<Rightarrow> int option) \<Rightarrow> tensor \<Rightarrow> tensor \<Rightarrow> 'l labels \<Rightarrow> rat \<Rightarrow> bool \<Rightarrow> tensor result" where
  "compute_grpo_vectorized_outcome_advantage tm conv token_level_rewards response_mask index epsilon norm_adv_by_std =
     (let scores = row_sums token_level_rewards; g = as_torch_index conv index in
      rbind (group_mean_std tm scores g 0) (\<lambda>(mean_g, std_g, _).
      Inr (on_tokens
        (map2 (\<lambda>s i. if norm_adv_by_std then fdiv tm (s - mean_g ! nat i) (std_g ! nat i + epsilon) else s - mean_g ! nat i) scores g)
        response_mask)))"

text \<open>Only the best response of a group earns an advantage; which of two equal ones is best does not matter, as it is then zero.\<close>

definition best_index :: "vec \<Rightarrow> nat" where
  "best_index xs = max_key (\<lambda>j. xs ! j) 0 [1..<length xs]"

definition second_max :: "vec \<Rightarrow> rat" where
  "second_max xs = (let rest = take (best_index xs) xs @ drop (Suc (best_index xs)) xs in foldr max rest (hd rest))"

definition passk_group ::
  "tmath \<Rightarrow> rat \<Rightarrow> bool \<Rightarrow> (string \<times> (rat \<times> nat) list) \<Rightarrow> vec \<Rightarrow> vec result" where
  "passk_group tm epsilon norm_adv_by_std grp advantages =
     (let rewards = map fst (snd grp) in
      if length rewards < 2
      then Inl (ValueError (''Pass@k requires at least 2 samples per group. Got '' @ str_of_nat (length rewards) @ '' for group '' @ fst grp @ ''.''))
      else (let i = best_index rewards;
                advantage = rewards ! i - second_max rewards;
                advantage' = (if norm_adv_by_std then fdiv tm advantage (tstd tm rewards + epsilon) else advantage) in
            Inr (advantages[snd (snd grp ! i) := advantage'])))"

definition compute_grpo_passk_outcome_advantage ::
  "tmath \<Rightarrow> tensor \<Rightarrow> tensor \<Rightarrow> string list \<Rightarrow> rat \<Rightarrow> bool option \<Rightarrow> tensor result" where
  "compute_grpo_passk_outcome_advantage tm token_level_rewards response_mask index epsilon config =
     (case config of
        None \<Rightarrow> Inl (AssertionError [])
      | Some norm_adv_by_std \<Rightarrow>
          (let scores = row_sums token_level_rewards;
               groups = group_by index (zip scores [0..<length scores]) in
           rbind (fold (\<lambda>grp r. rbind r (passk_group tm epsilon norm_adv_by_std grp)) groups (Inr (map (\<lambda>_. 0) scores))) (\<lambda>advantages.
           Inr (on_tokens advantages response_mask))))"

definition compute_reinforce_plus_plus_baseline_outcome_advantage ::
  "tmath \<Rightarrow> tensor \<Rightarrow> tensor \<Rightarrow> 'k list \<Rightarrow> tensor result" where
  "compute_reinforce_plus_plus_baseline_outcome_advantage tm token_level_rewards response_mask index =
     (let scores = row_sums token_level_rewards;
          id2mean = map_values group_mean (group_by index scores);
          centered = on_tokens (map2 (\<lambda>g s. s - item_of id2mean g) index scores) response_mask in
      rbind (masked_whiten tm centered response_mask True) (\<lambda>w. Inr (t2 (*) w response_mask)))"

definition rloo_scores :: "vec \<Rightarrow> 'k list \<Rightarrow> vec" where
  "rloo_scores scores index =
     (let id2score = group_by index scores;
          id2mean = map_values group_mean id2score in
      map2 (\<lambda>g s. let response_num = of_nat (length (item_of id2score g)) in
              if response_num > 1
              then s * response_num / (response_num - 1) - item_of id2mean g * response_num / (response_num - 1)
              else s) index scores)"

definition compute_rloo_outcome_advantage :: "tensor \<Rightarrow> tensor \<Rightarrow> 'k list \<Rightarrow> tensor" where
  "compute_rloo_outcome_advantage token_level_rewards response_mask index =
     on_tokens (rloo_scores (row_sums token_level_rewards) index) response_mask"

text \<open>\<open>torch.bincount\<close>, with weights.\<close>

definition bincount :: "nat list \<Rightarrow> vec \<Rightarrow> vec" where
  "bincount ix weights = map (\<lambda>g. sum_list (members g ix weights)) [0..<Suc (foldr max ix 0)]"

definition rloo_vectorized_scores :: "vec \<Rightarrow> 'l::linorder list \<Rightarrow> vec" where
  "rloo_vectorized_scores scores index =
     (let ix = unique_inverse index;
          counts = bincount ix (map (\<lambda>_. 1) ix);
          totals = bincount ix scores in
      map2 (\<lambda>g s. let c = counts ! g in (c * s - totals ! g) / max (c - 1) 1 * fbool (c > 1)) ix scores)"

definition compute_rloo_vectorized_outcome_advantage :: "tensor \<Rightarrow> tensor \<Rightarrow> 'l::linorder list \<Rightarrow> tensor" where
  "compute_rloo_vectorized_outcome_advantage token_level_rewards response_mask index =
     on_tokens (rloo_vectorized_scores (row_sums token_level_rewards) index) response_mask"

text \<open>The baseline of a group weighs each score by the length of its response.\<close>

definition opo_baseline :: "tmath \<Rightarrow> (rat \<times> rat) list \<Rightarrow> rat" where
  "opo_baseline tm grp =
     (if length grp = 1 then 0
      else fdiv tm (sum_list (map (\<lambda>(s, len). len * s) grp)) (sum_list (map snd grp)))"

definition compute_opo_outcome_advantage :: "tmath \<Rightarrow> tensor \<Rightarrow> tensor \<Rightarrow> 'k list \<Rightarrow> tensor" where
  "compute_opo_outcome_advantage tm token_level_rewards response_mask index =
     (let response_length = row_sums response_mask;
          scores = row_sums token_level_rewards;
          id2bsl = map_values (opo_baseline tm) (group_by index (zip scores response_length)) in
      on_tokens (map2 (\<lambda>g s. s - item_of id2bsl g) index scores) response_mask)"

definition compute_gpg_outcome_advantage :: "tmath \<Rightarrow> tensor \<Rightarrow> tensor \<Rightarrow> 'k list \<Rightarrow> rat \<Rightarrow> tensor" where
  "compute_gpg_outcome_advantage tm token_level_rewards response_mask index f_norm =
     (let scores = row_sums token_level_rewards;
          nonzero = of_nat (length (filter (\<lambda>s. s \<noteq> 0) scores));
          alpha = of_nat (length scores) / max nonzero 1;
          id2mean = map_values group_mean (group_by index scores) in
      on_tokens (map2 (\<lambda>g s. fdiv tm (alpha * (s - item_of id2mean g)) f_norm) index scores) response_mask)"

subsection \<open>Returns per token\<close>

definition return_step :: "rat \<Rightarrow> rat \<times> rat \<Rightarrow> rat \<times> vec \<Rightarrow> rat \<times> vec" where
  "return_step gamma tok st =
     (case (tok, st) of ((r, k), (running, returns)) \<Rightarrow>
        (let running' = r + gamma * running in (running' * k, running' # returns)))"

definition discounted_returns :: "rat \<Rightarrow> vec \<Rightarrow> vec \<Rightarrow> vec" where
  "discounted_returns gamma rewards msk = snd (foldr (return_step gamma) (zip rewards msk) (0, []))"

definition compute_reinforce_plus_plus_outcome_advantage ::
  "tmath \<Rightarrow> tensor \<Rightarrow> tensor \<Rightarrow> rat option \<Rightarrow> (tensor \<times> tensor) result" where
  "compute_reinforce_plus_plus_outcome_advantage tm token_level_rewards response_mask config =
     (case config of
        None \<Rightarrow> Inl (AssertionError [])
      | Some gamma \<Rightarrow>
          (let returns = map2 (discounted_returns gamma) token_level_rewards response_mask in
           rbind (masked_whiten tm returns response_mask True) (\<lambda>w. Inr (t2 (*) w response_mask, returns))))"

text \<open>\<open>flip\<close>, \<open>cumsum\<close>, \<open>flip\<close>: the rewards from a token on; and \<open>cumsum\<close> alone.\<close>

definition suffix_sums :: "vec \<Rightarrow> vec" where
  "suffix_sums xs = map (\<lambda>i. sum_list (drop i xs)) [0..<length xs]"

definition prefix_sums :: "vec \<Rightarrow> vec" where
  "prefix_sums xs = map (\<lambda>i. sum_list (take (Suc i) xs)) [0..<length xs]"

definition reward_to_go :: "tensor \<Rightarrow> tensor \<Rightarrow> tensor" where
  "reward_to_go token_level_rewards response_mask = map suffix_sums (t2 (*) token_level_rewards response_mask)"

definition compute_remax_outcome_advantage :: "tensor \<Rightarrow> vec \<Rightarrow> tensor \<Rightarrow> tensor \<times> tensor" where
  "compute_remax_outcome_advantage token_level_rewards reward_baselines response_mask =
     (let returns = reward_to_go token_level_rewards response_mask in
      (t2 (-) returns (on_tokens reward_baselines response_mask), returns))"

end
