(* ===== verification/AdvProps.thy ===== *)
theory AdvProps
  imports Advantages
begin

text \<open>
  Advantages: observation tokens do not disturb the advantage estimation, the vectorized estimators agree with
  the loops, and the advantages of a group balance out.
\<close>

subsection \<open>Generalized advantage estimation\<close>

text \<open>The entries of a row under the mask.\<close>

definition kept :: "vec \<Rightarrow> 'a list \<Rightarrow> 'a list" where
  "kept msk xs = map snd (filter (\<lambda>p. fst p = 1) (zip msk xs))"

lemma kept_simps [simp]:
  "kept [] xs = []" "kept msk [] = []" "kept (k # msk) (x # xs) = (if k = 1 then x # kept msk xs else kept msk xs)"
  by (simp_all add: kept_def)

lemma kept_length: "length msk = length xs \<Longrightarrow> length msk = length ys \<Longrightarrow> length (kept msk xs) = length (kept msk ys)"
proof (induction msk xs arbitrary: ys rule: list_induct2)
  case (Cons k msk x xs)
  then show ?case by (cases ys) auto
qed simp

lemma kept_map2:
  "length msk = length xs \<Longrightarrow> length xs = length ys \<Longrightarrow> kept msk (map2 f xs ys) = map2 f (kept msk xs) (kept msk ys)"
  by (induction msk xs ys rule: list_induct3) auto

text \<open>
  The estimate of the paper: the temporal differences from a token on, discounted by \<open>gamma * lam\<close>; the value
  after the last token is zero.
\<close>

definition td_error :: "rat \<Rightarrow> vec \<Rightarrow> vec \<Rightarrow> nat \<Rightarrow> rat" where
  "td_error gamma rewards values t = rewards ! t + gamma * (values @ [0]) ! Suc t - values ! t"

definition gae_sum :: "rat \<Rightarrow> rat \<Rightarrow> vec \<Rightarrow> vec \<Rightarrow> nat \<Rightarrow> rat" where
  "gae_sum gamma lam rewards values t =
     (\<Sum>l < length rewards - t. (gamma * lam) ^ l * td_error gamma rewards values (t + l))"

definition gae_list :: "rat \<Rightarrow> rat \<Rightarrow> vec \<Rightarrow> vec \<Rightarrow> vec" where
  "gae_list gamma lam rewards values = map (gae_sum gamma lam rewards values) [0..<length rewards]"

definition first_or_0 :: "vec \<Rightarrow> rat" where
  "first_or_0 xs = (case xs of [] \<Rightarrow> 0 | x # _ \<Rightarrow> x)"

lemma first_or_0_simps [simp]: "first_or_0 [] = 0" "first_or_0 (x # xs) = x"
  by (simp_all add: first_or_0_def)

lemma td_error_Suc [simp]: "td_error gamma (r # rs) (v # vs) (Suc t) = td_error gamma rs vs t"
  by (simp add: td_error_def)

lemma td_error_0: "td_error gamma (r # rs) (v # vs) 0 = r + gamma * first_or_0 vs - v"
  by (cases vs) (simp_all add: td_error_def)

lemma gae_sum_Suc [simp]: "gae_sum gamma lam (r # rs) (v # vs) (Suc t) = gae_sum gamma lam rs vs t"
  by (simp add: gae_sum_def)

lemma gae_sum_0:
  "gae_sum gamma lam (r # rs) (v # vs) 0 =
     td_error gamma (r # rs) (v # vs) 0 + gamma * lam * first_or_0 (gae_list gamma lam rs vs)"
proof -
  have "gae_sum gamma lam (r # rs) (v # vs) 0 =
     td_error gamma (r # rs) (v # vs) 0 + (\<Sum>l < length rs. (gamma * lam) ^ Suc l * td_error gamma rs vs l)"
    unfolding gae_sum_def by (simp add: sum.lessThan_Suc_shift del: sum.lessThan_Suc)
  also have "(\<Sum>l < length rs. (gamma * lam) ^ Suc l * td_error gamma rs vs l) =
     gamma * lam * (\<Sum>l < length rs. (gamma * lam) ^ l * td_error gamma rs vs l)"
    by (simp add: sum_distrib_left mult.assoc)
  also have "(\<Sum>l < length rs. (gamma * lam) ^ l * td_error gamma rs vs l) = first_or_0 (gae_list gamma lam rs vs)"
    by (cases rs) (simp_all add: gae_list_def gae_sum_def upt_conv_Cons del: upt_Suc)
  finally show ?thesis .
qed

lemma gae_list_Cons:
  "gae_list gamma lam (r # rs) (v # vs) =
     (r + gamma * first_or_0 vs - v + gamma * lam * first_or_0 (gae_list gamma lam rs vs)) # gae_list gamma lam rs vs"
proof -
  have "[0..<length (r # rs)] = 0 # map Suc [0..<length rs]" by (simp add: map_Suc_upt upt_conv_Cons del: upt_Suc)
  then show ?thesis by (simp add: gae_list_def [of gamma lam "r # rs"] gae_sum_0 td_error_0 o_def)
     (simp add: gae_list_def)
qed

lemma gae_list_Nil [simp]: "gae_list gamma lam [] vs = []"
  by (simp add: gae_list_def)

lemma gae_step_simp:
  "gae_step gamma lam (r, v, k) (nextv, prev, advs) =
     (let l = (r + gamma * nextv - v + gamma * lam * prev) * k + (1 - k) * prev in (v * k + (1 - k) * nextv, l, l # advs))"
  by (simp add: gae_step_def Let_def)

text \<open>The loop carries the value and the advantage of the next kept token.\<close>

lemma gae_loop:
  assumes "length rs = length vs" "length vs = length msk" "\<forall>k \<in> set msk. k = 0 \<or> k = 1"
  shows "\<exists>advs. foldr (gae_step gamma lam) (zip rs (zip vs msk)) (0, 0, []) =
      (first_or_0 (kept msk vs), first_or_0 (gae_list gamma lam (kept msk rs) (kept msk vs)), advs) \<and>
    length advs = length rs \<and> kept msk advs = gae_list gamma lam (kept msk rs) (kept msk vs)"
  using assms
proof (induction rs vs msk rule: list_induct3)
  case (Cons r rs v vs k msk)
  then obtain advs where "foldr (gae_step gamma lam) (zip rs (zip vs msk)) (0, 0, []) =
      (first_or_0 (kept msk vs), first_or_0 (gae_list gamma lam (kept msk rs) (kept msk vs)), advs)"
    "length advs = length rs" "kept msk advs = gae_list gamma lam (kept msk rs) (kept msk vs)" by auto
  moreover have "k = 0 \<or> k = 1" using Cons.prems by simp
  ultimately show ?case by (auto simp: gae_step_simp Let_def gae_list_Cons)
qed simp

lemma gae_row_kept:
  assumes "length rs = length vs" "length vs = length msk" "\<forall>k \<in> set msk. k = 0 \<or> k = 1"
  shows "length (gae_row gamma lam rs vs msk) = length rs"
    and "kept msk (gae_row gamma lam rs vs msk) = gae_list gamma lam (kept msk rs) (kept msk vs)"
  using gae_loop [OF assms, of gamma lam] by (auto simp: gae_row_def)

text \<open>
  C32: advantage estimation skips observations.  In a response with tool output (mask zero) between
  the model's tokens, the advantage of every token of the model, before whitening, is the discounted sum of
  temporal differences over the model's own tokens, as if the observations were not there; the return is that
  advantage plus the value, and the advantages returned are the whitened ones.
\<close>

theorem gae_skips_observations:
  assumes "compute_gae_advantage_return tm rewards values msk gamma lam = Inr (advantages, returns)"
    and "shaped bs n rewards" "shaped bs n values" "shaped bs n msk" "\<forall>row \<in> set msk. \<forall>k \<in> set row. k = 0 \<or> k = 1"
  shows "masked_whiten tm (gae_advantages gamma lam rewards values msk) msk True = Inr advantages \<and>
    (\<forall>i < bs.
       let own_rewards = kept (msk ! i) (rewards ! i); own_values = kept (msk ! i) (values ! i) in
       kept (msk ! i) (gae_advantages gamma lam rewards values msk ! i) = map (gae_sum gamma lam own_rewards own_values) [0..<length own_rewards] \<and>
       kept (msk ! i) (returns ! i) = map2 (+) (kept (msk ! i) (gae_advantages gamma lam rewards values msk ! i)) own_values)"
proof -
  have run: "masked_whiten tm (gae_advantages gamma lam rewards values msk) msk True = Inr advantages"
    "returns = t2 (+) (gae_advantages gamma lam rewards values msk) values"
    using assms(1) by (auto simp: compute_gae_advantage_return_def Let_def err_simps)
  have "kept (msk ! i) (gae_advantages gamma lam rewards values msk ! i) =
        gae_list gamma lam (kept (msk ! i) (rewards ! i)) (kept (msk ! i) (values ! i))"
    and "kept (msk ! i) (returns ! i) = map2 (+) (kept (msk ! i) (gae_advantages gamma lam rewards values msk ! i)) (kept (msk ! i) (values ! i))"
    if i: "i < bs" for i
  proof -
    have len: "length (rewards ! i) = n" "length (values ! i) = n" "length (msk ! i) = n" "\<forall>k \<in> set (msk ! i). k = 0 \<or> k = 1"
      using assms(2-5) i by (auto simp: shaped_def)
    have row: "gae_advantages gamma lam rewards values msk ! i = gae_row gamma lam (rewards ! i) (values ! i) (msk ! i)"
      using assms(2-4) i by (simp add: gae_advantages_def shaped_def)
    then show "kept (msk ! i) (gae_advantages gamma lam rewards values msk ! i) =
        gae_list gamma lam (kept (msk ! i) (rewards ! i)) (kept (msk ! i) (values ! i))"
      using gae_row_kept(2) len by simp
    have "returns ! i = map2 (+) (gae_advantages gamma lam rewards values msk ! i) (values ! i)"
      using assms(2-4) i unfolding run(2) by (simp add: t2_def gae_advantages_def shaped_def)
    then show "kept (msk ! i) (returns ! i) = map2 (+) (kept (msk ! i) (gae_advantages gamma lam rewards values msk ! i)) (kept (msk ! i) (values ! i))"
      using gae_row_kept(1) [of "rewards ! i" "values ! i" "msk ! i"] len row by (simp add: kept_map2)
  qed
  with run(1) show ?thesis by (simp add: gae_list_def)
qed

subsection \<open>Groups\<close>

lemma members_simps [simp]:
  "members g [] xs = []" "members g index [] = []"
  "members g (k # index) (x # xs) = (if k = g then x # members g index xs else members g index xs)"
  by (simp_all add: members_def)

lemma members_map2: "members g index (map2 f index xs) = map (f g) (members g index xs)"
  by (induction index xs rule: list_induct2') auto

lemma members_map: "members g index (map f xs) = map f (members g index xs)"
  by (induction index xs rule: list_induct2') auto

lemma members_ones:
  "length index = length xs \<Longrightarrow> sum_list (members g index (replicate (length xs) (1 :: rat))) = of_nat (length (members g index xs))"
  by (induction index xs rule: list_induct2) auto

text \<open>Renaming the groups does not change their members.\<close>

lemma members_rename:
  assumes "length index = length index'" "length index' = length xs" "\<And>j. j < length index \<Longrightarrow> index ! j = g \<longleftrightarrow> index' ! j = g'"
  shows "members g index xs = members g' index' xs"
  using assms
proof (induction index index' xs rule: list_induct3)
  case (Cons k ks k' ks' x xs)
  have "ks ! j = g \<longleftrightarrow> ks' ! j = g'" if "j < length ks" for j using Cons.prems [of "Suc j"] that by simp
  then show ?case using Cons.IH Cons.prems [of 0] by simp
qed simp

lemma nth_in_members: "i < length index \<Longrightarrow> length index = length xs \<Longrightarrow> xs ! i \<in> set (members (index ! i) index xs)"
  by (auto simp: members_def set_zip intro!: rev_image_eqI [of "(index ! i, xs ! i)"])

lemma stat_lookup:
  assumes "i < length index" "length index = length xs"
  shows "item_of (map_values f (group_by index xs)) (index ! i) = f (members (index ! i) index xs)"
    and "item_of (group_by index xs) (index ! i) = members (index ! i) index xs"
  using assms by (auto intro!: item_of_stat item_of_group simp: set_zip)

text \<open>A group centred at its mean sums to zero.\<close>

lemma centred_sum: "xs \<noteq> [] \<Longrightarrow> sum_list (map (\<lambda>x. x - tmean xs) xs) = 0"
  by (simp add: sum_list_subtractf tmean_def sum_list_triv)

subsection \<open>Leave one out\<close>

text \<open>The baseline of RLOO: the mean of the other scores of the group.\<close>

definition leave_one_out :: "vec \<Rightarrow> 'k list \<Rightarrow> nat \<Rightarrow> rat" where
  "leave_one_out scores index i =
     (let grp = members (index ! i) index scores in
      scores ! i - (sum_list grp - scores ! i) / (of_nat (length grp) - 1))"

lemma one_out: "(n :: rat) - 1 \<noteq> 0 \<Longrightarrow> (n * s - S) / (n - 1) = s - (S - s) / (n - 1)"
  by (simp add: field_simps)

lemma rloo_score:
  assumes "length index = length scores" "i < length scores"
  shows "rloo_scores scores index ! i =
    (if length (members (index ! i) index scores) > 1 then leave_one_out scores index i else scores ! i)"
proof -
  let ?m = "members (index ! i) index scores"
  have "rloo_scores scores index ! i =
     (let n = of_nat (length ?m) in if n > 1 then scores ! i * n / (n - 1) - group_mean ?m * n / (n - 1) else scores ! i)"
    using assms stat_lookup(1) [of i index scores group_mean] stat_lookup(2) [of i index scores]
    by (simp add: rloo_scores_def Let_def)
  moreover have "scores ! i * n / (n - 1) - group_mean ?m * n / (n - 1) = leave_one_out scores index i"
    if "length ?m > 1" "n = of_nat (length ?m)" for n :: rat
  proof -
    have n: "n - 1 \<noteq> 0" "n \<noteq> 0" using that by auto
    have "group_mean ?m * n = sum_list ?m" using that n by (simp add: group_mean_def tmean_def)
    then show ?thesis using that n one_out [of n "scores ! i" "sum_list ?m"]
      by (simp add: leave_one_out_def Let_def diff_divide_distrib mult.commute)
  qed
  ultimately show ?thesis by (simp add: Let_def)
qed

lemma position_in_unique: "x \<in> set us \<Longrightarrow> us ! position_in us x = x \<and> position_in us x < length us"
  by (induction us) (auto simp: position_in_def)

lemma unique_inverse_eq:
  assumes "i < length xs" "j < length xs"
  shows "unique_inverse xs ! i = unique_inverse xs ! j \<longleftrightarrow> xs ! i = xs ! j"
proof -
  have "xs ! l \<in> set (np_unique xs)" if "l < length xs" for l using that by (simp add: np_unique_def)
  then show ?thesis using assms position_in_unique by (metis length_map nth_map unique_inverse_def)
qed

lemma bincount_nth: "g \<in> set ix \<Longrightarrow> bincount ix w ! g = sum_list (members g ix w)"
proof -
  assume "g \<in> set ix"
  then have "g < Suc (foldr max ix 0)" by (induction ix) auto
  then show ?thesis by (simp add: bincount_def del: upt_Suc)
qed

lemma rloo_vectorized_score:
  assumes "length index = length scores" "i < length scores"
  shows "rloo_vectorized_scores scores index ! i =
    (if length (members (index ! i) index scores) > 1 then leave_one_out scores index i else 0)"
proof -
  let ?ix = "unique_inverse index" and ?m = "members (index ! i) index scores"
  have len: "length ?ix = length scores" using assms by (simp add: unique_inverse_def)
  have same: "members (?ix ! i) ?ix xs = members (index ! i) index xs" if "length xs = length index" for xs :: vec
    using that assms len unique_inverse_eq [of _ index i] by (intro members_rename) (auto simp: unique_inverse_def)
  have "map (\<lambda>_. 1) ?ix = replicate (length scores) (1 :: rat)" using len by (simp add: map_replicate_const)
  then have "bincount ?ix (map (\<lambda>_. 1) ?ix) ! (?ix ! i) = of_nat (length ?m)"
    using assms len by (simp add: bincount_nth same members_ones)
  moreover have "bincount ?ix scores ! (?ix ! i) = sum_list ?m" using assms len by (simp add: bincount_nth same)
  ultimately have "rloo_vectorized_scores scores index ! i =
     (of_nat (length ?m) * scores ! i - sum_list ?m) / max (of_nat (length ?m) - 1) 1 * fbool (length ?m > 1)"
    using assms len by (simp add: rloo_vectorized_scores_def Let_def)
  moreover have "(n * scores ! i - sum_list ?m) / max (n - 1) 1 = leave_one_out scores index i"
    if "length ?m > 1" "n = of_nat (length ?m)" for n :: rat
  proof -
    have "2 \<le> length ?m" using that(1) by simp
    then have "(2 :: rat) \<le> of_nat (length ?m)" by (metis of_nat_le_iff of_nat_numeral)
    then have "max (n - 1) 1 = n - 1" "n - 1 \<noteq> 0" using that(2) by auto
    then show ?thesis using that one_out by (simp add: leave_one_out_def Let_def)
  qed
  ultimately show ?thesis by (simp add: fbool_def)
qed

text \<open>
  the vectorized RLOO estimator computes what the loop computes, and both give a response its
  score minus the mean score of the other responses to its prompt, on every token of the model, provided every
  prompt has at least two responses.
\<close>

theorem rloo_is_leave_one_out:
  assumes "length index = length rewards" "\<forall>g \<in> set index. length (members g index rewards) > 1"
  shows "compute_rloo_outcome_advantage rewards msk index =
      on_tokens (map (leave_one_out (row_sums rewards) index) [0..<length rewards]) msk \<and>
    compute_rloo_vectorized_outcome_advantage rewards msk index = compute_rloo_outcome_advantage rewards msk index"
proof -
  let ?s = "row_sums rewards"
  have len: "length index = length ?s" using assms(1) by (simp add: row_sums_def)
  have big: "length (members (index ! i) index ?s) > 1" if "i < length ?s" for i
    using assms that len by (auto simp: row_sums_def members_map)
  have "rloo_scores ?s index = map (leave_one_out ?s index) [0..<length rewards]"
    using len assms(1) rloo_score [OF len] big by (intro nth_equalityI) (auto simp: rloo_scores_def Let_def)
  moreover have "rloo_vectorized_scores ?s index = map (leave_one_out ?s index) [0..<length rewards]"
    using len assms(1) rloo_vectorized_score [OF len] big
    by (intro nth_equalityI) (auto simp: rloo_vectorized_scores_def Let_def unique_inverse_def)
  ultimately show ?thesis
    by (simp add: compute_rloo_outcome_advantage_def compute_rloo_vectorized_outcome_advantage_def)
qed

text \<open>A single response keeps its score in the loop and gets nothing in the vectorized estimator.\<close>

lemma rloo_singletons_differ:
  "rloo_scores [3] [''p''] = [3]" "rloo_vectorized_scores [3] [''p''] = [0]"
  by code_simp+

subsection \<open>Group relative advantages\<close>

lemma grpo_score:
  assumes "length index = length scores" "i < length scores"
  shows "grpo_scores tm scores index epsilon by_std ! i =
    (let grp = members (index ! i) index scores in
     if by_std then fdiv tm (scores ! i - group_mean grp) (group_std tm grp + epsilon) else scores ! i - group_mean grp)"
  using assms stat_lookup(1) [of i index scores group_mean] stat_lookup(1) [of i index scores "group_std tm"]
  by (simp add: grpo_scores_def Let_def)

lemma grpo_members:
  assumes "length index = length scores"
  shows "members g index (grpo_scores tm scores index epsilon by_std) =
    (let grp = members g index scores in
     map (\<lambda>s. if by_std then fdiv tm (s - group_mean grp) (group_std tm grp + epsilon) else s - group_mean grp) grp)"
proof -
  let ?f = "\<lambda>g s. let grp = members g index scores in
     if by_std then fdiv tm (s - group_mean grp) (group_std tm grp + epsilon) else s - group_mean grp"
  have "grpo_scores tm scores index epsilon by_std = map2 ?f index scores"
    using assms grpo_score [of index scores _ tm epsilon by_std]
    by (intro nth_equalityI) (simp_all add: grpo_scores_def Let_def)
  then show ?thesis by (simp add: members_map2 Let_def)
qed

text \<open>
  the advantages of the responses to one prompt balance out: they sum to zero, with and without
  the division by the standard deviation, as soon as the prompt has two responses (and the divisor is
  not zero).
\<close>

theorem grpo_group_sums_to_zero:
  assumes "length index = length scores" "length (members g index scores) > 1"
    and "by_std \<Longrightarrow> tstd tm (members g index scores) + epsilon \<noteq> 0"
  shows "sum_list (members g index (grpo_scores tm scores index epsilon by_std)) = 0"
proof -
  let ?m = "members g index scores"
  have m: "group_mean ?m = tmean ?m" "group_std tm ?m = tstd tm ?m" "?m \<noteq> []"
    using assms(2) by (auto simp: group_mean_def group_std_def)
  show ?thesis
  proof (cases by_std)
    case True
    let ?d = "tstd tm ?m + epsilon"
    have "sum_list (map (\<lambda>s. fdiv tm (s - tmean ?m) ?d) ?m) = sum_list (map (\<lambda>s. s - tmean ?m) ?m) / ?d"
      using assms(3) True by (simp add: fdiv_def divide_inverse sum_list_mult_const)
    then show ?thesis using True m centred_sum by (simp add: grpo_members [OF assms(1)] Let_def)
  next
    case False
    then show ?thesis using m centred_sum by (simp add: grpo_members [OF assms(1)] Let_def)
  qed
qed

subsection \<open>The vectorized estimator\<close>

lemma index_add_nth: "0 \<le> g \<Longrightarrow> g \<le> Max (set gidx) \<Longrightarrow> index_add (nat (Max (set gidx) + 1)) gidx xs ! nat g = sum_list (members g gidx xs)"
  by (simp add: index_add_def nat_less_iff)

lemma tvar_nonneg: "0 \<le> tvar xs"
  by (cases xs) (auto simp: tvar_def intro!: divide_nonneg_nonneg sum_list_nonneg add_nonneg_nonneg)

lemma map2_flip: "length xs = length ys \<Longrightarrow> map2 f xs ys = map2 (\<lambda>y x. f x y) ys xs"
  by (induction xs ys rule: list_induct2) auto

text \<open>The statistics of a group that has members.\<close>

lemma group_mean_std_run:
  assumes "length gidx = length scores" "gidx \<noteq> []" "\<forall>g \<in> set gidx. 0 \<le> g"
  shows "\<exists>mean std count. group_mean_std tm scores gidx 0 = Inr (mean, std, count) \<and>
    (\<forall>g \<in> set gidx. mean ! nat g = group_mean (members g gidx scores) \<and> std ! nat g = group_std tm (members g gidx scores))"
proof -
  let ?G = "nat (Max (set gidx) + 1)"
  define count where "count = index_add ?G gidx (map (\<lambda>_. 1) scores)"
  define mean where "mean = map2 (\<lambda>s c. s / max c 1) (index_add ?G gidx scores) count"
  define centered where "centered = map2 (\<lambda>s g. s - mean ! nat g) scores gidx"
  define std where "std = map (\<lambda>v. tm_sqrt tm (max v 0)) (map2 (\<lambda>v c. v / max (c - 1) 1) (index_add ?G gidx (map (\<lambda>x. x * x) centered)) count)"
  let ?mean = "map2 (\<lambda>x c. if c \<le> 1 then 0 else x) mean count" and ?std = "map2 (\<lambda>x c. if c \<le> 1 then 1 else x) std count"
  have run: "group_mean_std tm scores gidx 0 = Inr (?mean, ?std, count)"
    using assms by (auto simp: group_mean_std_def Let_def count_def mean_def centered_def std_def)
  have len: "length count = ?G" "length mean = ?G" "length std = ?G"
    by (simp_all add: count_def mean_def std_def index_add_def)
  have "?mean ! nat g = group_mean (members g gidx scores) \<and> ?std ! nat g = group_std tm (members g gidx scores)"
    if g: "g \<in> set gidx" for g
  proof -
    let ?m = "members g gidx scores" and ?n = "of_nat (length (members g gidx scores)) :: rat"
    have b: "0 \<le> g" "g \<le> Max (set gidx)" using g assms(3) by auto
    then have b: "0 \<le> g" "g \<le> Max (set gidx)" "nat g < ?G" by (simp_all add: nat_less_eq_zless)
    have ne: "?m \<noteq> []" using g assms(1) nth_in_members [of _ gidx scores] by (force simp: in_set_conv_nth)
    have c: "count ! nat g = ?n"
      using assms(1) b by (simp add: count_def index_add_nth map_replicate_const members_ones)
    have m: "mean ! nat g = sum_list ?m / max ?n 1"
      using b c len by (simp add: mean_def index_add_nth)
    have "members g gidx (map (\<lambda>x. x * x) centered) = map (\<lambda>s. (s - mean ! nat g) ^ 2) ?m"
    proof -
      have "centered = map2 (\<lambda>g s. s - mean ! nat g) gidx scores" unfolding centered_def by (rule map2_flip) (simp add: assms(1))
      then have "members g gidx centered = map (\<lambda>s. s - mean ! nat g) ?m" by (simp only: members_map2)
      then show ?thesis unfolding members_map by (simp add: power2_eq_square)
    qed
    then have "std ! nat g = tm_sqrt tm (max (sum_list (map (\<lambda>s. (s - mean ! nat g) ^ 2) ?m) / max (?n - 1) 1) 0)"
      using b c len by (simp add: std_def index_add_nth)
    then have s: "std ! nat g = tm_sqrt tm (max (sum_list (map (\<lambda>s. (s - sum_list ?m / max ?n 1) ^ 2) ?m) / max (?n - 1) 1) 0)"
      unfolding m .
    show ?thesis
    proof (cases "length ?m = 1")
      case True
      then show ?thesis using b c len by (simp add: group_mean_def group_std_def)
    next
      case False
      then have "2 \<le> length ?m" using ne by (cases ?m) (auto simp: Suc_le_eq)
      then have n: "2 \<le> ?n" by (metis of_nat_le_iff of_nat_numeral)
      then have "max ?n 1 = ?n" "max (?n - 1) 1 = ?n - 1" by auto
      then have "mean ! nat g = tmean ?m" "std ! nat g = tm_sqrt tm (max (tvar ?m) 0)"
        using m s by (simp_all add: tmean_def tvar_def)
      then show ?thesis using False n b c len tvar_nonneg [of ?m] by (simp add: group_mean_def group_std_def tstd_def)
    qed
  qed
  with run show ?thesis by blast
qed

text \<open>
  the vectorized GRPO estimator computes what the loop computes, for labels that numpy does not
  take for integers (as the identifiers of the prompts): same advantages, with and without the division by
  the standard deviation, groups of one response included.
\<close>

theorem grpo_vectorized_agrees:
  assumes "length index = length rewards" "\<exists>x \<in> set index. conv x = None"
  shows "compute_grpo_vectorized_outcome_advantage tm conv rewards msk (OtherLabels index) epsilon by_std =
    Inr (compute_grpo_outcome_advantage tm rewards msk index epsilon by_std)"
proof -
  let ?s = "row_sums rewards" and ?g = "map int (unique_inverse index)"
  have g: "as_torch_index conv (OtherLabels index) = ?g" using assms(2) by (auto simp: as_torch_index_def)
  have len: "length ?g = length ?s" "length index = length ?s" using assms(1) by (simp_all add: unique_inverse_def row_sums_def)
  obtain mean std count where run: "group_mean_std tm ?s ?g 0 = Inr (mean, std, count)"
    and stat: "\<And>g. g \<in> set ?g \<Longrightarrow> mean ! nat g = group_mean (members g ?g ?s) \<and> std ! nat g = group_std tm (members g ?g ?s)"
  proof -
    have "?g \<noteq> []" "\<forall>g \<in> set ?g. 0 \<le> g" using assms(2) by (auto simp: unique_inverse_def)
    from group_mean_std_run [OF len(1) this, of tm] show ?thesis using that by blast
  qed
  have same: "members (?g ! i) ?g ?s = members (index ! i) index ?s" if "i < length ?s" for i
    using that len unique_inverse_eq [of _ index i] by (intro members_rename) (auto simp: unique_inverse_def)
  have "map2 (\<lambda>s i. if by_std then fdiv tm (s - mean ! nat i) (std ! nat i + epsilon) else s - mean ! nat i) ?s ?g =
      grpo_scores tm ?s index epsilon by_std"
    (is "?l = ?r")
  proof (rule nth_equalityI)
    show "length ?l = length ?r" using len by (simp add: grpo_scores_def Let_def)
    fix i assume "i < length ?l"
    then have i: "i < length ?s" "i < length ?g" using len by auto
    then have "?g ! i \<in> set ?g" using nth_mem by blast
    from stat [OF this] same [OF i(1)] show "?l ! i = ?r ! i"
      using i by (simp add: grpo_score [OF len(2) i(1)] Let_def del: length_map nth_map) (simp add: Let_def)
  qed
  then show ?thesis using run
    by (simp add: compute_grpo_vectorized_outcome_advantage_def compute_grpo_outcome_advantage_def g Let_def)
qed

text \<open>Floats that are no integers are cut off, not numbered: different labels fall into one group.\<close>

lemma float_labels_merge: "as_torch_index (\<lambda>_ :: int. None) (FloatLabels [1 / 5, 9 / 10]) = [0, 0]"
  by code_simp

subsection \<open>Concrete batches\<close>

text \<open>Three steps of Newton for the root, a power for the exponential.\<close>

definition newton :: "rat \<Rightarrow> rat \<Rightarrow> rat" where
  "newton x y = (if y = 0 then 0 else (y + x / y) / 2)"

definition demo_tm :: tmath where
  "demo_tm = \<lparr>tm_sqrt = (\<lambda>x. newton x (newton x (newton x (1 + x)))), tm_exp = (\<lambda>x. (1 + x / 8) ^ 8), tm_log = (\<lambda>x. x - 1),
     tm_sigmoid = (\<lambda>x. 1 / 2), tm_div0 = (\<lambda>x. 0)\<rparr>"

theorem gae_skips_observations_witness:
  "\<exists>advantages returns. compute_gae_advantage_return demo_tm [[0, 7, 1]] [[1 / 2, 9, 1 / 4]] [[1, 0, 1]] 1 (1 / 2) = Inr (advantages, returns) \<and>
     kept [1, 0, 1] (gae_advantages 1 (1 / 2) [[0, 7, 1]] [[1 / 2, 9, 1 / 4]] [[1, 0, 1]] ! 0) =
       map (gae_sum 1 (1 / 2) [0, 1] [1 / 2, 1 / 4]) [0..<2]"
proof -
  obtain advantages returns where run:
    "compute_gae_advantage_return demo_tm [[0, 7, 1]] [[1 / 2, 9, 1 / 4]] [[1, 0, 1]] 1 (1 / 2) = Inr (advantages, returns)"
    by (simp add: compute_gae_advantage_return_def masked_whiten_def masked_var_def tsum_def Let_def)
  have "shaped 1 3 [[0, 7, 1 :: rat]]" "shaped 1 3 [[1 / 2, 9, 1 / 4 :: rat]]" "shaped 1 3 [[1, 0, 1 :: rat]]"
    "\<forall>row \<in> set [[1, 0, 1 :: rat]]. \<forall>k \<in> set row. k = 0 \<or> k = 1" by (simp_all add: shaped_def)
  from gae_skips_observations [OF run this] run show ?thesis by (auto simp: Let_def numeral_eq_Suc)
qed

theorem rloo_is_leave_one_out_witness:
  "compute_rloo_vectorized_outcome_advantage [[0, 3], [1, 0]] [[1, 1], [1, 0]] [''p'', ''p''] =
     compute_rloo_outcome_advantage [[0, 3], [1, 0]] [[1, 1], [1, 0]] [''p'', ''p'']"
  using rloo_is_leave_one_out [of "[''p'', ''p'']" "[[0, 3], [1, 0]]" "[[1, 1], [1, 0]]"] by simp

theorem grpo_vectorized_agrees_witness:
  "compute_grpo_vectorized_outcome_advantage demo_tm (\<lambda>_. None) [[0, 3], [1, 0], [2, 2]] [[1, 1], [1, 0], [1, 1]]
      (OtherLabels [''p'', ''q'', ''p'']) (1 / 1000000) True =
    Inr (compute_grpo_outcome_advantage demo_tm [[0, 3], [1, 0], [2, 2]] [[1, 1], [1, 0], [1, 1]] [''p'', ''q'', ''p''] (1 / 1000000) True)"
  by (rule grpo_vectorized_agrees) (simp_all, blast)

end
