(* ===== verification/PolicyLoss.thy ===== *)
theory PolicyLoss
  imports Advantages
begin

text \<open>
  The losses of \<open>src/verl/verl/trainer/ppo/core_algos.py\<close>: aggregation over a batch, the policy losses, the
  value loss, the KL penalties.  A loss is its value; where the code detaches a tensor from
  the gradient the value is the same.
\<close>

definition t3 :: "('a \<Rightarrow> 'b \<Rightarrow> 'c \<Rightarrow> 'd) \<Rightarrow> 'a list list \<Rightarrow> 'b list list \<Rightarrow> 'c list list \<Rightarrow> 'd list list" where
  "t3 f a b c = t2 (\<lambda>g z. g z) (t2 f a b) c"

subsection \<open>Aggregation\<close>

record agg_info =
  ag_dp_size :: nat
  ag_batch_num_tokens :: "rat option"
  ag_global_batch_size :: "rat option"
  ag_loss_scale_factor :: "rat option"

text \<open>\<open>loss_mask.shape[-1]\<close>, of a batch with at least one row.\<close>

definition width :: "'a list list \<Rightarrow> nat" where
  "width a = (case a of [] \<Rightarrow> 0 | row # _ \<Rightarrow> length row)"

definition seq_active :: "tensor \<Rightarrow> vec" where
  "seq_active loss_mask = map (\<lambda>row. fbool (sum_list row > 0)) loss_mask"

text \<open>The number to divide by: given, or counted when there is only one rank.\<close>

definition or_counted :: "string \<Rightarrow> nat \<Rightarrow> rat option \<Rightarrow> rat \<Rightarrow> rat result" where
  "or_counted msg dp_size given counted =
     (case given of Some n \<Rightarrow> Inr n | None \<Rightarrow> if dp_size > 1 then Inl (ValueError msg) else Inr counted)"

definition agg_loss :: "tmath \<Rightarrow> tensor \<Rightarrow> tensor \<Rightarrow> string \<Rightarrow> agg_info \<Rightarrow> rat result" where
  "agg_loss tm loss_mat loss_mask loss_agg_mode info =
     (let dp = of_nat (ag_dp_size info) in
      if loss_agg_mode = ''token-mean'' then
        rbind (or_counted ''(global) batch_num_tokens is required when dp_size > 1'' (ag_dp_size info)
                 (ag_batch_num_tokens info) (tsum loss_mask)) (\<lambda>n.
        Inr (fdiv tm (masked_sum loss_mat loss_mask) n * dp))
      else if loss_agg_mode = ''token-sum'' then Inr (masked_sum loss_mat loss_mask * dp)
      else if loss_agg_mode \<in> {''seq-mean-token-sum'', ''seq-mean-token-sum-norm''} then
        (let seq_losses = row_sums (t2 (*) loss_mat loss_mask); seq_mask = seq_active loss_mask in
         rbind (or_counted ''global_batch_size is required when dp_size > 1'' (ag_dp_size info)
                  (ag_global_batch_size info) (sum_list seq_mask)) (\<lambda>n.
         (let loss = fdiv tm (masked_sum1 seq_losses seq_mask) n * dp in
          Inr (if loss_agg_mode = ''seq-mean-token-sum-norm''
               then fdiv tm loss (case ag_loss_scale_factor info of None \<Rightarrow> of_nat (width loss_mask) | Some f \<Rightarrow> f)
               else loss))))
      else if loss_agg_mode = ''seq-mean-token-mean'' then
        (let seq_losses = map2 (\<lambda>s row. s / (sum_list row + eps8)) (row_sums (t2 (*) loss_mat loss_mask)) loss_mask;
             seq_mask = seq_active loss_mask in
         rbind (or_counted ''global_batch_size is required when dp_size > 1'' (ag_dp_size info)
                  (ag_global_batch_size info) (sum_list seq_mask)) (\<lambda>n.
         Inr (fdiv tm (masked_sum1 seq_losses seq_mask) n * dp)))
      else Inl (ValueError (''Invalid loss_agg_mode: '' @ loss_agg_mode)))"

definition compute_rewards :: "tensor \<Rightarrow> tensor \<Rightarrow> tensor \<Rightarrow> rat \<Rightarrow> tensor" where
  "compute_rewards token_level_scores old_log_prob ref_log_prob kl_ratio =
     (let kl = t2 (-) old_log_prob ref_log_prob in t2 (\<lambda>s k. s - k * kl_ratio) token_level_scores kl)"

subsection \<open>The clipped objective\<close>

record policy_config =
  clip_ratio :: rat
  clip_ratio_low :: "rat option"
  clip_ratio_high :: "rat option"
  clip_ratio_c :: "rat option"
  tau_pos :: rat
  tau_neg :: rat
  clip_cov_ratio :: "rat option"
  clip_cov_lb :: "rat option"
  clip_cov_ub :: "rat option"
  kl_cov_ratio :: "rat option"
  ppo_kl_coef :: "rat option"
  global_batch_info :: agg_info

type_synonym metrics = "(string \<times> rat) list"

definition or_else :: "'a option \<Rightarrow> 'a \<Rightarrow> 'a" where
  "or_else o1 d = (case o1 of None \<Rightarrow> d | Some x \<Rightarrow> x)"

definition clip_low :: "policy_config \<Rightarrow> rat" where
  "clip_low c = or_else (clip_ratio_low c) (clip_ratio c)"

definition clip_high :: "policy_config \<Rightarrow> rat" where
  "clip_high c = or_else (clip_ratio_high c) (clip_ratio c)"

definition approx_kl :: "tensor \<Rightarrow> tensor \<Rightarrow> tensor" where
  "approx_kl log_prob old_log_prob = t2 (\<lambda>l old. clamp (- 20) 20 (l - old)) log_prob old_log_prob"

text \<open>The terms of dual-clip PPO: losses, clipped fraction, KL, fraction clipped from below.\<close>

definition clipped_objective ::
  "tmath \<Rightarrow> rat \<Rightarrow> rat \<Rightarrow> rat \<Rightarrow> tensor \<Rightarrow> tensor \<Rightarrow> tensor \<Rightarrow> tensor \<Rightarrow> tensor \<times> rat \<times> rat \<times> rat" where
  "clipped_objective tm low high c old_log_prob log_prob advantages response_mask =
     (let negative_approx_kl = approx_kl log_prob old_log_prob;
          ratio = t1 (tm_exp tm) negative_approx_kl;
          ppo_kl = masked_mean (t1 uminus negative_approx_kl) response_mask;
          pg_losses1 = t2 (\<lambda>a r. - a * r) advantages ratio;
          pg_losses2 = t2 (\<lambda>a r. - a * clamp (1 - low) (1 + high) r) advantages ratio;
          clip_pg_losses1 = t2 max pg_losses1 pg_losses2;
          pg_clipfrac = masked_mean (t2 (\<lambda>x y. fbool (x > y)) pg_losses2 pg_losses1) response_mask;
          pg_losses3 = t1 (\<lambda>a. - a * c) advantages;
          clip_pg_losses2 = t2 min pg_losses3 clip_pg_losses1;
          pg_clipfrac_lower =
            masked_mean (t3 (\<lambda>x y a. fbool (x > y) * fbool (a < 0)) clip_pg_losses1 pg_losses3 advantages) response_mask;
          pg_losses = t3 (\<lambda>a x y. if a < 0 then x else y) advantages clip_pg_losses2 clip_pg_losses1 in
      (pg_losses, pg_clipfrac, ppo_kl, pg_clipfrac_lower))"

definition check_clip_ratio_c :: "(rat \<Rightarrow> string) \<Rightarrow> rat \<Rightarrow> unit result" where
  "check_clip_ratio_c fr c = raise_unless (c > 1)
     (AssertionError (''The lower bound of the clip_ratio_c for dual-clip PPO should be greater than 1.0, but get the value: '' @ fr c @ ''.''))"

definition local_info :: agg_info where
  "local_info = \<lparr>ag_dp_size = 1, ag_batch_num_tokens = None, ag_global_batch_size = None, ag_loss_scale_factor = None\<rparr>"

definition compute_policy_loss ::
  "(rat \<Rightarrow> string) \<Rightarrow> tmath \<Rightarrow> tensor \<Rightarrow> tensor \<Rightarrow> tensor \<Rightarrow> tensor \<Rightarrow> rat option \<Rightarrow> rat option \<Rightarrow> rat option \<Rightarrow> rat \<Rightarrow> string \<Rightarrow>
   (rat \<times> rat \<times> rat \<times> rat) result" where
  "compute_policy_loss fr tm old_log_prob log_prob advantages response_mask cliprange cliprange_low cliprange_high c loss_agg_mode =
     rbind (check_clip_ratio_c fr c) (\<lambda>_.
     case (if cliprange_low = None then cliprange else cliprange_low, if cliprange_high = None then cliprange else cliprange_high) of
       (Some low, Some high) \<Rightarrow>
         (case clipped_objective tm low high c old_log_prob log_prob advantages response_mask of
            (pg_losses, clipfrac, kl, clipfrac_lower) \<Rightarrow>
              rbind (agg_loss tm pg_losses response_mask loss_agg_mode local_info) (\<lambda>pg_loss.
              Inr (pg_loss, clipfrac, kl, clipfrac_lower)))
     | _ \<Rightarrow> Inl (TypeError (''unsupported operand type(s) for -: '' @ repr_str ''int'' @ '' and '' @ repr_str ''NoneType'')))"

definition weighted :: "tensor option \<Rightarrow> tensor \<Rightarrow> tensor" where
  "weighted rollout_is_weights pg_losses =
     (case rollout_is_weights of None \<Rightarrow> pg_losses | Some w \<Rightarrow> t2 (*) pg_losses w)"

definition pg_metrics :: "rat \<Rightarrow> rat \<Rightarrow> rat \<Rightarrow> metrics" where
  "pg_metrics clipfrac kl clipfrac_lower =
     [(''actor/pg_clipfrac'', clipfrac), (''actor/ppo_kl'', kl), (''actor/pg_clipfrac_lower'', clipfrac_lower)]"

definition need_config :: "policy_config option \<Rightarrow> policy_config result" where
  "need_config config = (case config of None \<Rightarrow> Inl (AssertionError []) | Some c \<Rightarrow> Inr c)"

definition compute_policy_loss_vanilla ::
  "(rat \<Rightarrow> string) \<Rightarrow> tmath \<Rightarrow> tensor \<Rightarrow> tensor \<Rightarrow> tensor \<Rightarrow> tensor \<Rightarrow> string \<Rightarrow> policy_config option \<Rightarrow> tensor option \<Rightarrow> (rat \<times> metrics) result" where
  "compute_policy_loss_vanilla fr tm old_log_prob log_prob advantages response_mask loss_agg_mode config rollout_is_weights =
     rbind (need_config config) (\<lambda>cfg.
     rbind (check_clip_ratio_c fr (or_else (clip_ratio_c cfg) 3)) (\<lambda>_.
     case clipped_objective tm (clip_low cfg) (clip_high cfg) (or_else (clip_ratio_c cfg) 3) old_log_prob log_prob advantages response_mask of
       (pg_losses, clipfrac, kl, clipfrac_lower) \<Rightarrow>
         rbind (agg_loss tm (weighted rollout_is_weights pg_losses) response_mask loss_agg_mode (global_batch_info cfg)) (\<lambda>pg_loss.
         Inr (pg_loss, pg_metrics clipfrac kl clipfrac_lower))))"

subsection \<open>Divergence thresholds\<close>

text \<open>What both variants of DPPO share: the ratio cut off from above, and tokens outside the threshold left out.\<close>

definition dppo_loss ::
  "tmath \<Rightarrow> policy_config \<Rightarrow> tensor \<Rightarrow> tensor \<Rightarrow> tensor \<Rightarrow> tensor \<Rightarrow> tensor \<Rightarrow> string \<Rightarrow> tensor option \<Rightarrow> (rat \<times> metrics) result" where
  "dppo_loss tm cfg valid_mask old_log_prob log_prob advantages response_mask loss_agg_mode rollout_is_weights =
     (let negative_approx_kl = approx_kl log_prob old_log_prob;
          ratio = t1 (tm_exp tm) negative_approx_kl;
          ppo_kl = masked_mean (t1 uminus negative_approx_kl) response_mask;
          c = or_else (clip_ratio_c cfg) 20;
          truncated_ratio = t1 (\<lambda>r. min r c) ratio;
          pg_losses = t2 (*) (t3 (\<lambda>a r l. - a * r * l) advantages truncated_ratio log_prob) valid_mask;
          clipfrac = masked_mean (t1 (\<lambda>v. 1 - v) valid_mask) response_mask;
          clipfrac_lower = masked_mean (t2 (\<lambda>r v. fbool (r > c) * v) ratio valid_mask) response_mask in
      rbind (agg_loss tm (weighted rollout_is_weights pg_losses) response_mask loss_agg_mode (global_batch_info cfg)) (\<lambda>pg_loss.
      Inr (pg_loss, pg_metrics clipfrac ppo_kl clipfrac_lower)))"

definition tv_valid :: "tmath \<Rightarrow> rat \<Rightarrow> rat \<Rightarrow> rat \<Rightarrow> rat \<Rightarrow> rat \<Rightarrow> rat" where
  "tv_valid tm low high a l old =
     (let d = tm_exp tm l - tm_exp tm old in fbool (if a > 0 then d \<le> high else d \<ge> - low))"

definition compute_policy_loss_dppo_tv ::
  "tmath \<Rightarrow> tensor \<Rightarrow> tensor \<Rightarrow> tensor \<Rightarrow> tensor \<Rightarrow> string \<Rightarrow> policy_config option \<Rightarrow> tensor option \<Rightarrow> (rat \<times> metrics) result" where
  "compute_policy_loss_dppo_tv tm old_log_prob log_prob advantages response_mask loss_agg_mode config rollout_is_weights =
     rbind (need_config config) (\<lambda>cfg.
     dppo_loss tm cfg (t3 (tv_valid tm (clip_low cfg) (clip_high cfg)) advantages log_prob old_log_prob)
       old_log_prob log_prob advantages response_mask loss_agg_mode rollout_is_weights)"

definition binary_kl :: "tmath \<Rightarrow> rat \<Rightarrow> rat \<Rightarrow> rat" where
  "binary_kl tm l old =
     (let prob = tm_exp tm l; old_prob = tm_exp tm old in
      old_prob * (old - l) + (1 - old_prob) * tm_log tm (fdiv tm (1 - old_prob + eps8) (1 - prob + eps8)))"

definition kl_valid :: "tmath \<Rightarrow> rat \<Rightarrow> rat \<Rightarrow> rat \<Rightarrow> rat \<Rightarrow> rat \<Rightarrow> rat" where
  "kl_valid tm low high a l old =
     (let prob = tm_exp tm l; old_prob = tm_exp tm old; kl = binary_kl tm l old in
      fbool (if a > 0 then kl \<le> high \<or> prob \<le> old_prob else kl \<le> low \<or> prob \<ge> old_prob))"

definition compute_policy_loss_dppo_kl ::
  "tmath \<Rightarrow> tensor \<Rightarrow> tensor \<Rightarrow> tensor \<Rightarrow> tensor \<Rightarrow> string \<Rightarrow> policy_config option \<Rightarrow> tensor option \<Rightarrow> (rat \<times> metrics) result" where
  "compute_policy_loss_dppo_kl tm old_log_prob log_prob advantages response_mask loss_agg_mode config rollout_is_weights =
     rbind (need_config config) (\<lambda>cfg.
     dppo_loss tm cfg (t3 (kl_valid tm (clip_low cfg) (clip_high cfg)) advantages log_prob old_log_prob)
       old_log_prob log_prob advantages response_mask loss_agg_mode rollout_is_weights)"

subsection \<open>Ratios of sequences\<close>

definition compute_policy_loss_gspo ::
  "tmath \<Rightarrow> tensor \<Rightarrow> tensor \<Rightarrow> tensor \<Rightarrow> tensor \<Rightarrow> policy_config option \<Rightarrow> tensor option \<Rightarrow> (rat \<times> metrics) result" where
  "compute_policy_loss_gspo tm old_log_prob log_prob advantages response_mask config rollout_is_weights =
     rbind (need_config config) (\<lambda>cfg.
     (let negative_approx_kl = t2 (-) log_prob old_log_prob;
          seq_lengths = map (\<lambda>s. max s 1) (row_sums response_mask);
          negative_approx_kl_seq = map2 (/) (row_sums (t2 (*) negative_approx_kl response_mask)) seq_lengths;
          log_ratio = map2 (\<lambda>row k. map (\<lambda>l. min (l - l + k) 10) row) log_prob negative_approx_kl_seq;
          ratio = t1 (tm_exp tm) log_ratio;
          pg_losses1 = t2 (\<lambda>a r. - a * r) advantages ratio;
          pg_losses2 = t2 (\<lambda>a r. - a * clamp (1 - clip_low cfg) (1 + clip_high cfg) r) advantages ratio;
          pg_losses = t2 max pg_losses1 pg_losses2;
          clipfrac = masked_mean (t2 (\<lambda>x y. fbool (x > y)) pg_losses2 pg_losses1) response_mask;
          ppo_kl = masked_mean (t1 uminus negative_approx_kl) response_mask in
      rbind (agg_loss tm (weighted rollout_is_weights pg_losses) response_mask ''seq-mean-token-mean'' (global_batch_info cfg)) (\<lambda>pg_loss.
      Inr (pg_loss, pg_metrics clipfrac ppo_kl 0))))"

definition gate_function :: "tmath \<Rightarrow> rat \<Rightarrow> rat \<Rightarrow> rat" where
  "gate_function tm x tau = tm_sigmoid tm (tau * (x - 1)) * fdiv tm 4 tau"

definition compute_policy_loss_sapo ::
  "tmath \<Rightarrow> tensor \<Rightarrow> tensor \<Rightarrow> tensor \<Rightarrow> tensor \<Rightarrow> policy_config option \<Rightarrow> tensor option \<Rightarrow> (rat \<times> metrics) result" where
  "compute_policy_loss_sapo tm old_log_prob log_prob advantages response_mask config rollout_is_weights =
     rbind (need_config config) (\<lambda>cfg.
     (let negative_approx_kl = approx_kl log_prob old_log_prob;
          ratio = t1 (tm_exp tm) negative_approx_kl;
          gates = t2 (\<lambda>a r. gate_function tm r (if a > 0 then tau_pos cfg else tau_neg cfg)) advantages ratio;
          pg_losses = t2 (\<lambda>g a. - g * a) gates advantages;
          ppo_kl = masked_mean (t1 uminus negative_approx_kl) response_mask in
      rbind (agg_loss tm (weighted rollout_is_weights pg_losses) response_mask ''seq-mean-token-mean'' (global_batch_info cfg)) (\<lambda>pg_loss.
      Inr (pg_loss, pg_metrics 0 ppo_kl 0))))"

definition compute_policy_loss_gpg ::
  "tmath \<Rightarrow> tensor \<Rightarrow> tensor \<Rightarrow> tensor \<Rightarrow> string \<Rightarrow> policy_config option \<Rightarrow> tensor option \<Rightarrow> (rat \<times> metrics) result" where
  "compute_policy_loss_gpg tm log_prob advantages response_mask loss_agg_mode config rollout_is_weights =
     rbind (need_config config) (\<lambda>cfg.
     rbind (agg_loss tm (weighted rollout_is_weights (t2 (\<lambda>l a. - l * a) log_prob advantages)) response_mask loss_agg_mode
              (global_batch_info cfg)) (\<lambda>pg_loss. Inr (pg_loss, [])))"

subsection \<open>Covariance\<close>

text \<open>Positions with a condition, row by row, as \<open>torch.nonzero\<close> lists them.\<close>

definition nonzero :: "bool list list \<Rightarrow> (nat \<times> nat) list" where
  "nonzero a = concat (map (\<lambda>(i, row). map (Pair i) (filter (\<lambda>j. row ! j) [0..<length row])) (zip [0..<length a] a))"

definition zero_at :: "(nat \<times> nat) list \<Rightarrow> tensor \<Rightarrow> tensor" where
  "zero_at idx a = fold (\<lambda>(i, j) a. a[i := (a ! i)[j := 0]]) idx a"

text \<open>Python's \<open>int\<close> of a float that is not negative.\<close>

definition int_floor :: "rat \<Rightarrow> nat" where
  "int_floor x = nat \<lfloor>x\<rfloor>"

text \<open>
  Clip-Cov leaves out some tokens whose covariance lies between the bounds; tokens that the clip already
  cut, and those outside the mask, have the covariance minus infinity.  \<open>randperm\<close> is torch's.
\<close>

definition compute_policy_loss_clip_cov ::
  "tmath \<Rightarrow> (nat \<Rightarrow> nat list) \<Rightarrow> tensor \<Rightarrow> tensor \<Rightarrow> tensor \<Rightarrow> tensor \<Rightarrow> string \<Rightarrow> policy_config option \<Rightarrow> tensor option \<Rightarrow>
   (rat \<times> metrics) result" where
  "compute_policy_loss_clip_cov tm randperm old_log_prob log_prob advantages response_mask loss_agg_mode config rollout_is_weights =
     rbind (need_config config) (\<lambda>cfg.
     (let cov_ratio = or_else (clip_cov_ratio cfg) (2 / 10000); ub = or_else (clip_cov_ub cfg) 5; lb = or_else (clip_cov_lb cfg) 1;
          negative_approx_kl = t2 (-) log_prob old_log_prob;
          ratio = t1 (tm_exp tm) negative_approx_kl;
          ppo_kl = masked_mean (t1 uminus negative_approx_kl) response_mask;
          pg_losses1 = t2 (\<lambda>a r. - a * r) advantages ratio;
          pg_losses2 = t2 (\<lambda>a r. - a * clamp (1 - clip_low cfg) (1 + clip_high cfg) r) advantages ratio;
          clip_by_origin = t3 (\<lambda>x y k. x > y \<and> k > 0) pg_losses2 pg_losses1 response_mask;
          mean_a = masked_mean advantages response_mask;
          mean_l = masked_mean log_prob response_mask;
          cov_all = t2 (\<lambda>a l. (a - mean_a) * (l - mean_l)) advantages log_prob;
          clip_num = max (int_floor (cov_ratio * tsum response_mask)) 1;
          top_k = t3 (\<lambda>v c k. \<not> c \<and> v < ub \<and> v > lb \<and> k > 0) cov_all clip_by_origin response_mask;
          idx = nonzero top_k;
          chosen = map ((!) idx) (take (min clip_num (length idx)) (randperm (length idx)));
          corr = zero_at chosen (t1 (\<lambda>_. 1) advantages);
          clipfrac = masked_mean (t1 (\<lambda>x. fbool (x = 0)) corr) response_mask;
          pg_losses = t2 (*) (t2 max pg_losses1 pg_losses2) corr in
      if cov_ratio \<le> 0 then Inl (AssertionError ''clip_ratio should be larger than 0.'')
      else rbind (agg_loss tm (weighted rollout_is_weights pg_losses) response_mask loss_agg_mode (global_batch_info cfg)) (\<lambda>pg_loss.
           Inr (pg_loss, [(''actor/pg_clipfrac'', clipfrac), (''actor/ppo_kl'', ppo_kl)]))))"

text \<open>
  KL-Cov adds a KL penalty to the tokens with the largest covariance; \<open>topk\<close> are the indices that torch
  finds, which of equal values comes first being its choice.
\<close>

definition compute_policy_loss_kl_cov ::
  "tmath \<Rightarrow> (vec \<Rightarrow> nat \<Rightarrow> nat list) \<Rightarrow> tensor \<Rightarrow> tensor \<Rightarrow> tensor \<Rightarrow> tensor \<Rightarrow> string \<Rightarrow> policy_config option \<Rightarrow> tensor option \<Rightarrow>
   (rat \<times> metrics) result" where
  "compute_policy_loss_kl_cov tm topk old_log_prob log_prob advantages response_mask loss_agg_mode config rollout_is_weights =
     rbind (need_config config) (\<lambda>cfg.
     (let cov_ratio = or_else (kl_cov_ratio cfg) (2 / 10000); coef = or_else (ppo_kl_coef cfg) 1;
          negative_approx_kl = t2 (-) log_prob old_log_prob;
          abs_kl = t1 abs negative_approx_kl;
          ratio = t1 (tm_exp tm) negative_approx_kl;
          ppo_kl_abs = masked_mean abs_kl response_mask;
          pg_losses1 = t2 (\<lambda>a r. - a * r) advantages ratio;
          pg_losses_kl = t2 (\<lambda>x k. x + coef * k) pg_losses1 abs_kl;
          idx = nonzero (t1 (\<lambda>k. k > 0) response_mask);
          all_valid_adv = map (\<lambda>(i, j). advantages ! i ! j) idx;
          all_valid_logp = map (\<lambda>(i, j). log_prob ! i ! j) idx;
          cov_lst_all = map2 (\<lambda>a l. (a - tmean all_valid_adv) * (l - tmean all_valid_logp)) all_valid_adv all_valid_logp;
          nums = max 1 (int_floor (of_nat (length cov_lst_all) * cov_ratio));
          large = (if idx = [] then [] else map ((!) idx) (topk cov_lst_all nums));
          pg_losses = fold (\<lambda>(i, j) a. a[i := (a ! i)[j := pg_losses_kl ! i ! j]]) large pg_losses1 in
      if cov_ratio \<le> 0 then Inl (AssertionError ''kl_cov_ratio should be larger than 0.'')
      else rbind (agg_loss tm (weighted rollout_is_weights pg_losses) response_mask loss_agg_mode (global_batch_info cfg)) (\<lambda>pg_loss.
           Inr (pg_loss, [(''actor/ppo_kl'', ppo_kl_abs)]))))"

subsection \<open>Geometric mean, clipped weights\<close>

definition seq_mean :: "tensor \<Rightarrow> tensor \<Rightarrow> vec" where
  "seq_mean a response_mask = map2 (\<lambda>s row. s / (sum_list row + eps8)) (row_sums (t2 (*) a response_mask)) response_mask"

definition compute_policy_loss_geo_mean ::
  "tmath \<Rightarrow> tensor \<Rightarrow> tensor \<Rightarrow> tensor \<Rightarrow> tensor \<Rightarrow> policy_config option \<Rightarrow> tensor option \<Rightarrow> (rat \<times> metrics) result" where
  "compute_policy_loss_geo_mean tm old_log_prob log_prob advantages response_mask config rollout_is_weights =
     rbind (need_config config) (\<lambda>cfg.
     (let negative_approx_kl = t2 (-) log_prob old_log_prob;
          ppo_kl = masked_mean (t1 uminus negative_approx_kl) response_mask;
          kl_clamp = t1 (clamp (- clip_low cfg) (clip_high cfg)) negative_approx_kl;
          kl_min = t3 (\<lambda>a k c. sgn a * min (sgn a * k) (sgn a * c)) advantages negative_approx_kl kl_clamp;
          ratio = map (tm_exp tm) (seq_mean kl_min response_mask);
          advantage = seq_mean advantages response_mask;
          pg_losses = map2 (\<lambda>a r. - a * r) advantage ratio;
          pg_losses' = (case rollout_is_weights of
              None \<Rightarrow> pg_losses
            | Some w \<Rightarrow> map2 (*) pg_losses (map (tm_exp tm) (seq_mean (t1 (\<lambda>x. tm_log tm (x + 1 / 10000000000)) w) response_mask)));
          clipped = t2 (\<lambda>k c. fbool (k \<noteq> c)) negative_approx_kl kl_clamp;
          clipfrac = masked_mean (t2 (\<lambda>c a. c * fbool (a > 0)) clipped advantages) response_mask;
          clipfrac_lower = masked_mean (t2 (\<lambda>c a. c * fbool (a < 0)) clipped advantages) response_mask in
      Inr (fdiv tm (sum_list pg_losses') (of_nat (length pg_losses')), pg_metrics clipfrac ppo_kl clipfrac_lower)))"

definition compute_policy_loss_cispo ::
  "tmath \<Rightarrow> tensor \<Rightarrow> tensor \<Rightarrow> tensor \<Rightarrow> tensor \<Rightarrow> string \<Rightarrow> policy_config option \<Rightarrow> tensor option \<Rightarrow> (rat \<times> metrics) result" where
  "compute_policy_loss_cispo tm old_log_prob log_prob advantages response_mask loss_agg_mode config rollout_is_weights =
     rbind (need_config config) (\<lambda>cfg.
     (let negative_approx_kl = approx_kl log_prob old_log_prob;
          ratio = t1 (tm_exp tm) negative_approx_kl;
          ppo_kl = masked_mean (t1 uminus negative_approx_kl) response_mask;
          clipped_ratio = t1 (clamp (1 - clip_low cfg) (1 + clip_high cfg)) ratio;
          pg_losses = t3 (\<lambda>r a l. - r * a * l) clipped_ratio advantages log_prob;
          clipfrac = masked_mean (t2 (\<lambda>x y. fbool (x \<noteq> y)) ratio clipped_ratio) response_mask in
      rbind (agg_loss tm (weighted rollout_is_weights pg_losses) response_mask loss_agg_mode (global_batch_info cfg)) (\<lambda>pg_loss.
      Inr (pg_loss, pg_metrics clipfrac ppo_kl 0))))"

definition compute_policy_loss_reinforce ::
  "tmath \<Rightarrow> tensor \<Rightarrow> tensor \<Rightarrow> tensor \<Rightarrow> tensor \<Rightarrow> string \<Rightarrow> policy_config option \<Rightarrow> tensor option \<Rightarrow> (rat \<times> metrics) result" where
  "compute_policy_loss_reinforce tm rollout_log_prob log_prob advantages response_mask loss_agg_mode config rollout_is_weights =
     (case config of
        None \<Rightarrow> Inl (AssertionError ''ActorConfig must be provided for REINFORCE loss'')
      | Some cfg \<Rightarrow>
          (let pg_losses = weighted rollout_is_weights (t2 (\<lambda>a l. - a * l) advantages log_prob);
               kl = masked_mean (t2 (\<lambda>l r. - (l - r)) log_prob rollout_log_prob) response_mask in
           rbind (agg_loss tm pg_losses response_mask loss_agg_mode (global_batch_info cfg)) (\<lambda>pg_loss.
           Inr (pg_loss, [(''actor/ppo_kl'', kl)]))))"

subsection \<open>Value loss, entropy, KL penalty\<close>

definition compute_entropy_loss :: "tmath \<Rightarrow> vec list list \<Rightarrow> tensor \<Rightarrow> string \<Rightarrow> rat result" where
  "compute_entropy_loss tm logits response_mask loss_agg_mode =
     agg_loss tm (t1 (entropy_from_logits tm) logits) response_mask loss_agg_mode local_info"

definition value_losses :: "tensor \<Rightarrow> tensor \<Rightarrow> tensor \<Rightarrow> rat \<Rightarrow> tensor \<times> tensor" where
  "value_losses vpreds returns values cliprange_value =
     (let vpredclipped = t2 (\<lambda>p v. clip_by_value p (v - cliprange_value) (v + cliprange_value)) vpreds values in
      (t2 (\<lambda>p r. (p - r) ^ 2) vpreds returns, t2 (\<lambda>p r. (p - r) ^ 2) vpredclipped returns))"

definition compute_value_loss ::
  "tmath \<Rightarrow> tensor \<Rightarrow> tensor \<Rightarrow> tensor \<Rightarrow> tensor \<Rightarrow> rat \<Rightarrow> string \<Rightarrow> agg_info \<Rightarrow> (rat \<times> rat) result" where
  "compute_value_loss tm vpreds returns values response_mask cliprange_value loss_agg_mode info =
     (case value_losses vpreds returns values cliprange_value of
        (vf_losses1, vf_losses2) \<Rightarrow>
          rbind (agg_loss tm (t2 max vf_losses1 vf_losses2) response_mask loss_agg_mode info) (\<lambda>loss.
          Inr (1 / 2 * loss, masked_mean (t2 (\<lambda>x y. fbool (x > y)) vf_losses2 vf_losses1) response_mask)))"

definition kl_penalty_forward :: "tmath \<Rightarrow> string \<Rightarrow> tensor \<Rightarrow> tensor \<Rightarrow> tensor result" where
  "kl_penalty_forward tm kl_penalty logprob ref_logprob =
     (let d = t2 (-) logprob ref_logprob in
      if kl_penalty \<in> {''kl'', ''k1''} then Inr d
      else if kl_penalty = ''abs'' then Inr (t1 abs d)
      else if kl_penalty \<in> {''mse'', ''k2''} then Inr (t1 (\<lambda>x. 1 / 2 * x ^ 2) d)
      else if kl_penalty \<in> {''low_var_kl'', ''k3''}
      then Inr (t2 (\<lambda>r l. let kl = clamp (- 20) 20 (r - l) in clamp (- 10) 10 (tm_exp tm kl - kl - 1)) ref_logprob logprob)
      else Inl (OtherException ''NotImplementedError'' []))"

text \<open>With the suffix \<open>+\<close> only the gradient differs: the value is that of the estimator without it.\<close>

definition kl_penalty :: "tmath \<Rightarrow> string \<Rightarrow> tensor \<Rightarrow> tensor \<Rightarrow> tensor result" where
  "kl_penalty tm kl logprob ref_logprob =
     (let base = (if endswith kl ''+'' then butlast kl else kl) in
      rbind (kl_penalty_forward tm base logprob ref_logprob) (\<lambda>forward_score.
      if \<not> endswith kl ''+'' \<or> kl \<in> {''mse'', ''k2''} then Inr forward_score
      else (let backward_score = t2 (\<lambda>l r. 1 / 2 * (l - r) ^ 2) logprob ref_logprob in
            Inr (t2 (+) (t2 (-) backward_score backward_score) forward_score))))"

text \<open>The weights of the resampling of PF-PPO; \<open>tpow\<close> is the power function of torch's.\<close>

definition pf_weights :: "(rat \<Rightarrow> rat \<Rightarrow> rat) \<Rightarrow> string \<Rightarrow> rat \<Rightarrow> vec \<Rightarrow> vec result" where
  "pf_weights tpow reweight_method weight_pow scores =
     (let top = foldr max scores (hd scores); bottom = foldr min scores (hd scores) in
      if reweight_method = ''pow'' then Inr (map (\<lambda>s. tpow \<bar>s\<bar> weight_pow) scores)
      else if reweight_method = ''max_min'' then Inr (map (\<lambda>s. fbool (s = top \<or> s = bottom)) scores)
      else if reweight_method = ''max_random'' then Inr (map (\<lambda>s. if s = top then 4 / 10 else 1 / 10) scores)
      else Inl (ValueError (''Unsupported reweight_method: '' @ reweight_method)))"

definition compute_pf_ppo_reweight_data ::
  "(rat \<Rightarrow> rat \<Rightarrow> rat) \<Rightarrow> (vec \<Rightarrow> nat \<Rightarrow> nat list) \<Rightarrow> string \<Rightarrow> rat \<Rightarrow> ('row \<Rightarrow> rat) \<Rightarrow> 'row list \<Rightarrow> 'row list result" where
  "compute_pf_ppo_reweight_data tpow multinomial reweight_method weight_pow score rows =
     rbind (pf_weights tpow reweight_method weight_pow (map score rows)) (\<lambda>weights.
     (let weights' = map (\<lambda>w. max (w + eps8) eps8) weights in
      Inr (map ((!) rows) (multinomial weights' (length rows)))))"

end
