(* ===== verification/LossProps.thy ===== *)
theory LossProps
  imports PolicyLoss AdvProps
begin

text \<open>
  Losses: the aggregate does not depend on how the batch is spread over the ranks, and the clipped
  objective bounds what one token can contribute.
\<close>

subsection \<open>Spreading a batch over ranks\<close>

definition agg_modes :: "string set" where
  "agg_modes = {''token-mean'', ''token-sum'', ''seq-mean-token-sum'', ''seq-mean-token-sum-norm'', ''seq-mean-token-mean''}"

text \<open>What a mode sums up, and what it divides by.\<close>

definition agg_sum :: "string \<Rightarrow> tensor \<Rightarrow> tensor \<Rightarrow> rat" where
  "agg_sum mode loss msk =
     (if mode \<in> {''token-mean'', ''token-sum''} then masked_sum loss msk
      else if mode = ''seq-mean-token-mean''
      then masked_sum1 (map2 (\<lambda>s row. s / (sum_list row + eps8)) (row_sums (t2 (*) loss msk)) msk) (seq_active msk)
      else masked_sum1 (row_sums (t2 (*) loss msk)) (seq_active msk))"

definition agg_count :: "string \<Rightarrow> tensor \<Rightarrow> rat" where
  "agg_count mode msk =
     (if mode = ''token-mean'' then tsum msk else if mode = ''token-sum'' then 1 else sum_list (seq_active msk))"

definition agg_scale :: "string \<Rightarrow> rat option \<Rightarrow> nat \<Rightarrow> rat" where
  "agg_scale mode sf n = (if mode = ''seq-mean-token-sum-norm'' then or_else sf (of_nat n) else 1)"

text \<open>The totals of the whole batch, as every rank gets them.\<close>

definition rank_info :: "nat \<Rightarrow> tensor \<Rightarrow> rat option \<Rightarrow> agg_info" where
  "rank_info dp msk sf =
     \<lparr>ag_dp_size = dp, ag_batch_num_tokens = Some (tsum msk), ag_global_batch_size = Some (sum_list (seq_active msk)), ag_loss_scale_factor = sf\<rparr>"

lemma fdiv_1 [simp]: "fdiv tm x 1 = x"
  by (simp add: fdiv_def)

lemma fdiv_nonzero: "y \<noteq> 0 \<Longrightarrow> fdiv tm x y = x / y"
  by (simp add: fdiv_def)

lemma agg_loss_rank:
  assumes "mode \<in> agg_modes"
  shows "agg_loss tm loss msk mode (rank_info dp whole sf) =
    Inr (fdiv tm (fdiv tm (agg_sum mode loss msk) (agg_count mode whole) * of_nat dp) (agg_scale mode sf (width msk)))"
  using assms
  by (auto simp: agg_modes_def agg_loss_def rank_info_def agg_sum_def agg_count_def agg_scale_def or_counted_def or_else_def Let_def
      split: option.split)

lemma agg_loss_alone:
  assumes "mode \<in> agg_modes"
  shows "agg_loss tm loss msk mode (local_info\<lparr>ag_loss_scale_factor := sf\<rparr>) =
    Inr (fdiv tm (fdiv tm (agg_sum mode loss msk) (agg_count mode msk)) (agg_scale mode sf (width msk)))"
  using assms
  by (auto simp: agg_modes_def agg_loss_def local_info_def agg_sum_def agg_count_def agg_scale_def or_counted_def or_else_def Let_def
      split: option.split)

lemma agg_sum_append:
  assumes "length l = length m"
  shows "agg_sum mode (l @ l') (m @ m') = agg_sum mode l m + agg_sum mode l' m'"
  using assms by (simp add: agg_sum_def masked_sum_def masked_sum1_def row_sums_def t2_def seq_active_def)

lemma agg_sum_concat:
  assumes "\<forall>(l, m) \<in> set ranks. length l = length m"
  shows "agg_sum mode (concat (map fst ranks)) (concat (map snd ranks)) = sum_list (map (\<lambda>(l, m). agg_sum mode l m) ranks)"
  using assms
proof (induction ranks)
  case Nil
  then show ?case by (simp add: agg_sum_def masked_sum_def masked_sum1_def row_sums_def t2_def seq_active_def)
next
  case (Cons r ranks)
  then show ?case by (cases r) (simp add: agg_sum_append)
qed

lemma width_shaped: "shaped bs n a \<Longrightarrow> 0 < bs \<Longrightarrow> width a = n"
  by (cases a) (auto simp: shaped_def width_def)

lemma sum_list_linear: "sum_list (map (\<lambda>x. f x * (c :: rat)) xs) = sum_list (map f xs) * c"
  by (induction xs) (simp_all add: algebra_simps)

text \<open>
  C33: the loss does not depend on the parallelism.  Cut the batch into parts for any number of ranks, give
  every rank the totals of the whole batch, and let the ranks average, as data-parallel training does: the
  result is the loss of one rank that holds the whole batch and counts for itself, in every mode.
\<close>

theorem agg_loss_parallel:
  assumes "mode \<in> agg_modes" "ranks \<noteq> []"
    and "\<forall>(l, m) \<in> set ranks. \<exists>bs > 0. shaped bs n l \<and> shaped bs n m"
    and "agg_count mode (concat (map snd ranks)) \<noteq> 0" "agg_scale mode sf n \<noteq> 0"
  shows "\<exists>losses.
    rmap (\<lambda>(l, m). agg_loss tm l m mode (rank_info (length ranks) (concat (map snd ranks)) sf)) ranks = Inr losses \<and>
    agg_loss tm (concat (map fst ranks)) (concat (map snd ranks)) mode (local_info\<lparr>ag_loss_scale_factor := sf\<rparr>) = Inr (tmean losses)"
proof -
  let ?R = "of_nat (length ranks) :: rat" and ?M = "concat (map snd ranks)" and ?L = "concat (map fst ranks)"
  let ?c = "agg_count mode ?M" and ?s = "agg_scale mode sf n"
  have wd: "width m = n" "length l = length m" if "(l, m) \<in> set ranks" for l m
  proof -
    have "\<exists>bs > 0. shaped bs n l \<and> shaped bs n m" using assms(3) \<open>(l, m) \<in> set ranks\<close> by blast
    then obtain bs where "0 < bs" "shaped bs n l" "shaped bs n m" by blast
    then show "width m = n" "length l = length m" by (auto simp: width_shaped shaped_def)
  qed
  have one: "agg_loss tm l m mode (rank_info (length ranks) ?M sf) = Inr (agg_sum mode l m * (?R / ?c / ?s))"
    if "(l, m) \<in> set ranks" for l m
    using assms(4,5) wd [OF that] by (simp add: agg_loss_rank [OF assms(1)] fdiv_nonzero)
  let ?f = "\<lambda>(l, m). agg_sum mode l m * (?R / ?c / ?s)"
  have run: "rmap (\<lambda>(l, m). agg_loss tm l m mode (rank_info (length ranks) ?M sf)) ranks = Inr (map ?f ranks)"
    using one by (intro rmap_total) auto
  have "sum_list (map ?f ranks) = agg_sum mode ?L ?M * (?R / ?c / ?s)"
    using agg_sum_concat [of ranks mode] wd sum_list_linear [of "\<lambda>(l, m). agg_sum mode l m" "?R / ?c / ?s" ranks]
    by (auto simp: case_prod_unfold)
  then have mean: "tmean (map ?f ranks) = agg_sum mode ?L ?M / ?c / ?s" using assms(2) by (simp add: tmean_def)
  have "width ?M = n"
  proof -
    obtain l m rs where ranks: "ranks = (l, m) # rs" using assms(2) by (cases ranks) auto
    then obtain row m' where "m = row # m'" using assms(3) by (cases m) (auto simp: shaped_def)
    moreover have "width m = n" using wd(1) [of l m] ranks by simp
    ultimately show ?thesis by (simp add: ranks width_def)
  qed
  then have "agg_loss tm ?L ?M mode (local_info\<lparr>ag_loss_scale_factor := sf\<rparr>) = Inr (agg_sum mode ?L ?M / ?c / ?s)"
    using assms(4,5) by (simp add: agg_loss_alone [OF assms(1)] fdiv_nonzero)
  with run mean show ?thesis by auto
qed

subsection \<open>Bounds of the clipped objective\<close>

lemma t2_nth: "shaped bs n a \<Longrightarrow> shaped bs n b \<Longrightarrow> i < bs \<Longrightarrow> j < n \<Longrightarrow> t2 f a b ! i ! j = f (a ! i ! j) (b ! i ! j)"
  by (simp add: t2_def shaped_def)

lemma t1_nth: "shaped bs n a \<Longrightarrow> i < bs \<Longrightarrow> j < n \<Longrightarrow> t1 f a ! i ! j = f (a ! i ! j)"
  by (simp add: t1_def shaped_def)

lemma shaped_t1 [simp]: "shaped bs n (t1 f a) \<longleftrightarrow> shaped bs n a"
  by (auto simp: t1_def shaped_def)

lemma shaped_t2: "shaped bs n a \<Longrightarrow> shaped bs n b \<Longrightarrow> shaped bs n (t2 f a b)"
  by (auto simp: t2_def shaped_def dest: set_zip_leftD set_zip_rightD) (metis min.idem set_zip_leftD set_zip_rightD)+

lemma t3_nth:
  "shaped bs n a \<Longrightarrow> shaped bs n b \<Longrightarrow> shaped bs n c \<Longrightarrow> i < bs \<Longrightarrow> j < n \<Longrightarrow> t3 f a b c ! i ! j = f (a ! i ! j) (b ! i ! j) (c ! i ! j)"
  by (simp add: t3_def t2_nth [of bs n] shaped_t2)

text \<open>The contribution of one token with advantage \<open>a\<close> and ratio \<open>r\<close>.\<close>

definition token_loss :: "rat \<Rightarrow> rat \<Rightarrow> rat \<Rightarrow> rat \<Rightarrow> rat \<Rightarrow> rat" where
  "token_loss low high c a r =
     (let clipped = max (- a * r) (- a * clamp (1 - low) (1 + high) r) in if a < 0 then min (- a * c) clipped else clipped)"

lemma clipped_objective_nth:
  assumes "shaped bs n old" "shaped bs n lp" "shaped bs n adv" "i < bs" "j < n"
  shows "fst (clipped_objective tm low high c old lp adv msk) ! i ! j =
    token_loss low high c (adv ! i ! j) (tm_exp tm (clamp (- 20) 20 (lp ! i ! j - old ! i ! j)))"
  using assms
  by (simp add: clipped_objective_def Let_def token_loss_def approx_kl_def t3_nth [of bs n] t2_nth [of bs n] t1_nth [of bs n] shaped_t2)

lemma token_loss_bounds:
  assumes "0 \<le> low" "low \<le> 1" "0 \<le> high" "1 < c" "0 < r"
  shows "0 \<le> a \<Longrightarrow> - a * (1 + high) \<le> token_loss low high c a r \<and> token_loss low high c a r \<le> 0"
    and "a < 0 \<Longrightarrow> - a * (1 - low) \<le> token_loss low high c a r \<and> token_loss low high c a r \<le> - a * c"
proof -
  let ?k = "clamp (1 - low) (1 + high) r"
  have k: "1 - low \<le> ?k" "?k \<le> 1 + high" using assms by (auto simp: clamp_def)
  then have "0 \<le> ?k" using assms by simp
  show "- a * (1 + high) \<le> token_loss low high c a r \<and> token_loss low high c a r \<le> 0" if "0 \<le> a"
    using that k(2) \<open>0 \<le> ?k\<close> assms(5) by (auto simp: token_loss_def Let_def le_max_iff_disj mult_left_mono)
  show "- a * (1 - low) \<le> token_loss low high c a r \<and> token_loss low high c a r \<le> - a * c" if a: "a < 0"
  proof -
    have "(- a) * (1 - low) \<le> (- a) * ?k" "(- a) * (1 - low) \<le> (- a) * c"
      using a k(1) assms by (intro mult_left_mono; simp)+
    then show ?thesis using a by (simp add: token_loss_def Let_def le_max_iff_disj)
  qed
qed


text \<open>The low-variance estimate of the KL divergence lies between zero and ten.\<close>

lemma k3_bounds:
  assumes "kl_penalty tm ''k3'' lp ref = Inr out" "shaped bs n lp" "shaped bs n ref" "\<forall>x. 1 + x \<le> tm_exp tm x" "i < bs" "j < n"
  shows "0 \<le> out ! i ! j \<and> out ! i ! j \<le> 10"
proof -
  have "out = t2 (\<lambda>r l. let kl = clamp (- 20) 20 (r - l) in clamp (- 10) 10 (tm_exp tm kl - kl - 1)) ref lp"
    using assms(1) by (auto simp: kl_penalty_def kl_penalty_forward_def endswith_def Let_def)
  moreover have "0 \<le> tm_exp tm x - x - 1" for x using assms(4) by (metis add.commute diff_ge_0_iff_ge diff_diff_eq)
  moreover from this have "0 \<le> clamp (- 10) 10 (tm_exp tm x - x - 1)" for x by (simp add: clamp_def le_max_iff_disj)
  moreover have "clamp (- 10) 10 y \<le> 10" for y by (simp add: clamp_def)
  ultimately show ?thesis using assms by (simp add: t2_nth [of bs n] Let_def)
qed

text \<open>The clipped value loss of a token is never below the plain one.\<close>

lemma value_loss_pessimistic:
  assumes "value_losses vpreds returns vals cl = (l1, l2)" "shaped bs n vpreds" "shaped bs n returns" "shaped bs n vals" "i < bs" "j < n"
  shows "(vpreds ! i ! j - returns ! i ! j) ^ 2 \<le> t2 max l1 l2 ! i ! j"
  using assms by (auto simp: value_losses_def Let_def t2_nth [of bs n] shaped_t2)

subsection \<open>Concrete losses\<close>

theorem agg_loss_parallel_witness:
  "\<exists>losses. rmap (\<lambda>(l, m). agg_loss demo_tm l m ''seq-mean-token-mean'' (rank_info 2 [[1, 1], [1, 0], [0, 0]] None))
      [([[1, 2]], [[1, 1]]), ([[3, 4], [5, 6]], [[1, 0], [0, 0]])] = Inr losses \<and>
    agg_loss demo_tm [[1, 2], [3, 4], [5, 6]] [[1, 1], [1, 0], [0, 0]] ''seq-mean-token-mean'' (local_info\<lparr>ag_loss_scale_factor := None\<rparr>) =
      Inr (tmean losses)"
proof -
  let ?ranks = "[([[1, 2]], [[1, 1]]), ([[3, 4], [5, 6]], [[1, 0], [0, 0]])] :: (tensor \<times> tensor) list"
  have "\<forall>(l, m) \<in> set ?ranks. \<exists>bs > 0. shaped bs 2 l \<and> shaped bs 2 m" by (auto simp: shaped_def)
  from agg_loss_parallel [of "''seq-mean-token-mean''" ?ranks, OF _ _ this, of None] show ?thesis
    by (simp add: agg_modes_def agg_count_def agg_scale_def seq_active_def fbool_def numeral_2_eq_2)
qed

definition demo_policy_config :: policy_config where
  "demo_policy_config =
     \<lparr>clip_ratio = 1 / 5, clip_ratio_low = None, clip_ratio_high = None, clip_ratio_c = None, tau_pos = 1, tau_neg = 1, clip_cov_ratio = None,
      clip_cov_lb = None, clip_cov_ub = None, kl_cov_ratio = None, ppo_kl_coef = None, global_batch_info = local_info\<rparr>"

lemma demo_actor_clips: "clip_low demo_policy_config = 1 / 5" "clip_high demo_policy_config = 1 / 5"
    "or_else (clip_ratio_c demo_policy_config) 3 = 3" "global_batch_info demo_policy_config = local_info"
  by (simp_all add: demo_policy_config_def clip_low_def clip_high_def or_else_def)

text \<open>An exponential that is positive everywhere.\<close>

definition positive_tm :: tmath where
  "positive_tm = demo_tm\<lparr>tm_exp := (\<lambda>x. (1 + x / 8) ^ 8 + 1 / 1000)\<rparr>"


end
