(* ===== verification/Balance.thy ===== *)
theory Balance
  imports Prelude "HOL-Library.Multiset"
begin

text \<open>
  Balancing of sequence lengths, \<open>src/verl/verl/utils/seqlen_balancing.py\<close>: the partition of a batch into
  groups of nearly equal workload with the largest differencing method, the micro-batches cut from it, and
  the restoration of the original order.  Workloads are Python integers.
\<close>

definition calculate_workload :: "int \<Rightarrow> int" where
  "calculate_workload seqlen = 24576 * seqlen + seqlen ^ 2"

subsection \<open>Sets of items\<close>

text \<open>A \<open>Set\<close>: the sum of the values and the items (index and value) in the order they were added.\<close>

datatype kk_set = KK_Set (kk_sum: int) (kk_items: "(nat \<times> int) list")

definition kk_empty :: kk_set where
  "kk_empty = KK_Set 0 []"

definition kk_add :: "nat \<times> int \<Rightarrow> kk_set \<Rightarrow> kk_set" where
  "kk_add it s = KK_Set (kk_sum s + snd it) (kk_items s @ [it])"

definition kk_merge :: "kk_set \<Rightarrow> kk_set \<Rightarrow> kk_set" where
  "kk_merge s other = fold kk_add (kk_items other) s"

text \<open>\<open>Set.__lt__\<close>: by the sum, then by the number of items, then by the items; a linear order.\<close>

definition kk_key :: "kk_set \<Rightarrow> int \<times> nat \<times> (nat \<times> int) list" where
  "kk_key s = (kk_sum s, length (kk_items s), kk_items s)"

lemma kk_key_inj: "kk_key s = kk_key s' \<longleftrightarrow> s = s'"
  by (cases s; cases s') (auto simp: kk_key_def)

instantiation kk_set :: linorder
begin

definition less_kk_set :: "kk_set \<Rightarrow> kk_set \<Rightarrow> bool" where
  "less_kk_set s other =
     (if kk_sum s \<noteq> kk_sum other then kk_sum s < kk_sum other
      else if length (kk_items s) \<noteq> length (kk_items other) then length (kk_items s) < length (kk_items other)
      else kk_items s < kk_items other)"

definition less_eq_kk_set :: "kk_set \<Rightarrow> kk_set \<Rightarrow> bool" where
  "less_eq_kk_set s other = (s < other \<or> s = other)"

instance
proof
  have less: "s < t \<longleftrightarrow> kk_key s < kk_key t" for s t :: kk_set
    by (auto simp: less_kk_set_def kk_key_def less_prod_def')
  have le: "s \<le> t \<longleftrightarrow> kk_key s \<le> kk_key t" for s t :: kk_set
    by (auto simp: less_eq_kk_set_def less le_less kk_key_inj)
  fix s t u :: kk_set
  show "(s < t) = (s \<le> t \<and> \<not> t \<le> s)" by (auto simp: less le)
  show "s \<le> s" by (simp add: le)
  show "s \<le> t \<Longrightarrow> t \<le> u \<Longrightarrow> s \<le> u" by (auto simp: le)
  show "s \<le> t \<Longrightarrow> t \<le> s \<Longrightarrow> s = t" by (simp add: le flip: kk_key_inj)
  show "s \<le> t \<or> t \<le> s" by (auto simp: le)
qed

end

text \<open>\<open>sorted(xs, reverse=True)\<close>: descending, equal elements in their old order.\<close>

definition sorted_reverse :: "'a::linorder list \<Rightarrow> 'a list" where
  "sorted_reverse xs = rev (sort (rev xs))"

definition sort_reverse_by :: "('a \<Rightarrow> 'k::linorder) \<Rightarrow> 'a list \<Rightarrow> 'a list" where
  "sort_reverse_by key xs = rev (sort_key key (rev xs))"

subsection \<open>States and the heap\<close>

text \<open>A \<open>State\<close> is its list of \<open>k\<close> sets, in decreasing order.\<close>

type_synonym kk_state = "kk_set list"

definition kk_state_new :: "(nat \<times> int) list \<Rightarrow> nat \<Rightarrow> kk_state result" where
  "kk_state_new items k =
     (if length items \<noteq> 1 \<and> length items \<noteq> k
      then Inl (AssertionError (str_of_nat (length items) @ '' not in [1, '' @ str_of_nat k @ '']''))
      else if length items > k then Inl (IndexError ''list index out of range'')
      else Inr (sorted_reverse (map2 kk_add items (replicate (length items) kk_empty) @ replicate (k - length items) kk_empty)))"

definition kk_partitions :: "kk_state \<Rightarrow> nat list list" where
  "kk_partitions st = map (\<lambda>s. map fst (kk_items s)) st"

definition kk_state_merge :: "kk_state \<Rightarrow> kk_state \<Rightarrow> kk_state" where
  "kk_state_merge st other = sorted_reverse (map2 kk_merge st (rev other))"

definition spread :: "kk_state \<Rightarrow> int" where
  "spread st = kk_sum (hd st) - kk_sum (last st)"

text \<open>\<open>State.__lt__\<close>: the state with the largest spread is popped first, then the one with the largest set.\<close>

definition kk_state_less :: "kk_state \<Rightarrow> kk_state \<Rightarrow> bool" where
  "kk_state_less st other =
     (if spread st \<noteq> spread other then spread st > spread other else hd st > hd other)"

text \<open>
  The heap is the list of its states; \<open>heappop\<close> takes the least one.  The states of a heap hold different
  items, so the least one is unique (\<open>least_state_unique\<close> in \<open>BalanceProps\<close>) and the layout of the heap
  does not matter.
\<close>

fun least_state :: "kk_state \<Rightarrow> kk_state list \<Rightarrow> kk_state" where
  "least_state st [] = st"
| "least_state st (st' # q) = least_state (if kk_state_less st' st then st' else st) q"

lemma least_state_in: "least_state st q \<in> set (st # q)"
  by (induction st q rule: least_state.induct) (auto split: if_splits)

definition heappop :: "kk_state list \<Rightarrow> kk_state \<times> kk_state list" where
  "heappop q = (let st = least_state (hd q) (tl q) in (st, remove1 st q))"

lemma heappop_mset:
  assumes "q \<noteq> []" "heappop q = (st, q')"
  shows "mset q = add_mset st (mset q')" "length q = Suc (length q')"
proof -
  have "st \<in> set q" using assms least_state_in [of "hd q" "tl q"] by (auto simp: heappop_def Let_def)
  then show "mset q = add_mset st (mset q')" using assms(2) by (auto simp: heappop_def Let_def)
  then show "length q = Suc (length q')" by (metis size_add_mset size_mset)
qed

lemma heappop_twice:
  assumes "Suc 0 < length q" "(state0, q0) = heappop q" "(state1, q1) = heappop q0"
  shows "Suc (length q1) < length q"
proof -
  have "length q = Suc (length q0)" using heappop_mset(2) [of q state0 q0] assms by (cases q) auto
  moreover from this assms have "length q0 = Suc (length q1)" using heappop_mset(2) [of q0 state1 q1] by (cases q0) auto
  ultimately show ?thesis by simp
qed

function kk_loop :: "kk_state list \<Rightarrow> kk_state result" where
  "kk_loop q =
     (if length q > 1
      then (case heappop q of
              (state0, q0) \<Rightarrow> (case heappop q0 of
              (state1, q1) \<Rightarrow> kk_loop (kk_state_merge state0 state1 # q1)))
      else case q of [] \<Rightarrow> Inl (IndexError ''list index out of range'') | st # _ \<Rightarrow> Inr st)"
  by pat_completeness auto
termination by (relation "measure length") (auto dest: heappop_twice)

declare kk_loop.simps [simp del]

text \<open>\<open>xs[0:k], xs[k:2k], ...\<close>\<close>

function chunks :: "nat \<Rightarrow> 'a list \<Rightarrow> 'a list list" where
  "chunks k xs = (if k = 0 \<or> xs = [] then [] else take k xs # chunks k (drop k xs))"
  by pat_completeness auto
termination by (relation "measure (\<lambda>(k, xs). length xs)") auto

declare chunks.simps [simp del]

definition size_error :: "nat \<Rightarrow> nat \<Rightarrow> nat \<Rightarrow> exn" where
  "size_error m k n = AssertionError (str_of_nat m @ '' * '' @ str_of_nat k @ '' != '' @ str_of_nat n)"

text \<open>The check of the sizes at the end of both partition functions.\<close>

definition check_equal_sizes :: "bool \<Rightarrow> nat \<Rightarrow> nat \<Rightarrow> nat list list \<Rightarrow> nat list list result" where
  "check_equal_sizes equal_size k n partitions =
     (case filter (\<lambda>p. length p * k \<noteq> n) partitions of
        p # _ \<Rightarrow> if equal_size then Inl (size_error (length p) k n) else Inr partitions
      | [] \<Rightarrow> Inr partitions)"

definition sorted_seqlen_list :: "int list \<Rightarrow> (int \<times> nat) list" where
  "sorted_seqlen_list seqlen_list = sort (zip seqlen_list [0..<length seqlen_list])"

definition swap_item :: "int \<times> nat \<Rightarrow> nat \<times> int" where
  "swap_item x = (snd x, fst x)"

definition karmarkar_karp :: "int list \<Rightarrow> nat \<Rightarrow> bool \<Rightarrow> nat list list result" where
  "karmarkar_karp seqlen_list k_partitions equal_size =
     (let n = length seqlen_list; items = map swap_item (sorted_seqlen_list seqlen_list) in
      rbind
       (if equal_size
        then if k_partitions = 0 then Inl (OtherException ''ZeroDivisionError'' ''integer modulo by zero'')
        else if n mod k_partitions \<noteq> 0
             then Inl (AssertionError (str_of_nat n @ '' % '' @ str_of_nat k_partitions @ '' != 0''))
        else rmap (\<lambda>c. kk_state_new c k_partitions) (chunks k_partitions items)
        else rmap (\<lambda>it. kk_state_new [it] k_partitions) items) (\<lambda>states_pq.
      rbind (kk_loop states_pq) (\<lambda>final_state.
      check_equal_sizes equal_size k_partitions n (kk_partitions final_state))))"

text \<open>The greedy assignment: every item, in order, to the first partition with the least sum.\<close>

definition least_index :: "int list \<Rightarrow> nat" where
  "least_index totals = min_key (\<lambda>j. totals ! j) 0 [1..<length totals]"

definition greedy_step :: "int \<times> nat \<Rightarrow> nat list list \<times> int list \<Rightarrow> nat list list \<times> int list" where
  "greedy_step it st =
     (case (it, st) of
        ((seqlen, i), (partitions, totals)) \<Rightarrow>
          (let m = least_index totals in
           (partitions[m := partitions ! m @ [i]], totals[m := totals ! m + seqlen])))"

definition greedy_partition :: "int list \<Rightarrow> nat \<Rightarrow> bool \<Rightarrow> nat list list result" where
  "greedy_partition seqlen_list k_partitions equal_size =
     (let n = length seqlen_list; bias = (if equal_size then sum_list seqlen_list + 1 else 0);
          sorted_seqlen = map (\<lambda>(i, seqlen). (seqlen + bias, i)) (zip [0..<n] seqlen_list) in
      if k_partitions = 0 \<and> n \<noteq> 0
      then Inl (TypeError ''list indices must be integers or slices, not NoneType'')
      else check_equal_sizes equal_size k_partitions n
             (fst (fold greedy_step sorted_seqlen (replicate k_partitions [], replicate k_partitions 0))))"

subsection \<open>Balanced partitions\<close>

definition check_and_sort_partitions :: "nat \<Rightarrow> nat \<Rightarrow> nat list list \<Rightarrow> nat list list result" where
  "check_and_sort_partitions n k_partitions partitions =
     (if length partitions \<noteq> k_partitions
      then Inl (AssertionError (str_of_nat (length partitions) @ '' != '' @ str_of_nat k_partitions))
      else rbind (rmap (\<lambda>(i, p). if p = [] then Inl (AssertionError (''the '' @ str_of_nat i @ ''-th partition is empty''))
                                 else Inr (sort p)) (zip [0..<length partitions] partitions)) (\<lambda>sorted_partitions.
           if set (concat partitions) = set [0..<n] then Inr sorted_partitions else Inl (AssertionError [])))"

definition get_seqlen_balanced_partitions :: "int list \<Rightarrow> nat \<Rightarrow> bool \<Rightarrow> nat list list result" where
  "get_seqlen_balanced_partitions seqlen_list k_partitions equal_size =
     (let n = length seqlen_list in
      if n < k_partitions
      then Inl (AssertionError (''number of items:['' @ str_of_nat n @ ''] < k_partitions:['' @ str_of_nat k_partitions @ '']''))
      else rbind (karmarkar_karp seqlen_list k_partitions equal_size) (check_and_sort_partitions n k_partitions))"

text \<open>The metrics of \<open>log_seqlen_unbalance\<close>; \<open>min\<close> and \<open>max\<close> of an empty list raise.\<close>

record unbalance =
  ub_min :: int
  ub_max :: int
  ub_balanced_min :: int
  ub_balanced_max :: int
  ub_mean :: rat

definition log_seqlen_unbalance :: "int list \<Rightarrow> nat list list \<Rightarrow> unbalance result" where
  "log_seqlen_unbalance seqlen_list partitions =
     (let k = length partitions; batch_size = length seqlen_list div k;
          totals = map sum_list (chunks batch_size seqlen_list);
          balanced = map (\<lambda>p. sum_list (map ((!) seqlen_list) p)) partitions in
      if k = 0 then Inl (OtherException ''ZeroDivisionError'' ''integer division or modulo by zero'')
      else if batch_size = 0 then Inl (ValueError ''range() arg 3 must not be zero'')
      else if \<exists>p \<in> set partitions. \<exists>i \<in> set p. i \<ge> length seqlen_list then Inl (IndexError ''list index out of range'')
      else Inr \<lparr>ub_min = foldr min totals (hd totals), ub_max = foldr max totals (hd totals),
                ub_balanced_min = foldr min balanced (hd balanced), ub_balanced_max = foldr max balanced (hd balanced),
                ub_mean = of_int (sum_list totals) / of_nat k\<rparr>)"

subsection \<open>Micro-batches\<close>

text \<open>Floor division of Python integers, which raises on zero.\<close>

definition floordiv :: "int \<Rightarrow> int \<Rightarrow> int result" where
  "floordiv a b =
     (if b = 0 then Inl (OtherException ''ZeroDivisionError'' ''integer division or modulo by zero'') else Inr (a div b))"

definition ceildiv :: "int \<Rightarrow> int \<Rightarrow> int result" where
  "ceildiv a b = rbind (floordiv a (- b)) (\<lambda>q. Inr (- q))"

definition roundup_divisible :: "int \<Rightarrow> int \<Rightarrow> int result" where
  "roundup_divisible a b = rbind (floordiv (a + b - 1) b) (\<lambda>q. Inr (q * b))"

text \<open>
  The options of the split.  \<open>sy\<close> is the maximum over the data-parallel group, when there is one
  and the ranks are to cut the same number of micro-batches.
\<close>

record micro_options =
  mi_max_token_len :: int
  mi_sync :: "(int \<Rightarrow> int) option"
  mi_divided_by :: "int option"
  mi_min_num :: "int option"
  mi_balance :: bool
  mi_group_size :: nat

definition num_micro_batches :: "micro_options \<Rightarrow> int list \<Rightarrow> int result" where
  "num_micro_batches op seq_lens =
     rbind (ceildiv (sum_list seq_lens) (mi_max_token_len op)) (\<lambda>c.
     (let num_groups = int (length seq_lens div mi_group_size op);
          n0 = min num_groups c;
          n1 = (case mi_min_num op of None \<Rightarrow> n0 | Some m \<Rightarrow> max m n0);
          n2 = (case mi_sync op of None \<Rightarrow> n1 | Some sy \<Rightarrow> sy n1) in
      rbind (case mi_divided_by op of None \<Rightarrow> Inr n2 | Some d \<Rightarrow> roundup_divisible n2 d) (\<lambda>n3.
      if n3 \<le> num_groups then Inr n3 else Inl (AssertionError []))))"

definition evens :: "'a list \<Rightarrow> 'a list" where
  "evens xs = map ((!) xs) (filter even [0..<length xs])"

definition odds :: "'a list \<Rightarrow> 'a list" where
  "odds xs = map ((!) xs) (filter odd [0..<length xs])"

text \<open>\<open>xs[::2][::-1] + xs[1::2]\<close>: small micro-batches at both ends.\<close>

definition small_at_ends :: "'a list \<Rightarrow> 'a list" where
  "small_at_ends xs = rev (evens xs) @ odds xs"

text \<open>A group of consecutive samples, as sample indices.\<close>

definition group_samples :: "nat \<Rightarrow> nat \<Rightarrow> nat list" where
  "group_samples gsize g = [g * gsize..<g * gsize + gsize]"

definition group_workloads :: "nat \<Rightarrow> int list \<Rightarrow> int list" where
  "group_workloads gsize seq_lens = map sum_list (chunks gsize (map calculate_workload seq_lens))"

text \<open>
  The index lists of \<open>rearrange_micro_batches\<close>.  A partition of groups is sorted by its workload and first
  sample; the code finds the workloads of the groups again from every \<open>force_group_size\<close>-th sample index.
\<close>

definition partition_key :: "nat \<Rightarrow> int list \<Rightarrow> nat list \<Rightarrow> int \<times> nat" where
  "partition_key gsize workloads p =
     (sum_list (map (\<lambda>c. workloads ! (hd c div gsize)) (chunks gsize p)), case p of [] \<Rightarrow> 0 | x # _ \<Rightarrow> x)"

definition micro_bsz_idx :: "micro_options \<Rightarrow> int \<Rightarrow> int list \<Rightarrow> nat list list result" where
  "micro_bsz_idx op max_seq_len seq_lens =
     (let gsize = mi_group_size op in
      if mi_max_token_len op < max_seq_len
      then Inl (AssertionError ''max_token_len must be greater than the sequence length.'')
      else if gsize = 0 then Inl (OtherException ''ZeroDivisionError'' ''integer modulo by zero'')
      else if length seq_lens mod gsize \<noteq> 0
      then Inl (AssertionError (''Batch gsize '' @ str_of_nat (length seq_lens) @ '' must be divisible by force_group_size '' @ str_of_nat gsize))
      else rbind (num_micro_batches op seq_lens) (\<lambda>num.
           (let workloads = group_workloads gsize seq_lens in
            rbind (get_seqlen_balanced_partitions workloads (nat num) False) (\<lambda>groups.
            (let idx = map (\<lambda>p. concat (map (group_samples gsize) p)) groups in
             Inr (if mi_balance op then small_at_ends (sort_reverse_by (partition_key gsize workloads) idx) else idx))))))"

definition rearrange_micro_batches ::
  "micro_options \<Rightarrow> int \<Rightarrow> ('row \<Rightarrow> int) \<Rightarrow> 'row list \<Rightarrow> ('row list list \<times> nat list list) result" where
  "rearrange_micro_batches op max_seq_len seq_len rows =
     rbind (micro_bsz_idx op max_seq_len (map seq_len rows)) (\<lambda>idx. Inr (map (map ((!) rows)) idx, idx))"

subsection \<open>Restoring the order\<close>

text \<open>An index assignment into a list, which raises when it is out of range.\<close>

fun assign_all :: "nat list \<Rightarrow> (nat \<times> nat) list \<Rightarrow> nat list result" where
  "assign_all xs [] = Inr xs"
| "assign_all xs ((i, idx) # us) =
     (if idx < length xs then assign_all (xs[idx := i]) us
      else Inl (IndexError ''list assignment index out of range''))"

definition get_reverse_idx :: "nat list \<Rightarrow> nat list result" where
  "get_reverse_idx idx_map = assign_all idx_map (zip [0..<length idx_map] idx_map)"

definition restore_dynamic_batch :: "'row list \<Rightarrow> nat list list \<Rightarrow> 'row list result" where
  "restore_dynamic_batch rows batch_idx_list =
     (let indices = concat batch_idx_list in
      if length indices \<noteq> length rows
      then Inl (AssertionError (str_of_nat (length indices) @ '' vs. '' @ str_of_nat (length rows)))
      else rbind (get_reverse_idx indices) (\<lambda>revert_indices.
           rmap (\<lambda>i. if i < length rows then Inr (rows ! i) else Inl (IndexError ''index out of range'')) revert_indices))"

subsection \<open>Groups that stay together\<close>

text \<open>The runs of equal uids: current uid, indices and groups so far.\<close>

definition uid_step :: "nat \<times> 'u \<Rightarrow> 'u option \<times> nat list \<times> nat list list \<Rightarrow> 'u option \<times> nat list \<times> nat list list" where
  "uid_step it st =
     (case (it, st) of
        ((i, uid), (current, indices, groups)) \<Rightarrow>
          if Some uid \<noteq> current then (Some uid, [i], if indices = [] then groups else groups @ [indices])
          else (current, indices @ [i], groups))"

definition uid_groups :: "'u list \<Rightarrow> nat list list" where
  "uid_groups uid_list =
     (case fold uid_step (zip [0..<length uid_list] uid_list) (None, [], []) of
        (current, indices, groups) \<Rightarrow> if indices = [] then groups else groups @ [indices])"

definition get_group_balanced_partitions :: "int list \<Rightarrow> 'u list \<Rightarrow> nat \<Rightarrow> nat list list result" where
  "get_group_balanced_partitions seqlen_list uid_list k_partitions =
     (if length seqlen_list \<noteq> length uid_list
      then Inl (AssertionError ''seqlen_list and uid_list must have same length'')
      else (let groups = uid_groups uid_list in
            if length groups < k_partitions
            then Inl (AssertionError (''Number of uid groups ('' @ str_of_nat (length groups) @ '') must be >= k_partitions ('' @
                   str_of_nat k_partitions @ ''). Consider reducing world_size or increasing batch_size.''))
            else (let workloads = map (\<lambda>g. sum_list (map (\<lambda>i. calculate_workload (seqlen_list ! i)) g)) groups in
                  rbind (get_seqlen_balanced_partitions workloads k_partitions True) (\<lambda>parts.
                  Inr (map (\<lambda>p. sort (concat (map ((!) groups) p))) parts)))))"

end
