(* ===== verification/BalanceProps.thy ===== *)
theory BalanceProps
  imports Balance
begin

text \<open>
  The largest differencing method: its partitions cover every index once, none is empty, and two of them
  differ by at most the largest item.  Restoring a split batch is the identity.
\<close>

subsection \<open>Sets and states\<close>

abbreviation item_sum :: "(nat \<times> int) list \<Rightarrow> int" where
  "item_sum its \<equiv> sum_list (map snd its)"

lemma fold_kk_add:
  "kk_items (fold kk_add its s) = kk_items s @ its" "kk_sum (fold kk_add its s) = kk_sum s + item_sum its"
  by (induction its arbitrary: s) (simp_all add: kk_add_def)

lemma kk_merge_simps [simp]:
  "kk_items (kk_merge s t) = kk_items s @ kk_items t" "kk_sum (kk_merge s t) = kk_sum s + item_sum (kk_items t)"
  by (simp_all add: kk_merge_def fold_kk_add)

lemma kk_add_empty [simp]: "kk_items (kk_add it kk_empty) = [it]" "kk_sum (kk_add it kk_empty) = snd it"
  by (simp_all add: kk_add_def kk_empty_def)

lemma kk_empty_simps [simp]: "kk_items kk_empty = []" "kk_sum kk_empty = 0"
  by (simp_all add: kk_empty_def)

lemma sorted_reverse_simps [simp]:
  "mset (sorted_reverse xs) = mset xs" "set (sorted_reverse xs) = set xs" "length (sorted_reverse xs) = length xs"
  "sorted (rev (sorted_reverse xs))"
  by (simp_all add: sorted_reverse_def)

text \<open>What every state satisfies: \<open>k\<close> sets in decreasing order, whose sums belong to their items.\<close>

definition kk_ok :: "nat \<Rightarrow> kk_state \<Rightarrow> bool" where
  "kk_ok k st \<longleftrightarrow> length st = k \<and> sorted (rev st) \<and> (\<forall>s \<in> set st. kk_sum s = item_sum (kk_items s))"

definition state_items :: "kk_state \<Rightarrow> (nat \<times> int) multiset" where
  "state_items st = mset (concat (map kk_items st))"

lemma state_items_mset: "mset st = mset st' \<Longrightarrow> state_items st = state_items st'"
  by (metis mset_concat mset_map state_items_def sum_mset_sum_list)

lemma state_items_sorted [simp]: "state_items (sorted_reverse st) = state_items st"
  by (rule state_items_mset) simp

lemma state_items_map2: "length a = length b \<Longrightarrow> state_items (map2 kk_merge a b) = state_items a + state_items b"
  by (induction a b rule: list_induct2) (simp_all add: state_items_def)

lemma state_items_rev [simp]: "state_items (rev st) = state_items st"
  by (rule state_items_mset) simp

lemma merge_ok: "kk_ok k a \<Longrightarrow> kk_ok k b \<Longrightarrow> kk_ok k (kk_state_merge a b)"
  by (auto simp: kk_ok_def kk_state_merge_def dest: set_zip_leftD set_zip_rightD)

lemma merge_items: "kk_ok k a \<Longrightarrow> kk_ok k b \<Longrightarrow> state_items (kk_state_merge a b) = state_items a + state_items b"
  by (simp add: kk_ok_def kk_state_merge_def state_items_map2)

text \<open>The loop: what merging keeps holds of the final state, which has the items of all the states.\<close>

lemma kk_loop_run:
  assumes "q \<noteq> []" "\<And>st. st \<in> set q \<Longrightarrow> kk_ok k st \<and> P st"
    and "\<And>a b. kk_ok k a \<Longrightarrow> kk_ok k b \<Longrightarrow> P a \<Longrightarrow> P b \<Longrightarrow> P (kk_state_merge a b)"
  shows "\<exists>st. kk_loop q = Inr st \<and> kk_ok k st \<and> P st \<and> state_items st = \<Sum>\<^sub># (image_mset state_items (mset q))"
  using assms(1,2)
proof (induction q rule: kk_loop.induct)
  case (1 q)
  show ?case
  proof (cases "length q > 1")
    case False
    then obtain st where "q = [st]" using 1(2) by (cases q) auto
    then show ?thesis using 1(3) by (simp add: kk_loop.simps)
  next
    case True
    obtain s0 q0 s1 q1 where pop: "heappop q = (s0, q0)" "heappop q0 = (s1, q1)" by (metis surj_pair)
    have q: "mset q = add_mset s0 (mset q0)" "length q = Suc (length q0)"
      using heappop_mset [OF 1(2) pop(1)] by auto
    then have "q0 \<noteq> []" using True by auto
    then have q0: "mset q0 = add_mset s1 (mset q1)" using heappop_mset(1) pop(2) by auto
    have set: "set q = insert s0 (insert s1 (set q1))" using q(1) q0 by (metis set_mset_add_mset_insert set_mset_mset)
    let ?q = "kk_state_merge s0 s1 # q1"
    have "kk_ok k st \<and> P st" if "st \<in> set ?q" for st
      using that 1(3) set assms(3) merge_ok by auto
    from 1(1) [OF True pop(1) [symmetric] pop(2) [symmetric] _ this]
    obtain st where "kk_loop ?q = Inr st" "kk_ok k st" "P st" "state_items st = \<Sum>\<^sub># (image_mset state_items (mset ?q))"
      by auto
    moreover have "kk_loop q = kk_loop ?q" using True pop by (simp add: kk_loop.simps [of q])
    moreover have "state_items (kk_state_merge s0 s1) = state_items s0 + state_items s1"
      using merge_items [of k s0 s1] 1(3) set by simp
    ultimately show ?thesis using q q0 by simp
  qed
qed

subsection \<open>No set stays empty\<close>

lemma length_filter_prefix:
  assumes "\<And>i j. i < j \<Longrightarrow> j < length xs \<Longrightarrow> P (xs ! j) \<Longrightarrow> P (xs ! i)"
  shows "i < length xs \<Longrightarrow> P (xs ! i) \<longleftrightarrow> i < length (filter P xs)"
  using assms
proof (induction xs arbitrary: i)
  case (Cons x xs)
  show ?case
  proof (cases "P x")
    case True
    have "P (xs ! i)" if "i < j" "j < length xs" "P (xs ! j)" for i j
      using Cons.prems(2) [of "Suc i" "Suc j"] that by simp
    then show ?thesis using Cons.IH [of "i - 1"] Cons.prems(1) True by (cases i) auto
  next
    case False
    have "\<not> P (xs ! j)" if "j < length xs" for j
      using Cons.prems(2) [of 0 "Suc j"] that False by auto
    then have "filter P xs = []" by (auto simp: filter_empty_conv in_set_conv_nth)
    then show ?thesis using False Cons.prems(1) \<open>\<And>j. j < length xs \<Longrightarrow> \<not> P (xs ! j)\<close> by (cases i) auto
  qed
qed simp

abbreviation filled :: "kk_set \<Rightarrow> bool" where
  "filled s \<equiv> kk_items s \<noteq> []"

definition num_filled :: "kk_state \<Rightarrow> nat" where
  "num_filled st = length (filter filled st)"

text \<open>Items with non-negative values: then the empty sets are the least and stand last.\<close>

definition nonneg :: "kk_state \<Rightarrow> bool" where
  "nonneg st \<longleftrightarrow> (\<forall>s \<in> set st. \<forall>it \<in> set (kk_items s). 0 \<le> snd it)"

lemma empty_least:
  assumes "kk_sum s = item_sum (kk_items s)" "\<forall>it \<in> set (kk_items s). 0 \<le> snd it" "s \<le> t" "filled s" "kk_sum t = item_sum (kk_items t)"
  shows "filled t"
proof
  assume "kk_items t = []"
  moreover have "0 \<le> kk_sum s" using assms(1,2) by (auto intro!: sum_list_nonneg)
  ultimately show False using assms by (auto simp: less_eq_kk_set_def less_kk_set_def split: if_splits)
qed

lemma filled_prefix:
  assumes "kk_ok k st" "nonneg st" "i < k"
  shows "filled (st ! i) \<longleftrightarrow> i < num_filled st"
  unfolding num_filled_def
proof (rule length_filter_prefix)
  show "i < length st" using assms by (simp add: kk_ok_def)
  fix i j assume ij: "i < j" "j < length st" "filled (st ! j)"
  have "st ! j \<le> st ! i" using assms(1) ij sorted_rev_nth_mono [of st i j] by (simp add: kk_ok_def)
  moreover have "st ! i \<in> set st" "st ! j \<in> set st" using assms(1,3) ij by (auto simp: kk_ok_def)
  ultimately show "filled (st ! i)" using empty_least [of "st ! j" "st ! i"] assms ij(3) by (simp add: kk_ok_def nonneg_def)
qed

lemma num_filled_le: "kk_ok k st \<Longrightarrow> num_filled st \<le> k"
  by (auto simp: kk_ok_def num_filled_def)

lemma num_filled_mset: "num_filled st = size (filter_mset filled (mset st))"
  by (simp add: num_filled_def flip: mset_filter)

lemma merge_filled:
  assumes a: "kk_ok k a" "nonneg a" and b: "kk_ok k b" "nonneg b"
  shows "num_filled (kk_state_merge a b) = min k (num_filled a + num_filled b)"
proof -
  let ?m = "map2 kk_merge a (rev b)" and ?a = "num_filled a" and ?b = "num_filled b"
  have len: "length a = k" "length b = k" using a b by (auto simp: kk_ok_def)
  have nth: "filled (?m ! i) \<longleftrightarrow> i < ?a \<or> k - Suc i < ?b" if "i < k" for i
    using that len filled_prefix [OF a, of i] filled_prefix [OF b, of "k - Suc i"] by (auto simp: rev_nth)
  have "{i. i < length ?m \<and> filled (?m ! i)} = {i. i < k \<and> (i < ?a \<or> k - Suc i < ?b)}"
  proof -
    have "length ?m = k" using len by simp
    then show ?thesis using nth by (auto simp del: nth_map)
  qed
  then have "num_filled ?m = card {i. i < k \<and> (i < ?a \<or> k - Suc i < ?b)}"
    by (simp only: num_filled_def length_filter_conv_card)
  also have "{i. i < k \<and> (i < ?a \<or> k - Suc i < ?b)} = {..<?a} \<union> {k - ?b..<k}"
    using num_filled_le [OF a(1)] num_filled_le [OF b(1)] by auto
  also have "card \<dots> = min k (?a + ?b)"
  proof (cases "?a + ?b \<le> k")
    case True
    then show ?thesis by (subst card_Un_disjoint) auto
  next
    case False
    then have "{..<?a} \<union> {k - ?b..<k} = {..<k}" using num_filled_le [OF a(1)] by auto
    then show ?thesis using False by simp
  qed
  finally show ?thesis by (simp add: num_filled_mset kk_state_merge_def)
qed

lemma merge_nonneg: "nonneg a \<Longrightarrow> nonneg b \<Longrightarrow> nonneg (kk_state_merge a b)"
  by (auto simp: nonneg_def kk_state_merge_def dest: set_zip_leftD set_zip_rightD) (metis set_zip_leftD set_zip_rightD snd_conv set_rev)+

subsection \<open>Sums and sizes\<close>

definition gap_within :: "int \<Rightarrow> kk_state \<Rightarrow> bool" where
  "gap_within d st \<longleftrightarrow> (\<forall>s \<in> set st. \<forall>t \<in> set st. kk_sum s - kk_sum t \<le> d)"

lemma gap_withinI: "\<forall>s \<in> set st. 0 \<le> kk_sum s \<and> kk_sum s \<le> d \<Longrightarrow> gap_within d st"
  unfolding gap_within_def by (meson add_increasing2 diff_le_eq order_trans)

lemma kk_sum_mono: "s \<le> t \<Longrightarrow> kk_sum s \<le> kk_sum t"
  by (auto simp: less_eq_kk_set_def less_kk_set_def split: if_splits)

lemma state_sums_descend:
  assumes "kk_ok k st" "i \<le> j" "j < k"
  shows "kk_sum (st ! j) \<le> kk_sum (st ! i)"
  using assms sorted_rev_nth_mono [of st i j] by (intro kk_sum_mono) (simp add: kk_ok_def)

text \<open>Large sets meet small ones, so a merge does not widen the gap.\<close>

lemma merge_gap:
  assumes a: "kk_ok k a" "gap_within d a" and b: "kk_ok k b" "gap_within d b"
  shows "gap_within d (kk_state_merge a b)"
proof -
  let ?m = "map2 kk_merge a (rev b)"
  have len: "length a = k" "length b = k" using a b by (auto simp: kk_ok_def)
  have sum: "kk_sum (?m ! i) = kk_sum (a ! i) + kk_sum (b ! (k - Suc i))" if "i < k" for i
    using that len b(1) by (auto simp: rev_nth kk_ok_def)
  have gap: "kk_sum (c ! i) - kk_sum (c ! j) \<le> d" if "c = a \<or> c = b" "i < k" "j < k" for c i j
    using that len a(2) b(2) by (auto simp: gap_within_def)
  have "kk_sum (?m ! i) - kk_sum (?m ! j) \<le> d" if ij: "i < k" "j < k" for i j
  proof (cases "i \<le> j")
    case True
    then have "kk_sum (b ! (k - Suc i)) \<le> kk_sum (b ! (k - Suc j))" using ij state_sums_descend [OF b(1)] by simp
    then show ?thesis using sum ij gap [of a i j] by simp
  next
    case False
    then have "kk_sum (a ! i) \<le> kk_sum (a ! j)" using ij state_sums_descend [OF a(1)] by simp
    moreover have "kk_sum (b ! (k - Suc i)) - kk_sum (b ! (k - Suc j)) \<le> d" using ij by (intro gap) auto
    ultimately show ?thesis using sum ij by simp
  qed
  moreover have "length ?m = k" using len by simp
  ultimately have "\<forall>s \<in> set ?m. \<forall>t \<in> set ?m. kk_sum s - kk_sum t \<le> d" by (metis in_set_conv_nth)
  then show ?thesis by (simp add: gap_within_def kk_state_merge_def)
qed

definition uniform :: "kk_state \<Rightarrow> bool" where
  "uniform st \<longleftrightarrow> (\<exists>m. \<forall>s \<in> set st. length (kk_items s) = m)"

lemma merge_uniform: "uniform a \<Longrightarrow> uniform b \<Longrightarrow> uniform (kk_state_merge a b)"
proof -
  assume "uniform a" "uniform b"
  then obtain m m' where "\<forall>s \<in> set a. length (kk_items s) = m" "\<forall>s \<in> set b. length (kk_items s) = m'"
    by (auto simp: uniform_def)
  then have "\<forall>s \<in> set (map2 kk_merge a (rev b)). length (kk_items s) = m + m'"
    by (fastforce elim: in_set_zipE)
  then show ?thesis by (auto simp: uniform_def kk_state_merge_def)
qed

lemma uniform_size:
  assumes "kk_ok k st" "uniform st" "s \<in> set st"
  shows "length (kk_items s) * k = size (state_items st)"
proof -
  obtain m where m: "\<forall>s \<in> set st. length (kk_items s) = m" using assms(2) by (auto simp: uniform_def)
  then have "length (concat (map kk_items st)) = length st * m"
    by (induction st) auto
  then show ?thesis using assms m by (simp add: state_items_def kk_ok_def)
qed

subsection \<open>The initial states\<close>

lemma kk_state_new_run:
  assumes "length items = 1 \<or> length items = k" "0 < k"
  shows "\<exists>st. kk_state_new items k = Inr st \<and> kk_ok k st \<and> state_items st = mset items \<and> num_filled st = length items \<and>
    (length items = k \<longrightarrow> uniform st) \<and> ((\<forall>it \<in> set items. 0 \<le> snd it) \<longrightarrow> nonneg st) \<and>
    ((\<forall>it \<in> set items. 0 \<le> snd it \<and> snd it \<le> d) \<longrightarrow> 0 \<le> d \<longrightarrow> gap_within d st)"
proof -
  let ?s = "map2 kk_add items (replicate (length items) kk_empty) @ replicate (k - length items) kk_empty"
  have map2: "map2 kk_add its (replicate (length its) kk_empty) = map (\<lambda>it. kk_add it kk_empty) its" for its
    by (induction its) auto
  have s: "?s = map (\<lambda>it. kk_add it kk_empty) items @ replicate (k - length items) kk_empty" by (simp add: map2)
  have "\<not> length items > k" "\<not> (length items \<noteq> 1 \<and> length items \<noteq> k)" using assms by auto
  then have "kk_state_new items k = Inr (sorted_reverse ?s)" by (simp add: kk_state_new_def)
  moreover have "kk_ok k (sorted_reverse ?s)" using assms by (auto simp: kk_ok_def s)
  moreover have "state_items ?s = mset items"
    unfolding s by (induction items) (auto simp: state_items_def)
  moreover have "num_filled (sorted_reverse ?s) = length items"
    by (simp add: num_filled_mset s filter_mset_image_mset)
  moreover have "length items = k \<longrightarrow> uniform (sorted_reverse ?s)" 
    unfolding s by (auto simp: uniform_def intro!: exI [of _ 1])
  moreover have "(\<forall>it \<in> set items. 0 \<le> snd it) \<longrightarrow> nonneg (sorted_reverse ?s)" by (auto simp: nonneg_def s)
  moreover have "(\<forall>it \<in> set items. 0 \<le> snd it \<and> snd it \<le> d) \<longrightarrow> 0 \<le> d \<longrightarrow> gap_within d (sorted_reverse ?s)"
  proof (intro impI)
    assume "\<forall>it \<in> set items. 0 \<le> snd it \<and> snd it \<le> d" "0 \<le> d"
    then have "\<forall>x \<in> set ?s. 0 \<le> kk_sum x \<and> kk_sum x \<le> d" unfolding s by auto
    then show "gap_within d (sorted_reverse ?s)" by (intro gap_withinI) (simp only: sorted_reverse_simps)
  qed
  ultimately show ?thesis by simp
qed

lemma chunks_concat: "0 < k \<Longrightarrow> concat (chunks k xs) = xs"
  by (induction k xs rule: chunks.induct) (subst chunks.simps, simp)

lemma chunks_length: "0 < k \<Longrightarrow> k dvd length xs \<Longrightarrow> c \<in> set (chunks k xs) \<Longrightarrow> length c = k"
proof (induction k xs rule: chunks.induct)
  case (1 k xs)
  show ?case
  proof (cases "xs = []")
    case False
    then have "k \<le> length xs" using 1(3) by (intro dvd_imp_le) auto
    moreover have "k dvd length (drop k xs)" using 1(3) calculation by (simp add: dvd_diff_nat)
    moreover have "c = take k xs \<or> c \<in> set (chunks k (drop k xs))"
      using 1(2,4) False by (subst (asm) chunks.simps) auto
    ultimately show ?thesis using 1(1,2) False by auto
  qed (use 1 in \<open>simp add: chunks.simps\<close>)
qed

subsection \<open>The partitions\<close>

lemma sorted_items_mset: "mset (map swap_item (sorted_seqlen_list lens)) = mset (zip [0..<length lens] lens)"
proof -
  have "map swap_item (zip lens ns) = zip ns lens" if "length ns = length lens" for ns
    using that by (induction ns lens rule: list_induct2) (simp_all add: swap_item_def)
  then have "map swap_item (zip lens [0..<length lens]) = zip [0..<length lens] lens" by simp
  then show ?thesis unfolding sorted_seqlen_list_def mset_map mset_sort by (simp flip: mset_map)
qed

lemma sum_state_items:
  "list_all2 (\<lambda>c st. state_items st = mset c) cs sts \<Longrightarrow> \<Sum>\<^sub># (image_mset state_items (mset sts)) = mset (concat cs)"
  by (induction rule: list_all2_induct) auto

lemma concat_singletons: "concat (map (\<lambda>x. [x]) xs) = xs"
  by (induction xs) auto

text \<open>The states of the heap before the first merge, as a list of item lists.\<close>

definition initial_items :: "int list \<Rightarrow> nat \<Rightarrow> bool \<Rightarrow> (nat \<times> int) list list" where
  "initial_items lens k equal_size =
     (let items = map swap_item (sorted_seqlen_list lens) in if equal_size then chunks k items else map (\<lambda>x. [x]) items)"

lemma initial_items_concat: "0 < k \<Longrightarrow> mset (concat (initial_items lens k equal_size)) = mset (zip [0..<length lens] lens)"
  by (simp add: initial_items_def Let_def chunks_concat concat_singletons sorted_items_mset del: mset_map map_map)

lemma initial_items_length:
  assumes "0 < k" "equal_size \<Longrightarrow> k dvd length lens" "c \<in> set (initial_items lens k equal_size)"
  shows "length c = (if equal_size then k else 1)"
  using assms chunks_length [of k "map swap_item (sorted_seqlen_list lens)" c]
  by (auto simp: initial_items_def Let_def sorted_seqlen_list_def split: if_splits)

lemma initial_items_values:
  assumes "0 < k" "c \<in> set (initial_items lens k equal_size)" "it \<in> set c"
  shows "snd it \<in> set lens"
proof -
  have "it \<in> set (concat (initial_items lens k equal_size))" using assms by auto
  then have "it \<in> set (zip [0..<length lens] lens)" using initial_items_concat [OF assms(1)] by (metis set_mset_mset)
  then show ?thesis by (metis prod.collapse set_zip_rightD)
qed

lemma rmap_map: "rmap f (map g xs) = rmap (f \<circ> g) xs"
  by (induction xs) auto

lemma karmarkar_karp_cases:
  assumes "0 < k" "equal_size \<Longrightarrow> k dvd length lens"
  shows "karmarkar_karp lens k equal_size =
    rbind (rmap (\<lambda>c. kk_state_new c k) (initial_items lens k equal_size)) (\<lambda>q. rbind (kk_loop q) (\<lambda>st.
    check_equal_sizes equal_size k (length lens) (kk_partitions st)))"
  using assms
  by (auto simp: karmarkar_karp_def initial_items_def Let_def mod_eq_0_iff_dvd rmap_map o_def simp del: map_map)

lemma initial_states:
  assumes "0 < k" "equal_size \<Longrightarrow> k dvd length lens"
  shows "\<exists>q. rmap (\<lambda>c. kk_state_new c k) (initial_items lens k equal_size) = Inr q \<and>
    list_all2 (\<lambda>c st. state_items st = mset c) (initial_items lens k equal_size) q \<and>
    (\<forall>st \<in> set q. kk_ok k st \<and> (equal_size \<longrightarrow> uniform st) \<and>
       ((\<forall>x \<in> set lens. 0 \<le> x) \<longrightarrow> nonneg st \<and> num_filled st = min k (size (state_items st)) \<and> gap_within (Max (set lens)) st))"
proof -
  let ?cs = "initial_items lens k equal_size"
  define g where "g c = (SOME st. kk_state_new c k = Inr st)" for c
  have run: "kk_state_new c k = Inr (g c) \<and> state_items (g c) = mset c \<and> kk_ok k (g c) \<and> (equal_size \<longrightarrow> uniform (g c)) \<and>
       ((\<forall>x \<in> set lens. 0 \<le> x) \<longrightarrow> nonneg (g c) \<and> num_filled (g c) = min k (length c) \<and> gap_within (Max (set lens)) (g c))"
    if c: "c \<in> set ?cs" for c
  proof -
    have len: "length c = (if equal_size then k else 1)" using initial_items_length [OF assms c] by simp
    then obtain st where st: "kk_state_new c k = Inr st" "kk_ok k st" "state_items st = mset c" "num_filled st = length c"
        "length c = k \<longrightarrow> uniform st" "(\<forall>it \<in> set c. 0 \<le> snd it) \<longrightarrow> nonneg st"
        "(\<forall>it \<in> set c. 0 \<le> snd it \<and> snd it \<le> Max (set lens)) \<longrightarrow> 0 \<le> Max (set lens) \<longrightarrow> gap_within (Max (set lens)) st"
      using kk_state_new_run [of c k "Max (set lens)"] assms(1) by (metis (full_types))
    have "g c = st" using st(1) by (simp add: g_def)
    moreover obtain it where it: "it \<in> set c" using len assms(1) by (cases c) (auto split: if_splits)
    have vals: "snd it \<in> set lens" if "it \<in> set c" for it using initial_items_values [OF assms(1) c that] .
    then have "nonneg st \<and> gap_within (Max (set lens)) st" if nn: "\<forall>x \<in> set lens. 0 \<le> x"
    proof -
      have "\<forall>it \<in> set c. 0 \<le> snd it \<and> snd it \<le> Max (set lens)" using vals nn by simp
      moreover from this it have "0 \<le> Max (set lens)" by force
      ultimately show ?thesis using st by auto
    qed
    ultimately show ?thesis using st len assms(1) by auto
  qed
  then have "rmap (\<lambda>c. kk_state_new c k) ?cs = Inr (map g ?cs)" by (intro rmap_total) auto
  then show ?thesis using run by (auto simp: list_all2_map2 list_all2_same intro!: exI [of _ "map g ?cs"])
qed

text \<open>The indices of a state are the items' indices, and the sum of a set is that of the lengths it indexes.\<close>

definition part_sum :: "int list \<Rightarrow> nat list \<Rightarrow> int" where
  "part_sum lens p = sum_list (map ((!) lens) p)"

lemma partitions_of_state:
  assumes "state_items st = mset (zip [0..<length lens] lens)"
  shows "mset (concat (kk_partitions st)) = mset [0..<length lens]"
    and "kk_ok k st \<Longrightarrow> s \<in> set st \<Longrightarrow> kk_sum s = part_sum lens (map fst (kk_items s))"
proof -
  have "concat (kk_partitions st) = map fst (concat (map kk_items st))"
    by (simp add: kk_partitions_def map_concat o_def)
  then have "mset (concat (kk_partitions st)) = image_mset fst (state_items st)" by (simp add: state_items_def)
  also have "\<dots> = mset (map fst (zip [0..<length lens] lens))" unfolding assms mset_map ..
  finally show "mset (concat (kk_partitions st)) = mset [0..<length lens]" by (simp only: map_fst_zip length_upt diff_zero)
  assume "kk_ok k st" and s: "s \<in> set st"
  then have "kk_sum s = item_sum (kk_items s)" by (simp add: kk_ok_def)
  moreover have "snd it = lens ! fst it" if "it \<in> set (kk_items s)" for it
  proof -
    have "it \<in># state_items st" using that s by (auto simp: state_items_def)
    then have "it \<in> set (zip [0..<length lens] lens)" by (simp add: assms)
    then show ?thesis by (auto simp: set_zip)
  qed
  then have "item_sum (kk_items s) = part_sum lens (map fst (kk_items s))"
    unfolding part_sum_def map_map by (intro arg_cong [where f = sum_list] map_cong) auto
  ultimately show "kk_sum s = part_sum lens (map fst (kk_items s))" by simp
qed

text \<open>What the differencing method returns, whenever it returns.\<close>

lemma karmarkar_karp_covers:
  assumes "0 < k" "karmarkar_karp lens k equal_size = Inr parts"
  shows "length parts = k \<and> mset (concat parts) = mset [0..<length lens]"
proof -
  have dvd: "equal_size \<Longrightarrow> k dvd length lens"
    using assms by (auto simp: karmarkar_karp_def Let_def mod_eq_0_iff_dvd split: if_splits)
  note run = karmarkar_karp_cases [OF assms(1) dvd]
  obtain q where q: "rmap (\<lambda>c. kk_state_new c k) (initial_items lens k equal_size) = Inr q"
      "list_all2 (\<lambda>c st. state_items st = mset c) (initial_items lens k equal_size) q" "\<forall>st \<in> set q. kk_ok k st"
    using initial_states [OF assms(1) dvd] by blast
  have "q \<noteq> []" using assms q(1) run by (auto simp: kk_loop.simps)
  then obtain st where st: "kk_loop q = Inr st" "kk_ok k st" "state_items st = \<Sum>\<^sub># (image_mset state_items (mset q))"
    using kk_loop_run [where P = "\<lambda>_. True"] q(3) by blast
  then have "state_items st = mset (zip [0..<length lens] lens)"
    using sum_state_items [OF q(2)] initial_items_concat [OF assms(1)] by simp
  then have "mset (concat (kk_partitions st)) = mset [0..<length lens]" by (rule partitions_of_state)
  moreover have "parts = kk_partitions st"
    using assms(2) run q(1) st(1) by (simp add: check_equal_sizes_def split: list.splits if_splits)
  ultimately show ?thesis using st(2) by (simp add: kk_partitions_def kk_ok_def)
qed

lemma karmarkar_karp_total:
  assumes k: "0 < k" "k \<le> length lens" and dvd: "equal_size \<Longrightarrow> k dvd length lens" and nn: "\<forall>x \<in> set lens. 0 \<le> x"
  shows "\<exists>parts. karmarkar_karp lens k equal_size = Inr parts \<and> (\<forall>p \<in> set parts. p \<noteq> []) \<and>
    (equal_size \<longrightarrow> (\<forall>p \<in> set parts. length p * k = length lens)) \<and>
    (\<forall>p \<in> set parts. \<forall>p' \<in> set parts. part_sum lens p - part_sum lens p' \<le> Max (set lens))"
proof -
  let ?P = "\<lambda>st. (equal_size \<longrightarrow> uniform st) \<and> nonneg st \<and> num_filled st = min k (size (state_items st)) \<and> gap_within (Max (set lens)) st"
  obtain q where q: "rmap (\<lambda>c. kk_state_new c k) (initial_items lens k equal_size) = Inr q"
      "list_all2 (\<lambda>c st. state_items st = mset c) (initial_items lens k equal_size) q" "\<forall>st \<in> set q. kk_ok k st \<and> ?P st"
    using initial_states [OF k(1) dvd] nn by blast
  have sum: "\<Sum>\<^sub># (image_mset state_items (mset q)) = mset (zip [0..<length lens] lens)"
    using sum_state_items [OF q(2)] initial_items_concat [OF k(1)] by simp
  have ne: "q \<noteq> []" using sum k by auto
  have closed: "?P (kk_state_merge a b)" if "kk_ok k a" "kk_ok k b" "?P a" "?P b" for a b
    using that merge_uniform merge_nonneg merge_gap [of k a _ b] merge_filled [of k a b] merge_items [of k a b] by auto
  have "\<exists>st. kk_loop q = Inr st \<and> kk_ok k st \<and> ?P st \<and> state_items st = \<Sum>\<^sub># (image_mset state_items (mset q))"
    by (rule kk_loop_run) (use q(3) ne closed in blast)+
  then obtain st where st: "kk_loop q = Inr st" "kk_ok k st" "?P st" "state_items st = mset (zip [0..<length lens] lens)"
    unfolding sum by blast
  have size: "size (state_items st) = length lens" using st(4) by simp
  then have "num_filled st = k" using st(3) k(2) by simp
  then have "filled (st ! i)" if "i < k" for i using filled_prefix [of k st i] st that by simp
  then have filled: "filled s" if "s \<in> set st" for s using that st(2) by (auto simp: in_set_conv_nth kk_ok_def)
  have sizes: "length (kk_items s) * k = length lens" if "equal_size" "s \<in> set st" for s
    using uniform_size [OF st(2)] st(3) that size by simp
  have parts: "kk_partitions st = map (\<lambda>s. map fst (kk_items s)) st" by (simp add: kk_partitions_def)
  have "check_equal_sizes equal_size k (length lens) (kk_partitions st) = Inr (kk_partitions st)"
  proof (cases equal_size)
    case True
    then have "filter (\<lambda>p. length p * k \<noteq> length lens) (kk_partitions st) = []" using sizes by (simp add: parts filter_empty_conv)
    then show ?thesis by (simp add: check_equal_sizes_def)
  qed (simp add: check_equal_sizes_def split: list.split)
  then have "karmarkar_karp lens k equal_size = Inr (kk_partitions st)"
    using karmarkar_karp_cases [OF k(1) dvd] q(1) st(1) by simp
  moreover have "kk_sum s - kk_sum t \<le> Max (set lens)" if "s \<in> set st" "t \<in> set st" for s t
    using st(3) that by (simp add: gap_within_def)
  ultimately show ?thesis
    using filled sizes partitions_of_state(2) [OF st(4) st(2)] by (intro exI [of _ "kk_partitions st"]) (auto simp: parts)
qed

subsection \<open>Checked partitions\<close>

lemma sort_partitions:
  "length is = length parts \<Longrightarrow>
   rmap (\<lambda>(i, p). if p = [] then Inl (e i) else Inr (sort p)) (zip is parts) = Inr out \<longleftrightarrow>
   (\<forall>p \<in> set parts. p \<noteq> []) \<and> out = map sort parts"
  by (induction "is" parts arbitrary: out rule: list_induct2) (auto simp: err_simps)

lemma check_and_sort_Inr:
  "check_and_sort_partitions n k parts = Inr out \<longleftrightarrow>
   length parts = k \<and> (\<forall>p \<in> set parts. p \<noteq> []) \<and> set (concat parts) = {0..<n} \<and> out = map sort parts"
  by (auto simp: check_and_sort_partitions_def err_simps sort_partitions simp del: set_concat)

lemma sort_eq_Nil [simp]: "sort xs = [] \<longleftrightarrow> xs = []"
  by (metis length_0_conv length_sort)

lemma mset_concat_sort: "mset (concat (map sort parts)) = mset (concat parts)"
  by (induction parts) simp_all

lemma part_sum_sort [simp]: "part_sum lens (sort p) = part_sum lens p"
  unfolding part_sum_def by (metis mset_map mset_sort sum_mset_sum_list)

lemma balanced_covers:
  assumes "get_seqlen_balanced_partitions lens k equal_size = Inr parts"
  shows "0 < k" "length parts = k" "mset (concat parts) = mset [0..<length lens]" "p \<in> set parts \<Longrightarrow> p \<noteq> [] \<and> sorted p"
proof -
  from assms obtain ps where ps: "karmarkar_karp lens k equal_size = Inr ps" and c: "check_and_sort_partitions (length lens) k ps = Inr parts"
    by (auto simp: get_seqlen_balanced_partitions_def Let_def err_simps split: if_splits)
  show k: "0 < k"
  proof (rule ccontr)
    assume "\<not> 0 < k"
    then show False using ps
      by (cases "sorted_seqlen_list lens") (auto simp: karmarkar_karp_def Let_def err_simps kk_loop.simps kk_state_new_def split: if_splits)
  qed
  from c have "parts = map sort ps" "\<forall>p \<in> set ps. p \<noteq> []" "length ps = k" by (auto simp: check_and_sort_Inr)
  then show "length parts = k" "mset (concat parts) = mset [0..<length lens]" "p \<in> set parts \<Longrightarrow> p \<noteq> [] \<and> sorted p"
    using karmarkar_karp_covers [OF k ps] by (auto simp: mset_concat_sort)
qed

lemma balanced_run:
  assumes "0 < k" "k \<le> length lens" and dvd: "equal_size \<longrightarrow> k dvd length lens" and "\<forall>x \<in> set lens. 0 \<le> x"
  shows "\<exists>parts. get_seqlen_balanced_partitions lens k equal_size = Inr parts \<and> length parts = k \<and>
    mset (concat parts) = mset [0..<length lens] \<and> (\<forall>p \<in> set parts. p \<noteq> [] \<and> sorted p) \<and>
    (equal_size \<longrightarrow> (\<forall>p \<in> set parts. length p * k = length lens)) \<and>
    (\<forall>p \<in> set parts. \<forall>p' \<in> set parts. part_sum lens p - part_sum lens p' \<le> Max (set lens))"
proof -
  obtain ps where ps: "karmarkar_karp lens k equal_size = Inr ps" "\<forall>p \<in> set ps. p \<noteq> []"
      "equal_size \<longrightarrow> (\<forall>p \<in> set ps. length p * k = length lens)"
      "\<forall>p \<in> set ps. \<forall>p' \<in> set ps. part_sum lens p - part_sum lens p' \<le> Max (set lens)"
    using karmarkar_karp_total [OF assms(1,2) mp [OF dvd] assms(4)] by blast
  have covers: "length ps = k" "mset (concat ps) = mset [0..<length lens]" using karmarkar_karp_covers [OF assms(1) ps(1)] by auto
  then have "set (concat ps) = {0..<length lens}" by (metis atLeastLessThan_upt set_mset_mset)
  then have "check_and_sort_partitions (length lens) k ps = Inr (map sort ps)" using ps covers by (simp add: check_and_sort_Inr)
  then have "get_seqlen_balanced_partitions lens k equal_size = Inr (map sort ps)"
    using ps(1) assms(2) by (simp add: get_seqlen_balanced_partitions_def Let_def)
  then show ?thesis using ps covers by (auto simp: mset_concat_sort)
qed

text \<open>
  C35: the balanced partition exists and is one: for non-negative lengths, at least one and at most as many
  partitions as items (and, when they are to be equal, a number that divides that of the items), none
  of the function's assertions fails; every index lies in exactly one partition, no partition is empty, each
  is sorted, and equal ones have the same number of items.
\<close>

theorem balanced_partitions_cover:
  assumes "0 < k" "k \<le> length lens" "equal_size \<Longrightarrow> k dvd length lens" "\<forall>x \<in> set lens. 0 \<le> x"
  shows "\<exists>parts. get_seqlen_balanced_partitions lens k equal_size = Inr parts \<and> length parts = k \<and>
    mset (concat parts) = mset [0..<length lens] \<and> (\<forall>p \<in> set parts. p \<noteq> [] \<and> sorted p) \<and>
    (equal_size \<longrightarrow> (\<forall>p \<in> set parts. length p * k = length lens))"
proof -
  have "equal_size \<longrightarrow> k dvd length lens" using assms(3) by blast
  from balanced_run [OF assms(1,2) this assms(4)] show ?thesis by (elim exE conjE) (intro exI conjI; assumption)
qed

text \<open>
  no partition is overloaded: when the lengths are not negative, the sums of two partitions differ by at
  most the largest single length, whichever partitions and however many there are.
\<close>

theorem balanced_within_one_item:
  assumes "get_seqlen_balanced_partitions lens k equal_size = Inr parts" "\<forall>x \<in> set lens. 0 \<le> x"
    and "p \<in> set parts" "p' \<in> set parts"
  shows "part_sum lens p - part_sum lens p' \<le> Max (set lens)"
proof -
  have k: "0 < k" "k \<le> length lens" using balanced_covers(1) [OF assms(1)] assms(1)
    by (auto simp: get_seqlen_balanced_partitions_def Let_def err_simps split: if_splits)
  moreover have "equal_size \<Longrightarrow> k dvd length lens"
    using assms(1) k by (auto simp: get_seqlen_balanced_partitions_def karmarkar_karp_def Let_def mod_eq_0_iff_dvd split: if_splits)
  ultimately show ?thesis using balanced_run [of k lens equal_size] assms by auto
qed

subsection \<open>Micro-batches and their restoration\<close>

lemma chunks_number: "0 < k \<Longrightarrow> k dvd length xs \<Longrightarrow> length (chunks k xs) = length xs div k"
proof -
  assume k: "0 < k" "k dvd length xs"
  have "length (concat (chunks k xs)) = sum_list (map length (chunks k xs))" by (rule length_concat)
  also have "map length (chunks k xs) = replicate (length (chunks k xs)) k"
    using chunks_length [OF k] by (intro nth_equalityI) auto
  finally show ?thesis using k by (simp add: chunks_concat sum_list_replicate)
qed

lemma group_samples_all: "concat (map (group_samples g) [0..<m]) = [0..<m * g]"
proof (induction m)
  case (Suc m)
  have "[0..<Suc m * g] = [0..<m * g] @ [m * g..<m * g + g]" using upt_add_eq_append [of 0 "m * g" g] by (simp add: add.commute)
  with Suc show ?case by (simp add: group_samples_def)
qed simp

lemma mset_evens_odds: "mset (evens xs) + mset (odds xs) = mset xs"
proof -
  have "mset (map f (filter P ns)) + mset (map f (filter (\<lambda>n. \<not> P n) ns)) = mset (map f ns)" for f :: "nat \<Rightarrow> 'a" and P ns
    by (induction ns) auto
  from this [of "(!) xs" even "[0..<length xs]"] show ?thesis by (simp add: evens_def odds_def map_nth del: mset_map)
qed

lemma mset_small_at_ends [simp]: "mset (small_at_ends xs) = mset xs"
  by (simp add: small_at_ends_def mset_evens_odds)

lemma mset_sort_reverse_by [simp]: "mset (sort_reverse_by key xs) = mset xs"
  by (simp add: sort_reverse_by_def)

lemma mset_concat_cong: "mset xss = mset yss \<Longrightarrow> mset (concat xss) = mset (concat yss)"
  by (metis mset_concat mset_map sum_mset_sum_list)

lemma micro_bsz_idx_covers:
  assumes "micro_bsz_idx op m lens = Inr idx"
  shows "mset (concat idx) = mset [0..<length lens]"
proof -
  let ?g = "mi_group_size op" and ?w = "group_workloads (mi_group_size op) lens"
  from assms obtain num parts where g: "?g \<noteq> 0" "?g dvd length lens"
      and parts: "get_seqlen_balanced_partitions ?w (nat num) False = Inr parts"
      and idx: "mset idx = mset (map (\<lambda>p. concat (map (group_samples ?g) p)) parts)"
    by (auto simp: micro_bsz_idx_def Let_def err_simps mod_eq_0_iff_dvd simp del: mset_map split: if_splits)
  have w: "length ?w * ?g = length lens" using g chunks_number [of ?g "map calculate_workload lens"] by (simp add: group_workloads_def)
  have "mset (concat idx) = mset (concat (map (\<lambda>p. concat (map (group_samples ?g) p)) parts))" by (rule mset_concat_cong [OF idx])
  also have "concat (map (\<lambda>p. concat (map (group_samples ?g) p)) parts) = concat (map (group_samples ?g) (concat parts))"
    by (induction parts) simp_all
  also have "mset (concat (map (group_samples ?g) (concat parts))) = mset (concat (map (group_samples ?g) [0..<length ?w]))"
    using balanced_covers(3) [OF parts] by (intro mset_concat_cong) (metis mset_map)
  finally show ?thesis by (simp add: group_samples_all w)
qed

lemma assign_all_run:
  assumes "distinct (map snd us)" "\<forall>u \<in> set us. snd u < length xs"
  shows "\<exists>ys. assign_all xs us = Inr ys \<and> length ys = length xs \<and> (\<forall>u \<in> set us. ys ! snd u = fst u) \<and>
    (\<forall>j < length xs. j \<notin> snd ` set us \<longrightarrow> ys ! j = xs ! j)"
  using assms
proof (induction us arbitrary: xs)
  case (Cons u us)
  obtain i j where u: "u = (i, j)" by (cases u)
  obtain ys where ys: "assign_all (xs[j := i]) us = Inr ys" "length ys = length xs" "\<forall>u \<in> set us. ys ! snd u = fst u"
      "\<forall>l < length xs. l \<notin> snd ` set us \<longrightarrow> ys ! l = xs[j := i] ! l"
    using Cons.IH [of "xs[j := i]"] Cons.prems by auto
  then show ?case using Cons.prems u by (auto simp: nth_list_update)
qed simp

lemma get_reverse_idx_run:
  assumes "mset indices = mset [0..<n]"
  shows "\<exists>rev. get_reverse_idx indices = Inr rev \<and> length rev = n \<and> (\<forall>j < n. rev ! j < n \<and> indices ! (rev ! j) = j)"
proof -
  have len: "length indices = n" using assms by (metis diff_zero length_upt size_mset)
  have "distinct indices" using assms by (metis distinct_upt mset_eq_imp_distinct_iff)
  moreover have set: "set indices = {0..<n}" using assms by (metis atLeastLessThan_upt set_mset_mset)
  moreover have "\<forall>u \<in> set (zip [0..<length indices] indices). snd u < length indices"
    using set len by (auto dest: set_zip_rightD)
  ultimately obtain rev where rev: "get_reverse_idx indices = Inr rev" "length rev = n"
      "\<forall>u \<in> set (zip [0..<length indices] indices). rev ! snd u = fst u"
    using assign_all_run [of "zip [0..<length indices] indices" indices] len
    by (auto simp: get_reverse_idx_def)
  have "rev ! j < n \<and> indices ! (rev ! j) = j" if "j < n" for j
  proof -
    have "j \<in> set indices" using that set by simp
    then obtain i where i: "i < n" "indices ! i = j" using len by (auto simp: in_set_conv_nth)
    then have "(i, j) \<in> set (zip [0..<length indices] indices)" using len by (auto simp: set_zip intro!: exI [of _ i])
    then have "rev ! j = i" using rev(3) by force
    then show ?thesis using i by simp
  qed
  with rev show ?thesis by blast
qed

text \<open>
  C36: splitting a batch into micro-batches and restoring loses nothing: whatever is computed for each row of
  the micro-batches and concatenated comes back in the order of the batch, for every choice of the options
  under which the split succeeds.
\<close>

theorem dynamic_batch_roundtrip:
  assumes "rearrange_micro_batches op m seq_len rows = Inr (micro, idx)"
  shows "restore_dynamic_batch (concat (map (map f) micro)) idx = Inr (map f rows)"
proof -
  let ?n = "length rows" and ?i = "concat idx"
  from assms have micro: "micro = map (map ((!) rows)) idx" and idx: "mset ?i = mset [0..<?n]"
    using micro_bsz_idx_covers [of op m "map seq_len rows"] by (auto simp: rearrange_micro_batches_def err_simps)
  have len: "length ?i = ?n" using idx by (metis diff_zero length_upt size_mset)
  have rows: "concat (map (map f) micro) = map (\<lambda>i. f (rows ! i)) ?i"
    unfolding micro by (induction idx) (simp_all add: o_def)
  obtain rev where rev: "get_reverse_idx ?i = Inr rev" "length rev = ?n" "\<forall>j < ?n. rev ! j < ?n \<and> ?i ! (rev ! j) = j"
    using get_reverse_idx_run [OF idx] by blast
  have bound: "i < ?n" if "i \<in> set rev" for i using that rev(2,3) by (auto simp: in_set_conv_nth)
  have "rmap (\<lambda>i. if i < ?n then Inr (map (\<lambda>i. f (rows ! i)) ?i ! i) else Inl e) rev = Inr (map (\<lambda>i. f (rows ! (?i ! i))) rev)" for e :: exn
    using bound len by (intro rmap_total) simp
  moreover have "map (\<lambda>i. f (rows ! (?i ! i))) rev = map f rows"
    using rev by (intro nth_equalityI) simp_all
  ultimately show ?thesis using rows rev(1) len by (simp add: restore_dynamic_batch_def Let_def)
qed

subsection \<open>Groups that stay together\<close>

text \<open>The runs after \<open>m\<close> samples: they list the samples in order and never part neighbours with equal uids.\<close>

definition runs_ok :: "'u list \<Rightarrow> nat \<Rightarrow> nat list list \<Rightarrow> bool" where
  "runs_ok us m gs \<longleftrightarrow> concat gs = [0..<m] \<and>
     (\<forall>i. Suc i < m \<longrightarrow> us ! i = us ! Suc i \<longrightarrow> (\<exists>g \<in> set gs. i \<in> set g \<and> Suc i \<in> set g))"

lemma uid_step_simp:
  "uid_step (i, uid) (current, indices, groups) =
     (if Some uid \<noteq> current then (Some uid, [i], if indices = [] then groups else groups @ [indices])
      else (current, indices @ [i], groups))"
  by (simp add: uid_step_def)

lemma uid_fold:
  assumes "0 < m" "m \<le> length us"
  shows "\<exists>ind gs. fold uid_step (zip [0..<m] (take m us)) (None, [], []) = (Some (us ! (m - 1)), ind, gs) \<and>
    ind \<noteq> [] \<and> last ind = m - 1 \<and> runs_ok us m (gs @ [ind])"
  using assms
proof (induction m)
  case (Suc m)
  have step: "zip [0..<Suc m] (take (Suc m) us) = zip [0..<m] (take m us) @ [(m, us ! m)]"
    using Suc.prems by (simp add: take_Suc_conv_app_nth)
  show ?case
  proof (cases m)
    case 0
    then show ?thesis unfolding step by (simp add: uid_step_def runs_ok_def)
  next
    case (Suc l)
    obtain ind gs where f: "fold uid_step (zip [0..<m] (take m us)) (None, [], []) = (Some (us ! l), ind, gs)"
      and ind: "ind \<noteq> []" "last ind = l" and ok: "runs_ok us m (gs @ [ind])"
      using Suc.IH Suc.prems Suc by auto
    from ok have c: "concat gs @ ind = [0..<m]"
      and nb: "\<And>i. Suc i < m \<Longrightarrow> us ! i = us ! Suc i \<Longrightarrow> \<exists>g \<in> set (gs @ [ind]). i \<in> set g \<and> Suc i \<in> set g"
      by (auto simp: runs_ok_def)
    show ?thesis
    proof (cases "us ! m = us ! l")
      case True
      have "\<exists>g \<in> set (gs @ [ind @ [m]]). i \<in> set g \<and> Suc i \<in> set g" if "Suc i < Suc m" "us ! i = us ! Suc i" for i
      proof (cases "i = l")
        case True
        then show ?thesis using ind Suc by (metis UnCI append_is_Nil_conv in_set_conv_decomp last_in_set list.set_intros(1) set_append)
      next
        case False
        then show ?thesis using nb [of i] that Suc by auto
      qed
      then have "runs_ok us (Suc m) (gs @ [ind @ [m]])" using c by (simp add: runs_ok_def flip: append_assoc)
      then show ?thesis unfolding step using f True ind by (simp add: uid_step_simp)
    next
      case False
      have "\<exists>g \<in> set ((gs @ [ind]) @ [[m]]). i \<in> set g \<and> Suc i \<in> set g" if "Suc i < Suc m" "us ! i = us ! Suc i" for i
        using nb [of i] that Suc False by (cases "i = l") auto
      then have "runs_ok us (Suc m) ((gs @ [ind]) @ [[m]])" using c by (simp add: runs_ok_def)
      then show ?thesis unfolding step using f False ind by (simp add: uid_step_simp)
    qed
  qed
qed simp

lemma uid_groups_ok: "runs_ok us (length us) (uid_groups us)"
proof (cases "us = []")
  case False
  then show ?thesis using uid_fold [of "length us" us] by (auto simp: uid_groups_def)
qed (simp add: uid_groups_def runs_ok_def)

lemma distinct_concat_unique:
  "distinct (concat gs) \<Longrightarrow> g \<in> set gs \<Longrightarrow> g' \<in> set gs \<Longrightarrow> x \<in> set g \<Longrightarrow> x \<in> set g' \<Longrightarrow> g = g'"
  by (induction gs) auto

lemma same_run:
  assumes "runs_ok us n gs" "i \<le> j" "j < n" "\<forall>l. i \<le> l \<and> l \<le> j \<longrightarrow> us ! l = us ! i"
  shows "\<exists>g \<in> set gs. i \<in> set g \<and> j \<in> set g"
  using assms(2-4)
proof (induction j rule: dec_induct)
  case base
  then have "i \<in> set (concat gs)" using assms(1) by (simp add: runs_ok_def)
  then show ?case by auto
next
  case (step j)
  have "\<forall>l. i \<le> l \<and> l \<le> j \<longrightarrow> us ! l = us ! i" using step.prems(2) le_SucI by blast
  then obtain g where g: "g \<in> set gs" "i \<in> set g" "j \<in> set g" using step.IH step.prems(1) Suc_lessD by blast
  moreover have "us ! j = us ! i" "us ! Suc j = us ! i" using step.prems(2) step.hyps le_SucI le_refl by blast+
  then obtain g' where "g' \<in> set gs" "j \<in> set g'" "Suc j \<in> set g'"
    using assms(1) step.prems(1) unfolding runs_ok_def by metis
  moreover have "distinct (concat gs)" using assms(1) by (simp add: runs_ok_def)
  ultimately show ?case using distinct_concat_unique by metis
qed

text \<open>
  Samples with one uid that stand next to each other stay together: a partition that holds one of
  them holds all, and every sample is in exactly one partition.
\<close>

lemma same_uid_same_partition:
  assumes "get_group_balanced_partitions lens us k = Inr parts"
  shows "mset (concat parts) = mset [0..<length us]"
    and "\<lbrakk>p \<in> set parts; i \<in> set p; i \<le> j; j < length us; \<forall>l. i \<le> l \<and> l \<le> j \<longrightarrow> us ! l = us ! i\<rbrakk> \<Longrightarrow> j \<in> set p"
proof -
  let ?gs = "uid_groups us"
  from assms obtain w ps where ps: "get_seqlen_balanced_partitions w k True = Inr ps" "length w = length ?gs"
      and parts: "parts = map (\<lambda>p. sort (concat (map ((!) ?gs) p))) ps"
    by (auto simp: get_group_balanced_partitions_def Let_def err_simps split: if_splits)
  have ms: "mset (concat ps) = mset [0..<length ?gs]" using balanced_covers(3) [OF ps(1)] ps(2) by simp
  have "mset (concat parts) = mset (concat (map ((!) ?gs) (concat ps)))"
    unfolding parts by (induction ps) simp_all
  also have "\<dots> = mset (concat (map ((!) ?gs) [0..<length ?gs]))" using ms by (intro mset_concat_cong) (metis mset_map)
  also have "\<dots> = mset [0..<length us]" using uid_groups_ok [of us] by (simp add: map_nth runs_ok_def)
  finally show "mset (concat parts) = mset [0..<length us]" .
  assume p: "p \<in> set parts" "i \<in> set p" and ij: "i \<le> j" "j < length us" "\<forall>l. i \<le> l \<and> l \<le> j \<longrightarrow> us ! l = us ! i"
  from p obtain q a where q: "q \<in> set ps" "p = sort (concat (map ((!) ?gs) q))" "a \<in> set q" "i \<in> set (?gs ! a)"
    unfolding parts by auto
  have "a < length ?gs" using q(1,3) ms by (metis UN_I atLeastLessThan_iff atLeastLessThan_upt set_concat set_mset_mset)
  moreover obtain g where "g \<in> set ?gs" "i \<in> set g" "j \<in> set g" using same_run [OF uid_groups_ok ij] by blast
  moreover have "distinct (concat ?gs)" using uid_groups_ok [of us] by (simp add: runs_ok_def)
  ultimately have "j \<in> set (?gs ! a)" using q(4) distinct_concat_unique nth_mem by metis
  then show "j \<in> set p" using q by auto
qed

subsection \<open>Concrete batches\<close>

definition demo_options :: micro_options where
  "demo_options = \<lparr>mi_max_token_len = 10, mi_sync = None, mi_divided_by = None, mi_min_num = None, mi_balance = True, mi_group_size = 1\<rparr>"

lemma demo_rearranged:
  "rearrange_micro_batches demo_options 6 (\<lambda>r. r) [6, 5, 2] = Inr ([[5, 2], [6]], [[1, 2], [0]])"
  by code_simp

text \<open>A micro-batch can hold more tokens than the limit: here twelve, with a limit of ten.\<close>

lemma micro_batch_exceeds_limit:
  "rearrange_micro_batches demo_options 6 (\<lambda>r. r) [6, 6, 6] = Inr ([[6, 6], [6]], [[0, 1], [2]])"
  by code_simp

theorem balanced_partitions_cover_witness:
  "\<exists>parts. get_seqlen_balanced_partitions [5, 3, 8, 1, 9, 2] 3 True = Inr parts \<and> mset (concat parts) = mset [0..<6]"
proof -
  have "3 dvd length [5, 3, 8, 1, 9, 2 :: int]" by (simp add: dvd_def) presburger
  from balanced_partitions_cover [of 3 "[5, 3, 8, 1, 9, 2]" True, OF _ _ this] show ?thesis by (auto simp: upt_rec)
qed

theorem balanced_within_one_item_witness:
  "\<exists>parts. get_seqlen_balanced_partitions [5, 3, 8, 1, 9, 2] 3 False = Inr parts \<and>
     part_sum [5, 3, 8, 1, 9, 2] (parts ! 0) - part_sum [5, 3, 8, 1, 9, 2] (parts ! 2) \<le> 9"
proof -
  have run: "get_seqlen_balanced_partitions [5, 3, 8, 1, 9, 2] 3 False = Inr [[2, 5], [0, 1, 3], [4]]" by code_simp
  from balanced_within_one_item [OF run, of "[2, 5]" "[4]"] run show ?thesis by auto
qed

theorem dynamic_batch_roundtrip_witness:
  "restore_dynamic_batch [50, 20, 60] [[1, 2], [0]] = Inr [60, 50, 20 :: int]"
  using dynamic_batch_roundtrip [OF demo_rearranged, of "\<lambda>x. 10 * x"] by simp

end
