(* ===== verification/Replay.thy ===== *)
theory Replay
  imports Sandbox PyText
begin

text \<open>
  The replay buffer of the trainer (\<open>src/verl/verl/trainer/ppo/v1/replay_buffer.py\<close>): it polls the queue
  that the rollout framework writes to, evicts stale, filtered and failed groups, asks for replacements
  and selects a batch.  The queue, the trainer's \<open>refill_fn\<close>, the pause between two polls and the order in
  which a Python set lists its elements are parameters, over a world that their calls may change.  A
  defaultdict keyed by the partition is a function with its default.
\<close>

record 's queue =
  qu_list :: "'s \<Rightarrow> 's \<times> (string \<times> (string \<times> dict) list) list option result"
  qu_clear :: "string \<Rightarrow> string list \<Rightarrow> 's \<Rightarrow> 's \<times> unit result"
  qu_extra_fields :: "string \<Rightarrow> string list \<Rightarrow> 's \<Rightarrow> 's \<times> pv list result"
  qu_refill :: "nat \<Rightarrow> 's \<Rightarrow> 's \<times> unit result"
  qu_pause :: "'s \<Rightarrow> 's"
  qu_iter :: "string set \<Rightarrow> string list"
  qu_repr :: "rat \<Rightarrow> string"
  qu_parse :: "string \<Rightarrow> rat option"

subsection \<open>Configuration\<close>

record buffer_config =
  bc_async :: bool
  bc_max_off_policy_threshold :: int
  bc_max_off_policy_strategy :: string
  bc_has_refill :: bool
  bc_filter_groups_metric :: "string option"
  bc_train_batch_size :: int
  bc_gen_batch_size :: "int option"
  bc_max_inflight_gen_batches :: int
  bc_sync_refill_failed_groups :: bool

definition validate_mode_config :: "buffer_config \<Rightarrow> unit result" where
  "validate_mode_config c =
     (if bc_async c then Inr ()
      else if bc_filter_groups_metric c \<noteq> None \<and> bc_max_inflight_gen_batches c \<le> 0
      then Inl (ValueError ''max_inflight_gen_batches must be a positive integer'')
      else if bc_sync_refill_failed_groups c \<and> bc_gen_batch_size c \<noteq> Some 1
      then Inl (ValueError ''sync_refill_failed_groups requires gen_batch_size=1'')
      else Inr ())"

definition validate_buffer :: "buffer_config \<Rightarrow> unit result" where
  "validate_buffer c =
     (if bc_max_off_policy_threshold c \<le> 0
      then Inl (AssertionError (''Invalid max off policy threshold: '' @ str_of_int (bc_max_off_policy_threshold c) @
             '', must be an integer greater than 0''))
      else if bc_max_off_policy_strategy c \<notin> {''drop'', ''wait''}
      then Inl (AssertionError (''Invalid max off policy strategy: '' @ bc_max_off_policy_strategy c @
             '', must be one of ['' @ repr_str ''drop'' @ '', '' @ repr_str ''wait'' @ '']''))
      else if bc_filter_groups_metric c \<noteq> None \<and> \<not> bc_has_refill c
      then Inl (ValueError ''Group filtering (filter_groups_metric) requires refill_fn to replace evicted groups'')
      else if bc_sync_refill_failed_groups c \<and> \<not> bc_has_refill c
      then Inl (ValueError ''sync_refill_failed_groups requires refill_fn to replace failed groups'')
      else validate_mode_config c)"

subsection \<open>The buffer and its snapshot of the queue\<close>

record 's buffer =
  bf_world :: 's
  bf_partitions :: "string \<Rightarrow> (string \<times> dict) list"
  bf_pending :: "string \<Rightarrow> string set"
  bf_running :: "string \<Rightarrow> string set"
  bf_finished :: "string \<Rightarrow> string set"
  bf_failure :: "string \<Rightarrow> string set"
  bf_steps :: "string \<Rightarrow> (string \<times> int) list"
  bf_cache :: "string \<Rightarrow> (string \<times> rat option) list"

definition new_buffer_state :: "'s \<Rightarrow> 's buffer" where
  "new_buffer_state s =
     \<lparr>bf_world = s, bf_partitions = (\<lambda>_. []), bf_pending = (\<lambda>_. {}), bf_running = (\<lambda>_. {}), bf_finished = (\<lambda>_. {}),
      bf_failure = (\<lambda>_. {}), bf_steps = (\<lambda>_. []), bf_cache = (\<lambda>_. [])\<rparr>"

definition clear_snapshot :: "'s buffer \<Rightarrow> 's buffer" where
  "clear_snapshot b = (new_buffer_state (bf_world b))\<lparr>bf_cache := bf_cache b\<rparr>"

text \<open>A call of the queue acts on the world of the buffer.\<close>

definition in_queue :: "('s \<Rightarrow> 's \<times> 'a result) \<Rightarrow> 's buffer \<Rightarrow> 's buffer \<times> 'a result" where
  "in_queue f b = (case f (bf_world b) of (s', r) \<Rightarrow> (b\<lparr>bf_world := s'\<rparr>, r))"

text \<open>\<open>key.split("_")[0]\<close>.\<close>

definition uid_of :: "string \<Rightarrow> string" where
  "uid_of key = takeWhile (\<lambda>c. c \<noteq> CHR ''_'') key"

definition add_key :: "string \<Rightarrow> string \<Rightarrow> (string \<Rightarrow> string set) \<Rightarrow> string \<Rightarrow> string set" where
  "add_key pid key m = m(pid := insert key (m pid))"

text \<open>The prompt's step is an integer: the trainer writes its own counter.\<close>

definition sync_prompt :: "(rat \<Rightarrow> string) \<Rightarrow> string \<Rightarrow> string \<Rightarrow> dict \<Rightarrow> 's buffer \<Rightarrow> 's buffer \<times> unit result" where
  "sync_prompt fr pid key tag b =
     (case dict_item tag ''global_steps'' of
        Inr (PInt g) \<Rightarrow>
          (let b1 = b\<lparr>bf_steps := (bf_steps b)(pid := dset (bf_steps b pid) key g)\<rparr> in
           case dict_item tag ''status'' of
             Inl e \<Rightarrow> (b1, Inl e)
           | Inr v \<Rightarrow>
               if v = PStr ''pending'' then (b1\<lparr>bf_pending := add_key pid key (bf_pending b1)\<rparr>, Inr ())
               else if v = PStr ''running'' then (b1\<lparr>bf_running := add_key pid key (bf_running b1)\<rparr>, Inr ())
               else if v = PStr ''finished'' then (b1\<lparr>bf_finished := add_key pid key (bf_finished b1)\<rparr>, Inr ())
               else if v = PStr ''failure'' then (b1\<lparr>bf_failure := add_key pid key (bf_failure b1)\<rparr>, Inr ())
               else (b1, Inl (ValueError (''Unknown status: '' @ py_str fr v))))
      | Inr v \<Rightarrow> (b, Inl (TypeError (type_name v)))
      | Inl e \<Rightarrow> (b, Inl e))"

definition sync_item :: "(rat \<Rightarrow> string) \<Rightarrow> string \<Rightarrow> string \<times> dict \<Rightarrow> 's buffer \<Rightarrow> 's buffer \<times> unit result" where
  "sync_item fr pid item b =
     (case item of (key, tag) \<Rightarrow>
        if truthy (dget_or tag ''is_prompt'' (PBool False)) then sync_prompt fr pid key tag b
        else (b\<lparr>bf_partitions := (bf_partitions b)(pid :=
                 dset (bf_partitions b pid) key (dupdate (dget_or (bf_partitions b pid) key []) tag))\<rparr>, Inr ()))"

text \<open>A \<open>for\<close> loop whose body may raise.\<close>

fun loop_over :: "('a \<Rightarrow> 's \<Rightarrow> 's \<times> unit result) \<Rightarrow> 'a list \<Rightarrow> 's \<Rightarrow> 's \<times> unit result" where
  "loop_over f [] s = (s, Inr ())"
| "loop_over f (x # xs) s = shell_bind (f x s) (\<lambda>_. loop_over f xs)"

definition sync_metadata :: "'s queue \<Rightarrow> 's buffer \<Rightarrow> 's buffer \<times> unit result" where
  "sync_metadata q b =
     shell_bind (in_queue (qu_list q) (clear_snapshot b)) (\<lambda>data b1.
     (case data of
        None \<Rightarrow> (b1, Inr ())
      | Some parts \<Rightarrow> loop_over (\<lambda>(pid, items). loop_over (sync_item (qu_repr q) pid) items) parts b1))"

definition metrics_prefix :: "string \<Rightarrow> string" where
  "metrics_prefix pid = (if pid = ''train'' then ''training'' else ''validation'')"

definition drop_keys :: "string set \<Rightarrow> (string \<times> 'v) list \<Rightarrow> (string \<times> 'v) list" where
  "drop_keys ks d = filter (\<lambda>(k, _). k \<notin> ks) d"

definition trajectory_keys_of :: "string \<Rightarrow> string set \<Rightarrow> 's buffer \<Rightarrow> string list" where
  "trajectory_keys_of pid uids b = filter (\<lambda>k. uid_of k \<in> uids) (map fst (bf_partitions b pid))"

definition forget_groups :: "string \<Rightarrow> string set \<Rightarrow> 's buffer \<Rightarrow> 's buffer" where
  "forget_groups pid uids b =
     b\<lparr>bf_partitions := (bf_partitions b)(pid := drop_keys (set (trajectory_keys_of pid uids b)) (bf_partitions b pid)),
       bf_pending := (bf_pending b)(pid := bf_pending b pid - uids),
       bf_running := (bf_running b)(pid := bf_running b pid - uids),
       bf_finished := (bf_finished b)(pid := bf_finished b pid - uids),
       bf_failure := (bf_failure b)(pid := bf_failure b pid - uids),
       bf_steps := (bf_steps b)(pid := drop_keys uids (bf_steps b pid)),
       bf_cache := (bf_cache b)(pid := drop_keys uids (bf_cache b pid))\<rparr>"

definition clear_groups :: "'s queue \<Rightarrow> string \<Rightarrow> string set \<Rightarrow> 's buffer \<Rightarrow> 's buffer \<times> unit result" where
  "clear_groups q pid uids b =
     (if uids = {} then (b, Inr ())
      else shell_bind (in_queue (qu_clear q pid (qu_iter q uids @ qu_iter q (set (trajectory_keys_of pid uids b)))) b)
             (\<lambda>_ b1. (forget_groups pid uids b1, Inr ())))"

subsection \<open>Groups without a signal\<close>

text \<open>\<open>np.std(values) == 0\<close>, without rounding: the population variance is zero.\<close>

definition no_spread :: "rat list \<Rightarrow> bool" where
  "no_spread xs = (let n = of_nat (length xs); m = sum_list xs / n in sum_list (map (\<lambda>x. (x - m) ^ 2) xs) / n = 0)"

definition classify :: "rat list \<Rightarrow> rat option" where
  "classify xs = (if length xs > 1 \<and> no_spread xs then Some (hd xs) else None)"

text \<open>The reward details of a row: \<open>metric in info\<close>, then \<open>info[metric]\<close>.\<close>

definition reward_extra_info :: "pv \<Rightarrow> pv" where
  "reward_extra_info v = (case v of PDict d \<Rightarrow> dget_or d ''reward_extra_info'' (PDict []) | _ \<Rightarrow> PDict [])"

definition metric_in :: "string \<Rightarrow> pv \<Rightarrow> pv option result" where
  "metric_in metric info =
     (case info of
        PDict d \<Rightarrow> Inr (dget d metric)
      | PList xs \<Rightarrow> if PStr metric \<in> set xs then Inl (TypeError ''list indices must be integers or slices, not str'') else Inr None
      | PStr s \<Rightarrow> if \<exists>n \<le> length s. startswith (drop n s) metric
                  then Inl (TypeError (''string indices must be integers, not '' @ repr_str ''str'')) else Inr None
      | v \<Rightarrow> Inl (TypeError (''argument of type '' @ repr_str (type_name v) @ '' is not iterable'')))"

text \<open>One row: its uid lacks the metric, or gets one more value.\<close>

type_synonym metric_acc = "string set \<times> (string \<Rightarrow> rat list)"

definition collect_metric :: "'s queue \<Rightarrow> string \<Rightarrow> string \<times> pv \<Rightarrow> metric_acc \<Rightarrow> metric_acc \<times> unit result" where
  "collect_metric q metric row acc =
     (case (row, acc) of ((key, extra), (missing, values)) \<Rightarrow>
        (case metric_in metric (reward_extra_info extra) of
           Inl e \<Rightarrow> (acc, Inl e)
         | Inr None \<Rightarrow> ((insert (uid_of key) missing, values), Inr ())
         | Inr (Some v) \<Rightarrow>
             (case py_float (qu_parse q) v of
                Inl e \<Rightarrow> (acc, Inl e)
              | Inr x \<Rightarrow> ((missing, values(uid_of key := values (uid_of key) @ [x])), Inr ()))))"

definition missing_metric :: "string \<Rightarrow> string set \<Rightarrow> exn" where
  "missing_metric metric uids =
     RuntimeError (''Finished groups are missing DAPO metric '' @ repr_str metric @ '': ['' @
       join '', '' (map repr_str (take 5 (sorted_list_of_set uids))) @ '']'')"

text \<open>The groups of the cache with a shared value, and how many share each value (\<open>Counter\<close>).\<close>

definition filtered_rewards :: "(string \<times> rat option) list \<Rightarrow> (string \<times> rat) list" where
  "filtered_rewards cache = List.map_filter (\<lambda>(uid, r). map_option (Pair uid) r) cache"

fun count_in :: "rat \<Rightarrow> nat \<Rightarrow> (rat \<times> nat) list \<Rightarrow> (rat \<times> nat) list" where
  "count_in x n [] = [(x, n)]"
| "count_in x n ((y, m) # c) = (if x = y then (y, m + n) # c else (y, m) # count_in x n c)"

definition counter :: "rat list \<Rightarrow> (rat \<times> nat) list" where
  "counter xs = fold (\<lambda>x. count_in x 1) xs []"

definition dapo_result :: "(string \<times> rat option) list \<Rightarrow> string set \<times> (rat \<times> nat) list" where
  "dapo_result cache = (set (map fst (filtered_rewards cache)), counter (map snd (filtered_rewards cache)))"

definition zip_error :: "nat \<Rightarrow> nat \<Rightarrow> unit result" where
  "zip_error n m = (if n < m then Inl (ValueError ''zip() argument 2 is longer than argument 1'')
     else if m < n then Inl (ValueError ''zip() argument 2 is shorter than argument 1'') else Inr ())"

text \<open>Groups that are no longer finished leave the cache; the others keep their classification.\<close>

definition prune_cache :: "string \<Rightarrow> 's buffer \<Rightarrow> 's buffer" where
  "prune_cache pid b = b\<lparr>bf_cache := (bf_cache b)(pid := filter (\<lambda>(uid, _). uid \<in> bf_finished b pid) (bf_cache b pid))\<rparr>"

definition unclassified :: "string \<Rightarrow> 's buffer \<Rightarrow> string set" where
  "unclassified pid b = bf_finished b pid - set (map fst (bf_cache b pid))"

definition fetch_extra_fields :: "'s queue \<Rightarrow> string \<Rightarrow> string list \<Rightarrow> 's buffer \<Rightarrow> 's buffer \<times> pv list result" where
  "fetch_extra_fields q pid keys b = (if keys = [] then (b, Inr []) else in_queue (qu_extra_fields q pid keys) b)"

definition add_classes :: "'s queue \<Rightarrow> string \<Rightarrow> string set \<Rightarrow> (string \<Rightarrow> rat list) \<Rightarrow> 's buffer \<Rightarrow> 's buffer" where
  "add_classes q pid uids values b =
     b\<lparr>bf_cache := (bf_cache b)(pid := fold (\<lambda>uid d. dset d uid (classify (values uid))) (qu_iter q uids) (bf_cache b pid))\<rparr>"

text \<open>The groups \<open>uids\<close> are classified by the metric in the rows of \<open>keys\<close>; one without the metric is an error.\<close>

definition classify_groups ::
  "'s queue \<Rightarrow> string \<Rightarrow> string \<Rightarrow> string set \<Rightarrow> string list \<Rightarrow> pv list \<Rightarrow> 's buffer \<Rightarrow> 's buffer \<times> (string set \<times> (rat \<times> nat) list) result" where
  "classify_groups q metric pid uids keys extras b =
     (case loop_over (collect_metric q metric) (zip keys extras) (uids - uid_of ` set keys, \<lambda>_. []) of
        (_, Inl e) \<Rightarrow> (b, Inl e)
      | ((missing, values), Inr _) \<Rightarrow>
          (case zip_error (length keys) (length extras) of
             Inl e \<Rightarrow> (b, Inl e)
           | Inr _ \<Rightarrow>
               if missing \<noteq> {} then (b, Inl (missing_metric metric missing))
               else (let b1 = add_classes q pid uids values b in (b1, Inr (dapo_result (bf_cache b1 pid))))))"

definition dapo_filtered_keys ::
  "'s queue \<Rightarrow> buffer_config \<Rightarrow> string \<Rightarrow> 's buffer \<Rightarrow> 's buffer \<times> (string set \<times> (rat \<times> nat) list) result" where
  "dapo_filtered_keys q c pid b =
     (case bc_filter_groups_metric c of
        None \<Rightarrow> (b, Inr ({}, []))
      | Some metric \<Rightarrow>
          if pid = ''val'' then (b, Inr ({}, []))
          else
            (let b1 = prune_cache pid b; new_finished_uids = unclassified pid b1; keys = trajectory_keys_of pid new_finished_uids b1 in
             shell_bind (fetch_extra_fields q pid keys b1) (classify_groups q metric pid new_finished_uids keys)))"

subsection \<open>Eviction\<close>

record eviction_reasons =
  er_stale :: "string set"
  er_dapo :: "string set"
  er_failed :: "string set"
  er_dapo_counts :: "(rat \<times> nat) list"

definition no_reasons :: eviction_reasons where
  "no_reasons = \<lparr>er_stale = {}, er_dapo = {}, er_failed = {}, er_dapo_counts = []\<rparr>"

definition evicted_of :: "eviction_reasons \<Rightarrow> string set" where
  "evicted_of r = er_stale r \<union> er_dapo r \<union> er_failed r"

definition span_of :: "int \<Rightarrow> string \<Rightarrow> 's buffer \<Rightarrow> string \<Rightarrow> int" where
  "span_of global_steps pid b uid = global_steps - dget_or (bf_steps b pid) uid global_steps + 1"

definition stale_terminal_keys :: "buffer_config \<Rightarrow> int \<Rightarrow> string \<Rightarrow> 's buffer \<Rightarrow> string set" where
  "stale_terminal_keys c global_steps pid b =
     (if pid = ''val'' \<or> bc_max_off_policy_strategy c \<noteq> ''drop'' then {}
      else {uid \<in> bf_finished b pid. span_of global_steps pid b uid > bc_max_off_policy_threshold c})"

text \<open>The synchronous buffer counts a failed group only when it left no trajectory behind.\<close>

definition terminal_eviction_reasons ::
  "'s queue \<Rightarrow> buffer_config \<Rightarrow> int \<Rightarrow> string \<Rightarrow> 's buffer \<Rightarrow> 's buffer \<times> eviction_reasons result" where
  "terminal_eviction_reasons q c global_steps pid b =
     (if pid = ''val'' then (b, Inr no_reasons)
      else if bc_async c then
        (let stale = stale_terminal_keys c global_steps pid b in
         shell_bind (dapo_filtered_keys q c pid b) (\<lambda>(dapo, counts) b1.
           (b1, Inr \<lparr>er_stale = stale, er_dapo = dapo, er_failed = bf_failure b1 pid, er_dapo_counts = counts\<rparr>)))
      else
        shell_bind (dapo_filtered_keys q c pid b) (\<lambda>(dapo, counts) b1.
          (b1, Inr \<lparr>er_stale = {}, er_dapo = dapo,
             er_failed = (if bc_sync_refill_failed_groups c then bf_failure b1 pid - uid_of ` set (map fst (bf_partitions b1 pid)) else {}),
             er_dapo_counts = counts\<rparr>)))"

definition sampleable_terminal_keys :: "string \<Rightarrow> eviction_reasons \<Rightarrow> 's buffer \<Rightarrow> string set" where
  "sampleable_terminal_keys pid r b = (bf_finished b pid \<union> bf_failure b pid) - evicted_of r"

text \<open>The metrics of evictions: the numbers by name, and the counts of the shared values.\<close>

record eviction_metrics =
  em_numbers :: "(string \<times> rat) list"
  em_reward_counts :: "(rat \<times> nat) list"

definition no_metrics :: eviction_metrics where
  "no_metrics = \<lparr>em_numbers = [], em_reward_counts = []\<rparr>"

definition staleness_metrics :: "string \<Rightarrow> int list \<Rightarrow> (string \<times> rat) list" where
  "staleness_metrics prefix spans =
     [(prefix @ ''/off_policy/evicted_samples'', of_nat (length spans)),
      (prefix @ ''/off_policy/evicted_samples_staleness/mean'', of_int (sum_list spans) / of_nat (length spans)),
      (prefix @ ''/off_policy/evicted_samples_staleness/max'', of_int (foldr max spans (hd spans))),
      (prefix @ ''/off_policy/evicted_samples_staleness/min'', of_int (foldr min spans (hd spans)))]"

definition eviction_metrics_of :: "'s queue \<Rightarrow> int \<Rightarrow> string \<Rightarrow> eviction_reasons \<Rightarrow> 's buffer \<Rightarrow> eviction_metrics" where
  "eviction_metrics_of q global_steps pid r b =
     (let prefix = metrics_prefix pid in
      \<lparr>em_numbers =
         (if er_stale r = {} then [] else staleness_metrics prefix (map (span_of global_steps pid b) (qu_iter q (er_stale r)))) @
         (if er_dapo r = {} then [] else [(prefix @ ''/filter_groups/evicted_samples'', of_nat (card (er_dapo r)))]) @
         (if er_failed r = {} then [] else [(prefix @ ''/rollout_failure/evicted_samples'', of_nat (card (er_failed r)))]),
       em_reward_counts = (if er_dapo r = {} then [] else er_dapo_counts r)\<rparr>)"

definition evict_terminal_groups ::
  "'s queue \<Rightarrow> int \<Rightarrow> string \<Rightarrow> eviction_reasons \<Rightarrow> 's buffer \<Rightarrow> 's buffer \<times> eviction_metrics result" where
  "evict_terminal_groups q global_steps pid r b =
     (if evicted_of r = {} then (b, Inr no_metrics)
      else (let metrics = eviction_metrics_of q global_steps pid r b in
            shell_bind (clear_groups q pid (evicted_of r) b) (\<lambda>_ b1. (b1, Inr metrics))))"

text \<open>
  One poll's metrics merged into the sum of the earlier ones.  The mean is weighted by the number of
  evicted groups before and now, which is read before the numbers change.
\<close>

definition merge_number :: "rat \<Rightarrow> rat \<Rightarrow> string \<times> rat \<Rightarrow> (string \<times> rat) list \<Rightarrow> (string \<times> rat) list" where
  "merge_number prev_total stale_count entry acc =
     (case entry of (key, v) \<Rightarrow>
        if endswith key ''/evicted_samples_staleness/mean''
        then (let denom = prev_total + stale_count in
              dset acc key (if denom = 0 then v else (dget_or acc key 0 * prev_total + v * stale_count) / denom))
        else if endswith key ''/evicted_samples_staleness/max'' then dset acc key (max (dget_or acc key v) v)
        else if endswith key ''/evicted_samples_staleness/min'' then dset acc key (min (dget_or acc key v) v)
        else dset acc key (dget_or acc key 0 + v))"

definition accumulate_eviction_metrics :: "eviction_metrics \<Rightarrow> eviction_metrics \<Rightarrow> nat \<Rightarrow> eviction_metrics" where
  "accumulate_eviction_metrics acc new stale_count =
     (let prev_total =
            (case find (\<lambda>(k, _). endswith k ''/off_policy/evicted_samples'') (em_numbers new) of
               None \<Rightarrow> 0 | Some (k, _) \<Rightarrow> dget_or (em_numbers acc) k 0) in
      \<lparr>em_numbers = fold (merge_number prev_total (of_nat stale_count)) (em_numbers new) (em_numbers acc),
       em_reward_counts = fold (\<lambda>(x, n). count_in x n) (em_reward_counts new) (em_reward_counts acc)\<rparr>)"

subsection \<open>Selection\<close>

definition select_prompt_uids :: "'s queue \<Rightarrow> string \<Rightarrow> string set \<Rightarrow> nat \<Rightarrow> 's buffer \<Rightarrow> string list" where
  "select_prompt_uids q pid sampleable batch_size b =
     take batch_size (sort_key (\<lambda>key. dget_or (bf_steps b pid) key 0) (qu_iter q sampleable))"

record kv_batch =
  kb_partition_id :: string
  kb_keys :: "string list"
  kb_tags :: "dict list"

definition materialize_batch ::
  "'s queue \<Rightarrow> string \<Rightarrow> string list \<Rightarrow> (string \<times> dict) list \<Rightarrow> 's buffer \<Rightarrow> 's buffer \<times> kv_batch result" where
  "materialize_batch q pid selected snapshot b =
     shell_bind (in_queue (qu_clear q pid selected) b) (\<lambda>_ b1.
     (let rows = filter (\<lambda>(key, _). uid_of key \<in> set selected) snapshot in
      (b1, Inr \<lparr>kb_partition_id = pid, kb_keys = map fst rows, kb_tags = map snd rows\<rparr>)))"

definition inflight :: "string \<Rightarrow> 's buffer \<Rightarrow> nat" where
  "inflight pid b = card (bf_pending b pid) + card (bf_running b pid)"

subsection \<open>One poll of the synchronous sampler\<close>

text \<open>What a poll decides: sample these prompts, poll again at once, or pause first.\<close>

datatype decision = Selected "string list" | Again | Pause

record sampler_state =
  sa_metrics :: eviction_metrics
  sa_refill_credit :: int
  sa_draining :: bool

definition dapo_enabled :: "buffer_config \<Rightarrow> string \<Rightarrow> bool" where
  "dapo_enabled c pid \<longleftrightarrow> pid \<noteq> ''val'' \<and> bc_filter_groups_metric c \<noteq> None"

text \<open>\<open>min\<close> of the credit and the free slots, rounded down to whole fetches; a missing size is an \<open>assert\<close>.\<close>

definition dispatch_count :: "buffer_config \<Rightarrow> int \<Rightarrow> nat \<Rightarrow> int result" where
  "dispatch_count c credit inflight_count =
     (let slots = max 0 (bc_max_inflight_gen_batches c * bc_train_batch_size c - int inflight_count); n = min credit slots in
      case bc_gen_batch_size c of
        None \<Rightarrow> Inl (AssertionError [])
      | Some g \<Rightarrow> if g = 0 then Inl (OtherException ''ZeroDivisionError'' ''integer modulo by zero'') else Inr (n - n mod g))"

definition credit_after :: "bool \<Rightarrow> eviction_reasons \<Rightarrow> sampler_state \<Rightarrow> sampler_state" where
  "credit_after enough r sa =
     (if enough then sa\<lparr>sa_draining := True, sa_refill_credit := 0\<rparr>
      else if \<not> sa_draining sa
      then sa\<lparr>sa_refill_credit := sa_refill_credit sa + 2 * int (card (er_dapo r)) + int (card (er_failed r))\<rparr>
      else sa)"

definition add_number :: "string \<Rightarrow> rat \<Rightarrow> sampler_state \<Rightarrow> sampler_state" where
  "add_number key n sa =
     sa\<lparr>sa_metrics := (sa_metrics sa)\<lparr>em_numbers := dset (em_numbers (sa_metrics sa)) key (dget_or (em_numbers (sa_metrics sa)) key 0 + n)\<rparr>\<rparr>"

text \<open>The end of a poll: select when there is enough and nothing is running, and discard the surplus.\<close>

definition sync_select ::
  "'s queue \<Rightarrow> buffer_config \<Rightarrow> string \<Rightarrow> nat \<Rightarrow> string set \<Rightarrow> sampler_state \<Rightarrow> 's buffer \<Rightarrow>
   's buffer \<times> (sampler_state \<times> decision) result" where
  "sync_select q c pid batch_size sampleable sa b =
     (if card sampleable \<ge> batch_size \<and> (\<not> dapo_enabled c pid \<or> inflight pid b = 0)
      then (let selected = select_prompt_uids q pid sampleable batch_size b; surplus = sampleable - set selected in
            if dapo_enabled c pid \<and> surplus \<noteq> {}
            then shell_bind (clear_groups q pid surplus b) (\<lambda>_ b1.
                   (b1, Inr (add_number (metrics_prefix pid @ ''/filter_groups/discarded_surplus_samples'') (of_nat (card surplus)) sa,
                             Selected selected)))
            else (b, Inr (sa, Selected selected)))
      else (b, Inr (sa, Pause)))"

definition sync_decide ::
  "'s queue \<Rightarrow> buffer_config \<Rightarrow> string \<Rightarrow> nat \<Rightarrow> eviction_reasons \<Rightarrow> sampler_state \<Rightarrow> 's buffer \<Rightarrow>
   's buffer \<times> (sampler_state \<times> decision) result" where
  "sync_decide q c pid batch_size r sa b =
     (let sampleable = sampleable_terminal_keys pid r b; enough = card sampleable \<ge> batch_size in
      if \<not> dapo_enabled c pid \<and> er_failed r \<noteq> {} \<and> \<not> enough
      then shell_bind (in_queue (qu_refill q (card (er_failed r))) b) (\<lambda>_ b1. (b1, Inr (sa, Again)))
      else
        (let sa1 = (if dapo_enabled c pid then credit_after enough r sa else sa) in
         if dapo_enabled c pid \<and> \<not> sa_draining sa1 \<and> sa_refill_credit sa1 > 0
         then (case dispatch_count c (sa_refill_credit sa1) (inflight pid b) of
                 Inl e \<Rightarrow> (b, Inl e)
               | Inr n \<Rightarrow>
                   if n > 0
                   then shell_bind (in_queue (qu_refill q (nat n)) b) (\<lambda>_ b1.
                          (b1, Inr (sa1\<lparr>sa_refill_credit := sa_refill_credit sa1 - n\<rparr>, Again)))
                   else sync_select q c pid batch_size sampleable sa1 b)
         else sync_select q c pid batch_size sampleable sa1 b))"

text \<open>The metrics enter the sum only when something was evicted.\<close>

definition note_evictions :: "eviction_reasons \<Rightarrow> eviction_metrics \<Rightarrow> sampler_state \<Rightarrow> sampler_state" where
  "note_evictions r metrics sa =
     (if evicted_of r = {} then sa
      else sa\<lparr>sa_metrics := accumulate_eviction_metrics (sa_metrics sa) metrics (card (er_stale r))\<rparr>)"

definition sync_poll ::
  "'s queue \<Rightarrow> buffer_config \<Rightarrow> int \<Rightarrow> string \<Rightarrow> nat \<Rightarrow> sampler_state \<Rightarrow> 's buffer \<Rightarrow>
   's buffer \<times> (sampler_state \<times> decision) result" where
  "sync_poll q c global_steps pid batch_size sa b =
     shell_bind (sync_metadata q b) (\<lambda>_ b1.
     shell_bind (terminal_eviction_reasons q c global_steps pid b1) (\<lambda>r b2.
     shell_bind (evict_terminal_groups q global_steps pid r b2) (\<lambda>metrics b3.
     sync_decide q c pid batch_size r (note_evictions r metrics sa) b3)))"

subsection \<open>One poll of the asynchronous sampler\<close>

text \<open>With the strategy \<open>wait\<close> an old prompt in flight holds the batch back; its step is always known.\<close>

definition has_enough_samples :: "buffer_config \<Rightarrow> int \<Rightarrow> string \<Rightarrow> nat \<Rightarrow> string set \<Rightarrow> 's buffer \<Rightarrow> bool" where
  "has_enough_samples c global_steps pid batch_size sampleable b \<longleftrightarrow>
     \<not> (bc_max_off_policy_strategy c = ''wait'' \<and>
        (\<exists>key \<in> bf_pending b pid \<union> bf_running b pid. span_of global_steps pid b key \<ge> bc_max_off_policy_threshold c)) \<and>
     card sampleable \<ge> batch_size"

definition async_poll ::
  "'s queue \<Rightarrow> buffer_config \<Rightarrow> int \<Rightarrow> string \<Rightarrow> nat \<Rightarrow> sampler_state \<Rightarrow> 's buffer \<Rightarrow>
   's buffer \<times> (sampler_state \<times> decision) result" where
  "async_poll q c global_steps pid batch_size sa b =
     shell_bind (sync_metadata q b) (\<lambda>_ b1.
     shell_bind (terminal_eviction_reasons q c global_steps pid b1) (\<lambda>r b2.
     shell_bind (evict_terminal_groups q global_steps pid r b2) (\<lambda>metrics b3.
     (let sa1 = note_evictions r metrics sa; sampleable = sampleable_terminal_keys pid r b3 in
      if evicted_of r \<noteq> {}
      then (if bc_has_refill c
            then shell_bind (in_queue (qu_refill q (card (evicted_of r))) b3) (\<lambda>_ b4. (b4, Inr (sa1, Again)))
            else (b3, Inr (sa1, Again)))
      else if has_enough_samples c global_steps pid batch_size sampleable b3
      then (b3, Inr (sa1, Selected (select_prompt_uids q pid sampleable batch_size b3)))
      else (b3, Inr (sa1, Pause))))))"

subsection \<open>Sampling\<close>

definition poll ::
  "'s queue \<Rightarrow> buffer_config \<Rightarrow> int \<Rightarrow> string \<Rightarrow> nat \<Rightarrow> sampler_state \<Rightarrow> 's buffer \<Rightarrow>
   's buffer \<times> (sampler_state \<times> decision) result" where
  "poll q c = (if bc_async c then async_poll q c else sync_poll q c)"

text \<open>Polling need not end: without replacements there may never be enough groups.\<close>

partial_function (option) sample_loop ::
  "'s queue \<Rightarrow> buffer_config \<Rightarrow> int \<Rightarrow> string \<Rightarrow> nat \<Rightarrow> sampler_state \<Rightarrow> 's buffer \<Rightarrow>
   ('s buffer \<times> (sampler_state \<times> string list) result) option" where
  "sample_loop q c global_steps pid batch_size sa b =
     (case poll q c global_steps pid batch_size sa b of
        (b1, Inl e) \<Rightarrow> Some (b1, Inl e)
      | (b1, Inr (sa1, d)) \<Rightarrow>
          (case d of
             Selected uids \<Rightarrow> Some (b1, Inr (sa1, uids))
           | Again \<Rightarrow> sample_loop q c global_steps pid batch_size sa1 b1
           | Pause \<Rightarrow> sample_loop q c global_steps pid batch_size sa1 (b1\<lparr>bf_world := qu_pause q (bf_world b1)\<rparr>)))"

definition nothing_to_materialize :: "bool \<Rightarrow> exn" where
  "nothing_to_materialize refill =
     RuntimeError (''Sync replay buffer selected terminal groups with no materializable trajectories.'' @
       (if refill then [] else '' Enable trainer.v1.sampler.sync_refill_failed_groups to replace failed groups.''))"

text \<open>
  The checks between selection and the batch.  The code keeps the snapshot of the moment of selection; the
  only later change to it drops the trajectories of the surplus, none of which is selected.
\<close>

definition check_selection :: "buffer_config \<Rightarrow> int \<Rightarrow> string \<Rightarrow> string list \<Rightarrow> 's buffer \<Rightarrow> unit result" where
  "check_selection c global_steps pid selected b =
     (if bc_async c
      then raise_unless (pid = ''val'' \<or> bc_max_off_policy_strategy c \<noteq> ''drop'' \<or>
             (\<forall>uid \<in> set selected. span_of global_steps pid b uid \<le> bc_max_off_policy_threshold c))
             (AssertionError (''drop strategy selected stale prompts: spans=['' @
                join '', '' (map (\<lambda>uid. str_of_int (span_of global_steps pid b uid)) selected) @ ''], threshold='' @
                str_of_int (bc_max_off_policy_threshold c)))
      else raise_unless (pid = ''val'' \<or> (\<exists>key \<in> set (map fst (bf_partitions b pid)). uid_of key \<in> set selected))
             (nothing_to_materialize (bc_sync_refill_failed_groups c)))"

definition start_sampling :: sampler_state where
  "start_sampling = \<lparr>sa_metrics = no_metrics, sa_refill_credit = 0, sa_draining = False\<rparr>"

definition sample ::
  "'s queue \<Rightarrow> buffer_config \<Rightarrow> int \<Rightarrow> string \<Rightarrow> nat \<Rightarrow> 's buffer \<Rightarrow> ('s buffer \<times> (kv_batch \<times> eviction_metrics) result) option" where
  "sample q c global_steps pid batch_size b =
     map_option (\<lambda>(b1, r).
       (case r of
          Inl e \<Rightarrow> (b1, Inl e)
        | Inr (sa, selected) \<Rightarrow>
            (case check_selection c global_steps pid selected b1 of
               Inl e \<Rightarrow> (b1, Inl e)
             | Inr _ \<Rightarrow> shell_bind (materialize_batch q pid selected (bf_partitions b1 pid) b1) (\<lambda>batch b2. (b2, Inr (batch, sa_metrics sa))))))
       (sample_loop q c global_steps pid batch_size start_sampling b)"

end
