(* ===== verification/ReplayProps.thy ===== *)
theory ReplayProps
  imports Replay RolloutProps
begin

text \<open>
  The replay buffer: what a snapshot contains, which groups a sampled batch holds, that replacements cover
  the evicted groups, and that the merged staleness is the mean over all evicted groups.
\<close>

named_theorems buffer_simps \<open>fields of the buffer after an operation\<close>

subsection \<open>Effects on the buffer\<close>

lemma in_queue_run:
  assumes "in_queue f b = (b', r)"
  shows "\<exists>s'. f (bf_world b) = (s', r) \<and> b' = b\<lparr>bf_world := s'\<rparr>"
  using assms by (auto simp: in_queue_def split: prod.splits)

lemma shell_bind_run:
  "shell_bind x f = (s', Inr v) \<longleftrightarrow> (\<exists>s1 u. x = (s1, Inr u) \<and> f u s1 = (s', Inr v))"
  by (cases x; cases "snd x") (auto simp: shell_bind_def)

lemma clear_snapshot_simps [buffer_simps]:
  "bf_partitions (clear_snapshot b) = (\<lambda>_. [])" "bf_pending (clear_snapshot b) = (\<lambda>_. {})"
  "bf_running (clear_snapshot b) = (\<lambda>_. {})" "bf_finished (clear_snapshot b) = (\<lambda>_. {})"
  "bf_failure (clear_snapshot b) = (\<lambda>_. {})" "bf_steps (clear_snapshot b) = (\<lambda>_. [])"
  "bf_cache (clear_snapshot b) = bf_cache b" "bf_world (clear_snapshot b) = bf_world b"
  by (simp_all add: clear_snapshot_def new_buffer_state_def)

subsection \<open>Snapshots\<close>

text \<open>What the tags of a partition say: its prompts with a status, its trajectories.\<close>

definition is_prompt_tag :: "dict \<Rightarrow> bool" where
  "is_prompt_tag tag \<longleftrightarrow> truthy (dget_or tag ''is_prompt'' (PBool False))"

definition prompts_with :: "string \<Rightarrow> (string \<times> dict) list \<Rightarrow> string set" where
  "prompts_with st items = {k. \<exists>tag. (k, tag) \<in> set items \<and> is_prompt_tag tag \<and> dget tag ''status'' = Some (PStr st)}"

definition trajectories_in :: "(string \<times> dict) list \<Rightarrow> string set" where
  "trajectories_in items = {k. \<exists>tag. (k, tag) \<in> set items \<and> \<not> is_prompt_tag tag}"

definition items_of :: "string \<Rightarrow> (string \<times> (string \<times> dict) list) list option \<Rightarrow> (string \<times> dict) list" where
  "items_of pid data = (case data of None \<Rightarrow> [] | Some parts \<Rightarrow> concat (map snd (filter (\<lambda>(p, _). p = pid) parts)))"

text \<open>A buffer shows a list of items in a partition.\<close>

definition shows_items :: "string \<Rightarrow> (string \<times> dict) list \<Rightarrow> 's buffer \<Rightarrow> bool" where
  "shows_items pid items b \<longleftrightarrow>
     bf_pending b pid = prompts_with ''pending'' items \<and> bf_running b pid = prompts_with ''running'' items \<and>
     bf_finished b pid = prompts_with ''finished'' items \<and> bf_failure b pid = prompts_with ''failure'' items \<and>
     fst ` set (bf_partitions b pid) = trajectories_in items"

text \<open>The step of a prompt is that of one of its tags.\<close>

definition shows_steps :: "string \<Rightarrow> (string \<times> dict) list \<Rightarrow> 's buffer \<Rightarrow> bool" where
  "shows_steps pid items b \<longleftrightarrow>
     (\<forall>k. dget (bf_steps b pid) k = None \<longrightarrow> \<not> (\<exists>tag. (k, tag) \<in> set items \<and> is_prompt_tag tag)) \<and>
     (\<forall>k g. dget (bf_steps b pid) k = Some g \<longrightarrow> (\<exists>tag. (k, tag) \<in> set items \<and> is_prompt_tag tag \<and> dget tag ''global_steps'' = Some (PInt g)))"

lemma prompts_with_simps [simp]:
  "prompts_with st [] = {}" "prompts_with st (xs @ ys) = prompts_with st xs \<union> prompts_with st ys"
  by (auto simp: prompts_with_def)

lemma trajectories_in_simps [simp]:
  "trajectories_in [] = {}" "trajectories_in (xs @ ys) = trajectories_in xs \<union> trajectories_in ys"
  by (auto simp: trajectories_in_def)

lemma finite_prompts [simp]: "finite (prompts_with st items)"
  by (rule finite_subset [of _ "fst ` set items"]) (force simp: prompts_with_def)+

lemma prompts_with_single:
  "prompts_with st [(k, tag)] = (if is_prompt_tag tag \<and> dget tag ''status'' = Some (PStr st) then {k} else {})"
  by (auto simp: prompts_with_def)

lemma trajectories_in_single: "trajectories_in [(k, tag)] = (if is_prompt_tag tag then {} else {k})"
  by (auto simp: trajectories_in_def)

lemma fst_dset: "fst ` set (dset d k v) = insert k (fst ` set d)"
  by (induction d) (auto split: if_splits)

lemma sync_item_run:
  assumes "sync_item fr p (key, tag) b = (b', Inr u)" "shows_items pid items b"
  shows "shows_items pid (items @ (if p = pid then [(key, tag)] else [])) b' \<and> bf_cache b' = bf_cache b \<and> bf_world b' = bf_world b"
proof (cases "is_prompt_tag tag")
  case False
  then have b': "b' = b\<lparr>bf_partitions := (bf_partitions b)(p := dset (bf_partitions b p) key (dupdate (dget_or (bf_partitions b p) key []) tag))\<rparr>"
    using assms(1) by (simp add: sync_item_def is_prompt_tag_def)
  show ?thesis using assms(2) False
    by (auto simp: b' shows_items_def prompts_with_single trajectories_in_single fst_dset)
next
  case True
  then obtain g st where st: "dget tag ''status'' = Some (PStr st)" "st \<in> {''pending'', ''running'', ''finished'', ''failure''}"
    and b': "b' = (let b1 = b\<lparr>bf_steps := (bf_steps b)(p := dset (bf_steps b p) key g)\<rparr> in
      if st = ''pending'' then b1\<lparr>bf_pending := add_key p key (bf_pending b1)\<rparr>
      else if st = ''running'' then b1\<lparr>bf_running := add_key p key (bf_running b1)\<rparr>
      else if st = ''finished'' then b1\<lparr>bf_finished := add_key p key (bf_finished b1)\<rparr>
      else b1\<lparr>bf_failure := add_key p key (bf_failure b1)\<rparr>)"
    using assms(1)
    by (auto simp: sync_item_def sync_prompt_def is_prompt_tag_def dict_item_def Let_def
        split: option.splits pv.splits sum.splits if_splits)
  from st(2) consider "st = ''pending''" | "st = ''running''" | "st = ''finished''" | "st = ''failure''" by blast
  then show ?thesis
  proof cases
    case 1
    with assms(2) st(1) True b' show ?thesis
      by (auto simp: shows_items_def add_key_def prompts_with_single trajectories_in_single)
  next
    case 2
    with assms(2) st(1) True b' show ?thesis
      by (auto simp: shows_items_def add_key_def prompts_with_single trajectories_in_single)
  next
    case 3
    with assms(2) st(1) True b' show ?thesis
      by (auto simp: shows_items_def add_key_def prompts_with_single trajectories_in_single)
  next
    case 4
    with assms(2) st(1) True b' show ?thesis
      by (auto simp: shows_items_def add_key_def prompts_with_single trajectories_in_single)
  qed
qed

lemma sync_item_steps:
  assumes "sync_item fr p (key, tag) b = (b', Inr u)"
  shows "(if is_prompt_tag tag
     then \<exists>g. dget tag ''global_steps'' = Some (PInt g) \<and> bf_steps b' = (bf_steps b)(p := dset (bf_steps b p) key g)
     else bf_steps b' = bf_steps b)"
  using assms
  by (auto simp: sync_item_def sync_prompt_def is_prompt_tag_def dict_item_def Let_def
      split: option.splits pv.splits sum.splits if_splits)

lemma shows_steps_same: "bf_steps b' pid = bf_steps b pid \<Longrightarrow> shows_steps pid items b \<Longrightarrow> shows_steps pid items b'"
  by (simp add: shows_steps_def)

lemma shows_steps_other: "\<not> is_prompt_tag tag \<Longrightarrow> shows_steps pid items b \<Longrightarrow> shows_steps pid (items @ [(k, tag)]) b"
  by (fastforce simp: shows_steps_def)

lemma shows_steps_set:
  assumes "bf_steps b' pid = dset (bf_steps b pid) key g" "is_prompt_tag tag" "dget tag ''global_steps'' = Some (PInt g)" "shows_steps pid items b"
  shows "shows_steps pid (items @ [(key, tag)]) b'"
  unfolding shows_steps_def
proof (intro conjI allI impI notI)
  fix k
  assume "dget (bf_steps b' pid) k = None" "\<exists>tag'. (k, tag') \<in> set (items @ [(key, tag)]) \<and> is_prompt_tag tag'"
  then show False using assms by (auto simp: shows_steps_def split: if_splits)
next
  fix k h
  assume "dget (bf_steps b' pid) k = Some h"
  then have "k = key \<and> h = g \<or> dget (bf_steps b pid) k = Some h" using assms(1) by (auto split: if_splits)
  then show "\<exists>tag'. (k, tag') \<in> set (items @ [(key, tag)]) \<and> is_prompt_tag tag' \<and> dget tag' ''global_steps'' = Some (PInt h)"
  proof
    assume "k = key \<and> h = g"
    then show ?thesis using assms by (intro exI [of _ tag]) simp
  next
    assume "dget (bf_steps b pid) k = Some h"
    then obtain tag' where "(k, tag') \<in> set items" "is_prompt_tag tag'" "dget tag' ''global_steps'' = Some (PInt h)"
      using assms(4) unfolding shows_steps_def by blast
    then show ?thesis by (intro exI [of _ tag']) simp
  qed
qed

lemma sync_item_shows_steps:
  assumes "sync_item fr p (key, tag) b = (b', Inr u)" "shows_steps pid items b"
  shows "shows_steps pid (items @ (if p = pid then [(key, tag)] else [])) b'"
proof (cases "is_prompt_tag tag")
  case True
  with sync_item_steps [OF assms(1)] obtain g where
    g: "dget tag ''global_steps'' = Some (PInt g)" "bf_steps b' = (bf_steps b)(p := dset (bf_steps b p) key g)" by auto
  show ?thesis
  proof (cases "p = pid")
    case p: True
    then have "bf_steps b' pid = dset (bf_steps b pid) key g" using g(2) by simp
    from shows_steps_set [OF this True g(1) assms(2)] p show ?thesis by simp
  next
    case False
    then have "bf_steps b' pid = bf_steps b pid" using g(2) by simp
    from shows_steps_same [OF this assms(2)] False show ?thesis by simp
  qed
next
  case False
  with sync_item_steps [OF assms(1)] have "bf_steps b' pid = bf_steps b pid" by simp
  from shows_steps_same [OF this assms(2)] show ?thesis by (simp add: shows_steps_other [OF False])
qed

text \<open>Both together.\<close>

definition shows_both :: "string \<Rightarrow> (string \<times> dict) list \<Rightarrow> 's buffer \<Rightarrow> bool" where
  "shows_both pid items b \<longleftrightarrow> shows_items pid items b \<and> shows_steps pid items b"

lemma sync_items_run:
  assumes "loop_over (sync_item fr p) new b = (b', Inr u)" "shows_both pid items b"
  shows "shows_both pid (items @ (if p = pid then new else [])) b' \<and> bf_cache b' = bf_cache b \<and> bf_world b' = bf_world b"
  using assms
proof (induction new arbitrary: b items)
  case Nil
  then show ?case by simp
next
  case (Cons x new)
  obtain key tag where x: "x = (key, tag)" by (cases x)
  from Cons.prems(1) obtain b1 u1 where one: "sync_item fr p (key, tag) b = (b1, Inr u1)"
    and rest: "loop_over (sync_item fr p) new b1 = (b', Inr u)" by (auto simp: shell_bind_run x)
  note prems = Cons.prems(2) [unfolded shows_both_def]
  from sync_item_run [OF one prems [THEN conjunct1]] sync_item_shows_steps [OF one prems [THEN conjunct2]]
  have "shows_both pid (items @ (if p = pid then [(key, tag)] else [])) b1" "bf_cache b1 = bf_cache b" "bf_world b1 = bf_world b"
    by (simp_all add: shows_both_def)
  with Cons.IH [OF rest this(1)] show ?case by (simp add: x split: if_splits)
qed

lemma sync_parts_run:
  assumes "loop_over (\<lambda>(p, items). loop_over (sync_item fr p) items) parts b = (b', Inr u)" "shows_both pid items b"
  shows "shows_both pid (items @ items_of pid (Some parts)) b' \<and> bf_cache b' = bf_cache b \<and> bf_world b' = bf_world b"
  using assms
proof (induction parts arbitrary: b items)
  case Nil
  then show ?case by (simp add: items_of_def)
next
  case (Cons x parts)
  obtain p new where x: "x = (p, new)" by (cases x)
  from Cons.prems(1) obtain b1 u1 where one: "loop_over (sync_item fr p) new b = (b1, Inr u1)"
    and rest: "loop_over (\<lambda>(p, items). loop_over (sync_item fr p) items) parts b1 = (b', Inr u)" by (auto simp: shell_bind_run x)
  note first = sync_items_run [OF one Cons.prems(2)]
  with Cons.IH [OF rest first [THEN conjunct1]] show ?case by (simp add: x items_of_def split: if_splits)
qed

text \<open>After a synchronisation the buffer shows what the queue listed.\<close>

lemma sync_metadata_run:
  assumes "sync_metadata q b = (b', Inr u)"
  shows "\<exists>s' data. qu_list q (bf_world b) = (s', Inr data) \<and> bf_world b' = s' \<and> bf_cache b' = bf_cache b \<and>
    (\<forall>pid. shows_both pid (items_of pid data) b')"
proof -
  from assms obtain b1 data where l: "in_queue (qu_list q) (clear_snapshot b) = (b1, Inr data)"
    and r: "(case data of None \<Rightarrow> (b1, Inr ())
      | Some parts \<Rightarrow> loop_over (\<lambda>(pid, items). loop_over (sync_item (qu_repr q) pid) items) parts b1) = (b', Inr u)"
    by (auto simp: sync_metadata_def shell_bind_run)
  from in_queue_run [OF l] obtain s' where s': "qu_list q (bf_world b) = (s', Inr data)"
    and b1: "b1 = (clear_snapshot b)\<lparr>bf_world := s'\<rparr>" by (auto simp: buffer_simps)
  have empty: "shows_both pid [] b1" for pid by (simp add: shows_both_def shows_items_def shows_steps_def b1 buffer_simps)
  show ?thesis
  proof (cases data)
    case None
    with r empty s' b1 show ?thesis by (auto simp: items_of_def buffer_simps)
  next
    case (Some parts)
    with r have "loop_over (\<lambda>(pid, items). loop_over (sync_item (qu_repr q) pid) items) parts b1 = (b', Inr u)" by simp
    from sync_parts_run [OF this empty] s' b1 Some show ?thesis by (auto simp: buffer_simps)
  qed
qed

subsection \<open>Evictions\<close>

lemma dget_drop_keys: "dget (drop_keys ks d) k = (if k \<in> ks then None else dget d k)"
  by (induction d) (auto simp: drop_keys_def)

lemma keys_drop_keys: "fst ` set (drop_keys ks d) = fst ` set d - ks"
  by (force simp: drop_keys_def)

text \<open>What is left of a snapshot when some groups are gone from a partition.\<close>

definition without_groups :: "string \<Rightarrow> string set \<Rightarrow> 's buffer \<Rightarrow> 's buffer \<Rightarrow> bool" where
  "without_groups pid E b b' \<longleftrightarrow>
     bf_pending b' pid = bf_pending b pid - E \<and> bf_running b' pid = bf_running b pid - E \<and>
     bf_finished b' pid = bf_finished b pid - E \<and> bf_failure b' pid = bf_failure b pid - E \<and>
     fst ` set (bf_partitions b' pid) = {k \<in> fst ` set (bf_partitions b pid). uid_of k \<notin> E} \<and>
     (\<forall>k. k \<notin> E \<longrightarrow> dget (bf_steps b' pid) k = dget (bf_steps b pid) k)"

lemma without_groups_frame [simp]: "without_groups pid {} b b" "without_groups pid {} b (b\<lparr>bf_world := s\<rparr>)"
  by (simp_all add: without_groups_def)

definition same_snapshot :: "'s buffer \<Rightarrow> 's buffer \<Rightarrow> bool" where
  "same_snapshot b b' \<longleftrightarrow> bf_partitions b' = bf_partitions b \<and> bf_pending b' = bf_pending b \<and> bf_running b' = bf_running b \<and>
     bf_finished b' = bf_finished b \<and> bf_failure b' = bf_failure b \<and> bf_steps b' = bf_steps b"

lemma same_snapshot_without: "same_snapshot b b' \<Longrightarrow> without_groups pid {} b b'"
  by (simp add: same_snapshot_def without_groups_def)

lemma without_groups_trans:
  "without_groups pid E b b1 \<Longrightarrow> without_groups pid F b1 b2 \<Longrightarrow> without_groups pid (E \<union> F) b b2"
  by (auto simp: without_groups_def)

lemma clear_groups_run:
  assumes "clear_groups q pid E b = (b', Inr u)"
  shows "without_groups pid E b b'"
proof (cases "E = {}")
  case True
  with assms show ?thesis by (simp add: clear_groups_def without_groups_frame)
next
  case False
  with assms obtain b1 u1 where l: "in_queue (qu_clear q pid (qu_iter q E @ qu_iter q (set (trajectory_keys_of pid E b)))) b = (b1, Inr u1)"
    and b': "b' = forget_groups pid E b1" by (auto simp: clear_groups_def shell_bind_run)
  from in_queue_run [OF l] show ?thesis
    by (auto simp: b' without_groups_def forget_groups_def trajectory_keys_of_def keys_drop_keys dget_drop_keys)
qed

lemma fetch_run:
  assumes "fetch_extra_fields q pid keys b = (b', Inr extras)"
  shows "\<exists>s. b' = b\<lparr>bf_world := s\<rparr>"
proof (cases "keys = []")
  case True
  with assms show ?thesis by (intro exI [of _ "bf_world b"]) (simp add: fetch_extra_fields_def)
next
  case False
  with assms show ?thesis by (auto simp: fetch_extra_fields_def dest!: in_queue_run)
qed

lemma classify_groups_run:
  assumes "classify_groups q metric pid uids keys extras b = (b', Inr res)"
  shows "\<exists>vals. b' = add_classes q pid uids vals b \<and> res = dapo_result (bf_cache b' pid) \<and> length keys = length extras \<and>
    loop_over (collect_metric q metric) (zip keys extras) (uids - uid_of ` set keys, \<lambda>_. []) = (({}, vals), Inr ())"
  using assms by (auto simp: classify_groups_def zip_error_def Let_def split: prod.splits sum.splits if_splits)

lemma dapo_filtered_keys_run:
  assumes "dapo_filtered_keys q c pid b = (b', Inr res)"
  shows "same_snapshot b b'"
proof (cases "bc_filter_groups_metric c = None \<or> pid = ''val''")
  case True
  with assms have "b' = b" by (auto simp: dapo_filtered_keys_def split: option.splits)
  then show ?thesis by (simp add: same_snapshot_def)
next
  case False
  then obtain metric where metric: "bc_filter_groups_metric c = Some metric" "pid \<noteq> ''val''" by auto
  let ?b1 = "prune_cache pid b"
  from assms metric obtain b2 extras where
    run: "fetch_extra_fields q pid (trajectory_keys_of pid (unclassified pid ?b1) ?b1) ?b1 = (b2, Inr extras)"
    and cl: "classify_groups q metric pid (unclassified pid ?b1) (trajectory_keys_of pid (unclassified pid ?b1) ?b1) extras b2 = (b', Inr res)"
    by (auto simp: dapo_filtered_keys_def Let_def shell_bind_run)
  from fetch_run [OF run] classify_groups_run [OF cl] show ?thesis by (auto simp: add_classes_def prune_cache_def same_snapshot_def)
qed

lemma terminal_eviction_reasons_run:
  assumes "terminal_eviction_reasons q c gs pid b = (b', Inr r)"
  shows "same_snapshot b b'"
    "pid = ''val'' \<Longrightarrow> evicted_of r = {}"
    "pid \<noteq> ''val'' \<Longrightarrow> bc_async c \<Longrightarrow> er_failed r = bf_failure b pid \<and> er_stale r = stale_terminal_keys c gs pid b"
    "\<not> bc_async c \<Longrightarrow> er_stale r = {} \<and> er_failed r \<subseteq> bf_failure b pid"
proof -
  consider "pid = ''val''" "b' = b" "r = no_reasons"
    | dapo counts where "pid \<noteq> ''val''" "dapo_filtered_keys q c pid b = (b', Inr (dapo, counts))"
        "r = (if bc_async c
           then \<lparr>er_stale = stale_terminal_keys c gs pid b, er_dapo = dapo, er_failed = bf_failure b' pid, er_dapo_counts = counts\<rparr>
           else \<lparr>er_stale = {}, er_dapo = dapo,
             er_failed = (if bc_sync_refill_failed_groups c then bf_failure b' pid - uid_of ` set (map fst (bf_partitions b' pid)) else {}),
             er_dapo_counts = counts\<rparr>)"
    using assms by (auto simp: terminal_eviction_reasons_def Let_def shell_bind_run split: if_splits)
  note cases = this
  then show same: "same_snapshot b b'"
  proof cases
    case 1
    then show ?thesis by (simp add: same_snapshot_def)
  next
    case 2
    from dapo_filtered_keys_run [OF 2(2)] show ?thesis .
  qed
  from same have fail: "bf_failure b' = bf_failure b" by (simp add: same_snapshot_def)
  show "pid = ''val'' \<Longrightarrow> evicted_of r = {}"
    "pid \<noteq> ''val'' \<Longrightarrow> bc_async c \<Longrightarrow> er_failed r = bf_failure b pid \<and> er_stale r = stale_terminal_keys c gs pid b"
    "\<not> bc_async c \<Longrightarrow> er_stale r = {} \<and> er_failed r \<subseteq> bf_failure b pid"
    using cases by (cases; auto simp: no_reasons_def evicted_of_def fail)+
qed

lemma evict_terminal_groups_run:
  assumes "evict_terminal_groups q gs pid r b = (b', Inr metrics)"
  shows "without_groups pid (evicted_of r) b b'"
  using assms by (auto simp: evict_terminal_groups_def Let_def shell_bind_run without_groups_frame dest: clear_groups_run split: if_splits)

lemma sync_select_run:
  assumes "sync_select q c pid n sampleable sa b = (b', Inr (sa', d))"
  shows "case d of
      Selected selected \<Rightarrow> n \<le> card sampleable \<and> selected = select_prompt_uids q pid sampleable n b \<and>
        (\<exists>E. E \<inter> set selected = {} \<and> without_groups pid E b b')
    | Again \<Rightarrow> False
    | Pause \<Rightarrow> b' = b \<and> sa' = sa \<and> (card sampleable < n \<or> dapo_enabled c pid \<and> inflight pid b > 0)"
proof -
  let ?selected = "select_prompt_uids q pid sampleable n b"
  consider "n \<le> card sampleable" "\<not> dapo_enabled c pid \<or> inflight pid b = 0" "d = Selected ?selected"
      "b' = b \<or> (\<exists>u. clear_groups q pid (sampleable - set ?selected) b = (b', Inr u))"
    | "d = Pause" "b' = b" "sa' = sa" "card sampleable < n \<or> dapo_enabled c pid \<and> inflight pid b > 0"
    using assms by (auto simp: sync_select_def Let_def shell_bind_run split: if_splits)
  then show ?thesis
  proof cases
    case 1
    from 1(4) have "\<exists>E. E \<inter> set ?selected = {} \<and> without_groups pid E b b'"
    proof
      assume "b' = b"
      then show ?thesis by (intro exI [of _ "{}"]) (simp add: without_groups_frame)
    next
      assume "\<exists>u. clear_groups q pid (sampleable - set ?selected) b = (b', Inr u)"
      then show ?thesis using clear_groups_run [of q pid "sampleable - set ?selected" b b'] by (intro exI [of _ "sampleable - set ?selected"]) auto
    qed
    with 1 show ?thesis by simp
  qed simp
qed

subsection \<open>The selected groups\<close>

text \<open>What CPython promises of a set: iteration lists every element once.\<close>

definition lists_sets :: "'s queue \<Rightarrow> bool" where
  "lists_sets q \<longleftrightarrow> (\<forall>S. finite S \<longrightarrow> distinct (qu_iter q S) \<and> set (qu_iter q S) = S)"

lemma select_prompt_uids_run:
  assumes "lists_sets q" "finite S" "n \<le> card S"
    and sel_def: "sel = select_prompt_uids q pid S n b"
  shows "distinct sel \<and> length sel = n \<and> set sel \<subseteq> S \<and>
    (\<forall>u \<in> set sel. \<forall>v \<in> S - set sel. dget_or (bf_steps b pid) u 0 \<le> dget_or (bf_steps b pid) v 0)"
proof -
  let ?step = "\<lambda>k. dget_or (bf_steps b pid) k 0"
  let ?xs = "sort_key ?step (qu_iter q S)"
  have xs: "distinct ?xs" "set ?xs = S" using assms by (auto simp: lists_sets_def)
  then have len: "length ?xs = card S" by (metis distinct_card)
  have sel: "sel = take n ?xs" by (simp add: sel_def select_prompt_uids_def)
  have order: "?step u \<le> ?step v" if "u \<in> set (take n ?xs)" "v \<in> S - set (take n ?xs)" for u v
  proof -
    have "set ?xs = set (take n ?xs) \<union> set (drop n ?xs)" by (metis append_take_drop_id set_append)
    then have "v \<in> set (drop n ?xs)" using that(2) xs(2) by blast
    moreover have "sorted (map ?step (take n ?xs @ drop n ?xs))" by simp
    ultimately show ?thesis using that(1) by (simp only: map_append sorted_append) auto
  qed
  show ?thesis using xs len assms(3) order by (auto simp: sel distinct_take dest: in_set_takeD)
qed

lemma sync_decide_selected:
  assumes "sync_decide q c pid n r sa b = (b', Inr (sa', Selected sel))"
    and S_def: "S = sampleable_terminal_keys pid r b"
  shows "n \<le> card S \<and> sel = select_prompt_uids q pid S n b \<and> (\<exists>E. E \<inter> set sel = {} \<and> without_groups pid E b b')"
proof -
  from assms(1) obtain sa1 where "sync_select q c pid n S sa1 b = (b', Inr (sa', Selected sel))"
    by (auto simp: sync_decide_def S_def Let_def shell_bind_run split: if_splits sum.splits)
  from sync_select_run [OF this, unfolded decision.case] show ?thesis .
qed

lemma insort_key_agree: "\<forall>y \<in> insert x (set ys). f y = g y \<Longrightarrow> insort_key f x ys = insort_key g x ys"
  by (induction ys) auto

lemma sort_key_agree: "\<forall>x \<in> set xs. f x = g x \<Longrightarrow> sort_key f xs = sort_key g xs"
proof (induction xs)
  case (Cons x xs)
  then have "sort_key f xs = sort_key g xs" by simp
  moreover have "insort_key f x (sort_key g xs) = insort_key g x (sort_key g xs)" using Cons.prems by (intro insort_key_agree) simp
  ultimately show ?case by simp
qed simp

text \<open>A poll that selects: its snapshot, the groups it evicted, and the choice from the rest.\<close>

lemma poll_selected:
  assumes "poll q c gs pid n sa b = (b', Inr (sa', Selected sel))" "lists_sets q"
  obtains s s' data r b1 S E where "qu_list q s = (s', Inr data)" "shows_both pid (items_of pid data) b1"
    "S = (bf_finished b1 pid \<union> bf_failure b1 pid) - evicted_of r" "n \<le> card S" "sel = select_prompt_uids q pid S n b1"
    "without_groups pid E b1 b'" "E \<inter> S \<inter> set sel = {}" "pid = ''val'' \<or> bc_async c \<longrightarrow> evicted_of r = {}"
    "pid \<noteq> ''val'' \<and> bc_async c \<longrightarrow> bf_failure b1 pid = {} \<and> stale_terminal_keys c gs pid b1 = {}"
proof -
  define rest where "rest = (\<lambda>r metrics. if bc_async c
    then (\<lambda>b3. let sa1 = note_evictions r metrics sa; sampleable = sampleable_terminal_keys pid r b3 in
      if evicted_of r \<noteq> {}
      then (if bc_has_refill c
            then shell_bind (in_queue (qu_refill q (card (evicted_of r))) b3) (\<lambda>_ b4. (b4, Inr (sa1, Again)))
            else (b3, Inr (sa1, Again)))
      else if has_enough_samples c gs pid n sampleable b3
      then (b3, Inr (sa1, Selected (select_prompt_uids q pid sampleable n b3)))
      else (b3, Inr (sa1, Pause)))
    else sync_decide q c pid n r (note_evictions r metrics sa))"
  have "poll q c gs pid n sa b =
     shell_bind (sync_metadata q b) (\<lambda>_ b1. shell_bind (terminal_eviction_reasons q c gs pid b1) (\<lambda>r b2.
     shell_bind (evict_terminal_groups q gs pid r b2) (\<lambda>metrics b3. rest r metrics b3)))"
    by (simp add: poll_def async_poll_def sync_poll_def rest_def)
  with assms(1) obtain b1 r b2 metrics b3 u where sync: "sync_metadata q b = (b1, Inr u)"
    and er: "terminal_eviction_reasons q c gs pid b1 = (b2, Inr r)"
    and ev: "evict_terminal_groups q gs pid r b2 = (b3, Inr metrics)"
    and fin: "rest r metrics b3 = (b', Inr (sa', Selected sel))" by (auto simp: shell_bind_run)
  let ?S3 = "sampleable_terminal_keys pid r b3"
  have dec: "n \<le> card ?S3 \<and> sel = select_prompt_uids q pid ?S3 n b3 \<and> (\<exists>E. E \<inter> set sel = {} \<and> without_groups pid E b3 b')"
    and quiet: "bc_async c \<Longrightarrow> evicted_of r = {}"
  proof -
    show "bc_async c \<Longrightarrow> evicted_of r = {}" using fin
      by (auto simp: rest_def Let_def shell_bind_run split: if_splits)
    show "n \<le> card ?S3 \<and> sel = select_prompt_uids q pid ?S3 n b3 \<and> (\<exists>E. E \<inter> set sel = {} \<and> without_groups pid E b3 b')"
    proof (cases "bc_async c")
      case True
      with fin have "has_enough_samples c gs pid n ?S3 b3" "sel = select_prompt_uids q pid ?S3 n b3" "b' = b3"
        by (auto simp: rest_def Let_def shell_bind_run split: if_splits)
      then show ?thesis by (auto simp: has_enough_samples_def intro!: exI [of _ "{}"])
    next
      case False
      with fin show ?thesis by (simp add: rest_def sync_decide_selected)
    qed
  qed
  then obtain E where E: "E \<inter> set sel = {}" "without_groups pid E b3 b'" by blast
  from sync_metadata_run [OF sync] obtain s' data where snap: "qu_list q (bf_world b) = (s', Inr data)"
    "shows_both pid (items_of pid data) b1" by blast
  note R = terminal_eviction_reasons_run [OF er]
  have W: "without_groups pid (evicted_of r) b1 b3"
    using without_groups_trans [OF same_snapshot_without [OF R(1)] evict_terminal_groups_run [OF ev]] by simp
  let ?S = "(bf_finished b1 pid \<union> bf_failure b1 pid) - evicted_of r"
  have S: "?S3 = ?S" using W by (auto simp: sampleable_terminal_keys_def without_groups_def)
  have steps: "dget_or (bf_steps b3 pid) k 0 = dget_or (bf_steps b1 pid) k 0" if "k \<notin> evicted_of r" for k
    using W that by (simp add: without_groups_def dget_or_def)
  show thesis
  proof (rule that [OF snap refl, where r = r and E = "evicted_of r \<union> E"])
    show "n \<le> card ?S" using dec S by simp
    show "sel = select_prompt_uids q pid ?S n b1"
    proof -
      have "finite ?S" using snap(2) by (simp add: shows_both_def shows_items_def)
      then have "\<forall>k \<in> set (qu_iter q ?S). k \<notin> evicted_of r" using assms(2) by (simp add: lists_sets_def)
      then have "sort_key (\<lambda>k. dget_or (bf_steps b3 pid) k 0) (qu_iter q ?S) = sort_key (\<lambda>k. dget_or (bf_steps b1 pid) k 0) (qu_iter q ?S)"
        by (intro sort_key_agree) (simp add: steps)
      with dec show ?thesis by (simp add: select_prompt_uids_def S)
    qed
    show "without_groups pid (evicted_of r \<union> E) b1 b'" by (rule without_groups_trans [OF W E(2)])
    show "(evicted_of r \<union> E) \<inter> ?S \<inter> set sel = {}" using E(1) by blast
    show "pid = ''val'' \<or> bc_async c \<longrightarrow> evicted_of r = {}" using R(2) quiet by blast
    show "pid \<noteq> ''val'' \<and> bc_async c \<longrightarrow> bf_failure b1 pid = {} \<and> stale_terminal_keys c gs pid b1 = {}"
      using R(3) quiet by (auto simp: evicted_of_def)
  qed
qed

subsection \<open>The sampled batch\<close>

lemma sample_loop_outcome:
  assumes "sample_loop q c gs pid n sa b = Some y"
  shows "snd y = Inr (sa', sel) \<longrightarrow> (\<exists>sa0 b0. poll q c gs pid n sa0 b0 = (fst y, Inr (sa', Selected sel)))"
proof (rule sample_loop.raw_induct [where P = "\<lambda>q c gs pid n sa b y. snd y = Inr (sa', sel) \<longrightarrow>
    (\<exists>sa0 b0. poll q c gs pid n sa0 b0 = (fst y, Inr (sa', Selected sel)))", OF _ assms], goal_cases)
  case (1 loop q c gs pid n sa b y)
  obtain b1 res where p: "poll q c gs pid n sa b = (b1, res)" by (rule prod.exhaust)
  show ?case
  proof (cases res)
    case (Inl e)
    with 1(2) p show ?thesis by auto
  next
    case (Inr x)
    obtain sa1 d where x: "x = (sa1, d)" by (cases x)
    show ?thesis
    proof (cases d)
      case (Selected uids)
      with 1(2) p Inr x have "y = (b1, Inr (sa1, uids))" by simp
      with p Inr x Selected show ?thesis by (intro impI exI [of _ sa] exI [of _ b]) simp
    next
      case Again
      with 1(2) p Inr x have "loop q c gs pid n sa1 b1 = Some y" by simp
      from 1(1) [OF this] show ?thesis .
    next
      case Pause
      with 1(2) p Inr x have "loop q c gs pid n sa1 (b1\<lparr>bf_world := qu_pause q (bf_world b1)\<rparr>) = Some y" by simp
      from 1(1) [OF this] show ?thesis .
    qed
  qed
qed

lemma sample_loop_last:
  "sample_loop q c gs pid n sa b = Some (b', Inr (sa', sel)) \<Longrightarrow> \<exists>sa0 b0. poll q c gs pid n sa0 b0 = (b', Inr (sa', Selected sel))"
  using sample_loop_outcome [of q c gs pid n sa b "(b', Inr (sa', sel))" sa' sel] by simp

lemma sample_run:
  assumes "sample q c gs pid n b = Some (b', Inr (batch, m))"
  obtains sa0 b0 sa1 b1 sel where "poll q c gs pid n sa0 b0 = (b1, Inr (sa1, Selected sel))" "check_selection c gs pid sel b1 = Inr ()"
    "kb_keys batch = filter (\<lambda>k. uid_of k \<in> set sel) (map fst (bf_partitions b1 pid))" "kb_partition_id batch = pid" "m = sa_metrics sa1"
proof -
  obtain b1 res where loop: "sample_loop q c gs pid n start_sampling b = Some (b1, res)"
    using assms by (auto simp: sample_def)
  with assms obtain sa1 sel where res: "res = Inr (sa1, sel)"
    by (cases res) (auto simp: sample_def)
  have l: "sample_loop q c gs pid n start_sampling b = Some (b1, Inr (sa1, sel))"
    and ch: "check_selection c gs pid sel b1 = Inr ()"
    and mat: "materialize_batch q pid sel (bf_partitions b1 pid) b1 = (b', Inr batch)" and m: "m = sa_metrics sa1"
    using assms loop res by (auto simp: sample_def shell_bind_run split: sum.splits)
  from sample_loop_last [OF l] obtain sa0 b0 where "poll q c gs pid n sa0 b0 = (b1, Inr (sa1, Selected sel))" by blast
  moreover have "kb_keys batch = filter (\<lambda>k. uid_of k \<in> set sel) (map fst (bf_partitions b1 pid))" "kb_partition_id batch = pid"
    using mat by (auto simp: materialize_batch_def shell_bind_run Let_def filter_map o_def case_prod_unfold)
  ultimately show thesis using ch m by (intro that)
qed

lemma sampled_groups_run:
  assumes "sample q c gs pid n b = Some (b', Inr (batch, m))" "lists_sets q"
  shows "\<exists>s s' data sel. qu_list q s = (s', Inr data) \<and> distinct sel \<and> length sel = n \<and>
    set sel \<subseteq> prompts_with ''finished'' (items_of pid data) \<union> prompts_with ''failure'' (items_of pid data) \<and>
    set (kb_keys batch) = {k \<in> trajectories_in (items_of pid data). uid_of k \<in> set sel}"
proof -
  from sample_run [OF assms(1)] obtain sa0 b0 sa1 b1 sel where p: "poll q c gs pid n sa0 b0 = (b1, Inr (sa1, Selected sel))"
    and keys: "kb_keys batch = filter (\<lambda>k. uid_of k \<in> set sel) (map fst (bf_partitions b1 pid))" .
  from poll_selected [OF p assms(2)] obtain s s' data r b2 S E where snap: "qu_list q s = (s', Inr data)" "shows_both pid (items_of pid data) b2"
    and S: "S = (bf_finished b2 pid \<union> bf_failure b2 pid) - evicted_of r" and enough: "n \<le> card S" and sel: "sel = select_prompt_uids q pid S n b2"
    and W: "without_groups pid E b2 b1" and E: "E \<inter> S \<inter> set sel = {}" .
  have shown: "bf_finished b2 pid = prompts_with ''finished'' (items_of pid data)" "bf_failure b2 pid = prompts_with ''failure'' (items_of pid data)"
    "fst ` set (bf_partitions b2 pid) = trajectories_in (items_of pid data)"
    using snap(2) by (simp_all add: shows_both_def shows_items_def)
  then have "finite S" using S by simp
  from select_prompt_uids_run [OF assms(2) this enough sel]
  have T: "distinct sel" "length sel = n" "set sel \<subseteq> S" by simp_all
  have "set (kb_keys batch) = {k \<in> fst ` set (bf_partitions b1 pid). uid_of k \<in> set sel}" by (auto simp: keys)
  also have "\<dots> = {k \<in> fst ` set (bf_partitions b2 pid). uid_of k \<in> set sel}"
  proof -
    have "fst ` set (bf_partitions b1 pid) = {k \<in> fst ` set (bf_partitions b2 pid). uid_of k \<notin> E}" using W by (simp add: without_groups_def)
    moreover have "E \<inter> set sel = {}" using E T(3) by blast
    ultimately show ?thesis by blast
  qed
  also have "fst ` set (bf_partitions b2 pid) = trajectories_in (items_of pid data)" by (rule shown)
  finally have rows: "set (kb_keys batch) = {k \<in> trajectories_in (items_of pid data). uid_of k \<in> set sel}" .
  have "set sel \<subseteq> prompts_with ''finished'' (items_of pid data) \<union> prompts_with ''failure'' (items_of pid data)"
    using T(3) S shown(1,2) by blast
  with snap(1) T(1,2) rows show ?thesis by blast
qed

text \<open>
  C23: a sampled batch holds exactly the trajectories of as many distinct prompts as were asked for, and every
  one of these prompts was finished or failed in one listing of the queue, the same listing that the
  trajectories are from: no prompt still running, no half of a group, no prompt twice.
\<close>

theorem sampled_groups_complete:
  assumes "sample q c gs pid n b = Some (b', Inr (batch, m))" "lists_sets q"
  shows "\<exists>s s' data sel. qu_list q s = (s', Inr data) \<and> distinct sel \<and> length sel = n \<and>
    set sel \<subseteq> prompts_with ''finished'' (items_of pid data) \<union> prompts_with ''failure'' (items_of pid data) \<and>
    set (kb_keys batch) = {k \<in> trajectories_in (items_of pid data). uid_of k \<in> set sel}"
  by (rule sampled_groups_run [OF assms])

subsection \<open>The asynchronous sampler\<close>

text \<open>A listing is a dict: every key of a partition has one tag.\<close>

definition lists_dicts :: "'s queue \<Rightarrow> bool" where
  "lists_dicts q \<longleftrightarrow> (\<forall>s s' data pid. qu_list q s = (s', Inr data) \<longrightarrow> distinct (map fst (items_of pid data)))"

definition step_in :: "(string \<times> dict) list \<Rightarrow> string \<Rightarrow> int" where
  "step_in items k = (case map_of items k of Some tag \<Rightarrow> (case dget tag ''global_steps'' of Some (PInt g) \<Rightarrow> g | _ \<Rightarrow> 0) | None \<Rightarrow> 0)"

lemma shown_step:
  assumes "shows_steps pid items b" "distinct (map fst items)" "k \<in> prompts_with st items"
  shows "dget (bf_steps b pid) k = Some (step_in items k)"
proof -
  from assms(3) obtain tag where tag: "(k, tag) \<in> set items" "is_prompt_tag tag" by (auto simp: prompts_with_def)
  then have "dget (bf_steps b pid) k \<noteq> None" using assms(1) unfolding shows_steps_def by blast
  then obtain g where g: "dget (bf_steps b pid) k = Some g" by blast
  then obtain tag' where tag': "(k, tag') \<in> set items" "dget tag' ''global_steps'' = Some (PInt g)"
    using assms(1) unfolding shows_steps_def by blast
  from assms(2) tag'(1) have "map_of items k = Some tag'" by (rule map_of_is_SomeI)
  then have "step_in items k = g" using tag'(2) by (simp add: step_in_def)
  with g show ?thesis by simp
qed

text \<open>
  C25: what the asynchronous sampler trains on is fresh and fair.  Every selected prompt is finished, failed groups
  are not sampled; with the strategy \<open>drop\<close> none is older than the threshold of model versions; and no finished
  group is passed over for a younger one.
\<close>

theorem async_batch_fresh:
  assumes "sample q c gs pid n b = Some (b', Inr (batch, m))" "lists_sets q" "lists_dicts q" "bc_async c" "pid \<noteq> ''val''"
  shows "\<exists>s s' data sel. qu_list q s = (s', Inr data) \<and>
    (let items = items_of pid data; finished = prompts_with ''finished'' items in
     set (kb_keys batch) = {k \<in> trajectories_in items. uid_of k \<in> set sel} \<and> length sel = n \<and> set sel \<subseteq> finished \<and>
     (\<forall>u \<in> set sel. \<forall>v \<in> finished - set sel. step_in items u \<le> step_in items v) \<and>
     (bc_max_off_policy_strategy c = ''drop'' \<longrightarrow> (\<forall>u \<in> set sel. gs - step_in items u + 1 \<le> bc_max_off_policy_threshold c)))"
proof -
  from sample_run [OF assms(1)] obtain sa0 b0 sa1 b1 sel where p: "poll q c gs pid n sa0 b0 = (b1, Inr (sa1, Selected sel))"
    and keys: "kb_keys batch = filter (\<lambda>k. uid_of k \<in> set sel) (map fst (bf_partitions b1 pid))" .
  from poll_selected [OF p assms(2)] obtain s s' data r b2 S E where snap: "qu_list q s = (s', Inr data)" "shows_both pid (items_of pid data) b2"
    and S: "S = (bf_finished b2 pid \<union> bf_failure b2 pid) - evicted_of r" and enough: "n \<le> card S" and sel: "sel = select_prompt_uids q pid S n b2"
    and W: "without_groups pid E b2 b1" and E: "E \<inter> S \<inter> set sel = {}" and none: "pid = ''val'' \<or> bc_async c \<longrightarrow> evicted_of r = {}"
    and quiet: "pid \<noteq> ''val'' \<and> bc_async c \<longrightarrow> bf_failure b2 pid = {} \<and> stale_terminal_keys c gs pid b2 = {}" .
  define items where "items = items_of pid data"
  have shown: "bf_finished b2 pid = prompts_with ''finished'' items" "fst ` set (bf_partitions b2 pid) = trajectories_in items" "shows_steps pid items b2"
    using snap(2) by (simp_all add: shows_both_def shows_items_def items_def)
  then have S': "S = prompts_with ''finished'' items" using S none quiet assms(4,5) by simp
  then have "finite S" by simp
  from select_prompt_uids_run [OF assms(2) this enough sel]
  have T: "distinct sel" "length sel = n" "set sel \<subseteq> S" and
    older: "\<forall>u \<in> set sel. \<forall>v \<in> S - set sel. dget_or (bf_steps b2 pid) u 0 \<le> dget_or (bf_steps b2 pid) v 0" by simp_all
  have "distinct (map fst items)" using assms(3) snap(1) unfolding lists_dicts_def items_def by blast
  then have step: "dget (bf_steps b2 pid) k = Some (step_in items k)" if "k \<in> S" for k using shown_step [OF shown(3)] that S' by blast
  have order: "\<forall>u \<in> set sel. \<forall>v \<in> S - set sel. step_in items u \<le> step_in items v"
    using older T(3) by (auto simp: dget_or_def step subset_iff)
  have fresh: "gs - step_in items u + 1 \<le> bc_max_off_policy_threshold c" if "bc_max_off_policy_strategy c = ''drop''" "u \<in> set sel" for u
  proof -
    have u: "u \<in> S" using that(2) T(3) by blast
    then have "u \<in> bf_finished b2 pid" by (simp add: S' shown)
    moreover have "stale_terminal_keys c gs pid b2 = {}" using quiet assms(4,5) by blast
    ultimately have "\<not> span_of gs pid b2 u > bc_max_off_policy_threshold c" using that(1) assms(5) by (auto simp: stale_terminal_keys_def)
    then show ?thesis by (simp add: span_of_def dget_or_def step [OF u])
  qed
  have E': "E \<inter> set sel = {}" using E T(3) by blast
  have "set (kb_keys batch) = {k \<in> fst ` set (bf_partitions b1 pid). uid_of k \<in> set sel}" by (auto simp: keys)
  also have "\<dots> = {k \<in> fst ` set (bf_partitions b2 pid). uid_of k \<in> set sel}" using W E' by (auto simp: without_groups_def)
  finally have "set (kb_keys batch) = {k \<in> trajectories_in items. uid_of k \<in> set sel}" by (simp add: shown)
  with snap(1) T(2,3) order fresh show ?thesis unfolding S' items_def Let_def by blast
qed

subsection \<open>Replacements\<close>

definition groups_of :: "(string \<times> dict) list \<Rightarrow> string set" where
  "groups_of items = prompts_with ''pending'' items \<union> prompts_with ''running'' items \<union> prompts_with ''finished'' items \<union> prompts_with ''failure'' items"

definition groups_in :: "string \<Rightarrow> 's buffer \<Rightarrow> string set" where
  "groups_in pid b = bf_pending b pid \<union> bf_running b pid \<union> bf_finished b pid \<union> bf_failure b pid"

lemma dapo_result_finite: "finite (fst (dapo_result cache))"
  by (simp add: dapo_result_def)

lemma dapo_filtered_keys_finite:
  assumes "dapo_filtered_keys q c pid b = (b', Inr res)"
  shows "finite (fst res)"
proof (cases "bc_filter_groups_metric c = None \<or> pid = ''val''")
  case True
  with assms have "res = ({}, [])" by (auto simp: dapo_filtered_keys_def split: option.splits)
  then show ?thesis by simp
next
  case False
  then obtain metric where "bc_filter_groups_metric c = Some metric" "pid \<noteq> ''val''" by auto
  with assms obtain uids keys extras b2 where "classify_groups q metric pid uids keys extras b2 = (b', Inr res)"
    by (auto simp: dapo_filtered_keys_def Let_def shell_bind_run)
  from classify_groups_run [OF this] show ?thesis by (auto simp: dapo_result_finite)
qed

lemma sync_reasons_evicted:
  assumes "terminal_eviction_reasons q c gs pid b = (b', Inr r)" "\<not> bc_async c" "finite (bf_failure b pid)"
  shows "finite (evicted_of r) \<and> card (evicted_of r) \<le> card (er_dapo r) + card (er_failed r)"
proof -
  note R = terminal_eviction_reasons_run [OF assms(1)]
  have "finite (er_dapo r)"
    using assms(1) dapo_filtered_keys_finite
    by (fastforce simp: terminal_eviction_reasons_def no_reasons_def Let_def shell_bind_run split: if_splits)
  moreover have "finite (er_failed r)" using R(4) assms(2,3) finite_subset by blast
  moreover have "evicted_of r = er_dapo r \<union> er_failed r" using R(4) assms(2) by (simp add: evicted_of_def)
  ultimately show ?thesis by (simp add: card_Un_le)
qed

text \<open>
  How a poll of the synchronous sampler ends, with enough groups or with the credit of its evictions.
  \<open>supply\<close> is what can still become a sample: groups in the queue, and credit.
\<close>

lemma sync_decide_supply:
  assumes "sync_decide q c pid n r sa b = (b', Inr (sa', d))" "dapo_enabled c pid" "\<not> sa_draining sa" "0 \<le> sa_refill_credit sa"
    "bc_gen_batch_size c = Some 1" "0 < bc_max_inflight_gen_batches c * bc_train_batch_size c"
    "evicted_of r \<inter> (bf_finished b pid \<union> bf_failure b pid) = {}" "finite (groups_in pid b)"
  defines "supply \<equiv> int (card (groups_in pid b)) + sa_refill_credit sa + 2 * int (card (er_dapo r)) + int (card (er_failed r))"
  assumes "int n \<le> supply"
  shows "case d of Selected _ \<Rightarrow> True
    | Pause \<Rightarrow> 0 < inflight pid b' \<and> (sa_draining sa' \<or> int n \<le> int (card (groups_in pid b')) + sa_refill_credit sa')
    | Again \<Rightarrow> \<exists>k > 0. in_queue (qu_refill q k) b = (b', Inr ()) \<and> int n \<le> int (card (groups_in pid b)) + int k + sa_refill_credit sa'"
proof -
  let ?S = "sampleable_terminal_keys pid r b" and ?credit = "sa_refill_credit sa + 2 * int (card (er_dapo r)) + int (card (er_failed r))"
  have S: "?S = bf_finished b pid \<union> bf_failure b pid" using assms(7) by (auto simp: sampleable_terminal_keys_def)
  have idle: "groups_in pid b = ?S" if "inflight pid b = 0"
    using that assms(8) by (auto simp: inflight_def groups_in_def S)
  show ?thesis
  proof (cases "n \<le> card ?S")
    case True
    then have sel: "sync_select q c pid n ?S (sa\<lparr>sa_draining := True, sa_refill_credit := 0\<rparr>) b = (b', Inr (sa', d))"
      using assms(1,2) by (simp add: sync_decide_def Let_def credit_after_def)
    from sync_select_run [OF sel] True show ?thesis by (cases d) auto
  next
    case few: False
    let ?sa = "sa\<lparr>sa_refill_credit := ?credit\<rparr>"
    let ?k = "min ?credit (max 0 (bc_max_inflight_gen_batches c * bc_train_batch_size c - int (inflight pid b)))"
    have dec: "sync_decide q c pid n r sa b =
      (if ?credit > 0 \<and> ?k > 0
       then shell_bind (in_queue (qu_refill q (nat ?k)) b) (\<lambda>_ b1. (b1, Inr (?sa\<lparr>sa_refill_credit := ?credit - ?k\<rparr>, Again)))
       else sync_select q c pid n ?S ?sa b)"
      using few assms(2,3,5) by (simp add: sync_decide_def Let_def credit_after_def dispatch_count_def)
    show ?thesis
    proof (cases "?credit > 0 \<and> ?k > 0")
      case True
      define k where "k = ?k"
      have "shell_bind (in_queue (qu_refill q (nat k)) b) (\<lambda>_ b1. (b1, Inr (?sa\<lparr>sa_refill_credit := ?credit - k\<rparr>, Again))) = (b', Inr (sa', d))"
        using assms(1) unfolding dec if_P [OF True] k_def .
      then have "in_queue (qu_refill q (nat k)) b = (b', Inr ())" "d = Again" "sa_refill_credit sa' = ?credit - k"
        by (auto simp: shell_bind_run)
      moreover have "0 < k" using True by (simp add: k_def)
      ultimately show ?thesis using assms(10) by (auto simp: supply_def intro!: exI [of _ "nat k"])
    next
      case False
      have sel: "sync_select q c pid n ?S ?sa b = (b', Inr (sa', d))" using assms(1) unfolding dec if_not_P [OF False] .
      have busy: "0 < inflight pid b"
      proof (rule ccontr)
        assume "\<not> 0 < inflight pid b"
        then have i: "inflight pid b = 0" by simp
        then have "?k = min ?credit (bc_max_inflight_gen_batches c * bc_train_batch_size c)" using assms(6) by simp
        then have "?credit = 0" using False assms(4,6) by (auto simp: min_def split: if_splits)
        then show False using few idle [OF i] assms(10) by (simp add: supply_def)
      qed
      from sync_select_run [OF sel] few busy assms(10) show ?thesis by (cases d) (auto simp: supply_def)
    qed
  qed
qed


end
