(* ===== verification/ReplayMore.thy ===== *)
theory ReplayMore
  imports ReplayProps FieldProps
begin

text \<open>
  The replay buffer, continued: the groups that dynamic filtering takes for equal, the merged metrics, and the
  queue as the rollout framework fills it.  Concrete buffers for the witnesses.
\<close>

subsection \<open>Groups without a signal\<close>

lemma squares_zero: "sum_list (map (\<lambda>x. (x - m) ^ 2) xs) = (0 :: rat) \<longleftrightarrow> (\<forall>x \<in> set xs. x = m)"
proof (induction xs)
  case (Cons x xs)
  have "0 \<le> sum_list (map (\<lambda>x. (x - m) ^ 2) xs)" by (intro sum_list_nonneg) auto
  then have "sum_list (map (\<lambda>x. (x - m) ^ 2) (x # xs)) = 0 \<longleftrightarrow> (x - m) ^ 2 = 0 \<and> sum_list (map (\<lambda>x. (x - m) ^ 2) xs) = 0"
    by (simp add: add_nonneg_eq_0_iff)
  with Cons.IH show ?case by simp
qed simp

lemma no_spread_iff:
  assumes "xs \<noteq> []"
  shows "no_spread xs \<longleftrightarrow> (\<forall>x \<in> set xs. x = hd xs)"
proof -
  define m where "m = sum_list xs / of_nat (length xs)"
  have sq: "no_spread xs \<longleftrightarrow> (\<forall>x \<in> set xs. x = m)"
    using assms squares_zero [of m xs] by (simp add: no_spread_def Let_def m_def)
  show ?thesis
  proof
    assume "no_spread xs"
    then have "\<forall>x \<in> set xs. x = m" by (simp add: sq)
    moreover from this have "hd xs = m" using assms by simp
    ultimately show "\<forall>x \<in> set xs. x = hd xs" by blast
  next
    assume a: "\<forall>x \<in> set xs. x = hd xs"
    then have "xs = replicate (length xs) (hd xs)" by (simp add: replicate_length_same)
    then have "sum_list xs = of_nat (length xs) * hd xs" by (metis sum_list_replicate)
    then have "m = hd xs" using assms by (simp add: m_def)
    with a show "no_spread xs" by (simp add: sq)
  qed
qed

text \<open>A group is filtered exactly when it has several trajectories and they all have the value reported for it.\<close>

lemma classify_iff: "classify xs = Some v \<longleftrightarrow> length xs > 1 \<and> (\<forall>x \<in> set xs. x = v)"
proof -
  have "xs \<noteq> []" if "length xs > 1" using that by auto
  then show ?thesis by (cases xs) (auto simp: classify_def no_spread_iff)
qed

subsection \<open>Merged metrics\<close>

lemma merge_number_other: "K \<noteq> fst e \<Longrightarrow> dget (merge_number p n e acc) K = dget acc K"
  by (cases e) (simp add: merge_number_def Let_def)

lemma fold_merge_other: "K \<notin> fst ` set es \<Longrightarrow> dget (fold (merge_number p n) es acc) K = dget acc K"
  by (induction es arbitrary: acc) (simp_all add: merge_number_other)

definition stale_key :: "string \<Rightarrow> string \<Rightarrow> string" where
  "stale_key pid s = metrics_prefix pid @ ''/off_policy/evicted_samples'' @ s"

definition spans_of :: "'s queue \<Rightarrow> string \<Rightarrow> int \<times> eviction_reasons \<times> 's buffer \<Rightarrow> int list" where
  "spans_of q pid run = (case run of (gs, r, b) \<Rightarrow> map (span_of gs pid b) (qu_iter q (er_stale r)))"

definition merge_run :: "'s queue \<Rightarrow> string \<Rightarrow> eviction_metrics \<Rightarrow> int \<times> eviction_reasons \<times> 's buffer \<Rightarrow> eviction_metrics" where
  "merge_run q pid acc run =
     (case run of (gs, r, b) \<Rightarrow> accumulate_eviction_metrics acc (eviction_metrics_of q gs pid r b) (card (er_stale r)))"

definition merged_ok :: "string \<Rightarrow> int list \<Rightarrow> eviction_metrics \<Rightarrow> bool" where
  "merged_ok pid spans acc \<longleftrightarrow>
     dget (em_numbers acc) (stale_key pid []) = (if spans = [] then None else Some (of_nat (length spans))) \<and>
     dget (em_numbers acc) (stale_key pid ''_staleness/mean'') =
       (if spans = [] then None else Some (of_int (sum_list spans) / of_nat (length spans)))"

lemma prefix_cases: "metrics_prefix pid = ''training'' \<or> metrics_prefix pid = ''validation''"
  by (simp add: metrics_prefix_def)

lemma staleness_keys:
  "endswith (metrics_prefix pid @ ''/off_policy/evicted_samples_staleness/mean'') ''/evicted_samples_staleness/mean''"
  "\<not> endswith (metrics_prefix pid @ ''/off_policy/evicted_samples'') ''/evicted_samples_staleness/mean''"
  "\<not> endswith (metrics_prefix pid @ ''/off_policy/evicted_samples'') ''/evicted_samples_staleness/max''"
  "\<not> endswith (metrics_prefix pid @ ''/off_policy/evicted_samples'') ''/evicted_samples_staleness/min''"
  using prefix_cases [of pid] by (auto simp: endswith_def)

lemma merge_run_ok:
  assumes "merged_ok pid spans acc" "lists_sets q" "finite (er_stale r)"
  shows "merged_ok pid (spans @ spans_of q pid (gs, r, b)) (merge_run q pid acc (gs, r, b))"
proof -
  define new where "new = spans_of q pid (gs, r, b)"
  have len: "length new = card (er_stale r)"
    using assms(2,3) by (simp add: new_def spans_of_def lists_sets_def distinct_card [symmetric])
  have none: "new = [] \<longleftrightarrow> er_stale r = {}" using len assms(3) by auto
  define prev where "prev = dget_or (em_numbers acc) (stale_key pid []) 0"
  define stale where "stale = (if er_stale r = {} then [] else staleness_metrics (metrics_prefix pid) new)"
  obtain others where nums: "em_numbers (eviction_metrics_of q gs pid r b) = stale @ others"
    and others: "fst ` set others \<subseteq> {metrics_prefix pid @ ''/filter_groups/evicted_samples'', metrics_prefix pid @ ''/rollout_failure/evicted_samples''}"
    by (rule that [of "(if er_dapo r = {} then [] else [(metrics_prefix pid @ ''/filter_groups/evicted_samples'', of_nat (card (er_dapo r)))]) @
         (if er_failed r = {} then [] else [(metrics_prefix pid @ ''/rollout_failure/evicted_samples'', of_nat (card (er_failed r)))])"])
      (auto simp: eviction_metrics_of_def Let_def stale_def new_def spans_of_def)
  have other: "stale_key pid [] \<notin> fst ` set others" "stale_key pid ''_staleness/mean'' \<notin> fst ` set others"
    using others by (auto simp: stale_key_def)
  have quiet: "\<not> endswith k ''/off_policy/evicted_samples''" if "k \<in> fst ` set others" for k
    using others that prefix_cases [of pid] by (auto simp: endswith_def)
  have found: "find (\<lambda>(k, _). endswith k ''/off_policy/evicted_samples'') (stale @ others) =
      (if new = [] then None else Some (stale_key pid [], of_nat (length new)))"
  proof (cases "new = []")
    case True
    then have "stale = []" using none by (simp add: stale_def)
    moreover have "find (\<lambda>(k, _). endswith k ''/off_policy/evicted_samples'') others = None"
      using quiet by (force simp: find_None_iff)
    ultimately show ?thesis using True by simp
  next
    case False
    then show ?thesis using none by (simp add: stale_def staleness_metrics_def stale_key_def endswith_def)
  qed
  let ?m = "merge_number (if new = [] then 0 else prev) (of_nat (length new))"
  have out: "em_numbers (merge_run q pid acc (gs, r, b)) = fold ?m others (fold ?m stale (em_numbers acc))"
    by (simp add: merge_run_def accumulate_eviction_metrics_def nums found prev_def len Let_def)
  show ?thesis
  proof (cases "new = []")
    case True
    then have "stale = []" using none by (simp add: stale_def)
    with assms(1) True other show ?thesis by (simp add: merged_ok_def out fold_merge_other flip: new_def)
  next
    case False
    then have st: "stale = staleness_metrics (metrics_prefix pid) new" using none by (simp add: stale_def)
    have prev: "prev = of_nat (length spans)" using assms(1) by (simp add: prev_def merged_ok_def dget_or_def)
    let ?len = "of_nat (length new) :: rat"
    let ?m' = "merge_number prev (of_nat (length new))"
    define e1 where "e1 = (stale_key pid [], ?len)"
    define e2 where "e2 = (stale_key pid ''_staleness/mean'', of_int (sum_list new) / ?len)"
    obtain e3 e4 where e: "stale = [e1, e2, e3, e4]" "fst e3 = stale_key pid ''_staleness/max''" "fst e4 = stale_key pid ''_staleness/min''"
      by (rule that [of "(stale_key pid ''_staleness/max'', of_int (foldr max new (hd new)))" "(stale_key pid ''_staleness/min'', of_int (foldr min new (hd new)))"])
        (simp_all add: st staleness_metrics_def e1_def e2_def stale_key_def)
    define after where "after = ?m' e1 (em_numbers acc)"
    have run: "fold ?m stale (em_numbers acc) = ?m' e4 (?m' e3 (?m' e2 after))" using False by (simp add: e after_def)
    have after1: "dget after (stale_key pid []) = Some (prev + ?len)"
      using staleness_keys [of pid] by (simp add: after_def e1_def merge_number_def stale_key_def prev_def)
    have after2: "dget_or after (stale_key pid ''_staleness/mean'') 0 = dget_or (em_numbers acc) (stale_key pid ''_staleness/mean'') 0"
      by (simp add: after_def dget_or_def merge_number_other e1_def stale_key_def)
    have "0 < ?len" using False by simp
    then have "prev + ?len \<noteq> 0" unfolding prev by (metis add_nonneg_pos less_irrefl of_nat_0_le_iff)
    then have mean: "dget (?m' e2 after) (stale_key pid ''_staleness/mean'') =
        Some ((dget_or (em_numbers acc) (stale_key pid ''_staleness/mean'') 0 * prev + of_int (sum_list new) / ?len * ?len) / (prev + ?len))"
      using staleness_keys [of pid] after2 by (simp add: e2_def merge_number_def stale_key_def Let_def)
    have count: "dget (fold ?m stale (em_numbers acc)) (stale_key pid []) = Some (of_nat (length (spans @ new)))"
      using after1 prev by (simp add: run merge_number_other e(2,3) e2_def stale_key_def)
    have "dget_or (em_numbers acc) (stale_key pid ''_staleness/mean'') 0 * prev = of_int (sum_list spans)"
      using assms(1) prev by (auto simp: merged_ok_def dget_or_def)
    then have "dget (fold ?m stale (em_numbers acc)) (stale_key pid ''_staleness/mean'') =
        Some (of_int (sum_list (spans @ new)) / of_nat (length (spans @ new)))"
      unfolding run using mean prev by (simp add: merge_number_other e(2,3) stale_key_def)
    with count show ?thesis using False other by (simp add: merged_ok_def out fold_merge_other flip: new_def)
  qed
qed


subsection \<open>The queue as the rollout framework fills it\<close>

text \<open>
  Uids without an underscore, like the ones the trainer draws: the sampler's reading of a key then undoes the
  framework's naming of it.
\<close>

lemma uid_of_tq_key: "CHR ''_'' \<notin> set uid \<Longrightarrow> uid_of (tq_key uid i j) = uid"
proof -
  assume "CHR ''_'' \<notin> set uid"
  then have "takeWhile (\<lambda>c. c \<noteq> CHR ''_'') (uid @ CHR ''_'' # rest) = uid" for rest
    by (simp add: takeWhile_append)
  then show ?thesis by (simp add: uid_of_def tq_key_def)
qed

lemma underscore_splits_group: "uid_of (tq_key ''task_7'' 0 0) = ''task''"
  by (simp add: uid_of_def tq_key_def)

text \<open>
  TransferQueue's documented listing: the tags put for a key are merged.  \<open>put_tags\<close> are the tags of the
  operations on a partition, in order.
\<close>

fun put_tags :: "string \<Rightarrow> tq_op \<Rightarrow> (string \<times> dict) list" where
  "put_tags pid (KvPut k p tag) = (if p = pid then [(k, tag)] else [])"
| "put_tags pid (KvBatchPut ks td tags p) = (if p = pid then zip ks tags else [])"

definition listing :: "string \<Rightarrow> (string \<times> dict) list \<Rightarrow> tq_op list \<Rightarrow> (string \<times> dict) list" where
  "listing pid before ops = fold (\<lambda>(k, tag) d. dset d k (dupdate (dget_or d k []) tag)) (concat (map (put_tags pid) ops)) before"

lemma listing_append: "listing pid d (a @ b) = listing pid (listing pid d a) b"
  by (simp add: listing_def)

definition merge_tags :: "(string \<times> dict) list \<Rightarrow> (string \<times> dict) list \<Rightarrow> (string \<times> dict) list" where
  "merge_tags xs d = fold (\<lambda>(k, tag) d. dset d k (dupdate (dget_or d k []) tag)) xs d"

lemma merge_tags_simps [simp]:
  "merge_tags [] d = d" "merge_tags ((k, tag) # xs) d = merge_tags xs (dset d k (dupdate (dget_or d k []) tag))"
  by (simp_all add: merge_tags_def)

lemma merge_tags_other: "k \<notin> fst ` set xs \<Longrightarrow> dget (merge_tags xs d) k = dget d k"
  by (induction xs arbitrary: d) auto

lemma merge_tags_new:
  assumes "distinct (map fst xs)" "(k, tag) \<in> set xs" "dget d k = None"
  shows "dget (merge_tags xs d) k = Some (dupdate [] tag)"
  using assms
proof (induction xs arbitrary: d)
  case (Cons x xs)
  obtain k' tag' where x: "x = (k', tag')" by (cases x)
  show ?case
  proof (cases "k' = k")
    case True
    with Cons.prems x have "tag' = tag" "k \<notin> fst ` set xs" by (auto simp: image_iff)
    with True Cons.prems(3) x show ?thesis by (simp add: merge_tags_other dget_or_def)
  next
    case False
    with Cons.prems x have "(k, tag) \<in> set xs" by auto
    with Cons False x show ?thesis by simp
  qed
qed simp

lemma merge_tags_keys: "fst ` set (merge_tags xs d) = fst ` set d \<union> fst ` set xs"
proof (induction xs arbitrary: d)
  case (Cons x xs)
  then show ?case by (cases x) (simp only: merge_tags_simps fst_dset list.simps image_insert fst_conv Un_insert_right Un_insert_left)
qed simp

lemma merge_tags_distinct: "distinct (map fst d) \<Longrightarrow> distinct (map fst (merge_tags xs d))"
  by (induction xs arbitrary: d) auto

lemma listing_merge: "listing pid d ops = merge_tags (concat (map (put_tags pid) ops)) d"
  by (simp add: listing_def merge_tags_def)

text \<open>The tags that the framework puts for the trajectories of a prompt: one for every key, none a prompt's.\<close>

lemma written_tags:
  assumes "write_session_trajectories_to_tq env fw uid i ts sf g pid = (ops, r)"
  shows "map fst (concat (map (put_tags pid) ops)) = written_keys ops \<and>
    (\<forall>(k, tag) \<in> set (concat (map (put_tags pid) ops)). dget tag ''is_prompt'' = None \<and> distinct (map fst tag))"
proof (cases "ops = []")
  case False
  then obtain rows td where rows: "rmap (trajectory_to_tq_field_and_tag (re_f32 env) (fw_processor fw) (fw_mask_unfinished_episode fw) sf i g uid) ts = Inr rows"
    and ops: "ops = [KvBatchPut (map (tq_key uid i) [0..<length ts]) td (map snd rows) pid]"
    using assms by (auto simp: write_session_trajectories_to_tq_def tq_put_def split: sum.splits)
  have "dget (snd row) ''is_prompt'' = None \<and> distinct (map fst (snd row))" if "row \<in> set rows" for row
  proof -
    from rmap_Inr_set [OF rows that] obtain t where "snd row = trajectory_tag t g uid"
      by (auto simp: trajectory_to_tq_field_and_tag_def err_simps)
    then show ?thesis by (simp add: trajectory_tag_def Let_def)
  qed
  then have "\<forall>tag \<in> set (map snd rows). dget tag ''is_prompt'' = None \<and> distinct (map fst tag)" by simp
  then have "\<forall>(k, tag) \<in> set (zip (map (tq_key uid i) [0..<length ts]) (map snd rows)). dget tag ''is_prompt'' = None \<and> distinct (map fst tag)"
    using set_zip_rightD by fast
  then show ?thesis using rmap_length [OF rows] by (simp add: ops written_keys_def)
qed (simp add: written_keys_def)

lemma put_tags_append: "concat (map (put_tags pid) (a @ b)) = concat (map (put_tags pid) a) @ concat (map (put_tags pid) b)"
  by simp

lemma absorbed_tags:
  assumes "absorb_outcomes env fw uid g pid i outs st = (ops, Inr st')"
  shows "map fst (concat (map (put_tags pid) ops)) = written_keys ops \<and>
    (\<forall>(k, tag) \<in> set (concat (map (put_tags pid) ops)). dget tag ''is_prompt'' = None \<and> distinct (map fst tag))"
  using assms
proof (induction outs arbitrary: i st ops)
  case Nil
  then show ?case by (simp add: written_keys_def)
next
  case (Cons out outs)
  from Cons.prems obtain o1 s1 o2 where a: "absorb_outcome env fw uid g pid i out st = (o1, Inr s1)"
    and b: "absorb_outcomes env fw uid g pid (Suc i) outs s1 = (o2, Inr st')" and ops: "ops = o1 @ o2"
    by (auto split: prod.splits sum.splits)
  have "o1 = [] \<or> (\<exists>ts flds r. write_session_trajectories_to_tq env fw uid i ts flds g pid = (o1, r))"
    using a by (auto simp: absorb_outcome_def split: sum.splits prod.splits if_splits)
  then have one: "map fst (concat (map (put_tags pid) o1)) = written_keys o1 \<and>
    (\<forall>(k, tag) \<in> set (concat (map (put_tags pid) o1)). dget tag ''is_prompt'' = None \<and> distinct (map fst tag))"
  proof
    assume "o1 = []"
    then show ?thesis by (simp add: written_keys_def)
  next
    assume "\<exists>ts flds r. write_session_trajectories_to_tq env fw uid i ts flds g pid = (o1, r)"
    then show ?thesis using written_tags by blast
  qed
  show ?case using one Cons.IH [OF b] unfolding ops put_tags_append by (simp add: ball_Un)
qed

lemma tq_key_not_uid: "tq_key uid i j \<noteq> uid"
  by (simp add: tq_key_def)

lemma trajectories_in_map: "distinct (map fst items) \<Longrightarrow> k \<in> trajectories_in items \<longleftrightarrow> (\<exists>tag. map_of items k = Some tag \<and> \<not> is_prompt_tag tag)"
  by (auto simp: trajectories_in_def dest: map_of_SomeD map_of_is_SomeI)

lemma prompts_with_map:
  "distinct (map fst items) \<Longrightarrow> k \<in> prompts_with st items \<longleftrightarrow>
     (\<exists>tag. map_of items k = Some tag \<and> is_prompt_tag tag \<and> dget tag ''status'' = Some (PStr st))"
  by (auto simp: prompts_with_def dest: map_of_SomeD map_of_is_SomeI)

text \<open>After the last operation of a prompt the listing has its final status and exactly the trajectories it wrote.\<close>

lemma group_published_whole:
  assumes "run_prompt_sessions_to_tq env fw sessions sf g pid n = (ops, Inr st)" "get_none sf ''uid'' = PStr uid" "CHR ''_'' \<notin> set uid"
    "distinct (map fst before)" "map_of before uid = Some tag0" "is_prompt_tag tag0" "\<forall>k \<in> fst ` set before. uid_of k = uid \<longrightarrow> k = uid"
  defines "items \<equiv> listing pid before ops"
  shows "uid \<in> prompts_with (if written_keys ops = [] then ''failure'' else ''finished'') items \<and>
    {k \<in> trajectories_in items. uid_of k = uid} = set (written_keys ops)"
proof -
  from assms(1,2) obtain outs ops1 st1 where absorb: "absorb_outcomes env fw uid g pid 0 outs no_stats = (ops1, Inr st1)"
    and ops: "ops = ops1 @ [status_put uid pid (st_success_sessions st1)]"
    by (fastforce simp: run_prompt_sessions_to_tq_def tq_put_run py_str_def Let_def split: option.splits prod.splits sum.splits)
  note R = absorb_outcomes_run [OF absorb] and T = absorbed_tags [OF absorb]
  define xs where "xs = concat (map (put_tags pid) ops1)"
  define mid where "mid = merge_tags xs before"
  define v where "v = PStr (if 0 < st_success_sessions st1 then ''finished'' else ''failure'')"
  have items: "items = dset mid uid (dupdate (dget_or mid uid []) [(''status'', v)])"
    unfolding items_def ops listing_append by (simp add: listing_merge mid_def xs_def status_put_def v_def)
  have keys: "map fst xs = written_keys ops1" and written: "written_keys ops = written_keys ops1" and d: "distinct (map fst xs)"
    using T R by (simp_all add: xs_def ops status_put_def written_keys_def)
  have named: "uid_of k = uid \<and> k \<noteq> uid" if "k \<in> set (written_keys ops1)" for k
  proof -
    from R that obtain j m where "k = tq_key uid j m" by blast
    then show ?thesis using uid_of_tq_key [OF assms(3)] tq_key_not_uid by simp
  qed
  then have "uid \<notin> fst ` set xs" using keys by (metis set_map)
  then have tag0: "dget mid uid = Some tag0" by (simp add: mid_def merge_tags_other assms(5))
  have di: "distinct (map fst items)" using merge_tags_distinct [OF assms(4)] by (simp add: items mid_def)
  have "map_of items uid = Some (dupdate tag0 [(''status'', v)])" by (simp add: items tag0 dget_or_def)
  moreover have "is_prompt_tag (dupdate tag0 [(''status'', v)])" using assms(6) by (simp add: is_prompt_tag_def dupdate_def dget_or_def)
  moreover have "dget (dupdate tag0 [(''status'', v)]) ''status'' = Some v" by (simp add: dupdate_def)
  moreover have "v = PStr (if written_keys ops = [] then ''failure'' else ''finished'')"
    using R by (auto simp: v_def written no_stats_def)
  ultimately have prompt: "uid \<in> prompts_with (if written_keys ops = [] then ''failure'' else ''finished'') items"
    "uid \<notin> trajectories_in items"
    using di by (auto simp: prompts_with_map trajectories_in_map)
  have "k \<in> trajectories_in items \<longleftrightarrow> k \<in> set (written_keys ops1)" if k: "uid_of k = uid" for k
  proof (cases "k = uid")
    case True
    with prompt(2) named show ?thesis by blast
  next
    case ne: False
    have old: "k \<notin> fst ` set before" using assms(7) k ne by blast
    show ?thesis
    proof (cases "k \<in> set (written_keys ops1)")
      case True
      then obtain tag where tag: "(k, tag) \<in> set xs" using keys by (metis (no_types) imageE list.set_map prod.collapse)
      have "dget before k = None" using old by (simp add: map_of_eq_None_iff)
      then have "map_of items k = Some (dupdate [] tag)" using merge_tags_new [OF d tag] ne by (simp add: items mid_def)
      moreover have "dget tag ''is_prompt'' = None" "distinct (map fst tag)" using T tag by (auto simp: xs_def)
      then have "\<not> is_prompt_tag (dupdate [] tag)" by (simp add: is_prompt_tag_def dget_or_def dget_dupdate)
      ultimately show ?thesis using True di by (simp add: trajectories_in_map)
    next
      case False
      then have "k \<notin> fst ` set mid" using old keys by (metis Un_iff list.set_map merge_tags_keys mid_def)
      then have "map_of items k = None" using ne by (simp add: items map_of_eq_None_iff)
      with False di show ?thesis by (simp add: trajectories_in_map)
    qed
  qed
  with prompt(1) named show ?thesis by (auto simp: written)
qed


subsection \<open>Concrete buffers\<close>

definition prompt_item :: "string \<Rightarrow> string \<Rightarrow> int \<Rightarrow> string \<times> dict" where
  "prompt_item uid st g = (uid, [(''is_prompt'', PBool True), (''global_steps'', PInt g), (''status'', PStr st)])"

definition row_item :: "string \<Rightarrow> string \<times> dict" where
  "row_item key = (key, [(''status'', PStr ''success'')])"

text \<open>A queue that always lists the same items; its world counts the prompts it was asked for.\<close>

definition demo_queue :: "string \<Rightarrow> (string \<times> dict) list \<Rightarrow> (string \<Rightarrow> rat) \<Rightarrow> nat queue" where
  "demo_queue pid items reward =
     \<lparr>qu_list = (\<lambda>s. (s, Inr (Some [(pid, items)]))), qu_clear = (\<lambda>_ _ s. (s, Inr ())),
      qu_extra_fields = (\<lambda>_ keys s. (s, Inr (map (\<lambda>k. PDict [(''reward_extra_info'', PDict [(''acc'', PFloat (reward k))])]) keys))),
      qu_refill = (\<lambda>k s. (s + k, Inr ())), qu_pause = id, qu_iter = sorted_list_of_set, qu_repr = (\<lambda>_. []), qu_parse = (\<lambda>_. None)\<rparr>"

definition demo_buffer_config :: buffer_config where
  "demo_buffer_config =
     \<lparr>bc_async = True, bc_max_off_policy_threshold = 3, bc_max_off_policy_strategy = ''drop'', bc_has_refill = True,
      bc_filter_groups_metric = None, bc_train_batch_size = 2, bc_gen_batch_size = Some 1, bc_max_inflight_gen_batches = 1,
      bc_sync_refill_failed_groups = False\<rparr>"

definition demo_listing :: "(string \<times> dict) list" where
  "demo_listing = [prompt_item ''a'' ''finished'' 3, prompt_item ''b'' ''finished'' 2, prompt_item ''c'' ''running'' 1,
     row_item ''a_0_0'', row_item ''b_0_0'', row_item ''b_1_0'', row_item ''c_0_0'']"

lemma demo_poll:
  "snd (poll (demo_queue ''train'' demo_listing (\<lambda>_. 0)) demo_buffer_config 4 ''train'' 1 start_sampling (new_buffer_state 0)) = Inr (start_sampling, Selected [''b''])"
  by code_simp

lemma demo_check:
  "check_selection demo_buffer_config 4 ''train'' [''b'']
     (fst (poll (demo_queue ''train'' demo_listing (\<lambda>_. 0)) demo_buffer_config 4 ''train'' 1 start_sampling (new_buffer_state 0))) = Inr ()"
  by code_simp

lemma sample_first_poll:
  assumes "snd (poll q c gs pid n start_sampling b) = Inr (sa, Selected sel)" "check_selection c gs pid sel (fst (poll q c gs pid n start_sampling b)) = Inr ()"
    "\<forall>s. \<exists>s'. qu_clear q pid sel s = (s', Inr ())"
  shows "\<exists>b' batch. sample q c gs pid n b = Some (b', Inr (batch, sa_metrics sa)) \<and>
    kb_keys batch = filter (\<lambda>k. uid_of k \<in> set sel) (map fst (bf_partitions (fst (poll q c gs pid n start_sampling b)) pid))"
proof -
  obtain b1 where p: "poll q c gs pid n start_sampling b = (b1, Inr (sa, Selected sel))" using assms(1) by (metis prod.collapse)
  from assms(3) obtain s' where "qu_clear q pid sel (bf_world b1) = (s', Inr ())" by blast
  then have "materialize_batch q pid sel (bf_partitions b1 pid) b1 =
      (b1\<lparr>bf_world := s'\<rparr>, Inr \<lparr>kb_partition_id = pid, kb_keys = filter (\<lambda>k. uid_of k \<in> set sel) (map fst (bf_partitions b1 pid)),
         kb_tags = map snd (filter (\<lambda>(key, _). uid_of key \<in> set sel) (bf_partitions b1 pid))\<rparr>)"
    by (simp add: materialize_batch_def in_queue_def shell_bind_def Let_def filter_map o_def case_prod_unfold)
  moreover have "sample_loop q c gs pid n start_sampling b = Some (b1, Inr (sa, sel))" by (subst sample_loop.simps) (simp add: p)
  moreover have "check_selection c gs pid sel b1 = Inr ()" using assms(2) by (simp add: p)
  ultimately show ?thesis by (simp add: sample_def p shell_bind_def)
qed

text \<open>A synchronous configuration with dynamic filtering.\<close>

definition demo_sync_config :: buffer_config where
  "demo_sync_config = demo_buffer_config\<lparr>bc_async := False, bc_filter_groups_metric := Some ''acc''\<rparr>"

lemma demo_lists_sets: "lists_sets (demo_queue pid items reward)"
  by (simp add: lists_sets_def demo_queue_def)

lemma demo_lists: "qu_list (demo_queue pid items reward) s = (s', Inr data) \<longleftrightarrow> s' = s \<and> data = Some [(pid, items)]"
  by (auto simp: demo_queue_def)

lemma demo_items [simp]: "items_of pid (Some [(pid, items)]) = items"
  by (simp add: items_of_def)

lemma demo_clear: "\<forall>s. \<exists>s'. qu_clear (demo_queue pid items reward) pid sel s = (s', Inr ())"
  by (simp add: demo_queue_def)

theorem sampled_groups_complete_witness:
  "\<exists>b' batch m sel. sample (demo_queue ''train'' demo_listing (\<lambda>_. 0)) demo_buffer_config 4 ''train'' 1 (new_buffer_state 0) = Some (b', Inr (batch, m)) \<and>
     length sel = 1 \<and> set (kb_keys batch) = {k \<in> trajectories_in demo_listing. uid_of k \<in> set sel}"
proof -
  from sample_first_poll [OF demo_poll demo_check demo_clear] obtain b' batch m where
    run: "sample (demo_queue ''train'' demo_listing (\<lambda>_. 0)) demo_buffer_config 4 ''train'' 1 (new_buffer_state 0) = Some (b', Inr (batch, m))" by blast
  from sampled_groups_complete [OF run demo_lists_sets] run show ?thesis by (auto simp: demo_lists)
qed

theorem async_batch_fresh_witness:
  "\<exists>b' batch m sel. sample (demo_queue ''train'' demo_listing (\<lambda>_. 0)) demo_buffer_config 4 ''train'' 1 (new_buffer_state 0) = Some (b', Inr (batch, m)) \<and>
     set sel \<subseteq> prompts_with ''finished'' demo_listing \<and> length sel = 1 \<and> (\<forall>u \<in> set sel. 4 - step_in demo_listing u + 1 \<le> 3)"
proof -
  from sample_first_poll [OF demo_poll demo_check demo_clear] obtain b' batch m where
    run: "sample (demo_queue ''train'' demo_listing (\<lambda>_. 0)) demo_buffer_config 4 ''train'' 1 (new_buffer_state 0) = Some (b', Inr (batch, m))" by blast
  have "distinct (map fst demo_listing)" by (simp add: demo_listing_def prompt_item_def row_item_def)
  then have "lists_dicts (demo_queue ''train'' demo_listing (\<lambda>_. 0))"
    by (auto simp: lists_dicts_def demo_lists items_of_def)
  from async_batch_fresh [OF run demo_lists_sets this] run show ?thesis
    by (auto simp: demo_lists demo_buffer_config_def Let_def)
qed

lemma demo_sync_poll:
  "(case sync_poll (demo_queue ''train'' demo_listing (\<lambda>_. 0)) demo_sync_config 4 ''train'' 2 start_sampling (new_buffer_state 0) of
      (b', Inr (sa', d)) \<Rightarrow> d = Again | _ \<Rightarrow> False)"
  by code_simp

lemma prompts_with_filter:
  "prompts_with st items = set (map fst (filter (\<lambda>(k, tag). is_prompt_tag tag \<and> dget tag ''status'' = Some (PStr st)) items))"
  by (force simp: prompts_with_def)

lemma demo_groups: "card (groups_of demo_listing) = 3"
  unfolding groups_of_def prompts_with_filter by code_simp


definition demo_run :: "string \<Rightarrow> int \<Rightarrow> int \<times> eviction_reasons \<times> nat buffer" where
  "demo_run uid g = (9, no_reasons\<lparr>er_stale := {uid}\<rparr>, (new_buffer_state 0)\<lparr>bf_steps := (\<lambda>_. [(uid, g)])\<rparr>)"


text \<open>A prompt that the framework ran, and the queue as it left it.\<close>

definition demo_framework_ops :: "tq_op list" where
  "demo_framework_ops =
     fst (run_prompt_sessions_to_tq demo_outcome_env demo_fw demo_sessions [(''uid'', PStr ''u'')] (Some 1) ''train'' 2)"

definition demo_published :: "(string \<times> dict) list" where
  "demo_published = listing ''train'' [prompt_item ''u'' ''running'' 1] demo_framework_ops"

lemma demo_published_poll:
  "snd (poll (demo_queue ''train'' demo_published (\<lambda>_. 0)) demo_buffer_config 1 ''train'' 1 start_sampling (new_buffer_state 0)) =
     Inr (start_sampling, Selected [''u''])"
  by code_simp

lemma demo_published_check:
  "check_selection demo_buffer_config 1 ''train'' [''u'']
     (fst (poll (demo_queue ''train'' demo_published (\<lambda>_. 0)) demo_buffer_config 1 ''train'' 1 start_sampling (new_buffer_state 0))) = Inr ()"
  by code_simp


text \<open>
  Dynamic filtering reads the reward details of a trajectory from its field \<open>extra_fields\<close>.  The framework
  spreads these fields over the row, so its rows have no such field.
\<close>

lemma framework_rows_lack_extra_fields:
  assumes "trajectory_field f32 proc mu t sf i g = Inr f" "dget (tr_extra_fields t) ''extra_fields'' = None"
  shows "dget f ''extra_fields'' = None"
proof -
  from assms(1) obtain p r f0 m where seq: "sequence_fields f32 proc t p r = Inr f0"
    and f: "f = dset (dset (dset (dupdate (dpop (dset (dset (dupdate f0 (map (\<lambda>(k, v). (k, FV v)) (dpop (tr_extra_fields t) ''materialization_reason'')))
        ''response_mask'' m) ''loss_mask'' m) ''multi_modal_data'') (map (\<lambda>(k, v). (k, FV v)) (copy_keys SAMPLE_KEYS sf)))
        ''session_id'' (FV (PInt (int i)))) ''global_steps'' (FV (step_pv g)))
        ''num_turns'' (FT \<lparr>tn_dtype = Int64, tn_shape = [], tn_data = [of_nat (tr_num_turns t)]\<rparr>)"
    by (auto simp: trajectory_field_def Let_def err_simps)
  have "dget f0 ''extra_fields'' = None"
    using seq by (auto simp: sequence_fields_def Let_def err_simps dget_dset_opt base_fields_def)
  moreover have "''extra_fields'' \<notin> fst ` set (map (\<lambda>(k, v). (k, FV v)) (dpop (tr_extra_fields t) ''materialization_reason''))"
  proof -
    have "''extra_fields'' \<notin> fst ` set (dpop (tr_extra_fields t) ''materialization_reason'')"
      using assms(2) fst_set_dpop [of "''materialization_reason''" "tr_extra_fields t"] by (auto simp: map_of_eq_None_iff)
    then show ?thesis by (simp add: image_image case_prod_unfold)
  qed
  moreover have "''extra_fields'' \<notin> fst ` set (map (\<lambda>(k, v). (k, FV v)) (copy_keys SAMPLE_KEYS sf))"
    using copy_keys_fst [of SAMPLE_KEYS sf] by (auto simp: SAMPLE_KEYS_def)
  ultimately show ?thesis by (simp add: f dget_dupdate_other)
qed

end
