(* ===== verification/TrainStep.thy ===== *)
theory TrainStep
  imports PolicyLoss Replay PyLines
begin

text \<open>
  From a sampled batch to its advantages: \<open>compute_advantage\<close> and \<open>apply_kl_penalty\<close> of
  \<open>src/verl/verl/trainer/ppo/ray_trainer.py\<close>, the advantages of sessions with several trajectories and the
  aggregation of metrics over the steps of a cycle (\<open>src/verl/verl/trainer/ppo/v1/utils.py\<close>).
\<close>

subsection \<open>The batch\<close>

record train_data =
  td_token_level_scores :: tensor
  td_token_level_rewards :: tensor
  td_response_mask :: "tensor option"
  td_attention_mask :: tensor
  td_response_length :: nat
  td_values :: tensor
  td_uid :: "string list"
  td_sum_pi_squared :: "tensor option"
  td_advantages :: tensor
  td_returns :: tensor

definition at_rows :: "nat list \<Rightarrow> 'a list \<Rightarrow> 'a list" where
  "at_rows idxs xs = map ((!) xs) idxs"

definition select_idxs :: "nat list \<Rightarrow> train_data \<Rightarrow> train_data" where
  "select_idxs idxs d =
     \<lparr>td_token_level_scores = at_rows idxs (td_token_level_scores d), td_token_level_rewards = at_rows idxs (td_token_level_rewards d),
      td_response_mask = map_option (at_rows idxs) (td_response_mask d), td_attention_mask = at_rows idxs (td_attention_mask d),
      td_response_length = td_response_length d, td_values = at_rows idxs (td_values d), td_uid = at_rows idxs (td_uid d),
      td_sum_pi_squared = map_option (at_rows idxs) (td_sum_pi_squared d), td_advantages = at_rows idxs (td_advantages d),
      td_returns = at_rows idxs (td_returns d)\<rparr>"

text \<open>\<open>attention_mask[:, -response_length:]\<close>; with a length of zero this is the whole row.\<close>

definition compute_response_mask :: "tensor \<Rightarrow> nat \<Rightarrow> tensor" where
  "compute_response_mask attention_mask response_length =
     map (\<lambda>row. if response_length = 0 then row else drop (length row - response_length) row) attention_mask"

definition mask_of :: "train_data \<Rightarrow> tensor" where
  "mask_of d = (case td_response_mask d of Some m \<Rightarrow> m | None \<Rightarrow> compute_response_mask (td_attention_mask d) (td_response_length d))"

subsection \<open>Advantages\<close>

text \<open>\<open>ae_multinomial\<close> and \<open>ae_pow\<close> are torch's; the registry holds the estimators by name.\<close>

record adv_env =
  ae_tm :: tmath
  ae_registry :: "(string \<times> (train_data \<Rightarrow> (tensor \<times> tensor) result)) list"
  ae_pow :: "rat \<Rightarrow> rat \<Rightarrow> rat"
  ae_multinomial :: "vec \<Rightarrow> nat \<Rightarrow> nat list"
  ae_epsilon :: rat

record adv_config =
  av_use_pf_ppo :: bool
  av_reweight_method :: string
  av_weight_pow :: rat

definition with_advantages :: "train_data \<Rightarrow> tensor \<times> tensor \<Rightarrow> train_data" where
  "with_advantages d ar = d\<lparr>td_advantages := fst ar, td_returns := snd ar\<rparr>"

text \<open>PF-PPO resamples the rows with the weights of their scores.\<close>

definition reweighted :: "adv_env \<Rightarrow> adv_config \<Rightarrow> train_data \<Rightarrow> train_data result" where
  "reweighted env c d =
     rbind (compute_pf_ppo_reweight_data (ae_pow env) (ae_multinomial env) (av_reweight_method c) (av_weight_pow c)
              (\<lambda>i. sum_list (td_token_level_scores d ! i)) [0..<length (td_token_level_scores d)]) (\<lambda>idxs.
     Inr (select_idxs idxs d))"

definition otb_estimators :: "string set" where
  "otb_estimators = {''optimal_token_baseline'', ''tir_optimal_token_baseline''}"

definition missing_pi_squared :: exn where
  "missing_pi_squared =
     AssertionError (''Step-dependent optimal baseline requires sum_pi_squared from actor. '' @
       ''Please set actor.calculate_sum_pi_squared=True in config.'')"

definition compute_advantage ::
  "adv_env \<Rightarrow> train_data \<Rightarrow> string \<Rightarrow> rat \<Rightarrow> rat \<Rightarrow> bool \<Rightarrow> adv_config \<Rightarrow> train_data result" where
  "compute_advantage env data adv_estimator gamma lam norm_adv_by_std c =
     (let msk = mask_of data; d = data\<lparr>td_response_mask := Some msk\<rparr> in
      if adv_estimator = ''gae'' then
        rbind (compute_gae_advantage_return (ae_tm env) (td_token_level_rewards d) (td_values d) msk gamma lam) (\<lambda>ar.
        (let d1 = with_advantages d ar in if av_use_pf_ppo c then reweighted env c d1 else Inr d1))
      else if adv_estimator = ''grpo'' then
        (let a = compute_grpo_outcome_advantage (ae_tm env) (td_token_level_rewards d) msk (td_uid d) (ae_epsilon env) norm_adv_by_std in
         Inr (with_advantages d (a, a)))
      else
        rbind (get_adv_estimator_fn (ae_registry env) adv_estimator) (\<lambda>f.
        if adv_estimator \<in> otb_estimators \<and> td_sum_pi_squared d = None then Inl missing_pi_squared
        else rbind (f d) (\<lambda>ar. Inr (with_advantages d ar))))"

text \<open>The penalty for leaving the reference policy, and the update of its coefficient.\<close>

definition apply_kl_penalty ::
  "tmath \<Rightarrow> kl_controller \<Rightarrow> string \<Rightarrow> tensor \<Rightarrow> tensor \<Rightarrow> tensor \<Rightarrow> tensor \<Rightarrow> (tensor \<times> kl_controller \<times> metrics) result" where
  "apply_kl_penalty tm ctrl kind response_mask token_level_scores old_log_probs ref_log_prob =
     rbind (kl_penalty tm kind old_log_probs ref_log_prob) (\<lambda>kld0.
     (let kld = t2 (*) kld0 response_mask; beta = kl_value ctrl;
          rewards = t2 (\<lambda>s k. s - beta * k) token_level_scores kld;
          per_seq = map2 (\<lambda>k m. masked_sum1 k m / (sum_list m + eps8)) kld response_mask;
          current_kl = fdiv tm (sum_list per_seq) (of_nat (length per_seq)) in
      Inr (rewards, kl_update tm current_kl (of_nat (length token_level_scores)) ctrl,
           [(''actor/reward_kl_penalty'', current_kl), (''actor/reward_kl_penalty_coeff'', beta)])))"

subsection \<open>Sessions with several trajectories\<close>

text \<open>\<open>s.rsplit("_", 1)\<close> when there is an underscore.\<close>

definition rsplit_once :: "string \<Rightarrow> (string \<times> string) option" where
  "rsplit_once s =
     (let t = takeWhile (\<lambda>c. c \<noteq> CHR ''_'') (rev s) in
      case dropWhile (\<lambda>c. c \<noteq> CHR ''_'') (rev s) of [] \<Rightarrow> None | _ # u \<Rightarrow> Some (rev u, rev t))"

text \<open>The uid with the session, and the index of the trajectory.\<close>

definition split_row_key :: "string \<Rightarrow> (string \<times> int) result" where
  "split_row_key key =
     (case rsplit_once key of
        None \<Rightarrow> Inl (AssertionError (''Unexpected key format: '' @ key))
      | Some (front, index) \<Rightarrow>
          (case rsplit_once front of
             None \<Rightarrow> Inl (AssertionError (''Unexpected key format: '' @ key))
           | Some (uid, session_id) \<Rightarrow> rbind (py_int (PStr index)) (\<lambda>i. Inr (uid @ ''_'' @ session_id, i))))"

text \<open>The row with the largest index of every session, sessions in the order of their first row.\<close>

definition note_final :: "nat \<times> string \<times> int \<Rightarrow> (string \<times> int \<times> nat) list \<Rightarrow> (string \<times> int \<times> nat) list" where
  "note_final row d =
     (case row of (i, key, index) \<Rightarrow>
        (case dget d key of
           None \<Rightarrow> dset d key (index, i)
         | Some (best, _) \<Rightarrow> if best < index then dset d key (index, i) else d))"

definition final_sessions :: "(string \<times> int) list \<Rightarrow> (string \<times> int \<times> nat) list" where
  "final_sessions rows = fold note_final (List.enumerate 0 rows) []"

text \<open>\<open>argmax\<close>: the first position of the maximum.\<close>

definition argmax :: "vec \<Rightarrow> nat" where
  "argmax xs = (case List.enumerate 0 xs of [] \<Rightarrow> 0 | x # ys \<Rightarrow> fst (max_key snd x ys))"

definition spread_scores :: "train_data \<Rightarrow> vec \<Rightarrow> tensor" where
  "spread_scores d scores = on_tokens scores (mask_of d)"

definition compute_advantage_for_multi_trajectories ::
  "adv_env \<Rightarrow> train_data \<Rightarrow> string list \<Rightarrow> string \<Rightarrow> rat \<Rightarrow> rat \<Rightarrow> bool \<Rightarrow> adv_config \<Rightarrow> train_data result" where
  "compute_advantage_for_multi_trajectories env data batch_keys adv_estimator gamma lam norm_adv_by_std c =
     (if adv_estimator \<noteq> ''grpo'' then compute_advantage env data adv_estimator gamma lam norm_adv_by_std c
      else
        rbind (rmap split_row_key batch_keys) (\<lambda>rows.
        (let finals = final_sessions rows;
             final_indices = map (\<lambda>(_, _, i). i) finals;
             row_to_local = map (\<lambda>(key, _). position_in (map fst finals) key) rows in
         rbind (compute_advantage env (select_idxs final_indices data) adv_estimator gamma lam norm_adv_by_std c) (\<lambda>final_data.
         (let final_scores = map2 (\<lambda>a m. a ! argmax m) (td_advantages final_data) (mask_of final_data);
              scores = spread_scores data (at_rows row_to_local final_scores) in
          Inr (with_advantages data (scores, scores)))))))"

subsection \<open>Metrics of a cycle\<close>

text \<open>What a step reports: a number, the counts of filtered rewards, or anything else (ignored).\<close>

datatype metric = MBool bool | MNum rat | MCounts "(rat \<times> nat) list" | MOther

record aggregator =
  ag_values :: "(string \<times> rat list) list"
  ag_weights :: "(string \<times> rat list) list"
  ag_counts :: "(string \<times> (rat \<times> nat) list) list"
  ag_step_count :: nat

definition new_aggregator :: aggregator where
  "new_aggregator = \<lparr>ag_values = [], ag_weights = [], ag_counts = [], ag_step_count = 0\<rparr>"

definition reset_aggregator :: "aggregator \<Rightarrow> aggregator" where
  "reset_aggregator a = new_aggregator"

definition STALENESS_MEAN :: string where
  "STALENESS_MEAN = ''/off_policy/evicted_samples_staleness/mean''"

text \<open>\<open>int\<close> of a float cuts off its fraction.\<close>

definition int_of_rat :: "rat \<Rightarrow> rat" where
  "int_of_rat x = of_int (if 0 \<le> x then \<lfloor>x\<rfloor> else \<lceil>x\<rceil>)"

text \<open>The mean of a step's staleness weighs as many samples as the step evicted, any other metric the step's samples.\<close>

definition metric_weight :: "string \<Rightarrow> (string \<times> metric) list \<Rightarrow> rat \<Rightarrow> rat" where
  "metric_weight name step_metrics sample_count =
     (if endswith name STALENESS_MEAN
      then (case dget_or step_metrics (take (length name - length ''_staleness/mean'') name) (MNum sample_count) of
              MNum x \<Rightarrow> int_of_rat x
            | MBool b \<Rightarrow> (if b then 1 else 0)
            | _ \<Rightarrow> sample_count)
      else sample_count)"

definition add_to :: "string \<Rightarrow> 'a \<Rightarrow> (string \<times> 'a list) list \<Rightarrow> (string \<times> 'a list) list" where
  "add_to k x d = dset d k (dget_or d k [] @ [x])"

definition merge_counts :: "(rat \<times> nat) list \<Rightarrow> (rat \<times> nat) list \<Rightarrow> (rat \<times> nat) list" where
  "merge_counts new old = fold (\<lambda>(x, n). count_in x n) new old"

definition add_metric :: "(string \<times> metric) list \<Rightarrow> rat \<Rightarrow> string \<times> metric \<Rightarrow> aggregator \<Rightarrow> aggregator" where
  "add_metric step_metrics sample_count entry a =
     (case entry of (key, v) \<Rightarrow>
        (case v of
           MNum x \<Rightarrow> a\<lparr>ag_values := add_to key x (ag_values a),
                     ag_weights := add_to key (metric_weight key step_metrics sample_count) (ag_weights a)\<rparr>
         | MCounts c \<Rightarrow> if key = ''_dapo_filtered_reward_counts''
                        then a\<lparr>ag_counts := dset (ag_counts a) key (merge_counts c (dget_or (ag_counts a) key []))\<rparr> else a
         | _ \<Rightarrow> a))"

definition add_step_metrics :: "(string \<times> metric) list \<Rightarrow> rat \<Rightarrow> aggregator \<Rightarrow> aggregator" where
  "add_step_metrics step_metrics sample_count a =
     fold (add_metric step_metrics sample_count) step_metrics (a\<lparr>ag_step_count := Suc (ag_step_count a)\<rparr>)"

datatype aggregation = Total | TimeTotal | LastValue | Largest | Smallest | WeightedMean

definition SUM_METRICS :: "string list" where
  "SUM_METRICS =
     [''training/off_policy/evicted_samples'', ''validation/off_policy/evicted_samples'',
      ''training/filter_groups/evicted_samples'', ''validation/filter_groups/evicted_samples'',
      ''training/filter_groups/discarded_surplus_samples'', ''validation/filter_groups/discarded_surplus_samples'',
      ''training/rollout_failure/evicted_samples'', ''validation/rollout_failure/evicted_samples'']"

definition LAST_METRICS :: "string list" where
  "LAST_METRICS = [''training/global_step'', ''training/rollout_probs_diff_valid'']"

definition aggregation_type :: "string \<Rightarrow> aggregation" where
  "aggregation_type name =
     (let n = lower name in
      if name \<in> set SUM_METRICS then Total
      else if name \<in> set LAST_METRICS then LastValue
      else if endswith n ''/lr'' \<or> endswith n ''_lr'' \<or> n = ''lr'' then LastValue
      else if contains n ''timing_s/'' \<or> contains n ''timing_per_token_ms/'' then TimeTotal
      else if contains n ''max'' \<or> contains n ''maximum'' then Largest
      else if contains n ''min'' \<or> contains n ''minimum'' then Smallest
      else if contains n ''sum'' \<or> contains n ''total'' then Total
      else WeightedMean)"

definition weighted_mean :: "vec \<Rightarrow> vec \<Rightarrow> rat" where
  "weighted_mean values weights =
     (if length values \<noteq> length weights \<or> sum_list weights = 0 then tmean values
      else sum_list (map2 (*) values weights) / sum_list weights)"

definition aggregate_single :: "aggregator \<Rightarrow> string \<Rightarrow> vec \<Rightarrow> rat" where
  "aggregate_single a name values =
     (if values = [] then 0
      else case aggregation_type name of
        LastValue \<Rightarrow> last values
      | WeightedMean \<Rightarrow> weighted_mean values (dget_or (ag_weights a) name [])
      | Total \<Rightarrow> sum_list values
      | TimeTotal \<Rightarrow> sum_list values
      | Largest \<Rightarrow> foldr max (tl values) (hd values)
      | Smallest \<Rightarrow> foldr min (tl values) (hd values))"

text \<open>The spread of the sequence lengths is computed anew from their maximum and minimum.\<close>

definition special_metrics :: "(string \<times> metric) list \<Rightarrow> (string \<times> metric) list" where
  "special_metrics agg =
     (case (dget agg ''global_seqlen/minmax_diff'', dget agg ''global_seqlen/max'', dget agg ''global_seqlen/min'') of
        (Some _, Some (MNum hi), Some (MNum lo)) \<Rightarrow> dset agg ''global_seqlen/minmax_diff'' (MNum (hi - lo))
      | _ \<Rightarrow> agg)"

definition get_aggregated_metrics :: "aggregator \<Rightarrow> (string \<times> metric) list" where
  "get_aggregated_metrics a =
     (if ag_step_count a = 0 then []
      else special_metrics
        (fold (\<lambda>(name, counts) agg. if counts = [] then agg else dset agg name (MCounts counts)) (ag_counts a)
           (map (\<lambda>(name, values). (name, MNum (aggregate_single a name values))) (ag_values a))))"

end
