(* ===== verification/TrainProps.thy ===== *)
theory TrainProps
  imports TrainStep AdvProps ReplayMore
begin

text \<open>
  Advantages of sessions with several trajectories, and metrics over a cycle: every row of a session gets the
  score of the session's final trajectory, and the staleness that a cycle reports is the mean over all its evictions.
\<close>

subsection \<open>Final trajectories\<close>

definition finals_ok :: "(string \<times> int) list \<Rightarrow> (string \<times> int \<times> nat) list \<Rightarrow> bool" where
  "finals_ok rows d \<longleftrightarrow> distinct (map fst d) \<and> fst ` set d = fst ` set rows \<and>
     (\<forall>key best i. (key, best, i) \<in> set d \<longrightarrow>
        i < length rows \<and> rows ! i = (key, best) \<and> (\<forall>r \<in> set rows. fst r = key \<longrightarrow> snd r \<le> best))"

lemma set_dset: "distinct (map fst d) \<Longrightarrow> (k, v) \<in> set (dset d k' w) \<longleftrightarrow> (if k = k' then v = w else (k, v) \<in> set d)"
  by (induction d) (auto simp: image_iff)

lemma finals_ok_step:
  assumes "finals_ok rows d"
  shows "finals_ok (rows @ [x]) (note_final (length rows, x) d)"
proof -
  obtain key index where x: "x = (key, index)" by (cases x)
  note ok = assms [unfolded finals_ok_def]
  have old: "i < length rows \<and> rows ! i = (k, best) \<and> (\<forall>r \<in> set rows. fst r = k \<longrightarrow> snd r \<le> best)" if "(k, best, i) \<in> set d" for k best i
    using ok that by blast
  consider (new) "dget d key = None" | (better) best i where "dget d key = Some (best, i)" "best < index"
    | (worse) best i where "dget d key = Some (best, i)" "\<not> best < index" by (cases "dget d key") force+
  then show ?thesis
  proof cases
    case new
    then have "key \<notin> fst ` set rows" using ok by (simp add: map_of_eq_None_iff)
    then have "r \<in> set rows \<Longrightarrow> fst r \<noteq> key" for r by auto
    with ok old show ?thesis
      by (auto simp: finals_ok_def note_final_def x new set_dset fst_dset nth_append less_Suc_eq)
  next
    case better
    then have mem: "(key, best, i) \<in> set d" by (simp add: map_of_SomeD)
    with old have b: "\<forall>r \<in> set rows. fst r = key \<longrightarrow> snd r \<le> best" by blast
    have key: "key \<in> fst ` set rows" using mem ok by (metis fst_conv imageI)
    let ?d = "dset d key (index, length rows)"
    have e: "note_final (length rows, x) d = ?d" using better by (simp add: note_final_def x)
    have new: "distinct (map fst ?d) \<and> fst ` set ?d = fst ` set (rows @ [x])" using ok key by (auto simp: fst_dset x)
    have "i' < length (rows @ [x]) \<and> (rows @ [x]) ! i' = (k, c) \<and> (\<forall>r \<in> set (rows @ [x]). fst r = k \<longrightarrow> snd r \<le> c)"
      if "(k, c, i') \<in> set ?d" for k c i'
    proof (cases "k = key")
      case True
      with that ok have "c = index" "i' = length rows" by (auto simp: set_dset)
      with True b better(2) show ?thesis by (force simp: x)
    next
      case False
      with that ok have "(k, c, i') \<in> set d" by (auto simp: set_dset)
      from old [OF this] False show ?thesis by (auto simp: x nth_append)
    qed
    then show ?thesis unfolding e finals_ok_def using new by blast
  next
    case worse
    then have mem: "(key, best, i) \<in> set d" by (simp add: map_of_SomeD)
    have "key \<in> fst ` set rows" using mem ok by (metis fst_conv imageI)
    moreover have "b = best \<and> j = i" if "(key, b, j) \<in> set d" for b j
      using map_of_is_SomeI [OF _ mem] map_of_is_SomeI [OF _ that] ok by simp
    ultimately have all: "key \<in> fst ` set rows" "\<And>b j. (key, b, j) \<in> set d \<Longrightarrow> b = best \<and> j = i" by blast+
    have e: "note_final (length rows, x) d = d" using worse by (simp add: note_final_def x)
    have new: "distinct (map fst d) \<and> fst ` set d = fst ` set (rows @ [x])" using ok all(1) by (auto simp: x)
    have "i' < length (rows @ [x]) \<and> (rows @ [x]) ! i' = (k, c) \<and> (\<forall>r \<in> set (rows @ [x]). fst r = k \<longrightarrow> snd r \<le> c)"
      if "(k, c, i') \<in> set d" for k c i'
    proof -
      note o = old [OF that]
      have "key = k \<Longrightarrow> index \<le> c" using all(2) that worse(2) by auto
      with o show ?thesis by (auto simp: x nth_append)
    qed
    then show ?thesis unfolding e finals_ok_def using new by blast
  qed
qed

lemma final_sessions_ok: "finals_ok rows (final_sessions rows)"
proof (induction rows rule: rev_induct)
  case Nil
  then show ?case by (simp add: finals_ok_def final_sessions_def)
next
  case (snoc x rows)
  have "final_sessions (rows @ [x]) = note_final (length rows, x) (final_sessions rows)"
    by (simp add: final_sessions_def enumerate_append_eq)
  with finals_ok_step [OF snoc] show ?case by simp
qed

lemma argmax_max:
  assumes "xs \<noteq> []"
  shows "argmax xs < length xs \<and> (\<forall>x \<in> set xs. x \<le> xs ! argmax xs)"
proof -
  obtain y ys where e: "List.enumerate 0 xs = y # ys" using assms by (cases "List.enumerate 0 xs") (auto simp: enumerate_eq_zip)
  let ?m = "max_key snd y ys"
  have "?m \<in> set (List.enumerate 0 xs)" using max_key_in [of snd y ys] e by simp
  then have m: "fst ?m < length xs" "snd ?m = xs ! fst ?m" by (auto simp: in_set_enumerate_eq)
  have "x \<le> snd ?m" if "x \<in> set xs" for x
  proof -
    from that obtain i where "i < length xs" "xs ! i = x" by (auto simp: in_set_conv_nth)
    then have "(i, x) \<in> set (List.enumerate 0 xs)" by (auto simp: in_set_enumerate_eq)
    then have "(i, x) \<in> insert y (set ys)" using e by simp
    from max_key_ge [OF this, of snd] show ?thesis by simp
  qed
  with m show ?thesis by (simp add: argmax_def e)
qed

lemma argmax_binary:
  assumes "xs \<noteq> []" "set xs \<subseteq> {0, 1}"
  shows "xs ! argmax xs = fbool (1 \<in> set xs)"
proof -
  from argmax_max [OF assms(1)] have "xs ! argmax xs \<in> set xs" "\<forall>x \<in> set xs. x \<le> xs ! argmax xs" by auto
  with assms(2) have "xs ! argmax xs = 0 \<or> xs ! argmax xs = 1" "1 \<in> set xs \<Longrightarrow> 1 \<le> xs ! argmax xs" by auto
  then show ?thesis using \<open>xs ! argmax xs \<in> set xs\<close> by (auto simp: fbool_def)
qed

subsection \<open>Rows of padding\<close>

lemma masked_sum1_zero: "set m \<subseteq> {0} \<Longrightarrow> masked_sum1 l m = 0"
  unfolding masked_sum1_def by (induction l m rule: list_induct2') auto

lemma sum_list_zero: "set xs \<subseteq> {0 :: rat} \<Longrightarrow> sum_list xs = 0"
  by (induction xs) auto

lemma product_zero: "set m \<subseteq> {0 :: rat} \<Longrightarrow> sum_list (map2 (*) l m) = 0"
  by (induction l m rule: list_induct2') auto

lemma zero_rows:
  assumes "\<forall>row \<in> set M. set row \<subseteq> {0}"
  shows "tsum M = 0" "seq_active M = replicate (length M) 0" "masked_sum L M = 0"
    "row_sums (t2 (*) L M) = replicate (min (length L) (length M)) 0"
  subgoal using assms by (induction M) (auto simp: tsum_def sum_list_zero)
  subgoal using assms by (induction M) (auto simp: seq_active_def fbool_def sum_list_zero)
  subgoal using assms unfolding masked_sum_def by (induction L M rule: list_induct2') (auto simp: masked_sum1_zero)
  subgoal using assms unfolding row_sums_def t2_def by (induction L M rule: list_induct2') (auto simp: product_zero)
  done

lemma masked_sum1_pads: "length a = length b \<Longrightarrow> masked_sum1 (a @ c) (b @ replicate k 0) = masked_sum1 a b"
  using masked_sum1_zero [of "replicate k 0" c] by (auto simp: masked_sum1_def set_replicate_conv_if)

lemma padded_aggregates:
  assumes "length L = length M" "length Lp = length Mp" "\<forall>row \<in> set Mp. set row \<subseteq> {0}"
  shows "tsum (M @ Mp) = tsum M" "masked_sum (L @ Lp) (M @ Mp) = masked_sum L M" "seq_active (M @ Mp) = seq_active M @ replicate (length Mp) 0"
    "row_sums (t2 (*) (L @ Lp) (M @ Mp)) = row_sums (t2 (*) L M) @ replicate (length Mp) 0"
  subgoal using zero_rows(1) [OF assms(3)] by (simp add: tsum_def)
  subgoal using zero_rows(3) [OF assms(3), of Lp] assms(1) by (simp add: masked_sum_def)
  subgoal using zero_rows(2) [OF assms(3)] by (simp add: seq_active_def)
  subgoal using zero_rows(4) [OF assms(3), of Lp] assms(1,2) by (simp add: row_sums_def t2_def)
  done

lemma agg_loss_pads:
  assumes "length L = length M" "length Lp = length Mp" "M \<noteq> []" "\<forall>row \<in> set Mp. set row \<subseteq> {0}"
  shows "agg_loss tm (L @ Lp) (M @ Mp) mode info = agg_loss tm L M mode info"
proof -
  note agg = padded_aggregates [OF assms(1,2,4)]
  have "width (M @ Mp) = width M" using assms(3) by (cases M) (simp_all add: width_def)
  moreover have "masked_sum1 (row_sums (t2 (*) (L @ Lp) (M @ Mp))) (seq_active (M @ Mp)) = masked_sum1 (row_sums (t2 (*) L M)) (seq_active M)"
    unfolding agg using assms(1) by (subst masked_sum1_pads) (simp_all add: row_sums_def t2_def seq_active_def)
  moreover have "masked_sum1 (map2 (\<lambda>s row. s / (sum_list row + eps8)) (row_sums (t2 (*) (L @ Lp) (M @ Mp))) (M @ Mp)) (seq_active (M @ Mp))
      = masked_sum1 (map2 (\<lambda>s row. s / (sum_list row + eps8)) (row_sums (t2 (*) L M)) M) (seq_active M)"
    unfolding agg using assms(1) by (subst zip_append) (simp_all add: row_sums_def t2_def seq_active_def masked_sum1_pads)
  moreover have "sum_list (seq_active (M @ Mp)) = sum_list (seq_active M)" unfolding agg by (simp add: sum_list_replicate)
  ultimately show ?thesis unfolding agg_loss_def Let_def agg(1,2) by (simp only:)
qed

lemma members_pads:
  assumes "length index = length xs" "g \<noteq> pad"
  shows "members g (index @ replicate k pad) (xs @ ys) = members g index xs"
  using assms by (auto simp: members_def filter_empty_conv set_zip)

text \<open>
  C28: padding rows do not change the training of the others: rows with an all-zero response mask, a uid of their own and whatever
  log probabilities, losses or rewards leave the aggregated loss as it is in every aggregation mode, and the group
  relative advantages of the real rows too; their own advantages are zero.
\<close>

theorem padding_is_inert:
  assumes "length L = length M" "length Lp = length Mp" "length R = length M" "length Rp = length Mp" "length index = length M"
    and "M \<noteq> []" "\<forall>row \<in> set Mp. set row \<subseteq> {0}" "pad \<notin> set index"
  shows "agg_loss tm (L @ Lp) (M @ Mp) mode info = agg_loss tm L M mode info \<and>
    (\<exists>z. compute_grpo_outcome_advantage tm (R @ Rp) (M @ Mp) (index @ replicate (length Mp) pad) eps by_std =
       compute_grpo_outcome_advantage tm R M index eps by_std @ z \<and> length z = length Mp \<and> (\<forall>row \<in> set z. set row \<subseteq> {0}))"
proof -
  let ?index = "index @ replicate (length Mp) pad"
  let ?s = "grpo_scores tm (row_sums R @ row_sums Rp) ?index eps by_std"
  have len: "length ?s = length M + length Mp" using assms(3-5) by (simp add: grpo_scores_def Let_def row_sums_def)
  have len': "length (grpo_scores tm (row_sums R) index eps by_std) = length M" using assms(3,5) by (simp add: grpo_scores_def Let_def row_sums_def)
  have "?s ! i = grpo_scores tm (row_sums R) index eps by_std ! i" if i: "i < length M" for i
  proof -
    have "index ! i \<noteq> pad" using assms(5,8) i by (metis nth_mem)
    then show ?thesis using assms(3-5) i
      by (simp add: grpo_score row_sums_def nth_append members_pads Let_def)
  qed
  then have take: "take (length M) ?s = grpo_scores tm (row_sums R) index eps by_std"
    using len len' by (intro nth_equalityI) simp_all
  let ?z = "on_tokens (drop (length M) ?s) Mp"
  have "on_tokens ?s (M @ Mp) = on_tokens (take (length M) ?s @ drop (length M) ?s) (M @ Mp)" by simp
  also have "\<dots> = on_tokens (take (length M) ?s) M @ ?z" using len by (simp only: on_tokens_def) (subst zip_append, simp_all)
  finally have "compute_grpo_outcome_advantage tm (R @ Rp) (M @ Mp) ?index eps by_std =
      compute_grpo_outcome_advantage tm R M index eps by_std @ ?z"
    unfolding take by (simp add: compute_grpo_outcome_advantage_def row_sums_def)
  moreover have "length ?z = length Mp" using len by (simp add: on_tokens_def)
  moreover have "set row \<subseteq> {0}" if "row \<in> set ?z" for row
    using that assms(7) by (fastforce simp: on_tokens_def dest!: set_zip_rightD)
  ultimately show ?thesis using agg_loss_pads [OF assms(1,2,6,7)] by blast
qed

subsection \<open>The advantage of a session\<close>

lemma grpo_on_rows:
  assumes "td_response_mask d = Some msk"
  shows "compute_advantage env (select_idxs idxs d) ''grpo'' gamma lam by_std c =
    (let a = compute_grpo_outcome_advantage (ae_tm env) (at_rows idxs (td_token_level_rewards d)) (at_rows idxs msk) (at_rows idxs (td_uid d))
        (ae_epsilon env) by_std
     in Inr ((select_idxs idxs d)\<lparr>td_response_mask := Some (at_rows idxs msk), td_advantages := a, td_returns := a\<rparr>))"
  by (simp add: compute_advantage_def mask_of_def select_idxs_def assms with_advantages_def Let_def)

lemma first_kept_value:
  assumes "m \<noteq> []" "set m \<subseteq> {0, 1}"
  shows "map ((*) s) m ! argmax m = s * fbool (1 \<in> set m)"
  using argmax_max [OF assms(1)] argmax_binary [OF assms] by simp

lemma position_in_distinct:
  assumes "distinct us" "l < length us"
  shows "position_in us (us ! l) = l"
  using position_in_unique [of "us ! l" us] assms by (metis nth_eq_iff_index_eq nth_mem)

lemma multi_trajectory_run:
  assumes "rmap split_row_key row_keys = Inr rows" "td_response_mask data = Some msk"
  shows "compute_advantage_for_multi_trajectories env data row_keys ''grpo'' gamma lam by_std c =
    (let fs = final_sessions rows; idxs = map (\<lambda>(_, _, i). i) fs; m = at_rows idxs msk;
         a = compute_grpo_outcome_advantage (ae_tm env) (at_rows idxs (td_token_level_rewards data)) m (at_rows idxs (td_uid data))
               (ae_epsilon env) by_std;
         scores = on_tokens (at_rows (map (\<lambda>(key, _). position_in (map fst fs) key) rows) (map2 (\<lambda>a m. a ! argmax m) a m)) msk
     in Inr (data\<lparr>td_advantages := scores, td_returns := scores\<rparr>))"
  using assms by (simp add: compute_advantage_for_multi_trajectories_def Let_def grpo_on_rows mask_of_def with_advantages_def spread_scores_def)

text \<open>
  C27: only the last trajectory of a session is compared with those of the other sessions, and the rest of the session shares its
  advantage: with GRPO there is for every session one final row, the row of its largest index, and the
  advantage of each row of the session is, on every response token, the group relative advantage of the final
  row among the final rows (zero when the final row has no response token).
\<close>

theorem session_shares_final_advantage:
  assumes keys: "rmap split_row_key row_keys = Inr rows" and msk: "td_response_mask data = Some msk"
    and len: "length msk = length rows" "length (td_token_level_rewards data) = length rows" "length (td_uid data) = length rows"
    and bin: "\<forall>row \<in> set msk. row \<noteq> [] \<and> set row \<subseteq> {0, 1}"
  shows "\<exists>finals data'. compute_advantage_for_multi_trajectories env data row_keys ''grpo'' gamma lam by_std c = Inr data' \<and>
    distinct (map fst finals) \<and> fst ` set finals = fst ` set rows \<and>
    (\<forall>(key, i) \<in> set finals. i < length rows \<and> fst (rows ! i) = key \<and> (\<forall>r \<in> set rows. fst r = key \<longrightarrow> snd r \<le> snd (rows ! i))) \<and>
    (let idxs = map snd finals;
         g = grpo_scores (ae_tm env) (row_sums (at_rows idxs (td_token_level_rewards data))) (at_rows idxs (td_uid data)) (ae_epsilon env) by_std in
     \<forall>l < length finals. \<forall>j < length rows. fst (rows ! j) = fst (finals ! l) \<longrightarrow>
       td_advantages data' ! j = map ((*) (g ! l * fbool (1 \<in> set (msk ! (idxs ! l))))) (msk ! j))"
proof -
  let ?fs = "final_sessions rows"
  let ?finals = "map (\<lambda>(key, _, i). (key, i)) ?fs"
  let ?idxs = "map snd ?finals"
  let ?g = "grpo_scores (ae_tm env) (row_sums (at_rows ?idxs (td_token_level_rewards data))) (at_rows ?idxs (td_uid data)) (ae_epsilon env) by_std"
  let ?a = "on_tokens ?g (at_rows ?idxs msk)"
  let ?final_scores = "map2 (\<lambda>a m. a ! argmax m) ?a (at_rows ?idxs msk)"
  let ?scores = "on_tokens (at_rows (map (\<lambda>(key, _). position_in (map fst ?fs) key) rows) ?final_scores) msk"
  have idxs: "map (\<lambda>(_, _, i). i) ?fs = ?idxs" and names: "map fst ?finals = map fst ?fs" by (auto simp: comp_def case_prod_beta)
  have run: "compute_advantage_for_multi_trajectories env data row_keys ''grpo'' gamma lam by_std c =
      Inr (data\<lparr>td_advantages := ?scores, td_returns := ?scores\<rparr>)"
    unfolding multi_trajectory_run [OF keys msk] Let_def idxs compute_grpo_outcome_advantage_def ..
  have ok: "distinct (map fst ?fs)" "fst ` set ?fs = fst ` set rows"
    "\<And>key best i. (key, best, i) \<in> set ?fs \<Longrightarrow> i < length rows \<and> rows ! i = (key, best) \<and> (\<forall>r \<in> set rows. fst r = key \<longrightarrow> snd r \<le> best)"
    using final_sessions_ok [of rows] unfolding finals_ok_def by blast+
  have lens: "length ?g = length ?fs" by (simp add: grpo_scores_def Let_def row_sums_def at_rows_def)
  have final: "?final_scores ! l = ?g ! l * fbool (1 \<in> set (msk ! (?idxs ! l)))" if l: "l < length ?fs" for l
  proof -
    obtain key best i where e: "?fs ! l = (key, best, i)" by (cases "?fs ! l")
    then have "i < length rows" using ok(3) l by (metis nth_mem)
    then have "msk ! i \<noteq> []" "set (msk ! i) \<subseteq> {0, 1}" using bin len(1) by auto
    from first_kept_value [OF this] show ?thesis using l lens e by (simp add: on_tokens_def at_rows_def)
  qed
  have "td_advantages (data\<lparr>td_advantages := ?scores, td_returns := ?scores\<rparr>) ! j =
      map ((*) (?g ! l * fbool (1 \<in> set (msk ! (?idxs ! l))))) (msk ! j)"
    if l: "l < length ?finals" and j: "j < length rows" and same: "fst (rows ! j) = fst (?finals ! l)" for l j
  proof -
    have "fst (rows ! j) = map fst ?fs ! l" using l same by (simp add: case_prod_beta)
    then have "position_in (map fst ?fs) (fst (rows ! j)) = l" using position_in_distinct [OF ok(1)] l by simp
    then show ?thesis using j l len(1) final [of l] by (simp add: on_tokens_def at_rows_def case_prod_beta)
  qed
  moreover have "\<forall>(key, i) \<in> set ?finals. i < length rows \<and> fst (rows ! i) = key \<and> (\<forall>r \<in> set rows. fst r = key \<longrightarrow> snd r \<le> snd (rows ! i))"
    using ok(3) by fastforce
  moreover have "fst ` set ?finals = fst ` set rows" using ok(2) names by (metis list.set_map)
  moreover have "distinct (map fst ?finals)" unfolding names by (rule ok(1))
  ultimately show ?thesis using run unfolding Let_def
    by (intro exI [of _ ?finals] exI [of _ "data\<lparr>td_advantages := ?scores, td_returns := ?scores\<rparr>"] conjI; (assumption | blast))
qed

subsection \<open>Metrics over a cycle\<close>

definition numbers_of :: "string \<Rightarrow> (string \<times> metric) list \<Rightarrow> rat list" where
  "numbers_of key es = concat (map (\<lambda>(k, v). case v of MNum x \<Rightarrow> if k = key then [x] else [] | _ \<Rightarrow> []) es)"

definition only_dapo :: "aggregator \<Rightarrow> bool" where
  "only_dapo a \<longleftrightarrow> fst ` set (ag_counts a) \<subseteq> {''_dapo_filtered_reward_counts''}"

lemma dget_or_add_to: "dget_or (add_to k x d) key [] = (if key = k then dget_or d key [] @ [x] else dget_or d key [])"
  by (simp add: add_to_def dget_or_def)

lemma numbers_of_Cons: "numbers_of key (e # es) = numbers_of key [e] @ numbers_of key es"
  by (simp add: numbers_of_def)

lemma add_metric_dapo: "only_dapo a \<Longrightarrow> only_dapo (add_metric m n e a)"
proof -
  assume a: "only_dapo a"
  have "fst ` set (dset d k c) = insert k (fst ` set d)" for d :: "(string \<times> (rat \<times> nat) list) list" and k c by (induction d) auto
  with a show ?thesis by (auto simp: only_dapo_def add_metric_def split: prod.splits metric.splits)
qed

lemma add_metric_collect:
  "dget_or (ag_values (add_metric m n e a)) key [] = dget_or (ag_values a) key [] @ numbers_of key [e]"
  "dget_or (ag_weights (add_metric m n e a)) key [] =
     dget_or (ag_weights a) key [] @ replicate (length (numbers_of key [e])) (metric_weight key m n)"
  "ag_step_count (add_metric m n e a) = ag_step_count a"
  by (cases e; cases "snd e"; simp add: add_metric_def numbers_of_def dget_or_add_to)+

lemma add_metrics_collect:
  "dget_or (ag_values (fold (add_metric m n) es a)) key [] = dget_or (ag_values a) key [] @ numbers_of key es \<and>
   dget_or (ag_weights (fold (add_metric m n) es a)) key [] =
     dget_or (ag_weights a) key [] @ replicate (length (numbers_of key es)) (metric_weight key m n) \<and>
   (only_dapo a \<longrightarrow> only_dapo (fold (add_metric m n) es a)) \<and> ag_step_count (fold (add_metric m n) es a) = ag_step_count a"
proof (induction es arbitrary: a)
  case Nil
  then show ?case by (simp add: numbers_of_def)
next
  case (Cons e es)
  then show ?case using add_metric_dapo [of a m n e]
    by (simp add: add_metric_collect numbers_of_Cons [of key e es] replicate_add)
qed

lemma numbers_of_dict: "distinct (map fst m) \<Longrightarrow> numbers_of key m = (case dget m key of Some (MNum x) \<Rightarrow> [x] | _ \<Rightarrow> [])"
proof (induction m)
  case (Cons e m)
  obtain k v where e: "e = (k, v)" by (cases e)
  have "key = k \<Longrightarrow> dget m key = None" using Cons.prems e by (auto simp: map_of_eq_None_iff)
  then show ?case using Cons by (auto simp: e numbers_of_def split: metric.splits option.splits)
qed (simp add: numbers_of_def)

text \<open>A step that evicted groups with these spans reports their number and mean; one that evicted none reports neither.\<close>

definition reports :: "string \<Rightarrow> int list \<Rightarrow> (string \<times> metric) list \<Rightarrow> bool" where
  "reports prefix spans m \<longleftrightarrow> distinct (map fst m) \<and>
     (if spans = [] then dget m (prefix @ STALENESS_MEAN) = None
      else dget m (prefix @ ''/off_policy/evicted_samples'') = Some (MNum (of_nat (length spans))) \<and>
           dget m (prefix @ STALENESS_MEAN) = Some (MNum (of_int (sum_list spans) / of_nat (length spans))))"

definition collected :: "string \<Rightarrow> int list list \<Rightarrow> aggregator \<Rightarrow> bool" where
  "collected prefix runs a \<longleftrightarrow> only_dapo a \<and>
     dget_or (ag_values a) (prefix @ STALENESS_MEAN) [] = map (\<lambda>s. of_int (sum_list s) / of_nat (length s)) (filter (\<lambda>s. s \<noteq> []) runs) \<and>
     dget_or (ag_weights a) (prefix @ STALENESS_MEAN) [] = map (\<lambda>s. of_nat (length s)) (filter (\<lambda>s. s \<noteq> []) runs)"

lemma staleness_weight:
  assumes "reports prefix spans m" "spans \<noteq> []"
  shows "metric_weight (prefix @ STALENESS_MEAN) m n = of_nat (length spans)"
proof -
  have e: "STALENESS_MEAN = ''/off_policy/evicted_samples'' @ ''_staleness/mean''" by (simp add: STALENESS_MEAN_def)
  have "endswith (prefix @ STALENESS_MEAN) STALENESS_MEAN" by (simp add: endswith_def)
  moreover have "take (length (prefix @ STALENESS_MEAN) - length ''_staleness/mean'') (prefix @ STALENESS_MEAN) = prefix @ ''/off_policy/evicted_samples''"
    unfolding e by simp
  ultimately show ?thesis using assms by (simp add: metric_weight_def reports_def dget_or_def int_of_rat_def)
qed

lemma step_collected:
  assumes "collected prefix runs a" "reports prefix spans m"
  shows "collected prefix (runs @ [spans]) (add_step_metrics m n a)"
  using assms(1) numbers_of_dict [of m "prefix @ STALENESS_MEAN"] assms(2) staleness_weight [OF assms(2), of n]
    add_metrics_collect [of m n m "a\<lparr>ag_step_count := Suc (ag_step_count a)\<rparr>" "prefix @ STALENESS_MEAN"]
  by (auto simp: collected_def add_step_metrics_def reports_def only_dapo_def split: if_splits)

text \<open>The metrics of the steps of a cycle are added in order; every step comes with its number of samples.\<close>

definition add_all :: "((string \<times> metric) list \<times> rat) list \<Rightarrow> aggregator" where
  "add_all steps = fold (\<lambda>(m, n). add_step_metrics m n) steps new_aggregator"

lemma all_collected:
  assumes "list_all2 (\<lambda>spans step. reports prefix spans (fst step)) runs steps"
  shows "collected prefix runs (add_all steps) \<and> ag_step_count (add_all steps) = length steps"
  using assms
proof (induction steps arbitrary: runs rule: rev_induct)
  case Nil
  then show ?case by (simp add: add_all_def new_aggregator_def collected_def only_dapo_def dget_or_def)
next
  case (snoc step steps)
  obtain m n where step: "step = (m, n)" by (cases step)
  from snoc.prems obtain rs spans where runs: "runs = rs @ [spans]" "list_all2 (\<lambda>spans step. reports prefix spans (fst step)) rs steps"
      "reports prefix spans m"
    unfolding list_all2_append2 step by (auto simp: list_all2_Cons2)
  have e: "add_all (steps @ [step]) = add_step_metrics m n (add_all steps)" by (simp add: add_all_def step)
  have "ag_step_count (add_step_metrics m n (add_all steps)) = Suc (ag_step_count (add_all steps))"
    using add_metrics_collect [of m n m "(add_all steps)\<lparr>ag_step_count := Suc (ag_step_count (add_all steps))\<rparr>"]
    by (simp add: add_step_metrics_def)
  with snoc.IH [OF runs(2)] step_collected [of prefix rs "add_all steps" spans m n] runs e show ?case by simp
qed

lemma weighted_mean_of_means:
  assumes "\<forall>s \<in> set runs. s \<noteq> []" "runs \<noteq> []"
  shows "weighted_mean (map (\<lambda>s. of_int (sum_list s) / of_nat (length s)) runs) (map (\<lambda>s. of_nat (length s)) runs) =
    of_int (sum_list (concat runs)) / of_nat (length (concat runs))"
proof -
  have num: "sum_list (map2 (*) (map (\<lambda>s. of_int (sum_list s) / of_nat (length s)) runs) (map (\<lambda>s. of_nat (length s)) runs)) =
      (of_int (sum_list (concat runs)) :: rat)"
    using assms(1) by (induction runs) auto
  have den: "sum_list (map (\<lambda>s. of_nat (length s)) runs) = (of_nat (length (concat runs)) :: rat)" by (induction runs) auto
  have "length (concat runs) \<noteq> 0" using assms by (cases runs) auto
  then have "(of_nat (length (concat runs)) :: rat) \<noteq> 0" by (simp only: of_nat_eq_0_iff not_False_eq_True)
  then show ?thesis unfolding weighted_mean_def den num by auto
qed

lemma other_counts:
  assumes "fst ` set cs \<subseteq> {''_dapo_filtered_reward_counts''}" "key \<noteq> ''_dapo_filtered_reward_counts''"
  shows "dget (fold (\<lambda>(name, counts) agg. if counts = [] then agg else dset agg name (MCounts counts)) cs agg) key = dget agg key"
  using assms(1)
proof (induction cs arbitrary: agg)
  case (Cons c cs)
  obtain name counts where c: "c = (name, counts)" by (cases c)
  have "dget (if counts = [] then agg else dset agg name (MCounts counts)) key = dget agg key" using Cons.prems assms(2) by (auto simp: c)
  then show ?case using Cons.IH [of "if counts = [] then agg else dset agg name (MCounts counts)"] Cons.prems by (simp only: c fold.simps) auto
qed simp

lemma dget_map_named: "dget (map (\<lambda>(name, v). (name, f name v)) d) key = map_option (f key) (dget d key)"
  by (induction d) auto

lemma special_other: "key \<noteq> ''global_seqlen/minmax_diff'' \<Longrightarrow> dget (special_metrics agg) key = dget agg key"
  by (auto simp: special_metrics_def split: option.splits metric.splits)

lemma staleness_is_weighted:
  assumes "prefix = ''training'' \<or> prefix = ''validation''"
  shows "aggregation_type (prefix @ STALENESS_MEAN) = WeightedMean" "prefix @ STALENESS_MEAN \<noteq> ''global_seqlen/minmax_diff''"
    "prefix @ STALENESS_MEAN \<noteq> ''_dapo_filtered_reward_counts''"
proof -
  have "aggregation_type (''training'' @ STALENESS_MEAN) = WeightedMean" "aggregation_type (''validation'' @ STALENESS_MEAN) = WeightedMean"
    by code_simp+
  then show "aggregation_type (prefix @ STALENESS_MEAN) = WeightedMean" using assms by blast
  show "prefix @ STALENESS_MEAN \<noteq> ''global_seqlen/minmax_diff''" "prefix @ STALENESS_MEAN \<noteq> ''_dapo_filtered_reward_counts''"
    using assms by (auto simp: STALENESS_MEAN_def)
qed

text \<open>
  C31: the staleness reported for a cycle is exact: when every step reports the number and the mean staleness of the groups it
  evicted, and steps that evicted none report nothing, the mean over the cycle is the sum of the staleness of all
  evicted groups divided by their number, however unevenly the steps evict and however many samples they train on.
\<close>

theorem cycle_staleness_exact:
  assumes "prefix = ''training'' \<or> prefix = ''validation''"
    and "list_all2 (\<lambda>spans step. reports prefix spans (fst step)) runs steps" and "concat runs \<noteq> []"
  shows "dget (get_aggregated_metrics (add_all steps)) (prefix @ ''/off_policy/evicted_samples_staleness/mean'') =
    Some (MNum (of_int (sum_list (concat runs)) / of_nat (length (concat runs))))"
proof -
  let ?key = "prefix @ STALENESS_MEAN" and ?a = "add_all steps" and ?rs = "filter (\<lambda>s. s \<noteq> []) runs"
  note c = all_collected [OF assms(2)]
  have "runs \<noteq> []" using assms(3) by auto
  then have count: "ag_step_count ?a \<noteq> 0" using c list_all2_lengthD [OF assms(2)] by auto
  have rs: "concat ?rs = concat runs" by (induction runs) auto
  then have ne: "?rs \<noteq> []" using assms(3) by auto
  have vals: "dget_or (ag_values ?a) ?key [] = map (\<lambda>s. of_int (sum_list s) / of_nat (length s)) ?rs"
    and weights: "dget_or (ag_weights ?a) ?key [] = map (\<lambda>s. of_nat (length s)) ?rs" using c by (simp_all add: collected_def)
  have "dget (ag_values ?a) ?key = Some (map (\<lambda>s. of_int (sum_list s) / of_nat (length s)) ?rs)"
    using vals ne by (auto simp: dget_or_def split: option.splits)
  then have "dget (map (\<lambda>(name, vals). (name, MNum (aggregate_single ?a name vals))) (ag_values ?a)) ?key =
      Some (MNum (aggregate_single ?a ?key (map (\<lambda>s. of_int (sum_list s) / of_nat (length s)) ?rs)))"
    by (simp add: dget_map_named)
  moreover have "aggregate_single ?a ?key (map (\<lambda>s. of_int (sum_list s) / of_nat (length s)) ?rs) =
      of_int (sum_list (concat runs)) / of_nat (length (concat runs))"
    using ne weighted_mean_of_means [of ?rs] by (simp add: aggregate_single_def staleness_is_weighted(1) [OF assms(1)] weights rs)
  moreover have "fst ` set (ag_counts ?a) \<subseteq> {''_dapo_filtered_reward_counts''}" using c by (simp add: collected_def only_dapo_def)
  ultimately have "dget (get_aggregated_metrics ?a) ?key = Some (MNum (of_int (sum_list (concat runs)) / of_nat (length (concat runs))))"
    using count staleness_is_weighted(2,3) [OF assms(1)] by (simp add: get_aggregated_metrics_def special_other other_counts)
  then show ?thesis by (simp add: STALENESS_MEAN_def)
qed

subsection \<open>Concrete batches\<close>

theorem padding_is_inert_witness:
  "agg_loss demo_tm [[3, 5], [9, 9]] [[1, 1], [0, 0]] ''seq-mean-token-mean'' \<lparr>ag_dp_size = 1, ag_batch_num_tokens = None,
       ag_global_batch_size = None, ag_loss_scale_factor = None\<rparr> =
     agg_loss demo_tm [[3, 5]] [[1, 1]] ''seq-mean-token-mean'' \<lparr>ag_dp_size = 1, ag_batch_num_tokens = None,
       ag_global_batch_size = None, ag_loss_scale_factor = None\<rparr>"
  using padding_is_inert [of "[[3, 5]]" "[[1, 1]]" "[[9, 9]]" "[[0, 0]]" "[[0, 1]]" "[[1, 1]]" "[''a'']" "''pad''" demo_tm] by simp

definition demo_adv_env :: adv_env where
  "demo_adv_env = \<lparr>ae_tm = demo_tm, ae_registry = [], ae_pow = (\<lambda>x _. x), ae_multinomial = (\<lambda>_ n. [0..<n]), ae_epsilon = 1 / 1000000\<rparr>"

definition demo_rows :: train_data where
  "demo_rows =
     \<lparr>td_token_level_scores = [[0, 0], [0, 1], [0, 0]], td_token_level_rewards = [[0, 0], [0, 1], [0, 0]],
      td_response_mask = Some [[1, 1], [0, 1], [1, 0]], td_attention_mask = [[1, 1], [1, 1], [1, 1]], td_response_length = 2,
      td_values = [], td_uid = [''a'', ''a'', ''a''], td_sum_pi_squared = None, td_advantages = [], td_returns = []\<rparr>"

definition plain_adv_config :: adv_config where
  "plain_adv_config = \<lparr>av_use_pf_ppo = False, av_reweight_method = [], av_weight_pow = 1\<rparr>"

theorem session_shares_final_advantage_witness:
  "\<exists>(finals :: (string \<times> nat) list) data'. compute_advantage_for_multi_trajectories demo_adv_env demo_rows [''a_0_0'', ''a_0_1'', ''a_1_0''] ''grpo'' 1 1 False
      plain_adv_config = Inr data' \<and> fst ` set finals = {''a_0'', ''a_1''}"
proof -
  have s: "rmap split_row_key [''a_0_0'', ''a_0_1'', ''a_1_0''] = Inr [(''a_0'', 0), (''a_0'', 1), (''a_1'', 0)]" by code_simp
  have m: "td_response_mask demo_rows = Some [[1, 1], [0, 1], [1, 0]]" by (simp add: demo_rows_def)
  have l: "length [[1, 1], [0, 1], [1 :: rat, 0]] = length [(''a_0'', 0 :: int), (''a_0'', 1), (''a_1'', 0)]"
      "length (td_token_level_rewards demo_rows) = length [(''a_0'', 0 :: int), (''a_0'', 1), (''a_1'', 0)]"
      "length (td_uid demo_rows) = length [(''a_0'', 0 :: int), (''a_0'', 1), (''a_1'', 0)]" by (simp_all add: demo_rows_def)
  have b: "\<forall>row \<in> set [[1, 1], [0, 1], [1 :: rat, 0]]. row \<noteq> [] \<and> set row \<subseteq> {0, 1}" by simp
  from session_shares_final_advantage [OF s m l b, of demo_adv_env 1 1 False plain_adv_config]
  obtain finals :: "(string \<times> nat) list" and data' where "compute_advantage_for_multi_trajectories demo_adv_env demo_rows [''a_0_0'', ''a_0_1'', ''a_1_0''] ''grpo'' 1 1 False
      plain_adv_config = Inr data'" and "fst ` set finals = fst ` set [(''a_0'', 0 :: int), (''a_0'', 1), (''a_1'', 0)]"
    by (elim exE conjE) (rule that; assumption)
  then show ?thesis by (intro exI conjI) (assumption, simp)
qed

theorem cycle_staleness_exact_witness:
  "dget (get_aggregated_metrics (add_all
      [([(''training/off_policy/evicted_samples'', MNum 2), (''training/off_policy/evicted_samples_staleness/mean'', MNum (7 / 2))], 8),
       ([(''training/global_step'', MNum 4)], 4),
       ([(''training/off_policy/evicted_samples'', MNum 1), (''training/off_policy/evicted_samples_staleness/mean'', MNum 3)], 2)]))
     ''training/off_policy/evicted_samples_staleness/mean'' = Some (MNum (10 / 3))"
proof -
  let ?steps = "[([(''training/off_policy/evicted_samples'', MNum 2), (''training/off_policy/evicted_samples_staleness/mean'', MNum (7 / 2))], 8),
       ([(''training/global_step'', MNum 4)], 4),
       ([(''training/off_policy/evicted_samples'', MNum 1), (''training/off_policy/evicted_samples_staleness/mean'', MNum 3)], 2)]"
  have "list_all2 (\<lambda>spans step. reports ''training'' spans (fst step)) [[2, 5], [], [3]] ?steps"
    by (simp add: reports_def STALENESS_MEAN_def)
  from cycle_staleness_exact [OF _ this] show ?thesis by simp
qed

end
