(* ===== verification/TrainBatch.thy ===== *)
theory TrainBatch
  imports Replay TqFields Balance
begin

text \<open>
  The batches of the trainer: fetching prompts and putting them into the queue, and before training the padding
  of a sampled batch and its distribution over the ranks (\<open>src/verl/verl/trainer/ppo/v1/trainer_base.py\<close>,
  \<open>src/verl/verl/trainer/ppo/padding_utils.py\<close>).  The queue, the data loader, the fresh identifiers and the
  agent loop manager are parameters over a world.
\<close>

subsection \<open>Padding samples\<close>

definition zeros :: "dtype \<Rightarrow> nat list \<Rightarrow> tensor" where
  "zeros dt shape = \<lparr>tn_dtype = dt, tn_shape = shape, tn_data = replicate (prod_list shape) 0\<rparr>"

text \<open>Position ids of two tokens; a source with more dimensions has one copy of them in every row.\<close>

definition build_padding_position_ids :: "fval option \<Rightarrow> tensor" where
  "build_padding_position_ids source =
     (let ids = map of_int (compute_position_id_with_mask [1, 1]) in
      case source of
        Some (FT src) \<Rightarrow>
          if tensor_dim src \<le> 1 then \<lparr>tn_dtype = tn_dtype src, tn_shape = [2], tn_data = ids\<rparr>
          else \<lparr>tn_dtype = tn_dtype src, tn_shape = butlast (tn_shape src) @ [2],
                tn_data = concat (replicate (prod_list (butlast (tn_shape src))) ids)\<rparr>
      | _ \<Rightarrow> \<lparr>tn_dtype = Int64, tn_shape = [2], tn_data = ids\<rparr>)"

definition build_padding_routed_experts :: "fval option \<Rightarrow> nat \<Rightarrow> tensor option" where
  "build_padding_routed_experts source seq_len =
     (case source of
        Some (FT src) \<Rightarrow>
          Some (if tensor_dim src = 0 then zeros (tn_dtype src) [] else zeros (tn_dtype src) (seq_len # tl (tn_shape src)))
      | _ \<Rightarrow> None)"

text \<open>The fields of the distillation teacher get the length of the padded sequence.\<close>

definition pad_teacher :: "string \<Rightarrow> fields \<Rightarrow> fields" where
  "pad_teacher key f =
     (case dget f key of Some (FT src) \<Rightarrow> dset f key (FT (zeros (tn_dtype src) (2 # tl (tn_shape src)))) | _ \<Rightarrow> f)"

definition minimal_sequence :: "int \<Rightarrow> fval option \<Rightarrow> fields" where
  "minimal_sequence eos_token_id position_ids =
     (let prompts = \<lparr>tn_dtype = Int64, tn_shape = [1], tn_data = [of_int eos_token_id]\<rparr>;
          input_ids = cat_vec prompts prompts;
          response_mask = zeros Int64 [1] in
      [(''prompts'', FT prompts), (''responses'', FT prompts), (''input_ids'', FT input_ids),
       (''attention_mask'', FT (filled_like 1 Int64 input_ids)), (''position_ids'', FT (build_padding_position_ids position_ids)),
       (''num_turns'', FV (PInt 0)), (''response_mask'', FT response_mask), (''loss_mask'', FT response_mask),
       (''rm_scores'', FT (zeros Float32 [1])), (''rollout_log_probs'', FT (zeros Float32 [1]))])"

definition construct_minimal_padding_template :: "fields \<Rightarrow> dict \<Rightarrow> int \<Rightarrow> fields \<times> dict" where
  "construct_minimal_padding_template source_td source_tag eos_token_id =
     (let f1 = dupdate source_td (minimal_sequence eos_token_id (dget source_td ''position_ids''));
          f2 = (if dhas f1 ''multi_modal_inputs'' then dset f1 ''multi_modal_inputs'' (FM []) else f1);
          f3 = (case build_padding_routed_experts (dget source_td ''routed_experts'') 2 of
                  Some t \<Rightarrow> dset f2 ''routed_experts'' (FT t) | None \<Rightarrow> dpop f2 ''routed_experts'');
          f4 = pad_teacher ''teacher_ids'' (pad_teacher ''teacher_logprobs'' f3) in
      (f4, dupdate source_tag [(''is_padding'', PBool True), (''prompt_len'', PInt 1), (''response_len'', PInt 1), (''seq_len'', PInt 2)]))"

text \<open>What the trainer calls: one row of the queue, a put of rows with their tags, and the draw of a uid for the padding.\<close>

record 's train_io =
  ti_get_row :: "string \<Rightarrow> string \<Rightarrow> 's \<Rightarrow> 's \<times> fields result"
  ti_put_rows :: "string \<Rightarrow> string list \<Rightarrow> (string \<times> column) list \<Rightarrow> dict list \<Rightarrow> 's \<Rightarrow> 's \<times> unit result"
  ti_uuid_hex :: "'s \<Rightarrow> 's \<times> string"

definition pad_row :: "fields \<Rightarrow> nat \<Rightarrow> fields" where
  "pad_row template local_idx =
     (if dhas template ''session_id'' then dset template ''session_id'' (FV (PInt (int local_idx))) else template)"

definition pad_key :: "string \<Rightarrow> nat \<Rightarrow> string" where
  "pad_key pad_uid local_idx = pad_uid @ ''_'' @ str_of_nat local_idx @ ''_0''"

text \<open>The rows to put, and the batch with their keys and tags.\<close>

definition append_padding ::
  "'s train_io \<Rightarrow> kv_batch \<Rightarrow> nat \<Rightarrow> fields \<times> dict \<Rightarrow> string \<Rightarrow> 's \<Rightarrow> 's \<times> kv_batch result" where
  "append_padding io batch pad_size template pad_uid s =
     (let row = dset (fst template) ''uid'' (FV (PStr pad_uid));
          pad_keys = map (pad_key pad_uid) [0..<pad_size];
          pad_tags = replicate pad_size (snd template) in
      case list_of_dict_to_tensordict (map (pad_row row) [0..<pad_size]) of
        Inl e \<Rightarrow> (s, Inl e)
      | Inr td \<Rightarrow>
          shell_bind (ti_put_rows io (kb_partition_id batch) pad_keys td pad_tags s) (\<lambda>_ s1.
          (s1, Inr (batch\<lparr>kb_keys := kb_keys batch @ pad_keys, kb_tags := kb_tags batch @ pad_tags\<rparr>))))"

definition upsample_batch_to_divisible_size :: "'s train_io \<Rightarrow> kv_batch \<Rightarrow> nat \<Rightarrow> int \<Rightarrow> 's \<Rightarrow> 's \<times> kv_batch result" where
  "upsample_batch_to_divisible_size io batch batch_multiple eos_token_id s =
     (let n = length (kb_keys batch); remainder = n mod batch_multiple in
      if batch_multiple = 0 then (s, Inl (OtherException ''ZeroDivisionError'' ''integer modulo by zero''))
      else if remainder = 0 then (s, Inr batch)
      else shell_bind (ti_get_row io (kb_partition_id batch) (hd (kb_keys batch)) s) (\<lambda>source s1.
           (let template = construct_minimal_padding_template source (hd (kb_tags batch)) eos_token_id in
            case ti_uuid_hex io s1 of
              (s2, hex) \<Rightarrow> append_padding io batch (batch_multiple - remainder) template (''pad'' @ hex) s2)))"

subsection \<open>Distribution over the ranks\<close>

record batch_config =
  bt_use_critic :: bool
  bt_critic_mini_batch_size :: nat
  bt_actor_mini_batch_size :: nat
  bt_rollout_n :: nat
  bt_critic_warmup :: int

definition get_required_batch_multiple :: "batch_config \<Rightarrow> int \<Rightarrow> nat \<Rightarrow> nat" where
  "get_required_batch_multiple c global_steps dp_size =
     (let m = (if bt_use_critic c then lcm dp_size (bt_critic_mini_batch_size c * bt_rollout_n c) else dp_size) in
      if bt_critic_warmup c \<le> global_steps then lcm m (bt_actor_mini_batch_size c * bt_rollout_n c) else m)"

definition reorder :: "kv_batch \<Rightarrow> nat list \<Rightarrow> kv_batch" where
  "reorder batch idxs = batch\<lparr>kb_keys := map ((!) (kb_keys batch)) idxs, kb_tags := map ((!) (kb_tags batch)) idxs\<rparr>"

text \<open>The lengths of the rows as a tensor of 64 bits.\<close>

definition seq_len_of :: "dict \<Rightarrow> int result" where
  "seq_len_of tag =
     rbind (dict_item tag ''seq_len'') (\<lambda>v.
     if is_str v then Inl (TypeError ''new(): invalid data type of a string'')
     else rbind (py_int v) (\<lambda>i. if fits_int64 i then Inr i else Inl (RuntimeError ''Overflow when unpacking long long'')))"

text \<open>The rows in the order in which the dispatch cuts them, with the imbalance before and after.\<close>

definition distribute :: "nat \<Rightarrow> kv_batch \<Rightarrow> (kv_batch \<times> unbalance) result" where
  "distribute dp_size batch =
     rbind (rmap seq_len_of (kb_tags batch)) (\<lambda>lens.
     rbind (get_seqlen_balanced_partitions (map calculate_workload lens) dp_size True) (\<lambda>partitions.
     rbind (log_seqlen_unbalance lens partitions) (\<lambda>stats.
     Inr (reorder batch (concat partitions), stats))))"

definition balance_batch ::
  "'s train_io \<Rightarrow> batch_config \<Rightarrow> int \<Rightarrow> nat \<Rightarrow> int \<Rightarrow> kv_batch \<Rightarrow> 's \<Rightarrow> 's \<times> (kv_batch \<times> unbalance) result" where
  "balance_batch io c global_steps dp_size eos_token_id batch s =
     shell_bind (upsample_batch_to_divisible_size io batch (get_required_batch_multiple c global_steps dp_size) eos_token_id s)
       (\<lambda>b1 s1. (s1, distribute dp_size b1))"

subsection \<open>Prompts for the rollout\<close>

text \<open>A prompt with its uid; the loader gives chunks of prompts until the epoch ends (\<open>None\<close>).\<close>

record 's prompt_io =
  po_next_chunk :: "'s \<Rightarrow> 's \<times> dict list option"
  po_restart :: "'s \<Rightarrow> 's"
  po_uuid :: "'s \<Rightarrow> 's \<times> string"
  po_put_prompts :: "string list \<Rightarrow> dict list option \<Rightarrow> dict list \<Rightarrow> 's \<Rightarrow> 's \<times> unit result"
  po_generate :: "dict list \<Rightarrow> 's \<Rightarrow> 's \<times> unit result"

fun with_uids :: "('s \<Rightarrow> 's \<times> string) \<Rightarrow> dict list \<Rightarrow> 's \<Rightarrow> 's \<times> dict list" where
  "with_uids uuid [] s = (s, [])"
| "with_uids uuid (row # rows) s =
     (case uuid s of (s1, u) \<Rightarrow> (case with_uids uuid rows s1 of (s2, rest) \<Rightarrow> (s2, dset row ''uid'' (PStr u) # rest)))"

text \<open>An exhausted loader is started anew once; an empty data set raises.\<close>

definition fetch_one_gen_batch :: "'s prompt_io \<Rightarrow> 's \<Rightarrow> 's \<times> dict list result" where
  "fetch_one_gen_batch io s =
     (case po_next_chunk io s of
        (s1, Some rows) \<Rightarrow> (case with_uids (po_uuid io) rows s1 of (s2, batch) \<Rightarrow> (s2, Inr batch))
      | (s1, None) \<Rightarrow>
          (case po_next_chunk io (po_restart io s1) of
             (s2, Some rows) \<Rightarrow> (case with_uids (po_uuid io) rows s2 of (s3, batch) \<Rightarrow> (s3, Inr batch))
           | (s2, None) \<Rightarrow> (s2, Inl (OtherException ''StopIteration'' []))))"

fun fetch_chunks :: "'s prompt_io \<Rightarrow> nat \<Rightarrow> 's \<Rightarrow> 's \<times> dict list result" where
  "fetch_chunks io 0 s = (s, Inr [])"
| "fetch_chunks io (Suc k) s =
     shell_bind (fetch_one_gen_batch io s) (\<lambda>rows s1. shell_bind (fetch_chunks io k s1) (\<lambda>rest s2. (s2, Inr (rows @ rest))))"

record prompt_config =
  pp_sync :: bool
  pp_train_batch_size :: int
  pp_gen_batch_size :: "int option"

definition gen_batch_size_of :: "prompt_config \<Rightarrow> int" where
  "gen_batch_size_of c = (case pp_gen_batch_size c of None \<Rightarrow> pp_train_batch_size c | Some g \<Rightarrow> if g = 0 then pp_train_batch_size c else g)"

definition next_train_batch :: "'s prompt_io \<Rightarrow> prompt_config \<Rightarrow> int \<Rightarrow> int option \<Rightarrow> 's \<Rightarrow> 's \<times> dict list result" where
  "next_train_batch io c global_steps num_prompts s =
     (let n = (case num_prompts of None \<Rightarrow> pp_train_batch_size c | Some k \<Rightarrow> k); g = gen_batch_size_of c in
      if n \<le> 0 then (s, Inl (ValueError (''num_prompts ('' @ str_of_int n @ '') must be a positive multiple of gen_batch_size ('' @
             str_of_int g @ ''); it is submitted in whole gen_batch_size dataloader fetches.'')))
      else if g = 0 then (s, Inl (OtherException ''ZeroDivisionError'' ''integer modulo by zero''))
      else if n mod g \<noteq> 0 then (s, Inl (ValueError (''num_prompts ('' @ str_of_int n @ '') must be a positive multiple of gen_batch_size ('' @
             str_of_int g @ ''); it is submitted in whole gen_batch_size dataloader fetches.'')))
      else if n div g \<le> 0 then (s, Inl (AssertionError ''Must have at least one tensordict''))
      else shell_bind (fetch_chunks io (nat (n div g)) s) (\<lambda>rows s1.
           (s1, Inr (map (\<lambda>row. dset row ''global_steps'' (PInt global_steps)) rows))))"

definition pending_tag :: "int \<Rightarrow> dict" where
  "pending_tag global_steps = [(''is_prompt'', PBool True), (''status'', PStr ''pending''), (''global_steps'', PInt global_steps)]"

definition uid_in :: "dict \<Rightarrow> string" where
  "uid_in row = (case dget row ''uid'' of Some (PStr u) \<Rightarrow> u | _ \<Rightarrow> [])"

text \<open>
  Prompts are registered as pending before generation starts; only the asynchronous modes store their data, without
  the step number of the whole batch.
\<close>

definition submit_batch_to_rollout :: "'s prompt_io \<Rightarrow> prompt_config \<Rightarrow> int \<Rightarrow> dict list \<Rightarrow> 's \<Rightarrow> 's \<times> nat result" where
  "submit_batch_to_rollout io c global_steps batch s =
     shell_bind (po_put_prompts io (map uid_in batch) (if pp_sync c then None else Some (map (\<lambda>row. dpop row ''global_steps'') batch))
                   (replicate (length batch) (pending_tag global_steps)) s) (\<lambda>_ s1.
     shell_bind (po_generate io batch s1) (\<lambda>_ s2. (s2, Inr (length batch))))"

definition add_prompts_to_generate :: "'s prompt_io \<Rightarrow> prompt_config \<Rightarrow> int \<Rightarrow> int \<Rightarrow> 's \<Rightarrow> 's \<times> nat result" where
  "add_prompts_to_generate io c global_steps num_prompts s =
     shell_bind (next_train_batch io c global_steps (Some num_prompts) s) (submit_batch_to_rollout io c global_steps)"

definition add_batch_to_generate :: "'s prompt_io \<Rightarrow> prompt_config \<Rightarrow> int \<Rightarrow> 's \<Rightarrow> 's \<times> unit result" where
  "add_batch_to_generate io c global_steps s =
     shell_bind (next_train_batch io c global_steps None s) (\<lambda>batch s1.
     shell_bind (submit_batch_to_rollout io c global_steps batch s1) (\<lambda>_ s2. (s2, Inr ())))"

subsection \<open>Configuration of the filter\<close>

record filter_config =
  fc_enable :: bool
  fc_metric :: string
  fc_reward_model_enable :: bool
  fc_reward_resource_pool :: bool
  fc_max_inflight_gen_batches :: int
  fc_sync_refill_failed_groups :: bool

definition resolve_filter_groups_metric :: "filter_config \<Rightarrow> string option result" where
  "resolve_filter_groups_metric c =
     (if \<not> fc_enable c then Inr None
      else if fc_metric c = [] then Inl (ValueError ''algorithm.filter_groups.metric must be set when group filtering is enabled'')
      else if \<not> (\<not> fc_reward_model_enable c \<or> fc_reward_resource_pool c)
      then Inl (AssertionError (''algorithm.filter_groups requires the reward metric at sampling time: use rule-based reward or '' @
             ''reward.reward_model.enable_resource_pool=True. A colocated reward model computes rewards only '' @ ''after replay-buffer sampling.''))
      else Inr (Some (fc_metric c)))"

text \<open>The options of the built-in buffer; exact refills need fetches of single prompts.\<close>

definition build_replay_buffer :: "filter_config \<Rightarrow> prompt_config \<Rightarrow> int \<Rightarrow> string \<Rightarrow> buffer_config result" where
  "build_replay_buffer fc pc threshold strategy =
     rbind (resolve_filter_groups_metric fc) (\<lambda>metric.
     (let c = \<lparr>bc_async = \<not> pp_sync pc, bc_max_off_policy_threshold = threshold, bc_max_off_policy_strategy = strategy, bc_has_refill = True,
               bc_filter_groups_metric = metric, bc_train_batch_size = pp_train_batch_size pc,
               bc_gen_batch_size = (if \<not> pp_sync pc then None
                  else Some (if metric \<noteq> None \<or> fc_sync_refill_failed_groups fc then 1 else gen_batch_size_of pc)),
               bc_max_inflight_gen_batches = (if pp_sync pc \<and> metric \<noteq> None then fc_max_inflight_gen_batches fc else 1),
               bc_sync_refill_failed_groups = fc_sync_refill_failed_groups fc\<rparr> in
      rbind (validate_buffer c) (\<lambda>_. Inr c)))"

definition exact_refill :: "filter_config \<Rightarrow> prompt_config \<Rightarrow> prompt_config" where
  "exact_refill fc pc =
     (if \<not> pp_sync pc \<or> fc_enable fc \<or> fc_sync_refill_failed_groups fc then pc\<lparr>pp_gen_batch_size := Some 1\<rparr> else pc)"

end
