(* ===== verification/BatchProps.thy ===== *)
theory BatchProps
  imports TrainBatch BalanceProps
begin

text \<open>
  The padded and distributed batch: it exists for every non-empty batch, its size suits the ranks and the mini
  batches, every real row occurs once, everything added is marked as padding, and no rank gets more work than another
  by more than a single row.
\<close>

subsection \<open>Padding\<close>

lemma shell_bind_step: "m = (s, Inr x) \<Longrightarrow> shell_bind m f = f x s"
  by (simp add: shell_bind_def)

lemma stack_same_values: "0 < n \<Longrightarrow> \<exists>c. stack_values (map (\<lambda>_. v) [0..<n]) = Inr c"
  by (cases v; cases n) (auto simp: stack_values_def all_tensors_def list_all_iff upt_conv_Cons simp del: upt_Suc)

lemma stack_plain_values: "0 < n \<Longrightarrow> \<exists>c. stack_values (map (\<lambda>i. FV (g i)) [0..<n]) = Inr c"
  by (cases n) (auto simp: stack_values_def all_tensors_def list_all_iff upt_conv_Cons simp del: upt_Suc)

lemma dget_pad_row:
  "dget (pad_row row i) k = (if k = ''session_id'' \<and> dhas row ''session_id'' then Some (FV (PInt (int i))) else dget row k)"
  by (simp add: pad_row_def)

lemma dset_fst: "fst ` set (dset d k v) = insert k (fst ` set d)"
  by (induction d) auto

lemma padding_rows_stack:
  assumes "0 < n"
  shows "\<exists>td. list_of_dict_to_tensordict (map (pad_row row) [0..<n]) = Inr td"
proof -
  have "\<exists>c. rbind (rmap (\<lambda>g. case dget g k of Some v \<Rightarrow> Inr v | None \<Rightarrow> Inl (KeyError k)) (map (pad_row row) [0..<n])) (\<lambda>vs.
      rbind (stack_values vs) (\<lambda>c. Inr (k, c))) = Inr c" if k: "dhas row k" for k
  proof -
    let ?v = "\<lambda>i. the (dget (pad_row row i) k)"
    have "dget (pad_row row i) k = Some (?v i)" for i using k by (auto simp: dget_pad_row dhas_def split: if_splits)
    then have "g \<in> set (map (pad_row row) [0..<n]) \<Longrightarrow>
        (case dget g k of Some v \<Rightarrow> Inr v | None \<Rightarrow> Inl (KeyError k)) = Inr (the (dget g k))" for g
      by (metis (no_types, lifting) imageE list.set_map option.case(2))
    from rmap_total [OF this]
    have "rmap (\<lambda>g. case dget g k of Some v \<Rightarrow> Inr v | None \<Rightarrow> Inl (KeyError k)) (map (pad_row row) [0..<n]) =
        Inr (map (\<lambda>g. the (dget g k)) (map (pad_row row) [0..<n]))" .
    moreover have "\<exists>c. stack_values (map ?v [0..<n]) = Inr c"
    proof (cases "k = ''session_id'' \<and> dhas row ''session_id''")
      case True
      then have "?v = (\<lambda>i. FV (PInt (int i)))" by (simp add: dget_pad_row fun_eq_iff)
      then show ?thesis using stack_plain_values [OF assms, of "\<lambda>i. PInt (int i)"] by simp
    next
      case False
      then have "?v = (\<lambda>_. the (dget row k))" by (auto simp: dget_pad_row fun_eq_iff)
      then show ?thesis using stack_same_values [OF assms] by simp
    qed
    ultimately show ?thesis by (auto simp: comp_def)
  qed
  moreover have "dhas row k" if "k \<in> fst ` set (pad_row row 0)" for k
    using that by (auto simp: pad_row_def dhas_def map_of_eq_None_iff dset_fst split: if_splits)
  ultimately have "\<forall>k \<in> set (map fst (pad_row row 0)). \<exists>c. (\<lambda>k. rbind (rmap (\<lambda>g. case dget g k of Some v \<Rightarrow> Inr v
      | None \<Rightarrow> Inl (KeyError k)) (map (pad_row row) [0..<n])) (\<lambda>vs. rbind (stack_values vs) (\<lambda>c. Inr (k, c)))) k = Inr c"
    by simp
  then obtain h where "rmap (\<lambda>k. rbind (rmap (\<lambda>g. case dget g k of Some v \<Rightarrow> Inr v
      | None \<Rightarrow> Inl (KeyError k)) (map (pad_row row) [0..<n])) (\<lambda>vs. rbind (stack_values vs) (\<lambda>c. Inr (k, c)))) (map fst (pad_row row 0))
      = Inr (map h (map fst (pad_row row 0)))"
    using rmap_total by (metis (no_types, lifting))
  moreover have "map (pad_row row) [0..<n] = pad_row row 0 # map (pad_row row) [1..<n]" using assms by (simp add: upt_conv_Cons)
  ultimately show ?thesis by (auto simp: list_of_dict_to_tensordict_def)
qed

lemma padding_tag: "dget (snd (construct_minimal_padding_template src tag eos)) ''is_padding'' = Some (PBool True)"
  "dget (snd (construct_minimal_padding_template src tag eos)) ''seq_len'' = Some (PInt 2)"
  by (simp_all add: construct_minimal_padding_template_def Let_def dupdate_def)

definition io_works :: "'s train_io \<Rightarrow> bool" where
  "io_works io \<longleftrightarrow> (\<forall>p k s. \<exists>s' row. ti_get_row io p k s = (s', Inr row)) \<and>
     (\<forall>p ks td tags s. \<exists>s'. ti_put_rows io p ks td tags s = (s', Inr ()))"

lemma upsample_run:
  assumes "io_works io" "0 < m" "kb_keys batch \<noteq> []" "length (kb_tags batch) = length (kb_keys batch)"
  shows "\<exists>s' ks ts. upsample_batch_to_divisible_size io batch m eos s =
      (s', Inr (batch\<lparr>kb_keys := kb_keys batch @ ks, kb_tags := kb_tags batch @ ts\<rparr>)) \<and>
    m dvd length (kb_keys batch @ ks) \<and> length ks < m \<and> length ts = length ks \<and>
    (\<forall>t \<in> set ts. dget t ''is_padding'' = Some (PBool True) \<and> dget t ''seq_len'' = Some (PInt 2))"
proof (cases "length (kb_keys batch) mod m = 0")
  case True
  then show ?thesis using assms(2)
    by (intro exI [of _ s] exI [of _ "[]"]) (simp add: upsample_batch_to_divisible_size_def mod_eq_0_iff_dvd)
next
  case False
  let ?n = "length (kb_keys batch)"
  let ?p = "m - ?n mod m"
  have p: "0 < ?p" "?p < m" using False assms(2) by simp_all
  have "(?n + ?p) mod m = (?n mod m + ?p) mod m" by (simp add: mod_add_left_eq)
  also have "?n mod m + ?p = m" using assms(2) by (simp add: less_imp_le)
  finally have "m dvd ?n + ?p" by (simp add: mod_eq_0_iff_dvd)
  moreover obtain s1 src where g: "ti_get_row io (kb_partition_id batch) (hd (kb_keys batch)) s = (s1, Inr src)"
    using assms(1) by (metis io_works_def)
  obtain s2 hex where u: "ti_uuid_hex io s1 = (s2, hex)" by (cases "ti_uuid_hex io s1")
  let ?t = "construct_minimal_padding_template src (hd (kb_tags batch)) eos"
  let ?ks = "map (pad_key (''pad'' @ hex)) [0..<?p]"
  obtain td where td: "list_of_dict_to_tensordict (map (pad_row (dset (fst ?t) ''uid'' (FV (PStr (''pad'' @ hex))))) [0..<?p]) = Inr td"
    using padding_rows_stack [OF p(1)] by blast
  obtain s3 where "ti_put_rows io (kb_partition_id batch) ?ks td (replicate ?p (snd ?t)) s2 = (s3, Inr ())"
    using assms(1) by (metis io_works_def)
  then have "append_padding io batch ?p ?t (''pad'' @ hex) s2 =
      (s3, Inr (batch\<lparr>kb_keys := kb_keys batch @ ?ks, kb_tags := kb_tags batch @ replicate ?p (snd ?t)\<rparr>))"
    unfolding append_padding_def Let_def td sum.case by (rule shell_bind_step)
  with g u False assms(2) have "upsample_batch_to_divisible_size io batch m eos s =
      (s3, Inr (batch\<lparr>kb_keys := kb_keys batch @ ?ks, kb_tags := kb_tags batch @ replicate ?p (snd ?t)\<rparr>))"
    by (simp add: upsample_batch_to_divisible_size_def shell_bind_step Let_def)
  ultimately show ?thesis using p
    by (intro exI [of _ s3] exI [of _ ?ks] exI [of _ "replicate ?p (snd ?t)"]) (simp add: padding_tag)
qed

subsection \<open>Distribution\<close>

lemma chunks_equal_parts:
  assumes "0 < q" "\<forall>p \<in> set parts. length p = q"
  shows "chunks q (concat parts) = parts"
  using assms(2)
proof (induction parts)
  case Nil
  then show ?case by (simp add: chunks.simps)
next
  case (Cons p parts)
  have ne: "p \<noteq> []" using Cons.prems assms(1) by auto
  show ?case using Cons ne assms(1) by (subst chunks.simps) simp
qed

lemma reorder_pairs:
  assumes "mset idxs = mset [0..<length (kb_keys b)]" "length (kb_tags b) = length (kb_keys b)"
  shows "mset (zip (kb_keys (reorder b idxs)) (kb_tags (reorder b idxs))) = mset (zip (kb_keys b) (kb_tags b))"
    "length (kb_keys (reorder b idxs)) = length (kb_keys b)"
proof -
  have len: "length idxs = length (kb_keys b)" using assms(1) by (metis diff_zero length_upt size_mset)
  then show "length (kb_keys (reorder b idxs)) = length (kb_keys b)" by (simp add: reorder_def)
  have "set idxs = {0..<length (kb_keys b)}" using assms(1) by (metis atLeastLessThan_upt set_mset_mset)
  then have "zip (kb_keys (reorder b idxs)) (kb_tags (reorder b idxs)) = map ((!) (zip (kb_keys b) (kb_tags b))) idxs"
    using assms(2) by (auto simp: reorder_def zip_map_map zip_same_conv_map)
  also have "mset \<dots> = mset (map ((!) (zip (kb_keys b) (kb_tags b))) [0..<length (zip (kb_keys b) (kb_tags b))])"
    using assms by (simp add: mset_map del: mset_upt)
  finally show "mset (zip (kb_keys (reorder b idxs)) (kb_tags (reorder b idxs))) = mset (zip (kb_keys b) (kb_tags b))"
    by (simp only: map_nth)
qed

text \<open>The work of every row, as its tag states it.\<close>

definition work :: "dict \<Rightarrow> int" where
  "work tag = (case dget tag ''seq_len'' of Some (PInt i) \<Rightarrow> calculate_workload i | _ \<Rightarrow> 0)"

definition sized :: "dict \<Rightarrow> bool" where
  "sized tag \<longleftrightarrow> (\<exists>i. dget tag ''seq_len'' = Some (PInt i) \<and> 0 \<le> i \<and> i < 2 ^ 31)"

lemma sized_run: "sized tag \<Longrightarrow> \<exists>i. seq_len_of tag = Inr i \<and> work tag = calculate_workload i \<and> 0 \<le> work tag"
  by (auto simp: sized_def seq_len_of_def dict_item_def py_int_def fits_int64_def work_def calculate_workload_def)

lemma log_unbalance_total:
  assumes "length parts \<noteq> 0" "length lens div length parts \<noteq> 0" "\<And>p i. p \<in> set parts \<Longrightarrow> i \<in> set p \<Longrightarrow> i < length lens"
  shows "\<exists>stats. log_seqlen_unbalance lens parts = Inr stats"
proof -
  have "\<not> (\<exists>p \<in> set parts. \<exists>i \<in> set p. length lens \<le> i)" using assms(3) by fastforce
  then show ?thesis unfolding log_seqlen_unbalance_def Let_def if_not_P [OF assms(1)] if_not_P [OF assms(2)]
    by (simp only: if_False) blast
qed

lemma distribute_run:
  assumes b: "length (kb_tags b) = length (kb_keys b)" "kb_keys b \<noteq> []" and dp: "0 < dp" "dp dvd length (kb_keys b)"
    and tags: "\<forall>t \<in> set (kb_tags b). sized t"
  shows "\<exists>b' stats q. distribute dp b = Inr (b', stats) \<and> length (kb_keys b') = length (kb_keys b) \<and> length (kb_keys b) = q * dp \<and>
    mset (zip (kb_keys b') (kb_tags b')) = mset (zip (kb_keys b) (kb_tags b)) \<and>
    length (chunks q (kb_tags b')) = dp \<and>
    (\<forall>r \<in> set (chunks q (kb_tags b')). \<forall>r' \<in> set (chunks q (kb_tags b')).
       sum_list (map work r) - sum_list (map work r') \<le> Max (set (map work (kb_tags b))))"
proof -
  let ?len = "\<lambda>t. projr (seq_len_of t)"
  have "seq_len_of t = Inr (?len t)" if "t \<in> set (kb_tags b)" for t
    using sized_run tags that by (metis sum.sel(2))
  then have lens: "rmap seq_len_of (kb_tags b) = Inr (map ?len (kb_tags b))" by (rule rmap_total)
  let ?w = "map calculate_workload (map ?len (kb_tags b))"
  have w: "?w = map work (kb_tags b)" using sized_run tags by (auto simp: list.map_comp comp_def) (metis sum.sel(2))
  have nn: "\<forall>x \<in> set ?w. 0 \<le> x" unfolding w using sized_run tags by fastforce
  have le: "dp \<le> length ?w" "dp dvd length ?w" using dp b by (auto intro: dvd_imp_le)
  from balanced_run [OF dp(1) le(1) _ nn, of True] le(2)
  obtain parts where p: "get_seqlen_balanced_partitions ?w dp True = Inr parts" "length parts = dp"
      "mset (concat parts) = mset [0..<length ?w]" "\<forall>p \<in> set parts. length p * dp = length ?w"
      "\<forall>p \<in> set parts. \<forall>p' \<in> set parts. part_sum ?w p - part_sum ?w p' \<le> Max (set ?w)"
    by blast
  have idx: "set (concat parts) = {0..<length ?w}" using p(3) by (metis atLeastLessThan_upt set_mset_mset)
  obtain q where q: "length ?w = q * dp" using le(2) by (metis dvd_def mult.commute)
  have q0: "0 < q" using q b by (cases q) auto
  have parts_q: "\<forall>p \<in> set parts. length p = q" using p(4) q dp(1) by simp
  have "i < length (map ?len (kb_tags b))" if "p \<in> set parts" "i \<in> set p" for p i
  proof -
    have "i \<in> set (concat parts)" using that by auto
    then have "i \<in> {0..<length ?w}" unfolding idx .
    then show ?thesis by simp
  qed
  then obtain stats where "log_seqlen_unbalance (map ?len (kb_tags b)) parts = Inr stats"
    using log_unbalance_total [of parts "map ?len (kb_tags b)"] p(2) dp(1) q q0 by (metis div_mult_self_is_m length_map less_numeral_extra(3))
  then have run: "distribute dp b = Inr (reorder b (concat parts), stats)" using lens p(1) by (simp add: distribute_def)
  have tags': "kb_tags (reorder b (concat parts)) = concat (map (map ((!) (kb_tags b))) parts)"
    by (simp add: reorder_def map_concat)
  have cut: "chunks q (kb_tags (reorder b (concat parts))) = map (map ((!) (kb_tags b))) parts"
    unfolding tags' by (rule chunks_equal_parts [OF q0]) (use parts_q in auto)
  have sum: "sum_list (map work (map ((!) (kb_tags b)) p)) = part_sum ?w p" if "p \<in> set parts" for p
  proof -
    have "i < length (kb_tags b)" if "i \<in> set p" for i
    proof -
      have "i \<in> set (concat parts)" using that \<open>p \<in> set parts\<close> by auto
      then have "i \<in> {0..<length ?w}" unfolding idx .
      then show ?thesis by simp
    qed
    then show ?thesis unfolding w part_sum_def by (simp cong: map_cong)
  qed
  have "\<forall>r \<in> set (map (map ((!) (kb_tags b))) parts). \<forall>r' \<in> set (map (map ((!) (kb_tags b))) parts).
       sum_list (map work r) - sum_list (map work r') \<le> Max (set (map work (kb_tags b)))"
    using p(5) sum w by auto
  then show ?thesis unfolding cut [symmetric] using run reorder_pairs [of "concat parts" b] p(2,3) q b cut
    by (intro exI [of _ "reorder b (concat parts)"] exI [of _ stats] exI [of _ q]) auto
qed

text \<open>
  C29: balancing a batch never fails and never loses a row: whatever the number of trajectories sampled, the batch that is
  trained on has a size that the ranks and the mini batches of the actor and the critic divide, it holds every
  sampled row with its tag once and beside them fewer than one multiple of rows, all tagged as padding; and
  of the equal slices that the dispatch cuts for the ranks no one exceeds another by more than one row's work.
\<close>

theorem balance_batch_total:
  assumes "io_works io" "kb_keys batch \<noteq> []" "length (kb_tags batch) = length (kb_keys batch)"
    and "0 < dp" "0 < bt_rollout_n c" "0 < bt_actor_mini_batch_size c" "0 < bt_critic_mini_batch_size c"
    and "\<forall>t \<in> set (kb_tags batch). sized t"
  shows "\<exists>s' b stats pads q. balance_batch io c steps dp eos batch s = (s', Inr (b, stats)) \<and>
    mset (zip (kb_keys b) (kb_tags b)) = mset (zip (kb_keys batch) (kb_tags batch)) + mset pads \<and>
    length pads < get_required_batch_multiple c steps dp \<and>
    (\<forall>(k, t) \<in> set pads. dget t ''is_padding'' = Some (PBool True)) \<and>
    length (kb_keys b) = q * dp \<and>
    (bt_use_critic c \<longrightarrow> bt_critic_mini_batch_size c * bt_rollout_n c dvd length (kb_keys b)) \<and>
    (bt_critic_warmup c \<le> steps \<longrightarrow> bt_actor_mini_batch_size c * bt_rollout_n c dvd length (kb_keys b)) \<and>
    length (chunks q (kb_tags b)) = dp \<and>
    (\<forall>r \<in> set (chunks q (kb_tags b)). \<forall>r' \<in> set (chunks q (kb_tags b)).
       sum_list (map work r) - sum_list (map work r') \<le> Max (set (map work (kb_tags b))))"
proof -
  let ?m = "get_required_batch_multiple c steps dp"
  have m: "0 < ?m" "dp dvd ?m" "bt_use_critic c \<Longrightarrow> bt_critic_mini_batch_size c * bt_rollout_n c dvd ?m"
      "bt_critic_warmup c \<le> steps \<Longrightarrow> bt_actor_mini_batch_size c * bt_rollout_n c dvd ?m"
    using assms(4-7) by (auto simp: get_required_batch_multiple_def Let_def lcm_pos_nat intro: dvd_lcmI1 dvd_lcmI2)
  obtain s' ks ts where up: "upsample_batch_to_divisible_size io batch ?m eos s =
        (s', Inr (batch\<lparr>kb_keys := kb_keys batch @ ks, kb_tags := kb_tags batch @ ts\<rparr>))"
      and k: "?m dvd length (kb_keys batch @ ks)" "length ks < ?m" "length ts = length ks"
      and t: "\<forall>t \<in> set ts. dget t ''is_padding'' = Some (PBool True) \<and> dget t ''seq_len'' = Some (PInt 2)"
    using upsample_run [OF assms(1) m(1) assms(2,3), of eos s] by blast
  let ?b = "batch\<lparr>kb_keys := kb_keys batch @ ks, kb_tags := kb_tags batch @ ts\<rparr>"
  have "\<forall>t \<in> set (kb_tags ?b). sized t" using assms(8) t by (auto simp: sized_def)
  moreover have "dp dvd length (kb_keys ?b)" using m(2) k(1) by (simp add: dvd_trans)
  ultimately obtain b' stats q where d: "distribute dp ?b = Inr (b', stats)" "length (kb_keys b') = length (kb_keys ?b)"
      "length (kb_keys ?b) = q * dp" "mset (zip (kb_keys b') (kb_tags b')) = mset (zip (kb_keys ?b) (kb_tags ?b))"
      "length (chunks q (kb_tags b')) = dp"
      "\<forall>r \<in> set (chunks q (kb_tags b')). \<forall>r' \<in> set (chunks q (kb_tags b')).
         sum_list (map work r) - sum_list (map work r') \<le> Max (set (map work (kb_tags ?b)))"
    using distribute_run [of ?b dp] assms(2-4) k(3) by auto
  have "length (kb_tags b') = length (kb_keys b')" using d(1) by (auto simp: distribute_def reorder_def err_simps)
  then have "image_mset snd (mset (zip (kb_keys b') (kb_tags b'))) = mset (kb_tags b')" by (simp flip: mset_map)
  moreover have "image_mset snd (mset (zip (kb_keys ?b) (kb_tags ?b))) = mset (kb_tags ?b)" using k(3) assms(3) by (simp flip: mset_map)
  ultimately have "mset (kb_tags b') = mset (kb_tags ?b)" using d(4) by simp
  then have same: "set (map work (kb_tags b')) = set (map work (kb_tags ?b))" by (metis list.set_map set_mset_mset)
  have "balance_batch io c steps dp eos batch s = (s', Inr (b', stats))"
    unfolding balance_batch_def shell_bind_step [OF up] d(1) ..
  moreover have "mset (zip (kb_keys b') (kb_tags b')) = mset (zip (kb_keys batch) (kb_tags batch)) + mset (zip ks ts)"
    using d(4) assms(3) k(3) by (simp add: zip_append)
  moreover have "\<forall>(k, t) \<in> set (zip ks ts). dget t ''is_padding'' = Some (PBool True)" using t by (auto dest: set_zip_rightD)
  moreover note d(6) [folded same]
  ultimately show ?thesis using d(2,3,5) k m(3,4)
    by (intro exI [of _ s'] exI [of _ b'] exI [of _ stats] exI [of _ "zip ks ts"] exI [of _ q]) (auto intro: dvd_trans)
qed

definition still_io :: "unit train_io" where
  "still_io = \<lparr>ti_get_row = (\<lambda>_ _ s. (s, Inr [(''session_id'', FV (PInt 0))])), ti_put_rows = (\<lambda>_ _ _ _ s. (s, Inr ())),
     ti_uuid_hex = (\<lambda>s. (s, ''0f''))\<rparr>"

definition three_rows :: kv_batch where
  "three_rows = \<lparr>kb_partition_id = ''train'', kb_keys = [''a_0_0'', ''a_1_0'', ''b_0_0''],
     kb_tags = map (\<lambda>n. [(''seq_len'', PInt n)]) [40, 7, 12]\<rparr>"

definition small_batches :: batch_config where
  "small_batches = \<lparr>bt_use_critic = False, bt_critic_mini_batch_size = 1, bt_actor_mini_batch_size = 2, bt_rollout_n = 2,
     bt_critic_warmup = 0\<rparr>"

theorem balance_batch_total_witness:
  "\<exists>s' b stats. balance_batch still_io small_batches 1 2 0 three_rows () = (s', Inr (b, stats)) \<and> 4 dvd length (kb_keys b)"
proof -
  have "io_works still_io" by (simp add: io_works_def still_io_def)
  moreover have "\<forall>t \<in> set (kb_tags three_rows). sized t" by (simp add: three_rows_def sized_def)
  ultimately show ?thesis
    using balance_batch_total [of still_io three_rows 2 small_batches 1 0 "()"] by (auto simp: three_rows_def small_batches_def)
qed

end
