(* ===== verification/Spec2Isabelle.thy ===== *)
theory Spec2Isabelle
  imports SessionProps HashProps SelectProps LifeProps AdapterProps GatewayProps Manager FieldProps Lease Limiter EditProps
    ReActProps TaskProps SandboxProps HotpotProps MemProps ShellProps LogProps TerminalProps SweProps Docker
    ClaudeProps MiniSweProps ProviderProps VefaasProps
    AdvProps LossProps BalanceProps ReplayMore TrainProps BatchProps
begin

text \<open>
  Uni-Agent: a verification library for the Python package \<open>src/uni_agent\<close>.

  \<^bold>\<open>The program.\<close>  A trainer asks the rollout framework (\<open>framework/framework.py\<close>) for a batch of
  prompts.  For each session of a prompt the framework leases a session of the gateway
  (\<open>gateway/manager.py\<close> routes it to one of several gateway actors, \<open>gateway/gateway.py\<close>) and starts a
  runner, usually \<open>framework/task_runner.py\<close>, which composes a task configuration
  (\<open>tasks/config.py\<close>), builds the task from the registry and runs it.  The task starts a sandbox
  (\<open>sandbox/base.py\<close>) and an agent (\<open>agents/react\<close>, \<open>agents/mem_agent\<close>), whose tools (\<open>tools/\<close>) act
  in the sandbox.  The agent talks to the model over HTTP: its requests reach the gateway, which lowers
  the OpenAI or Anthropic protocol (\<open>gateway/adapters\<close>) to one internal form and hands them to the
  session (\<open>gateway/session/session.py\<close>).  The session recognises which of its token chains a request
  continues, encodes the new messages, calls the back end and records the tokens.  The task posts its
  reward to the session; when the session is finalized its chains become trajectories, which the
  framework scores, selects, turns into tensors (with the helpers of \<open>verl/verl/utils\<close>) and writes to
  the training queue.

  \<^bold>\<open>Conventions.\<close>  \<open>Prelude\<close> holds the Python values (\<open>pv\<close>; a dict is an association list in insertion
  order), the exceptions, the result type \<open>exn + 'a\<close>, JSON dumping, \<open>repr\<close>, UTF-8 and string methods;
  \<open>PyText\<close> the conversions \<open>int\<close> and \<open>float\<close> and attribute errors; \<open>PyLines\<close> splitting and replacing;
  \<open>Transport\<close> base64 on bytes as \<open>8 word\<close> and shell quoting.  Floats are rationals: their rounding is
  not modelled, and their text is a parameter.  An \<open>async\<close> operation is a function on an explicit state
  or, where several can interleave, a step of a relation whose granularity is the code's locks and
  awaits.  What is not under \<open>src/\<close> (tokenizer, parsers, inference back end, HTTP client, Ray,
  TransferQueue, YAML, vendor SDKs) is an argument: a record of functions, often over a world \<open>'s\<close> that
  their calls may change.

  \<^bold>\<open>Sessions.\<close>  \<open>Codec\<close> models \<open>session/codec.py\<close> (decoding, tool calls, media), \<open>Session\<close> the chains,
  the hashes, the selection, rollback, encoding and materialization of \<open>session/session.py\<close>,
  \<open>Generation\<close> its operations (begin and finish of a generation, failure, finalize, abort, reward),
  and the step relation \<open>gstep\<close> of the requests in flight.  \<open>Selection\<close> states the choice of a chain as
  a specification and proves \<open>select_chain\<close> equal to it.  \<open>SessionInv\<close>, \<open>SessionSafe\<close>,
  \<open>SessionSteps\<close>, \<open>SessionReach\<close> and \<open>SessionLife\<close> carry the invariant through every operation and
  step; \<open>SessionDemo\<close> has the concrete sessions of the witnesses.  \<open>SessionProps\<close>, \<open>HashProps\<close>,
  \<open>SelectProps\<close> and \<open>LifeProps\<close> hold the properties: no two requests generate on one chain, tokens,
  masks and log probabilities stay aligned, a continuation extends its chain token by token, a rollback
  removes exactly the last assistant turn, the capacity is respected, a failed request leaves nothing
  reserved, a closed session does not change, the prefix hash identifies the canonical history.

  \<^bold>\<open>Gateway.\<close>  \<open>OpenAI\<close> and \<open>Anthropic\<close> model the adapters, \<open>AdapterProps\<close> shows that lowered requests
  are well formed and that a stream carries the same message as the plain response.  \<open>Gateway\<close> models the
  actor and its routes (steps \<open>astep\<close>), \<open>GatewayProps\<close> isolation and finalization.  \<open>Manager\<close> models the
  routing table with each operation cut at its remote call (steps \<open>mstep\<close>) and shows that the loads count
  the routes, that a burst is balanced, and that a duplicate create orphans a session.

  \<^bold>\<open>Framework.\<close>  \<open>TqFields\<close> models the tensors of a trajectory, \<open>Rollout\<close> the sessions of a prompt, the
  scoring, the writes and their accounting.  \<open>FieldProps\<close> and \<open>RolloutProps\<close> show alignment of the
  fields and that every session of a batch is counted once; \<open>Lease\<close> that the bracket gives every lease
  back (and loses it on cancellation); \<open>Limiter\<close> that the running runners stay within the cap as long as
  the event loop is not swapped.  The locale \<open>session_pool\<close> states what the bracket needs of
  the manager and is interpreted on it; \<open>invariant_system\<close> (reachable states keep an invariant) is
  interpreted on the steps of the session, the actor, the manager, the limiter and the log writer, \<open>keyed_store\<close> on the
  dicts of \<open>Prelude\<close>.

  \<^bold>\<open>Tasks, agents, tools.\<close>  \<open>TaskConfig\<close> models the composition of configurations, the registries and
  \<open>run_task\<close>; \<open>TaskProps\<close> shows the precedence of the three sources and follows a reward from the
  task through the gateway to the scored trajectories.  \<open>Tools\<close> models the tool box and its error
  mapping, \<open>EditTool\<close> the edit tool on a file tree, \<open>Shell\<close> the shell sessions, whose wait loop is a
  \<open>partial_function\<close>; \<open>EditProps\<close> and \<open>ShellProps\<close> hold when an edit happens, that undo restores, and
  that a command run returns even if its exit code never appears.  \<open>ReAct\<close> and \<open>MemAgent\<close> model the
  agents; \<open>ReActProps\<close> and \<open>MemProps\<close> show that every tool call is answered once, that the loop stays
  within its budgets, and which contexts the memory agent builds.  \<open>Hotpot\<close> and \<open>HotpotProps\<close> relate the
  score to the length of a longest common subsequence.  \<open>Sandbox\<close> and \<open>SandboxProps\<close> model start-up with
  retries, the bracket and file transfer: what is written is read back.

  \<^bold>\<open>Sandbox providers.\<close>  The locale \<open>container_life\<close> of \<open>Lifecycle\<close> is the contract between a provider and
  the bracket of the base class: a start that raises leaves nothing the provider does not own, and a stop
  removes what it owns; its consequence is that the bracket leaves nothing behind.  It is interpreted on
  \<open>Docker\<close> (\<open>sandbox/docker.py\<close>), on the local, Modal, CubeSandbox and openYuanrong providers of
  \<open>Providers\<close>, and on \<open>Vefaas\<close>, whose polling, retries and reported timeouts are modelled.  The vendor
  SDKs are records of functions; what \<open>ProviderProps\<close> and \<open>VefaasProps\<close> assume of them is that a create
  adds one machine and that a kill which returns removes it.

  \<^bold>\<open>External agents.\<close>  \<open>ClaudeCode\<close> models the driver of the Claude Code program: installation,
  environment, arguments, and the reply; \<open>ClaudeProps\<close> composes it with the gateway's routes and shows that
  the program's requests reach the session of its own rollout.  \<open>MiniSwe\<close> models the adapter of
  mini-swe-agent with its model class and the polling of the agent's thread; \<open>MiniSweProps\<close> shows that the
  timing statistics stay aligned with the messages and that a run returns although its thread hangs.

  \<^bold>\<open>Scored tasks.\<close>  \<open>Terminal\<close> models Terminal-Bench (\<open>tasks/terminal_bench\<close>): the verifier with its reward
  files, the sandbox configuration and the life cycle; \<open>TerminalProps\<close> shows that a reward file planted
  by the agent is worth nothing and that an agent that fails is still scored.  \<open>SweBench\<close> models the three
  software engineering tasks (\<open>tasks/swe_bench\<close>, \<open>tasks/swe_bench_multilingual\<close>, \<open>tasks/swe_rebench\<close>) over
  the package \<open>swebench\<close>: evaluation scripts, log parsers, grading, rewards; \<open>SweProps\<close> shows what a status
  map contains, when the two pytest parsers agree, and when an SWE-rebench sample earns its reward.

  \<^bold>\<open>Logging.\<close>  \<open>LogDispatch\<close> models the root handler of \<open>logging/\<close> with its queue and its writer thread
  (steps \<open>dstep\<close>: the calls of any number of threads, the writer, forks, the shutdown) and the block that
  binds a log id.  \<open>LogProps\<close> interprets \<open>invariant_system\<close> on it and shows that a line ends in a file of
  its own log id or nowhere and that stopping the writer loses nothing that was accepted.

  \<^bold>\<open>Training.\<close>  Of the vendored trainer \<open>src/verl\<close> the parts that turn rewards into updates are
  modelled over rationals, with roots, exponentials and logarithms as parameters.  \<open>Tensor\<close> has the
  masked statistics (\<open>utils/torch_functional.py\<close>) and the grouping by prompt, \<open>Advantages\<close> the estimators of
  \<open>trainer/ppo/core_algos.py\<close> with their registries and \<open>utils/groupwise.py\<close>; \<open>AdvProps\<close> shows that
  the advantage estimation skips the observations between the model's tokens, that the vectorized RLOO and GRPO
  agree with the loops, and that RLOO leaves one out.  \<open>PolicyLoss\<close> has the aggregation over a batch, the
  policy losses, the value loss and the KL penalties; \<open>LossProps\<close> shows that the aggregate does not depend on how
  the batch is spread over ranks and bounds what one token contributes.  \<open>Balance\<close> models \<open>utils/seqlen_balancing.py\<close>;
  its sets are an instance of \<open>linorder\<close> by the code's comparison.  \<open>BalanceProps\<close> shows that the balanced
  partition exists, covers every index once and is within one item of even, and that a batch cut into
  micro-batches is restored in order.

  \<^bold>\<open>The training loop.\<close>  \<open>Replay\<close> models \<open>trainer/ppo/v1/replay_buffer.py\<close>: the snapshot of the queue,
  eviction of stale, filtered and failed groups, their refill, and the samplers of both modes as partial functions over
  the queue.  \<open>ReplayProps\<close> shows that a batch consists of whole groups of one listing, that the asynchronous
  sampler takes fresh groups oldest first, and that filtering leaves the synchronous one always something to wait for;
  \<open>ReplayMore\<close> that the merged staleness is exact, and, composed with \<open>Rollout\<close>, that a prompt the framework wrote is
  sampled with all its trajectories or not at all.  \<open>TrainStep\<close> has \<open>compute_advantage\<close> and
  \<open>apply_kl_penalty\<close> of \<open>trainer/ppo/ray_trainer.py\<close>, the advantages of sessions with several trajectories and the
  metrics of a cycle (\<open>trainer/ppo/v1/utils.py\<close>); \<open>TrainProps\<close> shows that a session shares the advantage of its final
  trajectory, that padding rows change neither the loss nor the advantages of the others, and that the staleness of a cycle
  is exact.  \<open>TrainBatch\<close> has the padding (\<open>trainer/ppo/padding_utils.py\<close>), the distribution over the ranks and
  the fetching and submission of prompts (\<open>trainer/ppo/v1/trainer_base.py\<close>); \<open>BatchProps\<close> shows that the padded batch
  always exists, suits the ranks and mini batches, loses no row and is evenly spread.

  \<^bold>\<open>Bounds and fuel.\<close>  No definition runs on fuel.  Loops are structural, carry a termination proof, or
  are partial functions: for the waits the totality is proved under a clock that moves; the samplers wait for other
  processes without a limit, and what is proved of them is that they never wait for nothing.  Counters the code keeps as
  Python integers are \<open>nat\<close> or \<open>int\<close>; bytes are words.

  \<^bold>\<open>Not modelled.\<close>  The programs behind the external agents and the vendor SDKs are not under \<open>src/\<close>;
  \<open>agents/mini_swe_agent\<close> is a stub and \<open>agents/registry_backup.py\<close> an unused copy.  The entry points and
  the preprocessing scripts are wiring and offline conversion; \<open>src/verl\<close> is a vendored copy of the
  training library: the helpers the framework calls, the estimators, losses and balancing and the sampling of batches are
  here; the optimal token baselines, GDPO, the rollout correction, the engines, workers, checkpoints and recipes, which are programs on
  torch, FSDP, Megatron and Ray, are not.  Of the logging, the patterns
  of \<open>redaction.py\<close> are a parameter.  Not modelled either are the tar format and the start-up semaphore
  of the sandbox, the metrics the framework logs, and the wire format of server-sent events.
\<close>

end
